(* ===== verification/GoPrelude.thy ===== *)
theory GoPrelude
  imports Main "HOL-Library.Sublist" "HOL-Library.Char_ord" "HOL-Library.List_Lexorder"
    "HOL-Library.AList" "HOL-Library.State_Monad"
begin

text \<open>
  The prelude of the development: the pieces of the Go language and of its standard
  library that the components share, and the lemmas about them.

  A Go \<open>string\<close> is a byte sequence, here a \<^typ>\<open>string\<close> (a list of 8-bit characters).
  A Go error is a \<^typ>\<open>string\<close> or a datatype of the component; a result pair
  \<open>(T, error)\<close> is a sum, with \<open>Inl\<close> for the error. A Go \<open>map\<close> with an observable
  iteration order is an association list in the order in which a \<open>range\<close> loop visits it.
  The collection \<open>go_simps\<close> holds the evaluation rules that the component proofs use.
\<close>

named_theorems go_simps \<open>evaluation rules of the Go string and map operations\<close>

type_synonym go_error = string

section \<open>Strings\<close>

definition ascii_lower :: "char \<Rightarrow> char" where
  "ascii_lower c =
     (if (65::nat) \<le> of_char c \<and> (of_char c :: nat) \<le> 90 then char_of ((of_char c :: nat) + 32) else c)"

definition to_lower :: "string \<Rightarrow> string" where
  "to_lower s = map ascii_lower s"

definition is_lower :: "char \<Rightarrow> bool" where
  "is_lower c \<longleftrightarrow> (97::nat) \<le> of_char c \<and> (of_char c :: nat) \<le> 122"

definition is_upper :: "char \<Rightarrow> bool" where
  "is_upper c \<longleftrightarrow> (65::nat) \<le> of_char c \<and> (of_char c :: nat) \<le> 90"

definition is_digit :: "char \<Rightarrow> bool" where
  "is_digit c \<longleftrightarrow> (48::nat) \<le> of_char c \<and> (of_char c :: nat) \<le> 57"

text \<open>\<open>str_cut sep s\<close>: the text before and after the first occurrence of \<open>sep\<close> in \<open>s\<close>.\<close>

fun str_cut :: "string \<Rightarrow> string \<Rightarrow> (string \<times> string) option" where
  "str_cut sep [] = (if sep = [] then Some ([], []) else None)"
| "str_cut sep (c # cs) =
     (if prefix sep (c # cs) then Some ([], drop (length sep) (c # cs))
      else map_option (apfst (Cons c)) (str_cut sep cs))"

text \<open>\<open>strings.Contains\<close>, \<open>strings.HasPrefix\<close>, \<open>strings.TrimPrefix\<close>, \<open>strings.Join\<close>,
  \<open>strings.Split\<close> on a one-byte separator and \<open>strings.SplitN(s, sep, 2)\<close>.\<close>

definition contains :: "string \<Rightarrow> string \<Rightarrow> bool" where
  "contains s sep \<longleftrightarrow> str_cut sep s \<noteq> None"

definition has_prefix :: "string \<Rightarrow> string \<Rightarrow> bool" where
  "has_prefix s p \<longleftrightarrow> prefix p s"

definition trim_prefix :: "string \<Rightarrow> string \<Rightarrow> string" where
  "trim_prefix s p = (if prefix p s then drop (length p) s else s)"

fun join :: "string \<Rightarrow> string list \<Rightarrow> string" where
  "join sep [] = []"
| "join sep [s] = s"
| "join sep (s # t # ss) = s @ sep @ join sep (t # ss)"

fun split_at :: "char \<Rightarrow> string \<Rightarrow> string list" where
  "split_at d [] = [[]]"
| "split_at d (c # cs) =
     (if c = d then [] # split_at d cs
      else (case split_at d cs of [] \<Rightarrow> [[c]] | s # ss \<Rightarrow> (c # s) # ss))"

definition splitN2 :: "string \<Rightarrow> string \<Rightarrow> string list" where
  "splitN2 s sep = (case str_cut sep s of None \<Rightarrow> [s] | Some (a, b) \<Rightarrow> [a, b])"

text \<open>The \<open>%d\<close> verb.\<close>

definition digit_char :: "nat \<Rightarrow> char" where "digit_char d = char_of (48 + d)"

fun show_nat :: "nat \<Rightarrow> string" where
  "show_nat n = (if n < 10 then [digit_char n] else show_nat (n div 10) @ [digit_char (n mod 10)])"

declare show_nat.simps [simp del]

definition show_int :: "int \<Rightarrow> string" where
  "show_int i = (if i < 0 then ''-'' @ show_nat (nat (- i)) else show_nat (nat i))"

text \<open>The \<open>%q\<close> verb of \<open>fmt\<close>; bytes outside ASCII are kept, as they are for printable text.\<close>

definition hex_digit :: "nat \<Rightarrow> char" where
  "hex_digit n = (if n < 10 then char_of (48 + n) else char_of (87 + n))"

definition quote_char :: "char \<Rightarrow> string" where
  "quote_char c =
     (if c = CHR 0x22 \<or> c = CHR 0x5C then [CHR 0x5C, c]
      else case map_of (zip [7, 8, 12, 10, 13, 9, 11 :: nat] ''abfnrtv'') (of_char c) of
             Some l \<Rightarrow> [CHR 0x5C, l]
           | None \<Rightarrow>
               if (of_char c :: nat) < 32 \<or> (of_char c :: nat) = 127
               then [CHR 0x5C, CHR ''x'', hex_digit (of_char c div 16), hex_digit (of_char c mod 16)]
               else [c])"

definition go_quote :: "string \<Rightarrow> string" where
  "go_quote s = CHR 0x22 # concat (map quote_char s) @ [CHR 0x22]"

lemma str_cut_Some: "str_cut sep s = Some (a, b) \<Longrightarrow> s = a @ sep @ b"
proof (induction s arbitrary: a)
  case Nil
  then show ?case by (auto split: if_splits)
next
  case (Cons c cs)
  show ?case
  proof (cases "prefix sep (c # cs)")
    case True
    then obtain r where "c # cs = sep @ r" by (auto simp: prefix_def)
    moreover from Cons.prems True have "a = []" "b = drop (length sep) (c # cs)" by auto
    ultimately show ?thesis by simp
  next
    case False
    with Cons.prems obtain a' where "a = c # a'" "str_cut sep cs = Some (a', b)" by auto
    with Cons.IH show ?thesis by simp
  qed
qed

lemma contains_iff_sublist: "contains s sep \<longleftrightarrow> sublist sep s"
proof (induction s)
  case Nil
  then show ?case by (simp add: contains_def)
next
  case (Cons c cs)
  then show ?case by (auto simp: contains_def sublist_Cons_right)
qed

lemma str_cut_None_iff: "str_cut sep s = None \<longleftrightarrow> \<not> sublist sep s"
  using contains_iff_sublist [of s sep] unfolding contains_def by blast

lemma str_cut_absent: "hd sep \<notin> set s \<Longrightarrow> sep \<noteq> [] \<Longrightarrow> str_cut sep s = None"
  by (auto simp: str_cut_None_iff sublist_def)

lemma str_cut_at_first:
  assumes "hd sep \<notin> set a" and "sep \<noteq> []"
  shows "str_cut sep (a @ sep @ b) = Some (a, b)"
  using assms
proof (induction a)
  case Nil
  then show ?case by (cases sep) auto
next
  case (Cons c a)
  then have "\<not> prefix sep (c # a @ sep @ b)" by (cases sep) auto
  with Cons show ?case by simp
qed

lemma str_cut_single_absent [go_simps]: "c \<notin> set s \<Longrightarrow> str_cut [c] s = None"
  by (rule str_cut_absent) auto

lemma split_at_not_Nil [simp]: "split_at d s \<noteq> []"
  by (induction s) (auto split: list.splits)

lemma split_at_join:
  "join [d] (split_at d s) = s"
proof (induction s)
  case (Cons c cs)
  obtain t ts where "split_at d cs = t # ts" by (cases "split_at d cs") auto
  with Cons show ?case by (cases ts) auto
qed simp

lemma split_at_no_sep: "d \<notin> set s \<Longrightarrow> split_at d s = [s]"
  by (induction s) auto

lemma split_at_append:
  "d \<notin> set a \<Longrightarrow> split_at d (a @ d # b) = a # split_at d b"
  by (induction a) auto

lemma join_split_at:
  "ss \<noteq> [] \<Longrightarrow> \<forall>s \<in> set ss. d \<notin> set s \<Longrightarrow> split_at d (join [d] ss) = ss"
proof (induction ss rule: induct_list012)
  case (3 s t ss)
  then show ?case by (simp add: split_at_append)
qed (auto simp: split_at_no_sep)

lemma ascii_lower_idem [simp]: "ascii_lower (ascii_lower c) = ascii_lower c"
proof (cases "(65::nat) \<le> of_char c \<and> (of_char c :: nat) \<le> 90")
  case True
  then have "(of_char (ascii_lower c) :: nat) = of_char c + 32"
    by (simp add: ascii_lower_def of_char_of)
  with True show ?thesis by (simp add: ascii_lower_def [of "ascii_lower c"])
next
  case False
  then show ?thesis by (auto simp: ascii_lower_def)
qed

lemma to_lower_idem [simp]: "to_lower (to_lower s) = to_lower s"
  by (simp add: to_lower_def)

section \<open>Sums as Go results\<close>

text \<open>
  The early return on an error, \<open>if err != nil { return err }\<close>, for a pure function and
  for a function that threads a state. The second one is meant for the body of a
  \<open>do\<close> block of the state monad.
\<close>

definition or_return :: "'e + 'a \<Rightarrow> ('a \<Rightarrow> 'e + 'b) \<Rightarrow> 'e + 'b" where
  "or_return r f = (case r of Inl e \<Rightarrow> Inl e | Inr x \<Rightarrow> f x)"

definition or_fail :: "'e + 'a \<Rightarrow> ('a \<Rightarrow> ('s, 'e + 'b) state) \<Rightarrow> ('s, 'e + 'b) state" where
  "or_fail r f = (case r of Inl e \<Rightarrow> State_Monad.return (Inl e) | Inr x \<Rightarrow> f x)"

lemma or_return_simps [simp]:
  "or_return (Inl e) f = Inl e" "or_return (Inr x) f = f x"
  by (simp_all add: or_return_def)

lemma or_return_Inr_iff [go_simps]:
  "or_return r f = Inr y \<longleftrightarrow> (\<exists>x. r = Inr x \<and> f x = Inr y)"
  by (cases r) auto

lemma or_return_Inl_iff [go_simps]:
  "or_return r f = Inl e \<longleftrightarrow> r = Inl e \<or> (\<exists>x. r = Inr x \<and> f x = Inl e)"
  by (cases r) auto

lemma or_fail_simps [simp]:
  "or_fail (Inl e) f = State_Monad.return (Inl e)" "or_fail (Inr x) f = f x"
  by (simp_all add: or_fail_def)

text \<open>A \<open>for _, x := range xs\<close> loop whose body can return an error.\<close>

fun for_each :: "('a \<Rightarrow> ('s, 'e + unit) state) \<Rightarrow> 'a list \<Rightarrow> ('s, 'e + unit) state" where
  "for_each f [] = State_Monad.return (Inr ())"
| "for_each f (x # xs) =
     do { r \<leftarrow> f x; or_fail r (\<lambda>_. for_each f xs) }"

text \<open>A pure loop that maps every element, or stops at the first error.\<close>

fun map_or_return :: "('a \<Rightarrow> 'e + 'b) \<Rightarrow> 'a list \<Rightarrow> 'e + 'b list" where
  "map_or_return f [] = Inr []"
| "map_or_return f (x # xs) =
     or_return (f x) (\<lambda>y. or_return (map_or_return f xs) (\<lambda>ys. Inr (y # ys)))"

lemma map_or_return_Inr:
  "map_or_return f xs = Inr ys \<longleftrightarrow> list_all2 (\<lambda>x y. f x = Inr y) xs ys"
  by (induction xs arbitrary: ys) (auto simp: go_simps list_all2_Cons1)

lemma map_or_return_cong [fundef_cong]:
  "xs = ys \<Longrightarrow> (\<And>x. x \<in> set ys \<Longrightarrow> f x = g x) \<Longrightarrow> map_or_return f xs = map_or_return g ys"
  by (induction ys arbitrary: xs) (auto simp: or_return_def split: sum.splits)

end
