(* ===== verification/Template.thy ===== *)
theory Template
  imports GoPrelude
begin

text \<open>
  Variable substitution in compose files (docker/compose/template/template.go):
  the scanner for the placeholder pattern, the four substitution functions of the docker
  command line, \<open>SubstituteWith\<close> and \<open>ExtractVariables\<close>.

  The pattern \<open>\$(?i:(\$)|(SUB)|{(SUB)}|())\<close> with
  \<open>SUB = [_a-z][_a-z0-9]*(?::?[-?][^}]*)?\<close> is matched by hand: every match starts at a
  dollar sign, the alternatives are tried in order, and inside \<open>SUB\<close> nothing is left to
  backtrack over, because neither a shorter name nor a missing suffix can be followed by
  the closing brace.  Under \<open>(?i)\<close> Go also folds U+017F to \<open>s\<close> and U+212A to \<open>k\<close>, so
  their UTF-8 encodings are name characters as well.
\<close>

section \<open>Values of a parsed compose file\<close>

text \<open>The dynamic values of \<open>map[string]interface{}\<close>; \<open>YFloat\<close> keeps the literal it was
  parsed from.  The entries of a map are in the order in which \<open>range\<close> visits them.\<close>

datatype yval =
    YNull
  | YBool bool
  | YInt int
  | YFloat string
  | YStr string
  | YList "yval list"
  | YMap "(string \<times> yval) list"

section \<open>The placeholder scanner\<close>

datatype piece = Lit char | Escaped | Sub string | Invalid

definition name_letter :: "string \<Rightarrow> (string \<times> string) option" where
  "name_letter s =
     (case s of [] \<Rightarrow> None
      | c # cs \<Rightarrow>
          if c = CHR ''_'' \<or> is_lower c \<or> is_upper c then Some ([c], cs)
          else if prefix [CHR 0xC5, CHR 0xBF] s then Some (take 2 s, drop 2 s)
          else if prefix [CHR 0xE2, CHR 0x84, CHR 0xAA] s then Some (take 3 s, drop 3 s)
          else None)"

definition name_rune :: "string \<Rightarrow> (string \<times> string) option" where
  "name_rune s =
     (case s of [] \<Rightarrow> None
      | c # cs \<Rightarrow> if is_digit c then Some ([c], cs) else name_letter s)"

lemma name_letter_shorter: "name_letter s = Some (r, t) \<Longrightarrow> s = r @ t \<and> r \<noteq> []"
  by (cases s) (auto simp: name_letter_def prefix_def split: if_splits)

lemma name_rune_shorter: "name_rune s = Some (r, t) \<Longrightarrow> s = r @ t \<and> r \<noteq> []"
  by (cases s) (auto simp: name_rune_def dest: name_letter_shorter split: if_splits)

function name_tail :: "string \<Rightarrow> string \<times> string" where
  "name_tail s =
     (case name_rune s of None \<Rightarrow> ([], s)
      | Some (r, t) \<Rightarrow> (case name_tail t of (n, u) \<Rightarrow> (r @ n, u)))"
  by pat_completeness auto
termination by (relation "measure length") (auto dest: name_rune_shorter)

declare name_tail.simps [simp del]

lemma name_tail_append: "name_tail s = (n, t) \<Longrightarrow> s = n @ t"
proof (induction s arbitrary: n t rule: name_tail.induct)
  case (1 s)
  show ?case
  proof (cases "name_rune s")
    case None
    with "1.prems" show ?thesis by (simp add: name_tail.simps [of s])
  next
    case (Some p)
    obtain r u where p: "p = (r, u)" by (cases p)
    obtain n' t' where nt: "name_tail u = (n', t')" by (cases "name_tail u")
    from "1.prems" Some p nt have "n = r @ n'" "t = t'" by (auto simp: name_tail.simps [of s])
    moreover have "u = n' @ t'" using "1.IH" Some p nt by blast
    moreover have "s = r @ u" using Some p name_rune_shorter by blast
    ultimately show ?thesis by simp
  qed
qed

text \<open>\<open>(?::?[-?][^}]*)?\<close>\<close>

definition sub_suffix :: "string \<Rightarrow> string \<times> string" where
  "sub_suffix s =
     (let take_body = (\<lambda>k. (take k s @ takeWhile (\<lambda>c. c \<noteq> CHR ''}'') (drop k s),
                             dropWhile (\<lambda>c. c \<noteq> CHR ''}'') (drop k s)))
      in if prefix '':-'' s \<or> prefix '':?'' s then take_body 2
         else if prefix ''-'' s \<or> prefix ''?'' s then take_body 1
         else ([], s))"

lemma sub_suffix_append: "sub_suffix s = (x, t) \<Longrightarrow> s = x @ t"
  by (auto simp: sub_suffix_def Let_def prefix_def split: if_splits)

definition match_sub :: "string \<Rightarrow> (string \<times> string) option" where
  "match_sub s =
     (case name_letter s of None \<Rightarrow> None
      | Some (l, t) \<Rightarrow>
          (case name_tail t of (n, u) \<Rightarrow>
             (case sub_suffix u of (x, w) \<Rightarrow> Some (l @ n @ x, w))))"

lemma match_sub_shorter: "match_sub s = Some (x, t) \<Longrightarrow> s = x @ t \<and> x \<noteq> []"
  by (auto simp: match_sub_def split: option.splits prod.splits
      dest!: name_letter_shorter name_tail_append sub_suffix_append)

definition match_dollar :: "string \<Rightarrow> piece \<times> string" where
  "match_dollar s =
     (if prefix ''$'' s then (Escaped, drop 1 s)
      else case match_sub s of
             Some (x, t) \<Rightarrow> (Sub x, t)
           | None \<Rightarrow>
               (if prefix ''{'' s then
                  (case match_sub (drop 1 s) of
                     Some (x, t) \<Rightarrow> if prefix ''}'' t then (Sub x, drop 1 t) else (Invalid, s)
                   | None \<Rightarrow> (Invalid, s))
                else (Invalid, s)))"

lemma match_dollar_shorter: "match_dollar s = (p, t) \<Longrightarrow> length t \<le> length s"
proof -
  have sub: "length u \<le> length r" if "match_sub r = Some (x, u)" for r x u
    using match_sub_shorter [OF that] by simp
  assume "match_dollar s = (p, t)"
  then show ?thesis
    by (auto simp: match_dollar_def split: if_splits option.splits
        dest!: sub intro: order_trans)
qed

function scan :: "string \<Rightarrow> piece list" where
  "scan [] = []"
| "scan (c # cs) =
     (if c \<noteq> CHR ''$'' then Lit c # scan cs
      else (case match_dollar cs of (p, t) \<Rightarrow> p # scan t))"
  by pat_completeness auto
termination
  by (relation "measure length") (auto simp: less_Suc_eq_le dest: match_dollar_shorter [OF sym])

section \<open>Substitution functions\<close>

text \<open>A mapping returns the value with a flag for its presence; both mappings of the
  program (\<open>os.LookupEnv\<close> and \<open>ConfigDetails.LookupEnv\<close>) return the empty string with a
  false flag.  A substitution function returns the value, whether it applied, and an error.\<close>

type_synonym mapping_fn = "string \<Rightarrow> string option"

datatype template_error = InvalidTemplateError string

type_synonym subst_func = "string \<Rightarrow> mapping_fn \<Rightarrow> string \<times> bool \<times> template_error option"

definition partition :: "string \<Rightarrow> string \<Rightarrow> string \<times> string" where
  "partition s sep = (case str_cut sep s of None \<Rightarrow> (s, []) | Some p \<Rightarrow> p)"

definition softDefault :: subst_func where
  "softDefault substitution mapping =
     (if \<not> contains substitution '':-'' then ([], False, None)
      else case partition substitution '':-'' of (name, defaultValue) \<Rightarrow>
        (case mapping name of
           None \<Rightarrow> (defaultValue, True, None)
         | Some value \<Rightarrow> if value = [] then (defaultValue, True, None) else (value, True, None)))"

definition hardDefault :: subst_func where
  "hardDefault substitution mapping =
     (if \<not> contains substitution ''-'' then ([], False, None)
      else case partition substitution ''-'' of (name, defaultValue) \<Rightarrow>
        (case mapping name of
           None \<Rightarrow> (defaultValue, True, None)
         | Some value \<Rightarrow> (value, True, None)))"

definition withRequired :: "string \<Rightarrow> mapping_fn \<Rightarrow> string \<Rightarrow> (string \<Rightarrow> bool)
    \<Rightarrow> string \<times> bool \<times> template_error option" where
  "withRequired substitution mapping sep valid =
     (if \<not> contains substitution sep then ([], False, None)
      else case partition substitution sep of (name, errorMessage) \<Rightarrow>
        (case mapping name of
           Some value \<Rightarrow>
             if valid value then (value, True, None)
             else ([], True, Some (InvalidTemplateError
                    (''required variable '' @ name @ '' is missing a value: '' @ errorMessage)))
         | None \<Rightarrow> ([], True, Some (InvalidTemplateError
                    (''required variable '' @ name @ '' is missing a value: '' @ errorMessage)))))"

definition requiredNonEmpty :: subst_func where
  "requiredNonEmpty substitution mapping = withRequired substitution mapping '':?'' (\<lambda>v. v \<noteq> [])"

definition required :: subst_func where
  "required substitution mapping = withRequired substitution mapping ''?'' (\<lambda>_. True)"

definition DefaultSubstituteFuncs :: "subst_func list" where
  "DefaultSubstituteFuncs = [softDefault, hardDefault, requiredNonEmpty, required]"

text \<open>The loop over \<open>subsFuncs\<close> in the replacement callback.  The variable \<open>err\<close> of
  \<open>SubstituteWith\<close> is shared by all callbacks and assigned by every call of a function.\<close>

fun apply_funcs :: "subst_func list \<Rightarrow> string \<Rightarrow> mapping_fn \<Rightarrow> template_error option
    \<Rightarrow> string \<times> template_error option" where
  "apply_funcs [] substitution mapping err =
     (case mapping substitution of None \<Rightarrow> ([], err) | Some value \<Rightarrow> (value, err))"
| "apply_funcs (f # fs) substitution mapping _ =
     (case f substitution mapping of (value, applied, err) \<Rightarrow>
        if err \<noteq> None then ([], err)
        else if \<not> applied then apply_funcs fs substitution mapping err
        else (value, err))"

fun replace_pieces :: "string \<Rightarrow> mapping_fn \<Rightarrow> subst_func list \<Rightarrow> template_error option \<Rightarrow> piece list
    \<Rightarrow> string \<times> template_error option" where
  "replace_pieces tmpl mapping fs err [] = ([], err)"
| "replace_pieces tmpl mapping fs err (Lit c # ps) =
     apfst (Cons c) (replace_pieces tmpl mapping fs err ps)"
| "replace_pieces tmpl mapping fs err (Escaped # ps) =
     apfst (Cons CHR ''$'') (replace_pieces tmpl mapping fs err ps)"
| "replace_pieces tmpl mapping fs err (Invalid # ps) =
     replace_pieces tmpl mapping fs (Some (InvalidTemplateError tmpl)) ps"
| "replace_pieces tmpl mapping fs err (Sub s # ps) =
     (case apply_funcs fs s mapping err of (value, err') \<Rightarrow>
        apfst (append value) (replace_pieces tmpl mapping fs err' ps))"

definition SubstituteWith :: "string \<Rightarrow> mapping_fn \<Rightarrow> subst_func list \<Rightarrow> string \<times> template_error option" where
  "SubstituteWith tmpl mapping subsFuncs = replace_pieces tmpl mapping subsFuncs None (scan tmpl)"

definition Substitute :: "string \<Rightarrow> mapping_fn \<Rightarrow> string \<times> template_error option" where
  "Substitute tmpl mapping = SubstituteWith tmpl mapping DefaultSubstituteFuncs"

section \<open>Extraction of the variables of a compose file\<close>

definition piece_default :: "string \<Rightarrow> string \<times> string" where
  "piece_default val =
     (if contains val '':?'' then (fst (partition val '':?''), [])
      else if contains val ''?'' then (fst (partition val ''?''), [])
      else if contains val '':-'' then partition val '':-''
      else if contains val ''-'' then partition val ''-''
      else (val, []))"

fun extract_pieces :: "piece list \<Rightarrow> (string \<times> string) list" where
  "extract_pieces [] = []"
| "extract_pieces (Lit c # ps) = extract_pieces ps"
| "extract_pieces (Escaped # ps) = extract_pieces ps"
| "extract_pieces (Invalid # ps) = piece_default [] # extract_pieces ps"
| "extract_pieces (Sub s # ps) = piece_default s # extract_pieces ps"

definition extractVariable :: "yval \<Rightarrow> (string \<times> string) list \<times> bool" where
  "extractVariable v =
     (case v of YStr s \<Rightarrow> (extract_pieces (scan s), extract_pieces (scan s) \<noteq> []) | _ \<Rightarrow> ([], False))"

definition put_all :: "(string \<times> string) list \<Rightarrow> (string \<times> string) list \<Rightarrow> (string \<times> string) list" where
  "put_all kvs m = fold (\<lambda>(k, v). AList.update k v) kvs m"

fun recurseExtract :: "yval \<Rightarrow> (string \<times> string) list" where
  "recurseExtract (YStr s) = put_all (fst (extractVariable (YStr s))) []"
| "recurseExtract (YMap kvs) = fold put_all (map (\<lambda>kv. recurseExtract (snd kv)) kvs) []"
| "recurseExtract (YList xs) = fold (\<lambda>x. put_all (fst (extractVariable x))) xs []"
| "recurseExtract _ = []"

definition ExtractVariables :: "(string \<times> yval) list \<Rightarrow> (string \<times> string) list" where
  "ExtractVariables configDict = recurseExtract (YMap configDict)"

section \<open>The scanner on plain text and on braced placeholders\<close>

lemma scan_plain_append: "CHR ''$'' \<notin> set a \<Longrightarrow> scan (a @ b) = map Lit a @ scan b"
  by (induction a) auto

lemma scan_plain: "CHR ''$'' \<notin> set a \<Longrightarrow> scan a = map Lit a"
  using scan_plain_append [of a "[]"] by simp

definition is_name_char :: "char \<Rightarrow> bool" where
  "is_name_char c \<longleftrightarrow> c = CHR ''_'' \<or> is_lower c \<or> is_upper c \<or> is_digit c"

definition valid_name :: "string \<Rightarrow> bool" where
  "valid_name n \<longleftrightarrow> n \<noteq> [] \<and> \<not> is_digit (hd n) \<and> list_all is_name_char n"

lemma name_rune_word: "is_name_char c \<Longrightarrow> name_rune (c # cs) = Some ([c], cs)"
  by (auto simp: name_rune_def name_letter_def is_name_char_def)

lemma name_tail_word:
  "list_all is_name_char n \<Longrightarrow> name_rune t = None \<Longrightarrow> name_tail (n @ t) = (n, t)"
proof (induction n)
  case Nil
  then show ?case by (simp add: name_tail.simps [of t])
next
  case (Cons c n)
  then show ?case by (simp add: name_tail.simps [of "c # n @ t"] name_rune_word)
qed

lemma name_rune_stop [simp]:
  "name_rune (CHR '':'' # s) = None" "name_rune (CHR ''-'' # s) = None"
  "name_rune (CHR ''?'' # s) = None" "name_rune (CHR ''}'' # s) = None"
  by (simp_all add: name_rune_def name_letter_def is_digit_def is_lower_def is_upper_def)

lemma name_letter_word:
  "is_name_char c \<Longrightarrow> \<not> is_digit c \<Longrightarrow> name_letter (c # cs) = Some ([c], cs)"
  by (auto simp: name_letter_def is_name_char_def)

lemma match_sub_word:
  assumes "valid_name n" and "name_rune t = None" and "sub_suffix t = (x, u)"
  shows "match_sub (n @ t) = Some (n @ x, u)"
proof -
  from assms(1) obtain c cs where n: "n = c # cs" "is_name_char c" "\<not> is_digit c" "list_all is_name_char cs"
    by (cases n) (auto simp: valid_name_def)
  with assms show ?thesis by (simp add: match_sub_def name_letter_word name_tail_word)
qed

lemma takeWhile_brace:
  "CHR ''}'' \<notin> set d \<Longrightarrow> takeWhile (\<lambda>c. c \<noteq> CHR ''}'') (d @ CHR ''}'' # r) = d"
  "CHR ''}'' \<notin> set d \<Longrightarrow> dropWhile (\<lambda>c. c \<noteq> CHR ''}'') (d @ CHR ''}'' # r) = CHR ''}'' # r"
  by (induction d) auto

text \<open>The suffixes of the four substitution forms.\<close>

definition suffix_ok :: "string \<Rightarrow> bool" where
  "suffix_ok x \<longleftrightarrow> x = [] \<or>
     (CHR ''}'' \<notin> set x \<and> (\<exists>p \<in> {'':-'', '':?'', ''-'', ''?''}. prefix p x))"

lemma sub_suffix_braced: "suffix_ok x \<Longrightarrow> sub_suffix (x @ CHR ''}'' # r) = (x, CHR ''}'' # r)"
  by (auto simp: suffix_ok_def sub_suffix_def Let_def prefix_def takeWhile_brace)

lemma suffix_ok_stop: "suffix_ok x \<Longrightarrow> name_rune (x @ CHR ''}'' # r) = None"
  by (auto simp: suffix_ok_def prefix_def)

lemma not_name_char [simp]:
  "\<not> is_name_char CHR ''$''" "\<not> is_name_char CHR ''{''" "\<not> is_name_char CHR '':''"
  "\<not> is_name_char CHR ''-''" "\<not> is_name_char CHR ''?''" "\<not> is_name_char CHR ''}''"
  by (simp_all add: is_name_char_def is_digit_def is_lower_def is_upper_def)

lemma valid_name_notin: "valid_name n \<Longrightarrow> \<not> is_name_char c \<Longrightarrow> c \<notin> set n"
  by (auto simp: valid_name_def list_all_iff)

text \<open>\<open>braced n x\<close> is the placeholder text \<open>${nx}\<close>.\<close>

definition braced :: "string \<Rightarrow> string \<Rightarrow> string" where
  "braced n x = ''${'' @ n @ x @ ''}''"

lemma scan_braced:
  assumes "valid_name n" and "suffix_ok x"
  shows "scan (braced n x @ r) = Sub (n @ x) # scan r"
proof -
  let ?t = "n @ x @ CHR ''}'' # r"
  have "match_sub ?t = Some (n @ x, CHR ''}'' # r)"
    by (rule match_sub_word [OF assms(1) suffix_ok_stop [OF assms(2)] sub_suffix_braced [OF assms(2)]])
  moreover have "match_sub (CHR ''{'' # ?t) = None"
    by (simp add: match_sub_def name_letter_def is_lower_def is_upper_def)
  ultimately have "match_dollar (CHR ''{'' # ?t) = (Sub (n @ x), r)"
    by (simp add: match_dollar_def)
  then show ?thesis by (simp add: braced_def)
qed

section \<open>Replacement\<close>

lemma replace_plain: "replace_pieces tmpl m fs err (map Lit a @ ps) = apfst (append a) (replace_pieces tmpl m fs err ps)"
  by (induction a) (auto simp: apfst_def map_prod_def split: prod.splits)

lemma Substitute_braced_in_text:
  assumes "valid_name n" "suffix_ok x" "CHR ''$'' \<notin> set a" "CHR ''$'' \<notin> set b"
  shows "Substitute (a @ braced n x @ b) m =
    (case apply_funcs DefaultSubstituteFuncs (n @ x) m None of (v, err) \<Rightarrow> (a @ v @ b, err))"
proof -
  have *: "replace_pieces t m fs err (map Lit b) = (b, err)" for t fs err
    using replace_plain [of t m fs err b "[]"] by simp
  show ?thesis using assms
    by (simp add: Substitute_def SubstituteWith_def scan_plain_append scan_braced scan_plain
        replace_plain * split: prod.splits)
qed

lemma partition_first:
  "hd sep \<notin> set n \<Longrightarrow> sep \<noteq> [] \<Longrightarrow> partition (n @ sep @ d) sep = (n, d)"
  by (simp add: partition_def str_cut_at_first)

lemma contains_mid [simp]: "contains (n @ sep @ d) sep"
  by (auto simp: contains_iff_sublist)

lemmas default_func_defs = DefaultSubstituteFuncs_def softDefault_def hardDefault_def
  requiredNonEmpty_def required_def withRequired_def

lemma contains_single: "contains s [c] \<longleftrightarrow> c \<in> set s"
  by (auto simp: contains_iff_sublist sublist_def in_set_conv_decomp)

lemma not_contains_char: "c \<notin> set s \<Longrightarrow> c \<in> set sep \<Longrightarrow> \<not> contains s sep"
  by (auto simp: contains_iff_sublist sublist_def)

lemma not_contains_hd: "hd sep \<notin> set s \<Longrightarrow> sep \<noteq> [] \<Longrightarrow> \<not> contains s sep"
  by (simp add: contains_def str_cut_absent)

lemma funcs_plain:
  "valid_name n \<Longrightarrow> apply_funcs DefaultSubstituteFuncs n m None = (case m n of None \<Rightarrow> [] | Some v \<Rightarrow> v, None)"
  by (simp add: default_func_defs not_contains_hd valid_name_notin split: option.splits)

lemma funcs_soft:
  assumes "valid_name n"
  shows "apply_funcs DefaultSubstituteFuncs (n @ '':-'' @ d) m None =
    (case m n of None \<Rightarrow> d | Some v \<Rightarrow> if v = [] then d else v, None)"
proof -
  have "hd '':-'' \<notin> set n" using assms by (simp add: valid_name_notin)
  then show ?thesis
    using partition_first [of "'':-''" n d] contains_mid [of n "'':-''" d]
    by (simp add: default_func_defs del: contains_mid split: option.splits)
qed

lemma funcs_hard:
  assumes "valid_name n" and "\<not> contains (n @ ''-'' @ d) '':-''"
  shows "apply_funcs DefaultSubstituteFuncs (n @ ''-'' @ d) m None =
    (case m n of None \<Rightarrow> d | Some v \<Rightarrow> v, None)"
proof -
  have "hd ''-'' \<notin> set n" using assms by (simp add: valid_name_notin)
  then show ?thesis
    using assms(2) partition_first [of "''-''" n d] contains_mid [of n "''-''" d]
    by (simp add: default_func_defs del: contains_mid split: option.splits)
qed

definition missing_msg :: "string \<Rightarrow> string \<Rightarrow> template_error" where
  "missing_msg n msg = InvalidTemplateError (''required variable '' @ n @ '' is missing a value: '' @ msg)"

lemma funcs_required_nonempty:
  assumes "valid_name n" and "CHR ''-'' \<notin> set msg"
  shows "apply_funcs DefaultSubstituteFuncs (n @ '':?'' @ msg) m None =
    (case m n of None \<Rightarrow> ([], Some (missing_msg n msg))
     | Some v \<Rightarrow> if v = [] then ([], Some (missing_msg n msg)) else (v, None))"
proof -
  have nd: "CHR ''-'' \<notin> set (n @ '':?'' @ msg)" using assms by (simp add: valid_name_notin)
  then have "\<not> contains (n @ '':?'' @ msg) '':-''" "\<not> contains (n @ '':?'' @ msg) ''-''"
    by (simp_all add: not_contains_char [where c = "CHR ''-''"])
  moreover have "hd '':?'' \<notin> set n" using assms by (simp add: valid_name_notin)
  ultimately show ?thesis
    using partition_first [of "'':?''" n msg] contains_mid [of n "'':?''" msg]
    by (simp add: default_func_defs missing_msg_def del: contains_mid split: option.splits)
qed

lemma funcs_required:
  assumes "valid_name n" and "CHR ''-'' \<notin> set msg" and "CHR '':'' \<notin> set msg"
  shows "apply_funcs DefaultSubstituteFuncs (n @ ''?'' @ msg) m None =
    (case m n of None \<Rightarrow> ([], Some (missing_msg n msg)) | Some v \<Rightarrow> (v, None))"
proof -
  have nd: "CHR ''-'' \<notin> set (n @ ''?'' @ msg)" "CHR '':'' \<notin> set (n @ ''?'' @ msg)"
    using assms by (simp_all add: valid_name_notin)
  then have "\<not> contains (n @ ''?'' @ msg) '':-''" "\<not> contains (n @ ''?'' @ msg) ''-''"
    "\<not> contains (n @ ''?'' @ msg) '':?''"
    by (simp_all add: not_contains_hd)
  moreover have "hd ''?'' \<notin> set n" using assms by (simp add: valid_name_notin)
  ultimately show ?thesis
    using partition_first [of "''?''" n msg] contains_mid [of n "''?''" msg]
    by (simp add: default_func_defs missing_msg_def del: contains_mid split: option.splits)
qed

lemma funcs_required_hyphen:
  assumes "valid_name n" and "CHR ''-'' \<notin> set p" and "\<not> contains (n @ '':?'' @ p @ ''-'' @ q) '':-''"
  shows "apply_funcs DefaultSubstituteFuncs (n @ '':?'' @ p @ ''-'' @ q) m None =
    (case m (n @ '':?'' @ p) of None \<Rightarrow> q | Some v \<Rightarrow> v, None)"
proof -
  have "hd ''-'' \<notin> set (n @ '':?'' @ p)" using assms by (simp add: valid_name_notin)
  then show ?thesis
    using assms(3) partition_first [of "''-''" "n @ '':?'' @ p" q] contains_mid [of "n @ '':?'' @ p" "''-''" q]
    by (simp add: default_func_defs del: contains_mid split: option.splits)
qed

section \<open>The error of a whole template\<close>

definition is_placeholder :: "piece \<Rightarrow> bool" where
  "is_placeholder p = (case p of Sub _ \<Rightarrow> True | Invalid \<Rightarrow> True | _ \<Rightarrow> False)"

definition piece_error :: "string \<Rightarrow> mapping_fn \<Rightarrow> piece \<Rightarrow> template_error option" where
  "piece_error tmpl m p =
     (case p of Invalid \<Rightarrow> Some (InvalidTemplateError tmpl)
      | Sub s \<Rightarrow> snd (apply_funcs DefaultSubstituteFuncs s m None) | _ \<Rightarrow> None)"

lemma apply_default_err:
  "apply_funcs DefaultSubstituteFuncs s m err = apply_funcs DefaultSubstituteFuncs s m None"
  by (simp add: DefaultSubstituteFuncs_def)

lemma snd_apfst_append [simp]: "snd (apfst f p) = snd p"
  by (cases p) simp

lemma replace_error:
  "snd (replace_pieces t m DefaultSubstituteFuncs err ps) =
    (let qs = filter is_placeholder ps in if qs = [] then err else piece_error t m (last qs))"
proof (induction ps arbitrary: err)
  case (Cons p ps)
  then show ?case
    by (cases p) (auto simp: Let_def is_placeholder_def piece_error_def apply_default_err [of _ _ err]
        split: prod.splits)
qed simp

definition escape_dollars :: "string \<Rightarrow> string" where
  "escape_dollars s = concat (map (\<lambda>c. if c = CHR ''$'' then ''$$'' else [c]) s)"

lemma scan_escape:
  "scan (escape_dollars s) = map (\<lambda>c. if c = CHR ''$'' then Escaped else Lit c) s"
  by (induction s) (auto simp: escape_dollars_def match_dollar_def)

lemma Substitute_escaped: "Substitute (escape_dollars s) m = (s, None)"
proof -
  have "replace_pieces t m fs err (map (\<lambda>c. if c = CHR ''$'' then Escaped else Lit c) s) = (s, err)"
    for t fs err
    by (induction s) auto
  then show ?thesis by (simp add: Substitute_def SubstituteWith_def scan_escape)
qed

section \<open>Properties\<close>

text \<open>C33: Substitution of a template in which every dollar sign is escaped by doubling it, as the
  error message of the interpolation asks the author to do, gives back the original text without
  an error, whatever the environment is.\<close>

theorem Substitute_escape_roundtrip: "Substitute (escape_dollars s) m = (s, None)"
  by (rule Substitute_escaped)

text \<open>A well-formed placeholder \<open>${NAME:-default}\<close> inside a text without other dollar signs is
  replaced by the variable when it is set and not empty and by the default otherwise, with no error,
  and the text around it is kept.\<close>

theorem Substitute_soft_default:
  assumes "valid_name n" "CHR ''}'' \<notin> set d" "CHR ''$'' \<notin> set a" "CHR ''$'' \<notin> set b"
  shows "Substitute (a @ braced n ('':-'' @ d) @ b) m =
    (a @ (case m n of None \<Rightarrow> d | Some v \<Rightarrow> if v = [] then d else v) @ b, None)"
proof -
  have "suffix_ok ('':-'' @ d)" using assms(2) by (auto simp: suffix_ok_def)
  from Substitute_braced_in_text [OF assms(1) this assms(3,4)] show ?thesis
    by (simp only: funcs_soft [OF assms(1)] prod.case)
qed

theorem Substitute_soft_default_witness:
  "Substitute ''port=${PORT:-80}!'' (\<lambda>_. None) = (''port=80!'', None)"
  using Substitute_soft_default [of "''PORT''" "''80''" "''port=''" "''!''" "\<lambda>_. None"]
  by (simp add: valid_name_def is_name_char_def is_upper_def is_digit_def is_lower_def braced_def)

text \<open>A required variable \<open>${NAME:?message}\<close> whose message has no hyphen is an error that names
  the variable exactly when the variable is unset or empty, and is replaced by its value otherwise.\<close>

theorem Substitute_required_nonempty:
  assumes "valid_name n" "CHR ''}'' \<notin> set msg" "CHR ''-'' \<notin> set msg"
    "CHR ''$'' \<notin> set a" "CHR ''$'' \<notin> set b"
  shows "Substitute (a @ braced n ('':?'' @ msg) @ b) m =
    (case m n of
       Some (c # cs) \<Rightarrow> (a @ (c # cs) @ b, None)
     | _ \<Rightarrow> (a @ b, Some (InvalidTemplateError
              (''required variable '' @ n @ '' is missing a value: '' @ msg))))"
proof -
  have "suffix_ok ('':?'' @ msg)" using assms(2) by (auto simp: suffix_ok_def)
  from Substitute_braced_in_text [OF assms(1) this assms(4,5)] show ?thesis
    by (simp only: funcs_required_nonempty [OF assms(1,3)] missing_msg_def)
      (simp split: option.splits list.splits)
qed

theorem Substitute_required_nonempty_witness:
  "Substitute ''${DB:?set it}'' (\<lambda>_. Some []) =
    ([], Some (InvalidTemplateError ''required variable DB is missing a value: set it''))"
  using Substitute_required_nonempty [of "''DB''" "''set it''" "[]" "[]" "\<lambda>_. Some []"]
  by (simp add: valid_name_def is_name_char_def is_upper_def is_digit_def is_lower_def braced_def)

text \<open>When the message of a required variable contains a hyphen, the requirement is lost:
  \<open>hardDefault\<close> runs before \<open>requiredNonEmpty\<close> and splits the placeholder at the hyphen, so an
  unset variable is silently replaced by the tail of the message.\<close>

theorem Substitute_required_hyphen_lost:
  assumes "valid_name n" "CHR ''}'' \<notin> set (p @ q)" "CHR ''-'' \<notin> set p"
    "\<not> contains (n @ '':?'' @ p @ ''-'' @ q) '':-''" "m (n @ '':?'' @ p) = None"
  shows "Substitute (braced n ('':?'' @ p @ ''-'' @ q)) m = (q, None)"
proof -
  have "suffix_ok ('':?'' @ p @ ''-'' @ q)" using assms(2) by (auto simp: suffix_ok_def)
  from Substitute_braced_in_text [OF assms(1) this, of "[]" "[]" m] show ?thesis
    by (simp only: funcs_required_hyphen [OF assms(1,3,4)] assms(5) prod.case option.case) simp
qed

theorem Substitute_required_hyphen_lost_witness:
  "Substitute ''${DB:?must-be-set}'' (\<lambda>_. None) = (''be-set'', None)"
  using Substitute_required_hyphen_lost [of "''DB''" "''must''" "''be-set''" "\<lambda>_. None"]
  by (simp add: valid_name_def is_name_char_def is_upper_def is_digit_def is_lower_def braced_def
      contains_def)

text \<open>The error that \<open>Substitute\<close> returns for a template is the error of its last placeholder
  alone: every callback overwrites the shared error variable, so an unset required variable or an
  invalid placeholder is reported only when no placeholder follows it.\<close>

theorem Substitute_error_of_last_placeholder:
  "snd (Substitute t m) =
    (let ps = filter is_placeholder (scan t) in if ps = [] then None else piece_error t m (last ps))"
  by (simp add: Substitute_def SubstituteWith_def replace_error)

end
