(* ===== verification/Interpolation.thy ===== *)
theory Interpolation
  imports Template "HOL-Library.Multiset"
begin

text \<open>
  Interpolation of a whole compose file (docker/compose/interpolation/interpolation.go and
  docker/compose/interpolate.go): paths and path patterns, the casters that turn an
  interpolated string into a number or a boolean, the recursion over the parsed file, and
  the table of casters of the loader.

  The substitution function is a field of the options, so the recursion is proved correct
  against an interface (locale \<open>substituter\<close>) that \<^const>\<open>Substitute\<close> implements.
  A \<open>Path\<close> is the dotted string of the source, and \<open>parts\<close> splits it again.
  \<open>strconv.ParseFloat\<close> only decides which literals are accepted and is a parameter
  \<open>is_float\<close> of the caster table.
\<close>

section \<open>Paths\<close>

type_synonym path = string

definition PathMatchAll :: string where "PathMatchAll = ''*''"
definition PathMatchList :: string where "PathMatchList = ''[]''"

definition NewPath :: "string list \<Rightarrow> path" where
  "NewPath items = join ''.'' items"

definition Next :: "path \<Rightarrow> string \<Rightarrow> path" where
  "Next p part = p @ ''.'' @ part"

definition parts :: "path \<Rightarrow> string list" where
  "parts p = split_at CHR ''.'' p"

fun match_parts :: "string list \<Rightarrow> string list \<Rightarrow> bool" where
  "match_parts [] _ = True"
| "match_parts (p # ps) (q # qs) = ((q = PathMatchAll \<or> q = p) \<and> match_parts ps qs)"
| "match_parts (p # ps) [] = False"

definition matches :: "path \<Rightarrow> path \<Rightarrow> bool" where
  "matches p pattern =
     (if length (parts pattern) \<noteq> length (parts p) then False
      else match_parts (parts p) (parts pattern))"

section \<open>Options and errors\<close>

type_synonym cast = "string \<Rightarrow> go_error + yval"

type_synonym substitute_fn = "string \<Rightarrow> mapping_fn \<Rightarrow> string \<times> template_error option"

record interp_options =
  LookupValue :: mapping_fn
  TypeCastMapping :: "(path \<times> cast) list"
  SubstituteOpt :: substitute_fn

datatype interp_error =
    InvalidInterpolationFormat path string
  | WhileInterpolating path go_error

fun newPathError :: "path \<Rightarrow> template_error \<Rightarrow> interp_error" where
  "newPathError path (InvalidTemplateError t) = InvalidInterpolationFormat path t"

fun getCasterForPath :: "(path \<times> cast) list \<Rightarrow> path \<Rightarrow> cast option" where
  "getCasterForPath [] path = None"
| "getCasterForPath ((pattern, caster) # rest) path =
     (if matches path pattern then Some caster else getCasterForPath rest path)"

section \<open>The recursion over a value\<close>

definition interpolate_string :: "string \<Rightarrow> path \<Rightarrow> interp_options \<Rightarrow> interp_error + yval" where
  "interpolate_string value path opts =
     (case SubstituteOpt opts value (LookupValue opts) of
        (_, Some err) \<Rightarrow> Inl (newPathError path err)
      | (newValue, None) \<Rightarrow>
          if newValue = value then Inr (YStr value)
          else (case getCasterForPath (TypeCastMapping opts) path of
                  None \<Rightarrow> Inr (YStr newValue)
                | Some caster \<Rightarrow>
                    (case caster newValue of
                       Inl e \<Rightarrow> Inl (WhileInterpolating path (''failed to cast to expected type: '' @ e))
                     | Inr casted \<Rightarrow> Inr casted)))"

fun recursiveInterpolate :: "yval \<Rightarrow> path \<Rightarrow> interp_options \<Rightarrow> interp_error + yval" where
  "recursiveInterpolate (YStr value) path opts = interpolate_string value path opts"
| "recursiveInterpolate (YMap kvs) path opts =
     or_return
       (map_or_return
          (\<lambda>kv. or_return (recursiveInterpolate (snd kv) (Next path (fst kv)) opts)
                   (\<lambda>v. Inr (fst kv, v))) kvs)
       (\<lambda>out. Inr (YMap out))"
| "recursiveInterpolate (YList xs) path opts =
     or_return (map_or_return (\<lambda>x. recursiveInterpolate x (Next path PathMatchList) opts) xs)
       (\<lambda>out. Inr (YList out))"
| "recursiveInterpolate value path opts = Inr value"

definition Interpolate :: "(string \<times> yval) list \<Rightarrow> interp_options \<Rightarrow> interp_error + (string \<times> yval) list" where
  "Interpolate config opts =
     map_or_return
       (\<lambda>kv. or_return (recursiveInterpolate (snd kv) (NewPath [fst kv]) opts)
                (\<lambda>v. Inr (fst kv, v))) config"

section \<open>The casters of the loader\<close>

definition toBoolean :: cast where
  "toBoolean value =
     (let w = to_lower value in
      if w \<in> {''y'', ''yes'', ''true'', ''on''} then Inr (YBool True)
      else if w \<in> {''n'', ''no'', ''false'', ''off''} then Inr (YBool False)
      else Inl (''invalid boolean: '' @ value))"

text \<open>\<open>strconv.Atoi\<close>: an optional sign, at least one decimal digit, and the range of a
  64-bit \<open>int\<close>.\<close>

definition digit_val :: "char \<Rightarrow> int" where
  "digit_val c = int (of_char c) - 48"

definition decimal :: "string \<Rightarrow> int" where
  "decimal ds = foldl (\<lambda>n c. 10 * n + digit_val c) 0 ds"

definition Atoi :: "string \<Rightarrow> go_error + int" where
  "Atoi s =
     (let neg = prefix ''-'' s;
          ds = (if prefix ''-'' s \<or> prefix ''+'' s then drop 1 s else s);
          n = (if neg then - decimal ds else decimal ds)
      in if ds = [] \<or> \<not> list_all is_digit ds then Inl (''invalid syntax: '' @ s)
         else if n < - (2 ^ 63) \<or> n > 2 ^ 63 - 1 then Inl (''value out of range: '' @ s)
         else Inr n)"

definition toInt :: cast where
  "toInt value = or_return (Atoi value) (\<lambda>n. Inr (YInt n))"

definition toFloat :: "(string \<Rightarrow> bool) \<Rightarrow> cast" where
  "toFloat is_float value =
     (if is_float value then Inr (YFloat value) else Inl (''invalid syntax: '' @ value))"

definition iPath :: "string list \<Rightarrow> path" where
  "iPath ps = NewPath ps"

definition servicePath :: "string list \<Rightarrow> path" where
  "servicePath ps = iPath ([''services'', PathMatchAll] @ ps)"

text \<open>The Go value is a map, so a program run may visit its entries in any order.\<close>

definition interpolateTypeCastMapping :: "(string \<Rightarrow> bool) \<Rightarrow> (path \<times> cast) list" where
  "interpolateTypeCastMapping is_float =
    [(servicePath [''configs'', PathMatchList, ''mode''], toInt),
     (servicePath [''secrets'', PathMatchList, ''mode''], toInt),
     (servicePath [''healthcheck'', ''retries''], toInt),
     (servicePath [''healthcheck'', ''disable''], toBoolean),
     (servicePath [''deploy'', ''replicas''], toInt),
     (servicePath [''deploy'', ''update_config'', ''parallelism''], toInt),
     (servicePath [''deploy'', ''update_config'', ''max_failure_ratio''], toFloat is_float),
     (servicePath [''deploy'', ''restart_policy'', ''max_attempts''], toInt),
     (servicePath [''ports'', PathMatchList, ''target''], toInt),
     (servicePath [''ports'', PathMatchList, ''published''], toInt),
     (servicePath [''ulimits'', PathMatchAll], toInt),
     (servicePath [''ulimits'', PathMatchAll, ''hard''], toInt),
     (servicePath [''ulimits'', PathMatchAll, ''soft''], toInt),
     (servicePath [''privileged''], toBoolean),
     (servicePath [''read_only''], toBoolean),
     (servicePath [''stdin_open''], toBoolean),
     (servicePath [''tty''], toBoolean),
     (servicePath [''volumes'', PathMatchList, ''read_only''], toBoolean),
     (servicePath [''volumes'', PathMatchList, ''volume'', ''nocopy''], toBoolean),
     (iPath [''networks'', PathMatchAll, ''external''], toBoolean),
     (iPath [''networks'', PathMatchAll, ''internal''], toBoolean),
     (iPath [''networks'', PathMatchAll, ''attachable''], toBoolean),
     (iPath [''volumes'', PathMatchAll, ''external''], toBoolean),
     (iPath [''secrets'', PathMatchAll, ''external''], toBoolean),
     (iPath [''configs'', PathMatchAll, ''external''], toBoolean)]"

section \<open>The interface to the substitution function\<close>

fun plain_val :: "yval \<Rightarrow> bool" where
  "plain_val (YStr s) \<longleftrightarrow> CHR ''$'' \<notin> set s"
| "plain_val (YList xs) \<longleftrightarrow> list_all plain_val xs"
| "plain_val (YMap kvs) \<longleftrightarrow> list_all (\<lambda>kv. plain_val (snd kv)) kvs"
| "plain_val _ \<longleftrightarrow> True"

text \<open>Escaping every dollar sign in the strings of a value (its keys are not interpolated).\<close>

fun escape_val :: "yval \<Rightarrow> yval" where
  "escape_val (YStr s) = YStr (escape_dollars s)"
| "escape_val (YList xs) = YList (map escape_val xs)"
| "escape_val (YMap kvs) = YMap (map (\<lambda>kv. (fst kv, escape_val (snd kv))) kvs)"
| "escape_val v = v"

locale substituter =
  fixes subst :: substitute_fn
  assumes subst_escaped: "subst (escape_dollars s) m = (s, None)"
begin

lemma escape_plain: "CHR ''$'' \<notin> set s \<Longrightarrow> escape_dollars s = s"
  by (induction s) (auto simp: escape_dollars_def)

lemma subst_plain: "CHR ''$'' \<notin> set s \<Longrightarrow> subst s m = (s, None)"
  using subst_escaped [of s m] by (simp add: escape_plain)

lemma interpolate_plain:
  "SubstituteOpt opts = subst \<Longrightarrow> plain_val v \<Longrightarrow> recursiveInterpolate v path opts = Inr v"
proof (induction v path opts rule: recursiveInterpolate.induct)
  case (1 val path opts)
  then show ?case by (simp add: interpolate_string_def subst_plain)
next
  case (2 kvs path opts)
  have "map_or_return (\<lambda>kv. or_return (recursiveInterpolate (snd kv) (Next path (fst kv)) opts)
      (\<lambda>v. Inr (fst kv, v))) kvs = Inr kvs"
    using 2 by (auto simp: map_or_return_Inr list_all2_conv_all_nth list_all_length)
  then show ?case by simp
next
  case (3 xs path opts)
  have "map_or_return (\<lambda>x. recursiveInterpolate x (Next path PathMatchList) opts) xs = Inr xs"
    using 3 by (auto simp: map_or_return_Inr list_all2_conv_all_nth list_all_length)
  then show ?case by simp
qed auto

lemma interpolate_escaped:
  "SubstituteOpt opts = subst \<Longrightarrow> TypeCastMapping opts = [] \<Longrightarrow>
   recursiveInterpolate (escape_val v) path opts = Inr v"
proof (induction v arbitrary: path)
  case (YStr s)
  then show ?case by (simp add: interpolate_string_def subst_escaped)
next
  case (YList xs)
  then have "map_or_return (\<lambda>x. recursiveInterpolate x (Next path PathMatchList) opts)
      (map escape_val xs) = Inr xs"
    by (auto simp: map_or_return_Inr list_all2_conv_all_nth)
  then show ?case by simp
next
  case (YMap kvs)
  have "recursiveInterpolate (escape_val v) p opts = Inr v" if "(k, v) \<in> set kvs" for k v p
    using YMap that by (auto intro: snds.intros)
  then have "map_or_return (\<lambda>kv. or_return (recursiveInterpolate (snd kv) (Next path (fst kv)) opts)
      (\<lambda>v. Inr (fst kv, v))) (map (\<lambda>kv. (fst kv, escape_val (snd kv))) kvs) = Inr kvs"
    by (simp add: map_or_return_Inr list_all2_conv_all_nth)
      (metis nth_mem or_return_simps(2) prod.collapse)
  then show ?case by simp
qed auto

end

interpretation tmpl: substituter Substitute
  by unfold_locales (rule Substitute_escaped)

section \<open>The caster table does not depend on the iteration order\<close>

text \<open>Two patterns can match one path only if they agree wherever neither has a star.\<close>

fun compat_parts :: "string list \<Rightarrow> string list \<Rightarrow> bool" where
  "compat_parts [] [] = True"
| "compat_parts (a # as) (b # bs) =
     ((a = PathMatchAll \<or> b = PathMatchAll \<or> a = b) \<and> compat_parts as bs)"
| "compat_parts _ _ = False"

lemma match_parts_compat:
  "match_parts ps as \<Longrightarrow> match_parts ps bs \<Longrightarrow> length as = length ps \<Longrightarrow> length bs = length ps \<Longrightarrow>
   compat_parts as bs"
proof (induction ps arbitrary: as bs)
  case (Cons p ps)
  then show ?case by (cases as; cases bs) auto
qed auto

lemma matches_compat:
  "matches p a \<Longrightarrow> matches p b \<Longrightarrow> compat_parts (parts a) (parts b)"
  by (auto simp: matches_def split: if_splits intro: match_parts_compat)

lemmas table_path_defs = interpolateTypeCastMapping_def servicePath_def iPath_def NewPath_def
  PathMatchAll_def PathMatchList_def

lemma table_patterns_incompatible:
  "sorted_wrt (\<lambda>a b. \<not> compat_parts a b) (map (\<lambda>e. parts (fst e)) (interpolateTypeCastMapping is_float))"
  by (simp add: table_path_defs parts_def)

lemma sorted_wrt_unique:
  "sorted_wrt (\<lambda>a b. \<not> R (f a) (f b)) xs \<Longrightarrow> a \<in> set xs \<Longrightarrow> b \<in> set xs \<Longrightarrow>
   R (f a) (f b) \<Longrightarrow> R (f b) (f a) \<Longrightarrow> a = b"
  by (induction xs) auto

lemma getCaster_Some:
  "getCasterForPath tbl p = Some c \<Longrightarrow> \<exists>pat. (pat, c) \<in> set tbl \<and> matches p pat"
  by (induction tbl p rule: getCasterForPath.induct) (auto split: if_splits)

lemma getCaster_None: "getCasterForPath tbl p = None \<longleftrightarrow> (\<forall>e \<in> set tbl. \<not> matches p (fst e))"
  by (induction tbl p rule: getCasterForPath.induct) auto

lemma table_match_unique:
  assumes "e \<in> set (interpolateTypeCastMapping is_float)" "e' \<in> set (interpolateTypeCastMapping is_float)"
    and "matches p (fst e)" "matches p (fst e')"
  shows "e = e'"
proof (rule sorted_wrt_unique)
  show "sorted_wrt (\<lambda>a b. \<not> compat_parts (parts (fst a)) (parts (fst b))) (interpolateTypeCastMapping is_float)"
    using table_patterns_incompatible by (simp add: sorted_wrt_map)
qed (use assms matches_compat in auto)

lemma NewPath_parts:
  "ps \<noteq> [] \<Longrightarrow> \<forall>p \<in> set ps. CHR ''.'' \<notin> set p \<Longrightarrow> parts (NewPath ps) = ps"
  by (simp add: parts_def NewPath_def join_split_at)

text \<open>The patterns of the table, split into parts.\<close>

lemma table_parts:
  "map (\<lambda>e. parts (fst e)) (interpolateTypeCastMapping is_float) =
    [[''services'', ''*'', ''configs'', ''[]'', ''mode''], [''services'', ''*'', ''secrets'', ''[]'', ''mode''],
     [''services'', ''*'', ''healthcheck'', ''retries''], [''services'', ''*'', ''healthcheck'', ''disable''],
     [''services'', ''*'', ''deploy'', ''replicas''],
     [''services'', ''*'', ''deploy'', ''update_config'', ''parallelism''],
     [''services'', ''*'', ''deploy'', ''update_config'', ''max_failure_ratio''],
     [''services'', ''*'', ''deploy'', ''restart_policy'', ''max_attempts''],
     [''services'', ''*'', ''ports'', ''[]'', ''target''], [''services'', ''*'', ''ports'', ''[]'', ''published''],
     [''services'', ''*'', ''ulimits'', ''*''], [''services'', ''*'', ''ulimits'', ''*'', ''hard''],
     [''services'', ''*'', ''ulimits'', ''*'', ''soft''], [''services'', ''*'', ''privileged''],
     [''services'', ''*'', ''read_only''], [''services'', ''*'', ''stdin_open''], [''services'', ''*'', ''tty''],
     [''services'', ''*'', ''volumes'', ''[]'', ''read_only''],
     [''services'', ''*'', ''volumes'', ''[]'', ''volume'', ''nocopy''],
     [''networks'', ''*'', ''external''], [''networks'', ''*'', ''internal''], [''networks'', ''*'', ''attachable''],
     [''volumes'', ''*'', ''external''], [''secrets'', ''*'', ''external''], [''configs'', ''*'', ''external'']]"
  by (simp add: table_path_defs parts_def)

lemma table_None_iff:
  "getCasterForPath (interpolateTypeCastMapping is_float) p = None \<longleftrightarrow>
   list_all (\<lambda>q. length q = length (parts p) \<longrightarrow> \<not> match_parts (parts p) q)
     (map (\<lambda>e. parts (fst e)) (interpolateTypeCastMapping is_float))"
  by (auto simp: getCaster_None matches_def list_all_iff)

lemma table_lookup:
  assumes "(pat, c) \<in> set (interpolateTypeCastMapping is_float)" and "matches p pat"
  shows "getCasterForPath (interpolateTypeCastMapping is_float) p = Some c"
proof -
  obtain c' where c': "getCasterForPath (interpolateTypeCastMapping is_float) p = Some c'"
    using assms getCaster_None [of "interpolateTypeCastMapping is_float" p]
    by (cases "getCasterForPath (interpolateTypeCastMapping is_float) p") auto
  then obtain pat' where "(pat', c') \<in> set (interpolateTypeCastMapping is_float)" "matches p pat'"
    using getCaster_Some by blast
  with assms have "(pat', c') = (pat, c)"
    using table_match_unique [of "(pat', c')" is_float "(pat, c)" p] by simp
  with c' show ?thesis by simp
qed

section \<open>Properties\<close>

text \<open>A compose file in which no string contains a dollar sign is unchanged by the
  interpolation, whatever the environment and whatever the casters are: no value is substituted,
  re-typed or dropped and no error is reported.\<close>

theorem Interpolate_plain_identity:
  assumes "list_all (\<lambda>kv. plain_val (snd kv)) config" and "SubstituteOpt opts = Substitute"
  shows "Interpolate config opts = Inr config"
  using assms
  by (auto simp: Interpolate_def map_or_return_Inr list_all2_conv_all_nth list_all_length
      tmpl.interpolate_plain)

theorem Interpolate_plain_identity_witness:
  "Interpolate [(''services'', YMap [(''web'', YMap [(''image'', YStr ''nginx''), (''privileged'', YBool True)])])]
     \<lparr>LookupValue = (\<lambda>_. None), TypeCastMapping = interpolateTypeCastMapping (\<lambda>_. False), SubstituteOpt = Substitute\<rparr>
   = Inr [(''services'', YMap [(''web'', YMap [(''image'', YStr ''nginx''), (''privileged'', YBool True)])])]"
  by (rule Interpolate_plain_identity) simp_all

text \<open>The caster that the loader's table assigns to a path is the same for every order in which
  Go iterates over the table, because no path matches two of its patterns.\<close>

theorem getCasterForPath_order_independent:
  assumes "mset tbl = mset (interpolateTypeCastMapping is_float)"
  shows "getCasterForPath tbl p = getCasterForPath (interpolateTypeCastMapping is_float) p"
proof -
  let ?T = "interpolateTypeCastMapping is_float"
  have S: "set tbl = set ?T" using assms mset_eq_setD by blast
  show ?thesis
  proof (cases "getCasterForPath ?T p")
    case None
    then have "getCasterForPath tbl p = None" using S by (simp add: getCaster_None)
    with None show ?thesis by simp
  next
    case (Some c)
    then obtain pat where pat: "(pat, c) \<in> set ?T" "matches p pat" using getCaster_Some by blast
    then obtain c' where c': "getCasterForPath tbl p = Some c'"
      using S getCaster_None [of tbl p] by (cases "getCasterForPath tbl p") auto
    then have "getCasterForPath ?T p = Some c'" using S getCaster_Some table_lookup by metis
    with c' show ?thesis by simp
  qed
qed

theorem getCasterForPath_order_independent_witness:
  "getCasterForPath (rev (interpolateTypeCastMapping (\<lambda>_. False))) ''services.web.tty'' =
   getCasterForPath (interpolateTypeCastMapping (\<lambda>_. False)) ''services.web.tty''"
  by (rule getCasterForPath_order_independent) simp

text \<open>The boolean caster of a service field is found when the service name has no dot, and is
  missed when it has one: the dotted path then has one part more than the pattern, so an
  interpolated \<open>privileged\<close> stays a string.\<close>

theorem privileged_caster:
  assumes "CHR ''.'' \<notin> set a" "CHR ''.'' \<notin> set b" "b \<noteq> ''ulimits''"
  shows "getCasterForPath (interpolateTypeCastMapping is_float) (NewPath [''services'', a, ''privileged'']) = Some toBoolean \<and>
    getCasterForPath (interpolateTypeCastMapping is_float) (NewPath [''services'', a @ ''.'' @ b, ''privileged'']) = None"
proof
  have p1: "parts (NewPath [''services'', a, ''privileged'']) = [''services'', a, ''privileged'']"
    by (rule NewPath_parts) (use assms in auto)
  have "(servicePath [''privileged''], toBoolean) \<in> set (interpolateTypeCastMapping is_float)"
    by (simp add: interpolateTypeCastMapping_def)
  moreover have "matches (NewPath [''services'', a, ''privileged'']) (servicePath [''privileged''])"
    by (simp add: matches_def p1) (simp add: table_path_defs parts_def)
  ultimately show "getCasterForPath (interpolateTypeCastMapping is_float) (NewPath [''services'', a, ''privileged'']) = Some toBoolean"
    by (rule table_lookup)
  have "NewPath [''services'', a @ ''.'' @ b, ''privileged''] = NewPath [''services'', a, b, ''privileged'']"
    by (simp add: NewPath_def)
  moreover have "parts (NewPath [''services'', a, b, ''privileged'']) = [''services'', a, b, ''privileged'']"
    by (rule NewPath_parts) (use assms in auto)
  ultimately show "getCasterForPath (interpolateTypeCastMapping is_float) (NewPath [''services'', a @ ''.'' @ b, ''privileged'']) = None"
    using assms(3) by (simp add: table_None_iff table_parts PathMatchAll_def)
qed

theorem privileged_caster_witness:
  "getCasterForPath (interpolateTypeCastMapping (\<lambda>_. False)) (NewPath [''services'', ''my'', ''privileged'']) = Some toBoolean \<and>
   getCasterForPath (interpolateTypeCastMapping (\<lambda>_. False)) (NewPath [''services'', ''my'' @ ''.'' @ ''app'', ''privileged'']) = None"
  using privileged_caster [of "''my''" "''app''" "\<lambda>_. False"] by simp

end
