(* ===== verification/Bolt.thy ===== *)
theory Bolt
  imports GoPrelude
begin

text \<open>
  The storage helpers of dao/bolt/bolt.go over one bucket.

  The BoltDB bucket and the BSON codec are not part of the repository: they are the fields
  of the record \<open>bolt\<close>, an argument of every definition here.  What the code relies on is
  their documented behaviour, the assumptions of locale \<open>bolt_bucket\<close>: a successful \<open>Put\<close> or
  \<open>Delete\<close> changes one key, iteration visits every key once, and decoding undoes encoding.
  A transaction that returns an error is rolled back, so the state is then unchanged.
\<close>

datatype dao_error = ErrNoRecords | DaoError go_error

definition lift_err :: "go_error + 'a \<Rightarrow> dao_error + 'a" where
  "lift_err r = map_sum DaoError id r"

lemma lift_err_simps [simp]: "lift_err (Inr x) = Inr x" "lift_err (Inl e) = Inl (DaoError e)"
  by (simp_all add: lift_err_def)

lemma lift_err_Inr [go_simps]: "lift_err r = Inr x \<longleftrightarrow> r = Inr x"
  by (cases r) auto

record ('b, 'raw, 'v) bolt =
  Put :: "string \<Rightarrow> 'raw \<Rightarrow> 'b \<Rightarrow> go_error + 'b"
  Get :: "string \<Rightarrow> 'b \<Rightarrow> 'raw option"
  Delete :: "string \<Rightarrow> 'b \<Rightarrow> go_error + 'b"
  Entries :: "'b \<Rightarrow> (string \<times> 'raw) list"
  encode :: "'v \<Rightarrow> go_error + 'raw"
  decode :: "'raw \<Rightarrow> go_error + 'v"
  decode_into :: "'raw \<Rightarrow> 'v \<Rightarrow> go_error + 'v"

section \<open>Transactions\<close>

text \<open>\<open>db.Update\<close>: the bucket after a successful body, the old bucket after an error.\<close>

definition db_update :: "'b \<Rightarrow> (dao_error + 'b) \<Rightarrow> (dao_error + unit) \<times> 'b" where
  "db_update b r = (case r of Inl e \<Rightarrow> (Inl e, b) | Inr b' \<Rightarrow> (Inr (), b'))"

definition Dao_replace :: "('b, 'raw, 'v) bolt \<Rightarrow> string \<Rightarrow> 'v \<Rightarrow> 'b \<Rightarrow> (dao_error + unit) \<times> 'b" where
  "Dao_replace db key val b =
     db_update b (or_return (lift_err (encode db val)) (\<lambda>buf. lift_err (Put db key buf b)))"

definition Dao_update :: "('b, 'raw, 'v) bolt \<Rightarrow> string \<Rightarrow> ('v \<Rightarrow> 'v) \<Rightarrow> 'b \<Rightarrow> (dao_error + unit) \<times> 'b" where
  "Dao_update db key newValue b =
     db_update b
       (case Get db key b of None \<Rightarrow> Inl ErrNoRecords
        | Some data \<Rightarrow>
            or_return (lift_err (decode db data)) (\<lambda>oldValue.
            or_return (lift_err (encode db (newValue oldValue))) (\<lambda>buf. lift_err (Put db key buf b))))"

definition Dao_delete :: "('b, 'raw, 'v) bolt \<Rightarrow> string \<Rightarrow> 'b \<Rightarrow> (dao_error + unit) \<times> 'b" where
  "Dao_delete db key b = db_update b (lift_err (Delete db key b))"

definition Dao_get :: "('b, 'raw, 'v) bolt \<Rightarrow> string \<Rightarrow> 'b \<Rightarrow> dao_error + 'v" where
  "Dao_get db key b =
     (case Get db key b of None \<Rightarrow> Inl ErrNoRecords | Some data \<Rightarrow> lift_err (decode db data))"

text \<open>\<open>find\<close> decodes every record into one variable, which is not reset in between: a field that
  the encoding omits keeps the value of the record before it.\<close>

fun find_raw :: "('raw \<Rightarrow> 'v \<Rightarrow> go_error + 'v) \<Rightarrow> ('v \<Rightarrow> bool) \<Rightarrow> (string \<times> 'raw) list \<Rightarrow> 'v \<Rightarrow> dao_error + 'v option" where
  "find_raw dec matcher [] u = Inr None"
| "find_raw dec matcher ((k, v) # kvs) u =
     or_return (lift_err (dec v u)) (\<lambda>u. if matcher u then Inr (Some u) else find_raw dec matcher kvs u)"

definition Dao_find :: "('b, 'raw, 'v) bolt \<Rightarrow> 'v \<Rightarrow> ('v \<Rightarrow> bool) \<Rightarrow> 'b \<Rightarrow> dao_error + 'v option" where
  "Dao_find db u matcher b = find_raw (decode_into db) matcher (Entries db b) u"

definition Dao_count :: "('b, 'raw, 'v) bolt \<Rightarrow> 'b \<Rightarrow> nat" where
  "Dao_count db b = length (Entries db b)"

text \<open>\<open>each\<close> runs a callback on every value; the variables its closure assigns are the
  accumulator.\<close>

fun each_raw :: "('raw \<Rightarrow> 'acc \<Rightarrow> dao_error + 'acc) \<Rightarrow> (string \<times> 'raw) list \<Rightarrow> 'acc \<Rightarrow> dao_error + 'acc" where
  "each_raw fn [] acc = Inr acc"
| "each_raw fn ((k, v) # kvs) acc = or_return (fn v acc) (each_raw fn kvs)"

definition Dao_each :: "('b, 'raw, 'v) bolt \<Rightarrow> ('raw \<Rightarrow> 'acc \<Rightarrow> dao_error + 'acc) \<Rightarrow> 'acc \<Rightarrow> 'b \<Rightarrow> dao_error + 'acc" where
  "Dao_each db fn acc b = each_raw fn (Entries db b) acc"

text \<open>The callback that most searches pass to \<open>each\<close>: decode, keep the matching records.\<close>

definition collect :: "('b, 'raw, 'v) bolt \<Rightarrow> ('v \<Rightarrow> bool) \<Rightarrow> 'raw \<Rightarrow> 'v list \<Rightarrow> dao_error + 'v list" where
  "collect db p buf items =
     or_return (lift_err (decode db buf)) (\<lambda>v. Inr (if p v then items @ [v] else items))"

text \<open>The \<open>Get\<close> wrappers of the entity files: an absent key is no error but \<open>nil\<close>.\<close>

definition Dao_get_opt :: "('b, 'raw, 'v) bolt \<Rightarrow> string \<Rightarrow> 'b \<Rightarrow> dao_error + 'v option" where
  "Dao_get_opt db key b =
     (case Dao_get db key b of
        Inl ErrNoRecords \<Rightarrow> Inr None | Inl (DaoError e) \<Rightarrow> Inl (DaoError e) | Inr v \<Rightarrow> Inr (Some v))"

text \<open>\<open>Operator\<close> of dao/entity.go, the author of a change.\<close>

record operator =
  op_ID :: string
  op_Name :: string

section \<open>The documented behaviour of a bucket\<close>

text \<open>The abstract content of a bucket: the record stored under each key.\<close>

definition recs :: "('b, 'raw, 'v) bolt \<Rightarrow> 'b \<Rightarrow> string \<rightharpoonup> 'v" where
  "recs db b k = (case Dao_get db k b of Inl _ \<Rightarrow> None | Inr v \<Rightarrow> Some v)"

definition readable :: "('b, 'raw, 'v) bolt \<Rightarrow> 'b \<Rightarrow> bool" where
  "readable db b \<longleftrightarrow> (\<forall>k x. Get db k b = Some x \<longrightarrow> (\<exists>v. decode db x = Inr v))"

definition vals :: "('b, 'raw, 'v) bolt \<Rightarrow> 'b \<Rightarrow> 'v list" where
  "vals db b = map (\<lambda>kv. projr (decode db (snd kv))) (Entries db b)"

locale bolt_bucket =
  fixes db :: "('b, 'raw, 'v) bolt"
  assumes Get_Put: "Put db k x b = Inr b' \<Longrightarrow> Get db k' b' = (if k' = k then Some x else Get db k' b)"
    and Get_Delete: "Delete db k b = Inr b' \<Longrightarrow> Get db k' b' = (if k' = k then None else Get db k' b)"
    and Entries_distinct: "distinct (map fst (Entries db b))"
    and Entries_Get: "map_of (Entries db b) k = Get db k b"
    and decode_encode: "encode db v = Inr x \<Longrightarrow> decode db x = Inr v"
begin

lemma in_Entries_iff: "(k, x) \<in> set (Entries db b) \<longleftrightarrow> Get db k b = Some x"
  using Entries_Get [of b k] Entries_distinct [of b] by (metis map_of_eq_Some_iff)

lemma recs_Some: "recs db b k = Some v \<longleftrightarrow> (\<exists>x. Get db k b = Some x \<and> decode db x = Inr v)"
  by (auto simp: recs_def Dao_get_def go_simps split: option.splits sum.splits)

lemma Dao_replace_recs:
  assumes "Dao_replace db k v b = (Inr (), b')"
  shows "recs db b' = (recs db b)(k \<mapsto> v)" and "readable db b \<Longrightarrow> readable db b'"
proof -
  obtain x where "encode db v = Inr x" "Put db k x b = Inr b'"
    using assms by (auto simp: Dao_replace_def db_update_def go_simps split: sum.splits)
  then show "recs db b' = (recs db b)(k \<mapsto> v)" "readable db b \<Longrightarrow> readable db b'"
    by (auto simp: recs_def Dao_get_def Get_Put decode_encode readable_def fun_eq_iff)
qed

lemma Dao_delete_recs:
  assumes "Dao_delete db k b = (Inr (), b')"
  shows "recs db b' = (recs db b)(k := None)" and "readable db b \<Longrightarrow> readable db b'"
proof -
  have "Delete db k b = Inr b'"
    using assms by (auto simp: Dao_delete_def db_update_def go_simps split: sum.splits)
  then show "recs db b' = (recs db b)(k := None)" "readable db b \<Longrightarrow> readable db b'"
    by (auto simp: recs_def Dao_get_def Get_Delete readable_def fun_eq_iff)
qed

lemma Dao_update_recs:
  assumes "Dao_update db k f b = (Inr (), b')"
  shows "\<exists>old. recs db b k = Some old \<and> recs db b' = (recs db b)(k \<mapsto> f old)"
    and "readable db b \<Longrightarrow> readable db b'"
proof -
  obtain data old x where "Get db k b = Some data" "decode db data = Inr old"
    "encode db (f old) = Inr x" "Put db k x b = Inr b'"
    using assms by (auto simp: Dao_update_def db_update_def go_simps split: sum.splits option.splits)
  then show "\<exists>old. recs db b k = Some old \<and> recs db b' = (recs db b)(k \<mapsto> f old)"
    "readable db b \<Longrightarrow> readable db b'"
    by (auto simp: recs_def Dao_get_def Get_Put decode_encode readable_def fun_eq_iff)
qed

lemma Dao_get_opt_readable:
  assumes "readable db b"
  shows "Dao_get_opt db k b = Inr (recs db b k)"
proof (cases "Get db k b")
  case None
  then show ?thesis by (simp add: Dao_get_opt_def recs_def Dao_get_def)
next
  case (Some x)
  with assms obtain v where "decode db x = Inr v" by (auto simp: readable_def)
  with Some show ?thesis by (simp add: Dao_get_opt_def recs_def Dao_get_def)
qed

lemma Dao_get_opt_Inr: "Dao_get_opt db k b = Inr r \<Longrightarrow> r = recs db b k"
  by (auto simp: Dao_get_opt_def recs_def split: sum.splits dao_error.splits)

lemma each_raw_collect:
  "\<forall>kv \<in> set kvs. \<exists>v. decode db (snd kv) = Inr v \<Longrightarrow>
   each_raw (collect db p) kvs acc = Inr (acc @ filter p (map (\<lambda>kv. projr (decode db (snd kv))) kvs))"
  by (induction kvs arbitrary: acc) (auto simp: collect_def)

text \<open>A search over a readable bucket returns exactly the matching records.\<close>

lemma Dao_each_collect:
  assumes "readable db b"
  shows "Dao_each db (collect db p) [] b = Inr (filter p (vals db b))"
proof -
  have "\<forall>kv \<in> set (Entries db b). \<exists>v. decode db (snd kv) = Inr v"
    using assms by (auto simp: readable_def in_Entries_iff)
  from each_raw_collect [OF this] show ?thesis by (simp add: Dao_each_def vals_def)
qed

lemma set_vals: "readable db b \<Longrightarrow> v \<in> set (vals db b) \<longleftrightarrow> (\<exists>k. recs db b k = Some v)"
proof -
  assume r: "readable db b"
  have "v \<in> set (vals db b) \<longleftrightarrow> (\<exists>k x. (k, x) \<in> set (Entries db b) \<and> v = projr (decode db x))"
    by (force simp: vals_def)
  also have "\<dots> \<longleftrightarrow> (\<exists>k. recs db b k = Some v)"
    using r by (fastforce simp: recs_Some in_Entries_iff readable_def)
  finally show ?thesis .
qed

lemma vals_distinct:
  assumes "readable db b" and "\<And>k v. recs db b k = Some v \<Longrightarrow> f v = k"
  shows "distinct (map f (vals db b))"
proof -
  have "f (projr (decode db x)) = k" if "(k, x) \<in> set (Entries db b)" for k x
    using that assms by (force simp: in_Entries_iff recs_Some readable_def)
  then have "map f (vals db b) = map fst (Entries db b)"
    by (auto simp: vals_def)
  then show ?thesis using Entries_distinct by simp
qed

end

text \<open>A bucket of a healthy database also accepts every write.  For the keys and values of this program that
  is what boltdb documents: it refuses a blank key, a key above 32768 bytes and a value above 2 GB, and
  the keys here are generated ids, hexadecimal object ids and names that were checked not to be blank.\<close>

locale healthy_bucket = bolt_bucket +
  assumes Put_total: "\<exists>b'. Put db k x b = Inr b'"
    and Delete_total: "\<exists>b'. Delete db k b = Inr b'"
    and encode_total: "\<exists>x. encode db v = Inr x"
begin

lemma Dao_replace_total: "\<exists>b'. Dao_replace db k v b = (Inr (), b')"
proof -
  obtain x where "encode db v = Inr x" using encode_total by blast
  moreover obtain b' where "Put db k x b = Inr b'" using Put_total by blast
  ultimately show ?thesis by (simp add: Dao_replace_def db_update_def)
qed

lemma Dao_delete_total: "\<exists>b'. Dao_delete db k b = (Inr (), b')"
  using Delete_total [of k b] by (auto simp: Dao_delete_def db_update_def)

lemma Dao_update_total:
  assumes "readable db b" and "recs db b k = Some old"
  shows "\<exists>b'. Dao_update db k f b = (Inr (), b')"
proof -
  obtain x where "encode db (f old) = Inr x" using encode_total by blast
  moreover obtain b' where "Put db k x b = Inr b'" using Put_total by blast
  moreover obtain data where "Get db k b = Some data" "decode db data = Inr old"
    using assms by (auto simp: recs_Some)
  ultimately show ?thesis by (simp add: Dao_update_def db_update_def)
qed

end

section \<open>A bucket as a sorted association list\<close>

text \<open>The documented behaviour can be met: a bucket whose content is a list of entries sorted
  by key, with the identity as the codec.  The witnesses of the development use it.\<close>

fun alist_put :: "string \<Rightarrow> 'v \<Rightarrow> (string \<times> 'v) list \<Rightarrow> (string \<times> 'v) list" where
  "alist_put k v [] = [(k, v)]"
| "alist_put k v ((k', v') # kvs) =
     (if k = k' then (k, v) # kvs
      else if k < k' then (k, v) # (k', v') # kvs
      else (k', v') # alist_put k v kvs)"

lemma alist_put_keys: "set (map fst (alist_put k v kvs)) = insert k (set (map fst kvs))"
  by (induction kvs rule: alist_put.induct) auto

lemma alist_put_sorted:
  "sorted_wrt (<) (map fst kvs) \<Longrightarrow> sorted_wrt (<) (map fst (alist_put k v kvs))"
proof (induction k v kvs rule: alist_put.induct)
  case (2 k v k' v' kvs)
  then show ?case using alist_put_keys [of k v kvs] by (auto dest: less_trans)
qed simp

lemma map_of_alist_put:
  "sorted_wrt (<) (map fst kvs) \<Longrightarrow> map_of (alist_put k v kvs) = (map_of kvs)(k \<mapsto> v)"
  by (induction kvs rule: alist_put.induct) (auto simp: fun_eq_iff)

lemma map_of_filter_key:
  "map_of (filter (\<lambda>kv. fst kv \<noteq> k) kvs) k' = (if k' = k then None else map_of kvs k')"
  by (induction kvs) auto

lemma sorted_distinct: "sorted_wrt (<) (ks :: string list) \<Longrightarrow> distinct ks"
  by (induction ks) auto

typedef 'v bucket = "{kvs :: (string \<times> 'v) list. sorted_wrt (<) (map fst kvs)}"
  morphisms entries Bucket
  by (rule exI [of _ "[]"]) simp

setup_lifting type_definition_bucket

lift_definition empty_bucket :: "'v bucket" is "[]" by simp

lift_definition bucket_put :: "string \<Rightarrow> 'v \<Rightarrow> 'v bucket \<Rightarrow> 'v bucket" is alist_put
  by (rule alist_put_sorted)

lift_definition bucket_delete :: "string \<Rightarrow> 'v bucket \<Rightarrow> 'v bucket" is "\<lambda>k. filter (\<lambda>kv. fst kv \<noteq> k)"
  by (auto simp: sorted_wrt_map sorted_wrt_filter)

lift_definition bucket_get :: "string \<Rightarrow> 'v bucket \<Rightarrow> 'v option" is "\<lambda>k kvs. map_of kvs k" .

definition sorted_bolt :: "('v bucket, 'v, 'v) bolt" where
  "sorted_bolt = \<lparr>Put = (\<lambda>k v b. Inr (bucket_put k v b)), Get = bucket_get,
     Delete = (\<lambda>k b. Inr (bucket_delete k b)), Entries = entries, encode = Inr, decode = Inr,
     decode_into = (\<lambda>x u. Inr x)\<rparr>"

lemma sorted_bolt_simps [simp]:
  "Put sorted_bolt k v b = Inr (bucket_put k v b)" "Get sorted_bolt = bucket_get"
  "Delete sorted_bolt k b = Inr (bucket_delete k b)" "Entries sorted_bolt = entries"
  "encode sorted_bolt = Inr" "decode sorted_bolt = Inr" "decode_into sorted_bolt x u = Inr x"
  by (simp_all add: sorted_bolt_def)

lemmas bucket_eval = bucket_get.rep_eq bucket_put.rep_eq bucket_delete.rep_eq empty_bucket.rep_eq

interpretation sorted: healthy_bucket sorted_bolt
proof unfold_locales
  fix k k' :: string and x :: 'v and b b' :: "'v bucket"
  show "Get sorted_bolt k' b' = (if k' = k then Some x else Get sorted_bolt k' b)"
    if "Put sorted_bolt k x b = Inr b'"
    using that entries [of b] by (auto simp: bucket_eval map_of_alist_put)
  show "Get sorted_bolt k' b' = (if k' = k then None else Get sorted_bolt k' b)"
    if "Delete sorted_bolt k b = Inr b'"
    using that by (auto simp: bucket_eval map_of_filter_key)
  show "distinct (map fst (Entries sorted_bolt b))"
    using entries [of b] by (simp add: sorted_distinct)
  show "map_of (Entries sorted_bolt b) k = Get sorted_bolt k b"
    by (simp add: bucket_eval)
qed simp_all

end
