(* ===== verification/StackHistory.thy ===== *)
theory StackHistory
  imports Bolt
begin

text \<open>
  Compose stack records and their version history: the entities of dao/entity.go, the
  storage operations of dao/bolt/compose_stack.go and dao/bolt/compose_stack_version.go, and
  the history operations of biz/compose_stack_version.go.

  \<open>createId\<close> and \<open>now\<close> are oracles of the environment, indexed by the number of calls made
  so far.  The business layer threads a record with the two buckets, that counter and the
  audit events.  \<open>sort.Slice\<close> is not stable, so the order of equal revisions is not fixed
  by the code; the invariant below rules equal revisions of one stack out.  A revision is an \<open>int\<close> of the
  code, 64 bits wide, counted up by one for each change of a stack: the model leaves it unbounded.
\<close>

section \<open>Entities\<close>

record compose_stack =
  cs_ID :: string
  cs_HostID :: string
  cs_Name :: string
  cs_Content :: string
  cs_EnvFile :: string
  cs_Status :: string
  cs_ErrorMessage :: string
  cs_LastWarnings :: "string list"
  cs_DisableRegistryCache :: bool
  cs_CreatedAt :: int
  cs_UpdatedAt :: int
  cs_CreatedBy :: operator
  cs_UpdatedBy :: operator

record compose_stack_version =
  v_ID :: string
  v_StackID :: string
  v_Revision :: int
  v_Content :: string
  v_EnvFile :: string
  v_Reason :: string
  v_CreatedAt :: int
  v_CreatedBy :: operator

section \<open>Storage of the stacks\<close>

definition ComposeStackCreate :: "('b, 'raw, compose_stack) bolt \<Rightarrow> compose_stack \<Rightarrow> 'b \<Rightarrow> (dao_error + unit) \<times> 'b" where
  "ComposeStackCreate db stack b = Dao_replace db (cs_ID stack) stack b"

definition ComposeStackUpdate :: "('b, 'raw, compose_stack) bolt \<Rightarrow> compose_stack \<Rightarrow> 'b \<Rightarrow> (dao_error + unit) \<times> 'b" where
  "ComposeStackUpdate db stack b =
     Dao_update db (cs_ID stack)
       (\<lambda>old. stack\<lparr>cs_CreatedAt := cs_CreatedAt old, cs_CreatedBy := cs_CreatedBy old,
                   cs_Status := (if cs_Status stack = [] then cs_Status old else cs_Status stack)\<rparr>) b"

definition ComposeStackUpdateStatus :: "('b, 'raw, compose_stack) bolt \<Rightarrow> string \<Rightarrow> string \<Rightarrow> 'b \<Rightarrow> (dao_error + unit) \<times> 'b" where
  "ComposeStackUpdateStatus db key status b = Dao_update db key (\<lambda>old. old\<lparr>cs_Status := status\<rparr>) b"

definition ComposeStackUpdateError :: "('b, 'raw, compose_stack) bolt \<Rightarrow> string \<Rightarrow> string \<Rightarrow> 'b \<Rightarrow> (dao_error + unit) \<times> 'b" where
  "ComposeStackUpdateError db key msg b = Dao_update db key (\<lambda>old. old\<lparr>cs_ErrorMessage := msg\<rparr>) b"

definition ComposeStackUpdateWarnings :: "('b, 'raw, compose_stack) bolt \<Rightarrow> string \<Rightarrow> string list \<Rightarrow> 'b \<Rightarrow> (dao_error + unit) \<times> 'b" where
  "ComposeStackUpdateWarnings db key warnings b = Dao_update db key (\<lambda>old. old\<lparr>cs_LastWarnings := warnings\<rparr>) b"

definition ComposeStackGet :: "('b, 'raw, compose_stack) bolt \<Rightarrow> string \<Rightarrow> 'b \<Rightarrow> dao_error + compose_stack option" where
  "ComposeStackGet db key b = Dao_get_opt db key b"

definition ComposeStackGetByName :: "('b, 'raw, compose_stack) bolt \<Rightarrow> string \<Rightarrow> string \<Rightarrow> 'b \<Rightarrow> dao_error + compose_stack option" where
  "ComposeStackGetByName db hostID name b =
     Dao_each db
       (\<lambda>buf found. or_return (lift_err (decode db buf))
          (\<lambda>s. Inr (if cs_HostID s = hostID \<and> cs_Name s = name then Some s else found))) None b"

definition ComposeStackSearch :: "('b, 'raw, compose_stack) bolt \<Rightarrow> string \<Rightarrow> string \<Rightarrow> 'b \<Rightarrow> dao_error + compose_stack list \<times> nat" where
  "ComposeStackSearch db hostID name b =
     or_return
       (Dao_each db
          (collect db (\<lambda>s. \<not> (hostID \<noteq> [] \<and> cs_HostID s \<noteq> hostID) \<and> \<not> (name \<noteq> [] \<and> \<not> contains (cs_Name s) name))) [] b)
       (\<lambda>stacks. Inr (stacks, length stacks))"

definition ComposeStackDelete :: "('b, 'raw, compose_stack) bolt \<Rightarrow> string \<Rightarrow> 'b \<Rightarrow> (dao_error + unit) \<times> 'b" where
  "ComposeStackDelete db key b = Dao_delete db key b"

section \<open>Storage of the versions\<close>

definition ComposeStackVersionCreate :: "('b, 'raw, compose_stack_version) bolt \<Rightarrow> compose_stack_version \<Rightarrow> 'b \<Rightarrow> (dao_error + unit) \<times> 'b" where
  "ComposeStackVersionCreate db v b = Dao_replace db (v_ID v) v b"

definition ComposeStackVersionList :: "('b, 'raw, compose_stack_version) bolt \<Rightarrow> string \<Rightarrow> int \<Rightarrow> 'b \<Rightarrow> dao_error + compose_stack_version list" where
  "ComposeStackVersionList db stackID limit b =
     or_return (Dao_each db (collect db (\<lambda>v. v_StackID v = stackID)) [] b)
       (\<lambda>items. let items = sort_key (\<lambda>v. - v_Revision v) items in
          Inr (if limit > 0 \<and> int (length items) > limit then take (nat limit) items else items))"

definition ComposeStackVersionGet :: "('b, 'raw, compose_stack_version) bolt \<Rightarrow> string \<Rightarrow> 'b \<Rightarrow> dao_error + compose_stack_version option" where
  "ComposeStackVersionGet db key b = Dao_get_opt db key b"

fun delete_versions :: "('b, 'raw, compose_stack_version) bolt \<Rightarrow> string list \<Rightarrow> 'b \<Rightarrow> (dao_error + unit) \<times> 'b" where
  "delete_versions db [] b = (Inr (), b)"
| "delete_versions db (key # keys) b =
     (case Dao_delete db key b of (Inl e, b') \<Rightarrow> (Inl e, b') | (Inr _, b') \<Rightarrow> delete_versions db keys b')"

definition ComposeStackVersionDeleteByStack :: "('b, 'raw, compose_stack_version) bolt \<Rightarrow> string \<Rightarrow> 'b \<Rightarrow> (dao_error + unit) \<times> 'b" where
  "ComposeStackVersionDeleteByStack db stackID b =
     (case Dao_each db (collect db (\<lambda>v. v_StackID v = stackID)) [] b of
        Inl e \<Rightarrow> (Inl e, b) | Inr items \<Rightarrow> delete_versions db (map v_ID items) b)"

definition ComposeStackVersionPrune :: "('b, 'raw, compose_stack_version) bolt \<Rightarrow> string \<Rightarrow> int \<Rightarrow> 'b \<Rightarrow> (dao_error + unit) \<times> 'b" where
  "ComposeStackVersionPrune db stackID keep b =
     (if keep \<le> 0 then (Inr (), b)
      else case ComposeStackVersionList db stackID 0 b of
             Inl e \<Rightarrow> (Inl e, b)
           | Inr items \<Rightarrow>
               if int (length items) \<le> keep then (Inr (), b)
               else delete_versions db (map v_ID (drop (nat keep) items)) b)"

section \<open>The history operations of the business layer\<close>

datatype event = StackEvent string string string operator

record ('sb, 'vb) store =
  stacks :: 'sb
  versions :: 'vb
  calls :: nat
  events :: "event list"

record ('sb, 'sraw, 'vb, 'vraw) env =
  sdb :: "('sb, 'sraw, compose_stack) bolt"
  vdb :: "('vb, 'vraw, compose_stack_version) bolt"
  createId :: "nat \<Rightarrow> string"
  now :: "nat \<Rightarrow> int"

datatype biz_error =
    BizDao dao_error
  | BizError go_error
  | ErrStackNotFound go_error

definition defaultStackVersionRetention :: int where
  "defaultStackVersionRetention = 20"

definition snapshotIfChanged :: "('sb, 'sraw, 'vb, 'vraw) env \<Rightarrow> compose_stack \<Rightarrow> string \<Rightarrow> operator
    \<Rightarrow> ('sb, 'vb) store \<Rightarrow> ('sb, 'vb) store" where
  "snapshotIfChanged e next reason user s =
     (case ComposeStackGet (sdb e) (cs_ID next) (stacks s) of
        Inl _ \<Rightarrow> s
      | Inr None \<Rightarrow> s
      | Inr (Some prev) \<Rightarrow>
          if cs_Content prev = cs_Content next \<and> cs_EnvFile prev = cs_EnvFile next then s
          else
            let revision = (case ComposeStackVersionList (vdb e) (cs_ID next) 1 (versions s) of
                              Inr (w # _) \<Rightarrow> v_Revision w + 1 | _ \<Rightarrow> 1);
                v = \<lparr>v_ID = createId e (calls s), v_StackID = cs_ID next, v_Revision = revision,
                     v_Content = cs_Content prev, v_EnvFile = cs_EnvFile prev, v_Reason = reason,
                     v_CreatedAt = now e (calls s + 1), v_CreatedBy = user\<rparr>;
                s1 = s\<lparr>calls := calls s + 2\<rparr>
            in case ComposeStackVersionCreate (vdb e) v (versions s) of
                 (Inl _, b) \<Rightarrow> s1\<lparr>versions := b\<rparr>
               | (Inr _, b) \<Rightarrow>
                   s1\<lparr>versions := snd (ComposeStackVersionPrune (vdb e) (cs_ID next) defaultStackVersionRetention b)\<rparr>)"

definition ListVersions :: "('sb, 'sraw, 'vb, 'vraw) env \<Rightarrow> string \<Rightarrow> ('sb, 'vb) store \<Rightarrow> biz_error + compose_stack_version list" where
  "ListVersions e stackID s =
     (if stackID = [] then Inl (BizError ''stackId is required'')
      else case ComposeStackVersionList (vdb e) stackID 0 (versions s) of
             Inl err \<Rightarrow> Inl (BizDao err)
           | Inr items \<Rightarrow> Inr (map (\<lambda>v. v\<lparr>v_Content := [], v_EnvFile := []\<rparr>) items))"

definition GetVersion :: "('sb, 'sraw, 'vb, 'vraw) env \<Rightarrow> string \<Rightarrow> ('sb, 'vb) store \<Rightarrow> biz_error + compose_stack_version" where
  "GetVersion e versionID s =
     (if versionID = [] then Inl (BizError ''versionId is required'')
      else case ComposeStackVersionGet (vdb e) versionID (versions s) of
             Inl err \<Rightarrow> Inl (BizDao err)
           | Inr None \<Rightarrow> Inl (ErrStackNotFound (''stack version '' @ go_quote versionID @ '' not found''))
           | Inr (Some v) \<Rightarrow> Inr v)"

definition RestoreVersion :: "('sb, 'sraw, 'vb, 'vraw) env \<Rightarrow> string \<Rightarrow> string \<Rightarrow> operator
    \<Rightarrow> ('sb, 'vb) store \<Rightarrow> (biz_error + unit) \<times> ('sb, 'vb) store" where
  "RestoreVersion e stackID versionID user s =
     (if stackID = [] \<or> versionID = [] then (Inl (BizError ''stackId and versionId are required''), s)
      else case ComposeStackVersionGet (vdb e) versionID (versions s) of
        Inl err \<Rightarrow> (Inl (BizDao err), s)
      | Inr None \<Rightarrow> (Inl (ErrStackNotFound (''stack version '' @ go_quote versionID @ '' not found for stack '' @ go_quote stackID)), s)
      | Inr (Some version) \<Rightarrow>
          if v_StackID version \<noteq> stackID
          then (Inl (ErrStackNotFound (''stack version '' @ go_quote versionID @ '' not found for stack '' @ go_quote stackID)), s)
          else case ComposeStackGet (sdb e) stackID (stacks s) of
            Inl err \<Rightarrow> (Inl (BizDao err), s)
          | Inr None \<Rightarrow> (Inl (ErrStackNotFound (''stack '' @ go_quote stackID @ '' not found'')), s)
          | Inr (Some current) \<Rightarrow>
              if cs_Content current = v_Content version \<and> cs_EnvFile current = v_EnvFile version
              then (Inr (), s)
              else
                let synthetic = \<lparr>cs_ID = cs_ID current, cs_HostID = [], cs_Name = [],
                      cs_Content = v_Content version, cs_EnvFile = v_EnvFile version, cs_Status = [],
                      cs_ErrorMessage = [], cs_LastWarnings = [], cs_DisableRegistryCache = False,
                      cs_CreatedAt = 0, cs_UpdatedAt = 0, cs_CreatedBy = \<lparr>op_ID = [], op_Name = []\<rparr>,
                      cs_UpdatedBy = \<lparr>op_ID = [], op_Name = []\<rparr>\<rparr>;
                    s1 = snapshotIfChanged e synthetic (''restore:rev'' @ show_int (v_Revision version)) user s;
                    current' = current\<lparr>cs_Content := v_Content version, cs_EnvFile := v_EnvFile version,
                      cs_UpdatedAt := now e (calls s1), cs_UpdatedBy := user\<rparr>;
                    s2 = s1\<lparr>calls := calls s1 + 1\<rparr>
                in case ComposeStackUpdate (sdb e) current' (stacks s2) of
                     (Inl err, b) \<Rightarrow> (Inl (BizDao err), s2\<lparr>stacks := b\<rparr>)
                   | (Inr _, b) \<Rightarrow>
                       (Inr (), s2\<lparr>stacks := b,
                         events := events s2 @ [StackEvent ''Update'' (cs_HostID current) (cs_Name current) user]\<rparr>))"

section \<open>The invariant of the history\<close>

text \<open>Every record lies under its own id, and no stack has two versions of one revision.\<close>

definition history_inv :: "('b, 'raw, compose_stack_version) bolt \<Rightarrow> 'b \<Rightarrow> bool" where
  "history_inv db b \<longleftrightarrow>
     readable db b \<and> (\<forall>k v. recs db b k = Some v \<longrightarrow> v_ID v = k) \<and>
     (\<forall>k v k' v'. recs db b k = Some v \<longrightarrow> recs db b k' = Some v' \<longrightarrow>
        v_StackID v = v_StackID v' \<longrightarrow> v_Revision v = v_Revision v' \<longrightarrow> k = k')"

text \<open>The history of a stack, newest revision first.\<close>

definition history :: "('b, 'raw, compose_stack_version) bolt \<Rightarrow> 'b \<Rightarrow> string \<Rightarrow> compose_stack_version list" where
  "history db b stackID = sort_key (\<lambda>v. - v_Revision v) (filter (\<lambda>v. v_StackID v = stackID) (vals db b))"

lemma sorted_by_key_unique:
  fixes f :: "'a \<Rightarrow> int"
  assumes "sorted (map f xs)" and "sorted (map f ys)" and "distinct xs" and "distinct ys"
    and "set xs = set ys" and "inj_on f (set xs)"
  shows "xs = ys"
proof -
  have "map f xs = map f ys"
    using assms by (intro sorted_distinct_set_unique) (auto simp: distinct_map)
  with assms show ?thesis by (metis inj_on_map_eq_map sup.idem)
qed

locale version_bucket = bolt_bucket db
  for db :: "('b, 'raw, compose_stack_version) bolt"
begin

lemma set_history:
  "readable db b \<Longrightarrow> v \<in> set (history db b sid) \<longleftrightarrow> v_StackID v = sid \<and> (\<exists>k. recs db b k = Some v)"
  by (auto simp: history_def set_vals)

lemma in_history:
  "history_inv db b \<Longrightarrow> v \<in> set (history db b sid) \<longleftrightarrow> v_StackID v = sid \<and> recs db b (v_ID v) = Some v"
  by (auto simp: set_history history_inv_def)

lemma sorted_history: "sorted (map (\<lambda>v. - v_Revision v) (history db b sid))"
  by (simp add: history_def)

lemma distinct_history: "history_inv db b \<Longrightarrow> distinct (map v_ID (history db b sid))"
proof -
  assume "history_inv db b"
  then have "distinct (map v_ID (vals db b))"
    by (intro vals_distinct) (auto simp: history_inv_def)
  then have "distinct (map v_ID (filter (\<lambda>v. v_StackID v = sid) (vals db b)))"
    by (rule distinct_map_filter)
  then show ?thesis by (simp add: history_def distinct_map)
qed

lemma inj_history: "history_inv db b \<Longrightarrow> inj_on (\<lambda>v. - v_Revision v) (set (history db b sid))"
  unfolding inj_on_def by (auto simp: in_history) (metis history_inv_def option.inject)

lemma history_eqI:
  assumes "history_inv db b" and "set vs = set (history db b sid)" and "distinct vs"
    and "sorted (map (\<lambda>v. - v_Revision v) vs)"
  shows "history db b sid = vs"
  using assms inj_history [OF assms(1)] distinct_history [OF assms(1)]
  by (intro sorted_by_key_unique [OF sorted_history]) (auto simp: distinct_map)

lemma ComposeStackVersionList_history:
  "history_inv db b \<Longrightarrow>
   ComposeStackVersionList db sid limit b =
     Inr (if limit > 0 then take (nat limit) (history db b sid) else history db b sid)"
  by (auto simp: ComposeStackVersionList_def Dao_each_collect history_inv_def history_def Let_def)

lemma history_inv_put:
  assumes "history_inv db b" and "ComposeStackVersionCreate db v b = (Inr (), b')"
    and "\<forall>w \<in> set (history db b (v_StackID v)). v_Revision w < v_Revision v"
  shows "history_inv db b'"
proof -
  have new: "recs db b' = (recs db b)(v_ID v \<mapsto> v)" "readable db b'"
    using assms Dao_replace_recs by (auto simp: ComposeStackVersionCreate_def history_inv_def)
  have older: "v_Revision w < v_Revision v" if "recs db b k = Some w" "v_StackID w = v_StackID v" for k w
    using assms that by (auto simp: set_history history_inv_def)
  have "k = k'" if "recs db b' k = Some w" "recs db b' k' = Some w'"
    "v_StackID w = v_StackID w'" "v_Revision w = v_Revision w'" for k w k' w'
    using that older [of k w] older [of k' w'] assms(1) unfolding new history_inv_def
    by (auto split: if_splits)
  moreover have "v_ID w = k" if "recs db b' k = Some w" for k w
    using that assms(1) unfolding new history_inv_def by (auto split: if_splits)
  ultimately show ?thesis using new(2) unfolding history_inv_def by blast
qed

lemma history_inv_restrict:
  "history_inv db b \<Longrightarrow> readable db b' \<Longrightarrow> recs db b' = recs db b |` K \<Longrightarrow> history_inv db b'"
  unfolding history_inv_def restrict_map_def by (simp split: if_splits)

lemma history_same:
  assumes "history_inv db b" and "history_inv db b'"
    and "\<And>k v. v_StackID v = sid \<Longrightarrow> recs db b' k = Some v \<longleftrightarrow> recs db b k = Some v"
  shows "history db b' sid = history db b sid"
proof (rule history_eqI [OF assms(2)])
  show "set (history db b sid) = set (history db b' sid)"
    using assms by (auto simp: in_history)
  show "distinct (history db b sid)" using distinct_history [OF assms(1)] by (simp add: distinct_map)
qed (rule sorted_history)

lemma newest_revision:
  assumes "history db b sid = w # ws"
  shows "\<forall>v \<in> set (history db b sid). v_Revision v < v_Revision w + 1"
  using sorted_history [of b sid] unfolding assms by auto

text \<open>Even when deletions fail half way, pruning only removes versions.\<close>

lemma delete_versions_restrict:
  "\<exists>K. recs db (snd (delete_versions db keys b)) = recs db b |` K \<and>
       (readable db b \<longrightarrow> readable db (snd (delete_versions db keys b)))"
proof (induction keys arbitrary: b)
  case Nil
  then show ?case by (intro exI [of _ UNIV]) (simp add: restrict_map_def)
next
  case (Cons key keys)
  obtain r b1 where b1: "Dao_delete db key b = (r, b1)" by fastforce
  show ?case
  proof (cases r)
    case (Inl err)
    with b1 have "b1 = b" by (auto simp: Dao_delete_def db_update_def split: sum.splits)
    with Inl b1 show ?thesis by (intro exI [of _ UNIV]) (simp add: restrict_map_def)
  next
    case (Inr u)
    with b1 have "Dao_delete db key b = (Inr (), b1)" by simp
    from Dao_delete_recs [OF this] have b1': "recs db b1 = recs db b |` (- {key})"
      "readable db b \<Longrightarrow> readable db b1" by (auto simp: restrict_map_def fun_eq_iff)
    obtain K where "recs db (snd (delete_versions db keys b1)) = recs db b1 |` K"
      "readable db b1 \<longrightarrow> readable db (snd (delete_versions db keys b1))" using Cons by blast
    with b1 b1' Inr show ?thesis by (intro exI [of _ "- {key} \<inter> K"]) simp
  qed
qed

lemma history_inv_Prune:
  "history_inv db b \<Longrightarrow> history_inv db (snd (ComposeStackVersionPrune db sid keep b))"
  using history_inv_restrict [of b "snd (delete_versions db (map v_ID (drop (nat keep) (history db b sid))) b)"]
    delete_versions_restrict [of "map v_ID (drop (nat keep) (history db b sid))" b]
  by (auto simp: ComposeStackVersionPrune_def ComposeStackVersionList_history
      dest: history_inv_def [THEN iffD1])

end

text \<open>The same over a bucket of a healthy database.\<close>

locale healthy_versions = version_bucket db + healthy_bucket db
  for db :: "('b, 'raw, compose_stack_version) bolt"
begin

lemma delete_versions_recs:
  "\<exists>b'. delete_versions db keys b = (Inr (), b') \<and> recs db b' = recs db b |` (- set keys) \<and>
        (readable db b \<longrightarrow> readable db b')"
proof (induction keys arbitrary: b)
  case (Cons key keys)
  obtain b1 where b1: "Dao_delete db key b = (Inr (), b1)" using Dao_delete_total by blast
  from Cons [of b1] Dao_delete_recs [OF b1] b1 show ?case
    by (auto simp: restrict_map_def fun_eq_iff)
qed (simp add: restrict_map_def)

text \<open>Pruning keeps exactly the newest versions of the stack and nothing else is lost.\<close>

lemma ComposeStackVersionPrune_history:
  assumes inv: "history_inv db b" and "keep > 0"
  shows "\<exists>b'. ComposeStackVersionPrune db sid keep b = (Inr (), b') \<and> history_inv db b' \<and>
           history db b' sid = take (nat keep) (history db b sid) \<and>
           (\<forall>k. (\<forall>v. recs db b k = Some v \<longrightarrow> v_StackID v \<noteq> sid) \<longrightarrow> recs db b' k = recs db b k) \<and>
           (\<forall>k. recs db b' k = None \<or> recs db b' k = recs db b k)"
proof (cases "int (length (history db b sid)) \<le> keep")
  case True
  then show ?thesis
    using assms by (auto simp: ComposeStackVersionPrune_def ComposeStackVersionList_history)
next
  case False
  let ?h = "history db b sid" and ?keys = "map v_ID (drop (nat keep) (history db b sid))"
  obtain b' where b': "delete_versions db ?keys b = (Inr (), b')" "recs db b' = recs db b |` (- set ?keys)"
    "readable db b'" using delete_versions_recs [of ?keys b] inv by (auto simp: history_inv_def)
  have inv': "history_inv db b'" using history_inv_restrict [OF inv b'(3,2)] .
  have dist: "distinct (map v_ID (take (nat keep) ?h) @ ?keys)"
    using distinct_history [OF inv] by (simp flip: map_append)
  have "v \<in> set (history db b' sid) \<longleftrightarrow> v \<in> set ?h \<and> v_ID v \<notin> set ?keys" for v
    by (auto simp: in_history [OF inv'] in_history [OF inv] b'(2) restrict_map_def)
  moreover have "v \<in> set ?h \<and> v_ID v \<notin> set ?keys \<longleftrightarrow> v \<in> set (take (nat keep) ?h)" for v
    using dist set_append [of "take (nat keep) ?h" "drop (nat keep) ?h"] by auto
  ultimately have "history db b' sid = take (nat keep) ?h"
    using distinct_history [OF inv] sorted_wrt_take [OF sorted_history [of b sid]]
    by (intro history_eqI [OF inv']) (auto simp: distinct_map take_map)
  moreover have "recs db b' k = recs db b k" if "\<forall>v. recs db b k = Some v \<longrightarrow> v_StackID v \<noteq> sid" for k
    using that in_history [OF inv] inv by (cases "recs db b k")
      (auto simp: b'(2) restrict_map_def dest: in_set_dropD)
  ultimately show ?thesis
    using False assms b'(1,2) inv'
    by (auto simp: ComposeStackVersionPrune_def ComposeStackVersionList_history restrict_map_def)
qed

text \<open>Storing a version newer than the stack's others puts it in front of the history.\<close>

lemma ComposeStackVersionCreate_history:
  assumes inv: "history_inv db b" and fresh: "recs db b (v_ID v) = None"
    and newer: "\<forall>w \<in> set (history db b (v_StackID v)). v_Revision w < v_Revision v"
  shows "\<exists>b'. ComposeStackVersionCreate db v b = (Inr (), b') \<and> history_inv db b' \<and>
           recs db b' = (recs db b)(v_ID v \<mapsto> v) \<and>
           history db b' (v_StackID v) = v # history db b (v_StackID v)"
proof -
  obtain b' where b': "ComposeStackVersionCreate db v b = (Inr (), b')"
    using Dao_replace_total unfolding ComposeStackVersionCreate_def by blast
  have inv': "history_inv db b'" using history_inv_put [OF inv b' newer] .
  have r: "recs db b' = (recs db b)(v_ID v \<mapsto> v)"
    using b' Dao_replace_recs(1) unfolding ComposeStackVersionCreate_def by blast
  have "history db b' (v_StackID v) = v # history db b (v_StackID v)"
  proof (rule history_eqI [OF inv'])
    show "set (v # history db b (v_StackID v)) = set (history db b' (v_StackID v))"
    proof (rule set_eqI)
      fix w
      show "w \<in> set (v # history db b (v_StackID v)) \<longleftrightarrow> w \<in> set (history db b' (v_StackID v))"
        unfolding in_history [OF inv'] r using fresh in_history [OF inv, of w "v_StackID v"]
        by (cases "w = v"; cases "v_ID w = v_ID v") simp_all
    qed
    show "distinct (v # history db b (v_StackID v))"
      using distinct_history [OF inv] newer by (auto simp: distinct_map)
    show "sorted (map (\<lambda>v. - v_Revision v) (v # history db b (v_StackID v)))"
      using newer sorted_history by (auto simp: less_imp_le)
  qed
  with b' inv' r show ?thesis by blast
qed

end

interpretation sorted_versions: healthy_versions sorted_bolt ..

section \<open>Snapshots and restores\<close>

text \<open>The environment of the history operations: two buckets, which may refuse writes.\<close>

locale history_env = sb: bolt_bucket "sdb e" + vb: version_bucket "vdb e"
  for e :: "('sb, 'sraw, 'vb, 'vraw) env"
begin

lemma snapshot_inv:
  assumes inv: "history_inv (vdb e) (versions s)"
  shows "history_inv (vdb e) (versions (snapshotIfChanged e next reason user s))"
proof -
  have put: "history_inv (vdb e) (snd (ComposeStackVersionCreate (vdb e) v (versions s)))"
    if "\<forall>w \<in> set (history (vdb e) (versions s) (v_StackID v)). v_Revision w < v_Revision v" for v
  proof (cases "ComposeStackVersionCreate (vdb e) v (versions s)")
    case (Pair r b)
    show ?thesis
    proof (cases r)
      case (Inl err)
      with Pair have "b = versions s"
        by (auto simp: ComposeStackVersionCreate_def Dao_replace_def db_update_def split: sum.splits)
      with Pair inv show ?thesis by simp
    next
      case (Inr u)
      with vb.history_inv_put [OF inv _ that, of b] Pair show ?thesis by simp
    qed
  qed
  have newer: "\<forall>w \<in> set (history (vdb e) (versions s) (cs_ID next)).
      v_Revision w < (case take 1 (history (vdb e) (versions s) (cs_ID next)) of w # _ \<Rightarrow> v_Revision w + 1 | _ \<Rightarrow> 1)"
    using vb.newest_revision [of "versions s" "cs_ID next"]
    by (cases "history (vdb e) (versions s) (cs_ID next)") auto
  show ?thesis
    using inv put [of "\<lparr>v_ID = _, v_StackID = cs_ID next, v_Revision = _, v_Content = _, v_EnvFile = _,
        v_Reason = _, v_CreatedAt = _, v_CreatedBy = _\<rparr>"] newer
    by (auto simp: snapshotIfChanged_def vb.ComposeStackVersionList_history Let_def
        split: sum.splits option.splits prod.splits
        intro!: vb.history_inv_Prune) (metis snd_conv)+
qed

lemma RestoreVersion_inv:
  "history_inv (vdb e) (versions s) \<Longrightarrow>
   history_inv (vdb e) (versions (snd (RestoreVersion e stackID versionID user s)))"
  by (auto simp: RestoreVersion_def Let_def snapshot_inv split: sum.splits option.splits prod.splits)

end

text \<open>The same environment with a healthy database.\<close>

locale healthy_env = history_env e + healthy_bucket "sdb e" + vb: healthy_versions "vdb e"
  for e :: "('sb, 'sraw, 'vb, 'vraw) env"
begin

lemma snapshot_unchanged:
  assumes "readable (sdb e) (stacks s)"
    and "\<And>prev. recs (sdb e) (stacks s) (cs_ID next) = Some prev \<Longrightarrow>
           cs_Content prev = cs_Content next \<and> cs_EnvFile prev = cs_EnvFile next"
  shows "snapshotIfChanged e next reason user s = s"
  using assms
  by (auto simp: snapshotIfChanged_def ComposeStackGet_def sb.Dao_get_opt_readable split: option.splits)

lemma snapshot_changed:
  fixes reason :: string and user :: operator
  assumes inv: "history_inv (vdb e) (versions s)" and rd: "readable (sdb e) (stacks s)"
    and prev: "recs (sdb e) (stacks s) (cs_ID target) = Some prev"
    and changed: "cs_Content prev \<noteq> cs_Content target \<or> cs_EnvFile prev \<noteq> cs_EnvFile target"
    and fresh: "recs (vdb e) (versions s) (createId e (calls s)) = None"
  defines "s' \<equiv> snapshotIfChanged e target reason user s"
  shows "history_inv (vdb e) (versions s') \<and> stacks s' = stacks s \<and> events s' = events s \<and>
    calls s' = calls s + 2 \<and>
    (\<exists>v. v_ID v = createId e (calls s) \<and> v_StackID v = cs_ID target \<and> v_Content v = cs_Content prev \<and> v_EnvFile v = cs_EnvFile prev \<and>
         v_Reason v = reason \<and> v_CreatedBy v = user \<and>
         (\<forall>w \<in> set (history (vdb e) (versions s) (cs_ID target)). v_Revision w < v_Revision v) \<and>
         history (vdb e) (versions s') (cs_ID target) = take 20 (v # history (vdb e) (versions s) (cs_ID target))) \<and>
    (\<forall>sid. sid \<noteq> cs_ID target \<longrightarrow> history (vdb e) (versions s') sid = history (vdb e) (versions s) sid)"
proof -
  let ?h = "history (vdb e) (versions s) (cs_ID target)"
  define rev where "rev = (case take 1 ?h of w # _ \<Rightarrow> v_Revision w + 1 | _ \<Rightarrow> 1)"
  define v where "v = \<lparr>v_ID = createId e (calls s), v_StackID = cs_ID target, v_Revision = rev,
    v_Content = cs_Content prev, v_EnvFile = cs_EnvFile prev, v_Reason = reason,
    v_CreatedAt = now e (calls s + 1), v_CreatedBy = user\<rparr>"
  have newer: "\<forall>w \<in> set (history (vdb e) (versions s) (v_StackID v)). v_Revision w < v_Revision v"
    using vb.newest_revision [of "versions s" "cs_ID target"] by (cases ?h) (auto simp: v_def rev_def)
  obtain b1 where b1: "ComposeStackVersionCreate (vdb e) v (versions s) = (Inr (), b1)"
    "history_inv (vdb e) b1" "recs (vdb e) b1 = (recs (vdb e) (versions s))(v_ID v \<mapsto> v)"
    "history (vdb e) b1 (cs_ID target) = v # ?h"
    using vb.ComposeStackVersionCreate_history [OF inv _ newer] fresh by (auto simp: v_def)
  obtain b2 where b2: "ComposeStackVersionPrune (vdb e) (cs_ID target) 20 b1 = (Inr (), b2)"
    "history_inv (vdb e) b2" "history (vdb e) b2 (cs_ID target) = take 20 (v # ?h)"
    "\<forall>k. (\<forall>w. recs (vdb e) b1 k = Some w \<longrightarrow> v_StackID w \<noteq> cs_ID target) \<longrightarrow>
      recs (vdb e) b2 k = recs (vdb e) b1 k"
    "\<forall>k. recs (vdb e) b2 k = None \<or> recs (vdb e) b2 k = recs (vdb e) b1 k"
    using vb.ComposeStackVersionPrune_history [OF b1(2), of 20 "cs_ID target"] b1(4) by auto
  have s': "s' = s\<lparr>calls := calls s + 2, versions := b2\<rparr>"
    using prev changed b1(1) b2(1) inv rd
    by (auto simp: s'_def snapshotIfChanged_def ComposeStackGet_def sb.Dao_get_opt_readable
        vb.ComposeStackVersionList_history defaultStackVersionRetention_def Let_def
        rev_def v_def split: list.splits)
  have "history (vdb e) b2 sid = history (vdb e) (versions s) sid" if "sid \<noteq> cs_ID target" for sid
  proof (rule vb.history_same [OF inv b2(2)])
    fix k :: string and w :: compose_stack_version assume "v_StackID w = sid"
    with that have "recs (vdb e) b1 k = Some w \<longleftrightarrow> recs (vdb e) (versions s) k = Some w"
      using fresh by (auto simp: b1(3) v_def)
    moreover have "recs (vdb e) b2 k = Some w \<longleftrightarrow> recs (vdb e) b1 k = Some w"
      using that b2(4) b2(5) \<open>v_StackID w = sid\<close> by (metis option.distinct(1) option.inject)
    ultimately show "recs (vdb e) b2 k = Some w \<longleftrightarrow> recs (vdb e) (versions s) k = Some w" by simp
  qed
  then show ?thesis
    using b2 newer by (auto simp: s' v_def intro!: exI [of _ v])
qed

lemma RestoreVersion_ok:
  assumes inv: "history_inv (vdb e) (versions s)" and rd: "readable (sdb e) (stacks s)"
    and version: "recs (vdb e) (versions s) versionID = Some version" "v_StackID version = stackID"
    and current: "recs (sdb e) (stacks s) stackID = Some current" "cs_ID current = stackID"
    and ids: "stackID \<noteq> []" "versionID \<noteq> []"
    and changed: "cs_Content current \<noteq> v_Content version \<or> cs_EnvFile current \<noteq> v_EnvFile version"
    and fresh: "recs (vdb e) (versions s) (createId e (calls s)) = None"
  shows "\<exists>s' v t. RestoreVersion e stackID versionID user s = (Inr (), s') \<and> calls s' = calls s + 3 \<and>
    history_inv (vdb e) (versions s') \<and> readable (sdb e) (stacks s') \<and>
    recs (sdb e) (stacks s') = (recs (sdb e) (stacks s))(stackID \<mapsto>
      current\<lparr>cs_Content := v_Content version, cs_EnvFile := v_EnvFile version, cs_UpdatedAt := t, cs_UpdatedBy := user\<rparr>) \<and>
    history (vdb e) (versions s') stackID = take 20 (v # history (vdb e) (versions s) stackID) \<and>
    v_ID v = createId e (calls s) \<and> v_StackID v = stackID \<and>
    v_Content v = cs_Content current \<and> v_EnvFile v = cs_EnvFile current \<and>
    v_Reason v = ''restore:rev'' @ show_int (v_Revision version) \<and>
    (\<forall>sid. sid \<noteq> stackID \<longrightarrow> history (vdb e) (versions s') sid = history (vdb e) (versions s) sid)"
proof -
  define target where "target = \<lparr>cs_ID = cs_ID current, cs_HostID = [], cs_Name = [],
      cs_Content = v_Content version, cs_EnvFile = v_EnvFile version, cs_Status = [],
      cs_ErrorMessage = [], cs_LastWarnings = [], cs_DisableRegistryCache = False,
      cs_CreatedAt = 0, cs_UpdatedAt = 0, cs_CreatedBy = \<lparr>op_ID = [], op_Name = []\<rparr>,
      cs_UpdatedBy = \<lparr>op_ID = [], op_Name = []\<rparr>\<rparr>"
  have nxt: "cs_ID target = stackID" "cs_Content target = v_Content version" "cs_EnvFile target = v_EnvFile version"
    using current by (simp_all add: target_def)
  define s1 where "s1 = snapshotIfChanged e target (''restore:rev'' @ show_int (v_Revision version)) user s"
  have snap: "history_inv (vdb e) (versions s1)" "stacks s1 = stacks s" "events s1 = events s"
    "calls s1 = calls s + 2"
    "\<exists>v. v_ID v = createId e (calls s) \<and> v_StackID v = stackID \<and> v_Content v = cs_Content current \<and>
       v_EnvFile v = cs_EnvFile current \<and> v_Reason v = ''restore:rev'' @ show_int (v_Revision version) \<and>
       history (vdb e) (versions s1) stackID = take 20 (v # history (vdb e) (versions s) stackID)"
    "\<forall>sid. sid \<noteq> stackID \<longrightarrow> history (vdb e) (versions s1) sid = history (vdb e) (versions s) sid"
    unfolding s1_def
    using snapshot_changed [where target = target and prev = current and s = s and user = user
        and reason = "''restore:rev'' @ show_int (v_Revision version)", unfolded nxt,
        OF inv rd current(1) changed fresh]
    by (simp_all, fast?)
  let ?new = "current\<lparr>cs_Content := v_Content version, cs_EnvFile := v_EnvFile version,
      cs_UpdatedAt := now e (calls s1), cs_UpdatedBy := user\<rparr>"
  let ?keep = "\<lambda>old. ?new\<lparr>cs_CreatedAt := cs_CreatedAt old, cs_CreatedBy := cs_CreatedBy old,
                   cs_Status := (if cs_Status ?new = [] then cs_Status old else cs_Status ?new)\<rparr>"
  obtain b where b: "Dao_update (sdb e) stackID ?keep (stacks s1) = (Inr (), b)"
    using Dao_update_total [of "stacks s1" stackID current ?keep] rd current(1) unfolding snap(2) by blast
  then have upd: "ComposeStackUpdate (sdb e) ?new (stacks s1) = (Inr (), b)"
    using current(2) by (simp add: ComposeStackUpdate_def)
  have "recs (sdb e) b = (recs (sdb e) (stacks s))(stackID \<mapsto> ?new)" "readable (sdb e) b"
    using sb.Dao_update_recs(1) [OF b] sb.Dao_update_recs(2) [OF b] rd
    by (auto simp only: snap(2) current(1) option.inject) (simp cong: if_cong)
  moreover have "RestoreVersion e stackID versionID user s =
    (Inr (), s1\<lparr>calls := calls s1 + 1, stacks := b,
       events := events s1 @ [StackEvent ''Update'' (cs_HostID current) (cs_Name current) user]\<rparr>)"
    using ids changed version current rd inv upd
    by (auto simp: RestoreVersion_def ComposeStackVersionGet_def ComposeStackGet_def
        vb.Dao_get_opt_readable sb.Dao_get_opt_readable history_inv_def Let_def s1_def target_def)
  ultimately show ?thesis using snap by simp blast
qed

lemma restored_versions:
  assumes inv: "history_inv (vdb e) (versions s)" and inv': "history_inv (vdb e) (versions s')"
    and same: "\<forall>sid. sid \<noteq> stackID \<longrightarrow> history (vdb e) (versions s') sid = history (vdb e) (versions s) sid"
    and new: "history (vdb e) (versions s') stackID = take 20 (v # history (vdb e) (versions s) stackID)"
    and "v_StackID v = stackID"
  shows "recs (vdb e) (versions s') (v_ID v) = Some v"
    and "recs (vdb e) (versions s) key = None \<Longrightarrow> key \<noteq> v_ID v \<Longrightarrow> recs (vdb e) (versions s') key = None"
proof -
  have "v \<in> set (history (vdb e) (versions s') stackID)" unfolding new by simp
  then show "recs (vdb e) (versions s') (v_ID v) = Some v" by (simp add: vb.in_history [OF inv'])
next
  assume old: "recs (vdb e) (versions s) key = None" and ne: "key \<noteq> v_ID v"
  show "recs (vdb e) (versions s') key = None"
  proof (rule ccontr)
    assume "recs (vdb e) (versions s') key \<noteq> None"
    then obtain w where w: "recs (vdb e) (versions s') key = Some w" by blast
    with inv' have key: "v_ID w = key" by (simp add: history_inv_def)
    with w have "w \<in> set (history (vdb e) (versions s') (v_StackID w))" by (simp add: vb.in_history [OF inv'])
    then have "w = v \<or> w \<in> set (history (vdb e) (versions s) (v_StackID w))"
      using same new by (cases "v_StackID w = stackID") (auto dest: in_set_takeD)
    with key ne old show False by (auto simp: vb.in_history [OF inv])
  qed
qed

lemma RestoreVersion_undo:
  assumes inv: "history_inv (vdb e) (versions s)" and rd: "readable (sdb e) (stacks s)"
    and version: "recs (vdb e) (versions s) versionID = Some version" "v_StackID version = stackID"
    and current: "recs (sdb e) (stacks s) stackID = Some current" "cs_ID current = stackID"
    and ids: "stackID \<noteq> []" "versionID \<noteq> []" "createId e (calls s) \<noteq> []"
    and changed: "cs_Content current \<noteq> v_Content version \<or> cs_EnvFile current \<noteq> v_EnvFile version"
    and fresh: "\<forall>n. recs (vdb e) (versions s) (createId e n) = None" "inj (createId e)"
  shows "\<exists>s1 s2 mid final.
    RestoreVersion e stackID versionID user s = (Inr (), s1) \<and>
    recs (sdb e) (stacks s1) stackID = Some mid \<and>
    cs_Content mid = v_Content version \<and> cs_EnvFile mid = v_EnvFile version \<and> cs_Status mid = cs_Status current \<and>
    RestoreVersion e stackID (createId e (calls s)) user s1 = (Inr (), s2) \<and>
    recs (sdb e) (stacks s2) = (recs (sdb e) (stacks s))(stackID \<mapsto> final) \<and>
    cs_Content final = cs_Content current \<and> cs_EnvFile final = cs_EnvFile current"
proof -
  obtain s1 v t where s1: "RestoreVersion e stackID versionID user s = (Inr (), s1)" "calls s1 = calls s + 3"
    "history_inv (vdb e) (versions s1)" "readable (sdb e) (stacks s1)"
    "recs (sdb e) (stacks s1) = (recs (sdb e) (stacks s))(stackID \<mapsto>
      current\<lparr>cs_Content := v_Content version, cs_EnvFile := v_EnvFile version, cs_UpdatedAt := t, cs_UpdatedBy := user\<rparr>)"
    "history (vdb e) (versions s1) stackID = take 20 (v # history (vdb e) (versions s) stackID)"
    "v_ID v = createId e (calls s)" "v_StackID v = stackID"
    "v_Content v = cs_Content current" "v_EnvFile v = cs_EnvFile current"
    "\<forall>sid. sid \<noteq> stackID \<longrightarrow> history (vdb e) (versions s1) sid = history (vdb e) (versions s) sid"
    using RestoreVersion_ok [OF inv rd version current ids(1,2) changed fresh(1) [rule_format], of user]
    by (elim exE conjE) (rule that; assumption)
  have "recs (vdb e) (versions s1) (createId e (calls s)) = Some v"
    using restored_versions(1) [OF inv s1(3,11,6,8)] s1(7) by simp
  moreover have "createId e (calls s1) \<noteq> v_ID v"
    using fresh(2) s1(2,7) by (auto dest: injD)
  then have "recs (vdb e) (versions s1) (createId e (calls s1)) = None"
    using restored_versions(2) [OF inv s1(3,11,6,8)] fresh(1) by blast
  ultimately obtain s2 t2 where "RestoreVersion e stackID (createId e (calls s)) user s1 = (Inr (), s2)"
    "recs (sdb e) (stacks s2) = (recs (sdb e) (stacks s1))(stackID \<mapsto>
      current\<lparr>cs_Content := v_Content v, cs_EnvFile := v_EnvFile v, cs_UpdatedAt := t2, cs_UpdatedBy := user\<rparr>)"
    using RestoreVersion_ok [OF s1(3,4), of "createId e (calls s)" v stackID
        "current\<lparr>cs_Content := v_Content version, cs_EnvFile := v_EnvFile version, cs_UpdatedAt := t, cs_UpdatedBy := user\<rparr>" user]
      s1 current ids changed by auto
  with s1 show ?thesis by auto
qed

end

definition sorted_environment :: "(nat \<Rightarrow> string) \<Rightarrow> (nat \<Rightarrow> int)
    \<Rightarrow> (compose_stack bucket, compose_stack, compose_stack_version bucket, compose_stack_version) env" where
  "sorted_environment fresh clock = \<lparr>sdb = sorted_bolt, vdb = sorted_bolt, createId = fresh, now = clock\<rparr>"

lemma sorted_environment_simps [simp]:
  "sdb (sorted_environment fresh clock) = sorted_bolt" "vdb (sorted_environment fresh clock) = sorted_bolt"
  "createId (sorted_environment fresh clock) = fresh" "now (sorted_environment fresh clock) = clock"
  by (simp_all add: sorted_environment_def)

interpretation sorted_env: healthy_env "sorted_environment fresh clock"
  for fresh :: "nat \<Rightarrow> string" and clock :: "nat \<Rightarrow> int"
  by (simp add: healthy_env_def history_env_def sorted.bolt_bucket_axioms sorted.healthy_bucket_axioms
      sorted_versions.version_bucket_axioms sorted_versions.healthy_versions_axioms)

section \<open>Properties\<close>

text \<open>Saving a changed stack first stores its previous content as a new version, newer than
  every other version of the stack.  The stack keeps its 20 newest versions, and the histories
  of all other stacks and the stacks themselves are unchanged.\<close>

theorem snapshotIfChanged_keeps_previous:
  assumes "healthy_env e" and "history_inv (vdb e) (versions s)" and "readable (sdb e) (stacks s)"
    and "recs (sdb e) (stacks s) (cs_ID target) = Some prev"
    and "cs_Content prev \<noteq> cs_Content target \<or> cs_EnvFile prev \<noteq> cs_EnvFile target"
    and "recs (vdb e) (versions s) (createId e (calls s)) = None"
  shows "\<exists>v s'. s' = snapshotIfChanged e target reason user s \<and>
    v_StackID v = cs_ID target \<and> v_Content v = cs_Content prev \<and> v_EnvFile v = cs_EnvFile prev \<and> v_Reason v = reason \<and>
    (\<forall>w \<in> set (history (vdb e) (versions s) (cs_ID target)). v_Revision w < v_Revision v) \<and>
    history (vdb e) (versions s') (cs_ID target) = take 20 (v # history (vdb e) (versions s) (cs_ID target)) \<and>
    (\<forall>sid. sid \<noteq> cs_ID target \<longrightarrow> history (vdb e) (versions s') sid = history (vdb e) (versions s) sid) \<and>
    stacks s' = stacks s"
  using healthy_env.snapshot_changed [OF assms, of reason user] by blast

text \<open>C34: A restore can be undone: it saves the current content under a fresh id, and restoring
  that version brings the content and the env file of the stack back; the status is kept and no
  other stack changes.\<close>

theorem RestoreVersion_reversible:
  assumes "healthy_env e" and "history_inv (vdb e) (versions s)" and "readable (sdb e) (stacks s)"
    and "recs (vdb e) (versions s) versionID = Some version" and "v_StackID version = stackID"
    and "recs (sdb e) (stacks s) stackID = Some current" and "cs_ID current = stackID"
    and "stackID \<noteq> []" and "versionID \<noteq> []" and "createId e (calls s) \<noteq> []"
    and "cs_Content current \<noteq> v_Content version \<or> cs_EnvFile current \<noteq> v_EnvFile version"
    and "\<forall>n. recs (vdb e) (versions s) (createId e n) = None" and "inj (createId e)"
  shows "\<exists>s1 s2 mid final.
    RestoreVersion e stackID versionID user s = (Inr (), s1) \<and>
    recs (sdb e) (stacks s1) stackID = Some mid \<and>
    cs_Content mid = v_Content version \<and> cs_EnvFile mid = v_EnvFile version \<and> cs_Status mid = cs_Status current \<and>
    RestoreVersion e stackID (createId e (calls s)) user s1 = (Inr (), s2) \<and>
    recs (sdb e) (stacks s2) = (recs (sdb e) (stacks s))(stackID \<mapsto> final) \<and>
    cs_Content final = cs_Content current \<and> cs_EnvFile final = cs_EnvFile current"
  using assms by (rule healthy_env.RestoreVersion_undo)

text \<open>Restoring never damages the history, whether or not the storage accepts the writes:
  every version stays under its own id and no stack ever has two versions of one revision.\<close>

theorem RestoreVersion_history_inv:
  assumes "history_env e" and "history_inv (vdb e) (versions s)"
  shows "history_inv (vdb e) (versions (snd (RestoreVersion e stackID versionID user s)))"
  using assms by (rule history_env.RestoreVersion_inv)

definition demo_stack :: compose_stack where
  "demo_stack = \<lparr>cs_ID = ''s1'', cs_HostID = ''h1'', cs_Name = ''web'', cs_Content = ''new'', cs_EnvFile = [],
     cs_Status = ''active'', cs_ErrorMessage = [], cs_LastWarnings = [], cs_DisableRegistryCache = False,
     cs_CreatedAt = 1, cs_UpdatedAt = 2, cs_CreatedBy = \<lparr>op_ID = ''u'', op_Name = ''user''\<rparr>,
     cs_UpdatedBy = \<lparr>op_ID = ''u'', op_Name = ''user''\<rparr>\<rparr>"

definition demo_version :: compose_stack_version where
  "demo_version = \<lparr>v_ID = ''v1'', v_StackID = ''s1'', v_Revision = 3, v_Content = ''old'', v_EnvFile = [],
     v_Reason = ''save'', v_CreatedAt = 1, v_CreatedBy = \<lparr>op_ID = ''u'', op_Name = ''user''\<rparr>\<rparr>"

definition demo_store :: "(compose_stack bucket, compose_stack_version bucket) store" where
  "demo_store = \<lparr>stacks = bucket_put ''s1'' demo_stack empty_bucket,
     versions = bucket_put ''v1'' demo_version empty_bucket, calls = 0, events = []\<rparr>"

definition demo_env :: "(compose_stack bucket, compose_stack, compose_stack_version bucket, compose_stack_version) env" where
  "demo_env = sorted_environment (\<lambda>n. replicate (n + 3) (CHR ''x'')) int"

lemma demo_facts:
  "healthy_env demo_env" "history_env demo_env"
  "history_inv (vdb demo_env) (versions demo_store)" "readable (sdb demo_env) (stacks demo_store)"
  "recs (vdb demo_env) (versions demo_store) ''v1'' = Some demo_version"
  "recs (sdb demo_env) (stacks demo_store) ''s1'' = Some demo_stack"
  "\<forall>n. recs (vdb demo_env) (versions demo_store) (createId demo_env n) = None" "inj (createId demo_env)"
  by (auto simp: demo_env_def demo_store_def sorted_env.healthy_env_axioms sorted_env.history_env_axioms
      history_inv_def readable_def recs_def Dao_get_def bucket_eval inj_on_def demo_version_def
      split: if_splits option.splits dest: arg_cong [where f = length])

theorem snapshotIfChanged_keeps_previous_witness:
  "\<exists>v. v_Content v = ''new'' \<and>
     history (vdb demo_env) (versions (snapshotIfChanged demo_env (demo_stack\<lparr>cs_Content := ''newer''\<rparr>) ''save'' (cs_CreatedBy demo_stack) demo_store)) ''s1'' =
       take 20 (v # history (vdb demo_env) (versions demo_store) ''s1'')"
  using snapshotIfChanged_keeps_previous [OF demo_facts(1,3,4), where target = "demo_stack\<lparr>cs_Content := ''newer''\<rparr>"
      and prev = demo_stack and reason = "''save''" and user = "cs_CreatedBy demo_stack"] demo_facts(6,7)
  by (auto simp: demo_stack_def)

theorem RestoreVersion_reversible_witness:
  "\<exists>s1 s2 final. RestoreVersion demo_env ''s1'' ''v1'' (cs_CreatedBy demo_stack) demo_store = (Inr (), s1) \<and>
     RestoreVersion demo_env ''s1'' ''xxx'' (cs_CreatedBy demo_stack) s1 = (Inr (), s2) \<and>
     recs (sdb demo_env) (stacks s2) ''s1'' = Some final \<and> cs_Content final = ''new''"
proof -
  have "createId demo_env (calls demo_store) = ''xxx''"
    by (simp add: demo_env_def demo_store_def numeral_3_eq_3)
  then show ?thesis
    using RestoreVersion_reversible [OF demo_facts(1,3,4,5) _ demo_facts(6) _ _ _ _ _ demo_facts(7,8),
        where user = "cs_CreatedBy demo_stack"]
    by (fastforce simp: demo_stack_def demo_version_def)
qed

theorem RestoreVersion_history_inv_witness:
  "history_inv (vdb demo_env) (versions (snd (RestoreVersion demo_env ''s1'' ''v1'' (cs_CreatedBy demo_stack) demo_store)))"
  by (rule RestoreVersion_history_inv [OF demo_facts(2,3)])

end
