(* ===== verification/Permissions.thy ===== *)
theory Permissions
  imports GoPrelude "HOL-Library.Word"
begin

text \<open>
  The permission model of security/perm.go: the tables of resources and actions, the bitmap of
  a set of permissions, and the authorization filter.  A \<open>PermMap\<close> is a 64-bit word: the
  actions in the 24 low bits, the resources above them.  A Go map lookup of an absent key gives
  the zero value.
\<close>

section \<open>The tables\<close>

definition ActionBits :: nat where
  "ActionBits = 24"

definition Resources :: "(string \<times> 64 word) list" where
  "Resources =
    [(''registry'', 1),
     (''node'', push_bit 1 1),
     (''network'', push_bit 2 1),
     (''service'', push_bit 3 1),
     (''task'', push_bit 4 1),
     (''stack'', push_bit 5 1),
     (''config'', push_bit 6 1),
     (''secret'', push_bit 7 1),
     (''image'', push_bit 8 1),
     (''container'', push_bit 9 1),
     (''volume'', push_bit 10 1),
     (''user'', push_bit 11 1),
     (''role'', push_bit 12 1),
     (''chart'', push_bit 13 1),
     (''dashboard'', push_bit 14 1),
     (''event'', push_bit 15 1),
     (''setting'', push_bit 16 1),
     (''host'', push_bit 17 1),
     (''backup'', push_bit 18 1),
     (''vault'', push_bit 19 1),
     (''vault_secret'', push_bit 20 1),
     (''self_deploy'', push_bit 21 1),
     (''federation'', push_bit 22 1),
     (''registry_cache'', push_bit 23 1)]"

definition Actions :: "(string \<times> 64 word) list" where
  "Actions =
    [(''view'', 1),
     (''edit'', push_bit 1 1),
     (''delete'', push_bit 2 1),
     (''disconnect'', push_bit 3 1),
     (''restart'', push_bit 4 1),
     (''rollback'', push_bit 5 1),
     (''logs'', push_bit 6 1),
     (''deploy'', push_bit 7 1),
     (''shutdown'', push_bit 8 1),
     (''execute'', push_bit 9 1),
     (''restore'', push_bit 10 1),
     (''download'', push_bit 11 1),
     (''admin'', push_bit 12 1),
     (''recover'', push_bit 13 1),
     (''push'', push_bit 14 1),
     (''cleanup'', push_bit 15 1)]"

definition Perms :: "(string \<times> string list) list" where
  "Perms =
    [(''registry'', [''view'', ''edit'', ''delete'']),
     (''node'', [''view'', ''edit'', ''delete'']),
     (''network'', [''view'', ''edit'', ''delete'', ''disconnect'']),
     (''service'', [''view'', ''edit'', ''delete'', ''deploy'', ''restart'', ''rollback'', ''logs'']),
     (''task'', [''view'', ''logs'']),
     (''stack'', [''view'', ''edit'', ''delete'', ''deploy'', ''shutdown'']),
     (''config'', [''view'', ''edit'', ''delete'']),
     (''secret'', [''view'', ''edit'', ''delete'']),
     (''image'', [''view'', ''edit'', ''delete'', ''push'']),
     (''container'', [''view'', ''edit'', ''delete'', ''logs'', ''execute'']),
     (''volume'', [''view'', ''edit'', ''delete'']),
     (''user'', [''view'', ''edit'', ''delete'']),
     (''role'', [''view'', ''edit'', ''delete'']),
     (''chart'', [''view'', ''edit'', ''delete'']),
     (''dashboard'', [''edit'']),
     (''event'', [''view'']),
     (''setting'', [''view'', ''edit'']),
     (''host'', [''view'', ''edit'', ''delete'']),
     (''backup'', [''view'', ''edit'', ''delete'', ''restore'', ''download'', ''recover'']),
     (''vault'', [''admin'']),
     (''vault_secret'', [''view'', ''edit'', ''delete'', ''cleanup'']),
     (''self_deploy'', [''view'', ''edit'', ''execute'']),
     (''federation'', [''admin'']),
     (''registry_cache'', [''view'', ''edit''])]"

definition bits_of :: "(string \<times> 64 word) list \<Rightarrow> string \<Rightarrow> 64 word" where
  "bits_of table key = (case map_of table key of Some w \<Rightarrow> w | None \<Rightarrow> 0)"

section \<open>Permission bitmaps\<close>

definition add_perm :: "string \<Rightarrow> 64 word \<Rightarrow> 64 word" where
  "add_perm perm p =
     (case splitN2 perm ''.'' of
        [r, a] \<Rightarrow> or (or p (push_bit ActionBits (bits_of Resources r))) (bits_of Actions a)
      | _ \<Rightarrow> p)"

definition NewPermMap :: "string list \<Rightarrow> 64 word" where
  "NewPermMap perms = fold add_perm perms 0"

definition Contains :: "64 word \<Rightarrow> string \<Rightarrow> bool" where
  "Contains p perm =
     (case splitN2 perm ''.'' of
        [r, a] \<Rightarrow> and p (push_bit ActionBits (bits_of Resources r)) > 0 \<and> and p (bits_of Actions a) > 0
      | _ \<Rightarrow> False)"

section \<open>The authorization filter\<close>

record web_user =
  u_token :: string
  u_id :: string
  u_name :: string
  u_admin :: bool
  u_perm :: "64 word"

definition Anonymous :: "web_user \<Rightarrow> bool" where
  "Anonymous u \<longleftrightarrow> u_id u = []"

definition Authorizer_check :: "web_user \<Rightarrow> string \<Rightarrow> bool" where
  "Authorizer_check u auth = (if u_admin u then True else Contains (u_perm u) auth)"

text \<open>\<open>AuthAnonymous\<close> and \<open>AuthAuthenticated\<close> are constants of the web framework: the fields of
  \<open>web_auth\<close>.  The filter calls the next handler or answers with an HTTP error.\<close>

record web_auth =
  AuthAnonymous :: string
  AuthAuthenticated :: string

datatype 'a response = Handled 'a | HttpError nat go_error

definition Authorizer_Apply :: "web_auth \<Rightarrow> string \<Rightarrow> web_user option \<Rightarrow> 'a \<Rightarrow> 'a response" where
  "Authorizer_Apply web auth user handler =
     (if auth = [] \<or> auth = AuthAnonymous web then Handled handler
      else case user of
        None \<Rightarrow> HttpError 401 ''You are not logged in''
      | Some u \<Rightarrow>
          if Anonymous u then HttpError 401 ''You are not logged in''
          else if auth \<noteq> AuthAuthenticated web \<and> \<not> Authorizer_check u auth
          then HttpError 403 ''You do not have access to this resource''
          else Handled handler)"

section \<open>What a bitmap holds\<close>

definition known :: "(string \<times> 64 word) list \<Rightarrow> string \<Rightarrow> bool" where
  "known table key \<longleftrightarrow> key \<in> set (map fst table)"

text \<open>Both tables number their names: the i-th name stands for the i-th bit.\<close>

lemma Resources_numbered: "Resources = zip (map fst Resources) (map (\<lambda>i. push_bit i 1) [0..<24])"
  by (simp add: Resources_def upt_rec)

lemma Actions_numbered: "Actions = zip (map fst Actions) (map (\<lambda>i. push_bit i 1) [0..<16])"
  by (simp add: Actions_def upt_rec)

lemma distinct_Resources: "distinct (map fst Resources)"
  by (simp add: Resources_def)

lemma distinct_Actions: "distinct (map fst Actions)"
  by (simp add: Actions_def)

lemma length_tables: "length Resources = 24" "length Actions = 16"
  by (simp_all add: Resources_def Actions_def)

lemma bits_of_bit:
  assumes table: "table = zip (map fst table) (map (\<lambda>i. push_bit i (1 :: 64 word)) [0..<n])"
    and dist: "distinct (map fst table)" and len: "length table = n" and "n \<le> 64"
  shows "bit (bits_of table key) j \<longleftrightarrow> j < n \<and> map fst table ! j = key"
proof (cases "key \<in> set (map fst table)")
  case True
  then obtain i where i: "i < n" "map fst table ! i = key"
    using len by (metis in_set_conv_nth length_map)
  with table len have "table ! i = (key, push_bit i 1)"
    by (metis (no_types, lifting) add_0 diff_zero length_map length_upt nth_map nth_upt nth_zip)
  then have "(key, push_bit i 1) \<in> set table" using i(1) len by (metis nth_mem)
  with dist have "bits_of table key = push_bit i 1" by (simp add: bits_of_def)
  moreover have "j < n \<Longrightarrow> map fst table ! j = key \<longleftrightarrow> j = i"
    using i dist len by (metis length_map nth_eq_iff_index_eq)
  ultimately show ?thesis using i \<open>n \<le> 64\<close> by (auto simp: bit_simps)
next
  case False
  then have "map_of table key = None" by (simp add: map_of_eq_None_iff)
  with False len show ?thesis by (auto simp: bits_of_def)
qed

lemmas resource_bit = bits_of_bit [OF Resources_numbered distinct_Resources length_tables(1)]
lemmas action_bit = bits_of_bit [OF Actions_numbered distinct_Actions length_tables(2)]

lemma bit_add_perm:
  "bit (add_perm perm p) j \<longleftrightarrow> bit p j \<or>
     (\<exists>r a. splitN2 perm ''.'' = [r, a] \<and>
        (24 \<le> j \<and> j < 64 \<and> bit (bits_of Resources r) (j - 24) \<or> bit (bits_of Actions a) j))"
  by (auto simp: add_perm_def ActionBits_def bit_simps split: list.splits)

lemma bit_NewPermMap:
  "bit (NewPermMap perms) j \<longleftrightarrow>
     (\<exists>perm \<in> set perms. \<exists>r a. splitN2 perm ''.'' = [r, a] \<and>
        (24 \<le> j \<and> j < 64 \<and> bit (bits_of Resources r) (j - 24) \<or> bit (bits_of Actions a) j))"
proof -
  have "bit (fold add_perm perms p) j \<longleftrightarrow> bit p j \<or>
     (\<exists>perm \<in> set perms. \<exists>r a. splitN2 perm ''.'' = [r, a] \<and>
        (24 \<le> j \<and> j < 64 \<and> bit (bits_of Resources r) (j - 24) \<or> bit (bits_of Actions a) j))" for p
  proof (induction perms arbitrary: p)
    case (Cons perm perms)
    show ?case unfolding fold_Cons comp_apply Cons.IH bit_add_perm by simp
  qed simp
  from this [of 0] show ?thesis by (simp add: NewPermMap_def)
qed

lemma and_gt_0: "and w m > 0 \<longleftrightarrow> (\<exists>j. bit w j \<and> bit m j)" for w m :: "'a::len word"
  unfolding word_gt_0 bit_eq_iff by (auto simp: bit_simps dest: bit_imp_le_length)

lemma resource_in_map:
  assumes "known Resources r"
  shows "and (NewPermMap perms) (push_bit ActionBits (bits_of Resources r)) > 0 \<longleftrightarrow>
    (\<exists>perm \<in> set perms. \<exists>a. splitN2 perm ''.'' = [r, a])"
proof -
  obtain i where i: "i < 24" "map fst Resources ! i = r"
    using assms length_tables by (metis in_set_conv_nth known_def length_map)
  have r: "bit (bits_of Resources r') j \<longleftrightarrow> j < 24 \<and> map fst Resources ! j = r'" for r' j
    using resource_bit by simp
  have same: "j < 24 \<Longrightarrow> map fst Resources ! j = r \<longleftrightarrow> j = i" for j
    using i distinct_Resources length_tables(1) by (metis length_map nth_eq_iff_index_eq)
  have a: "\<not> bit (bits_of Actions a) (24 + i)" for a
    using action_bit [of a "24 + i"] by simp
  have "bit (push_bit ActionBits (bits_of Resources r)) j \<longleftrightarrow> j = 24 + i" for j
  proof (cases "24 \<le> j")
    case True
    then obtain k where "j = 24 + k" using le_Suc_ex by blast
    then show ?thesis using i(1) same [of k] by (auto simp: ActionBits_def bit_push_bit_iff_nat bit_simps r)
  qed (simp add: ActionBits_def bit_simps)
  then have "and w (push_bit ActionBits (bits_of Resources r)) > 0 \<longleftrightarrow> bit w (24 + i)" for w :: "64 word"
    by (simp add: and_gt_0)
  then show ?thesis using i a by (simp add: bit_NewPermMap r)
qed

lemma action_in_map:
  assumes "known Actions a"
  shows "and (NewPermMap perms) (bits_of Actions a) > 0 \<longleftrightarrow>
    (\<exists>perm \<in> set perms. \<exists>r. splitN2 perm ''.'' = [r, a])"
proof -
  obtain i where i: "i < 16" "map fst Actions ! i = a"
    using assms length_tables by (metis in_set_conv_nth known_def length_map)
  have b: "bit (bits_of Actions a') j \<longleftrightarrow> j < 16 \<and> map fst Actions ! j = a'" for a' j
    using action_bit by simp
  have same: "j < 16 \<Longrightarrow> map fst Actions ! j = a \<longleftrightarrow> j = i" for j
    using i distinct_Actions length_tables(2) by (metis length_map nth_eq_iff_index_eq)
  have "and w (bits_of Actions a) > 0 \<longleftrightarrow> bit w i" for w :: "64 word"
    using i(1) same by (auto simp: and_gt_0 b)
  then show ?thesis using i by (simp add: bit_NewPermMap b)
qed

lemma unknown_not_in_map:
  "\<not> known table key \<Longrightarrow> bits_of table key = 0"
  by (simp add: known_def bits_of_def flip: map_of_eq_None_iff)

lemma Contains_iff:
  "Contains (NewPermMap perms) q \<longleftrightarrow>
     (\<exists>r a. splitN2 q ''.'' = [r, a] \<and> known Resources r \<and> known Actions a \<and>
        (\<exists>perm \<in> set perms. \<exists>x. splitN2 perm ''.'' = [r, x]) \<and>
        (\<exists>perm \<in> set perms. \<exists>x. splitN2 perm ''.'' = [x, a]))"
proof (cases "\<exists>r a. splitN2 q ''.'' = [r, a]")
  case True
  then obtain r a where q: "splitN2 q ''.'' = [r, a]" by blast
  show ?thesis
  proof (cases "known Resources r \<and> known Actions a")
    case True
    then show ?thesis by (simp add: Contains_def q resource_in_map action_in_map)
  next
    case False
    then show ?thesis by (auto simp: Contains_def q unknown_not_in_map)
  qed
next
  case False
  then show ?thesis by (auto simp: Contains_def split: list.splits)
qed

lemma splitN2_dot: "CHR ''.'' \<notin> set r \<Longrightarrow> splitN2 (r @ ''.'' @ a) ''.'' = [r, a]"
  using str_cut_at_first [of "''.''" r a] by (simp add: splitN2_def)

section \<open>Properties\<close>

text \<open>C35: The exact meaning of a permission bitmap: it grants \<open>r.a\<close> if and only if some granted
  permission has the resource \<open>r\<close> and some granted permission, not necessarily the same one, has
  the action \<open>a\<close>.  So every granted permission is held, but \<open>user.view\<close> together with
  \<open>role.delete\<close> also gives \<open>user.delete\<close>.\<close>

theorem Contains_cross_product:
  "Contains (NewPermMap perms) q \<longleftrightarrow>
     (\<exists>r a. splitN2 q ''.'' = [r, a] \<and> known Resources r \<and> known Actions a \<and>
        (\<exists>perm \<in> set perms. \<exists>x. splitN2 perm ''.'' = [r, x]) \<and>
        (\<exists>perm \<in> set perms. \<exists>x. splitN2 perm ''.'' = [x, a]))"
  by (rule Contains_iff)

text \<open>C36: The authorization filter runs the handler exactly for an anonymous endpoint, for a
  logged-in user where authentication is enough, for an admin, and for a user whose bitmap
  contains the permission; all others get 401 (not logged in) or 403.\<close>

theorem Authorizer_Apply_handled_iff:
  "(Authorizer_Apply web auth user handler = Handled handler \<longleftrightarrow>
     auth = [] \<or> auth = AuthAnonymous web \<or>
     (\<exists>u. user = Some u \<and> u_id u \<noteq> [] \<and>
        (auth = AuthAuthenticated web \<or> u_admin u \<or> Contains (u_perm u) auth))) \<and>
   ((\<exists>msg. Authorizer_Apply web auth user handler = HttpError 401 msg) \<longleftrightarrow>
     auth \<noteq> [] \<and> auth \<noteq> AuthAnonymous web \<and> (\<forall>u. user = Some u \<longrightarrow> u_id u = [])) \<and>
   ((\<exists>msg. Authorizer_Apply web auth user handler = HttpError 403 msg) \<longleftrightarrow>
     auth \<noteq> [] \<and> auth \<noteq> AuthAnonymous web \<and> auth \<noteq> AuthAuthenticated web \<and>
     (\<exists>u. user = Some u \<and> u_id u \<noteq> [] \<and> \<not> u_admin u \<and> \<not> Contains (u_perm u) auth))"
  by (auto simp: Authorizer_Apply_def Anonymous_def Authorizer_check_def split: option.splits)

theorem Authorizer_Apply_handled_iff_witness:
  "Authorizer_Apply \<lparr>AuthAnonymous = ''?'', AuthAuthenticated = ''*''\<rparr> ''user.delete''
     (Some \<lparr>u_token = ''t'', u_id = ''u1'', u_name = ''bob'', u_admin = False,
       u_perm = NewPermMap [''user.view'', ''role.delete'']\<rparr>) () = Handled ()"
proof -
  have "Contains (NewPermMap [''user.view'', ''role.delete'']) ''user.delete''"
    by (simp add: Contains_iff splitN2_def known_def Resources_def Actions_def)
  then show ?thesis
    by (subst Authorizer_Apply_handled_iff [THEN conjunct1]) simp
qed

end
