(* ===== verification/Auth.thy ===== *)
theory Auth
  imports Bolt Permissions
begin

text \<open>
  Authentication, security/auth.go, with the storage it uses: dao/bolt/user.go, role.go and
  session.go, \<open>GetPerms\<close> of biz/role.go and \<open>FindPrivacy\<close> of biz/user.go.

  The state has the three buckets and the number of readings of the clock and of the id
  generators so far.  Password hashing, LDAP, the clock and the generators are fields of the
  environment.  The field \<open>Perms\<close> of a session is not stored (\<open>bson:"-"\<close>), so it is a second
  result beside the session.  \<open>NilDereference\<close> is the panic of reading a nil record.
\<close>

section \<open>Users, roles and sessions\<close>

record dao_user =
  us_ID :: string
  us_Name :: string
  us_LoginName :: string
  us_Password :: string
  us_Salt :: string
  us_Email :: string
  us_Admin :: bool
  us_Type :: string
  us_Status :: int
  us_Roles :: "string list"
  us_Tokens :: "(string \<times> string) list"
  us_CreatedAt :: int
  us_UpdatedAt :: int
  us_CreatedBy :: operator
  us_UpdatedBy :: operator

record dao_role =
  ro_ID :: string
  ro_Name :: string
  ro_Description :: string
  ro_Perms :: "string list"
  ro_UpdatedAt :: int
  ro_CreatedAt :: int
  ro_CreatedBy :: operator
  ro_UpdatedBy :: operator

record session =
  se_ID :: string
  se_UserID :: string
  se_Username :: string
  se_Admin :: bool
  se_Roles :: "string list"
  se_Perm :: "64 word"
  se_Dirty :: bool
  se_Expiry :: int
  se_MaxExpiry :: int
  se_CreatedAt :: int
  se_UpdatedAt :: int

definition no_operator :: operator where
  "no_operator = \<lparr>op_ID = [], op_Name = []\<rparr>"

definition zero_user :: dao_user where
  "zero_user = \<lparr>us_ID = [], us_Name = [], us_LoginName = [], us_Password = [], us_Salt = [], us_Email = [],
     us_Admin = False, us_Type = [], us_Status = 0, us_Roles = [], us_Tokens = [], us_CreatedAt = 0,
     us_UpdatedAt = 0, us_CreatedBy = no_operator, us_UpdatedBy = no_operator\<rparr>"

section \<open>Storage\<close>

definition UserCreate :: "('b, 'raw, dao_user) bolt \<Rightarrow> dao_user \<Rightarrow> 'b \<Rightarrow> (dao_error + unit) \<times> 'b" where
  "UserCreate db user b = Dao_replace db (us_ID user) user b"

definition UserUpdate :: "('b, 'raw, dao_user) bolt \<Rightarrow> dao_user \<Rightarrow> 'b \<Rightarrow> (dao_error + unit) \<times> 'b" where
  "UserUpdate db user b =
     Dao_update db (us_ID user)
       (\<lambda>old. old\<lparr>us_Name := us_Name user, us_LoginName := us_LoginName user, us_Email := us_Email user,
                 us_Admin := us_Admin user, us_Type := us_Type user, us_Roles := us_Roles user,
                 us_Tokens := us_Tokens user, us_UpdatedAt := us_UpdatedAt user,
                 us_UpdatedBy := us_UpdatedBy user\<rparr>) b"

definition UserUpdateStatus :: "('b, 'raw, dao_user) bolt \<Rightarrow> dao_user \<Rightarrow> 'b \<Rightarrow> (dao_error + unit) \<times> 'b" where
  "UserUpdateStatus db user b =
     Dao_update db (us_ID user)
       (\<lambda>old. old\<lparr>us_Status := us_Status user, us_UpdatedAt := us_UpdatedAt user, us_UpdatedBy := us_UpdatedBy user\<rparr>) b"

definition UserGet :: "('b, 'raw, dao_user) bolt \<Rightarrow> string \<Rightarrow> 'b \<Rightarrow> dao_error + dao_user option" where
  "UserGet db key b = Dao_get_opt db key b"

definition UserGetByName :: "('b, 'raw, dao_user) bolt \<Rightarrow> string \<Rightarrow> 'b \<Rightarrow> dao_error + dao_user option" where
  "UserGetByName db loginName b = Dao_find db zero_user (\<lambda>u. us_LoginName u = loginName) b"

definition UserGetByToken :: "('b, 'raw, dao_user) bolt \<Rightarrow> string \<Rightarrow> 'b \<Rightarrow> dao_error + dao_user option" where
  "UserGetByToken db token b = Dao_find db zero_user (\<lambda>u. \<exists>t \<in> set (us_Tokens u). snd t = token) b"

definition RoleGet :: "('b, 'raw, dao_role) bolt \<Rightarrow> string \<Rightarrow> 'b \<Rightarrow> dao_error + dao_role option" where
  "RoleGet db key b = Dao_get_opt db key b"

definition RoleUpdate :: "('b, 'raw, dao_role) bolt \<Rightarrow> dao_role \<Rightarrow> 'b \<Rightarrow> (dao_error + unit) \<times> 'b" where
  "RoleUpdate db role b =
     Dao_update db (ro_ID role) (\<lambda>old. role\<lparr>ro_CreatedAt := ro_CreatedAt old, ro_CreatedBy := ro_CreatedBy old\<rparr>) b"

definition SessionGet :: "('b, 'raw, session) bolt \<Rightarrow> string \<Rightarrow> 'b \<Rightarrow> dao_error + session option" where
  "SessionGet db key b = Dao_get_opt db key b"

definition SessionCreate :: "('b, 'raw, session) bolt \<Rightarrow> session \<Rightarrow> 'b \<Rightarrow> (dao_error + unit) \<times> 'b" where
  "SessionCreate db s b = Dao_replace db (se_ID s) s b"

text \<open>The key is the id of the user, not of the session.\<close>

definition SessionUpdate :: "('b, 'raw, session) bolt \<Rightarrow> session \<Rightarrow> 'b \<Rightarrow> (dao_error + unit) \<times> 'b" where
  "SessionUpdate db s b = Dao_replace db (se_UserID s) s b"

definition SessionUpdateExpiry :: "('b, 'raw, session) bolt \<Rightarrow> string \<Rightarrow> int \<Rightarrow> int \<Rightarrow> 'b \<Rightarrow> (dao_error + unit) \<times> 'b" where
  "SessionUpdateExpiry db key expiry now b =
     Dao_update db key (\<lambda>old. old\<lparr>se_Expiry := expiry, se_UpdatedAt := now\<rparr>) b"

text \<open>One transaction that walks over all sessions and marks those of a user or of a role.  The code writes
  from within \<open>ForEach\<close>, where boltdb does not define what the iteration sees after a write; this is the
  walk over the entries as they were at its start, which the code relies on.\<close>

definition marked :: "string \<Rightarrow> string \<Rightarrow> session \<Rightarrow> bool" where
  "marked userID roleID s \<longleftrightarrow>
     (userID \<noteq> [] \<and> se_UserID s = userID) \<or> (roleID \<noteq> [] \<and> roleID \<in> set (se_Roles s))"

fun mark_dirty :: "('b, 'raw, session) bolt \<Rightarrow> string \<Rightarrow> string \<Rightarrow> int \<Rightarrow> (string \<times> 'raw) list \<Rightarrow> 'b \<Rightarrow> dao_error + 'b" where
  "mark_dirty db userID roleID now [] b = Inr b"
| "mark_dirty db userID roleID now ((k, v) # kvs) b =
     or_return (lift_err (decode db v)) (\<lambda>s.
       if marked userID roleID s then
         or_return (lift_err (encode db (s\<lparr>se_Dirty := True, se_UpdatedAt := now\<rparr>))) (\<lambda>buf.
         or_return (lift_err (Put db k buf b)) (mark_dirty db userID roleID now kvs))
       else mark_dirty db userID roleID now kvs b)"

definition SessionUpdateDirty :: "('b, 'raw, session) bolt \<Rightarrow> string \<Rightarrow> string \<Rightarrow> int \<Rightarrow> 'b \<Rightarrow> (dao_error + unit) \<times> 'b" where
  "SessionUpdateDirty db userID roleID now b = db_update b (mark_dirty db userID roleID now (Entries db b) b)"

section \<open>The environment and the state\<close>

datatype auth_error =
    AuthDao dao_error
  | AuthError go_error
  | Coded nat
  | NilDereference

record ('ub, 'uraw, 'rb, 'rraw, 'sb, 'sraw) auth_env =
  udb :: "('ub, 'uraw, dao_user) bolt"
  rdb :: "('rb, 'rraw, dao_role) bolt"
  ssdb :: "('sb, 'sraw, session) bolt"
  clock :: "nat \<Rightarrow> int"
  newObjectID :: "nat \<Rightarrow> string"
  userId :: "nat \<Rightarrow> string"
  TokenExpiry :: int
  passwd_Validate :: "string \<Rightarrow> string \<Rightarrow> string \<Rightarrow> bool"
  ldap_Login :: "(string \<Rightarrow> string \<Rightarrow> go_error + string \<times> string) option"

record ('ub, 'rb, 'sb) auth_state =
  users :: 'ub
  roles :: 'rb
  sessions :: 'sb
  ticks :: nat

definition second :: int where "second = 1000000000"
definition minute :: int where "minute = 60 * second"
definition hour :: int where "hour = 60 * minute"

definition UserStatusBlocked :: int where "UserStatusBlocked = 0"
definition UserStatusActive :: int where "UserStatusActive = 1"

definition lift_dao :: "dao_error + 'a \<Rightarrow> auth_error + 'a" where
  "lift_dao r = map_sum AuthDao id r"

lemma lift_dao_simps [simp]: "lift_dao (Inr x) = Inr x" "lift_dao (Inl e) = Inl (AuthDao e)"
  by (simp_all add: lift_dao_def)

lemma lift_dao_Inr [go_simps]: "lift_dao r = Inr x \<longleftrightarrow> r = Inr x"
  by (cases r) auto

section \<open>Permissions of a list of roles\<close>

text \<open>The set of permissions is collected in a map; its keys are listed here in order of first
  occurrence, where Go leaves the order open.\<close>

fun GetPerms_loop :: "('b, 'raw, dao_role) bolt \<Rightarrow> string list \<Rightarrow> 'b \<Rightarrow> string list \<Rightarrow> auth_error + string list" where
  "GetPerms_loop db [] b m = Inr m"
| "GetPerms_loop db (key # keys) b m =
     or_return (lift_dao (RoleGet db key b)) (\<lambda>r.
       case r of None \<Rightarrow> Inl NilDereference
       | Some r \<Rightarrow> GetPerms_loop db keys b (fold List.insert (ro_Perms r) m))"

definition GetPerms :: "('b, 'raw, dao_role) bolt \<Rightarrow> string list \<Rightarrow> 'b \<Rightarrow> auth_error + string list" where
  "GetPerms db keys b = GetPerms_loop db keys b []"

section \<open>Sessions\<close>

definition fillSession :: "('ub, 'uraw, 'rb, 'rraw, 'sb, 'sraw) auth_env \<Rightarrow> ('ub, 'rb, 'sb) auth_state \<Rightarrow> session
    \<Rightarrow> auth_error + session \<times> string list" where
  "fillSession e st s =
     or_return (lift_dao (UserGet (udb e) (se_UserID s) (users st))) (\<lambda>u.
       case u of None \<Rightarrow> Inl (AuthError ''user not found'')
       | Some u \<Rightarrow>
           or_return (if us_Admin u then Inr (se_Perm s, [''*''])
                      else or_return (GetPerms (rdb e) (us_Roles u) (roles st)) (\<lambda>perms. Inr (NewPermMap perms, perms)))
             (\<lambda>(perm, perms).
               Inr (s\<lparr>se_Perm := perm, se_Username := us_Name u, se_Admin := us_Admin u, se_Roles := us_Roles u\<rparr>, perms)))"

definition createSession :: "('ub, 'uraw, 'rb, 'rraw, 'sb, 'sraw) auth_env \<Rightarrow> string \<Rightarrow> string
    \<Rightarrow> ('ub, 'rb, 'sb) auth_state \<Rightarrow> (auth_error + session \<times> string list) \<times> ('ub, 'rb, 'sb) auth_state" where
  "createSession e uid name st =
     (let expiry = clock e (ticks st + 1) + TokenExpiry e;
          s = \<lparr>se_ID = newObjectID e (ticks st), se_UserID = uid, se_Username = name, se_Admin = False,
               se_Roles = [], se_Perm = 0, se_Dirty = False, se_Expiry = expiry,
               se_MaxExpiry = expiry + 24 * hour, se_CreatedAt = 0, se_UpdatedAt = 0\<rparr>;
          st = st\<lparr>ticks := ticks st + 2\<rparr>
      in case fillSession e st s of
           Inl err \<Rightarrow> (Inl err, st)
         | Inr (s, perms) \<Rightarrow>
             let now = clock e (ticks st);
                 s = s\<lparr>se_CreatedAt := now, se_UpdatedAt := now\<rparr>;
                 (r, b) = SessionCreate (ssdb e) s (sessions st);
                 st = st\<lparr>ticks := ticks st + 1, sessions := b\<rparr>
             in case r of Inl err \<Rightarrow> (Inl (AuthDao err), st) | Inr _ \<Rightarrow> (Inr (s, perms), st))"

definition updateSession :: "('ub, 'uraw, 'rb, 'rraw, 'sb, 'sraw) auth_env \<Rightarrow> session
    \<Rightarrow> ('ub, 'rb, 'sb) auth_state \<Rightarrow> (auth_error + session) \<times> ('ub, 'rb, 'sb) auth_state" where
  "updateSession e s st =
     (case fillSession e st s of
        Inl err \<Rightarrow> (Inl err, st)
      | Inr (s, _) \<Rightarrow>
          let s = s\<lparr>se_Dirty := False, se_UpdatedAt := clock e (ticks st)\<rparr>;
              (r, b) = SessionUpdate (ssdb e) s (sessions st);
              st = st\<lparr>ticks := ticks st + 1, sessions := b\<rparr>
          in case r of Inl err \<Rightarrow> (Inl (AuthDao err), st) | Inr _ \<Rightarrow> (Inr s, st))"

definition renewSession :: "('ub, 'uraw, 'rb, 'rraw, 'sb, 'sraw) auth_env \<Rightarrow> session
    \<Rightarrow> ('ub, 'rb, 'sb) auth_state \<Rightarrow> ('ub, 'rb, 'sb) auth_state" where
  "renewSession e s st =
     (let expiry = clock e (ticks st) + TokenExpiry e;
          expiry = (if expiry > se_MaxExpiry s then se_MaxExpiry s else expiry);
          now = clock e (ticks st + 1)
      in st\<lparr>sessions := snd (SessionUpdateExpiry (ssdb e) (se_ID s) expiry now (sessions st)), ticks := ticks st + 2\<rparr>)"

definition createUser :: "session \<Rightarrow> web_user" where
  "createUser s = \<lparr>u_token = se_ID s, u_id = se_UserID s, u_name = se_Username s, u_admin = se_Admin s, u_perm = se_Perm s\<rparr>"

text \<open>A request either gets a user, or none, or the handler panics.\<close>

datatype identified = User "web_user option" | Panic

definition identifyBySession :: "('ub, 'uraw, 'rb, 'rraw, 'sb, 'sraw) auth_env \<Rightarrow> string
    \<Rightarrow> ('ub, 'rb, 'sb) auth_state \<Rightarrow> identified \<times> ('ub, 'rb, 'sb) auth_state" where
  "identifyBySession e token st =
     (case SessionGet (ssdb e) token (sessions st) of
        Inl _ \<Rightarrow> (User None, st)
      | Inr None \<Rightarrow> (User None, st)
      | Inr (Some s) \<Rightarrow>
          let now = clock e (ticks st); st = st\<lparr>ticks := ticks st + 1\<rparr> in
          if se_Expiry s < now then (User None, st)
          else if se_Dirty s then
            (case updateSession e s st of
               (Inl NilDereference, st) \<Rightarrow> (Panic, st)
             | (Inl _, st) \<Rightarrow> (User None, st)
             | (Inr s, st) \<Rightarrow> (User (Some (createUser s)), st))
          else
            let now = clock e (ticks st); st = st\<lparr>ticks := ticks st + 1\<rparr>;
                st = (if now + 5 * minute > se_Expiry s then renewSession e s st else st)
            in (User (Some (createUser s)), st))"

definition identifyByToken :: "('ub, 'uraw, 'rb, 'rraw, 'sb, 'sraw) auth_env \<Rightarrow> string
    \<Rightarrow> ('ub, 'rb, 'sb) auth_state \<Rightarrow> identified" where
  "identifyByToken e token st =
     (case UserGetByToken (udb e) token (users st) of
        Inl _ \<Rightarrow> User None
      | Inr None \<Rightarrow> User None
      | Inr (Some u) \<Rightarrow>
          (case GetPerms (rdb e) (us_Roles u) (roles st) of
             Inl NilDereference \<Rightarrow> Panic
           | Inl _ \<Rightarrow> User None
           | Inr perms \<Rightarrow>
               User (Some \<lparr>u_token = token, u_id = us_ID u, u_name = us_Name u, u_admin = us_Admin u, u_perm = NewPermMap perms\<rparr>)))"

section \<open>Tokens of a request\<close>

definition headerExtractor :: "string \<Rightarrow> string" where
  "headerExtractor header = (if has_prefix header ''Bearer '' then drop (length ''Bearer '') header else [])"

text \<open>A request has an authorization header and a \<open>token\<close> query parameter.\<close>

definition extractToken :: "string \<Rightarrow> string \<Rightarrow> string" where
  "extractToken header query = (if headerExtractor header \<noteq> [] then headerExtractor header else query)"

definition Identifier_Apply :: "('ub, 'uraw, 'rb, 'rraw, 'sb, 'sraw) auth_env \<Rightarrow> string \<Rightarrow> string
    \<Rightarrow> ('ub, 'rb, 'sb) auth_state \<Rightarrow> identified \<times> ('ub, 'rb, 'sb) auth_state" where
  "Identifier_Apply e header query st =
     (let token = extractToken header query in
      if token = [] then (User None, st)
      else if length token = 24 then identifyBySession e token st
      else (identifyByToken e token st, st))"

section \<open>Signing in\<close>

record user_privacy =
  pr_ID :: string
  pr_Name :: string
  pr_Password :: string
  pr_Salt :: string
  pr_Type :: string
  pr_Status :: int

definition FindPrivacy :: "('b, 'raw, dao_user) bolt \<Rightarrow> string \<Rightarrow> 'b \<Rightarrow> dao_error + user_privacy option" where
  "FindPrivacy db loginName b =
     or_return (UserGetByName db loginName b) (\<lambda>u. Inr (map_option
       (\<lambda>u. \<lparr>pr_ID = us_ID u, pr_Name = us_Name u, pr_Password = us_Password u, pr_Salt = us_Salt u,
            pr_Type = us_Type u, pr_Status = us_Status u\<rparr>) u))"

text \<open>A realm gives no user, or the id and name of one, or an error.\<close>

definition internalRealm :: "('ub, 'uraw, 'rb, 'rraw, 'sb, 'sraw) auth_env \<Rightarrow> user_privacy option \<Rightarrow> string \<Rightarrow> string
    \<Rightarrow> auth_error + (string \<times> string) option" where
  "internalRealm e u loginName password =
     (case u of None \<Rightarrow> Inr None
      | Some u \<Rightarrow>
          if pr_Type u \<noteq> ''internal'' then Inr None
          else if passwd_Validate e password (pr_Password u) (pr_Salt u) then Inr (Some (pr_ID u, pr_Name u))
          else Inl (Coded 1001))"

text \<open>A first login through LDAP creates the user; nobody is logged in yet, so no event is sent.\<close>

definition ldapRealm :: "('ub, 'uraw, 'rb, 'rraw, 'sb, 'sraw) auth_env \<Rightarrow> user_privacy option \<Rightarrow> string \<Rightarrow> string
    \<Rightarrow> ('ub, 'rb, 'sb) auth_state \<Rightarrow> (auth_error + (string \<times> string) option) \<times> ('ub, 'rb, 'sb) auth_state" where
  "ldapRealm e u loginName password st =
     (case ldap_Login e of
        None \<Rightarrow> (Inr None, st)
      | Some login \<Rightarrow>
          if (case u of None \<Rightarrow> False | Some u \<Rightarrow> pr_Type u \<noteq> ''ldap'') then (Inr None, st)
          else case login loginName password of
            Inl err \<Rightarrow> (Inl (AuthError err), st)
          | Inr (name, email) \<Rightarrow>
              (case u of
                 Some u \<Rightarrow> (Inr (Some (pr_ID u, name)), st)
               | None \<Rightarrow>
                   let uid = userId e (ticks st); now = clock e (ticks st + 1);
                       user = zero_user\<lparr>us_ID := uid, us_Type := ''ldap'', us_LoginName := loginName,
                         us_Name := name, us_Email := email, us_Status := UserStatusActive,
                         us_CreatedAt := now, us_UpdatedAt := now\<rparr>;
                       (r, b) = UserCreate (udb e) user (users st);
                       st = st\<lparr>users := b, ticks := ticks st + 2\<rparr>
                   in (case r of Inl err \<Rightarrow> Inl (AuthDao err) | Inr _ \<Rightarrow> Inr (Some (uid, name)), st)))"

text \<open>The realms are tried in order, and the error that remains is that of the last one.\<close>

definition signIn :: "('ub, 'uraw, 'rb, 'rraw, 'sb, 'sraw) auth_env \<Rightarrow> string \<Rightarrow> string
    \<Rightarrow> ('ub, 'rb, 'sb) auth_state \<Rightarrow> (auth_error + string \<times> string) \<times> ('ub, 'rb, 'sb) auth_state" where
  "signIn e loginName password st =
     (case FindPrivacy (udb e) loginName (users st) of
        Inl err \<Rightarrow> (Inl (AuthDao err), st)
      | Inr privacy \<Rightarrow>
          if (case privacy of None \<Rightarrow> False | Some p \<Rightarrow> pr_Status p = UserStatusBlocked) then (Inl (Coded 1002), st)
          else case internalRealm e privacy loginName password of
            Inr (Some u) \<Rightarrow> (Inr u, st)
          | _ \<Rightarrow>
              (case ldapRealm e privacy loginName password st of
                 (Inr (Some u), st) \<Rightarrow> (Inr u, st)
               | (Inr None, st) \<Rightarrow> (Inl (Coded 1001), st)
               | (Inl err, st) \<Rightarrow> (Inl err, st)))"

record user_info =
  ui_id :: string
  ui_name :: string
  ui_token :: string
  ui_perms :: "string list"

definition IdentifyExternal :: "('ub, 'uraw, 'rb, 'rraw, 'sb, 'sraw) auth_env \<Rightarrow> string \<Rightarrow> string
    \<Rightarrow> ('ub, 'rb, 'sb) auth_state \<Rightarrow> (auth_error + user_info) \<times> ('ub, 'rb, 'sb) auth_state" where
  "IdentifyExternal e uid name st =
     (case createSession e uid name st of
        (Inl err, st) \<Rightarrow> (Inl err, st)
      | (Inr (s, perms), st) \<Rightarrow>
          (Inr \<lparr>ui_id = uid, ui_name = name, ui_token = se_ID s, ui_perms = perms\<rparr>, st))"

definition Identify :: "('ub, 'uraw, 'rb, 'rraw, 'sb, 'sraw) auth_env \<Rightarrow> string \<Rightarrow> string
    \<Rightarrow> ('ub, 'rb, 'sb) auth_state \<Rightarrow> (auth_error + user_info) \<times> ('ub, 'rb, 'sb) auth_state" where
  "Identify e loginName password st =
     (case signIn e loginName password st of
        (Inl err, st) \<Rightarrow> (Inl err, st)
      | (Inr (uid, name), st) \<Rightarrow> IdentifyExternal e uid name st)"

section \<open>Marking sessions\<close>

definition mark :: "string \<Rightarrow> string \<Rightarrow> int \<Rightarrow> session \<Rightarrow> session" where
  "mark userID roleID now s =
     (if marked userID roleID s then s\<lparr>se_Dirty := True, se_UpdatedAt := now\<rparr> else s)"

lemma mark_simps [simp]:
  "se_Expiry (mark uid rid now s) = se_Expiry s" "se_MaxExpiry (mark uid rid now s) = se_MaxExpiry s"
  "se_ID (mark uid rid now s) = se_ID s" "se_UserID (mark uid rid now s) = se_UserID s"
  by (simp_all add: mark_def)

locale session_bucket = bolt_bucket db for db :: "('b, 'raw, session) bolt"
begin

lemma mark_dirty_recs:
  assumes "mark_dirty db uid rid now kvs b = Inr b'" and "distinct (map fst kvs)"
    and "\<forall>(k, v) \<in> set kvs. Get db k b = Some v" and "readable db b"
  shows "readable db b' \<and>
    recs db b' k = (if k \<in> set (map fst kvs) then map_option (mark uid rid now) (recs db b k) else recs db b k)"
  using assms
proof (induction kvs arbitrary: b)
  case (Cons kv kvs)
  obtain k1 v1 where kv: "kv = (k1, v1)" by fastforce
  obtain s where s: "decode db v1 = Inr s" using Cons.prems(1) kv by (auto simp: go_simps)
  have k1: "recs db b k1 = Some s" using Cons.prems(3) s by (auto simp: kv recs_Some)
  show ?case
  proof (cases "marked uid rid s")
    case True
    then obtain buf b1 where b1: "encode db (s\<lparr>se_Dirty := True, se_UpdatedAt := now\<rparr>) = Inr buf"
      "Put db k1 buf b = Inr b1" "mark_dirty db uid rid now kvs b1 = Inr b'"
      using Cons.prems(1) s kv by (auto simp: go_simps)
    have "Dao_replace db k1 (mark uid rid now s) b = (Inr (), b1)"
      using b1 True by (simp add: Dao_replace_def db_update_def mark_def)
    from Dao_replace_recs [OF this]
    have r1: "recs db b1 = (recs db b)(k1 \<mapsto> mark uid rid now s)" "readable db b1"
      using Cons.prems(4) by simp_all
    have "\<forall>(k, v) \<in> set kvs. Get db k b1 = Some v"
      using Cons.prems(2,3) Get_Put [OF b1(2)] by (force simp: kv)
    with Cons.IH [OF b1(3)] r1 Cons.prems(2) show ?thesis by (auto simp: kv k1)
  next
    case False
    with Cons.prems s kv have "mark_dirty db uid rid now kvs b = Inr b'" by simp
    with Cons.IH [OF this] Cons.prems(2-4) show ?thesis
      using False by (auto simp: kv k1 mark_def)
  qed
qed simp

lemma SessionUpdateDirty_recs:
  assumes "SessionUpdateDirty db uid rid now b = (Inr (), b')" and "readable db b"
  shows "readable db b'" and "recs db b' k = map_option (mark uid rid now) (recs db b k)"
proof -
  have "mark_dirty db uid rid now (Entries db b) b = Inr b'"
    using assms(1) by (auto simp: SessionUpdateDirty_def db_update_def split: sum.splits)
  moreover have "\<forall>(k, v) \<in> set (Entries db b). Get db k b = Some v" using in_Entries_iff by auto
  ultimately have *: "readable db b' \<and> recs db b' k = (if k \<in> set (map fst (Entries db b))
      then map_option (mark uid rid now) (recs db b k) else recs db b k)" for k
    using mark_dirty_recs [OF _ Entries_distinct _ assms(2)] by blast
  have "k \<notin> set (map fst (Entries db b)) \<Longrightarrow> recs db b k = None"
    by (simp add: recs_def Dao_get_def Entries_Get [symmetric] flip: map_of_eq_None_iff)
  with * [of k] show "readable db b'" "recs db b' k = map_option (mark uid rid now) (recs db b k)"
    by (auto split: if_splits)
qed

end

interpretation sorted_sessions: session_bucket sorted_bolt ..

section \<open>The life of sessions\<close>

text \<open>The requests that touch sessions, in any order.  Users and roles can change at any time;
  the id of a user is never the id of a session.\<close>

inductive auth_step :: "('ub, 'uraw, 'rb, 'rraw, 'sb, 'sraw) auth_env
    \<Rightarrow> ('ub, 'rb, 'sb) auth_state \<Rightarrow> ('ub, 'rb, 'sb) auth_state \<Rightarrow> bool"
  for e where
  request: "auth_step e st (snd (Identifier_Apply e header query st))"
| sign_in: "(\<forall>uid name. fst (signIn e loginName password st) = Inr (uid, name) \<longrightarrow> uid \<notin> range (newObjectID e)) \<Longrightarrow>
    auth_step e st (snd (Identify e loginName password st))"
| external: "uid \<notin> range (newObjectID e) \<Longrightarrow> auth_step e st (snd (IdentifyExternal e uid name st))"
| dirty: "auth_step e st (st\<lparr>sessions := snd (SessionUpdateDirty (ssdb e) uid rid now (sessions st))\<rparr>)"
| admin: "auth_step e st (st\<lparr>users := u, roles := r, ticks := ticks st + n\<rparr>)"

inductive auth_reachable :: "('ub, 'uraw, 'rb, 'rraw, 'sb, 'sraw) auth_env \<Rightarrow> ('ub, 'rb, 'sb) auth_state \<Rightarrow> bool"
  for e where
  start: "readable (ssdb e) (sessions st) \<Longrightarrow> (\<forall>k. recs (ssdb e) (sessions st) k = None) \<Longrightarrow> auth_reachable e st"
| step: "auth_reachable e st \<Longrightarrow> auth_step e st st' \<Longrightarrow> auth_reachable e st'"

text \<open>A session expires at the latest 24 hours after its first expiry, which is set at login.\<close>

definition session_ok :: "('ub, 'uraw, 'rb, 'rraw, 'sb, 'sraw) auth_env \<Rightarrow> nat \<Rightarrow> session \<Rightarrow> bool" where
  "session_ok e t s \<longleftrightarrow>
     se_Expiry s \<le> se_MaxExpiry s \<and> se_UserID s \<notin> range (newObjectID e) \<and>
     (\<exists>n. n + 1 < t \<and> se_ID s = newObjectID e n \<and> se_MaxExpiry s = clock e (n + 1) + TokenExpiry e + 24 * hour)"

definition sessions_ok :: "('ub, 'uraw, 'rb, 'rraw, 'sb, 'sraw) auth_env \<Rightarrow> nat \<Rightarrow> 'sb \<Rightarrow> bool" where
  "sessions_ok e t b \<longleftrightarrow>
     readable (ssdb e) b \<and>
     (\<forall>k s. recs (ssdb e) b k = Some s \<longrightarrow> session_ok e t s \<and> (k = se_ID s \<or> k = se_UserID s))"

lemma session_ok_mono: "session_ok e t s \<Longrightarrow> t \<le> t' \<Longrightarrow> session_ok e t' s"
  unfolding session_ok_def by (meson order.strict_trans2)

lemma sessions_ok_mono: "sessions_ok e t b \<Longrightarrow> t \<le> t' \<Longrightarrow> sessions_ok e t' b"
  unfolding sessions_ok_def by (meson session_ok_mono)

lemma fillSession_keeps:
  "fillSession e st s = Inr (s', perms) \<Longrightarrow>
     se_Expiry s' = se_Expiry s \<and> se_MaxExpiry s' = se_MaxExpiry s \<and> se_ID s' = se_ID s \<and> se_UserID s' = se_UserID s"
  by (auto simp: fillSession_def go_simps split: option.splits if_splits)

locale auth = ss: session_bucket "ssdb e" + us: bolt_bucket "udb e" + rs: bolt_bucket "rdb e"
  for e :: "('ub, 'uraw, 'rb, 'rraw, 'sb, 'sraw) auth_env" +
  assumes unique_ids: "inj (newObjectID e)"
begin

lemma session_ok_same_id: "session_ok e t s \<Longrightarrow> session_ok e t s' \<Longrightarrow> se_ID s = se_ID s' \<Longrightarrow> se_MaxExpiry s = se_MaxExpiry s'"
  using unique_ids by (auto simp: session_ok_def dest: injD)

lemma sessions_ok_upd:
  assumes "sessions_ok e t b" and "readable (ssdb e) b'" and "recs (ssdb e) b' = (recs (ssdb e) b)(k \<mapsto> s)"
    and "session_ok e t s \<and> (k = se_ID s \<or> k = se_UserID s)"
  shows "sessions_ok e t b'"
proof -
  have "session_ok e t s' \<and> (k' = se_ID s' \<or> k' = se_UserID s')" if "recs (ssdb e) b' k' = Some s'" for k' s'
    using that assms(1,4) unfolding assms(3) sessions_ok_def by (cases "k' = k") auto
  with assms(2) show ?thesis by (simp add: sessions_ok_def)
qed

lemma sessions_ok_replace:
  assumes ok: "sessions_ok e t b" and s: "session_ok e t s" "k = se_ID s \<or> k = se_UserID s"
  shows "sessions_ok e t (snd (Dao_replace (ssdb e) k s b))"
proof (cases "Dao_replace (ssdb e) k s b")
  case (Pair r b')
  show ?thesis
  proof (cases r)
    case (Inl err)
    with Pair have "b' = b" by (auto simp: Dao_replace_def db_update_def split: sum.splits)
    with Pair ok show ?thesis by simp
  next
    case (Inr u)
    with Pair have put: "Dao_replace (ssdb e) k s b = (Inr (), b')" by simp
    show ?thesis
      using sessions_ok_upd [OF ok _ ss.Dao_replace_recs(1) [OF put]] ss.Dao_replace_recs(2) [OF put] ok s Pair
      by (simp add: sessions_ok_def [of e t b])
  qed
qed

lemma sessions_ok_update:
  assumes ok: "sessions_ok e t b"
    and f: "\<And>s. recs (ssdb e) b k = Some s \<Longrightarrow> session_ok e t (f s) \<and> (k = se_ID (f s) \<or> k = se_UserID (f s))"
  shows "sessions_ok e t (snd (Dao_update (ssdb e) k f b))"
proof (cases "Dao_update (ssdb e) k f b")
  case (Pair r b')
  show ?thesis
  proof (cases r)
    case (Inl err)
    with Pair have "b' = b" by (auto simp: Dao_update_def db_update_def split: sum.splits)
    with Pair ok show ?thesis by simp
  next
    case (Inr u)
    with Pair have upd: "Dao_update (ssdb e) k f b = (Inr (), b')" by simp
    obtain old where old: "recs (ssdb e) b k = Some old" "recs (ssdb e) b' = (recs (ssdb e) b)(k \<mapsto> f old)"
      using ss.Dao_update_recs(1) [OF upd] by blast
    show ?thesis
      using sessions_ok_upd [OF ok _ old(2) f [OF old(1)]] ss.Dao_update_recs(2) [OF upd] ok Pair
      by (simp add: sessions_ok_def [of e t b])
  qed
qed

lemma renewSession_ok:
  assumes ok: "sessions_ok e (ticks st) (sessions st)" and s: "session_ok e (ticks st) s"
  shows "sessions_ok e (ticks (renewSession e s st)) (sessions (renewSession e s st))"
proof -
  have "sessions_ok e (ticks st) (snd (SessionUpdateExpiry (ssdb e) (se_ID s) expiry now (sessions st)))"
    if "expiry \<le> se_MaxExpiry s" for expiry now
    unfolding SessionUpdateExpiry_def
  proof (rule sessions_ok_update [OF ok])
    fix old assume "recs (ssdb e) (sessions st) (se_ID s) = Some old"
    with ok have old: "session_ok e (ticks st) old" "se_ID s = se_ID old \<or> se_ID s = se_UserID old"
      by (auto simp: sessions_ok_def)
    with s have "se_ID s = se_ID old" by (auto simp: session_ok_def)
    with old session_ok_same_id [OF s old(1)] that
    show "session_ok e (ticks st) (old\<lparr>se_Expiry := expiry, se_UpdatedAt := now\<rparr>) \<and>
      (se_ID s = se_ID (old\<lparr>se_Expiry := expiry, se_UpdatedAt := now\<rparr>) \<or>
       se_ID s = se_UserID (old\<lparr>se_Expiry := expiry, se_UpdatedAt := now\<rparr>))"
      by (simp add: session_ok_def)
  qed
  from sessions_ok_mono [OF this, where t' = "ticks st + 2"] show ?thesis
    by (simp add: renewSession_def Let_def)
qed

lemma updateSession_ok:
  assumes ok: "sessions_ok e (ticks st) (sessions st)" and s: "session_ok e (ticks st) s"
  shows "sessions_ok e (ticks (snd (updateSession e s st))) (sessions (snd (updateSession e s st)))"
proof (cases "fillSession e st s")
  case (Inl err)
  with ok show ?thesis by (simp add: updateSession_def)
next
  case (Inr p)
  obtain s' perms where p: "p = (s', perms)" by fastforce
  let ?s = "s'\<lparr>se_Dirty := False, se_UpdatedAt := clock e (ticks st)\<rparr>"
  from fillSession_keeps [of e st s s' perms] Inr p s have "session_ok e (ticks st) ?s"
    by (simp add: session_ok_def)
  from sessions_ok_replace [OF ok this, of "se_UserID s'"]
  have "sessions_ok e (ticks st) (snd (SessionUpdate (ssdb e) ?s (sessions st)))"
    by (simp add: SessionUpdate_def)
  from sessions_ok_mono [OF this, of "ticks st + 1"] Inr p show ?thesis
    by (cases "SessionUpdate (ssdb e) ?s (sessions st)")
      (simp add: updateSession_def Let_def split: sum.splits)
qed

lemma SessionGet_Some: "SessionGet (ssdb e) token b = Inr (Some s) \<Longrightarrow> recs (ssdb e) b token = Some s"
  using ss.Dao_get_opt_Inr unfolding SessionGet_def by metis

lemma identifyBySession_ok:
  assumes ok: "sessions_ok e (ticks st) (sessions st)"
  shows "sessions_ok e (ticks (snd (identifyBySession e token st))) (sessions (snd (identifyBySession e token st)))"
proof (cases "SessionGet (ssdb e) token (sessions st)")
  case (Inr r)
  show ?thesis
  proof (cases r)
    case (Some s)
    with Inr SessionGet_Some have "recs (ssdb e) (sessions st) token = Some s" by blast
    with ok have s: "session_ok e (ticks st) s" by (simp add: sessions_ok_def)
    let ?st = "\<lambda>n. st\<lparr>ticks := ticks st + n\<rparr>"
    have st: "sessions_ok e (ticks (?st n)) (sessions (?st n))" "session_ok e (ticks (?st n)) s" for n
      using sessions_ok_mono [OF ok] session_ok_mono [OF s] by simp_all
    show ?thesis
      using Inr Some st [of 1] st [of 2] updateSession_ok [OF st, of 1] renewSession_ok [OF st, of 2]
      by (auto simp: identifyBySession_def Let_def eval_nat_numeral split: prod.splits sum.splits auth_error.splits)
  qed (use Inr ok in \<open>simp add: identifyBySession_def\<close>)
qed (use ok in \<open>simp add: identifyBySession_def\<close>)

lemma createSession_ok:
  assumes ok: "sessions_ok e (ticks st) (sessions st)" and uid: "uid \<notin> range (newObjectID e)"
  shows "sessions_ok e (ticks (snd (createSession e uid name st))) (sessions (snd (createSession e uid name st)))"
proof -
  define expiry where "expiry = clock e (ticks st + 1) + TokenExpiry e"
  define s where "s = \<lparr>se_ID = newObjectID e (ticks st), se_UserID = uid, se_Username = name, se_Admin = False,
    se_Roles = [], se_Perm = 0, se_Dirty = False, se_Expiry = expiry,
    se_MaxExpiry = expiry + 24 * hour, se_CreatedAt = 0, se_UpdatedAt = 0\<rparr>"
  let ?t = "ticks st + 2"
  have ok2: "sessions_ok e ?t (sessions st)" using sessions_ok_mono [OF ok] by simp
  have s: "session_ok e ?t s"
    using uid by (auto simp: session_ok_def s_def expiry_def hour_def minute_def second_def)
  have "sessions_ok e (?t + 1) (snd (SessionCreate (ssdb e) (s'\<lparr>se_CreatedAt := now, se_UpdatedAt := now\<rparr>) (sessions st)))"
    if "fillSession e (st\<lparr>ticks := ?t\<rparr>) s = Inr (s', perms)" for s' perms now
  proof -
    have "session_ok e ?t (s'\<lparr>se_CreatedAt := now, se_UpdatedAt := now\<rparr>)"
      using fillSession_keeps [OF that] s by (simp add: session_ok_def)
    from sessions_ok_mono [OF sessions_ok_replace [OF ok2 this, of "se_ID s'"]]
    show ?thesis by (simp add: SessionCreate_def)
  qed
  note created = this
  have eq: "createSession e uid name st =
    (case fillSession e (st\<lparr>ticks := ?t\<rparr>) s of
       Inl err \<Rightarrow> (Inl err, st\<lparr>ticks := ?t\<rparr>)
     | Inr (s, perms) \<Rightarrow>
         let (r, b) = SessionCreate (ssdb e) (s\<lparr>se_CreatedAt := clock e ?t, se_UpdatedAt := clock e ?t\<rparr>) (sessions st);
             st = st\<lparr>ticks := ?t + 1, sessions := b\<rparr>
         in case r of Inl err \<Rightarrow> (Inl (AuthDao err), st) | Inr _ \<Rightarrow> (Inr (s\<lparr>se_CreatedAt := clock e ?t, se_UpdatedAt := clock e ?t\<rparr>, perms), st))"
    by (simp add: createSession_def Let_def s_def expiry_def eval_nat_numeral cong: sum.case_cong prod.case_cong)
  show ?thesis
  proof (cases "fillSession e (st\<lparr>ticks := ?t\<rparr>) s")
    case (Inl err)
    with ok2 show ?thesis by (simp add: eq)
  next
    case (Inr p)
    obtain s' perms where p: "p = (s', perms)" by fastforce
    obtain r b where b: "SessionCreate (ssdb e) (s'\<lparr>se_CreatedAt := clock e ?t, se_UpdatedAt := clock e ?t\<rparr>) (sessions st) = (r, b)"
      by fastforce
    from created [of s' perms "clock e ?t"] Inr p b have "sessions_ok e (?t + 1) b" by simp
    with Inr p b show ?thesis by (cases r) (simp_all add: eq Let_def)
  qed
qed

lemma signIn_ok:
  assumes "sessions_ok e (ticks st) (sessions st)"
  shows "sessions_ok e (ticks (snd (signIn e loginName password st))) (sessions (snd (signIn e loginName password st)))"
  using assms sessions_ok_mono [OF assms, of "ticks st + 2"]
  by (auto simp: signIn_def ldapRealm_def Let_def split: sum.splits option.splits prod.splits)

lemma signIn_uid:
  "signIn e loginName password st = (Inr (uid, name), st') \<Longrightarrow>
   sessions_ok e (ticks st) (sessions st) \<Longrightarrow> sessions_ok e (ticks st') (sessions st')"
  using signIn_ok [of st loginName password] by simp

lemma IdentifyExternal_ok:
  assumes "sessions_ok e (ticks st) (sessions st)" and "uid \<notin> range (newObjectID e)"
  shows "sessions_ok e (ticks (snd (IdentifyExternal e uid name st))) (sessions (snd (IdentifyExternal e uid name st)))"
  using createSession_ok [OF assms, of name]
  by (auto simp: IdentifyExternal_def split: prod.splits sum.splits)

lemma Identify_ok:
  assumes "sessions_ok e (ticks st) (sessions st)"
    and "\<forall>uid name. fst (signIn e loginName password st) = Inr (uid, name) \<longrightarrow> uid \<notin> range (newObjectID e)"
  shows "sessions_ok e (ticks (snd (Identify e loginName password st))) (sessions (snd (Identify e loginName password st)))"
  using assms(2) signIn_ok [OF assms(1), of loginName password] IdentifyExternal_ok
  by (auto simp: Identify_def split: prod.splits sum.splits)

lemma SessionUpdateDirty_ok:
  assumes ok: "sessions_ok e t b"
  shows "sessions_ok e t (snd (SessionUpdateDirty (ssdb e) uid rid now b))"
proof (cases "SessionUpdateDirty (ssdb e) uid rid now b")
  case (Pair r b')
  show ?thesis
  proof (cases r)
    case (Inl err)
    with Pair have "b' = b" by (auto simp: SessionUpdateDirty_def db_update_def split: sum.splits)
    with Pair ok show ?thesis by simp
  next
    case (Inr u)
    with Pair have upd: "SessionUpdateDirty (ssdb e) uid rid now b = (Inr (), b')" by simp
    have mark: "session_ok e t (mark uid rid now s) \<longleftrightarrow> session_ok e t s" for s by (simp add: session_ok_def)
    have "session_ok e t s \<and> (k = se_ID s \<or> k = se_UserID s)" if s: "recs (ssdb e) b' k = Some s" for k s
    proof -
      from ss.SessionUpdateDirty_recs(2) [OF upd] s ok
      obtain s0 where "recs (ssdb e) b k = Some s0" "s = mark uid rid now s0" by (auto simp: sessions_ok_def)
      with ok mark show ?thesis unfolding sessions_ok_def by (metis mark_simps(3,4))
    qed
    with ss.SessionUpdateDirty_recs(1) [OF upd] ok show ?thesis
      by (simp add: sessions_ok_def Pair)
  qed
qed

lemma auth_step_ok:
  "auth_step e st st' \<Longrightarrow> sessions_ok e (ticks st) (sessions st) \<Longrightarrow> sessions_ok e (ticks st') (sessions st')"
proof (induction rule: auth_step.induct)
  case (request st header query)
  then show ?case using identifyBySession_ok by (simp add: Identifier_Apply_def Let_def)
next
  case (admin st u r n)
  then show ?case using sessions_ok_mono by fastforce
qed (simp_all add: Identify_ok IdentifyExternal_ok SessionUpdateDirty_ok)

lemma auth_reachable_ok: "auth_reachable e st \<Longrightarrow> sessions_ok e (ticks st) (sessions st)"
proof (induction rule: auth_reachable.induct)
  case (start st)
  then show ?case by (simp add: sessions_ok_def)
next
  case (step st st')
  then show ?case by (blast intro: auth_step_ok)
qed

lemma identified_session:
  assumes "fst (identifyBySession e token st) = User (Some u)"
  shows "\<exists>s. recs (ssdb e) (sessions st) token = Some s \<and> clock e (ticks st) \<le> se_Expiry s"
  using assms SessionGet_Some
  by (fastforce simp: identifyBySession_def Let_def split: sum.splits option.splits if_splits prod.splits auth_error.splits)

lemma UserGet_Some: "UserGet (udb e) k b = Inr (Some u) \<Longrightarrow> recs (udb e) b k = Some u"
  using us.Dao_get_opt_Inr unfolding UserGet_def by metis

lemma RoleGet_Some: "RoleGet (rdb e) k b = Inr (Some r) \<Longrightarrow> recs (rdb e) b k = Some r"
  using rs.Dao_get_opt_Inr unfolding RoleGet_def by metis

lemma set_fold_insert: "set (fold List.insert xs m) = set xs \<union> set m"
  by (induction xs arbitrary: m) auto

lemma GetPerms_loop_set:
  "GetPerms_loop (rdb e) keys b m = Inr perms \<Longrightarrow>
   set perms = set m \<union> (\<Union>k \<in> set keys. \<Union>r \<in> set_option (recs (rdb e) b k). set (ro_Perms r)) \<and>
   (\<forall>k \<in> set keys. recs (rdb e) b k \<noteq> None)"
proof (induction keys arbitrary: m)
  case (Cons k keys)
  then obtain r where r: "RoleGet (rdb e) k b = Inr (Some r)"
    "GetPerms_loop (rdb e) keys b (fold List.insert (ro_Perms r) m) = Inr perms"
    by (auto simp: go_simps split: option.splits)
  from Cons.IH [OF r(2)] RoleGet_Some [OF r(1)] show ?case
    by (auto simp: set_fold_insert)
qed simp

lemmas GetPerms_set = GetPerms_loop_set [where m = "[]", folded GetPerms_def]

lemma dirty_identified:
  assumes "recs (ssdb e) (sessions st) token = Some s" and "se_Dirty s"
    and "fst (identifyBySession e token st) = User (Some u)"
  shows "\<exists>usr. recs (udb e) (users st) (se_UserID s) = Some usr \<and> u_id u = se_UserID s \<and> u_admin u = us_Admin usr \<and>
    (\<not> us_Admin usr \<longrightarrow> (\<exists>perms. GetPerms (rdb e) (us_Roles usr) (roles st) = Inr perms \<and> u_perm u = NewPermMap perms))"
proof -
  from assms(3) obtain s0 where s0: "SessionGet (ssdb e) token (sessions st) = Inr (Some s0)"
    by (auto simp: identifyBySession_def split: sum.splits option.splits)
  with SessionGet_Some assms(1) have [simp]: "s0 = s" by fastforce
  let ?st = "st\<lparr>ticks := ticks st + 1\<rparr>"
  from assms(2,3) s0 obtain s1 where s1: "fst (updateSession e s ?st) = Inr s1" "u = createUser s1"
    by (auto simp: identifyBySession_def Let_def split: if_splits prod.splits sum.splits auth_error.splits)
  then obtain s2 perms where s2: "fillSession e ?st s = Inr (s2, perms)"
    "s1 = s2\<lparr>se_Dirty := False, se_UpdatedAt := clock e (ticks ?st)\<rparr>"
    by (auto simp: updateSession_def Let_def split: sum.splits prod.splits)
  from s2(1) obtain usr where "UserGet (udb e) (se_UserID s) (users st) = Inr (Some usr)"
    "se_UserID s2 = se_UserID s" "se_Admin s2 = us_Admin usr"
    "\<not> us_Admin usr \<longrightarrow> (\<exists>perms. GetPerms (rdb e) (us_Roles usr) (roles st) = Inr perms \<and> se_Perm s2 = NewPermMap perms)"
    by (auto simp: fillSession_def go_simps split: option.splits if_splits)
  with s1(2) s2(2) UserGet_Some show ?thesis by (auto simp: createUser_def)
qed

lemma dirty_stays:
  assumes s: "recs (ssdb e) (sessions st) token = Some s" and "se_Dirty s" and "se_UserID s \<noteq> token"
  shows "recs (ssdb e) (sessions (snd (identifyBySession e token st))) token = Some s"
proof -
  have keep: "recs (ssdb e) (snd (SessionUpdate (ssdb e) s' b)) token = Some s"
    if "se_UserID s' = se_UserID s" "recs (ssdb e) b token = Some s" for s' b
  proof (cases "SessionUpdate (ssdb e) s' b")
    case (Pair r b')
    show ?thesis
    proof (cases r)
      case (Inl err)
      with Pair that(2) show ?thesis
        by (auto simp: SessionUpdate_def Dao_replace_def db_update_def split: sum.splits)
    next
      case (Inr u)
      with ss.Dao_replace_recs(1) [of "se_UserID s'" s' b b'] Pair that assms(3) show ?thesis
        by (simp add: SessionUpdate_def)
    qed
  qed
  have upd: "recs (ssdb e) (sessions (snd (updateSession e s (st\<lparr>ticks := t\<rparr>)))) token = Some s" for t
  proof (cases "fillSession e (st\<lparr>ticks := t\<rparr>) s")
    case (Inr p)
    obtain s' perms where p: "p = (s', perms)" by fastforce
    from Inr p fillSession_keeps have uid: "se_UserID s' = se_UserID s" by blast
    let ?s = "s'\<lparr>se_Dirty := False, se_UpdatedAt := clock e t\<rparr>"
    obtain r b where b: "SessionUpdate (ssdb e) ?s (sessions st) = (r, b)" by fastforce
    have "recs (ssdb e) b token = Some s" using keep [of ?s "sessions st"] uid s b by simp
    with Inr p b show ?thesis by (cases r) (simp_all add: updateSession_def Let_def)
  qed (use s in \<open>simp add: updateSession_def\<close>)
  show ?thesis
  proof (cases "SessionGet (ssdb e) token (sessions st)")
    case (Inr r)
    show ?thesis
    proof (cases r)
      case (Some s0)
      with Inr SessionGet_Some s have "s0 = s" by fastforce
      with Inr Some upd [of "ticks st + 1"] s \<open>se_Dirty s\<close> show ?thesis
        by (auto simp: identifyBySession_def Let_def split: prod.splits sum.splits auth_error.splits)
    qed (use Inr s in \<open>simp add: identifyBySession_def\<close>)
  qed (use s in \<open>simp add: identifyBySession_def\<close>)
qed

lemma signIn_sound:
  assumes "fst (signIn e loginName password st) = Inr (uid, name)"
  shows "\<exists>privacy. FindPrivacy (udb e) loginName (users st) = Inr privacy \<and>
    (\<forall>p. privacy = Some p \<longrightarrow> pr_Status p \<noteq> UserStatusBlocked \<and> uid = pr_ID p) \<and>
    ((\<exists>p. privacy = Some p \<and> pr_Type p = ''internal'' \<and> passwd_Validate e password (pr_Password p) (pr_Salt p)) \<or>
     (\<exists>login email. ldap_Login e = Some login \<and> login loginName password = Inr (name, email) \<and>
        (\<forall>p. privacy = Some p \<longrightarrow> pr_Type p = ''ldap'')))"
  using assms
  by (auto simp: signIn_def internalRealm_def ldapRealm_def Let_def
      split: sum.splits option.splits if_splits prod.splits)

end

text \<open>An environment whose codec omits empty lists, as BSON does for fields marked \<open>omitempty\<close>:
  decoding into a variable then keeps the list that the variable held.\<close>

definition omitempty_bolt :: "(dao_user bucket, dao_user, dao_user) bolt" where
  "omitempty_bolt = sorted_bolt\<lparr>decode_into := (\<lambda>x u.
     Inr (x\<lparr>us_Roles := (if us_Roles x = [] then us_Roles u else us_Roles x),
           us_Tokens := (if us_Tokens x = [] then us_Tokens u else us_Tokens x)\<rparr>))\<rparr>"

lemma omitempty_bolt_simps [simp]:
  "Put omitempty_bolt = Put sorted_bolt" "Get omitempty_bolt = Get sorted_bolt"
  "Delete omitempty_bolt = Delete sorted_bolt" "Entries omitempty_bolt = Entries sorted_bolt"
  "encode omitempty_bolt = encode sorted_bolt" "decode omitempty_bolt = decode sorted_bolt"
  "decode_into omitempty_bolt x u =
     Inr (x\<lparr>us_Roles := (if us_Roles x = [] then us_Roles u else us_Roles x),
           us_Tokens := (if us_Tokens x = [] then us_Tokens u else us_Tokens x)\<rparr>)"
  by (simp_all add: omitempty_bolt_def)

interpretation omitempty: bolt_bucket omitempty_bolt
  using sorted.bolt_bucket_axioms by (simp only: bolt_bucket_def omitempty_bolt_simps)

definition demo_auth :: "(dao_user bucket, dao_user, dao_role bucket, dao_role, session bucket, session) auth_env" where
  "demo_auth = \<lparr>udb = omitempty_bolt, rdb = sorted_bolt, ssdb = sorted_bolt, clock = int,
     newObjectID = (\<lambda>n. replicate (24 + n) (CHR ''a'')), userId = (\<lambda>n. replicate n (CHR ''u'')),
     TokenExpiry = 30 * minute, passwd_Validate = (\<lambda>pw hash salt. pw @ salt = hash), ldap_Login = None\<rparr>"

lemma demo_auth_simps [simp]:
  "udb demo_auth = omitempty_bolt" "rdb demo_auth = sorted_bolt" "ssdb demo_auth = sorted_bolt"
  "clock demo_auth = int" "newObjectID demo_auth n = replicate (24 + n) (CHR ''a'')"
  "TokenExpiry demo_auth = 30 * minute" "passwd_Validate demo_auth pw hash salt \<longleftrightarrow> pw @ salt = hash"
  "ldap_Login demo_auth = None"
  by (simp_all add: demo_auth_def)

lemma inj_demo_ids: "inj (newObjectID demo_auth)"
  by (auto simp: inj_on_def dest: arg_cong [where f = length])

interpretation demo: auth demo_auth
  using inj_demo_ids
  by (simp add: auth_def auth_axioms_def sorted_sessions.session_bucket_axioms omitempty.bolt_bucket_axioms
      sorted.bolt_bucket_axioms)

definition demo_session :: session where
  "demo_session = \<lparr>se_ID = ''tok'', se_UserID = ''u1'', se_Username = ''bob'', se_Admin = False, se_Roles = [''r1''],
     se_Perm = 0, se_Dirty = True, se_Expiry = 100, se_MaxExpiry = 200, se_CreatedAt = 0, se_UpdatedAt = 0\<rparr>"

definition demo_role :: dao_role where
  "demo_role = \<lparr>ro_ID = ''r1'', ro_Name = ''ops'', ro_Description = [], ro_Perms = [''stack.view''], ro_UpdatedAt = 0,
     ro_CreatedAt = 0, ro_CreatedBy = no_operator, ro_UpdatedBy = no_operator\<rparr>"

definition demo_auth_state :: "(dao_user bucket, dao_role bucket, session bucket) auth_state" where
  "demo_auth_state = \<lparr>
     users = bucket_put ''u1'' (zero_user\<lparr>us_ID := ''u1'', us_Roles := [''r1''], us_Tokens := [(''ci'', ''token-1'')]\<rparr>)
        (bucket_put ''u2'' (zero_user\<lparr>us_ID := ''u2'', us_Tokens := [(''ci'', ''token-2'')]\<rparr>) empty_bucket),
     roles = bucket_put ''r1'' demo_role empty_bucket,
     sessions = bucket_put ''tok'' demo_session empty_bucket, ticks = 0\<rparr>"

section \<open>Properties\<close>

text \<open>C37: In every reachable state a session token is accepted only before the stored expiry, and
  that expiry is at most 24 hours after the first expiry of the session, which the login set to
  its own time plus the token lifetime, however often the session was renewed or marked.\<close>

theorem session_lifetime:
  assumes "auth e" and "auth_reachable e st" and "fst (identifyBySession e token st) = User (Some u)"
  shows "\<exists>s n. recs (ssdb e) (sessions st) token = Some s \<and> clock e (ticks st) \<le> se_Expiry s \<and>
    se_Expiry s \<le> se_MaxExpiry s \<and> n + 1 < ticks st \<and> se_ID s = newObjectID e n \<and>
    se_MaxExpiry s = clock e (n + 1) + TokenExpiry e + 24 * hour"
  using auth.identified_session [OF assms(1,3)] auth.auth_reachable_ok [OF assms(1,2)]
  unfolding sessions_ok_def session_ok_def by blast

text \<open>A change of roles takes effect on the next request: for a session that was marked
  dirty, the user of the request has the permissions that the user's present roles have in the
  database, and the admin flag of the present user record.\<close>

theorem dirty_session_rechecks:
  assumes "auth e" and "recs (ssdb e) (sessions st) token = Some s" and "se_Dirty s"
    and "fst (identifyBySession e token st) = User (Some u)"
  shows "\<exists>usr. recs (udb e) (users st) (se_UserID s) = Some usr \<and> u_admin u = us_Admin usr \<and>
    (\<not> us_Admin usr \<longrightarrow> (\<exists>perms. u_perm u = NewPermMap perms \<and>
       set perms = (\<Union>k \<in> set (us_Roles usr). \<Union>r \<in> set_option (recs (rdb e) (roles st) k). set (ro_Perms r))))"
  using auth.dirty_identified [OF assms] auth.GetPerms_set [OF assms(1)] by fastforce

text \<open>A dirty session is never cleaned: the refreshed record is stored under the id of the
  user, and the record that the token finds stays dirty with its old expiry.  So such a session
  reads the database on every request and is never renewed.\<close>

theorem dirty_session_stays_dirty:
  assumes "auth e" and "recs (ssdb e) (sessions st) token = Some s" and "se_Dirty s" and "se_UserID s \<noteq> token"
  shows "recs (ssdb e) (sessions (snd (identifyBySession e token st))) token = Some s"
  using assms by (rule auth.dirty_stays)

text \<open>An API token of a user without roles gets the permissions of another user: the search for
  the token decodes every user into one variable, and the omitted list of roles of the second
  user leaves the roles of the first one in place.\<close>

theorem identifyByToken_inherits_roles:
  assumes "udb e = omitempty_bolt" and "entries (users st) = [(k1, a), (k2, b)]"
    and "token \<notin> snd ` set (us_Tokens a)" and "token \<in> snd ` set (us_Tokens b)" and "us_Roles b = []"
    and "GetPerms (rdb e) (us_Roles a) (roles st) = Inr perms"
  shows "identifyByToken e token st =
    User (Some \<lparr>u_token = token, u_id = us_ID b, u_name = us_Name b, u_admin = us_Admin b, u_perm = NewPermMap perms\<rparr>)"
proof -
  have "\<not> (\<exists>t \<in> set (us_Tokens a). snd t = token)" "us_Tokens b \<noteq> []" "\<exists>t \<in> set (us_Tokens b). snd t = token"
    using assms(3,4) by (auto simp: image_iff)
  with assms show ?thesis
    by (cases "us_Roles a = []")
      (simp_all add: identifyByToken_def UserGetByToken_def Dao_find_def zero_user_def)
qed

text \<open>C38: A login succeeds only for a user that is not blocked, with a password that the user's
  own realm accepts: the stored hash for an internal user, LDAP for an LDAP user or an unknown one.\<close>

theorem signIn_only_valid:
  assumes "auth e" and "fst (signIn e loginName password st) = Inr (uid, name)"
  shows "\<exists>privacy. FindPrivacy (udb e) loginName (users st) = Inr privacy \<and>
    (\<forall>p. privacy = Some p \<longrightarrow> pr_Status p \<noteq> UserStatusBlocked \<and> uid = pr_ID p) \<and>
    ((\<exists>p. privacy = Some p \<and> pr_Type p = ''internal'' \<and> passwd_Validate e password (pr_Password p) (pr_Salt p)) \<or>
     (\<exists>login email. ldap_Login e = Some login \<and> login loginName password = Inr (name, email) \<and>
        (\<forall>p. privacy = Some p \<longrightarrow> pr_Type p = ''ldap'')))"
  using auth.signIn_sound [OF assms] .

lemma demo_recs:
  "recs (ssdb demo_auth) (sessions demo_auth_state) ''tok'' = Some demo_session"
  "recs (udb demo_auth) (users demo_auth_state) ''u1'' = Some (zero_user\<lparr>us_ID := ''u1'', us_Roles := [''r1''], us_Tokens := [(''ci'', ''token-1'')]\<rparr>)"
  by (simp_all add: demo_auth_state_def recs_def Dao_get_def bucket_eval)

lemma demo_perms: "GetPerms (rdb demo_auth) [''r1''] (roles demo_auth_state) = Inr [''stack.view'']"
  by (simp add: GetPerms_def demo_auth_state_def RoleGet_def Dao_get_opt_def Dao_get_def bucket_eval demo_role_def)

lemma demo_identified:
  "\<exists>u. fst (identifyBySession demo_auth ''tok'' demo_auth_state) = User (Some u)"
proof -
  have get: "SessionGet (ssdb demo_auth) ''tok'' (sessions demo_auth_state) = Inr (Some demo_session)"
    by (simp add: SessionGet_def Dao_get_opt_def Dao_get_def demo_auth_state_def bucket_eval)
  have "fillSession demo_auth (demo_auth_state\<lparr>ticks := 1\<rparr>) demo_session =
    Inr (demo_session\<lparr>se_Perm := NewPermMap [''stack.view''], se_Username := [], se_Admin := False, se_Roles := [''r1'']\<rparr>, [''stack.view''])"
    using demo_perms
    by (simp add: fillSession_def UserGet_def Dao_get_opt_def Dao_get_def demo_auth_state_def bucket_eval
        demo_session_def zero_user_def)
  moreover have "ticks demo_auth_state = 0" "se_Dirty demo_session" "se_Expiry demo_session = 100"
    by (simp_all add: demo_auth_state_def demo_session_def)
  ultimately show ?thesis
    using get by (simp add: identifyBySession_def updateSession_def SessionUpdate_def Dao_replace_def db_update_def Let_def)
qed

theorem session_lifetime_witness:
  "\<exists>st token u. fst (identifyBySession demo_auth token st) = User (Some u) \<and>
     (\<exists>s n. recs (ssdb demo_auth) (sessions st) token = Some s \<and> n + 1 < ticks st \<and>
        se_Expiry s \<le> int (n + 1) + 30 * minute + 24 * hour)"
proof -
  define st where "st = demo_auth_state\<lparr>sessions := empty_bucket\<rparr>"
  define st' where "st' = snd (IdentifyExternal demo_auth ''u1'' ''bob'' st)"
  have "auth_reachable demo_auth st"
    by (rule auth_reachable.start) (simp_all add: st_def readable_def recs_def Dao_get_def bucket_eval)
  moreover have "auth_step demo_auth st st'"
    unfolding st'_def by (rule auth_step.external) (auto dest: arg_cong [where f = length])
  ultimately have reach: "auth_reachable demo_auth st'" by (rule auth_reachable.step)
  define tok where "tok = newObjectID demo_auth 0"
  have users: "UserGet (udb demo_auth) ''u1'' (users demo_auth_state) = Inr (Some (zero_user\<lparr>us_ID := ''u1'', us_Roles := [''r1''], us_Tokens := [(''ci'', ''token-1'')]\<rparr>))"
    by (simp add: UserGet_def Dao_get_opt_def Dao_get_def demo_auth_state_def bucket_eval)
  have "\<exists>s. SessionGet (ssdb demo_auth) tok (sessions st') = Inr (Some s) \<and> \<not> se_Dirty s \<and> se_Expiry s = 1 + 30 * minute \<and> ticks st' = 3"
    using users demo_perms
    by (simp add: st'_def IdentifyExternal_def createSession_def fillSession_def Let_def st_def tok_def SessionCreate_def
        Dao_replace_def db_update_def SessionGet_def Dao_get_opt_def Dao_get_def bucket_eval zero_user_def
        demo_auth_state_def)
  then obtain u where u: "fst (identifyBySession demo_auth tok st') = User (Some u)"
    by (auto simp: identifyBySession_def minute_def second_def)
  from session_lifetime [OF demo.auth_axioms reach u]
  obtain s n where "recs (ssdb demo_auth) (sessions st') tok = Some s" "n + 1 < ticks st'"
    "se_Expiry s \<le> int (n + 1) + 30 * minute + 24 * hour" by auto
  with u show ?thesis by blast
qed

theorem dirty_session_rechecks_witness:
  "\<exists>u perms. fst (identifyBySession demo_auth ''tok'' demo_auth_state) = User (Some u) \<and>
     u_perm u = NewPermMap perms \<and> set perms = {''stack.view''}"
proof -
  obtain u where u: "fst (identifyBySession demo_auth ''tok'' demo_auth_state) = User (Some u)"
    using demo_identified by blast
  have "recs (rdb demo_auth) (roles demo_auth_state) ''r1'' = Some demo_role"
    by (simp add: recs_def Dao_get_def demo_auth_state_def bucket_eval)
  with dirty_session_rechecks [OF demo.auth_axioms demo_recs(1) _ u] u demo_recs(2) show ?thesis
    by (auto simp: demo_session_def demo_role_def zero_user_def)
qed

theorem dirty_session_stays_dirty_witness:
  "recs (ssdb demo_auth) (sessions (snd (identifyBySession demo_auth ''tok'' demo_auth_state))) ''tok'' = Some demo_session"
  by (rule dirty_session_stays_dirty [OF demo.auth_axioms demo_recs(1)]) (simp_all add: demo_session_def)

theorem identifyByToken_inherits_roles_witness:
  "identifyByToken demo_auth ''token-2'' demo_auth_state =
     User (Some \<lparr>u_token = ''token-2'', u_id = ''u2'', u_name = [], u_admin = False, u_perm = NewPermMap [''stack.view'']\<rparr>)"
  by (subst identifyByToken_inherits_roles
      [where a = "zero_user\<lparr>us_ID := ''u1'', us_Roles := [''r1''], us_Tokens := [(''ci'', ''token-1'')]\<rparr>"
        and b = "zero_user\<lparr>us_ID := ''u2'', us_Tokens := [(''ci'', ''token-2'')]\<rparr>" and perms = "[''stack.view'']"])
    (use demo_perms in \<open>simp_all add: demo_auth_state_def bucket_eval zero_user_def\<close>)

theorem signIn_only_valid_witness:
  "\<exists>p. FindPrivacy (udb demo_auth) ''bob''
      (bucket_put ''u1'' (zero_user\<lparr>us_ID := ''u1'', us_LoginName := ''bob'', us_Type := ''internal'', us_Status := 1, us_Password := ''pw-salt'', us_Salt := ''-salt''\<rparr>) empty_bucket)
      = Inr (Some p) \<and> pr_Status p \<noteq> UserStatusBlocked \<and> passwd_Validate demo_auth ''pw'' (pr_Password p) (pr_Salt p)"
proof -
  let ?st = "demo_auth_state\<lparr>users := bucket_put ''u1'' (zero_user\<lparr>us_ID := ''u1'', us_LoginName := ''bob'', us_Type := ''internal'', us_Status := 1, us_Password := ''pw-salt'', us_Salt := ''-salt''\<rparr>) empty_bucket\<rparr>"
  have "fst (signIn demo_auth ''bob'' ''pw'' ?st) = Inr (''u1'', [])"
    by (simp add: signIn_def FindPrivacy_def UserGetByName_def Dao_find_def bucket_eval internalRealm_def
        UserStatusBlocked_def zero_user_def)
  from signIn_only_valid [OF demo.auth_axioms this] show ?thesis by auto
qed

end
