(* ===== verification/Scaler.thy ===== *)
theory Scaler
  imports GoPrelude "HOL-Library.Word"
begin

text \<open>
  The automatic scaling of swarm services: scaler/scaler.go with \<open>ServiceScale\<close> of
  docker/service.go.

  The Docker client, the metrics, the conversion of strings and the option parser are
  third-party code: they are fields of the environment, over an opaque world.  Replica counts
  and versions are 64-bit words, whose arithmetic wraps as in Go.
\<close>

section \<open>Services\<close>

text \<open>A mode is a pointer to a structure with a pointer to a count: two levels of option.\<close>

record service_mode =
  Replicated :: "64 word option option"
  ReplicatedJob :: "64 word option option"

record swarm_service =
  sv_Name :: string
  sv_Labels :: "(string \<times> string) list"
  sv_Mode :: service_mode
  sv_Version :: "64 word"
  sv_UpdatedAt :: int

type_synonym data_option = "string \<times> string"

datatype scaleType = scaleNone | scaleUp | scaleDown

definition policyAny :: string where "policyAny = ''any''"
definition policyAll :: string where "policyAll = ''all''"

record ('f, 'w) scaler_env =
  ServiceSearch :: "'w \<Rightarrow> go_error + swarm_service list"
  ServiceInspect :: "string \<Rightarrow> 'w \<Rightarrow> go_error + swarm_service"
  ServiceUpdate :: "string \<Rightarrow> 64 word \<Rightarrow> swarm_service \<Rightarrow> 'w \<Rightarrow> (go_error + unit) \<times> 'w"
  GetVector :: "string \<Rightarrow> 'w \<Rightarrow> go_error + 'f list"
  now_of :: "'w \<Rightarrow> int"
  le :: "'f \<Rightarrow> 'f \<Rightarrow> bool"
  zero_value :: 'f
  ToUint64 :: "string \<Rightarrow> 64 word \<Rightarrow> 64 word"
  ToDuration :: "string \<Rightarrow> int \<Rightarrow> int"
  ToFloat64 :: "string \<Rightarrow> 'f"
  ParseOptions :: "string \<Rightarrow> data_option list"

type_synonym ('f, 'w) checker = "string \<Rightarrow> 'f \<Rightarrow> 'f \<Rightarrow> 'w \<Rightarrow> scaleType \<times> 'f"

section \<open>Docker\<close>

text \<open>\<open>ServiceScale\<close> of docker/service.go takes the count before the version.\<close>

definition ServiceScale :: "('f, 'w) scaler_env \<Rightarrow> string \<Rightarrow> 64 word \<Rightarrow> 64 word \<Rightarrow> 'w \<Rightarrow> (go_error + unit) \<times> 'w" where
  "ServiceScale e name count version w =
     (case ServiceInspect e name w of
        Inl err \<Rightarrow> (Inl err, w)
      | Inr service \<Rightarrow>
          let mode = sv_Mode service; ver = (if version > 0 then version else sv_Version service) in
          if Replicated mode \<noteq> None then
            ServiceUpdate e name ver (service\<lparr>sv_Mode := mode\<lparr>Replicated := Some (Some count)\<rparr>\<rparr>) w
          else if ReplicatedJob mode \<noteq> None then
            ServiceUpdate e name ver (service\<lparr>sv_Mode := mode\<lparr>ReplicatedJob := Some (Some count)\<rparr>\<rparr>) w
          else (Inl ''scale can only be used with replicated or replicated-job mode'', w))"

section \<open>Checks\<close>

definition cpuChecker_Check :: "('f, 'w) scaler_env \<Rightarrow> ('f, 'w) checker" where
  "cpuChecker_Check e service low high w =
     (case GetVector e (''avg(rate(container_cpu_user_seconds_total{container_label_com_docker_swarm_service_name='' @
          [CHR 0x22] @ service @ [CHR 0x22] @ ''}[1m]) * 100)'') w of
        Inl _ \<Rightarrow> (scaleNone, zero_value e)
      | Inr [] \<Rightarrow> (scaleNone, zero_value e)
      | Inr (v # _) \<Rightarrow>
          if le e v low then (scaleDown, v) else if le e high v then (scaleUp, v) else (scaleNone, zero_value e))"

definition NewScaler :: "('f, 'w) scaler_env \<Rightarrow> bool \<Rightarrow> (string \<times> ('f, 'w) checker) list" where
  "NewScaler e enabled = (if enabled then [(''cpu'', cpuChecker_Check e)] else [])"

definition checkArg :: "('f, 'w) scaler_env \<Rightarrow> (string \<times> ('f, 'w) checker) list \<Rightarrow> string \<Rightarrow> data_option \<Rightarrow> 'w \<Rightarrow> scaleType \<times> 'f" where
  "checkArg e checkers service arg w =
     (case split_at (CHR '':'') (snd arg) of
        [l, h] \<Rightarrow>
          (case map_of checkers (fst arg) of
             None \<Rightarrow> (scaleNone, zero_value e)
           | Some c \<Rightarrow> c service (ToFloat64 e l) (ToFloat64 e h) w)
      | _ \<Rightarrow> (scaleNone, zero_value e))"

text \<open>The result is the type and the reasons.  Policy \<open>any\<close> stops at the first check that fires,
  policy \<open>all\<close> collects the types seen in a set and stops when it has two.\<close>

fun check_any :: "(data_option \<Rightarrow> scaleType \<times> 'f) \<Rightarrow> data_option list \<Rightarrow> scaleType \<times> (string \<times> 'f) list" where
  "check_any f [] = (scaleNone, [])"
| "check_any f (arg # args) =
     (case f arg of (st, v) \<Rightarrow> if st = scaleNone then check_any f args else (st, [(fst arg, v)]))"

fun check_all :: "(data_option \<Rightarrow> scaleType \<times> 'f) \<Rightarrow> data_option list \<Rightarrow> scaleType set
    \<Rightarrow> scaleType \<times> (string \<times> 'f) list \<Rightarrow> scaleType \<times> (string \<times> 'f) list" where
  "check_all f [] types result = result"
| "check_all f (arg # args) types result =
     (case f arg of (st, v) \<Rightarrow>
        let types = insert st types in
        if card types > 1 then (scaleNone, snd result)
        else check_all f args types (st, AList.update (fst arg) v (snd result)))"

definition Scaler_check :: "('f, 'w) scaler_env \<Rightarrow> (string \<times> ('f, 'w) checker) list \<Rightarrow> swarm_service \<Rightarrow> string
    \<Rightarrow> data_option list \<Rightarrow> 'w \<Rightarrow> scaleType \<times> (string \<times> 'f) list" where
  "Scaler_check e checkers service policy args w =
     (if policy = policyAny then check_any (\<lambda>arg. checkArg e checkers (sv_Name service) arg w) args
      else if policy = policyAll then
        check_all (\<lambda>arg. checkArg e checkers (sv_Name service) arg w) args {} (scaleNone, [])
      else (scaleNone, []))"

section \<open>Scaling\<close>

record scale_config =
  c_min :: "64 word"
  c_max :: "64 word"
  c_step :: "64 word"
  c_window :: int
  c_policy :: string
  c_args :: "data_option list"

definition default_config :: scale_config where
  "default_config = \<lparr>c_min = 2, c_max = 8, c_step = 2, c_window = 3 * 60 * 1000000000, c_policy = policyAny, c_args = []\<rparr>"

definition set_option :: "('f, 'w) scaler_env \<Rightarrow> data_option \<Rightarrow> scale_config \<Rightarrow> scale_config" where
  "set_option e opt c =
     (if fst opt = ''min'' then c\<lparr>c_min := ToUint64 e (snd opt) (c_min c)\<rparr>
      else if fst opt = ''max'' then c\<lparr>c_max := ToUint64 e (snd opt) (c_max c)\<rparr>
      else if fst opt = ''step'' then c\<lparr>c_step := ToUint64 e (snd opt) (c_step c)\<rparr>
      else if fst opt = ''window'' then c\<lparr>c_window := ToDuration e (snd opt) (c_window c)\<rparr>
      else if fst opt = ''policy'' then c\<lparr>c_policy := snd opt\<rparr>
      else c\<lparr>c_args := c_args c @ [opt]\<rparr>)"

definition config_of :: "('f, 'w) scaler_env \<Rightarrow> data_option list \<Rightarrow> scale_config" where
  "config_of e opts = fold (set_option e) opts default_config"

text \<open>\<open>None\<close> is the panic of reading a nil replica count.  The errors of \<open>ServiceScale\<close> are only
  logged.\<close>

definition tryScale :: "('f, 'w) scaler_env \<Rightarrow> (string \<times> ('f, 'w) checker) list \<Rightarrow> swarm_service \<Rightarrow> data_option list
    \<Rightarrow> 'w \<Rightarrow> 'w option" where
  "tryScale e checkers service opts w =
     (case Replicated (sv_Mode service) of
        None \<Rightarrow> Some w
      | Some count \<Rightarrow>
          let c = config_of e opts in
          if sv_UpdatedAt service + c_window c > now_of e w then Some w
          else
            let result = Scaler_check e checkers service (c_policy c) (c_args c) w in
            if fst result = scaleNone then Some w
            else case count of None \<Rightarrow> None
            | Some replicas \<Rightarrow>
                if fst result = scaleUp then
                  (if replicas < c_max c
                   then Some (snd (ServiceScale e (sv_Name service) (sv_Version service) (replicas + c_step c) w))
                   else Some w)
                else if fst result = scaleDown then
                  (if replicas > c_min c
                   then Some (snd (ServiceScale e (sv_Name service) (sv_Version service) (replicas - c_step c) w))
                   else Some w)
                else Some w)"

definition label_value :: "(string \<times> string) list \<Rightarrow> string" where
  "label_value labels = (case map_of labels ''swirl.scale'' of Some v \<Rightarrow> v | None \<Rightarrow> [])"

fun scale_services :: "('f, 'w) scaler_env \<Rightarrow> (string \<times> ('f, 'w) checker) list \<Rightarrow> swarm_service list \<Rightarrow> 'w \<Rightarrow> 'w option" where
  "scale_services e checkers [] w = Some w"
| "scale_services e checkers (service # services) w =
     (case tryScale e checkers service (ParseOptions e (label_value (sv_Labels service))) w of
        None \<Rightarrow> None | Some w \<Rightarrow> scale_services e checkers services w)"

text \<open>The function that runs every minute.\<close>

definition scaler_tick :: "('f, 'w) scaler_env \<Rightarrow> (string \<times> ('f, 'w) checker) list \<Rightarrow> 'w \<Rightarrow> 'w option" where
  "scaler_tick e checkers w =
     (case ServiceSearch e w of Inl _ \<Rightarrow> Some w | Inr services \<Rightarrow> scale_services e checkers services w)"

text \<open>\<open>Start\<close> gives the function that it schedules, if any.\<close>

definition Start :: "('f, 'w) scaler_env \<Rightarrow> bool \<Rightarrow> (string \<times> ('f, 'w) checker) list \<Rightarrow> ('w \<Rightarrow> 'w option) option" where
  "Start e standalone checkers =
     (if standalone then None else if length checkers > 0 then None else Some (scaler_tick e checkers))"

section \<open>Lemmas\<close>

lemma check_any_type:
  "fst (check_any f args) = (case dropWhile (\<lambda>arg. fst (f arg) = scaleNone) args of [] \<Rightarrow> scaleNone | arg # _ \<Rightarrow> fst (f arg))"
  by (induction args) (auto split: prod.splits)

lemma check_all_same:
  "fst (check_all f args {t} (t, rs)) = (if \<forall>arg \<in> set args. fst (f arg) = t then t else scaleNone)"
proof (induction args arbitrary: rs)
  case (Cons arg args)
  obtain st v where f: "f arg = (st, v)" by fastforce
  show ?case
  proof (cases "st = t")
    case True
    with Cons f show ?thesis by (simp add: Let_def)
  next
    case False
    then have "card (insert st {t}) = 2" by simp
    with f False show ?thesis by (simp add: Let_def)
  qed
qed simp

lemma check_all_type:
  "fst (check_all f args {} (scaleNone, [])) = t \<longleftrightarrow>
     (if t = scaleNone then args = [] \<or> fst (f (hd args)) = scaleNone \<or> (\<exists>arg \<in> set args. fst (f arg) \<noteq> fst (f (hd args)))
      else args \<noteq> [] \<and> (\<forall>arg \<in> set args. fst (f arg) = t))"
proof (cases args)
  case (Cons arg args')
  obtain st v where f: "f arg = (st, v)" by fastforce
  have "fst (check_all f args {} (scaleNone, [])) = (if \<forall>a \<in> set args'. fst (f a) = st then st else scaleNone)"
    using check_all_same [of f args' st "AList.update (fst arg) v []"] by (simp add: Cons f Let_def)
  then show ?thesis using f by (auto simp: Cons)
qed auto

lemma checkArg_no_checker: "fst (checkArg e [] service arg w) = scaleNone"
  by (simp add: checkArg_def split: list.splits)

lemma Scaler_check_no_checker: "fst (Scaler_check e [] service policy args w) = scaleNone"
proof -
  have "fst (check_all (\<lambda>arg. checkArg e [] (sv_Name service) arg w) args {} (scaleNone, [])) = scaleNone"
    unfolding check_all_type by (cases args) (simp_all add: checkArg_no_checker)
  moreover have "fst (check_any (\<lambda>arg. checkArg e [] (sv_Name service) arg w) args) = scaleNone"
    by (induction args) (auto split: prod.splits simp: checkArg_no_checker dest: arg_cong [where f = fst])
  ultimately show ?thesis by (simp add: Scaler_check_def)
qed

lemma tryScale_no_checker:
  "tryScale e [] service opts w = Some w"
  by (simp add: tryScale_def Scaler_check_no_checker Let_def split: option.splits)

lemma scale_services_no_checker: "scale_services e [] services w = Some w"
  by (induction services) (simp_all add: tryScale_no_checker)

section \<open>Properties\<close>

text \<open>A scaling decision: policy \<open>any\<close> follows the first argument whose check fires, policy \<open>all\<close>
  scales exactly when there is an argument and every check agrees, and any other policy never
  scales.\<close>

theorem Scaler_check_policies:
  "let f = (\<lambda>arg. fst (checkArg e checkers (sv_Name service) arg w)) in
   (fst (Scaler_check e checkers service policyAny args w) =
      (case dropWhile (\<lambda>arg. f arg = scaleNone) args of [] \<Rightarrow> scaleNone | arg # _ \<Rightarrow> f arg)) \<and>
   (\<forall>t. t \<noteq> scaleNone \<longrightarrow>
      (fst (Scaler_check e checkers service policyAll args w) = t \<longleftrightarrow> args \<noteq> [] \<and> (\<forall>arg \<in> set args. f arg = t))) \<and>
   (\<forall>policy. policy \<noteq> policyAny \<and> policy \<noteq> policyAll \<longrightarrow>
      fst (Scaler_check e checkers service policy args w) = scaleNone)"
  by (simp add: Scaler_check_def check_any_type check_all_type policyAny_def policyAll_def Let_def)

text \<open>When a service scales, the number of replicas that Docker is asked for is the version index
  of the service, and the new replica count is passed as the version: the two arguments of
  \<open>ServiceScale\<close> are swapped.\<close>

theorem tryScale_swapped:
  assumes "Replicated (sv_Mode service) = Some (Some replicas)" and "ServiceInspect e (sv_Name service) w = Inr service"
    and "sv_UpdatedAt service + c_window (config_of e opts) \<le> now_of e w"
    and "fst (Scaler_check e checkers service (c_policy (config_of e opts)) (c_args (config_of e opts)) w) = scaleUp"
    and "replicas < c_max (config_of e opts)" and "replicas + c_step (config_of e opts) > 0"
  shows "tryScale e checkers service opts w =
    Some (snd (ServiceUpdate e (sv_Name service) (replicas + c_step (config_of e opts))
      (service\<lparr>sv_Mode := (sv_Mode service)\<lparr>Replicated := Some (Some (sv_Version service))\<rparr>\<rparr>) w))"
  using assms by (simp add: tryScale_def ServiceScale_def Let_def)

text \<open>The scaler never changes a service: it is only started when there is no metric checker, and
  without a checker no service scales.\<close>

theorem Start_never_scales:
  "case Start e standalone (NewScaler e enabled) of
     None \<Rightarrow> standalone \<or> enabled
   | Some tick \<Rightarrow> \<not> standalone \<and> \<not> enabled \<and> (\<forall>w. tick w = Some w)"
  by (simp add: Start_def NewScaler_def scaler_tick_def scale_services_no_checker split: sum.splits)

definition demo_scaler :: "(int, nat) scaler_env" where
  "demo_scaler = \<lparr>ServiceSearch = (\<lambda>w. Inr []),
     ServiceInspect = (\<lambda>n w. Inr \<lparr>sv_Name = ''web'', sv_Labels = [], sv_Mode = \<lparr>Replicated = Some (Some 3), ReplicatedJob = None\<rparr>, sv_Version = 4711, sv_UpdatedAt = 0\<rparr>),
     ServiceUpdate = (\<lambda>n v s w. (Inr (), case Replicated (sv_Mode s) of Some (Some c) \<Rightarrow> unat c | _ \<Rightarrow> 0)),
     GetVector = (\<lambda>q w. Inr [95]), now_of = (\<lambda>w. 10 ^ 12), le = (\<le>), zero_value = 0,
     ToUint64 = (\<lambda>s d. d), ToDuration = (\<lambda>s d. d), ToFloat64 = (\<lambda>s. int (length s)), ParseOptions = (\<lambda>s. [])\<rparr>"

lemma demo_scaler_simps [simp]:
  "ServiceInspect demo_scaler n w = Inr \<lparr>sv_Name = ''web'', sv_Labels = [], sv_Mode = \<lparr>Replicated = Some (Some 3), ReplicatedJob = None\<rparr>, sv_Version = 4711, sv_UpdatedAt = 0\<rparr>"
  "ServiceUpdate demo_scaler n v s w = (Inr (), case Replicated (sv_Mode s) of Some (Some c) \<Rightarrow> unat c | _ \<Rightarrow> 0)"
  "now_of demo_scaler w = 10 ^ 12" "GetVector demo_scaler q w = Inr [95]" "le demo_scaler = (\<le>)"
  "ToFloat64 demo_scaler = (\<lambda>s. int (length s))"
  by (simp_all add: demo_scaler_def)

theorem tryScale_swapped_witness:
  "tryScale demo_scaler (NewScaler demo_scaler True)
     \<lparr>sv_Name = ''web'', sv_Labels = [], sv_Mode = \<lparr>Replicated = Some (Some 3), ReplicatedJob = None\<rparr>, sv_Version = 4711, sv_UpdatedAt = 0\<rparr>
     [(''cpu'', ''20:80'')] 0 = Some 4711"
proof -
  have conf: "config_of demo_scaler [(''cpu'', ''20:80'')] = default_config\<lparr>c_args := [(''cpu'', ''20:80'')]\<rparr>"
    by (simp add: config_of_def set_option_def default_config_def)
  have check: "fst (Scaler_check demo_scaler (NewScaler demo_scaler True) s policyAny [(''cpu'', ''20:80'')] 0) = scaleUp" for s
    by (simp add: Scaler_check_def NewScaler_def checkArg_def cpuChecker_Check_def)
  show ?thesis
    by (subst tryScale_swapped [where replicas = 3]) (use check in \<open>simp_all add: conf default_config_def\<close>)
qed

definition demo_service :: swarm_service where
  "demo_service = \<lparr>sv_Name = ''web'', sv_Labels = [], sv_Mode = \<lparr>Replicated = Some (Some 3), ReplicatedJob = None\<rparr>, sv_Version = 4711, sv_UpdatedAt = 0\<rparr>"

theorem Scaler_check_policies_witness:
  "fst (Scaler_check demo_scaler (NewScaler demo_scaler True) demo_service policyAll [(''cpu'', ''20:80''), (''cpu'', ''10:90'')] 0) = scaleUp \<and>
   fst (Scaler_check demo_scaler (NewScaler demo_scaler True) demo_service ''none'' [(''cpu'', ''20:80'')] 0) = scaleNone"
  using Scaler_check_policies [of demo_scaler "NewScaler demo_scaler True" demo_service 0 "[(''cpu'', ''20:80''), (''cpu'', ''10:90'')]"]
    Scaler_check_policies [of demo_scaler "NewScaler demo_scaler True" demo_service 0 "[(''cpu'', ''20:80'')]"]
  by (simp add: NewScaler_def checkArg_def cpuChecker_Check_def policyAny_def policyAll_def Let_def demo_service_def)

end
