(* ===== verification/Utf8.thy ===== *)
theory Utf8
  imports GoPrelude
begin

text \<open>
  Go strings as sequences of runes: \<open>utf8.DecodeRuneInString\<close> and \<open>range\<close> over a string.  A
  rune is kept as the bytes that encode it.  A byte that starts no valid encoding counts as
  U+FFFD, of width one.
\<close>

definition byte :: "char \<Rightarrow> nat" where "byte c = of_char c"

definition cont_byte :: "char \<Rightarrow> bool" where
  "cont_byte c \<longleftrightarrow> 0x80 \<le> byte c \<and> byte c \<le> 0xBF"

text \<open>The number of bytes of the first rune, or \<open>0\<close> when they are no valid encoding.\<close>

definition rune_width :: "string \<Rightarrow> nat" where
  "rune_width s =
     (case s of
        [] \<Rightarrow> 0
      | c0 # cs \<Rightarrow>
          let b0 = byte c0;
              ok = (\<lambda>lo hi. case cs of [] \<Rightarrow> False | c1 # _ \<Rightarrow> lo \<le> byte c1 \<and> byte c1 \<le> hi);
              conts = (\<lambda>n. n \<le> length cs \<and> list_all cont_byte (take n cs))
          in if b0 < 0x80 then 1
             else if 0xC2 \<le> b0 \<and> b0 \<le> 0xDF then (if conts 1 then 2 else 0)
             else if 0xE0 \<le> b0 \<and> b0 \<le> 0xEF then
               (if conts 2 \<and> (b0 = 0xE0 \<longrightarrow> ok 0xA0 0xBF) \<and> (b0 = 0xED \<longrightarrow> ok 0x80 0x9F) then 3 else 0)
             else if 0xF0 \<le> b0 \<and> b0 \<le> 0xF4 then
               (if conts 3 \<and> (b0 = 0xF0 \<longrightarrow> ok 0x90 0xBF) \<and> (b0 = 0xF4 \<longrightarrow> ok 0x80 0x8F) then 4 else 0)
             else 0)"

definition rune_error :: string where
  "rune_error = [char_of (0xEF :: nat), char_of (0xBF :: nat), char_of (0xBD :: nat)]"

text \<open>The first rune and its width.\<close>

definition decode_rune :: "string \<Rightarrow> string \<times> nat" where
  "decode_rune s = (if rune_width s = 0 then (rune_error, 1) else (take (rune_width s) s, rune_width s))"

function runes :: "string \<Rightarrow> string list" where
  "runes [] = []"
| "runes (c # cs) = (case decode_rune (c # cs) of (r, w) \<Rightarrow> r # runes (drop w (c # cs)))"
  by pat_completeness auto
termination
  by (relation "measure length") (auto simp: decode_rune_def split: if_splits)

definition utf8_valid :: "string \<Rightarrow> bool" where
  "utf8_valid s \<longleftrightarrow> concat (runes s) = s"

definition ascii :: "string \<Rightarrow> bool" where
  "ascii s \<longleftrightarrow> (\<forall>c \<in> set s. byte c < 0x80)"

lemma decode_rune_ascii: "byte c < 0x80 \<Longrightarrow> decode_rune (c # cs) = ([c], 1)"
  by (simp add: decode_rune_def rune_width_def)

lemma runes_ascii_Cons: "byte c < 0x80 \<Longrightarrow> runes (c # cs) = [c] # runes cs"
  by (simp add: decode_rune_ascii)

declare runes.simps(2) [simp del]

lemma runes_ascii: "ascii s \<Longrightarrow> runes s = map (\<lambda>c. [c]) s"
  by (induction s) (auto simp: ascii_def runes_ascii_Cons)

lemma utf8_valid_ascii: "ascii s \<Longrightarrow> utf8_valid s"
  by (simp add: utf8_valid_def runes_ascii concat_map_singleton)

lemma ascii_simps [simp]:
  "ascii []" "ascii (c # cs) \<longleftrightarrow> byte c < 0x80 \<and> ascii cs" "ascii (s @ t) \<longleftrightarrow> ascii s \<and> ascii t"
  by (auto simp: ascii_def)

section \<open>Classes of runes\<close>

definition ascii_letter :: "char \<Rightarrow> bool" where
  "ascii_letter c \<longleftrightarrow> is_lower c \<or> is_upper c"

text \<open>\<open>unicode.IsLetter\<close>; the tables for runes outside ASCII are a parameter.\<close>

definition IsLetter :: "(string \<Rightarrow> bool) \<Rightarrow> string \<Rightarrow> bool" where
  "IsLetter letters r = (case r of [c] \<Rightarrow> ascii_letter c | _ \<Rightarrow> letters r)"

text \<open>\<open>unicode.IsSpace\<close>: the white space of ASCII, U+0085, U+00A0, U+1680, U+2000 to U+200A,
  U+2028, U+2029, U+202F, U+205F and U+3000.\<close>

definition IsSpace :: "string \<Rightarrow> bool" where
  "IsSpace r \<longleftrightarrow>
     map byte r \<in> {[9], [10], [11], [12], [13], [32], [0xC2, 0x85], [0xC2, 0xA0], [0xE1, 0x9A, 0x80],
       [0xE2, 0x80, 0xA8], [0xE2, 0x80, 0xA9], [0xE2, 0x80, 0xAF], [0xE2, 0x81, 0x9F], [0xE3, 0x80, 0x80]}
     \<or> map byte r \<in> (\<lambda>n. [0xE2, 0x80, n]) ` {0x80..0x8A}"

definition TrimLeftSpace :: "string \<Rightarrow> string" where
  "TrimLeftSpace s = drop (length (concat (takeWhile IsSpace (runes s)))) s"

definition TrimRightSpace :: "string \<Rightarrow> string" where
  "TrimRightSpace s = take (length s - length (concat (takeWhile IsSpace (rev (runes s))))) s"

definition TrimSpace :: "string \<Rightarrow> string" where
  "TrimSpace s = TrimRightSpace (TrimLeftSpace s)"

end
