(* ===== verification/Volumes.thy ===== *)
theory Volumes
  imports Utf8
begin

text \<open>
  Volume specifications: docker/compose/volume.go parses the short syntax, and
  docker/compose/convert_volume.go turns the volumes of a service into mounts of the engine.
  Names are scoped as in docker/compose/convert.go.

  The tables of letters outside ASCII and the propagation modes of the engine are parameters.
  A result \<open>None\<close> is a panic.
\<close>

section \<open>Namespaces\<close>

type_synonym namespace = string

definition Scope :: "namespace \<Rightarrow> string \<Rightarrow> string" where
  "Scope n name = n @ ''_'' @ name"

definition Descope :: "namespace \<Rightarrow> string \<Rightarrow> string" where
  "Descope n name = trim_prefix name (n @ ''_'')"

definition LabelNamespace :: string where
  "LabelNamespace = ''com.docker.stack.namespace''"

definition AddStackLabel :: "namespace \<Rightarrow> (string \<times> string) list \<Rightarrow> (string \<times> string) list" where
  "AddStackLabel n labels = AList.update LabelNamespace n labels"

section \<open>The short syntax\<close>

record service_volume =
  vc_Type :: string
  vc_Source :: string
  vc_Target :: string
  vc_ReadOnly :: bool
  vc_Consistency :: string
  vc_Bind :: "string option"
  vc_Volume :: "bool option"
  vc_Tmpfs :: "int option"

definition no_volume :: service_volume where
  "no_volume = \<lparr>vc_Type = [], vc_Source = [], vc_Target = [], vc_ReadOnly = False, vc_Consistency = [],
     vc_Bind = None, vc_Volume = None, vc_Tmpfs = None\<rparr>"

definition endOfSpec :: string where
  "endOfSpec = [CHR 0x00]"

definition isWindowsDrive :: "(string \<Rightarrow> bool) \<Rightarrow> string list \<Rightarrow> string \<Rightarrow> bool" where
  "isWindowsDrive letters buffer r \<longleftrightarrow> r = '':'' \<and> length buffer = 1 \<and> IsLetter letters (hd buffer)"

definition apply_option :: "string list \<Rightarrow> string \<Rightarrow> service_volume \<Rightarrow> service_volume" where
  "apply_option propagations opt v =
     (if opt = ''ro'' then v\<lparr>vc_ReadOnly := True\<rparr>
      else if opt = ''rw'' then v\<lparr>vc_ReadOnly := False\<rparr>
      else if opt = ''nocopy'' then v\<lparr>vc_Volume := Some True\<rparr>
      else if opt \<in> set propagations then v\<lparr>vc_Bind := Some opt\<rparr>
      else v)"

definition populateFieldFromBuffer :: "string list \<Rightarrow> string \<Rightarrow> string list \<Rightarrow> service_volume \<Rightarrow> go_error + service_volume" where
  "populateFieldFromBuffer propagations r buffer v =
     (let strBuffer = concat buffer in
      if buffer = [] then Inl ''empty section between colons''
      else if vc_Source v = [] \<and> r = endOfSpec then Inr (v\<lparr>vc_Target := strBuffer\<rparr>)
      else if vc_Source v = [] then Inr (v\<lparr>vc_Source := strBuffer\<rparr>)
      else if vc_Target v = [] then Inr (v\<lparr>vc_Target := strBuffer\<rparr>)
      else if r = '':'' then Inl ''too many colons''
      else Inr (fold (apply_option propagations) (split_at (CHR '','') strBuffer) v))"

text \<open>The loop gives the volume, or the error with the volume so far.\<close>

fun parse_runes :: "(string \<Rightarrow> bool) \<Rightarrow> string list \<Rightarrow> string list \<Rightarrow> string list \<Rightarrow> service_volume \<Rightarrow> (go_error \<times> service_volume) + service_volume" where
  "parse_runes letters propagations [] buffer v = Inr v"
| "parse_runes letters propagations (r # rs) buffer v =
     (if isWindowsDrive letters buffer r then parse_runes letters propagations rs (buffer @ [r]) v
      else if r = '':'' \<or> r = endOfSpec then
        (case populateFieldFromBuffer propagations r buffer v of
           Inl err \<Rightarrow> Inl (err, v)
         | Inr v \<Rightarrow> parse_runes letters propagations rs [] v)
      else parse_runes letters propagations rs (buffer @ [r]) v)"

text \<open>The byte after the first rune is read without a bounds check.\<close>

definition isFilePath :: "(string \<Rightarrow> bool) \<Rightarrow> string \<Rightarrow> bool option" where
  "isFilePath letters source =
     (case source of
        [] \<Rightarrow> None
      | c # _ \<Rightarrow>
          if c \<in> set ''./~'' then Some True
          else if has_prefix source [CHR 0x5C, CHR 0x5C] then Some True
          else case decode_rune source of (first, nextIndex) \<Rightarrow>
            if nextIndex < length source
            then Some (isWindowsDrive letters [first] [source ! nextIndex])
            else None)"

definition populateType :: "(string \<Rightarrow> bool) \<Rightarrow> service_volume \<Rightarrow> service_volume option" where
  "populateType letters v =
     (if vc_Source v = [] then Some (v\<lparr>vc_Type := ''volume''\<rparr>)
      else map_option (\<lambda>path. v\<lparr>vc_Type := (if path then ''bind'' else ''volume'')\<rparr>) (isFilePath letters (vc_Source v)))"

definition ParseVolume :: "(string \<Rightarrow> bool) \<Rightarrow> string list \<Rightarrow> string \<Rightarrow> (go_error + service_volume) option" where
  "ParseVolume letters propagations spec =
     (if spec = [] then Some (Inl ''invalid empty volume spec'')
      else if length spec \<le> 2 then Some (Inr (no_volume\<lparr>vc_Target := spec, vc_Type := ''volume''\<rparr>))
      else case parse_runes letters propagations (runes (spec @ endOfSpec)) [] no_volume of
        Inl (err, v) \<Rightarrow>
          map_option (\<lambda>_. Inl (''invalid spec: '' @ spec @ '': '' @ err)) (populateType letters v)
      | Inr v \<Rightarrow> map_option Inr (populateType letters v))"

section \<open>Mounts\<close>

record volume_config =
  vol_Name :: string
  vol_Driver :: string
  vol_DriverOpts :: "(string \<times> string) list option"
  vol_External :: bool
  vol_Labels :: "(string \<times> string) list"

record volume_options =
  vo_NoCopy :: bool
  vo_Labels :: "(string \<times> string) list"
  vo_DriverConfig :: "(string \<times> (string \<times> string) list option) option"

record mount =
  m_Type :: string
  m_Source :: string
  m_Target :: string
  m_ReadOnly :: bool
  m_Consistency :: string
  m_BindOptions :: "string option"
  m_VolumeOptions :: "volume_options option"
  m_TmpfsOptions :: "int option"

definition createMountFromVolume :: "service_volume \<Rightarrow> mount" where
  "createMountFromVolume v =
     \<lparr>m_Type = vc_Type v, m_Source = vc_Source v, m_Target = vc_Target v, m_ReadOnly = vc_ReadOnly v,
      m_Consistency = vc_Consistency v, m_BindOptions = None, m_VolumeOptions = None, m_TmpfsOptions = None\<rparr>"

definition handleVolumeToMount :: "service_volume \<Rightarrow> (string \<times> volume_config) list \<Rightarrow> namespace \<Rightarrow> go_error + mount" where
  "handleVolumeToMount v stackVolumes n =
     (let result = createMountFromVolume v in
      if vc_Tmpfs v \<noteq> None then Inl ''tmpfs options are incompatible with type volume''
      else if vc_Bind v \<noteq> None then Inl ''bind options are incompatible with type volume''
      else if vc_Source v = [] then Inr result
      else case map_of stackVolumes (vc_Source v) of
        None \<Rightarrow> Inl (''undefined volume '' @ go_quote (vc_Source v))
      | Some sv \<Rightarrow>
          let source = (if vol_Name sv \<noteq> [] then vol_Name sv else Scope n (vc_Source v));
              opts = \<lparr>vo_NoCopy = (case vc_Volume v of Some b \<Rightarrow> b | None \<Rightarrow> False), vo_Labels = [], vo_DriverConfig = None\<rparr>
          in if vol_External sv then Inr (result\<lparr>m_Source := source, m_VolumeOptions := Some opts\<rparr>)
             else Inr (result\<lparr>m_Source := source, m_VolumeOptions := Some (opts\<lparr>
               vo_Labels := AddStackLabel n (vol_Labels sv),
               vo_DriverConfig := (if vol_Driver sv \<noteq> [] \<or> vol_DriverOpts sv \<noteq> None
                                   then Some (vol_Driver sv, vol_DriverOpts sv) else None)\<rparr>)\<rparr>))"

definition handleBindToMount :: "service_volume \<Rightarrow> go_error + mount" where
  "handleBindToMount v =
     (if vc_Source v = [] then Inl ''invalid bind source, source cannot be empty''
      else if vc_Volume v \<noteq> None then Inl ''volume options are incompatible with type bind''
      else if vc_Tmpfs v \<noteq> None then Inl ''tmpfs options are incompatible with type bind''
      else Inr ((createMountFromVolume v)\<lparr>m_BindOptions := vc_Bind v\<rparr>))"

definition handleTmpfsToMount :: "service_volume \<Rightarrow> go_error + mount" where
  "handleTmpfsToMount v =
     (if vc_Source v \<noteq> [] then Inl ''invalid tmpfs source, source must be empty''
      else if vc_Bind v \<noteq> None then Inl ''bind options are incompatible with type tmpfs''
      else if vc_Volume v \<noteq> None then Inl ''volume options are incompatible with type tmpfs''
      else Inr ((createMountFromVolume v)\<lparr>m_TmpfsOptions := vc_Tmpfs v\<rparr>))"

definition handleNpipeToMount :: "service_volume \<Rightarrow> go_error + mount" where
  "handleNpipeToMount v =
     (if vc_Source v = [] then Inl ''invalid npipe source, source cannot be empty''
      else if vc_Volume v \<noteq> None then Inl ''volume options are incompatible with type npipe''
      else if vc_Tmpfs v \<noteq> None then Inl ''tmpfs options are incompatible with type npipe''
      else Inr ((createMountFromVolume v)\<lparr>m_BindOptions := vc_Bind v\<rparr>))"

definition convertVolumeToMount :: "service_volume \<Rightarrow> (string \<times> volume_config) list \<Rightarrow> namespace \<Rightarrow> go_error + mount" where
  "convertVolumeToMount v stackVolumes n =
     (if vc_Type v = ''volume'' \<or> vc_Type v = [] then handleVolumeToMount v stackVolumes n
      else if vc_Type v = ''bind'' then handleBindToMount v
      else if vc_Type v = ''tmpfs'' then handleTmpfsToMount v
      else if vc_Type v = ''npipe'' then handleNpipeToMount v
      else Inl ''volume type must be volume, bind, tmpfs or npipe'')"

definition Volumes_mounts :: "service_volume list \<Rightarrow> (string \<times> volume_config) list \<Rightarrow> namespace \<Rightarrow> go_error + mount list" where
  "Volumes_mounts vs stackVolumes n = map_or_return (\<lambda>v. convertVolumeToMount v stackVolumes n) vs"

section \<open>Lemmas\<close>

lemma Descope_Scope [simp]: "Descope n (Scope n name) = name"
  by (simp add: Descope_def Scope_def trim_prefix_def has_prefix_def)

text \<open>A section between colons: ASCII, neither a separator nor a drive letter.\<close>

definition plain_section :: "string \<Rightarrow> bool" where
  "plain_section s \<longleftrightarrow> ascii s \<and> s \<noteq> [] \<and> CHR '':'' \<notin> set s \<and> CHR 0x00 \<notin> set s \<and>
     \<not> (\<exists>c. s = [c] \<and> ascii_letter c)"

lemma not_drive_colon:
  "isWindowsDrive letters buffer r \<Longrightarrow> r = '':''"
  by (simp add: isWindowsDrive_def)

lemma parse_runes_chars:
  assumes "CHR '':'' \<notin> set s" and "CHR 0x00 \<notin> set s"
  shows "parse_runes letters props (map (\<lambda>c. [c]) s @ rs) buffer v =
    parse_runes letters props rs (buffer @ map (\<lambda>c. [c]) s) v"
  using assms
proof (induction s arbitrary: buffer)
  case (Cons c s)
  then have "\<not> isWindowsDrive letters buffer [c]" by (auto dest: not_drive_colon)
  with Cons show ?case by (auto simp: endOfSpec_def)
qed simp

lemma parse_runes_section:
  assumes s: "plain_section s" and r: "r = '':'' \<or> r = endOfSpec"
  shows "parse_runes letters props (map (\<lambda>c. [c]) s @ r # rs) [] v =
    (case populateFieldFromBuffer props r (map (\<lambda>c. [c]) s) v of
       Inl err \<Rightarrow> Inl (err, v) | Inr v \<Rightarrow> parse_runes letters props rs [] v)"
proof -
  have "\<not> isWindowsDrive letters (map (\<lambda>c. [c]) s) r"
    using s by (auto simp: isWindowsDrive_def plain_section_def IsLetter_def length_Suc_conv)
  with r show ?thesis
    using s parse_runes_chars [of s letters props "r # rs" "[]" v] by (auto simp: plain_section_def)
qed

lemma populate_section:
  assumes "s \<noteq> []"
  shows "populateFieldFromBuffer props r (map (\<lambda>c. [c]) s) v =
    (if vc_Source v = [] \<and> r = endOfSpec then Inr (v\<lparr>vc_Target := s\<rparr>)
     else if vc_Source v = [] then Inr (v\<lparr>vc_Source := s\<rparr>)
     else if vc_Target v = [] then Inr (v\<lparr>vc_Target := s\<rparr>)
     else if r = '':'' then Inl ''too many colons''
     else Inr (fold (apply_option props) (split_at (CHR '','') s) v))"
  using assms by (simp add: populateFieldFromBuffer_def Let_def concat_map_singleton)

lemma runes_sections:
  assumes "ascii s"
  shows "runes (s @ t) = map (\<lambda>c. [c]) s @ runes t"
  using assms by (induction s) (simp_all add: runes_ascii_Cons)

lemma runes_colon: "runes ('':'' @ t) = '':'' # runes t" "runes (CHR '':'' # t) = '':'' # runes t"
  by (simp_all add: runes_ascii_Cons byte_def)

lemma runes_end: "runes endOfSpec = [endOfSpec]"
  by (simp add: endOfSpec_def runes_ascii_Cons byte_def)

lemma parse_runes_two:
  assumes "plain_section s" and "plain_section t"
  shows "parse_runes letters props (runes (s @ '':'' @ t @ endOfSpec)) [] no_volume =
    Inr (no_volume\<lparr>vc_Source := s, vc_Target := t\<rparr>)"
proof -
  have "ascii s" "ascii t" "s \<noteq> []" "t \<noteq> []" using assms by (auto simp: plain_section_def)
  moreover have "'':'' \<noteq> endOfSpec" by (simp add: endOfSpec_def)
  ultimately show ?thesis
    using parse_runes_section [OF assms(1), where rs = "map (\<lambda>c. [c]) t @ [endOfSpec]"]
      parse_runes_section [OF assms(2), where rs = "[]"]
    by (simp add: runes_sections runes_colon runes_end populate_section no_volume_def)
qed

lemma parse_runes_three:
  assumes "plain_section s" and "plain_section t" and "plain_section opts"
  shows "parse_runes letters props (runes (s @ '':'' @ t @ '':'' @ opts @ endOfSpec)) [] no_volume =
    Inr (fold (apply_option props) (split_at (CHR '','') opts) (no_volume\<lparr>vc_Source := s, vc_Target := t\<rparr>))"
proof -
  have "ascii s" "ascii t" "ascii opts" "s \<noteq> []" "t \<noteq> []" "opts \<noteq> []" using assms by (auto simp: plain_section_def)
  moreover have "'':'' \<noteq> endOfSpec" by (simp add: endOfSpec_def)
  ultimately show ?thesis
    using parse_runes_section [OF assms(1), where rs = "map (\<lambda>c. [c]) t @ '':'' # map (\<lambda>c. [c]) opts @ [endOfSpec]"]
      parse_runes_section [OF assms(2), where rs = "map (\<lambda>c. [c]) opts @ [endOfSpec]"]
      parse_runes_section [OF assms(3), where rs = "[]"]
    by (simp add: runes_sections runes_colon runes_end populate_section no_volume_def)
qed

text \<open>What \<open>isFilePath\<close> says of an ASCII source: a path, a Windows drive, or a volume name; one
  character alone is read out of bounds.\<close>

lemma isFilePath_ascii:
  assumes "ascii (c # d # cs)"
  shows "isFilePath letters (c # d # cs) = Some (c \<in> set ''./~'' \<or> (c = CHR 0x5C \<and> d = CHR 0x5C) \<or> (ascii_letter c \<and> d = CHR '':''))"
  using assms
  by (simp add: isFilePath_def decode_rune_ascii isWindowsDrive_def IsLetter_def has_prefix_def) auto

lemma isFilePath_single:
  "ascii [c] \<Longrightarrow> isFilePath letters [c] = (if c \<in> set ''./~'' then Some True else None)"
  by (simp add: isFilePath_def decode_rune_ascii has_prefix_def)

lemma fold_apply_option_source:
  "vc_Source (fold (apply_option props) opts v) = vc_Source v"
  "vc_Target (fold (apply_option props) opts v) = vc_Target v"
  by (induction opts arbitrary: v) (auto simp: apply_option_def)

lemma plain_section_cases:
  "plain_section s \<Longrightarrow> (\<exists>c. s = [c] \<and> \<not> ascii_letter c) \<or> (\<exists>c d cs. s = c # d # cs)"
  by (cases s rule: remdups_adj.cases) (auto simp: plain_section_def)

definition same_mount :: "service_volume \<Rightarrow> mount \<Rightarrow> bool" where
  "same_mount v m \<longleftrightarrow> m_Target m = vc_Target v \<and> m_ReadOnly m = vc_ReadOnly v \<and> m_Type m = vc_Type v"

lemma handleVolumeToMount_source:
  assumes "handleVolumeToMount v stackVolumes n = Inr m"
  shows "same_mount v m \<and> ((vc_Source v = [] \<and> m_Source m = []) \<or>
    (\<exists>sv. map_of stackVolumes (vc_Source v) = Some sv \<and>
       m_Source m = (if vol_Name sv \<noteq> [] then vol_Name sv else Scope n (vc_Source v))))"
proof (cases "vc_Source v = []")
  case True
  with assms show ?thesis
    by (auto simp: handleVolumeToMount_def createMountFromVolume_def same_mount_def Let_def split: if_splits)
next
  case False
  with assms obtain sv where "map_of stackVolumes (vc_Source v) = Some sv"
    by (auto simp: handleVolumeToMount_def Let_def split: if_splits option.splits)
  with assms False show ?thesis
    by (cases "vol_External sv")
      (auto simp: handleVolumeToMount_def createMountFromVolume_def same_mount_def Let_def split: if_splits)
qed

lemma handleBindToMount_source:
  "handleBindToMount v = Inr m \<Longrightarrow> same_mount v m \<and> m_Source m = vc_Source v \<and> m_Source m \<noteq> []"
  by (auto simp: handleBindToMount_def createMountFromVolume_def same_mount_def split: if_splits)

lemma handleNpipeToMount_source:
  "handleNpipeToMount v = Inr m \<Longrightarrow> same_mount v m \<and> m_Source m = vc_Source v \<and> m_Source m \<noteq> []"
  by (auto simp: handleNpipeToMount_def createMountFromVolume_def same_mount_def split: if_splits)

lemma handleTmpfsToMount_source:
  "handleTmpfsToMount v = Inr m \<Longrightarrow> same_mount v m \<and> m_Source m = []"
  by (auto simp: handleTmpfsToMount_def createMountFromVolume_def same_mount_def split: if_splits)

text \<open>The mount of a volume: target, flag and type are kept, and the source depends on the type.\<close>

definition mount_of :: "(string \<times> volume_config) list \<Rightarrow> namespace \<Rightarrow> service_volume \<Rightarrow> mount \<Rightarrow> bool" where
  "mount_of stackVolumes n v m \<longleftrightarrow> same_mount v m \<and>
    (vc_Type v \<in> {''volume'', []} \<longrightarrow>
       (vc_Source v = [] \<and> m_Source m = []) \<or>
       (\<exists>sv. map_of stackVolumes (vc_Source v) = Some sv \<and>
          m_Source m = (if vol_Name sv \<noteq> [] then vol_Name sv else Scope n (vc_Source v)))) \<and>
    (vc_Type v \<in> {''bind'', ''npipe''} \<longrightarrow> m_Source m = vc_Source v \<and> m_Source m \<noteq> []) \<and>
    (vc_Type v = ''tmpfs'' \<longrightarrow> m_Source m = [])"

lemma convertVolumeToMount_source:
  assumes "convertVolumeToMount v stackVolumes n = Inr m"
  shows "mount_of stackVolumes n v m"
proof -
  consider "vc_Type v = ''volume'' \<or> vc_Type v = []" | "vc_Type v = ''bind''" | "vc_Type v = ''tmpfs''" | "vc_Type v = ''npipe''"
    using assms by (auto simp: convertVolumeToMount_def split: if_splits)
  then show ?thesis
  proof cases
    case 1
    with assms have "handleVolumeToMount v stackVolumes n = Inr m" by (auto simp: convertVolumeToMount_def)
    from handleVolumeToMount_source [OF this] 1 show ?thesis unfolding mount_of_def by auto
  next
    case 2
    with assms handleBindToMount_source [of v m] show ?thesis
      by (auto simp: convertVolumeToMount_def mount_of_def)
  next
    case 3
    with assms handleTmpfsToMount_source [of v m] show ?thesis
      by (auto simp: convertVolumeToMount_def mount_of_def)
  next
    case 4
    with assms handleNpipeToMount_source [of v m] show ?thesis
      by (auto simp: convertVolumeToMount_def mount_of_def)
  qed
qed

section \<open>Properties\<close>

text \<open>A specification \<open>source:target:options\<close> of ASCII sections that are not single characters
  is parsed into these parts: the options are applied from left to right, the rest is kept as
  written, and the type is \<open>bind\<close> exactly for a source that starts like a path and \<open>volume\<close>
  otherwise.\<close>

theorem ParseVolume_sections:
  assumes "plain_section (c # d # cs)" and "plain_section t" and "plain_section opts"
  shows "ParseVolume letters props ((c # d # cs) @ '':'' @ t @ '':'' @ opts) =
    Some (Inr ((fold (apply_option props) (split_at (CHR '','') opts) (no_volume\<lparr>vc_Source := c # d # cs, vc_Target := t\<rparr>))
      \<lparr>vc_Type := (if c \<in> set ''./~'' \<or> (c = CHR 0x5C \<and> d = CHR 0x5C) then ''bind'' else ''volume'')\<rparr>))"
proof -
  have "ascii (c # d # cs)" "d \<noteq> CHR '':''" using assms(1) by (auto simp: plain_section_def)
  then have path: "isFilePath letters (c # d # cs) = Some (c \<in> set ''./~'' \<or> (c = CHR 0x5C \<and> d = CHR 0x5C))"
    by (simp add: isFilePath_ascii)
  have "t \<noteq> []" using assms(2) by (simp add: plain_section_def)
  then have "\<not> length ((c # d # cs) @ '':'' @ t @ '':'' @ opts) \<le> 2" by simp
  with parse_runes_three [OF assms, of letters props] path show ?thesis
    unfolding ParseVolume_def populateType_def by (simp add: fold_apply_option_source)
qed

text \<open>A source of one character that is neither a letter nor one of dot, slash and tilde makes
  the parser panic: the byte after the first rune of the source is read although there is none.\<close>

theorem ParseVolume_single_char_panics:
  assumes "plain_section [c]" and "c \<notin> set ''./~''" and "plain_section t"
  shows "ParseVolume letters props ([c] @ '':'' @ t) = None"
proof -
  have "ascii [c]" "t \<noteq> []" using assms by (auto simp: plain_section_def)
  then have "\<not> length ([c] @ '':'' @ t) \<le> 2" by (cases t) auto
  with parse_runes_two [OF assms(1,3), of letters props] isFilePath_single [OF \<open>ascii [c]\<close>] assms(2) show ?thesis
    unfolding ParseVolume_def populateType_def by (simp add: no_volume_def)
qed

text \<open>The mounts of a service: each has the target and the read-only flag of its volume; a named
  volume is always one that the stack declares, under its own name or the name scoped with the
  stack; a bind has a source and a tmpfs has none.\<close>

theorem Volumes_mounts_declared:
  assumes "Volumes_mounts vs stackVolumes n = Inr ms"
  shows "list_all2 (mount_of stackVolumes n) vs ms"
  using assms unfolding Volumes_mounts_def map_or_return_Inr
  by (rule list_all2_mono) (rule convertVolumeToMount_source)

theorem ParseVolume_sections_witness:
  "ParseVolume (\<lambda>_. False) [''rshared''] ''/srv/data:/data:ro,rshared'' =
     Some (Inr (no_volume\<lparr>vc_Type := ''bind'', vc_Source := ''/srv/data'', vc_Target := ''/data'',
       vc_ReadOnly := True, vc_Bind := Some ''rshared''\<rparr>))"
  using ParseVolume_sections [of "CHR ''/''" "CHR ''s''" "''rv/data''" "''/data''" "''ro,rshared''" "\<lambda>_. False" "[''rshared'']"]
  by (simp add: plain_section_def byte_def apply_option_def no_volume_def)

theorem ParseVolume_single_char_panics_witness:
  "ParseVolume (\<lambda>_. False) [] ''1:/data'' = None"
  using ParseVolume_single_char_panics [of "CHR ''1''" "''/data''" "\<lambda>_. False" "[]"]
  by (simp add: plain_section_def byte_def ascii_letter_def is_lower_def is_upper_def)

theorem Volumes_mounts_declared_witness:
  "\<exists>m. Volumes_mounts [no_volume\<lparr>vc_Type := ''volume'', vc_Source := ''db'', vc_Target := ''/data''\<rparr>]
      [(''db'', \<lparr>vol_Name = [], vol_Driver = [], vol_DriverOpts = None, vol_External = False, vol_Labels = []\<rparr>)] ''shop'' = Inr [m]
      \<and> m_Source m = ''shop_db'' \<and> m_Target m = ''/data''"
proof -
  let ?vs = "[no_volume\<lparr>vc_Type := ''volume'', vc_Source := ''db'', vc_Target := ''/data''\<rparr>]"
  let ?sv = "[(''db'', \<lparr>vol_Name = [], vol_Driver = [], vol_DriverOpts = None, vol_External = False, vol_Labels = []\<rparr>)]"
  have "\<exists>m. Volumes_mounts ?vs ?sv ''shop'' = Inr [m] \<and> m_Type m = ''volume''"
    by (simp add: Volumes_mounts_def convertVolumeToMount_def handleVolumeToMount_def createMountFromVolume_def
        no_volume_def Let_def)
  then obtain m where m: "Volumes_mounts ?vs ?sv ''shop'' = Inr [m]" "m_Type m = ''volume''" by blast
  from Volumes_mounts_declared [OF m(1)] m show ?thesis
    by (auto simp: mount_of_def same_mount_def no_volume_def Scope_def)
qed

end
