(* ===== verification/ComposeTypes.thy ===== *)
theory ComposeTypes
  imports Volumes "HOL-Library.Word"
begin

text \<open>
  The parsed compose file: the structures of docker/compose/types/types.go that the engines
  read.  A Go map is an association list, whose order stands for one order of iteration.
\<close>

type_synonym duration = int

record service_dependency =
  dep_Service :: string
  dep_Condition :: string

record port_config =
  p_Mode :: string
  p_Target :: "32 word"
  p_Published :: "32 word"
  p_Protocol :: string

record health_check =
  hc_Test :: "string list"
  hc_Timeout :: "duration option"
  hc_Interval :: "duration option"
  hc_Retries :: "64 word option"
  hc_StartPeriod :: "duration option"
  hc_Disable :: bool

record logging_config =
  lg_Driver :: string
  lg_Options :: "(string \<times> string) list"

record update_config =
  uc_Parallelism :: "64 word option"
  uc_Delay :: duration
  uc_FailureAction :: string
  uc_Monitor :: duration
  uc_MaxFailureRatio :: string
  uc_Order :: string

record resource =
  r_NanoCPUs :: string
  r_MemoryBytes :: int

record resources =
  rs_Limits :: "resource option"
  rs_Reservations :: "resource option"

record restart_policy =
  rp_Condition :: string
  rp_Delay :: "duration option"
  rp_MaxAttempts :: "64 word option"
  rp_Window :: "duration option"

record placement =
  pl_Constraints :: "string list"
  pl_Preferences :: "string list"
  pl_MaxReplicas :: "64 word"

record deploy_config =
  d_Mode :: string
  d_Replicas :: "64 word option"
  d_Labels :: "(string \<times> string) list"
  d_UpdateConfig :: "update_config option"
  d_RollbackConfig :: "update_config option"
  d_Resources :: resources
  d_RestartPolicy :: "restart_policy option"
  d_Placement :: placement
  d_EndpointMode :: string

text \<open>The networks of a service map a name to a configuration or nil; only the aliases are read.\<close>

record service_config =
  s_Name :: string
  s_BuildContext :: string
  s_CapAdd :: "string list"
  s_CapDrop :: "string list"
  s_Command :: "string list"
  s_ContainerName :: string
  s_DependsOn :: "service_dependency list"
  s_Deploy :: deploy_config
  s_DNS :: "string list"
  s_DNSSearch :: "string list"
  s_Entrypoint :: "string list"
  s_Environment :: "(string \<times> string option) list"
  s_Hostname :: string
  s_HealthCheck :: "health_check option"
  s_Image :: string
  s_Labels :: "(string \<times> string) list"
  s_Logging :: "logging_config option"
  s_Networks :: "(string \<times> string list option) list"
  s_Ports :: "port_config list"
  s_Privileged :: bool
  s_ReadOnly :: bool
  s_Restart :: string
  s_StdinOpen :: bool
  s_Tty :: bool
  s_User :: string
  s_Volumes :: "service_volume list"
  s_WorkingDir :: string

record network_config =
  nw_Name :: string
  nw_Driver :: string
  nw_External :: bool
  nw_Labels :: "(string \<times> string) list"

record compose_config =
  c_Services :: "service_config list"
  c_Networks :: "(string \<times> network_config) list"
  c_Volumes :: "(string \<times> volume_config) list"

text \<open>The zero values.\<close>

definition no_network :: network_config where
  "no_network = \<lparr>nw_Name = [], nw_Driver = [], nw_External = False, nw_Labels = []\<rparr>"

definition no_resources :: resources where
  "no_resources = \<lparr>rs_Limits = None, rs_Reservations = None\<rparr>"

definition no_placement :: placement where
  "no_placement = \<lparr>pl_Constraints = [], pl_Preferences = [], pl_MaxReplicas = 0\<rparr>"

definition no_deploy :: deploy_config where
  "no_deploy = \<lparr>d_Mode = [], d_Replicas = None, d_Labels = [], d_UpdateConfig = None, d_RollbackConfig = None,
     d_Resources = no_resources, d_RestartPolicy = None, d_Placement = no_placement, d_EndpointMode = []\<rparr>"

definition no_service :: service_config where
  "no_service = \<lparr>s_Name = [], s_BuildContext = [], s_CapAdd = [], s_CapDrop = [], s_Command = [],
     s_ContainerName = [], s_DependsOn = [], s_Deploy = no_deploy, s_DNS = [], s_DNSSearch = [], s_Entrypoint = [],
     s_Environment = [], s_Hostname = [], s_HealthCheck = None, s_Image = [], s_Labels = [], s_Logging = None,
     s_Networks = [], s_Ports = [], s_Privileged = False, s_ReadOnly = False, s_Restart = [], s_StdinOpen = False,
     s_Tty = False, s_User = [], s_Volumes = [], s_WorkingDir = []\<rparr>"

end
