(* ===== verification/DependsOn.thy ===== *)
theory DependsOn
  imports ComposeTypes "HOL-Library.Multiset"
begin

text \<open>
  The order in which the services of a stack are started: \<open>topologicalOrder\<close> of
  docker/compose/standalone.go, Kahn's algorithm over the \<open>depends_on\<close> lists.

  The maps of edges are association lists.  \<open>sort.SearchStrings\<close> is a binary search; over the
  sorted list of ready services it gives the first index whose element is not smaller.
\<close>

section \<open>The algorithm\<close>

definition edges_of :: "(string \<times> 'a) list \<Rightarrow> 'a \<Rightarrow> string \<Rightarrow> 'a" where
  "edges_of m z k = (case map_of m k of Some v \<Rightarrow> v | None \<Rightarrow> z)"

definition add_edge :: "string \<Rightarrow> string \<Rightarrow> (string \<times> int) list \<times> (string \<times> string list) list
    \<Rightarrow> (string \<times> int) list \<times> (string \<times> string list) list" where
  "add_edge s d m =
     (case m of (inE, outE) \<Rightarrow>
        (AList.update s (edges_of inE 0 s + 1) inE, AList.update d (edges_of outE [] d @ [s]) outE))"

fun add_deps :: "string list \<Rightarrow> string \<Rightarrow> string list \<Rightarrow> (string \<times> int) list \<times> (string \<times> string list) list
    \<Rightarrow> go_error + (string \<times> int) list \<times> (string \<times> string list) list" where
  "add_deps names s [] m = Inr m"
| "add_deps names s (d # ds) m =
     (if d \<notin> set names
      then Inl (''service '' @ go_quote s @ '' references undefined dependency '' @ go_quote d @ '' in depends_on'')
      else add_deps names s ds (add_edge s d m))"

definition dep_names :: "service_config \<Rightarrow> string list" where
  "dep_names s = map dep_Service (s_DependsOn s)"

fun add_services :: "string list \<Rightarrow> service_config list \<Rightarrow> (string \<times> int) list \<times> (string \<times> string list) list
    \<Rightarrow> go_error + (string \<times> int) list \<times> (string \<times> string list) list" where
  "add_services names [] m = Inr m"
| "add_services names (s # ss) m =
     (case m of (inE, outE) \<Rightarrow>
        let inE = (if map_of inE (s_Name s) = None then AList.update (s_Name s) 0 inE else inE) in
        or_return (add_deps names (s_Name s) (dep_names s) (inE, outE)) (add_services names ss))"

definition insert_ready :: "string \<Rightarrow> string list \<Rightarrow> string list" where
  "insert_ready child ready = takeWhile (\<lambda>x. x < child) ready @ child # dropWhile (\<lambda>x. x < child) ready"

fun relax :: "string list \<Rightarrow> (string \<times> int) list \<Rightarrow> string list \<Rightarrow> (string \<times> int) list \<times> string list" where
  "relax [] inE ready = (inE, ready)"
| "relax (child # children) inE ready =
     (let n = edges_of inE 0 child - 1; inE = AList.update child n inE in
      relax children inE (if n = 0 then insert_ready child ready else ready))"

text \<open>Every turn of the loop takes one service from the ready list, and a service is added to it
  only when its count drops to zero.\<close>

definition waiting :: "(string \<times> int) list \<Rightarrow> nat" where
  "waiting inE = length (filter (\<lambda>kv. snd kv > 0) inE)"

lemma waiting_update:
  "waiting (AList.update k v inE) + (if edges_of inE 0 k > 0 then 1 else 0) \<le> waiting inE + (if v > 0 then 1 else 0)"
proof (induction inE)
  case (Cons kv inE)
  then show ?case by (cases kv) (auto simp: waiting_def edges_of_def split: option.splits)
qed (auto simp: waiting_def edges_of_def)

lemma length_insert_ready [simp]: "length (insert_ready c r) = Suc (length r)"
  unfolding insert_ready_def by (metis append_Cons length_append length_Cons add_Suc_right takeWhile_dropWhile_id)

lemma relax_measure:
  "relax children inE ready = (inE', ready') \<Longrightarrow> waiting inE' + length ready' \<le> waiting inE + length ready"
proof (induction children arbitrary: inE ready)
  case (Cons child children)
  define n where "n = edges_of inE 0 child - 1"
  have "waiting (AList.update child n inE) + (if n = 0 then 1 else 0) \<le> waiting inE"
  proof (cases "n = 0")
    case True
    then have "edges_of inE 0 child = 1" by (simp add: n_def)
    with waiting_update [of child n inE] True show ?thesis by simp
  next
    case False
    with waiting_update [of child n inE] show ?thesis by (auto simp: n_def split: if_splits)
  qed
  moreover have "waiting inE' + length ready' \<le>
      waiting (AList.update child n inE) + length (if n = 0 then insert_ready child ready else ready)"
    using Cons.prems by (intro Cons.IH) (simp add: n_def Let_def)
  ultimately show ?case by (auto split: if_splits)
qed simp

function kahn :: "(string \<times> string list) list \<Rightarrow> (string \<times> int) list \<Rightarrow> string list \<Rightarrow> string list
    \<Rightarrow> (string \<times> int) list \<times> string list" where
  "kahn outE inE [] order = (inE, order)"
| "kahn outE inE (current # ready) order =
     (case relax (sort (edges_of outE [] current)) inE ready of
        (inE, ready) \<Rightarrow> kahn outE inE ready (order @ [current]))"
  by pat_completeness auto
termination
  by (relation "measure (\<lambda>(outE, inE, ready, order). waiting inE + length ready)")
    (auto dest!: relax_measure [OF sym])

definition topologicalOrder :: "service_config list \<Rightarrow> go_error + string list" where
  "topologicalOrder services =
     or_return (add_services (map s_Name services) services ([], [])) (\<lambda>(inE, outE).
       let ready = sort (filter (\<lambda>n. edges_of inE 0 n = 0) (map s_Name services));
           (inE, order) = kahn outE inE ready []
       in if length order \<noteq> length services
          then Inl (''circular dependency detected in depends_on involving services ['' @
                 join '' '' (sort (map fst (filter (\<lambda>kv. snd kv > 0) inE))) @ '']'')
          else Inr order)"

section \<open>The edges\<close>

text \<open>The dependencies of a service, as listed, with repetitions.\<close>

definition deps_of :: "service_config list \<Rightarrow> string \<Rightarrow> string list" where
  "deps_of services n = concat (map dep_names (filter (\<lambda>s. s_Name s = n) services))"

lemma edges_of_update [simp]:
  "edges_of (AList.update k v m) z k' = (if k' = k then v else edges_of m z k')"
  by (simp add: edges_of_def update_conv')

text \<open>The maps count every occurrence: \<open>n\<close> waits for as many edges as it lists dependencies, and is
  listed among the children of \<open>d\<close> once for every time it names \<open>d\<close>.\<close>

lemma add_deps_edges:
  assumes "add_deps names s ds (inE, outE) = Inr (inE', outE')"
  shows "set ds \<subseteq> set names \<and>
    edges_of inE' 0 n = edges_of inE 0 n + (if n = s then int (length ds) else 0) \<and>
    edges_of outE' [] d = edges_of outE [] d @ replicate (count_list ds d) s"
  using assms
proof (induction ds arbitrary: inE outE)
  case (Cons d0 ds)
  then have d0: "d0 \<in> set names" by (auto split: if_splits)
  with Cons.prems have "add_deps names s ds
      (AList.update s (edges_of inE 0 s + 1) inE, AList.update d0 (edges_of outE [] d0 @ [s]) outE) = Inr (inE', outE')"
    by (simp add: add_edge_def)
  from Cons.IH [OF this] d0 show ?case
    by (auto simp: replicate_app_Cons_same)
qed simp

lemma add_deps_total: "set ds \<subseteq> set names \<Longrightarrow> \<exists>m'. add_deps names s ds m = Inr m'"
  by (induction ds arbitrary: m) auto

lemma edges_of_seen: "edges_of (if map_of m k = None then AList.update k 0 m else m) (0::int) n = edges_of m 0 n"
  by (auto simp: edges_of_def update_conv')

lemma add_services_edges:
  assumes "add_services names ss (inE, outE) = Inr (inE', outE')"
  shows "(\<forall>s \<in> set ss. set (dep_names s) \<subseteq> set names) \<and>
    edges_of inE' 0 n = edges_of inE 0 n + int (length (deps_of ss n)) \<and>
    mset (edges_of outE' [] d) = mset (edges_of outE [] d) + mset (concat (map (\<lambda>s. replicate (count_list (dep_names s) d) (s_Name s)) ss))"
  using assms
proof (induction ss arbitrary: inE outE)
  case (Cons s ss)
  define inE0 where "inE0 = (if map_of inE (s_Name s) = None then AList.update (s_Name s) 0 inE else inE)"
  have inE0: "edges_of inE0 0 n = edges_of inE 0 n" for n
    by (simp add: inE0_def edges_of_seen)
  from Cons.prems obtain inE1 outE1 where
    1: "add_deps names (s_Name s) (dep_names s) (inE0, outE) = Inr (inE1, outE1)" and
    2: "add_services names ss (inE1, outE1) = Inr (inE', outE')"
    by (auto simp: go_simps Let_def inE0_def split: if_splits)
  from add_deps_edges [OF 1] Cons.IH [OF 2] show ?case
    by (auto simp: inE0 deps_of_def)
qed (simp add: deps_of_def)

lemma add_services_total:
  "\<forall>s \<in> set ss. set (dep_names s) \<subseteq> set names \<Longrightarrow> \<exists>m'. add_services names ss m = Inr m'"
proof (induction ss arbitrary: m)
  case (Cons s ss)
  obtain inE outE where m: "m = (inE, outE)" by fastforce
  define inE0 where "inE0 = (if map_of inE (s_Name s) = None then AList.update (s_Name s) 0 inE else inE)"
  obtain m1 where "add_deps names (s_Name s) (dep_names s) (inE0, outE) = Inr m1"
    using Cons.prems add_deps_total by fastforce
  moreover obtain m2 where "add_services names ss m1 = Inr m2" using Cons by fastforce
  ultimately show ?case by (simp add: m inE0_def Let_def)
qed simp

lemma set_insert_ready [simp]: "set (insert_ready c r) = insert c (set r)"
  unfolding insert_ready_def by (metis insert_is_Un list.simps(15) set_append sup_left_commute takeWhile_dropWhile_id)

lemma distinct_insert_ready: "distinct (insert_ready c r) \<longleftrightarrow> c \<notin> set r \<and> distinct r"
proof -
  have "mset (insert_ready c r) = add_mset c (mset r)"
    unfolding insert_ready_def by (metis mset.simps(2) mset_append takeWhile_dropWhile_id union_mset_add_mset_right)
  then show ?thesis by (metis distinct.simps(2) mset.simps(2) mset_eq_imp_distinct_iff)
qed

text \<open>Relaxing a list of children lowers each count by the number of its occurrences and makes
  exactly those ready whose count reaches zero.\<close>

lemma relax_spec:
  assumes "relax children inE ready = (inE', ready')"
    and "\<forall>c \<in> set children. edges_of inE 0 c \<ge> int (count_list children c)"
    and "\<forall>c \<in> set children. c \<notin> set ready" and "distinct ready"
  shows "(\<forall>n. edges_of inE' 0 n = edges_of inE 0 n - int (count_list children n)) \<and>
    set ready' = set ready \<union> {c \<in> set children. edges_of inE' 0 c = 0} \<and> distinct ready'"
  using assms
proof (induction children arbitrary: inE ready)
  case (Cons c cs)
  define n where "n = edges_of inE 0 c - 1"
  define ready1 where "ready1 = (if n = 0 then insert_ready c ready else ready)"
  have rec: "relax cs (AList.update c n inE) ready1 = (inE', ready')"
    using Cons.prems(1) by (simp add: n_def ready1_def Let_def)
  have zero: "n = 0 \<Longrightarrow> c \<notin> set cs"
    using Cons.prems(2) by (auto simp: n_def count_list_0_iff [symmetric] dest!: spec)
  have "\<forall>x \<in> set cs. edges_of (AList.update c n inE) 0 x \<ge> int (count_list cs x)"
    using Cons.prems(2) by (auto simp: n_def split: if_splits)
  moreover have "\<forall>x \<in> set cs. x \<notin> set ready1"
    using Cons.prems(3) zero by (auto simp: ready1_def)
  moreover have "distinct ready1"
    using Cons.prems(3,4) by (auto simp: ready1_def distinct_insert_ready)
  ultimately have IH: "\<forall>x. edges_of inE' 0 x = edges_of (AList.update c n inE) 0 x - int (count_list cs x)"
    "set ready' = set ready1 \<union> {x \<in> set cs. edges_of inE' 0 x = 0}" "distinct ready'"
    using Cons.IH [OF rec] by blast+
  have "\<forall>x. edges_of inE' 0 x = edges_of inE 0 x - int (count_list (c # cs) x)"
    using IH(1) by (auto simp: n_def)
  moreover have "edges_of inE' 0 c = 0 \<and> c \<notin> set cs \<longleftrightarrow> n = 0"
    using IH(1) zero Cons.prems(2) by (auto simp: n_def count_list_0_iff)
  then have "set ready' = set ready \<union> {x \<in> set (c # cs). edges_of inE' 0 x = 0}"
    using IH(2) by (auto simp: ready1_def)
  ultimately show ?case using IH(3) by blast
qed simp

section \<open>Correctness\<close>

lemma count_list_replicate: "count_list (replicate k x) n = (if n = x then k else 0)"
  by (induction k) auto

lemma count_children:
  "count_list (concat (map (\<lambda>s. replicate (count_list (dep_names s) d) (s_Name s)) ss)) n = count_list (deps_of ss n) d"
  by (induction ss) (auto simp: deps_of_def count_list_append count_list_replicate)

lemma count_list_mset: "mset xs = mset ys \<Longrightarrow> count_list xs x = count_list ys x"
  by (metis count_mset)

lemma count_list_filter_le: "P x \<Longrightarrow> count_list xs x \<le> length (filter P xs)"
  by (induction xs) auto

lemma length_filter_minus:
  "x \<notin> A \<Longrightarrow> int (length (filter (\<lambda>d. d \<notin> insert x A) xs)) = int (length (filter (\<lambda>d. d \<notin> A) xs)) - int (count_list xs x)"
  by (induction xs) auto

text \<open>The invariant of the loop.\<close>

definition kahn_inv :: "service_config list \<Rightarrow> (string \<times> int) list \<Rightarrow> string list \<Rightarrow> string list \<Rightarrow> bool" where
  "kahn_inv ss inE ready order \<longleftrightarrow>
     (\<forall>n. edges_of inE 0 n = int (length (filter (\<lambda>d. d \<notin> set order) (deps_of ss n)))) \<and>
     set ready = {n \<in> s_Name ` set ss. n \<notin> set order \<and> set (deps_of ss n) \<subseteq> set order} \<and>
     distinct ready \<and> distinct order \<and> set order \<subseteq> s_Name ` set ss \<and>
     (\<forall>xs n ys. order = xs @ n # ys \<longrightarrow> set (deps_of ss n) \<subseteq> set xs)"

lemma kahn_inv_closed: "kahn_inv ss inE ready order \<Longrightarrow> n \<in> set order \<Longrightarrow> set (deps_of ss n) \<subseteq> set order"
  using split_list [of n order] by (fastforce simp: kahn_inv_def)

lemma deps_of_name: "d \<in> set (deps_of ss n) \<Longrightarrow> n \<in> s_Name ` set ss"
  by (auto simp: deps_of_def)

lemma kahn_inv_step:
  assumes inv: "kahn_inv ss inE (current # ready) order"
    and children: "\<And>n. count_list children n = count_list (deps_of ss n) current"
    and relax: "relax children inE ready = (inE', ready')"
  shows "kahn_inv ss inE' ready' (order @ [current])"
proof -
  have cur: "current \<notin> set order" "set (deps_of ss current) \<subseteq> set order" "current \<in> s_Name ` set ss" "current \<notin> set ready"
    and ready: "set (current # ready) = {n \<in> s_Name ` set ss. n \<notin> set order \<and> set (deps_of ss n) \<subseteq> set order}"
    and cnt: "edges_of inE 0 n = int (length (filter (\<lambda>d. d \<notin> set order) (deps_of ss n)))" for n
    using inv by (auto simp: kahn_inv_def)
  have child: "c \<in> set children \<longleftrightarrow> current \<in> set (deps_of ss c)" for c
    by (metis children count_list_0_iff)
  have "\<forall>c \<in> set children. edges_of inE 0 c \<ge> int (count_list children c)"
    using cur(1) by (auto simp: cnt children count_list_filter_le)
  moreover have "c \<in> set (current # ready) \<Longrightarrow> set (deps_of ss c) \<subseteq> set order" for c unfolding ready by simp
  then have "\<forall>c \<in> set children. c \<notin> set ready" using cur(1) by (metis child list.set_intros(2) subsetD)
  moreover have "distinct ready" using inv by (simp add: kahn_inv_def)
  ultimately have r: "\<forall>n. edges_of inE' 0 n = edges_of inE 0 n - int (count_list children n)"
    "set ready' = set ready \<union> {c \<in> set children. edges_of inE' 0 c = 0}" "distinct ready'"
    using relax_spec [OF relax] by blast+
  have cnt': "edges_of inE' 0 n = int (length (filter (\<lambda>d. d \<notin> set (order @ [current])) (deps_of ss n)))" for n
    using length_filter_minus [OF cur(1), of "deps_of ss n"] r(1) by (simp add: cnt children)
  then have zero: "edges_of inE' 0 n = 0 \<longleftrightarrow> set (deps_of ss n) \<subseteq> set (order @ [current])" for n
    by (auto simp: filter_empty_conv subset_iff)
  have "set ready' = {n \<in> s_Name ` set ss. n \<notin> set (order @ [current]) \<and> set (deps_of ss n) \<subseteq> set (order @ [current])}"
  proof (intro set_eqI iffI)
    fix n assume "n \<in> set ready'"
    then consider "n \<in> set ready" | "current \<in> set (deps_of ss n)" "set (deps_of ss n) \<subseteq> set (order @ [current])"
      using r(2) zero by (auto simp: child)
    then show "n \<in> {n \<in> s_Name ` set ss. n \<notin> set (order @ [current]) \<and> set (deps_of ss n) \<subseteq> set (order @ [current])}"
    proof cases
      case 1
      with ready cur(4) show ?thesis by auto
    next
      case 2
      then have "n \<notin> set order" "n \<noteq> current" using kahn_inv_closed [OF inv, of n] cur by auto
      with 2 deps_of_name show ?thesis by auto
    qed
  next
    fix n assume n: "n \<in> {n \<in> s_Name ` set ss. n \<notin> set (order @ [current]) \<and> set (deps_of ss n) \<subseteq> set (order @ [current])}"
    show "n \<in> set ready'"
    proof (cases "current \<in> set (deps_of ss n)")
      case True
      with n show ?thesis using r(2) zero child by blast
    next
      case False
      with n have "n \<in> set (current # ready)" "n \<noteq> current" unfolding ready by auto
      then show ?thesis using r(2) by simp
    qed
  qed
  moreover have "set (deps_of ss n) \<subseteq> set xs" if "order @ [current] = xs @ n # ys" for xs n ys
  proof (cases ys rule: rev_cases)
    case Nil
    with that cur(2) show ?thesis by simp
  next
    case (snoc ys' y)
    with that have "order = xs @ n # ys'" by simp
    with inv show ?thesis by (auto simp: kahn_inv_def)
  qed
  ultimately show ?thesis
    using inv cur r(3) cnt' unfolding kahn_inv_def by auto
qed

lemma kahn_correct:
  assumes "kahn outE inE ready order = (inE', order')" and "kahn_inv ss inE ready order"
    and "\<And>d n. count_list (edges_of outE [] d) n = count_list (deps_of ss n) d"
  shows "kahn_inv ss inE' [] order'"
  using assms
proof (induction outE inE ready order rule: kahn.induct)
  case (2 outE inE current ready order)
  obtain inE1 ready1 where r: "relax (sort (edges_of outE [] current)) inE ready = (inE1, ready1)" by fastforce
  have "kahn_inv ss inE1 ready1 (order @ [current])"
    using 2(4) count_list_mset [of "sort (edges_of outE [] current)" "edges_of outE [] current"]
    by (intro kahn_inv_step [OF 2(3) _ r]) simp
  with 2 r show ?case by simp
qed simp

text \<open>The relation that must not have a cycle.\<close>

definition depends :: "service_config list \<Rightarrow> (string \<times> string) set" where
  "depends ss = {(d, n). d \<in> set (deps_of ss n)}"

lemma finite_depends: "finite (depends ss)"
proof -
  have "depends ss \<subseteq> (\<Union>s \<in> set ss. set (dep_names s) \<times> {s_Name s})"
    by (auto simp: depends_def deps_of_def)
  then show ?thesis by (rule finite_subset) simp
qed

lemma kahn_done:
  assumes inv: "kahn_inv ss inE [] order" and acyc: "acyclic (depends ss)"
    and def: "\<forall>s \<in> set ss. set (dep_names s) \<subseteq> s_Name ` set ss"
  shows "set order = s_Name ` set ss"
proof (rule ccontr)
  assume "set order \<noteq> s_Name ` set ss"
  then obtain n where n: "n \<in> s_Name ` set ss - set order" using inv by (auto simp: kahn_inv_def)
  have "wf (depends ss)" using finite_depends acyc by (rule finite_acyclic_wf)
  then obtain m where m: "m \<in> s_Name ` set ss - set order"
    "\<And>k. (k, m) \<in> depends ss \<Longrightarrow> k \<notin> s_Name ` set ss - set order"
    using n by (meson wf_eq_minimal)
  have "set (deps_of ss m) \<subseteq> s_Name ` set ss" using def by (auto simp: deps_of_def)
  with m have "set (deps_of ss m) \<subseteq> set order" by (auto simp: depends_def)
  with m(1) inv show False by (auto simp: kahn_inv_def)
qed

lemma ordered_acyclic:
  assumes "set order = N" and "\<And>xs n ys. order = xs @ n # ys \<Longrightarrow> set (deps_of ss n) \<subseteq> set xs" and "distinct order"
    and "\<And>d n. d \<in> set (deps_of ss n) \<Longrightarrow> n \<in> N"
  shows "acyclic (depends ss)"
proof -
  have edge: "(d, n) \<in> depends ss \<Longrightarrow> \<exists>i j. i < j \<and> j < length order \<and> order ! i = d \<and> order ! j = n" for d n
  proof -
    assume "(d, n) \<in> depends ss"
    then have d: "d \<in> set (deps_of ss n)" "n \<in> set order" using assms(1,4) by (auto simp: depends_def)
    then obtain xs ys where o: "order = xs @ n # ys" by (meson split_list)
    with assms(2) d have "d \<in> set xs" by blast
    then obtain i where "i < length xs" "xs ! i = d" by (meson in_set_conv_nth)
    with o show ?thesis by (intro exI [of _ i] exI [of _ "length xs"]) (simp add: nth_append)
  qed
  have path: "\<exists>i j. i < j \<and> j < length order \<and> order ! i = d \<and> order ! j = n" if "(d, n) \<in> (depends ss)\<^sup>+" for d n
    using that
  proof (induction rule: trancl_induct)
    case (base y)
    then show ?case by (rule edge)
  next
    case (step y z)
    from step.IH obtain i j where "i < j" "j < length order" "order ! i = d" "order ! j = y" by blast
    moreover from edge [OF step.hyps(2)] obtain k l where "k < l" "l < length order" "order ! k = y" "order ! l = z" by blast
    moreover have "j = k" using \<open>order ! j = y\<close> \<open>order ! k = y\<close> \<open>j < length order\<close> \<open>k < l\<close> \<open>l < length order\<close> assms(3)
      by (metis nth_eq_iff_index_eq order.strict_trans)
    ultimately show ?case by (intro exI [of _ i] exI [of _ l]) simp
  qed
  show ?thesis
    unfolding acyclic_def
  proof (rule allI, rule notI)
    fix n assume "(n, n) \<in> (depends ss)\<^sup>+"
    from path [OF this] obtain i j where "i < j" "j < length order" "order ! i = order ! j" by auto
    with assms(3) show False by (simp add: nth_eq_iff_index_eq)
  qed
qed

lemma kahn_inv_start:
  assumes "\<And>n. edges_of inE 0 n = int (length (deps_of ss n))" and "distinct (map s_Name ss)"
  shows "kahn_inv ss inE (sort (filter (\<lambda>n. edges_of inE 0 n = 0) (map s_Name ss))) []"
  using assms by (auto simp: kahn_inv_def)

lemma topologicalOrder_run:
  assumes dist: "distinct (map s_Name ss)" and def: "\<forall>s \<in> set ss. set (dep_names s) \<subseteq> s_Name ` set ss"
  shows "\<exists>inE order. kahn_inv ss inE [] order \<and>
    (topologicalOrder ss = Inr order \<and> length order = length ss \<or> (\<exists>err. topologicalOrder ss = Inl err) \<and> length order \<noteq> length ss)"
proof -
  from def add_services_total [of ss "map s_Name ss" "([], [])"]
  obtain inE outE where m: "add_services (map s_Name ss) ss ([], []) = Inr (inE, outE)" by auto
  have edges: "edges_of inE 0 n = int (length (deps_of ss n))" for n
    using add_services_edges [OF m] by (simp add: edges_of_def)
  have children: "count_list (edges_of outE [] d) n = count_list (deps_of ss n) d" for d n
  proof -
    have "mset (edges_of outE [] d) = mset (concat (map (\<lambda>s. replicate (count_list (dep_names s) d) (s_Name s)) ss))"
      using add_services_edges [OF m] by (simp add: edges_of_def)
    from count_list_mset [OF this] show ?thesis by (simp add: count_children)
  qed
  obtain inE' order where k: "kahn outE inE (sort (filter (\<lambda>n. edges_of inE 0 n = 0) (map s_Name ss))) [] = (inE', order)"
    by fastforce
  from kahn_correct [OF k kahn_inv_start [OF edges dist] children] have inv: "kahn_inv ss inE' [] order" .
  with m k show ?thesis
    by (intro exI [of _ inE'] exI [of _ order]) (auto simp: topologicalOrder_def Let_def)
qed

lemma topologicalOrder_undefined:
  assumes "topologicalOrder ss = Inr order"
  shows "\<forall>s \<in> set ss. set (dep_names s) \<subseteq> s_Name ` set ss"
proof -
  obtain inE outE where "add_services (map s_Name ss) ss ([], []) = Inr (inE, outE)"
    using assms by (auto simp: topologicalOrder_def go_simps)
  from add_services_edges [OF this] show ?thesis by simp
qed

lemma topologicalOrder_sound:
  assumes dist: "distinct (map s_Name ss)" and ok: "topologicalOrder ss = Inr order"
  shows "distinct order" and "set order = s_Name ` set ss"
    and "order = xs @ n # ys \<Longrightarrow> set (deps_of ss n) \<subseteq> set xs" and "acyclic (depends ss)"
proof -
  from topologicalOrder_run [OF dist topologicalOrder_undefined [OF ok]] ok
  obtain inE where inv: "kahn_inv ss inE [] order" and len: "length order = length ss" by auto
  then show d: "distinct order" and pre: "order = xs @ n # ys \<Longrightarrow> set (deps_of ss n) \<subseteq> set xs" for xs n ys
    by (auto simp: kahn_inv_def)
  have "card (set order) = card (s_Name ` set ss)"
    using d len dist by (metis distinct_card length_map set_map)
  with inv show s: "set order = s_Name ` set ss"
    by (intro card_subset_eq) (auto simp: kahn_inv_def)
  show "acyclic (depends ss)"
    using s pre d deps_of_name by (intro ordered_acyclic) auto
qed

lemma topologicalOrder_complete:
  assumes dist: "distinct (map s_Name ss)" and def: "\<forall>s \<in> set ss. set (dep_names s) \<subseteq> s_Name ` set ss"
    and acyc: "acyclic (depends ss)"
  shows "\<exists>order. topologicalOrder ss = Inr order"
proof -
  obtain inE order where inv: "kahn_inv ss inE [] order" and
    *: "topologicalOrder ss = Inr order \<and> length order = length ss \<or> (\<exists>err. topologicalOrder ss = Inl err) \<and> length order \<noteq> length ss"
    using topologicalOrder_run [OF dist def] by blast
  have "length order = card (set order)" using inv by (simp add: kahn_inv_def distinct_card)
  also have "\<dots> = length ss" using kahn_done [OF inv acyc def] dist by (metis distinct_card length_map set_map)
  finally show ?thesis using * by blast
qed

section \<open>Properties\<close>

text \<open>C31: The start order is correct: it lists every service exactly once, and every service after all
  services that it depends on.\<close>

theorem topologicalOrder_respects_dependencies:
  assumes "distinct (map s_Name ss)" and "topologicalOrder ss = Inr order"
  shows "distinct order \<and> set order = s_Name ` set ss \<and>
    (\<forall>xs n ys. order = xs @ n # ys \<longrightarrow> set (deps_of ss n) \<subseteq> set xs)"
  using topologicalOrder_sound [OF assms] by blast

text \<open>C32: A start order is found exactly when every dependency is a service of the file and the
  dependencies have no cycle; otherwise the deployment gets an error.\<close>

theorem topologicalOrder_succeeds_iff:
  assumes "distinct (map s_Name ss)"
  shows "(\<exists>order. topologicalOrder ss = Inr order) \<longleftrightarrow>
    (\<forall>s \<in> set ss. set (dep_names s) \<subseteq> s_Name ` set ss) \<and> acyclic (depends ss)"
  using topologicalOrder_complete [OF assms] topologicalOrder_sound(4) [OF assms] topologicalOrder_undefined by blast

definition demo_services :: "service_config list" where
  "demo_services =
     [no_service\<lparr>s_Name := ''web'', s_DependsOn := [\<lparr>dep_Service = ''db'', dep_Condition = ''service_healthy''\<rparr>,
        \<lparr>dep_Service = ''cache'', dep_Condition = []\<rparr>]\<rparr>,
      no_service\<lparr>s_Name := ''db''\<rparr>,
      no_service\<lparr>s_Name := ''cache'', s_DependsOn := [\<lparr>dep_Service = ''db'', dep_Condition = []\<rparr>]\<rparr>]"

lemma demo_order: "topologicalOrder demo_services = Inr [''db'', ''cache'', ''web'']"
  by (simp add: demo_services_def topologicalOrder_def no_service_def dep_names_def add_edge_def edges_of_def Let_def
      insert_ready_def)

theorem topologicalOrder_respects_dependencies_witness:
  "set (deps_of demo_services ''web'') \<subseteq> {''db'', ''cache''}"
proof -
  have "distinct (map s_Name demo_services)" by (simp add: demo_services_def)
  from topologicalOrder_respects_dependencies [OF this demo_order]
  have "[''db'', ''cache'', ''web''] = [''db'', ''cache''] @ ''web'' # [] \<longrightarrow> set (deps_of demo_services ''web'') \<subseteq> set [''db'', ''cache'']"
    by blast
  then show ?thesis by simp
qed

theorem topologicalOrder_succeeds_iff_witness:
  "acyclic (depends demo_services)"
proof -
  have "distinct (map s_Name demo_services)" by (simp add: demo_services_def)
  from topologicalOrder_succeeds_iff [OF this] demo_order show ?thesis by blast
qed

end
