(* ===== verification/StateWriter.thy ===== *)
theory StateWriter
  imports GoPrelude
begin

text \<open>
  The progress record of a self-deploy: the phases and the state of biz/self_deploy_job.go, and
  the state writer of cmd/deploy_agent/state_writer.go with its ring of log lines.

  Operations are functions of the writer and of the last content of state.json.  Their arguments
  are the time stamp of the entry and the result of writing the file, which the file system decides.
  Every public method holds the mutex, so the methods and the ticks of the flusher goroutine are
  the atomic steps of the relation \<open>writer_step\<close>.
\<close>

section \<open>Phases and states\<close>

definition SelfDeployPhasePending :: string where "SelfDeployPhasePending = ''pending''"
definition SelfDeployPhaseStopping :: string where "SelfDeployPhaseStopping = ''stopping''"
definition SelfDeployPhasePulling :: string where "SelfDeployPhasePulling = ''pulling''"
definition SelfDeployPhaseStarting :: string where "SelfDeployPhaseStarting = ''starting''"
definition SelfDeployPhaseHealthCheck :: string where "SelfDeployPhaseHealthCheck = ''health_check''"
definition SelfDeployPhaseSuccess :: string where "SelfDeployPhaseSuccess = ''success''"
definition SelfDeployPhaseFailed :: string where "SelfDeployPhaseFailed = ''failed''"
definition SelfDeployPhaseRecovery :: string where "SelfDeployPhaseRecovery = ''recovery''"
definition SelfDeployPhaseRolledBack :: string where "SelfDeployPhaseRolledBack = ''rolled_back''"

lemmas phase_defs = SelfDeployPhasePending_def SelfDeployPhaseStopping_def SelfDeployPhasePulling_def
  SelfDeployPhaseStarting_def SelfDeployPhaseHealthCheck_def SelfDeployPhaseSuccess_def SelfDeployPhaseFailed_def
  SelfDeployPhaseRecovery_def SelfDeployPhaseRolledBack_def

text \<open>Times are nanoseconds; \<open>0\<close> is the zero time.\<close>

record self_deploy_state =
  sd_JobID :: string
  sd_Phase :: string
  sd_StartedAt :: int
  sd_FinishedAt :: int
  sd_Error :: string
  sd_LogTail :: "string list"
  sd_EventPublished :: bool

definition isInProgressPhase :: "string \<Rightarrow> bool" where
  "isInProgressPhase phase \<longleftrightarrow>
     phase \<in> {SelfDeployPhasePending, SelfDeployPhaseStopping, SelfDeployPhasePulling, SelfDeployPhaseStarting,
              SelfDeployPhaseHealthCheck, SelfDeployPhaseRecovery}"

definition appendLogLine :: "string list \<Rightarrow> string \<Rightarrow> string list" where
  "appendLogLine tail line =
     (let tail = tail @ [line] in if length tail > 200 then drop (length tail - 200) tail else tail)"

section \<open>The writer\<close>

definition logRingCapacity :: nat where "logRingCapacity = 500"

record state_writer =
  sw_st :: self_deploy_state
  sw_ring :: "string list"
  sw_next :: nat
  sw_filled :: bool
  sw_dirty :: bool
  sw_stopped :: bool

definition snapshotRingLocked :: "state_writer \<Rightarrow> string list" where
  "snapshotRingLocked sw =
     (if \<not> sw_filled sw then (if sw_next sw = 0 then [] else take (sw_next sw) (sw_ring sw))
      else drop (sw_next sw) (sw_ring sw) @ take (sw_next sw) (sw_ring sw))"

definition appendLogLocked :: "string \<Rightarrow> string \<Rightarrow> state_writer \<Rightarrow> state_writer" where
  "appendLogLocked stamp line sw =
     (let entry = stamp @ '' '' @ line; n = (sw_next sw + 1) mod logRingCapacity in
      sw\<lparr>sw_ring := (sw_ring sw)[sw_next sw := entry], sw_next := n, sw_filled := (if n = 0 then True else sw_filled sw)\<rparr>)"

type_synonym write_result = "go_error + unit"

type_synonym writer = "state_writer \<times> self_deploy_state option"

definition flushLocked :: "write_result \<Rightarrow> writer \<Rightarrow> (go_error + unit) \<times> writer" where
  "flushLocked io w =
     (case w of (sw, file) \<Rightarrow>
        let sw = sw\<lparr>sw_st := (sw_st sw)\<lparr>sd_LogTail := snapshotRingLocked sw\<rparr>\<rparr> in
        if sd_JobID (sw_st sw) = [] then (Inr (), (sw\<lparr>sw_dirty := False\<rparr>, file))
        else case io of
          Inl e \<Rightarrow> (Inl e, (sw, file))
        | Inr _ \<Rightarrow> (Inr (), (sw\<lparr>sw_dirty := False\<rparr>, Some (sw_st sw))))"

definition newStateWriter :: "write_result \<Rightarrow> int \<Rightarrow> self_deploy_state \<Rightarrow> self_deploy_state option \<Rightarrow> go_error + writer" where
  "newStateWriter io now initial file =
     (let st = (if sd_StartedAt initial = 0 then initial\<lparr>sd_StartedAt := now\<rparr> else initial);
          sw = \<lparr>sw_st = st, sw_ring = replicate logRingCapacity [], sw_next = 0, sw_filled = False,
                sw_dirty = True, sw_stopped = False\<rparr>
      in case flushLocked io (sw, file) of
           (Inl e, _) \<Rightarrow> Inl (''deploy-agent: initial state flush: '' @ e)
         | (Inr _, w) \<Rightarrow> Inr w)"

definition SetPhase :: "string \<Rightarrow> string \<Rightarrow> writer \<Rightarrow> writer" where
  "SetPhase stamp phase w =
     (case w of (sw, file) \<Rightarrow>
        (appendLogLocked stamp (''phase='' @ phase) (sw\<lparr>sw_st := (sw_st sw)\<lparr>sd_Phase := phase\<rparr>, sw_dirty := True\<rparr>), file))"

definition Logf :: "string \<Rightarrow> string \<Rightarrow> writer \<Rightarrow> writer" where
  "Logf stamp line w = (case w of (sw, file) \<Rightarrow> ((appendLogLocked stamp line sw)\<lparr>sw_dirty := True\<rparr>, file))"

text \<open>The methods that end a deploy: the new phase, the time, the error if there is one, a log line, and
  a flush whose error is dropped.\<close>

definition finish :: "write_result \<Rightarrow> string \<Rightarrow> (self_deploy_state \<Rightarrow> self_deploy_state) \<Rightarrow> string option \<Rightarrow> writer \<Rightarrow> writer" where
  "finish io stamp f line w =
     (case w of (sw, file) \<Rightarrow>
        let sw = sw\<lparr>sw_st := f (sw_st sw)\<rparr>;
            sw = (case line of None \<Rightarrow> sw | Some l \<Rightarrow> appendLogLocked stamp l sw)
        in snd (flushLocked io (sw\<lparr>sw_dirty := True\<rparr>, file)))"

definition Fail :: "write_result \<Rightarrow> string \<Rightarrow> int \<Rightarrow> go_error \<Rightarrow> writer \<Rightarrow> writer" where
  "Fail io stamp now err =
     finish io stamp (\<lambda>st. st\<lparr>sd_Phase := SelfDeployPhaseFailed, sd_FinishedAt := now, sd_Error := err\<rparr>) (Some (''FAIL: '' @ err))"

definition Succeed :: "write_result \<Rightarrow> string \<Rightarrow> int \<Rightarrow> writer \<Rightarrow> writer" where
  "Succeed io stamp now =
     finish io stamp (\<lambda>st. st\<lparr>sd_Phase := SelfDeployPhaseSuccess, sd_FinishedAt := now, sd_Error := []\<rparr>)
       (Some ''SUCCESS: deploy complete'')"

definition MarkRolledBack :: "write_result \<Rightarrow> string \<Rightarrow> int \<Rightarrow> go_error \<Rightarrow> writer \<Rightarrow> writer" where
  "MarkRolledBack io stamp now reason =
     finish io stamp (\<lambda>st. st\<lparr>sd_Phase := SelfDeployPhaseRolledBack, sd_FinishedAt := now, sd_Error := ''rolled back: '' @ reason\<rparr>)
       (Some (''ROLLED BACK: '' @ reason))"

definition MarkRecovery :: "write_result \<Rightarrow> string \<Rightarrow> go_error \<Rightarrow> writer \<Rightarrow> writer" where
  "MarkRecovery io stamp reason =
     finish io stamp (\<lambda>st. st\<lparr>sd_Phase := SelfDeployPhaseRecovery, sd_Error := reason\<rparr>) (Some (''RECOVERY MODE: '' @ reason))"

text \<open>A tick of the flusher goroutine, which ends when the writer is closed.\<close>

definition flusherTick :: "write_result \<Rightarrow> writer \<Rightarrow> writer" where
  "flusherTick io w = (if sw_stopped (fst w) then w else if sw_dirty (fst w) then snd (flushLocked io w) else w)"

definition Close :: "write_result \<Rightarrow> writer \<Rightarrow> writer" where
  "Close io w =
     (case w of (sw, file) \<Rightarrow>
        if sw_stopped sw then (sw, file)
        else snd (flushLocked io (sw\<lparr>sw_stopped := True, sw_dirty := True\<rparr>, file)))"

section \<open>The ring holds the last lines\<close>

text \<open>The abstract state of the ring is the list of all entries ever logged.\<close>

definition ring_of :: "string list \<Rightarrow> state_writer \<Rightarrow> bool" where
  "ring_of log sw \<longleftrightarrow>
     length (sw_ring sw) = logRingCapacity \<and> sw_next sw = length log mod logRingCapacity \<and>
     (sw_filled sw \<longleftrightarrow> logRingCapacity \<le> length log) \<and>
     (\<forall>j < length log. length log \<le> j + logRingCapacity \<longrightarrow> sw_ring sw ! (j mod logRingCapacity) = log ! j)"

definition last_lines :: "string list \<Rightarrow> string list" where
  "last_lines log = drop (length log - logRingCapacity) log"

lemma logRingCapacity_pos [simp]: "0 < logRingCapacity"
  by (simp add: logRingCapacity_def)

lemma mod_window:
  fixes c :: nat
  assumes "j < n" "n \<le> j + c" "j mod c = n mod c" "0 < c"
  shows "n = j + c"
proof -
  from assms have "n - j \<le> c" "0 < n - j" by auto
  moreover have "c dvd n - j" using assms(1,3) by (metis less_imp_le mod_eq_dvd_iff_nat)
  ultimately have "n - j = c" by (metis dvd_imp_le le_antisym)
  with assms(1) show ?thesis by simp
qed

lemma ring_of_append:
  assumes "ring_of log sw"
  shows "ring_of (log @ [stamp @ '' '' @ line]) (appendLogLocked stamp line sw)"
proof -
  let ?c = logRingCapacity and ?n = "length log"
  note r = assms [unfolded ring_of_def]
  have filled: "sw_filled (appendLogLocked stamp line sw) \<longleftrightarrow> ?c \<le> Suc ?n"
  proof (cases "?c \<le> ?n")
    case True
    with r show ?thesis by (simp add: appendLogLocked_def Let_def)
  next
    case False
    then have "?n mod ?c = ?n" by simp
    with False r show ?thesis
      by (cases "Suc ?n = ?c") (auto simp: appendLogLocked_def Let_def)
  qed
  have entries: "(sw_ring sw)[?n mod ?c := e] ! (j mod ?c) = (log @ [e]) ! j"
    if j: "j < Suc ?n" "Suc ?n \<le> j + ?c" for j e
  proof (cases "j = ?n")
    case True
    with r show ?thesis by simp
  next
    case False
    with j have less: "j < ?n" "?n \<le> j + ?c" by auto
    have "j mod ?c \<noteq> ?n mod ?c"
      using mod_window [OF less] j(2) by fastforce
    with r less show ?thesis by (simp add: nth_append)
  qed
  show ?thesis
    using r filled entries by (auto simp: ring_of_def appendLogLocked_def Let_def mod_Suc_eq)
qed

lemma ring_of_snapshot:
  assumes "ring_of log sw"
  shows "snapshotRingLocked sw = last_lines log"
proof (cases "logRingCapacity \<le> length log")
  case False
  with assms have "sw_next sw = length log" "\<not> sw_filled sw" "length (sw_ring sw) = logRingCapacity"
    "\<forall>j < length log. sw_ring sw ! j = log ! j"
    by (auto simp: ring_of_def)
  with False show ?thesis
    by (auto simp: snapshotRingLocked_def last_lines_def intro: nth_equalityI)
next
  case True
  let ?c = logRingCapacity and ?n = "length log"
  let ?s = "drop (?n mod ?c) (sw_ring sw) @ take (?n mod ?c) (sw_ring sw)"
  note r = assms [unfolded ring_of_def]
  have len: "length ?s = ?c" using r by simp
  have nth: "?s ! i = log ! (?n - ?c + i)" if i: "i < ?c" for i
  proof -
    let ?j = "?n - ?c + i"
    have j: "?j < ?n" "?n \<le> ?j + ?c" using True i by auto
    have mod_i: "?j mod ?c = (?n mod ?c + i) mod ?c"
    proof -
      have "?j mod ?c = (?j + ?c) mod ?c" by simp
      also have "?j + ?c = ?n + i" using True by simp
      also have "(?n + i) mod ?c = (?n mod ?c + i) mod ?c" by (simp add: mod_add_left_eq)
      finally show ?thesis .
    qed
    have "?s ! i = sw_ring sw ! ((?n mod ?c + i) mod ?c)"
    proof (cases "i < ?c - ?n mod ?c")
      case True
      with r show ?thesis by (simp add: nth_append)
    next
      case False
      have "?n mod ?c < ?c" by simp
      with False i have "?c \<le> ?n mod ?c + i" "?n mod ?c + i - ?c < ?c" "?n mod ?c + i - ?c = i - (?c - ?n mod ?c)"
        and "i - (?c - ?n mod ?c) < ?n mod ?c"
        by linarith+
      then have "(?n mod ?c + i) mod ?c = i - (?c - ?n mod ?c)" "i - (?c - ?n mod ?c) < ?n mod ?c"
        by (metis le_mod_geq mod_less, blast)
      with False r show ?thesis by (simp add: nth_append)
    qed
    also have "\<dots> = log ! ?j" using r j mod_i by metis
    finally show ?thesis .
  qed
  from r True have "snapshotRingLocked sw = ?s" by (simp add: snapshotRingLocked_def)
  also have "\<dots> = last_lines log"
    using len nth True by (intro nth_equalityI) (auto simp: last_lines_def)
  finally show ?thesis .
qed

lemma ring_of_new:
  "newStateWriter io now initial file = Inr w \<Longrightarrow> ring_of [] (fst w)"
  using logRingCapacity_pos
  by (auto simp: newStateWriter_def flushLocked_def ring_of_def Let_def simp del: logRingCapacity_pos split: if_splits sum.splits)

section \<open>The methods as steps\<close>

text \<open>A step of the writer with the line it logs, if any.\<close>

inductive writer_step :: "writer \<Rightarrow> string option \<Rightarrow> writer \<Rightarrow> bool" where
  phase: "writer_step w (Some (stamp @ '' '' @ ''phase='' @ phase)) (SetPhase stamp phase w)"
| logf: "writer_step w (Some (stamp @ '' '' @ line)) (Logf stamp line w)"
| fail: "writer_step w (Some (stamp @ '' '' @ ''FAIL: '' @ err)) (Fail io stamp now err w)"
| succeed: "writer_step w (Some (stamp @ '' '' @ ''SUCCESS: deploy complete'')) (Succeed io stamp now w)"
| rolled_back: "writer_step w (Some (stamp @ '' '' @ ''ROLLED BACK: '' @ reason)) (MarkRolledBack io stamp now reason w)"
| recovery: "writer_step w (Some (stamp @ '' '' @ ''RECOVERY MODE: '' @ reason)) (MarkRecovery io stamp reason w)"
| tick: "writer_step w None (flusherTick io w)"
| close: "writer_step w None (Close io w)"

inductive writer_run :: "writer \<Rightarrow> string list \<Rightarrow> writer \<Rightarrow> bool" where
  start: "newStateWriter io now initial file = Inr w \<Longrightarrow> sd_JobID initial \<noteq> [] \<Longrightarrow> writer_run w [] w"
| step: "writer_run w0 log w \<Longrightarrow> writer_step w line w' \<Longrightarrow> writer_run w0 (log @ (case line of None \<Rightarrow> [] | Some l \<Rightarrow> [l])) w'"

text \<open>The writer refines the list of its lines, and a clean writer is on disk.\<close>

definition writer_inv :: "string list \<Rightarrow> writer \<Rightarrow> bool" where
  "writer_inv log w \<longleftrightarrow>
     ring_of log (fst w) \<and> sd_JobID (sw_st (fst w)) \<noteq> [] \<and>
     (\<not> sw_dirty (fst w) \<longrightarrow> snd w = Some (sw_st (fst w)) \<and> sd_LogTail (sw_st (fst w)) = last_lines log)"

lemma ring_of_fields:
  "ring_of log (sw\<lparr>sw_st := st\<rparr>) = ring_of log sw" "ring_of log (sw\<lparr>sw_dirty := d\<rparr>) = ring_of log sw"
  "ring_of log (sw\<lparr>sw_stopped := d\<rparr>) = ring_of log sw"
  "snapshotRingLocked (sw\<lparr>sw_st := st\<rparr>) = snapshotRingLocked sw" "snapshotRingLocked (sw\<lparr>sw_dirty := d\<rparr>) = snapshotRingLocked sw"
  "snapshotRingLocked (sw\<lparr>sw_stopped := d\<rparr>) = snapshotRingLocked sw"
  by (simp_all add: ring_of_def snapshotRingLocked_def)

lemma appendLogLocked_fields [simp]:
  "sw_st (appendLogLocked stamp line sw) = sw_st sw" "sw_dirty (appendLogLocked stamp line sw) = sw_dirty sw"
  "sw_stopped (appendLogLocked stamp line sw) = sw_stopped sw"
  by (simp_all add: appendLogLocked_def Let_def)

lemma flushLocked_inv:
  assumes "ring_of log sw" and "sd_JobID (sw_st sw) \<noteq> []" and "sw_dirty sw"
  shows "writer_inv log (snd (flushLocked io (sw, d)))"
  using assms by (auto simp: flushLocked_def Let_def writer_inv_def ring_of_fields ring_of_snapshot split: sum.splits)

lemma finish_inv:
  assumes "ring_of log (fst w)" and "sd_JobID (f (sw_st (fst w))) \<noteq> []"
  shows "writer_inv (log @ [stamp @ '' '' @ line]) (finish io stamp f (Some line) w)"
proof -
  obtain sw d where w: "w = (sw, d)" by fastforce
  have "ring_of (log @ [stamp @ '' '' @ line]) (appendLogLocked stamp line (sw\<lparr>sw_st := f (sw_st sw)\<rparr>))"
    using assms(1) w by (intro ring_of_append) (simp add: ring_of_fields)
  then show ?thesis
    using assms(2) unfolding w finish_def Let_def prod.case option.case
    by (intro flushLocked_inv) (simp_all add: ring_of_fields w)
qed

lemma writer_step_inv:
  assumes "writer_step w line w'" and "writer_inv log w"
  shows "writer_inv (log @ (case line of None \<Rightarrow> [] | Some l \<Rightarrow> [l])) w'"
proof -
  from assms(2) have ring: "ring_of log (fst w)" and job: "sd_JobID (sw_st (fst w)) \<noteq> []"
    by (auto simp: writer_inv_def)
  obtain sw d where w: "w = (sw, d)" by fastforce
  from assms(1) show ?thesis
  proof cases
    case (phase stamp p)
    with ring_of_append [of log "sw\<lparr>sw_st := (sw_st sw)\<lparr>sd_Phase := p\<rparr>, sw_dirty := True\<rparr>" stamp "''phase='' @ p"] ring job w
    show ?thesis by (simp add: SetPhase_def writer_inv_def ring_of_fields)
  next
    case (logf stamp l)
    with ring_of_append [of log sw stamp l] ring job w show ?thesis
      by (simp add: Logf_def writer_inv_def ring_of_fields)
  next
    case (tick io)
    with assms(2) ring job w show ?thesis
      by (auto simp: flusherTick_def intro: flushLocked_inv)
  next
    case (close io)
    with assms(2) ring job w show ?thesis
      by (auto simp: Close_def ring_of_fields intro: flushLocked_inv)
  qed (use ring job in \<open>simp_all add: Fail_def Succeed_def MarkRolledBack_def MarkRecovery_def\<close>,
       (rule finish_inv [where stamp = stamp for stamp, simplified]; simp)+)
qed

lemma newStateWriter_inv:
  assumes "newStateWriter io now initial d = Inr w" and "sd_JobID initial \<noteq> []"
  shows "writer_inv [] w"
proof -
  define sw where "sw = \<lparr>sw_st = if sd_StartedAt initial = 0 then initial\<lparr>sd_StartedAt := now\<rparr> else initial,
    sw_ring = replicate logRingCapacity [], sw_next = 0, sw_filled = False, sw_dirty = True, sw_stopped = False\<rparr>"
  have "ring_of [] sw" by (simp add: ring_of_def sw_def logRingCapacity_def)
  moreover have "sd_JobID (sw_st sw) \<noteq> []" "sw_dirty sw" using assms(2) by (simp_all add: sw_def)
  moreover have "w = snd (flushLocked io (sw, d))"
    using assms(1) by (auto simp: newStateWriter_def Let_def sw_def split: sum.splits prod.splits)
  ultimately show ?thesis using flushLocked_inv by simp
qed

lemma writer_run_inv: "writer_run w0 log w \<Longrightarrow> writer_inv log w"
  by (induction rule: writer_run.induct) (auto intro: newStateWriter_inv writer_step_inv)

text \<open>C1: The state writer refines the list of all lines it was ever given: whatever the order of its
  methods and of the ticks of its flusher, and whether or not the file can be written, the ring
  holds the last 500 lines in order, and whenever nothing is pending, state.json holds the state of
  the writer with exactly these lines.\<close>

theorem StateWriter_refines_log:
  assumes "writer_run w0 log (sw, file)"
  shows "snapshotRingLocked sw = drop (length log - 500) log \<and>
    (\<not> sw_dirty sw \<longrightarrow> file = Some (sw_st sw) \<and> sd_LogTail (sw_st sw) = drop (length log - 500) log)"
  using writer_run_inv [OF assms] ring_of_snapshot [of log sw]
  by (auto simp: writer_inv_def last_lines_def logRingCapacity_def)

definition demo_state :: self_deploy_state where
  "demo_state = \<lparr>sd_JobID = ''j1'', sd_Phase = SelfDeployPhasePending, sd_StartedAt = 1, sd_FinishedAt = 0, sd_Error = [],
     sd_LogTail = [], sd_EventPublished = False\<rparr>"

definition demo_writer :: writer where
  "demo_writer = (case newStateWriter (Inr ()) 1 demo_state None of Inr w \<Rightarrow> w | Inl _ \<Rightarrow>
     (\<lparr>sw_st = demo_state, sw_ring = [], sw_next = 0, sw_filled = False, sw_dirty = True, sw_stopped = False\<rparr>, None))"

lemma demo_writer_new: "newStateWriter (Inr ()) 1 demo_state None = Inr demo_writer"
  by (simp add: demo_writer_def newStateWriter_def flushLocked_def demo_state_def Let_def)

theorem StateWriter_refines_log_witness:
  "snapshotRingLocked (fst (Succeed (Inl ''disk full'') ''t2'' 9 (SetPhase ''t1'' ''pulling'' demo_writer))) =
     [''t1 phase=pulling'', ''t2 SUCCESS: deploy complete'']"
proof -
  have "writer_run demo_writer [] demo_writer"
    using demo_writer_new by (rule writer_run.start) (simp add: demo_state_def)
  from writer_run.step [OF this writer_step.phase [where stamp = "''t1''" and phase = "''pulling''"]]
  have "writer_run demo_writer [''t1 phase=pulling''] (SetPhase ''t1'' ''pulling'' demo_writer)" by simp
  from writer_run.step [OF this writer_step.succeed [where stamp = "''t2''" and now = 9 and io = "Inl ''disk full''"]]
  have "writer_run demo_writer [''t1 phase=pulling'', ''t2 SUCCESS: deploy complete'']
      (fst (Succeed (Inl ''disk full'') ''t2'' 9 (SetPhase ''t1'' ''pulling'' demo_writer)),
       snd (Succeed (Inl ''disk full'') ''t2'' 9 (SetPhase ''t1'' ''pulling'' demo_writer)))" by simp
  from StateWriter_refines_log [OF this] show ?thesis by simp
qed

end
