(* ===== verification/DockerSdk.thy ===== *)
theory DockerSdk
  imports ComposeTypes
begin

text \<open>
  The Docker client that the standalone engine calls.

  The client and the daemon are third-party code: the record \<open>sdk\<close> has one function for every
  call the engine makes, over an opaque world, and is an argument of all definitions.  The
  state of a program adds to the world a trace of the calls with their success, so that
  statements about the order of calls can be made; nothing else is assumed of the daemon.
  The clock, sleeping and the cancellation of the context are functions of the same world; the
  state also has the environment of the process.
\<close>

section \<open>Data of the client\<close>

datatype sdk_error = NotFound go_error | SdkError go_error

definition IsNotFound :: "sdk_error \<Rightarrow> bool" where
  "IsNotFound e = (case e of NotFound _ \<Rightarrow> True | SdkError _ \<Rightarrow> False)"

definition error_text :: "sdk_error \<Rightarrow> go_error" where
  "error_text e = (case e of NotFound m \<Rightarrow> m | SdkError m \<Rightarrow> m)"

record mount_point =
  mp_Type :: string
  mp_Name :: string
  mp_Source :: string
  mp_Destination :: string

record container_summary =
  ct_ID :: string
  ct_Names :: "string list"
  ct_State :: string
  ct_Labels :: "(string \<times> string) list"
  ct_Mounts :: "mount_point list"
  ct_Networks :: "string list option"

record container_state =
  st_Status :: string
  st_Running :: bool
  st_ExitCode :: int
  st_Error :: string
  st_Health :: "string option"
  st_HealthLog :: "string list"

text \<open>An inspected container.  Its configuration may be absent (image and environment), and so may its
  network settings, the list of networks and the addresses of their endpoints.\<close>

record container_info =
  in_State :: "container_state option"
  in_RestartCount :: int
  in_Name :: string
  in_Image :: string
  in_Config :: "(string \<times> string list) option"
  in_Mounts :: "mount_point list"
  in_Networks :: "(string \<times> string option) list option"

record network_summary =
  net_ID :: string
  net_Name :: string

record volume_usage =
  vu_Name :: string
  vu_Size :: "int option"

record health_config =
  hcfg_Test :: "string list"
  hcfg_Timeout :: duration
  hcfg_Interval :: duration
  hcfg_StartPeriod :: duration
  hcfg_Retries :: "64 word"

record container_resources =
  res_NanoCPUs :: int
  res_Memory :: int
  res_MemoryReservation :: int
  res_CPUShares :: int

text \<open>The arguments of \<open>ContainerCreate\<close>: the configuration, the host configuration and the one
  endpoint of the networking configuration.\<close>

record container_spec =
  k_Hostname :: string
  k_User :: string
  k_Env :: "string list"
  k_Image :: string
  k_Labels :: "(string \<times> string) list"
  k_ExposedPorts :: "string list"
  k_WorkingDir :: string
  k_Tty :: bool
  k_OpenStdin :: bool
  k_Healthcheck :: "health_config option"
  k_Entrypoint :: "string list"
  k_Cmd :: "string list"
  k_PortBindings :: "(string \<times> string list) list"
  k_Mounts :: "mount list"
  k_RestartPolicy :: string
  k_Privileged :: bool
  k_ReadonlyRootfs :: bool
  k_NetworkMode :: string
  k_CapAdd :: "string list"
  k_CapDrop :: "string list"
  k_DNS :: "string list"
  k_DNSSearch :: "string list"
  k_LogConfig :: "string \<times> (string \<times> string) list"
  k_Resources :: container_resources
  k_Endpoint :: "string \<times> string list"

section \<open>Calls\<close>

datatype request =
    NetworkInspect string
  | VolumeInspect string
  | ImagePull string
  | ContainerList bool "string list"
  | ContainerInspect string
  | ContainerLogs string nat
  | NetworkList "string list"
  | VolumeList "string list"
  | ContainerStop string
  | ContainerStart string
  | ContainerRemove string bool bool
  | ContainerCreate string container_spec
  | ContainerRename string string
  | NetworkCreate string string "(string \<times> string) list"
  | NetworkConnect string string "string list"
  | NetworkRemove string
  | VolumeCreate string string "(string \<times> string) list"
  | VolumeRemove string bool
  | HookBeforeDeploy string
  | HookApplyToService string string
  | HookAfterCreate string string string
  | HookAfterRemove string
  | DaemonPing
  | ImageInspect string
  | HttpGet string
  | GetClient string
  | ImageTag string string
  | ImagePush string
  | CopyToContainer string string string

text \<open>The calls that change containers, networks or volumes.  Pulling, tagging or pushing an image does not.\<close>

fun mutating :: "request \<Rightarrow> bool" where
  "mutating (NetworkInspect _) = False"
| "mutating (VolumeInspect _) = False"
| "mutating (ImagePull _) = False"
| "mutating (ContainerList _ _) = False"
| "mutating (ContainerInspect _) = False"
| "mutating (ContainerLogs _ _) = False"
| "mutating (NetworkList _) = False"
| "mutating (VolumeList _) = False"
| "mutating DaemonPing = False"
| "mutating (ImageInspect _) = False"
| "mutating (HttpGet _) = False"
| "mutating (GetClient _) = False"
| "mutating (ImageTag _ _) = False"
| "mutating (ImagePush _) = False"
| "mutating _ = True"

record 'w sdk =
  api_NetworkInspect :: "string \<Rightarrow> 'w \<Rightarrow> (sdk_error + unit) \<times> 'w"
  api_VolumeInspect :: "string \<Rightarrow> 'w \<Rightarrow> (sdk_error + unit) \<times> 'w"
  api_ImagePull :: "string \<Rightarrow> 'w \<Rightarrow> (sdk_error + unit) \<times> 'w"
  api_ContainerList :: "bool \<Rightarrow> string list \<Rightarrow> 'w \<Rightarrow> (sdk_error + container_summary list) \<times> 'w"
  api_ContainerInspect :: "string \<Rightarrow> 'w \<Rightarrow> (sdk_error + container_info) \<times> 'w"
  api_ContainerLogs :: "string \<Rightarrow> nat \<Rightarrow> 'w \<Rightarrow> (sdk_error + string list) \<times> 'w"
  api_NetworkList :: "string list \<Rightarrow> 'w \<Rightarrow> (sdk_error + network_summary list) \<times> 'w"
  api_VolumeList :: "string list \<Rightarrow> 'w \<Rightarrow> (sdk_error + volume_usage list) \<times> 'w"
  api_ContainerStop :: "string \<Rightarrow> 'w \<Rightarrow> (sdk_error + unit) \<times> 'w"
  api_ContainerStart :: "string \<Rightarrow> 'w \<Rightarrow> (sdk_error + unit) \<times> 'w"
  api_ContainerRemove :: "string \<Rightarrow> bool \<Rightarrow> bool \<Rightarrow> 'w \<Rightarrow> (sdk_error + unit) \<times> 'w"
  api_ContainerCreate :: "string \<Rightarrow> container_spec \<Rightarrow> 'w \<Rightarrow> (sdk_error + string) \<times> 'w"
  api_ContainerRename :: "string \<Rightarrow> string \<Rightarrow> 'w \<Rightarrow> (sdk_error + unit) \<times> 'w"
  api_NetworkCreate :: "string \<Rightarrow> string \<Rightarrow> (string \<times> string) list \<Rightarrow> 'w \<Rightarrow> (sdk_error + unit) \<times> 'w"
  api_NetworkConnect :: "string \<Rightarrow> string \<Rightarrow> string list \<Rightarrow> 'w \<Rightarrow> (sdk_error + unit) \<times> 'w"
  api_NetworkRemove :: "string \<Rightarrow> 'w \<Rightarrow> (sdk_error + unit) \<times> 'w"
  api_VolumeCreate :: "string \<Rightarrow> string \<Rightarrow> (string \<times> string) list \<Rightarrow> 'w \<Rightarrow> (sdk_error + unit) \<times> 'w"
  api_VolumeRemove :: "string \<Rightarrow> bool \<Rightarrow> 'w \<Rightarrow> (sdk_error + unit) \<times> 'w"
  clock_now :: "'w \<Rightarrow> int"
  sleep_for :: "int \<Rightarrow> 'w \<Rightarrow> 'w"
  ctx_error :: "'w \<Rightarrow> go_error option"

record 'w engine =
  world :: 'w
  trace :: "(request \<times> bool) list"
  environ :: "string \<rightharpoonup> string"

type_synonym ('w, 'a) prog = "('w engine, 'a) state"

definition is_ok :: "'e + 'a \<Rightarrow> bool" where
  "is_ok r = (case r of Inl _ \<Rightarrow> False | Inr _ \<Rightarrow> True)"

lemma is_ok_simps [simp]: "is_ok (Inr x)" "\<not> is_ok (Inl e)"
  by (simp_all add: is_ok_def)

text \<open>One call: the daemon answers and moves on, and the call is logged.\<close>

definition docker :: "request \<Rightarrow> ('w \<Rightarrow> ('e + 'a) \<times> 'w) \<Rightarrow> ('w, 'e + 'a) prog" where
  "docker q f = State (\<lambda>s. case f (world s) of (r, w) \<Rightarrow> (r, s\<lparr>world := w, trace := trace s @ [(q, is_ok r)]\<rparr>))"

definition observe :: "('w \<Rightarrow> 'a) \<Rightarrow> ('w, 'a) prog" where
  "observe f = State (\<lambda>s. (f (world s), s))"

definition wait :: "('w \<Rightarrow> 'w) \<Rightarrow> ('w, unit) prog" where
  "wait f = State (\<lambda>s. ((), s\<lparr>world := f (world s)\<rparr>))"

section \<open>Reasoning about traces\<close>

text \<open>\<open>runs m R\<close>: whatever the state, \<open>m\<close> leaves the environment as it is and appends some calls to
  the trace, and the result and these calls are related by \<open>R\<close>.\<close>

definition runs :: "('w, 'a) prog \<Rightarrow> ('a \<Rightarrow> (request \<times> bool) list \<Rightarrow> bool) \<Rightarrow> bool" where
  "runs m R \<longleftrightarrow> (\<forall>s. \<exists>new. trace (snd (run_state m s)) = trace s @ new \<and>
     environ (snd (run_state m s)) = environ s \<and> R (fst (run_state m s)) new)"

lemma runs_return: "R x [] \<Longrightarrow> runs (State_Monad.return x) R"
  by (simp add: runs_def)

lemma runs_observe: "(\<And>x. R x []) \<Longrightarrow> runs (observe f) R"
  by (simp add: runs_def observe_def)

lemma runs_wait: "R () [] \<Longrightarrow> runs (wait f) R"
  by (simp add: runs_def wait_def)

lemma runs_docker: "(\<And>r. R r [(q, is_ok r)]) \<Longrightarrow> runs (docker q f) R"
  by (auto simp: runs_def docker_def split: prod.splits)

lemma runs_mono: "runs m R \<Longrightarrow> (\<And>x new. R x new \<Longrightarrow> R' x new) \<Longrightarrow> runs m R'"
  unfolding runs_def by meson

lemma runs_bind:
  assumes "runs m R" and "\<And>x new. R x new \<Longrightarrow> runs (f x) (\<lambda>y new'. R' y (new @ new'))"
  shows "runs (State_Monad.bind m f) R'"
  unfolding runs_def
proof
  fix s
  obtain x s1 where m: "run_state m s = (x, s1)" by fastforce
  with assms(1) obtain new where new: "trace s1 = trace s @ new" "environ s1 = environ s" "R x new"
    unfolding runs_def by (metis fst_conv snd_conv)
  with assms(2) obtain new' where
    "trace (snd (run_state (f x) s1)) = trace s1 @ new'" "environ (snd (run_state (f x) s1)) = environ s1"
    "R' (fst (run_state (f x) s1)) (new @ new')"
    unfolding runs_def by meson
  with m new show "\<exists>new. trace (snd (run_state (State_Monad.bind m f) s)) = trace s @ new \<and>
      environ (snd (run_state (State_Monad.bind m f) s)) = environ s \<and> R' (fst (run_state (State_Monad.bind m f) s)) new" by simp
qed

lemma runs_call:
  "(\<And>r. R (g r) [(q, is_ok r)]) \<Longrightarrow> runs (do { r \<leftarrow> docker q f; State_Monad.return (g r) }) R"
  by (auto simp: runs_def docker_def split: prod.splits)

lemma runs_or_fail:
  "(\<And>e. r = Inl e \<Longrightarrow> R (Inl e) []) \<Longrightarrow> (\<And>x. r = Inr x \<Longrightarrow> runs (f x) R) \<Longrightarrow> runs (or_fail r f) R"
  by (cases r) (simp_all add: runs_return)

text \<open>All calls of a program satisfy a predicate.\<close>

definition emits :: "(request \<Rightarrow> bool) \<Rightarrow> ('w, 'a) prog \<Rightarrow> bool" where
  "emits P m \<longleftrightarrow> runs m (\<lambda>_ new. \<forall>(q, ok) \<in> set new. P q)"

lemma emits_return [intro!]: "emits P (State_Monad.return x)"
  by (simp add: emits_def runs_return)

lemma emits_observe [intro!]: "emits P (observe f)"
  by (simp add: emits_def runs_observe)

lemma emits_wait [intro!]: "emits P (wait f)"
  by (simp add: emits_def runs_wait)

lemma emits_docker [intro!]: "P q \<Longrightarrow> emits P (docker q f)"
  by (simp add: emits_def runs_docker)

lemma emits_bind [intro]: "emits P m \<Longrightarrow> (\<And>x. emits P (f x)) \<Longrightarrow> emits P (State_Monad.bind m f)"
  unfolding emits_def
proof (erule runs_bind)
  fix x and new :: "(request \<times> bool) list"
  assume f: "\<And>x. runs (f x) (\<lambda>_ new. \<forall>(q, ok) \<in> set new. P q)" and "\<forall>(q, ok) \<in> set new. P q"
  then show "runs (f x) (\<lambda>y new'. \<forall>(q, ok) \<in> set (new @ new'). P q)"
    by (intro runs_mono [OF f]) auto
qed

lemma emits_or_fail [intro]: "(\<And>x. r = Inr x \<Longrightarrow> emits P (f x)) \<Longrightarrow> emits P (or_fail r f)"
  unfolding emits_def by (rule runs_or_fail) auto

lemma emits_for_each: "(\<And>x. x \<in> set xs \<Longrightarrow> emits P (f x)) \<Longrightarrow> emits P (for_each f xs)"
  by (induction xs) (auto intro!: emits_bind emits_or_fail)

lemma emits_mono: "emits P m \<Longrightarrow> (\<And>q. P q \<Longrightarrow> P' q) \<Longrightarrow> emits P' m"
  unfolding emits_def by (erule runs_mono) blast

lemma emitsD:
  assumes "emits P m" and "run_state m s = (x, s')"
  shows "\<exists>new. trace s' = trace s @ new \<and> environ s' = environ s \<and> (\<forall>(q, ok) \<in> set new. P q)"
  using assms unfolding emits_def runs_def by (metis snd_conv)

end
