(* ===== verification/Standalone.thy ===== *)
theory Standalone
  imports DockerSdk DependsOn Utf8 "HOL-Library.Signed_Division"
begin

text \<open>
  The standalone engine, docker/compose/standalone.go: deploying a parsed compose file on one
  Docker daemon, and starting, stopping, listing and removing projects.

  Programs are state monads over the state of DockerSdk.  The polling loops take fuel and give
  \<open>OutOfFuel\<close> when it ends, which no branch of the code does.  The call \<open>ImagePull\<close>
  stands for the call and the draining of its stream; \<open>ContainerLogs\<close> gives what the reads of
  its stream return, one after the other.  This theory has the checks, the removal of containers
  and the operations on whole projects; StandaloneDeploy has the creation of containers and the
  deployment.
\<close>

section \<open>Constants and results\<close>

definition LabelProject :: string where "LabelProject = ''com.docker.compose.project''"
definition LabelService :: string where "LabelService = ''com.docker.compose.service''"
definition LabelNumber :: string where "LabelNumber = ''com.docker.compose.container-number''"
definition LabelNetworkName :: string where "LabelNetworkName = ''com.docker.compose.network''"
definition LabelVolumeName :: string where "LabelVolumeName = ''com.docker.compose.volume''"
definition LabelManaged :: string where "LabelManaged = ''com.swirl.compose.managed''"

datatype engine_error = Err go_error | OutOfFuel

definition wrap :: "string \<Rightarrow> engine_error \<Rightarrow> engine_error" where
  "wrap pre e = (case e of Err m \<Rightarrow> Err (pre @ m) | OutOfFuel \<Rightarrow> OutOfFuel)"

definition wrap_result :: "string \<Rightarrow> engine_error + 'a \<Rightarrow> engine_error + 'a" where
  "wrap_result pre r = map_sum (wrap pre) id r"

definition of_sdk :: "sdk_error + 'a \<Rightarrow> engine_error + 'a" where
  "of_sdk r = map_sum (\<lambda>e. Err (error_text e)) id r"

definition of_go :: "go_error + 'a \<Rightarrow> engine_error + 'a" where
  "of_go r = map_sum Err id r"

record deploy_options =
  PullImages :: bool
  EnvVars :: "(string \<times> string) list"
  PreserveContainerNames :: "string list"

text \<open>A deploy hook, the callbacks of the caller.\<close>

record 'w deploy_hook =
  BeforeDeploy :: "string \<Rightarrow> 'w \<Rightarrow> (go_error + unit) \<times> 'w"
  ApplyToService :: "string \<Rightarrow> string \<Rightarrow> string list \<Rightarrow> mount list \<Rightarrow> 'w \<Rightarrow> (go_error + string list \<times> mount list) \<times> 'w"
  AfterCreate :: "string \<Rightarrow> string \<Rightarrow> string \<Rightarrow> 'w \<Rightarrow> (go_error + unit) \<times> 'w"
  AfterRemove :: "string \<Rightarrow> 'w \<Rightarrow> (go_error + unit) \<times> 'w"

section \<open>Checks without side effects\<close>

definition isZeroResources :: "resources \<Rightarrow> bool" where
  "isZeroResources r \<longleftrightarrow> rs_Limits r = None \<and> rs_Reservations r = None"

definition isZeroPlacement :: "placement \<Rightarrow> bool" where
  "isZeroPlacement p \<longleftrightarrow> length (pl_Constraints p) = 0 \<and> length (pl_Preferences p) = 0 \<and> pl_MaxReplicas p = 0"

definition ignoredDeploySubfields :: "deploy_config \<Rightarrow> string list" where
  "ignoredDeploySubfields d =
     (if d_Mode d \<noteq> [] then [''mode''] else []) @
     (if d_Replicas d \<noteq> None then [''replicas''] else []) @
     (if length (d_Labels d) > 0 then [''labels''] else []) @
     (if d_UpdateConfig d \<noteq> None then [''update_config''] else []) @
     (if d_RollbackConfig d \<noteq> None then [''rollback_config''] else []) @
     (if d_RestartPolicy d \<noteq> None then [''restart_policy''] else []) @
     (if \<not> isZeroPlacement (d_Placement d) then [''placement''] else []) @
     (if d_EndpointMode d \<noteq> [] then [''endpoint_mode''] else [])"

definition isZeroDeployConfig :: "deploy_config \<Rightarrow> bool" where
  "isZeroDeployConfig d \<longleftrightarrow>
     d_Mode d = [] \<and> d_Replicas d = None \<and> length (d_Labels d) = 0 \<and> d_UpdateConfig d = None \<and>
     d_RollbackConfig d = None \<and> isZeroResources (d_Resources d) \<and> d_RestartPolicy d = None \<and>
     isZeroPlacement (d_Placement d) \<and> d_EndpointMode d = []"

definition collectIgnoredFieldWarnings :: "compose_config \<Rightarrow> string list" where
  "collectIgnoredFieldWarnings cfg =
     concat (map (\<lambda>svc. let ignored = ignoredDeploySubfields (s_Deploy svc) in
       if length ignored > 0
       then [''service '' @ s_Name svc @ '': deploy.'' @ join '' / deploy.'' ignored @ '' ignored in standalone mode'']
       else []) (c_Services cfg))"

fun validate_list :: "service_config list \<Rightarrow> go_error + unit" where
  "validate_list [] = Inr ()"
| "validate_list (svc # svcs) =
     (if s_BuildContext svc \<noteq> [] then
        Inl (''service '' @ s_Name svc @ '': 'build:' is not supported in standalone mode; pre-build the image and reference it with 'image:' only'')
      else if s_Image svc = [] then
        Inl (''service '' @ s_Name svc @ '': neither 'image:' nor 'build:' is set; an image reference is required'')
      else validate_list svcs)"

definition validateServices :: "compose_config \<Rightarrow> go_error + unit" where
  "validateServices cfg = validate_list (c_Services cfg)"

section \<open>Preflight\<close>

definition external_name :: "string \<Rightarrow> string \<Rightarrow> string" where
  "external_name key declared = (if declared = [] then key else declared)"

definition preflightExternalNetworks :: "'w sdk \<Rightarrow> (string \<times> network_config) list \<Rightarrow> ('w, engine_error + unit) prog" where
  "preflightExternalNetworks e nets =
     for_each (\<lambda>(name, ncfg).
       if \<not> nw_External ncfg then State_Monad.return (Inr ())
       else do {
         let resolved = external_name name (nw_Name ncfg);
         r \<leftarrow> docker (NetworkInspect resolved) (api_NetworkInspect e resolved);
         State_Monad.return (case r of
           Inl err \<Rightarrow>
             if IsNotFound err then Inl (Err (''external network '' @ go_quote resolved @ '' not found on host''))
             else Inl (Err (''external network '' @ go_quote resolved @ '': '' @ error_text err))
         | Inr _ \<Rightarrow> Inr ())
       }) nets"

definition preflightExternalVolumes :: "'w sdk \<Rightarrow> (string \<times> volume_config) list \<Rightarrow> ('w, engine_error + unit) prog" where
  "preflightExternalVolumes e vols =
     for_each (\<lambda>(name, vcfg).
       if \<not> vol_External vcfg then State_Monad.return (Inr ())
       else do {
         let resolved = external_name name (vol_Name vcfg);
         r \<leftarrow> docker (VolumeInspect resolved) (api_VolumeInspect e resolved);
         State_Monad.return (case r of
           Inl err \<Rightarrow>
             if IsNotFound err then Inl (Err (''external volume '' @ go_quote resolved @ '' not found on host''))
             else Inl (Err (''external volume '' @ go_quote resolved @ '': '' @ error_text err))
         | Inr _ \<Rightarrow> Inr ())
       }) vols"

text \<open>All images are pulled, and the failures are collected.\<close>

fun pull_all :: "'w sdk \<Rightarrow> service_config list \<Rightarrow> string list \<Rightarrow> ('w, string list) prog" where
  "pull_all e [] errs = State_Monad.return errs"
| "pull_all e (svc # svcs) errs =
     (if s_Image svc = [] then pull_all e svcs errs
      else do {
        r \<leftarrow> docker (ImagePull (s_Image svc)) (api_ImagePull e (s_Image svc));
        case r of
          Inl err \<Rightarrow> pull_all e svcs (errs @ [s_Name svc @ '' ('' @ s_Image svc @ ''): '' @ error_text err])
        | Inr _ \<Rightarrow> pull_all e svcs errs
      })"

definition pull_images :: "'w sdk \<Rightarrow> bool \<Rightarrow> service_config list \<Rightarrow> ('w, engine_error + unit) prog" where
  "pull_images e pull svcs =
     (if pull then do {
        errs \<leftarrow> pull_all e svcs [];
        State_Monad.return (if length errs > 0 then Inl (Err (''pre-flight pull failed for: '' @ join ''; '' errs)) else Inr ())
      } else State_Monad.return (Inr ()))"

section \<open>Containers of a project\<close>

definition listProjectContainers :: "'w sdk \<Rightarrow> string \<Rightarrow> bool \<Rightarrow> ('w, engine_error + container_summary list) prog" where
  "listProjectContainers e project includeStopped = do {
     r \<leftarrow> docker (ContainerList includeStopped [LabelProject @ ''='' @ project])
            (api_ContainerList e includeStopped [LabelProject @ ''='' @ project]);
     State_Monad.return (of_sdk r)
   }"

definition trim_slash :: "string \<Rightarrow> string" where
  "trim_slash n = trim_prefix n ''/''"

definition preserved :: "string list \<Rightarrow> container_summary \<Rightarrow> bool" where
  "preserved preserveNames c =
     (let preserve = filter (\<lambda>n. n \<noteq> []) (map trim_slash preserveNames)
      in length preserve > 0 \<and> (\<exists>cn \<in> set (ct_Names c). trim_slash cn \<in> set preserve))"

definition remove_container :: "'w sdk \<Rightarrow> bool \<Rightarrow> string list \<Rightarrow> container_summary \<Rightarrow> ('w, engine_error + unit) prog" where
  "remove_container e ignoreErrors preserveNames c =
     (if preserved preserveNames c then State_Monad.return (Inr ())
      else do {
        _ \<leftarrow> (if ct_State c = ''running'' then docker (ContainerStop (ct_ID c)) (api_ContainerStop e (ct_ID c))
             else State_Monad.return (Inr ()));
        r \<leftarrow> docker (ContainerRemove (ct_ID c) True True) (api_ContainerRemove e (ct_ID c) True True);
        State_Monad.return (if ignoreErrors then Inr () else of_sdk r)
      })"

definition removeProjectContainers :: "'w sdk \<Rightarrow> string \<Rightarrow> bool \<Rightarrow> string list \<Rightarrow> ('w, engine_error + unit) prog" where
  "removeProjectContainers e project ignoreErrors preserveNames = do {
     r \<leftarrow> listProjectContainers e project True;
     or_fail r (for_each (remove_container e ignoreErrors preserveNames))
   }"

definition Standalone_Start :: "'w sdk \<Rightarrow> string \<Rightarrow> ('w, engine_error + unit) prog" where
  "Standalone_Start e project = do {
     r \<leftarrow> listProjectContainers e project True;
     or_fail r (for_each (\<lambda>c.
       if ct_State c = ''running'' then State_Monad.return (Inr ())
       else do {
         r \<leftarrow> docker (ContainerStart (ct_ID c)) (api_ContainerStart e (ct_ID c));
         State_Monad.return (of_sdk r)
       }))
   }"

definition Standalone_Stop :: "'w sdk \<Rightarrow> string \<Rightarrow> ('w, engine_error + unit) prog" where
  "Standalone_Stop e project = do {
     r \<leftarrow> listProjectContainers e project True;
     or_fail r (for_each (\<lambda>c.
       if ct_State c \<noteq> ''running'' then State_Monad.return (Inr ())
       else do {
         r \<leftarrow> docker (ContainerStop (ct_ID c)) (api_ContainerStop e (ct_ID c));
         State_Monad.return (of_sdk r)
       }))
   }"

section \<open>Removing a project\<close>

text \<open>Loops whose calls may fail without stopping them.\<close>

fun for_all :: "('a \<Rightarrow> ('w, 'b) prog) \<Rightarrow> 'a list \<Rightarrow> ('w, unit) prog" where
  "for_all f [] = State_Monad.return ()"
| "for_all f (x # xs) = do { _ \<leftarrow> f x; for_all f xs }"

definition hook_after_remove :: "'w deploy_hook \<Rightarrow> string \<Rightarrow> ('w, go_error + unit) prog" where
  "hook_after_remove h project = docker (HookAfterRemove project) (AfterRemove h project)"

definition removeWithPreserve :: "'w sdk \<Rightarrow> string \<Rightarrow> bool \<Rightarrow> string list \<Rightarrow> 'w deploy_hook option list \<Rightarrow> ('w, engine_error + unit) prog" where
  "removeWithPreserve e project removeVolumes preserveNames hooks = do {
     r \<leftarrow> removeProjectContainers e project True preserveNames;
     or_fail r (\<lambda>_. do {
       nets \<leftarrow> docker (NetworkList [LabelProject @ ''='' @ project]) (api_NetworkList e [LabelProject @ ''='' @ project]);
       _ \<leftarrow> (case nets of
              Inl _ \<Rightarrow> State_Monad.return ()
            | Inr nets \<Rightarrow> for_all (\<lambda>n. docker (NetworkRemove (net_ID n)) (api_NetworkRemove e (net_ID n))) nets);
       _ \<leftarrow> (if removeVolumes then do {
              vols \<leftarrow> docker (VolumeList [LabelProject @ ''='' @ project, LabelManaged @ ''=true''])
                       (api_VolumeList e [LabelProject @ ''='' @ project, LabelManaged @ ''=true'']);
              case vols of
                Inl _ \<Rightarrow> State_Monad.return ()
              | Inr vols \<Rightarrow> for_all (\<lambda>v. docker (VolumeRemove (vu_Name v) False) (api_VolumeRemove e (vu_Name v) False)) vols
            } else State_Monad.return ());
       _ \<leftarrow> for_all (\<lambda>h. case h of None \<Rightarrow> State_Monad.return (Inr ()) | Some h \<Rightarrow> hook_after_remove h project) hooks;
       State_Monad.return (Inr ())
     })
   }"

definition Standalone_Remove :: "'w sdk \<Rightarrow> string \<Rightarrow> bool \<Rightarrow> 'w deploy_hook option list \<Rightarrow> ('w, engine_error + unit) prog" where
  "Standalone_Remove e project removeVolumes hooks = removeWithPreserve e project removeVolumes [] hooks"

definition RemoveExcept :: "'w sdk \<Rightarrow> string \<Rightarrow> bool \<Rightarrow> string list \<Rightarrow> 'w deploy_hook option list \<Rightarrow> ('w, engine_error + unit) prog" where
  "RemoveExcept e project removeVolumes preserveNames hooks = removeWithPreserve e project removeVolumes preserveNames hooks"

record volume_summary =
  vs_Name :: string
  vs_Size :: int
  vs_HasData :: bool

definition ListProjectVolumes :: "'w sdk \<Rightarrow> string \<Rightarrow> ('w, engine_error + volume_summary list) prog" where
  "ListProjectVolumes e project = do {
     r \<leftarrow> docker (VolumeList [LabelProject @ ''='' @ project, LabelManaged @ ''=true''])
            (api_VolumeList e [LabelProject @ ''='' @ project, LabelManaged @ ''=true'']);
     State_Monad.return (map_sum id (map (\<lambda>v.
       case vu_Size v of
         Some n \<Rightarrow> if n > 0 then \<lparr>vs_Name = vu_Name v, vs_Size = n, vs_HasData = True\<rparr>
                   else \<lparr>vs_Name = vu_Name v, vs_Size = 0, vs_HasData = False\<rparr>
       | None \<Rightarrow> \<lparr>vs_Name = vu_Name v, vs_Size = 0, vs_HasData = False\<rparr>)) (of_sdk r))
   }"

section \<open>Listing projects\<close>

record stack_info =
  si_Name :: string
  si_Services :: "string list"
  si_Containers :: int
  si_Running :: int
  si_Status :: string

definition label_of :: "container_summary \<Rightarrow> string \<Rightarrow> string" where
  "label_of c k = (case map_of (ct_Labels c) k of Some v \<Rightarrow> v | None \<Rightarrow> [])"

definition count_container :: "container_summary \<Rightarrow> stack_info \<Rightarrow> stack_info" where
  "count_container c s =
     (let s = s\<lparr>si_Containers := si_Containers s + 1,
                si_Running := (if ct_State c = ''running'' then si_Running s + 1 else si_Running s)\<rparr>;
          svc = label_of c LabelService
      in if svc \<noteq> [] \<and> svc \<notin> set (si_Services s) then s\<lparr>si_Services := si_Services s @ [svc]\<rparr> else s)"

definition empty_info :: "string \<Rightarrow> stack_info" where
  "empty_info name = \<lparr>si_Name = name, si_Services = [], si_Containers = 0, si_Running = 0, si_Status = []\<rparr>"

fun group_containers :: "container_summary list \<Rightarrow> (string \<times> stack_info) list \<Rightarrow> (string \<times> stack_info) list" where
  "group_containers [] byProject = byProject"
| "group_containers (c # cs) byProject =
     (let name = label_of c LabelProject in
      if name = [] then group_containers cs byProject
      else
        let s = (case map_of byProject name of Some s \<Rightarrow> s | None \<Rightarrow> empty_info name)
        in group_containers cs (AList.update name (count_container c s) byProject))"

definition stack_status :: "stack_info \<Rightarrow> string" where
  "stack_status s =
     (if si_Running s = 0 then ''inactive''
      else if si_Running s = si_Containers s then ''active'' else ''partial'')"

definition Standalone_List :: "'w sdk \<Rightarrow> ('w, engine_error + stack_info list) prog" where
  "Standalone_List e = do {
     r \<leftarrow> docker (ContainerList True [LabelProject]) (api_ContainerList e True [LabelProject]);
     State_Monad.return (map_sum id (\<lambda>all.
       map (\<lambda>(_, s). s\<lparr>si_Status := stack_status s\<rparr>) (group_containers all [])) (of_sdk r))
   }"

text \<open>The sets of names, as lists without repetitions, sorted at the end.\<close>

record project_detail =
  pd_Name :: string
  pd_Status :: string
  pd_Services :: "string list"
  pd_Containers :: "container_summary list"
  pd_Networks :: "string list"
  pd_Volumes :: "string list"

definition sortedSetKeys :: "string list \<Rightarrow> string list" where
  "sortedSetKeys m = sort (remdups m)"

definition detail_status :: "container_summary list \<Rightarrow> string" where
  "detail_status containers =
     (let running = length (filter (\<lambda>c. ct_State c = ''running'') containers) in
      if length containers = 0 then ''inactive''
      else if running = 0 then ''inactive''
      else if running = length containers then ''active'' else ''partial'')"

definition GetProject :: "'w sdk \<Rightarrow> string \<Rightarrow> ('w, engine_error + project_detail) prog" where
  "GetProject e project = do {
     r \<leftarrow> listProjectContainers e project True;
     State_Monad.return (map_sum id (\<lambda>containers.
       \<lparr>pd_Name = project, pd_Status = detail_status containers,
        pd_Services = sortedSetKeys (filter (\<lambda>svc. svc \<noteq> []) (map (\<lambda>c. label_of c LabelService) containers)),
        pd_Containers = containers,
        pd_Networks = sortedSetKeys (concat (map (\<lambda>c. case ct_Networks c of None \<Rightarrow> [] | Some ns \<Rightarrow> ns) containers)),
        pd_Volumes = sortedSetKeys (concat (map (\<lambda>c. map mp_Name
          (filter (\<lambda>m. mp_Type m = ''volume'' \<and> mp_Name m \<noteq> []) (ct_Mounts c))) containers))\<rparr>) r)
   }"

end
