(* ===== verification/StandaloneDeploy.thy ===== *)
theory StandaloneDeploy
  imports Standalone
begin

text \<open>
  Creating the containers of a stack and deploying it: \<open>DeployWithResult\<close> and what it calls in
  docker/compose/standalone.go, and \<open>ParseCPUs\<close> of docker/compose/opts.go.

  Arguments of the model, in the record \<open>runtime\<close>: the compose loader (a function of the
  environment, the project name and the content), the parser of \<open>math/big\<close> for rational numbers
  (numerator and positive denominator), and the capacity that the allocator gives to a slice that
  grows.  The two polling loops take fuel.  When the deadline of a sleep and the cancellation of
  the context come together, \<open>select\<close> may choose either; the model chooses the cancellation.
\<close>

section \<open>Parameters\<close>

record runtime =
  loader :: "(string \<rightharpoonup> string) \<Rightarrow> string \<Rightarrow> string \<Rightarrow> go_error + compose_config"
  rat_of_string :: "string \<Rightarrow> (int \<times> int) option"
  grow_cap :: "nat \<Rightarrow> nat \<Rightarrow> nat"

text \<open>The value of an int64 after wrap-around.\<close>

definition int64 :: "int \<Rightarrow> int" where
  "int64 n = sint (word_of_int n :: 64 word)"

section \<open>Networks and volumes\<close>

definition set_all :: "(string \<times> string) list \<Rightarrow> (string \<times> string) list \<Rightarrow> (string \<times> string) list" where
  "set_all m kvs = foldl (\<lambda>m (k, v). AList.update k v m) m kvs"

definition ensureNetworks :: "'w sdk \<Rightarrow> string \<Rightarrow> (string \<times> network_config) list \<Rightarrow> ('w, engine_error + unit) prog" where
  "ensureNetworks e project nets = do {
     r \<leftarrow> docker (NetworkList [LabelProject @ ''='' @ project]) (api_NetworkList e [LabelProject @ ''='' @ project]);
     let existing = (case r of Inl _ \<Rightarrow> [] | Inr ns \<Rightarrow> map net_Name ns);
     let nets = (if length nets = 0 then [(''default'', no_network)] else nets);
     for_each (\<lambda>(name, ncfg).
       let qualified = project @ ''_'' @ name in
       if nw_External ncfg \<or> qualified \<in> set existing then State_Monad.return (Inr ())
       else do {
         let labels = set_all [(LabelProject, project), (LabelNetworkName, name), (LabelManaged, ''true'')] (nw_Labels ncfg);
         let driver = (if nw_Driver ncfg = [] then ''bridge'' else nw_Driver ncfg);
         r \<leftarrow> docker (NetworkCreate qualified driver labels) (api_NetworkCreate e qualified driver labels);
         State_Monad.return (wrap_result (''create network '' @ qualified @ '': '') (of_sdk r))
       }) nets
   }"

definition ensureVolumes :: "'w sdk \<Rightarrow> string \<Rightarrow> (string \<times> volume_config) list \<Rightarrow> ('w, engine_error + unit) prog" where
  "ensureVolumes e project vols =
     for_each (\<lambda>(name, vcfg).
       if vol_External vcfg then State_Monad.return (Inr ())
       else do {
         let qualified = project @ ''_'' @ name;
         r \<leftarrow> docker (VolumeInspect qualified) (api_VolumeInspect e qualified);
         if is_ok r then State_Monad.return (Inr ())
         else do {
           let labels = set_all [(LabelProject, project), (LabelVolumeName, name), (LabelManaged, ''true'')] (vol_Labels vcfg);
           r \<leftarrow> docker (VolumeCreate qualified (vol_Driver vcfg) labels) (api_VolumeCreate e qualified (vol_Driver vcfg) labels);
           State_Monad.return (wrap_result (''create volume '' @ qualified @ '': '') (of_sdk r))
         }
       }) vols"

definition qualifyNetwork :: "string \<Rightarrow> (string \<times> network_config) list \<Rightarrow> string \<Rightarrow> string" where
  "qualifyNetwork project declared name =
     (case map_of declared name of
        Some cfg \<Rightarrow> if nw_External cfg then (if nw_Name cfg \<noteq> [] then nw_Name cfg else name) else project @ ''_'' @ name
      | None \<Rightarrow> project @ ''_'' @ name)"

section \<open>The configuration of a container\<close>

definition buildHealthcheck :: "service_config \<Rightarrow> health_config option" where
  "buildHealthcheck svc =
     (case s_HealthCheck svc of
        None \<Rightarrow> None
      | Some hc \<Rightarrow>
          if hc_Disable hc then
            Some \<lparr>hcfg_Test = [''NONE''], hcfg_Timeout = 0, hcfg_Interval = 0, hcfg_StartPeriod = 0, hcfg_Retries = 0\<rparr>
          else
            Some \<lparr>hcfg_Test = hc_Test hc,
                  hcfg_Timeout = (case hc_Timeout hc of Some d \<Rightarrow> d | None \<Rightarrow> 0),
                  hcfg_Interval = (case hc_Interval hc of Some d \<Rightarrow> d | None \<Rightarrow> 0),
                  hcfg_StartPeriod = (case hc_StartPeriod hc of Some d \<Rightarrow> d | None \<Rightarrow> 0),
                  hcfg_Retries = (case hc_Retries hc of Some n \<Rightarrow> n | None \<Rightarrow> 0)\<rparr>)"

definition buildLogConfig :: "service_config \<Rightarrow> string \<times> (string \<times> string) list" where
  "buildLogConfig svc = (case s_Logging svc of None \<Rightarrow> ([], []) | Some l \<Rightarrow> (lg_Driver l, lg_Options l))"

definition ParseCPUs :: "runtime \<Rightarrow> string \<Rightarrow> go_error + int" where
  "ParseCPUs rt val =
     (case rat_of_string rt val of
        None \<Rightarrow> Inl (''failed to parse '' @ val @ '' as a rational number'')
      | Some (num, den) \<Rightarrow>
          if \<not> den dvd num * 1000000000 then Inl ''value is too precise''
          else Inr (int64 (num * 1000000000 div den)))"

definition cpu_shares :: "int \<Rightarrow> int" where
  "cpu_shares nano =
     (let shares = int64 (nano * 1024) sdiv 1000000000;
          shares = (if shares < 2 then 2 else shares)
      in if shares > 262144 then 262144 else shares)"

definition no_container_resources :: container_resources where
  "no_container_resources = \<lparr>res_NanoCPUs = 0, res_Memory = 0, res_MemoryReservation = 0, res_CPUShares = 0\<rparr>"

definition container_resources_of :: "runtime \<Rightarrow> resources \<Rightarrow> container_resources" where
  "container_resources_of rt r =
     (if isZeroResources r then no_container_resources
      else
        let res = no_container_resources;
            res = (case rs_Limits r of
              None \<Rightarrow> res
            | Some lim \<Rightarrow>
                let res = (if r_NanoCPUs lim \<noteq> [] then
                             (case ParseCPUs rt (r_NanoCPUs lim) of Inr nano \<Rightarrow> res\<lparr>res_NanoCPUs := nano\<rparr> | Inl _ \<Rightarrow> res)
                           else res)
                in if r_MemoryBytes lim > 0 then res\<lparr>res_Memory := r_MemoryBytes lim\<rparr> else res)
        in (case rs_Reservations r of
              None \<Rightarrow> res
            | Some rsv \<Rightarrow>
                let res = (if r_MemoryBytes rsv > 0 then res\<lparr>res_MemoryReservation := r_MemoryBytes rsv\<rparr> else res)
                in if r_NanoCPUs rsv \<noteq> [] then
                     (case ParseCPUs rt (r_NanoCPUs rsv) of Inr nano \<Rightarrow> res\<lparr>res_CPUShares := cpu_shares nano\<rparr> | Inl _ \<Rightarrow> res)
                   else res))"

definition env_entry :: "string \<times> string option \<Rightarrow> string" where
  "env_entry kv = (case kv of (k, None) \<Rightarrow> k | (k, Some v) \<Rightarrow> k @ ''='' @ v)"

definition container_port :: "port_config \<Rightarrow> string" where
  "container_port p = show_nat (unat (p_Target p)) @ ''/'' @ (if p_Protocol p = [] then ''tcp'' else p_Protocol p)"

definition add_binding :: "port_config \<Rightarrow> (string \<times> string list) list \<Rightarrow> (string \<times> string list) list" where
  "add_binding p bindings =
     (if p_Published p > 0 then
        AList.update (container_port p)
          ((case map_of bindings (container_port p) of Some hs \<Rightarrow> hs | None \<Rightarrow> []) @ [show_nat (unat (p_Published p))]) bindings
      else bindings)"

definition service_mount :: "string \<Rightarrow> compose_config \<Rightarrow> service_volume \<Rightarrow> mount" where
  "service_mount project cfg v =
     (let m = \<lparr>m_Type = [], m_Source = [], m_Target = vc_Target v, m_ReadOnly = vc_ReadOnly v, m_Consistency = [],
               m_BindOptions = None, m_VolumeOptions = None, m_TmpfsOptions = None\<rparr> in
      if vc_Type v = ''bind'' then m\<lparr>m_Type := ''bind'', m_Source := vc_Source v\<rparr>
      else if vc_Type v = ''tmpfs'' then m\<lparr>m_Type := ''tmpfs''\<rparr>
      else m\<lparr>m_Type := ''volume'',
             m_Source := (if vc_Source v = [] then []
                          else if map_of (c_Volumes cfg) (vc_Source v) \<noteq> None then project @ ''_'' @ vc_Source v
                          else vc_Source v)\<rparr>)"

definition networks_order :: "service_config \<Rightarrow> string list" where
  "networks_order svc = (if s_Networks svc = [] then [''default''] else map fst (s_Networks svc))"

definition network_aliases :: "service_config \<Rightarrow> string \<Rightarrow> string list" where
  "network_aliases svc n =
     (let aliases = (case map_of (s_Networks svc) n of Some (Some a) \<Rightarrow> a | _ \<Rightarrow> [])
      in if s_Name svc \<in> set aliases then aliases else s_Name svc # aliases)"

definition restart_name :: "string \<Rightarrow> string" where
  "restart_name r =
     (let l = to_lower r in
      if l = ''always'' then ''always''
      else if l = ''on-failure'' then ''on-failure''
      else if l = ''unless-stopped'' then ''unless-stopped''
      else if l = ''no'' \<or> l = [] then ''no'' else [])"

definition container_name :: "string \<Rightarrow> service_config \<Rightarrow> string" where
  "container_name project svc =
     (if s_ContainerName svc = [] then project @ ''_'' @ s_Name svc @ ''_1'' else s_ContainerName svc)"

definition container_spec_of :: "runtime \<Rightarrow> string \<Rightarrow> compose_config \<Rightarrow> service_config \<Rightarrow> string list \<Rightarrow> mount list \<Rightarrow> container_spec" where
  "container_spec_of rt project cfg svc env mounts =
     (let primaryNet = qualifyNetwork project (c_Networks cfg) (hd (networks_order svc)) in
      \<lparr>k_Hostname = s_Hostname svc, k_User = s_User svc, k_Env = env, k_Image = s_Image svc,
       k_Labels = set_all [(LabelProject, project), (LabelService, s_Name svc), (LabelNumber, ''1''), (LabelManaged, ''true'')]
                    (s_Labels svc),
       k_ExposedPorts = fold (\<lambda>p ps. List.insert (container_port p) ps) (s_Ports svc) [],
       k_WorkingDir = s_WorkingDir svc, k_Tty = s_Tty svc, k_OpenStdin = s_StdinOpen svc,
       k_Healthcheck = buildHealthcheck svc, k_Entrypoint = s_Entrypoint svc, k_Cmd = s_Command svc,
       k_PortBindings = fold add_binding (s_Ports svc) [],
       k_Mounts = mounts, k_RestartPolicy = restart_name (s_Restart svc), k_Privileged = s_Privileged svc,
       k_ReadonlyRootfs = s_ReadOnly svc, k_NetworkMode = primaryNet,
       k_CapAdd = s_CapAdd svc, k_CapDrop = s_CapDrop svc, k_DNS = s_DNS svc, k_DNSSearch = s_DNSSearch svc,
       k_LogConfig = buildLogConfig svc, k_Resources = container_resources_of rt (d_Resources (s_Deploy svc)),
       k_Endpoint = (primaryNet, network_aliases svc (hd (networks_order svc)))\<rparr>)"

section \<open>Starting a container\<close>

definition probeTimeout :: int where "probeTimeout = 1500000000"
definition probeInterval :: int where "probeInterval = 150000000"

text \<open>The reads of \<open>containerLogTail\<close> into a slice of capacity 8192.\<close>

fun read_tail :: "runtime \<Rightarrow> string list \<Rightarrow> string \<Rightarrow> nat \<Rightarrow> string" where
  "read_tail rt [] buf capacity = buf"
| "read_tail rt (chunk # chunks) buf capacity =
     (if length buf < capacity then
        let need = length buf + length chunk
        in read_tail rt chunks (buf @ chunk) (if need \<le> capacity then capacity else grow_cap rt capacity need)
      else buf)"

definition containerLogTail :: "'w sdk \<Rightarrow> runtime \<Rightarrow> string \<Rightarrow> nat \<Rightarrow> ('w, string) prog" where
  "containerLogTail e rt containerID lines = do {
     r \<leftarrow> docker (ContainerLogs containerID lines) (api_ContainerLogs e containerID lines);
     State_Monad.return (case r of Inl _ \<Rightarrow> [] | Inr chunks \<Rightarrow> TrimSpace (read_tail rt chunks [] 8192))
   }"

definition crashError :: "'w sdk \<Rightarrow> runtime \<Rightarrow> string \<Rightarrow> string \<Rightarrow> int \<Rightarrow> string \<Rightarrow> ('w, engine_error) prog" where
  "crashError e rt containerID svcName exitCode extra = do {
     let msg = ''service '' @ go_quote svcName @ '' exited with code '' @ show_int exitCode @ '' during start'';
     let msg = (if extra \<noteq> [] then msg @ '': '' @ extra else msg);
     tail \<leftarrow> containerLogTail e rt containerID 20;
     State_Monad.return (Err (if tail \<noteq> [] then msg @ [CHR 0x0A] @ ''--- last logs ---'' @ [CHR 0x0A] @ tail else msg))
   }"

text \<open>\<open>time.After\<close> against \<open>ctx.Done\<close>: the error of the context, if it is cancelled.\<close>

definition pause :: "'w sdk \<Rightarrow> int \<Rightarrow> ('w, engine_error + unit) prog" where
  "pause e d = do {
     _ \<leftarrow> wait (sleep_for e d);
     c \<leftarrow> observe (ctx_error e);
     State_Monad.return (case c of Some m \<Rightarrow> Inl (Err m) | None \<Rightarrow> Inr ())
   }"

fun verify_loop :: "nat \<Rightarrow> 'w sdk \<Rightarrow> runtime \<Rightarrow> string \<Rightarrow> string \<Rightarrow> int \<Rightarrow> ('w, engine_error + unit) prog" where
  "verify_loop 0 e rt containerID svcName deadline = State_Monad.return (Inl OutOfFuel)"
| "verify_loop (Suc fuel) e rt containerID svcName deadline = do {
     inspect \<leftarrow> docker (ContainerInspect containerID) (api_ContainerInspect e containerID);
     case inspect of
       Inl _ \<Rightarrow> State_Monad.return (Inr ())
     | Inr info \<Rightarrow>
         (case in_State info of
            None \<Rightarrow> State_Monad.return (Inr ())
          | Some st \<Rightarrow>
              if st_Status st = ''exited'' \<or> st_Status st = ''dead'' then do {
                err \<leftarrow> crashError e rt containerID svcName (st_ExitCode st) (st_Error st);
                State_Monad.return (Inl err)
              }
              else if st_Running st then
                (if in_RestartCount info > 0 then do {
                   err \<leftarrow> crashError e rt containerID svcName (st_ExitCode st)
                     (''restart loop (restart count='' @ show_int (in_RestartCount info) @ '')'');
                   State_Monad.return (Inl err)
                 }
                 else State_Monad.return (Inr ()))
              else do {
                now \<leftarrow> observe (clock_now e);
                if now > deadline then State_Monad.return (Inr ())
                else do {
                  r \<leftarrow> pause e probeInterval;
                  or_fail r (\<lambda>_. verify_loop fuel e rt containerID svcName deadline)
                }
              })
   }"

definition verifyRunning :: "nat \<Rightarrow> 'w sdk \<Rightarrow> runtime \<Rightarrow> string \<Rightarrow> string \<Rightarrow> ('w, engine_error + unit) prog" where
  "verifyRunning fuel e rt containerID svcName = do {
     now \<leftarrow> observe (clock_now e);
     verify_loop fuel e rt containerID svcName (now + probeTimeout)
   }"

definition hook_apply :: "'w deploy_hook option \<Rightarrow> string \<Rightarrow> string \<Rightarrow> string list \<Rightarrow> mount list
    \<Rightarrow> ('w, engine_error + string list \<times> mount list) prog" where
  "hook_apply hook project service env mounts =
     (case hook of
        None \<Rightarrow> State_Monad.return (Inr (env, mounts))
      | Some h \<Rightarrow> do {
          r \<leftarrow> docker (HookApplyToService project service) (ApplyToService h project service env mounts);
          State_Monad.return (wrap_result (''hook apply '' @ service @ '': '') (of_go r))
        })"

definition hook_after_create :: "'w deploy_hook option \<Rightarrow> string \<Rightarrow> string \<Rightarrow> string \<Rightarrow> ('w, engine_error + unit) prog" where
  "hook_after_create hook project service containerID =
     (case hook of
        None \<Rightarrow> State_Monad.return (Inr ())
      | Some h \<Rightarrow> do {
          r \<leftarrow> docker (HookAfterCreate project service containerID) (AfterCreate h project service containerID);
          State_Monad.return (wrap_result (''hook after-create '' @ service @ '': '') (of_go r))
        })"

definition hook_before :: "'w deploy_hook option \<Rightarrow> string \<Rightarrow> ('w, engine_error + unit) prog" where
  "hook_before hook project =
     (case hook of
        None \<Rightarrow> State_Monad.return (Inr ())
      | Some h \<Rightarrow> do {
          r \<leftarrow> docker (HookBeforeDeploy project) (BeforeDeploy h project);
          State_Monad.return (wrap_result ''deploy hook (before): '' (of_go r))
        })"

definition connect_networks :: "'w sdk \<Rightarrow> string \<Rightarrow> compose_config \<Rightarrow> service_config \<Rightarrow> string \<Rightarrow> ('w, engine_error + unit) prog" where
  "connect_networks e project cfg svc containerID =
     for_each (\<lambda>n. do {
       let qn = qualifyNetwork project (c_Networks cfg) n;
       r \<leftarrow> docker (NetworkConnect qn containerID (network_aliases svc n))
              (api_NetworkConnect e qn containerID (network_aliases svc n));
       State_Monad.return (of_sdk r)
     }) (tl (networks_order svc))"

definition createAndStart :: "nat \<Rightarrow> 'w sdk \<Rightarrow> runtime \<Rightarrow> string \<Rightarrow> compose_config \<Rightarrow> service_config \<Rightarrow> 'w deploy_hook option
    \<Rightarrow> ('w, engine_error + unit) prog" where
  "createAndStart fuel e rt project cfg svc hook = do {
     r \<leftarrow> hook_apply hook project (s_Name svc) (map env_entry (s_Environment svc)) (map (service_mount project cfg) (s_Volumes svc));
     or_fail r (\<lambda>(env, mounts). do {
       let spec = container_spec_of rt project cfg svc env mounts;
       r \<leftarrow> docker (ContainerCreate (container_name project svc) spec) (api_ContainerCreate e (container_name project svc) spec);
       or_fail (of_sdk r) (\<lambda>containerID. do {
         r \<leftarrow> connect_networks e project cfg svc containerID;
         or_fail r (\<lambda>_. do {
           r \<leftarrow> hook_after_create hook project (s_Name svc) containerID;
           or_fail r (\<lambda>_. do {
             r \<leftarrow> docker (ContainerStart containerID) (api_ContainerStart e containerID);
             or_fail (of_sdk r) (\<lambda>_. verifyRunning fuel e rt containerID (s_Name svc))
           })
         })
       })
     })
   }"

section \<open>Waiting for a dependency\<close>

definition second :: int where "second = 1000000000"

definition effective_condition :: "service_dependency \<Rightarrow> string" where
  "effective_condition dep = (if dep_Condition dep = [] then ''service_started'' else dep_Condition dep)"

text \<open>The budget of a condition and how \<open>%s\<close> writes it, or nothing for an unknown condition.\<close>

definition wait_timeout :: "string \<Rightarrow> (int \<times> string) option" where
  "wait_timeout cond =
     (if cond = ''service_started'' then Some (30 * second, ''30s'')
      else if cond = ''service_healthy'' then Some (120 * second, ''2m0s'')
      else if cond = ''service_completed_successfully'' then Some (300 * second, ''5m0s'')
      else None)"

text \<open>What one inspection says of the condition: met, failed for good, or not yet.\<close>

datatype verdict = Met | Failed go_error | NotYet

definition judge :: "string \<Rightarrow> string \<Rightarrow> container_state \<Rightarrow> verdict" where
  "judge cond service st =
     (if cond = ''service_started'' then
        (if st_Running st \<or> st_Health st = Some ''healthy'' then Met else NotYet)
      else if cond = ''service_healthy'' then
        (case st_Health st of
           None \<Rightarrow> if st_Running st then Met else NotYet
         | Some h \<Rightarrow> if h = ''healthy'' then Met else NotYet)
      else if cond = ''service_completed_successfully'' then
        (if st_Status st = ''exited'' then
           (if st_ExitCode st = 0 then Met
            else Failed (''service '' @ go_quote service @ '' exited with code '' @ show_int (st_ExitCode st) @
                   '' (condition service_completed_successfully expects 0)''))
         else NotYet)
      else NotYet)"

definition inspect_dependency :: "'w sdk \<Rightarrow> string \<Rightarrow> string \<Rightarrow> container_summary list \<Rightarrow> ('w, verdict) prog" where
  "inspect_dependency e cond service list =
     (case list of
        [] \<Rightarrow> State_Monad.return NotYet
      | c # _ \<Rightarrow> do {
          r \<leftarrow> docker (ContainerInspect (ct_ID c)) (api_ContainerInspect e (ct_ID c));
          State_Monad.return (case r of
            Inl _ \<Rightarrow> NotYet
          | Inr info \<Rightarrow> (case in_State info of None \<Rightarrow> NotYet | Some st \<Rightarrow> judge cond service st))
        })"

definition dependency_filters :: "string \<Rightarrow> string \<Rightarrow> string list" where
  "dependency_filters project service = [LabelProject @ ''='' @ project, LabelService @ ''='' @ service]"

definition poll_dependency :: "'w sdk \<Rightarrow> string \<Rightarrow> string \<Rightarrow> string \<Rightarrow> ('w, engine_error + verdict) prog" where
  "poll_dependency e project service cond = do {
     r \<leftarrow> docker (ContainerList True (dependency_filters project service))
            (api_ContainerList e True (dependency_filters project service));
     or_fail (wrap_result ''list dependency container: '' (of_sdk r)) (\<lambda>list. do {
       v \<leftarrow> inspect_dependency e cond service list;
       State_Monad.return (Inr v)
     })
   }"

definition timed_out :: "string \<Rightarrow> string \<Rightarrow> string \<Rightarrow> engine_error" where
  "timed_out budget cond service =
     Err (''timed out after '' @ budget @ '' waiting for '' @ cond @ '' on dependency '' @ go_quote service)"

fun wait_loop :: "nat \<Rightarrow> 'w sdk \<Rightarrow> string \<Rightarrow> string \<Rightarrow> string \<Rightarrow> string \<Rightarrow> int \<Rightarrow> ('w, engine_error + unit) prog" where
  "wait_loop 0 e project service cond budget deadline = State_Monad.return (Inl OutOfFuel)"
| "wait_loop (Suc fuel) e project service cond budget deadline = do {
     r \<leftarrow> poll_dependency e project service cond;
     or_fail r (\<lambda>v. case v of
         Met \<Rightarrow> State_Monad.return (Inr ())
       | Failed m \<Rightarrow> State_Monad.return (Inl (Err m))
       | NotYet \<Rightarrow> do {
           now \<leftarrow> observe (clock_now e);
           if now > deadline then State_Monad.return (Inl (timed_out budget cond service))
           else do {
             r \<leftarrow> pause e second;
             or_fail r (\<lambda>_. wait_loop fuel e project service cond budget deadline)
           }
         })
   }"

definition waitForDependency :: "nat \<Rightarrow> 'w sdk \<Rightarrow> string \<Rightarrow> service_dependency \<Rightarrow> ('w, engine_error + unit) prog" where
  "waitForDependency fuel e project dep =
     (case wait_timeout (effective_condition dep) of
        None \<Rightarrow> State_Monad.return (Inl (Err (''unsupported depends_on condition '' @ go_quote (effective_condition dep) @
          '' (expected service_started, service_healthy, or service_completed_successfully)'')))
      | Some (timeout, budget) \<Rightarrow> do {
          now \<leftarrow> observe (clock_now e);
          wait_loop fuel e project (dep_Service dep) (effective_condition dep) budget (now + timeout)
        })"

section \<open>Deploying\<close>

definition deploy_preflight :: "'w sdk \<Rightarrow> compose_config \<Rightarrow> bool \<Rightarrow> ('w, engine_error + unit) prog" where
  "deploy_preflight e cfg pull = do {
     r \<leftarrow> preflightExternalNetworks e (c_Networks cfg);
     or_fail r (\<lambda>_. do {
       r \<leftarrow> preflightExternalVolumes e (c_Volumes cfg);
       or_fail r (\<lambda>_. pull_images e pull (c_Services cfg))
     })
   }"

text \<open>\<open>idxByName\<close> keeps the last service of a name.\<close>

definition service_by_name :: "service_config list \<Rightarrow> string \<Rightarrow> service_config" where
  "service_by_name svcs n =
     (case filter (\<lambda>s. s_Name s = n) (rev svcs) of s # _ \<Rightarrow> s | [] \<Rightarrow> hd svcs)"

definition deploy_service :: "nat \<Rightarrow> 'w sdk \<Rightarrow> runtime \<Rightarrow> string \<Rightarrow> compose_config \<Rightarrow> 'w deploy_hook option \<Rightarrow> string
    \<Rightarrow> ('w, engine_error + unit) prog" where
  "deploy_service fuel e rt project cfg hook name = do {
     let svc = service_by_name (c_Services cfg) name;
     r \<leftarrow> for_each (\<lambda>dep. do {
            r \<leftarrow> waitForDependency fuel e project dep;
            State_Monad.return (wrap_result (''service '' @ s_Name svc @ '': dependency '' @ dep_Service dep @ '': '') r)
          }) (s_DependsOn svc);
     or_fail r (\<lambda>_. do {
       r \<leftarrow> createAndStart fuel e rt project cfg svc hook;
       State_Monad.return (wrap_result (''service '' @ s_Name svc @ '': '') r)
     })
   }"

definition deploy_apply :: "nat \<Rightarrow> 'w sdk \<Rightarrow> runtime \<Rightarrow> string \<Rightarrow> compose_config \<Rightarrow> string list \<Rightarrow> 'w deploy_hook option
    \<Rightarrow> ('w, engine_error + unit) prog" where
  "deploy_apply fuel e rt project cfg preserve hook = do {
     r \<leftarrow> removeProjectContainers e project False preserve;
     or_fail r (\<lambda>_. do {
       r \<leftarrow> ensureNetworks e project (c_Networks cfg);
       or_fail r (\<lambda>_. do {
         r \<leftarrow> ensureVolumes e project (c_Volumes cfg);
         or_fail r (\<lambda>_. do {
           r \<leftarrow> hook_before hook project;
           or_fail r (\<lambda>_.
             or_fail (of_go (topologicalOrder (c_Services cfg))) (\<lambda>order.
               for_each (deploy_service fuel e rt project cfg hook) order))
         })
       })
     })
   }"

text \<open>\<open>os.Setenv\<close> rejects an invalid key or value, and its error is dropped.\<close>

definition setenv :: "string \<times> string \<Rightarrow> (string \<rightharpoonup> string) \<Rightarrow> (string \<rightharpoonup> string)" where
  "setenv kv env =
     (case kv of (k, v) \<Rightarrow>
        if k = [] \<or> CHR ''='' \<in> set k \<or> CHR 0x00 \<in> set k \<or> CHR 0x00 \<in> set v then env else env(k \<mapsto> v))"

definition change_environ :: "((string \<rightharpoonup> string) \<Rightarrow> (string \<rightharpoonup> string)) \<Rightarrow> ('w, unit) prog" where
  "change_environ f = State (\<lambda>s. ((), s\<lparr>environ := f (environ s)\<rparr>))"

definition deploy_parsed :: "nat \<Rightarrow> 'w sdk \<Rightarrow> runtime \<Rightarrow> string \<Rightarrow> compose_config \<Rightarrow> deploy_options \<Rightarrow> 'w deploy_hook option
    \<Rightarrow> ('w, string list \<times> (engine_error + unit)) prog" where
  "deploy_parsed fuel e rt project cfg opts hook =
     (case validateServices cfg of
        Inl m \<Rightarrow> State_Monad.return ([], Inl (Err m))
      | Inr _ \<Rightarrow> do {
          let warnings = collectIgnoredFieldWarnings cfg;
          r \<leftarrow> deploy_preflight e cfg (PullImages opts);
          r \<leftarrow> or_fail r (\<lambda>_. deploy_apply fuel e rt project cfg (PreserveContainerNames opts) hook);
          State_Monad.return (warnings, r)
        })"

definition DeployWithResult :: "nat \<Rightarrow> 'w sdk \<Rightarrow> runtime \<Rightarrow> string \<Rightarrow> string \<Rightarrow> deploy_options \<Rightarrow> 'w deploy_hook option
    \<Rightarrow> ('w, string list \<times> (engine_error + unit)) prog" where
  "DeployWithResult fuel e rt project content opts hook = do {
     _ \<leftarrow> change_environ (fold setenv (EnvVars opts));
     env \<leftarrow> State (\<lambda>s. (environ s, s));
     r \<leftarrow> (case loader rt env project content of
            Inl m \<Rightarrow> State_Monad.return ([], Inl (Err (''parse compose: '' @ m)))
          | Inr cfg \<Rightarrow> deploy_parsed fuel e rt project cfg opts hook);
     _ \<leftarrow> change_environ (fold (\<lambda>(k, _) env. env(k := None)) (EnvVars opts));
     State_Monad.return r
   }"

definition Deploy :: "nat \<Rightarrow> 'w sdk \<Rightarrow> runtime \<Rightarrow> string \<Rightarrow> string \<Rightarrow> deploy_options \<Rightarrow> 'w deploy_hook option
    \<Rightarrow> ('w, engine_error + unit) prog" where
  "Deploy fuel e rt project content opts hook = do {
     (_, r) \<leftarrow> DeployWithResult fuel e rt project content opts hook;
     State_Monad.return r
   }"

end
