(* ===== verification/SelfDeployFiles.thy ===== *)
theory SelfDeployFiles
  imports StateWriter StandaloneDeploy
begin

text \<open>
  The shared directory of a self-deploy, biz/self_deploy_job.go: the job and state files with their
  atomic writes, the lock file, and the reclaim of a stale lock.

  The state of a process is the record \<open>machine\<close>: the engine of DockerSdk, the files by path, and the
  writer of StateWriter, which only the deploy agent uses.  Every system call on a file may fail, as
  the field \<open>sys_io\<close> of the record \<open>system\<close> decides; else it does what it says.  The content of a
  file is kept as the value that was marshalled into it, and \<open>Bytes\<close> stands for any text that
  \<open>encoding/json\<close> rejects.
\<close>

section \<open>Jobs and files\<close>

record self_deploy_job =
  job_ID :: string
  job_CreatedAt :: int
  job_CreatedBy :: string
  job_ComposeYAML :: string
  job_ImageTag :: string
  job_ExposePort :: int
  job_PreviousImageTag :: string
  job_TargetImageTag :: string
  job_PrimaryContainer :: string
  job_SourceStackID :: string
  job_StackName :: string
  job_TimeoutSec :: int
  job_AutoRollback :: bool
  job_EnvVars :: "(string \<times> string) list"

datatype content = JobFile self_deploy_job | StateFile self_deploy_state | Bytes string

datatype fs_error = ErrNotExist | ErrExist | ErrPermission | ErrOther go_error

definition fs_text :: "fs_error \<Rightarrow> go_error" where
  "fs_text e = (case e of ErrNotExist \<Rightarrow> ''file does not exist'' | ErrExist \<Rightarrow> ''file exists''
     | ErrPermission \<Rightarrow> ''permission denied'' | ErrOther m \<Rightarrow> m)"

datatype io_op =
    MkdirAll string | ChmodDir string | StatFile string | ReadFile string | OpenExclusive string | RemoveFile string
  | CreateTemp string | WriteTemp string | SyncTemp string | ChmodTemp string | CloseTemp string | Rename string string
  | OpenRead string | OpenTruncate string | CopyFile string string | RemoveAll string

record 'w machine =
  m_engine :: "'w engine"
  m_files :: "string \<rightharpoonup> content"
  m_writer :: state_writer

type_synonym ('w, 'a) mprog = "('w machine, 'a) state"

record 'w system =
  sys_sdk :: "'w sdk"
  sys_runtime :: runtime
  sys_io :: "io_op \<Rightarrow> 'w \<Rightarrow> fs_error option \<times> 'w"
  sys_temp :: "string \<Rightarrow> 'w \<Rightarrow> string"
  sys_Ping :: "'w \<Rightarrow> (sdk_error + unit) \<times> 'w"
  sys_ImageInspect :: "string \<Rightarrow> 'w \<Rightarrow> (sdk_error + unit) \<times> 'w"
  sys_HttpGet :: "string \<Rightarrow> 'w \<Rightarrow> (go_error + int) \<times> 'w"
  sys_time :: "int \<Rightarrow> string"
  sys_newId :: "'w \<Rightarrow> string"

definition on_engine :: "('w, 'a) prog \<Rightarrow> ('w, 'a) mprog" where
  "on_engine p = State (\<lambda>m. case run_state p (m_engine m) of (x, e) \<Rightarrow> (x, m\<lparr>m_engine := e\<rparr>))"

definition io_call :: "'w system \<Rightarrow> io_op \<Rightarrow> ('w, fs_error option) mprog" where
  "io_call sys q = on_engine (State (\<lambda>e. case sys_io sys q (world e) of (r, w) \<Rightarrow> (r, e\<lparr>world := w\<rparr>)))"

definition get_file :: "string \<Rightarrow> ('w, content option) mprog" where
  "get_file path = State (\<lambda>m. (m_files m path, m))"

definition put_file :: "string \<Rightarrow> content option \<Rightarrow> ('w, unit) mprog" where
  "put_file path c = State (\<lambda>m. ((), m\<lparr>m_files := (m_files m)(path := c)\<rparr>))"

definition time_Now :: "'w system \<Rightarrow> ('w, int) mprog" where
  "time_Now sys = on_engine (observe (clock_now (sys_sdk sys)))"

text \<open>A system call that fails, or else does \<open>act\<close>.\<close>

definition try_io :: "'w system \<Rightarrow> io_op \<Rightarrow> ('w, fs_error + 'a) mprog \<Rightarrow> ('w, fs_error + 'a) mprog" where
  "try_io sys q act = do {
     f \<leftarrow> io_call sys q;
     case f of Some e \<Rightarrow> State_Monad.return (Inl e) | None \<Rightarrow> act
   }"

definition os_ReadFile :: "'w system \<Rightarrow> string \<Rightarrow> ('w, fs_error + content) mprog" where
  "os_ReadFile sys path = try_io sys (ReadFile path) (do {
     c \<leftarrow> get_file path;
     State_Monad.return (case c of None \<Rightarrow> Inl ErrNotExist | Some c \<Rightarrow> Inr c)
   })"

definition os_Stat :: "'w system \<Rightarrow> string \<Rightarrow> ('w, fs_error + unit) mprog" where
  "os_Stat sys path = try_io sys (StatFile path) (do {
     c \<leftarrow> get_file path;
     State_Monad.return (case c of None \<Rightarrow> Inl ErrNotExist | Some _ \<Rightarrow> Inr ())
   })"

definition os_Remove :: "'w system \<Rightarrow> string \<Rightarrow> ('w, fs_error + unit) mprog" where
  "os_Remove sys path = try_io sys (RemoveFile path) (do {
     c \<leftarrow> get_file path;
     case c of
       None \<Rightarrow> State_Monad.return (Inl ErrNotExist)
     | Some _ \<Rightarrow> do { _ \<leftarrow> put_file path None; State_Monad.return (Inr ()) }
   })"

text \<open>\<open>O_CREATE|O_EXCL\<close>, with the stamp that is written into the new file.\<close>

definition os_CreateExclusive :: "'w system \<Rightarrow> string \<Rightarrow> content \<Rightarrow> ('w, fs_error + unit) mprog" where
  "os_CreateExclusive sys path content = try_io sys (OpenExclusive path) (do {
     c \<leftarrow> get_file path;
     case c of
       Some _ \<Rightarrow> State_Monad.return (Inl ErrExist)
     | None \<Rightarrow> do { _ \<leftarrow> put_file path (Some content); State_Monad.return (Inr ()) }
   })"

section \<open>Atomic writes\<close>

text \<open>A step on the temporary file; when it fails, the file is removed as far as possible.\<close>

definition temp_step :: "'w system \<Rightarrow> io_op \<Rightarrow> string \<Rightarrow> string \<Rightarrow> ('w, unit) mprog \<Rightarrow> ('w, go_error + unit) mprog
    \<Rightarrow> ('w, go_error + unit) mprog" where
  "temp_step sys q tmp msg act rest = do {
     f \<leftarrow> io_call sys q;
     case f of
       Some e \<Rightarrow> do { _ \<leftarrow> os_Remove sys tmp; State_Monad.return (Inl (msg @ fs_text e)) }
     | None \<Rightarrow> do { _ \<leftarrow> act; rest }
   }"

definition atomicWriteFile :: "'w system \<Rightarrow> string \<Rightarrow> string \<Rightarrow> content \<Rightarrow> ('w, go_error + unit) mprog" where
  "atomicWriteFile sys pkg path content = do {
     tmp \<leftarrow> on_engine (observe (sys_temp sys path));
     f \<leftarrow> io_call sys (CreateTemp path);
     case f of
       Some e \<Rightarrow> State_Monad.return (Inl (pkg @ '': create temp: '' @ fs_text e))
     | None \<Rightarrow> do {
         _ \<leftarrow> put_file tmp (Some (Bytes []));
         temp_step sys (WriteTemp tmp) tmp (pkg @ '': write temp: '') (put_file tmp (Some content))
           (temp_step sys (ChmodTemp tmp) tmp (pkg @ '': chmod temp: '') (State_Monad.return ())
             (temp_step sys (CloseTemp tmp) tmp (pkg @ '': close temp: '') (State_Monad.return ())
               (temp_step sys (Rename tmp path) tmp (pkg @ '': rename temp: '')
                 (do { _ \<leftarrow> put_file tmp None; put_file path (Some content) })
                 (State_Monad.return (Inr ())))))
       }
   }"

section \<open>The directory\<close>

definition selfDeployStateDir :: string where "selfDeployStateDir = ''/data/self-deploy''"
definition jobPath :: string where "jobPath = selfDeployStateDir @ ''/job.json''"
definition statePath :: string where "statePath = selfDeployStateDir @ ''/state.json''"
definition lockPath :: string where "lockPath = selfDeployStateDir @ ''/.lock''"

lemma paths_distinct [simp]:
  "jobPath \<noteq> statePath" "statePath \<noteq> jobPath" "jobPath \<noteq> lockPath" "lockPath \<noteq> jobPath" "statePath \<noteq> lockPath" "lockPath \<noteq> statePath"
  by (simp_all add: jobPath_def statePath_def lockPath_def)

definition ensureSelfDeployDir :: "'w system \<Rightarrow> ('w, go_error + unit) mprog" where
  "ensureSelfDeployDir sys = do {
     f \<leftarrow> io_call sys (MkdirAll selfDeployStateDir);
     case f of
       Some e \<Rightarrow> State_Monad.return (Inl (''self-deploy: mkdir '' @ selfDeployStateDir @ '': '' @ fs_text e))
     | None \<Rightarrow> do {
         f \<leftarrow> io_call sys (ChmodDir selfDeployStateDir);
         State_Monad.return (case f of
           Some e \<Rightarrow> if e = ErrPermission then Inr ()
             else Inl (''self-deploy: chmod '' @ selfDeployStateDir @ '': '' @ fs_text e)
         | None \<Rightarrow> Inr ())
       }
   }"

definition writeSelfDeployJob :: "'w system \<Rightarrow> self_deploy_job \<Rightarrow> ('w, go_error + string) mprog" where
  "writeSelfDeployJob sys job = do {
     r \<leftarrow> ensureSelfDeployDir sys;
     or_fail r (\<lambda>_. do {
       r \<leftarrow> atomicWriteFile sys ''self-deploy'' jobPath (JobFile job);
       State_Monad.return (map_sum id (\<lambda>_. jobPath) r)
     })
   }"

definition writeSelfDeployState :: "'w system \<Rightarrow> self_deploy_state \<Rightarrow> ('w, go_error + unit) mprog" where
  "writeSelfDeployState sys st = do {
     r \<leftarrow> ensureSelfDeployDir sys;
     or_fail r (\<lambda>_. atomicWriteFile sys ''self-deploy'' statePath (StateFile st))
   }"

definition decode_job :: "content \<Rightarrow> go_error + self_deploy_job" where
  "decode_job c = (case c of JobFile j \<Rightarrow> Inr j | _ \<Rightarrow> Inl ''invalid character'')"

definition decode_state :: "content \<Rightarrow> go_error + self_deploy_state" where
  "decode_state c = (case c of StateFile s \<Rightarrow> Inr s | _ \<Rightarrow> Inl ''invalid character'')"

definition readSelfDeployJob :: "'w system \<Rightarrow> ('w, go_error + self_deploy_job option) mprog" where
  "readSelfDeployJob sys = do {
     r \<leftarrow> os_ReadFile sys jobPath;
     State_Monad.return (case r of
       Inl e \<Rightarrow> if e = ErrNotExist then Inr None else Inl (''self-deploy: read job: '' @ fs_text e)
     | Inr c \<Rightarrow> (case decode_job c of Inl e \<Rightarrow> Inl (''self-deploy: unmarshal job: '' @ e) | Inr j \<Rightarrow> Inr (Some j)))
   }"

definition readSelfDeployState :: "'w system \<Rightarrow> ('w, go_error + self_deploy_state option) mprog" where
  "readSelfDeployState sys = do {
     r \<leftarrow> os_ReadFile sys statePath;
     State_Monad.return (case r of
       Inl e \<Rightarrow> if e = ErrNotExist then Inr None else Inl (''self-deploy: read state: '' @ fs_text e)
     | Inr c \<Rightarrow> (case decode_state c of Inl e \<Rightarrow> Inl (''self-deploy: unmarshal state: '' @ e) | Inr s \<Rightarrow> Inr (Some s)))
   }"

section \<open>The lock\<close>

datatype lock_error = LockHeld | LockFailed go_error

definition acquireSelfDeployLock :: "'w system \<Rightarrow> ('w, lock_error + unit) mprog" where
  "acquireSelfDeployLock sys = do {
     r \<leftarrow> ensureSelfDeployDir sys;
     case r of
       Inl e \<Rightarrow> State_Monad.return (Inl (LockFailed e))
     | Inr _ \<Rightarrow> do {
         t \<leftarrow> time_Now sys;
         r \<leftarrow> os_CreateExclusive sys lockPath (Bytes (sys_time sys t));
         State_Monad.return (case r of
           Inl e \<Rightarrow> if e = ErrExist then Inl LockHeld else Inl (LockFailed (''self-deploy: open lock: '' @ fs_text e))
         | Inr _ \<Rightarrow> Inr ())
       }
   }"

definition releaseSelfDeployLock :: "'w system \<Rightarrow> ('w, unit) mprog" where
  "releaseSelfDeployLock sys = do { _ \<leftarrow> os_Remove sys lockPath; State_Monad.return () }"

definition sidekickContainerName :: "string \<Rightarrow> string" where
  "sidekickContainerName jobID = ''swirl-deploy-agent-'' @ take 8 jobID"

text \<open>The UTF-8 bytes of the dash in the messages.\<close>

definition em_dash :: string where "em_dash = [CHR 0xE2, CHR 0x80, CHR 0x94]"

text \<open>The reason for which a sidekick that does not run counts as abandoned.\<close>

definition abandoned_reason :: "string \<Rightarrow> sdk_error + container_info \<Rightarrow> string" where
  "abandoned_reason name r =
     (let default = ''abandoned (sidekick missing or exited)'' in
      case r of
        Inl err \<Rightarrow> if IsNotFound err then ''abandoned (sidekick '' @ name @ '' not found on daemon)'' else default
      | Inr info \<Rightarrow>
          (case in_State info of
             None \<Rightarrow> default
           | Some st \<Rightarrow>
               if st_Status st = ''exited'' then
                 (if st_ExitCode st \<noteq> 0 then
                    ''abandoned (sidekick '' @ name @ '' exited with code '' @ show_int (st_ExitCode st) @ '' '' @ em_dash @ '' see `docker logs '' @ name @ ''`)''
                  else ''abandoned (sidekick '' @ name @ '' exited cleanly without reporting state '' @ em_dash @ '' check image entrypoint)'')
               else if st_Status st = ''dead'' \<or> st_Status st = ''removing'' then
                 ''abandoned (sidekick '' @ name @ '' is in state '' @ go_quote (st_Status st) @ '')''
               else default))"

definition sidekick_running :: "sdk_error + container_info \<Rightarrow> bool" where
  "sidekick_running r =
     (case r of Inl _ \<Rightarrow> False | Inr info \<Rightarrow> (case in_State info of None \<Rightarrow> False | Some st \<Rightarrow> st_Running st))"

definition abandoned_state :: "'w system \<Rightarrow> self_deploy_state \<Rightarrow> int \<Rightarrow> string \<Rightarrow> self_deploy_state" where
  "abandoned_state sys st t reason =
     \<lparr>sd_JobID = sd_JobID st, sd_Phase = SelfDeployPhaseFailed, sd_StartedAt = sd_StartedAt st, sd_FinishedAt = t,
      sd_Error = ''self-deploy: '' @ reason, sd_LogTail = appendLogLine (sd_LogTail st) (sys_time sys t @ '' '' @ reason),
      sd_EventPublished = False\<rparr>"

definition drop_lock :: "'w system \<Rightarrow> ('w, go_error + bool) mprog" where
  "drop_lock sys = do { _ \<leftarrow> os_Remove sys lockPath; State_Monad.return (Inr True) }"

text \<open>The second argument tells whether there is a Docker client.\<close>

definition reclaimStaleLock :: "'w system \<Rightarrow> bool \<Rightarrow> ('w, go_error + bool) mprog" where
  "reclaimStaleLock sys has_client = do {
     r \<leftarrow> os_Stat sys lockPath;
     case r of
       Inl e \<Rightarrow> State_Monad.return (if e = ErrNotExist then Inr False else Inl (''self-deploy: stat lock: '' @ fs_text e))
     | Inr _ \<Rightarrow> do {
         r \<leftarrow> readSelfDeployState sys;
         case r of
           Inl _ \<Rightarrow> drop_lock sys
         | Inr None \<Rightarrow> drop_lock sys
         | Inr (Some st) \<Rightarrow>
             if \<not> isInProgressPhase (sd_Phase st) then drop_lock sys
             else if sd_JobID st = [] \<or> \<not> has_client then State_Monad.return (Inr False)
             else do {
               let name = sidekickContainerName (sd_JobID st);
               i \<leftarrow> on_engine (docker (ContainerInspect name) (api_ContainerInspect (sys_sdk sys) name));
               if sidekick_running i then State_Monad.return (Inr False)
               else do {
                 t \<leftarrow> time_Now sys;
                 w \<leftarrow> writeSelfDeployState sys (abandoned_state sys st t (abandoned_reason name i));
                 case w of
                   Inl e \<Rightarrow> State_Monad.return (Inl (''self-deploy: rewrite state.json: '' @ e))
                 | Inr _ \<Rightarrow> do {
                     r \<leftarrow> os_Remove sys lockPath;
                     State_Monad.return (case r of
                       Inl e \<Rightarrow> if e = ErrNotExist then Inr True else Inl (''self-deploy: remove stale lock: '' @ fs_text e)
                     | Inr _ \<Rightarrow> Inr True)
                   }
               }
             }
       }
   }"

end
