(* ===== verification/SelfDeployChecks.thy ===== *)
theory SelfDeployChecks
  imports SelfDeployFiles
begin

text \<open>
  The checks of biz/self_deploy.go on a parsed stack: choosing the service, image and port, the
  persistent volume, the compatibility with the running container, and the invariants of a job.

  A Go map is an association list in one order of iteration.  \<open>strings.ToLower\<close> is exact on ASCII.
\<close>

section \<open>Sorting in place\<close>

text \<open>The two nested loops that the code uses instead of the sort package.\<close>

function exchange_inner :: "('a \<Rightarrow> 'a \<Rightarrow> bool) \<Rightarrow> 'a list \<Rightarrow> nat \<Rightarrow> nat \<Rightarrow> 'a list" where
  "exchange_inner lt xs i j =
     (if j < length xs
      then exchange_inner lt (if lt (xs ! j) (xs ! i) then xs[i := xs ! j, j := xs ! i] else xs) i (Suc j)
      else xs)"
  by pat_completeness auto
termination
  by (relation "measure (\<lambda>(lt, xs, i, j). length xs - j)") auto

declare exchange_inner.simps [simp del]

lemma length_exchange_inner [simp]: "length (exchange_inner lt xs i j) = length xs"
proof (induction lt xs i j rule: exchange_inner.induct)
  case (1 lt xs i j)
  then show ?case by (cases "j < length xs") (simp_all add: exchange_inner.simps [of lt xs i j])
qed

function exchange_outer :: "('a \<Rightarrow> 'a \<Rightarrow> bool) \<Rightarrow> 'a list \<Rightarrow> nat \<Rightarrow> 'a list" where
  "exchange_outer lt xs i = (if i < length xs then exchange_outer lt (exchange_inner lt xs i (Suc i)) (Suc i) else xs)"
  by pat_completeness auto
termination
  by (relation "measure (\<lambda>(lt, xs, i). length xs - i)") auto

declare exchange_outer.simps [simp del]

definition sortStringsInPlace :: "string list \<Rightarrow> string list" where
  "sortStringsInPlace s = exchange_outer (<) s 0"

definition sort_services :: "service_config list \<Rightarrow> service_config list" where
  "sort_services services = exchange_outer (\<lambda>a b. s_Name a < s_Name b) services 0"

section \<open>The image and the port\<close>

definition is_swirl :: "service_config \<Rightarrow> bool" where
  "is_swirl s \<longleftrightarrow> contains (to_lower (s_Image s)) ''swirl''"

fun first_that :: "('a \<Rightarrow> bool) \<Rightarrow> 'a list \<Rightarrow> 'a option" where
  "first_that P [] = None"
| "first_that P (x # xs) = (if P x then Some x else first_that P xs)"

definition detectTargetImage :: "compose_config \<Rightarrow> go_error + string" where
  "detectTargetImage cfg =
     (if c_Services cfg = [] then Inl ''self-deploy: compose file has no services''
      else
        let services = sort_services (c_Services cfg);
            pick = (case first_that is_swirl services of Some s \<Rightarrow> s | None \<Rightarrow> hd services);
            img = TrimSpace (s_Image pick)
        in if img = [] then Inl (''self-deploy: service '' @ go_quote (s_Name pick) @ '' has no image declared'')
           else Inr img)"

definition SelfDeployExposePort :: int where "SelfDeployExposePort = 8001"

definition port_number :: "port_config \<Rightarrow> int" where
  "port_number p = (if p_Target p \<noteq> 0 then uint (p_Target p) else uint (p_Published p))"

definition detectExposePort :: "compose_config \<Rightarrow> int" where
  "detectExposePort cfg =
     (case (case first_that is_swirl (c_Services cfg) of
              Some s \<Rightarrow> Some s
            | None \<Rightarrow> (case c_Services cfg of [] \<Rightarrow> None | s # _ \<Rightarrow> Some s)) of
        None \<Rightarrow> SelfDeployExposePort
      | Some s \<Rightarrow>
          (case first_that (\<lambda>p. port_number p \<noteq> 0) (s_Ports s) of
             None \<Rightarrow> SelfDeployExposePort
           | Some p \<Rightarrow> port_number p))"

definition requireDataVolume :: "compose_config \<Rightarrow> go_error + unit" where
  "requireDataVolume cfg =
     (case first_that is_swirl (c_Services cfg) of
        None \<Rightarrow> Inr ()
      | Some s \<Rightarrow>
          if \<exists>v \<in> set (s_Volumes s). vc_Target v = ''/data'' \<and>
               (vc_Type v = ''bind'' \<or> vc_Type v = ''volume'' \<or> vc_Type v = [] \<or> vc_Source v \<noteq> [])
          then Inr ()
          else Inl (''service '' @ go_quote (s_Name s) @ '' does not declare a persistent volume at /data '' @ em_dash @
            '' add `volumes: [<name>:/data]` and a top-level `volumes:` entry, otherwise self-deploy state (lock, progress, logs) is lost on every restart''))"

section \<open>Hosts in the environment\<close>

definition allDigitsOrDots :: "string \<Rightarrow> bool" where
  "allDigitsOrDots s \<longleftrightarrow> s \<noteq> [] \<and> list_all (\<lambda>c. is_digit c \<or> c = CHR ''.'') s"

text \<open>The text before the last colon, unless it is the first character.\<close>

definition drop_port :: "string \<Rightarrow> string" where
  "drop_port s =
     (if CHR '':'' \<in> set s
      then let host = rev (tl (dropWhile (\<lambda>c. c \<noteq> CHR '':'') (rev s))) in if host = [] then s else host
      else s)"

definition add_host :: "string list \<Rightarrow> string \<Rightarrow> string list" where
  "add_host out s =
     (let s = TrimSpace s in
      if s = [] then out
      else
        let s = drop_port (takeWhile (\<lambda>c. c \<noteq> CHR ''/'' \<and> c \<noteq> CHR ''?'') s) in
        if s = [] \<or> s = ''localhost'' \<or> s = ''127.0.0.1'' \<or> allDigitsOrDots s \<or> s \<in> set out then out
        else out @ [s])"

function extract_hosts :: "string \<Rightarrow> string list \<Rightarrow> string list" where
  "extract_hosts v out =
     (case str_cut ''://'' v of
        None \<Rightarrow> out
      | Some (_, rest) \<Rightarrow>
          let host = takeWhile (\<lambda>c. c \<notin> {CHR '' '', CHR '','', CHR '';''}) rest in
          extract_hosts (drop (length host) rest) (add_host out host))"
  by pat_completeness auto
termination
  by (relation "measure (\<lambda>(v, out). length v)") (auto dest!: str_cut_Some)

declare extract_hosts.simps [simp del]

definition extractEnvHosts :: "string \<Rightarrow> string list" where
  "extractEnvHosts v = extract_hosts v []"

section \<open>Compatibility with the running container\<close>

definition env_pair :: "string \<Rightarrow> (string \<times> string) option" where
  "env_pair e = (case str_cut ''='' e of None \<Rightarrow> None | Some (k, v) \<Rightarrow> if k = [] then None else Some (k, v))"

definition primary_env :: "string list \<Rightarrow> (string \<times> string) list" where
  "primary_env es = foldl (\<lambda>m e. case env_pair e of None \<Rightarrow> m | Some (k, v) \<Rightarrow> AList.update k v m) [] es"

definition service_networks :: "service_config \<Rightarrow> string list" where
  "service_networks s = (if s_Networks s = [] then [''default''] else map fst (s_Networks s))"

definition target_networks :: "service_config list \<Rightarrow> (string \<times> string list) list" where
  "target_networks svcs = foldl (\<lambda>m s. AList.update (s_Name s) (service_networks s) m) [] svcs"

definition swirl_service_name :: "(string \<times> string list) list \<Rightarrow> string" where
  "swirl_service_name nets =
     (case first_that (\<lambda>n. contains (to_lower n) ''swirl'') (map fst nets) of
        Some n \<Rightarrow> n
      | None \<Rightarrow> (case sortStringsInPlace (map fst nets) of [] \<Rightarrow> [] | n # _ \<Rightarrow> n))"

definition networks_of :: "(string \<times> string list) list \<Rightarrow> string \<Rightarrow> string list" where
  "networks_of nets n = (case map_of nets n of Some ns \<Rightarrow> ns | None \<Rightarrow> [])"

definition host_blocker :: "(string \<times> string list) list \<Rightarrow> string \<Rightarrow> string \<Rightarrow> string \<Rightarrow> string list" where
  "host_blocker nets swirl k h =
     (case map_of nets h of
        None \<Rightarrow> []
      | Some svcNets \<Rightarrow>
          if swirl = [] then []
          else if \<exists>n \<in> set (networks_of nets swirl). n \<in> set svcNets then []
          else [''env '' @ k @ '' references service '' @ go_quote h @ '' but '' @ go_quote swirl @ '' and '' @ go_quote h @
                '' share no network in the target YAML''])"

definition stack_blockers :: "(string \<times> string) list \<Rightarrow> (string \<times> string list) list \<Rightarrow> string list" where
  "stack_blockers env nets =
     concat (map (\<lambda>(k, v). concat (map (host_blocker nets (swirl_service_name nets) k) (extractEnvHosts v))) env)"

definition checkStackCompatibility :: "'w sdk \<Rightarrow> string \<Rightarrow> compose_config \<Rightarrow> ('w, string list) prog" where
  "checkStackCompatibility e primaryID target = do {
     r \<leftarrow> docker (ContainerInspect primaryID) (api_ContainerInspect e primaryID);
     State_Monad.return (case r of
       Inl _ \<Rightarrow> []
     | Inr info \<Rightarrow>
         stack_blockers (case in_Config info of None \<Rightarrow> [] | Some (_, es) \<Rightarrow> primary_env es) (target_networks (c_Services target)))
   }"

section \<open>Invariants of a job\<close>

definition collides_with_sidekick :: "string \<Rightarrow> bool" where
  "collides_with_sidekick n \<longleftrightarrow>
     has_prefix (to_lower n) ''swirl-deploy-agent'' \<and>
     (length n = length ''swirl-deploy-agent'' \<or> n ! length ''swirl-deploy-agent'' = CHR ''-'')"

fun check_container_names :: "service_config list \<Rightarrow> go_error + unit" where
  "check_container_names [] = Inr ()"
| "check_container_names (s # svcs) =
     (if s_ContainerName s \<noteq> [] \<and> collides_with_sidekick (s_ContainerName s) then
        Inl (''self-deploy: service '' @ go_quote (s_Name s) @ '' uses container_name '' @ go_quote (s_ContainerName s) @
          '' which collides with the sidekick naming pattern (swirl-deploy-agent-*); rename the service'')
      else check_container_names svcs)"

text \<open>The file is parsed under the environment of the process as it is.\<close>

definition validateInvariants :: "runtime \<Rightarrow> (string \<rightharpoonup> string) \<Rightarrow> self_deploy_job \<Rightarrow> go_error + unit" where
  "validateInvariants rt env job =
     (if TrimSpace (job_PrimaryContainer job) = [] then Inl ''self-deploy: PrimaryContainer is empty''
      else if TrimSpace (job_TargetImageTag job) = [] then Inl ''self-deploy: TargetImageTag is empty''
      else if TrimSpace (job_ComposeYAML job) = [] then Inl ''self-deploy: ComposeYAML is empty''
      else if TrimSpace (job_StackName job) = [] then Inl ''self-deploy: StackName is empty''
      else case loader rt env ''self-deploy-validate'' (job_ComposeYAML job) of
        Inl e \<Rightarrow> Inl (''self-deploy: YAML is invalid: '' @ e)
      | Inr cfg \<Rightarrow> check_container_names (c_Services cfg))"

definition ValidateSelfDeployJob :: "runtime \<Rightarrow> (string \<rightharpoonup> string) \<Rightarrow> self_deploy_job \<Rightarrow> go_error + unit" where
  "ValidateSelfDeployJob rt env job = validateInvariants rt env job"

definition validateExternalNetworks :: "'w sdk \<Rightarrow> (string \<times> network_config) list \<Rightarrow> ('w, go_error + unit) prog" where
  "validateExternalNetworks e nets =
     for_each (\<lambda>(name, ncfg).
       if \<not> nw_External ncfg then State_Monad.return (Inr ())
       else do {
         let resolved = external_name name (nw_Name ncfg);
         r \<leftarrow> docker (NetworkInspect resolved) (api_NetworkInspect e resolved);
         State_Monad.return (case r of
           Inl err \<Rightarrow>
             if IsNotFound err then
               Inl (''self-deploy: external network '' @ go_quote resolved @ '' referenced in compose does not exist; run `docker network create '' @ resolved @ ''` before deploying'')
             else Inl (''self-deploy: inspect external network '' @ go_quote resolved @ '': '' @ error_text err)
         | Inr _ \<Rightarrow> Inr ())
       }) nets"

definition validateExternalVolumes :: "'w sdk \<Rightarrow> (string \<times> volume_config) list \<Rightarrow> ('w, go_error + unit) prog" where
  "validateExternalVolumes e vols =
     for_each (\<lambda>(name, vcfg).
       if \<not> vol_External vcfg then State_Monad.return (Inr ())
       else do {
         let resolved = external_name name (vol_Name vcfg);
         r \<leftarrow> docker (VolumeInspect resolved) (api_VolumeInspect e resolved);
         State_Monad.return (case r of
           Inl err \<Rightarrow>
             if IsNotFound err then
               Inl (''self-deploy: external volume '' @ go_quote resolved @ '' referenced in compose does not exist; run `docker volume create '' @ resolved @ ''` before deploying'')
             else Inl (''self-deploy: inspect external volume '' @ go_quote resolved @ '': '' @ error_text err)
         | Inr _ \<Rightarrow> Inr ())
       }) vols"

definition validateInvariantsWithDaemon :: "'w sdk \<Rightarrow> runtime \<Rightarrow> self_deploy_job \<Rightarrow> ('w, go_error + unit) prog" where
  "validateInvariantsWithDaemon e rt job = do {
     env \<leftarrow> State (\<lambda>s. (environ s, s));
     or_fail (validateInvariants rt env job) (\<lambda>_. do {
       r \<leftarrow> docker (ContainerInspect (job_PrimaryContainer job)) (api_ContainerInspect e (job_PrimaryContainer job));
       or_fail (case r of
           Inl err \<Rightarrow>
             if IsNotFound err then
               Inl (''self-deploy: PrimaryContainer '' @ go_quote (job_PrimaryContainer job) @ '' not found on daemon '' @ em_dash @ '' SWIRL_CONTAINER_ID might be stale'')
             else Inl (''self-deploy: inspect PrimaryContainer '' @ go_quote (job_PrimaryContainer job) @ '': '' @ error_text err)
         | Inr _ \<Rightarrow> Inr ()) (\<lambda>_.
         or_fail (case loader rt env ''self-deploy-validate-daemon'' (job_ComposeYAML job) of
             Inl e \<Rightarrow> Inl (''self-deploy: YAML is invalid: '' @ e) | Inr cfg \<Rightarrow> Inr cfg) (\<lambda>cfg. do {
           r \<leftarrow> validateExternalNetworks e (c_Networks cfg);
           or_fail r (\<lambda>_. validateExternalVolumes e (c_Volumes cfg))
         }))
     })
   }"

end
