(* ===== verification/SelfDeploy.thy ===== *)
theory SelfDeploy
  imports SelfDeployChecks StackHistory
begin

text \<open>
  The primary's side of a self-deploy, biz/self_deploy.go: preparing the job, taking the lock,
  spawning the sidekick, its watchdog, the status and the reset of the lock.

  The record \<open>primary\<close> holds the components that are injected (settings, stacks, events, the
  Docker service) as functions of the world.  Deadlines of single calls are not modelled: a call
  may fail at any time anyway.
\<close>

section \<open>Configuration\<close>

record self_deploy_config =
  sc_Enabled :: bool
  sc_SourceStackID :: string
  sc_AutoRollback :: bool
  sc_DeployTimeout :: int

definition SelfDeployDefaultTimeoutSec :: int where "SelfDeployDefaultTimeoutSec = 300"

definition applyConfigDefaults :: "self_deploy_config option \<Rightarrow> self_deploy_config" where
  "applyConfigDefaults c =
     (let cfg = (case c of Some cfg \<Rightarrow> cfg
                 | None \<Rightarrow> \<lparr>sc_Enabled = False, sc_SourceStackID = [], sc_AutoRollback = False, sc_DeployTimeout = 0\<rparr>);
          cfg = (if sc_DeployTimeout cfg \<le> 0 then cfg\<lparr>sc_DeployTimeout := SelfDeployDefaultTimeoutSec\<rparr> else cfg)
      in if \<not> sc_Enabled cfg \<and> sc_SourceStackID cfg = [] \<and> \<not> sc_AutoRollback cfg
         then cfg\<lparr>sc_AutoRollback := True\<rparr> else cfg)"

datatype sd_error = Blocked go_error | SdError go_error

datatype event_action = DeployStart | DeploySuccess | DeployFailure | DeployReset

record 'w primary =
  pr_sys :: "'w system"
  pr_FindSetting :: "'w \<Rightarrow> (go_error + self_deploy_config option) \<times> 'w"
  pr_SaveSetting :: "self_deploy_config \<Rightarrow> 'w \<Rightarrow> (go_error + unit) \<times> 'w"
  pr_FindStack :: "string \<Rightarrow> 'w \<Rightarrow> (go_error + compose_stack option) \<times> 'w"
  pr_ClearError :: "string \<Rightarrow> 'w \<Rightarrow> 'w"
  pr_Event :: "event_action \<Rightarrow> string \<Rightarrow> string \<Rightarrow> 'w \<Rightarrow> 'w"
  pr_Client :: "'w \<Rightarrow> go_error + unit"
  pr_Standalone :: bool
  pr_SelfID :: "'w \<Rightarrow> string option"

definition call :: "('w \<Rightarrow> 'a \<times> 'w) \<Rightarrow> ('w, 'a) mprog" where
  "call f = on_engine (State (\<lambda>e. case f (world e) of (x, w) \<Rightarrow> (x, e\<lparr>world := w\<rparr>)))"

definition call_sdk :: "request \<Rightarrow> ('w \<Rightarrow> (sdk_error + 'a) \<times> 'w) \<Rightarrow> ('w, sdk_error + 'a) mprog" where
  "call_sdk q f = on_engine (docker q f)"

definition LoadConfig :: "'w primary \<Rightarrow> ('w, sd_error + self_deploy_config) mprog" where
  "LoadConfig p = do {
     r \<leftarrow> call (pr_FindSetting p);
     State_Monad.return (map_sum (\<lambda>e. SdError (''self-deploy: load config: '' @ e)) applyConfigDefaults r)
   }"

definition SaveConfig :: "'w primary \<Rightarrow> self_deploy_config \<Rightarrow> ('w, go_error + unit) mprog" where
  "SaveConfig p cfg =
     (let cfg = cfg\<lparr>sc_SourceStackID := TrimSpace (sc_SourceStackID cfg)\<rparr> in
      if sc_Enabled cfg \<and> sc_SourceStackID cfg = []
      then State_Monad.return (Inl ''self-deploy: source stack is required when enabled'')
      else call (pr_SaveSetting p cfg))"

section \<open>The .env text of a stack\<close>

definition parse_env_line :: "(string \<times> string) list \<Rightarrow> string \<Rightarrow> (string \<times> string) list" where
  "parse_env_line out line =
     (let line = TrimSpace line in
      if line = [] \<or> has_prefix line ''#'' then out
      else case str_cut ''='' line of
        None \<Rightarrow> out
      | Some (k, v) \<Rightarrow> AList.update (TrimSpace k) (TrimSpace v) out)"

definition parseEnvFile :: "string \<Rightarrow> (string \<times> string) list" where
  "parseEnvFile content = foldl parse_env_line [] (split_at (CHR 0x0A) content)"

section \<open>Preparing a job\<close>

definition saved_env :: "(string \<times> string) list \<Rightarrow> (string \<rightharpoonup> string) \<Rightarrow> (string \<times> string) list" where
  "saved_env vars env = map (\<lambda>(k, _). (k, case env k of Some v \<Rightarrow> v | None \<Rightarrow> [])) vars"

definition restore_env :: "(string \<times> string) list \<Rightarrow> (string \<rightharpoonup> string) \<Rightarrow> (string \<rightharpoonup> string)" where
  "restore_env saved env = fold (\<lambda>(k, prev) env. if prev = [] then env(k := None) else setenv (k, prev) env) saved env"

definition sidekickImageFallback :: string where "sidekickImageFallback = ''cuigh/swirl:latest''"

definition previous_image :: "sdk_error + container_info \<Rightarrow> string" where
  "previous_image r =
     (let prev = (case r of
          Inl _ \<Rightarrow> []
        | Inr info \<Rightarrow>
            (let c = (case in_Config info of Some (img, _) \<Rightarrow> img | None \<Rightarrow> []) in if c = [] then in_Image info else c))
      in if prev = [] then sidekickImageFallback else prev)"

definition blocked :: "string \<Rightarrow> ('w, sd_error + 'a) mprog" where
  "blocked m = State_Monad.return (Inl (Blocked m))"

definition new_job :: "'w system \<Rightarrow> 'w \<Rightarrow> self_deploy_config \<Rightarrow> compose_stack \<Rightarrow> string \<Rightarrow> string \<Rightarrow> int \<Rightarrow> string
    \<Rightarrow> (string \<times> string) list \<Rightarrow> self_deploy_job" where
  "new_job sys w cfg stack selfID target expose prev vars =
     \<lparr>job_ID = sys_newId sys w, job_CreatedAt = clock_now (sys_sdk sys) w, job_CreatedBy = [],
      job_ComposeYAML = cs_Content stack, job_ImageTag = target, job_ExposePort = expose,
      job_PreviousImageTag = prev, job_TargetImageTag = target, job_PrimaryContainer = selfID,
      job_SourceStackID = sc_SourceStackID cfg, job_StackName = cs_Name stack, job_TimeoutSec = sc_DeployTimeout cfg,
      job_AutoRollback = sc_AutoRollback cfg, job_EnvVars = vars\<rparr>"

text \<open>The checks of a job against the daemon, once the YAML is parsed.\<close>

definition check_job :: "'w primary \<Rightarrow> string \<Rightarrow> compose_config \<Rightarrow> self_deploy_job \<Rightarrow> ('w, sd_error + self_deploy_job) mprog" where
  "check_job p selfID parsed job = do {
     ping \<leftarrow> call_sdk DaemonPing (sys_Ping (pr_sys p));
     case ping of
       Inl err \<Rightarrow> blocked (''Docker daemon not reachable: '' @ error_text err)
     | Inr _ \<Rightarrow> do {
         v \<leftarrow> on_engine (validateInvariantsWithDaemon (sys_sdk (pr_sys p)) (sys_runtime (pr_sys p)) job);
         case v of
           Inl m \<Rightarrow> blocked m
         | Inr _ \<Rightarrow> do {
             blockers \<leftarrow> on_engine (checkStackCompatibility (sys_sdk (pr_sys p)) selfID parsed);
             if blockers \<noteq> [] then blocked (''self-deploy blocked: '' @ join ''; '' blockers)
             else (case requireDataVolume parsed of
               Inl m \<Rightarrow> blocked m
             | Inr _ \<Rightarrow> State_Monad.return (Inr job))
           }
       }
   }"

text \<open>The part of \<open>prepareJob\<close> that runs with the variables of the stack.\<close>

definition prepare_with_env :: "'w primary \<Rightarrow> self_deploy_config \<Rightarrow> compose_stack \<Rightarrow> string \<Rightarrow> (string \<times> string) list
    \<Rightarrow> ('w, sd_error + self_deploy_job) mprog" where
  "prepare_with_env p cfg stack selfID vars = do {
     env \<leftarrow> on_engine (State (\<lambda>s. (environ s, s)));
     case loader (sys_runtime (pr_sys p)) env (cs_Name stack) (cs_Content stack) of
       Inl m \<Rightarrow> blocked (''source stack YAML is invalid: '' @ m)
     | Inr parsed \<Rightarrow>
         (case detectTargetImage parsed of
            Inl m \<Rightarrow> blocked m
          | Inr target \<Rightarrow> do {
              c \<leftarrow> on_engine (observe (pr_Client p));
              case c of
                Inl m \<Rightarrow> blocked (''Docker client unavailable: '' @ m @ '' '' @ em_dash @ '' check Swirl has /var/run/docker.sock mounted'')
              | Inr _ \<Rightarrow> do {
                  i \<leftarrow> call_sdk (ContainerInspect selfID) (api_ContainerInspect (sys_sdk (pr_sys p)) selfID);
                  job \<leftarrow> on_engine (observe (\<lambda>w. new_job (pr_sys p) w cfg stack selfID target (detectExposePort parsed) (previous_image i) vars));
                  check_job p selfID parsed job
                }
            })
   }"

definition prepareJob :: "'w primary \<Rightarrow> ('w, sd_error + self_deploy_job) mprog" where
  "prepareJob p =
     (if \<not> pr_Standalone p then blocked ''self-deploy requires standalone mode''
      else do {
        selfID \<leftarrow> on_engine (observe (pr_SelfID p));
        case (case selfID of None \<Rightarrow> [] | Some i \<Rightarrow> i) of
          [] \<Rightarrow> blocked ''cannot identify primary container (set SWIRL_CONTAINER_ID or run inside Docker)''
        | c # cs \<Rightarrow> do {
            r \<leftarrow> LoadConfig p;
            or_fail r (\<lambda>cfg.
              if \<not> sc_Enabled cfg then blocked ''self-deploy is not enabled; enable it in Settings first''
              else if TrimSpace (sc_SourceStackID cfg) = [] then blocked ''no source stack configured; select one in Settings''
              else do {
                f \<leftarrow> call (pr_FindStack p (sc_SourceStackID cfg));
                case f of
                  Inl m \<Rightarrow> blocked (''cannot load source stack '' @ go_quote (sc_SourceStackID cfg) @ '': '' @ m)
                | Inr None \<Rightarrow> blocked (''source stack '' @ go_quote (sc_SourceStackID cfg) @ '' no longer exists '' @ em_dash @
                    '' select a different stack in Settings '' @ [CHR 0xE2, CHR 0x86, CHR 0x92] @ '' Self-deploy'')
                | Inr (Some stack) \<Rightarrow>
                    if TrimSpace (cs_Content stack) = [] then
                      blocked (''source stack '' @ go_quote (cs_Name stack) @ '' has no compose content '' @ em_dash @
                        '' open the stack editor and paste the YAML first'')
                    else do {
                      let vars = parseEnvFile (cs_EnvFile stack);
                      env \<leftarrow> on_engine (State (\<lambda>s. (environ s, s)));
                      _ \<leftarrow> on_engine (change_environ (fold setenv vars));
                      r \<leftarrow> prepare_with_env p cfg stack (c # cs) vars;
                      _ \<leftarrow> on_engine (change_environ (restore_env (saved_env vars env)));
                      State_Monad.return r
                    }
              })
          }
      })"

end
