(* ===== verification/SelfDeployTrigger.thy ===== *)
theory SelfDeployTrigger
  imports SelfDeploy
begin

text \<open>
  The operations of the primary on a running self-deploy, biz/self_deploy.go: the sidekick's container,
  the trigger, the watchdog, the status with the sidekick's logs, and the reset of the lock.

  A goroutine is an operation of its own; the order in which such operations run is left to the
  sequences of operations that a statement speaks about.
\<close>

section \<open>The sidekick's container\<close>

definition selfDeployLabelRole :: string where "selfDeployLabelRole = ''com.swirl.self-deploy''"
definition selfDeployLabelRoleAgent :: string where "selfDeployLabelRoleAgent = ''agent''"
definition selfDeployLabelJob :: string where "selfDeployLabelJob = ''com.swirl.self-deploy.job''"

definition plain_mount :: "string \<Rightarrow> string \<Rightarrow> string \<Rightarrow> mount" where
  "plain_mount t src target =
     \<lparr>m_Type = t, m_Source = src, m_Target = target, m_ReadOnly = False, m_Consistency = [],
      m_BindOptions = None, m_VolumeOptions = None, m_TmpfsOptions = None\<rparr>"

fun find_data_mount :: "mount_point list \<Rightarrow> mount option" where
  "find_data_mount [] = None"
| "find_data_mount (m # ms) =
     (if mp_Destination m \<noteq> ''/data'' then find_data_mount ms
      else if mp_Type m = ''volume'' then Some (plain_mount ''volume'' (mp_Name m) ''/data'')
      else if mp_Type m = ''bind'' then Some (plain_mount ''bind'' (mp_Source m) ''/data'')
      else find_data_mount ms)"

definition resolvePrimaryDataMount :: "'w system \<Rightarrow> string \<Rightarrow> ('w, go_error + mount) mprog" where
  "resolvePrimaryDataMount sys primaryID = do {
     r \<leftarrow> call_sdk (ContainerInspect primaryID) (api_ContainerInspect (sys_sdk sys) primaryID);
     State_Monad.return (case r of
       Inl err \<Rightarrow> Inl (''inspect primary '' @ primaryID @ '': '' @ error_text err)
     | Inr info \<Rightarrow>
         (case find_data_mount (in_Mounts info) of
            Some m \<Rightarrow> Inr m
          | None \<Rightarrow> Inl (''primary container '' @ primaryID @
              '' has no /data mount; self-deploy requires a persistent volume at /data'')))
   }"

text \<open>The configuration of the sidekick.  There is no networking configuration: the endpoint is empty.\<close>

definition sidekick_spec :: "string \<Rightarrow> string \<Rightarrow> string \<Rightarrow> mount \<Rightarrow> container_spec" where
  "sidekick_spec img job_path job_id data =
     \<lparr>k_Hostname = [], k_User = [], k_Env = [''SWIRL_SELF_DEPLOY_JOB='' @ job_path], k_Image = img,
      k_Labels = [(selfDeployLabelRole, selfDeployLabelRoleAgent), (selfDeployLabelJob, job_id)],
      k_ExposedPorts = [], k_WorkingDir = [], k_Tty = False, k_OpenStdin = False, k_Healthcheck = None,
      k_Entrypoint = [], k_Cmd = [''deploy-agent''], k_PortBindings = [],
      k_Mounts = [plain_mount ''bind'' ''/var/run/docker.sock'' ''/var/run/docker.sock'', data],
      k_RestartPolicy = ''no'', k_Privileged = False, k_ReadonlyRootfs = False, k_NetworkMode = ''host'',
      k_CapAdd = [], k_CapDrop = [], k_DNS = [], k_DNSSearch = [], k_LogConfig = ([], []),
      k_Resources = \<lparr>res_NanoCPUs = 0, res_Memory = 0, res_MemoryReservation = 0, res_CPUShares = 0\<rparr>,
      k_Endpoint = ([], [])\<rparr>"

definition create_container :: "'w system \<Rightarrow> string \<Rightarrow> container_spec \<Rightarrow> ('w, sdk_error + string) mprog" where
  "create_container sys name spec = call_sdk (ContainerCreate name spec) (api_ContainerCreate (sys_sdk sys) name spec)"

text \<open>The creation with its retry: an image that is missing is pulled, and the creation tried again.\<close>

definition create_sidekick :: "'w system \<Rightarrow> string \<Rightarrow> string \<Rightarrow> container_spec \<Rightarrow> ('w, go_error + string) mprog" where
  "create_sidekick sys img name spec = do {
     r \<leftarrow> create_container sys name spec;
     case r of
       Inr cid \<Rightarrow> State_Monad.return (Inr cid)
     | Inl err \<Rightarrow>
         if contains (error_text err) ''No such image'' \<or> contains (error_text err) ''not found'' then do {
           pull \<leftarrow> call_sdk (ImagePull img) (api_ImagePull (sys_sdk sys) img);
           case pull of
             Inl perr \<Rightarrow> State_Monad.return (Inl (''self-deploy: pull sidekick image '' @ img @ '': '' @ error_text perr))
           | Inr _ \<Rightarrow> do {
               r \<leftarrow> create_container sys name spec;
               State_Monad.return (map_sum (\<lambda>e. ''self-deploy: create sidekick container: '' @ error_text e) id r)
             }
         }
         else State_Monad.return (Inl (''self-deploy: create sidekick container: '' @ error_text err))
   }"

definition spawnSidekick :: "'w system \<Rightarrow> self_deploy_job \<Rightarrow> string \<Rightarrow> ('w, go_error + unit) mprog" where
  "spawnSidekick sys job job_path = do {
     let img = (if job_PreviousImageTag job = [] then sidekickImageFallback else job_PreviousImageTag job);
     let name = sidekickContainerName (job_ID job);
     m \<leftarrow> resolvePrimaryDataMount sys (job_PrimaryContainer job);
     case m of
       Inl err \<Rightarrow> State_Monad.return (Inl (''self-deploy: resolve primary /data mount: '' @ err))
     | Inr data \<Rightarrow> do {
         c \<leftarrow> create_sidekick sys img name (sidekick_spec img job_path (job_ID job) data);
         or_fail c (\<lambda>cid. do {
           s \<leftarrow> call_sdk (ContainerStart cid) (api_ContainerStart (sys_sdk sys) cid);
           case s of
             Inr _ \<Rightarrow> State_Monad.return (Inr ())
           | Inl err \<Rightarrow> do {
               _ \<leftarrow> call_sdk (ContainerRemove cid True False) (api_ContainerRemove (sys_sdk sys) cid True False);
               State_Monad.return (Inl (''self-deploy: start sidekick container: '' @ error_text err))
             }
         })
       }
   }"

section \<open>Removing old sidekicks\<close>

fun remove_exited :: "'w system \<Rightarrow> container_summary list \<Rightarrow> ('w, unit) mprog" where
  "remove_exited sys [] = State_Monad.return ()"
| "remove_exited sys (c # cs) =
     (if ct_State c = ''running'' then remove_exited sys cs
      else do {
        _ \<leftarrow> call_sdk (ContainerRemove (ct_ID c) True True) (api_ContainerRemove (sys_sdk sys) (ct_ID c) True True);
        remove_exited sys cs
      })"

definition cleanupExitedSidekicks :: "'w primary \<Rightarrow> ('w, unit) mprog" where
  "cleanupExitedSidekicks p = do {
     c \<leftarrow> on_engine (observe (pr_Client p));
     case c of
       Inl _ \<Rightarrow> State_Monad.return ()
     | Inr _ \<Rightarrow> do {
         let labels = [selfDeployLabelRole @ ''='' @ selfDeployLabelRoleAgent];
         l \<leftarrow> call_sdk (ContainerList True labels) (api_ContainerList (sys_sdk (pr_sys p)) True labels);
         case l of
           Inl _ \<Rightarrow> State_Monad.return ()
         | Inr cs \<Rightarrow> remove_exited (pr_sys p) cs
       }
   }"

text \<open>The goroutine that the constructor starts.\<close>

definition bootHook :: "'w primary \<Rightarrow> ('w, unit) mprog" where
  "bootHook p = do {
     c \<leftarrow> on_engine (observe (pr_Client p));
     _ \<leftarrow> reclaimStaleLock (pr_sys p) (is_ok c);
     cleanupExitedSidekicks p
   }"

section \<open>The trigger\<close>

definition clearSourceStackError :: "'w primary \<Rightarrow> string \<Rightarrow> ('w, unit) mprog" where
  "clearSourceStackError p stackID =
     (if stackID = [] then State_Monad.return () else call (\<lambda>w. ((), pr_ClearError p stackID w)))"

definition emit_event :: "'w primary \<Rightarrow> event_action \<Rightarrow> string \<Rightarrow> string \<Rightarrow> ('w, unit) mprog" where
  "emit_event p action job_id tag = call (\<lambda>w. ((), pr_Event p action job_id tag w))"

definition initial_state :: "string \<Rightarrow> int \<Rightarrow> self_deploy_state" where
  "initial_state job_id t =
     \<lparr>sd_JobID = job_id, sd_Phase = SelfDeployPhasePending, sd_StartedAt = t, sd_FinishedAt = 0, sd_Error = [],
      sd_LogTail = [], sd_EventPublished = False\<rparr>"

text \<open>The last part of the trigger: the sidekick is started, or the state becomes a failed one.\<close>

definition launch :: "'w primary \<Rightarrow> self_deploy_job \<Rightarrow> string \<Rightarrow> int \<Rightarrow> ('w, sd_error + self_deploy_job) mprog" where
  "launch p job path t = do {
     _ \<leftarrow> cleanupExitedSidekicks p;
     s \<leftarrow> spawnSidekick (pr_sys p) job path;
     case s of
       Inl err \<Rightarrow> do {
         t' \<leftarrow> time_Now (pr_sys p);
         _ \<leftarrow> writeSelfDeployState (pr_sys p)
           ((initial_state (job_ID job) t)\<lparr>sd_Phase := SelfDeployPhaseFailed, sd_FinishedAt := t', sd_Error := err\<rparr>);
         _ \<leftarrow> emit_event p DeployFailure (job_ID job) (job_TargetImageTag job);
         State_Monad.return (Inl (SdError err))
       }
     | Inr _ \<Rightarrow> do {
         _ \<leftarrow> emit_event p DeployStart (job_ID job) (job_TargetImageTag job);
         State_Monad.return (Inr job)
       }
   }"

text \<open>What the trigger does while it holds the lock.\<close>

definition trigger_locked :: "'w primary \<Rightarrow> self_deploy_job \<Rightarrow> ('w, sd_error + self_deploy_job) mprog" where
  "trigger_locked p job = do {
     r \<leftarrow> writeSelfDeployJob (pr_sys p) job;
     case r of
       Inl e \<Rightarrow> State_Monad.return (Inl (SdError e))
     | Inr path \<Rightarrow> do {
         t \<leftarrow> time_Now (pr_sys p);
         w \<leftarrow> writeSelfDeployState (pr_sys p) (initial_state (job_ID job) t);
         case w of
           Inl e \<Rightarrow> State_Monad.return (Inl (SdError e))
         | Inr _ \<Rightarrow> do {
             c \<leftarrow> on_engine (observe (pr_Client p));
             case c of
               Inl e \<Rightarrow> State_Monad.return (Inl (SdError (''self-deploy: obtain docker client: '' @ e)))
             | Inr _ \<Rightarrow> launch p job path t
           }
       }
   }"

text \<open>From the lock to the end of the trigger; the lock is released on every error.\<close>

definition trigger_job :: "'w primary \<Rightarrow> self_deploy_job \<Rightarrow> ('w, sd_error + self_deploy_job) mprog" where
  "trigger_job p job = do {
     l \<leftarrow> acquireSelfDeployLock (pr_sys p);
     case l of
       Inl LockHeld \<Rightarrow> State_Monad.return (Inl (Blocked ''a self-deploy is already in progress''))
     | Inl (LockFailed e) \<Rightarrow> State_Monad.return (Inl (SdError e))
     | Inr _ \<Rightarrow> do {
         r \<leftarrow> trigger_locked p job;
         case r of
           Inl e \<Rightarrow> do { _ \<leftarrow> releaseSelfDeployLock (pr_sys p); State_Monad.return (Inl e) }
         | Inr j \<Rightarrow> State_Monad.return (Inr j)
       }
   }"

definition reclaim_if_client :: "'w primary \<Rightarrow> ('w, unit) mprog" where
  "reclaim_if_client p = do {
     c \<leftarrow> on_engine (observe (pr_Client p));
     case c of
       Inl _ \<Rightarrow> State_Monad.return ()
     | Inr _ \<Rightarrow> do { _ \<leftarrow> reclaimStaleLock (pr_sys p) True; State_Monad.return () }
   }"

definition TriggerDeploy :: "'w primary \<Rightarrow> string option \<Rightarrow> ('w, sd_error + self_deploy_job) mprog" where
  "TriggerDeploy p user = do {
     r \<leftarrow> prepareJob p;
     or_fail r (\<lambda>job. do {
       let job = (case user of None \<Rightarrow> job | Some name \<Rightarrow> job\<lparr>job_CreatedBy := name\<rparr>);
       _ \<leftarrow> reclaim_if_client p;
       _ \<leftarrow> clearSourceStackError p (job_SourceStackID job);
       trigger_job p job
     })
   }"

section \<open>The watchdog\<close>

definition inspect_sidekick :: "'w primary \<Rightarrow> string \<Rightarrow> ('w, (sdk_error + container_info) option) mprog" where
  "inspect_sidekick p name = do {
     c \<leftarrow> on_engine (observe (pr_Client p));
     case c of
       Inl _ \<Rightarrow> State_Monad.return None
     | Inr _ \<Rightarrow> do {
         i \<leftarrow> call_sdk (ContainerInspect name) (api_ContainerInspect (sys_sdk (pr_sys p)) name);
         State_Monad.return (Some i)
       }
   }"

definition sidekick_alive :: "(sdk_error + container_info) option \<Rightarrow> bool" where
  "sidekick_alive i = (case i of None \<Rightarrow> False | Some r \<Rightarrow> sidekick_running r)"

definition sidekickBootTimeout :: int where "sidekickBootTimeout = 90 * 1000000000"

definition watchSidekickBoot :: "'w primary \<Rightarrow> string \<Rightarrow> int \<Rightarrow> ('w, unit) mprog" where
  "watchSidekickBoot p jobID startedAt = do {
     let sys = pr_sys p;
     _ \<leftarrow> on_engine (wait (sleep_for (sys_sdk sys) sidekickBootTimeout));
     r \<leftarrow> readSelfDeployState sys;
     case r of
       Inl _ \<Rightarrow> State_Monad.return ()
     | Inr None \<Rightarrow> State_Monad.return ()
     | Inr (Some st) \<Rightarrow>
         if sd_JobID st \<noteq> jobID \<or> sd_Phase st \<noteq> SelfDeployPhasePending then State_Monad.return ()
         else do {
           i \<leftarrow> inspect_sidekick p (sidekickContainerName jobID);
           if sidekick_alive i then State_Monad.return ()
           else do {
             t \<leftarrow> time_Now sys;
             let msg = ''sidekick did not report status within 1m30s '' @ em_dash @ '' check container logs of '' @ sidekickContainerName jobID;
             _ \<leftarrow> writeSelfDeployState sys
               \<lparr>sd_JobID = jobID, sd_Phase = SelfDeployPhaseFailed, sd_StartedAt = startedAt, sd_FinishedAt = t,
                sd_Error = ''self-deploy: '' @ msg, sd_LogTail = appendLogLine (sd_LogTail st) (sys_time sys t @ '' '' @ msg),
                sd_EventPublished = False\<rparr>;
             _ \<leftarrow> os_Remove sys lockPath;
             State_Monad.return ()
           }
         }
   }"

section \<open>The logs of the sidekick\<close>

definition be32 :: "string \<Rightarrow> nat" where
  "be32 bs = foldl (\<lambda>n b. n * 256 + of_char b) 0 bs"

text \<open>The frames of the daemon's log stream: a header of eight bytes, the last four of which are the
  length of the payload.  A frame of more than 1 MiB is skipped, and a truncated one dropped.\<close>

function demux :: "string \<Rightarrow> string" where
  "demux bs =
     (if length bs < 8 then []
      else let size = be32 (take 4 (drop 4 bs)); rest = drop 8 bs in
        if size = 0 then demux rest
        else if size > 2 ^ 20 then demux (drop size rest)
        else if length rest < size then []
        else take size rest @ demux (drop size rest))"
  by pat_completeness auto
termination by (relation "measure length") auto

declare demux.simps [simp del]

definition fetchSidekickLogs :: "'w system \<Rightarrow> string \<Rightarrow> ('w, string) mprog" where
  "fetchSidekickLogs sys name = do {
     r \<leftarrow> call_sdk (ContainerLogs name 200) (api_ContainerLogs (sys_sdk sys) name 200);
     State_Monad.return (case r of Inl _ \<Rightarrow> [] | Inr chunks \<Rightarrow> demux (concat chunks))
   }"

section \<open>Status and reset\<close>

definition terminal_action :: "string \<Rightarrow> event_action option" where
  "terminal_action phase =
     (if phase = SelfDeployPhaseSuccess then Some DeploySuccess
      else if phase \<in> {SelfDeployPhaseFailed, SelfDeployPhaseRecovery, SelfDeployPhaseRolledBack} then Some DeployFailure
      else None)"

definition publishTerminalEvent :: "'w primary \<Rightarrow> self_deploy_state \<Rightarrow> ('w, unit) mprog" where
  "publishTerminalEvent p st =
     (if sd_EventPublished st then State_Monad.return ()
      else case terminal_action (sd_Phase st) of
        None \<Rightarrow> State_Monad.return ()
      | Some action \<Rightarrow> do {
          j \<leftarrow> readSelfDeployJob (pr_sys p);
          _ \<leftarrow> emit_event p action (sd_JobID st) (case j of Inr (Some job) \<Rightarrow> job_TargetImageTag job | _ \<Rightarrow> []);
          _ \<leftarrow> writeSelfDeployState (pr_sys p) (st\<lparr>sd_EventPublished := True\<rparr>);
          State_Monad.return ()
        })"

record self_deploy_status =
  ss_Phase :: string
  ss_JobID :: string
  ss_Error :: string
  ss_LogTail :: "string list"
  ss_SidekickContainer :: string
  ss_SidekickAlive :: bool
  ss_SidekickLogs :: string
  ss_CanReset :: bool

definition base_status :: "string \<Rightarrow> self_deploy_status" where
  "base_status phase = \<lparr>ss_Phase = phase, ss_JobID = [], ss_Error = [], ss_LogTail = [], ss_SidekickContainer = [],
     ss_SidekickAlive = False, ss_SidekickLogs = [], ss_CanReset = False\<rparr>"

definition Status :: "'w primary \<Rightarrow> ('w, go_error + self_deploy_status) mprog" where
  "Status p = do {
     r \<leftarrow> readSelfDeployState (pr_sys p);
     case r of
       Inl e \<Rightarrow> State_Monad.return (Inl e)
     | Inr None \<Rightarrow> State_Monad.return (Inr (base_status ''idle''))
     | Inr (Some st) \<Rightarrow> do {
         _ \<leftarrow> publishTerminalEvent p st;
         let out = (base_status (sd_Phase st))\<lparr>ss_JobID := sd_JobID st, ss_Error := sd_Error st, ss_LogTail := sd_LogTail st\<rparr>;
         if sd_JobID st = [] then State_Monad.return (Inr out)
         else do {
           let name = sidekickContainerName (sd_JobID st);
           i \<leftarrow> inspect_sidekick p name;
           logs \<leftarrow> (case i of
             Some (Inr _) \<Rightarrow> fetchSidekickLogs (pr_sys p) name
           | _ \<Rightarrow> State_Monad.return []);
           State_Monad.return (Inr (out\<lparr>ss_SidekickContainer := name, ss_SidekickAlive := sidekick_alive i,
             ss_SidekickLogs := logs, ss_CanReset := \<not> sidekick_alive i \<and> isInProgressPhase (sd_Phase st)\<rparr>))
         }
       }
   }"

text \<open>Whether the sidekick of the job on disk is running.\<close>

definition job_sidekick_runs :: "'w primary \<Rightarrow> bool \<Rightarrow> ('w, bool) mprog" where
  "job_sidekick_runs p has_client =
     (if \<not> has_client then State_Monad.return False
      else do {
        j \<leftarrow> readSelfDeployJob (pr_sys p);
        case j of
          Inr (Some job) \<Rightarrow>
            if job_ID job = [] then State_Monad.return False
            else do {
              i \<leftarrow> call_sdk (ContainerInspect (sidekickContainerName (job_ID job)))
                (api_ContainerInspect (sys_sdk (pr_sys p)) (sidekickContainerName (job_ID job)));
              State_Monad.return (sidekick_running i)
            }
        | _ \<Rightarrow> State_Monad.return False
      })"

definition ResetLock :: "'w primary \<Rightarrow> ('w, sd_error + bool) mprog" where
  "ResetLock p = do {
     c \<leftarrow> on_engine (observe (pr_Client p));
     running \<leftarrow> job_sidekick_runs p (is_ok c);
     if running then blocked (''sidekick is still running '' @ em_dash @ '' wait for it or docker rm -f the container first'')
     else do {
       r \<leftarrow> reclaimStaleLock (pr_sys p) (is_ok c);
       case r of
         Inl e \<Rightarrow> State_Monad.return (Inl (SdError e))
       | Inr reclaimed \<Rightarrow> do {
           j \<leftarrow> readSelfDeployJob (pr_sys p);
           _ \<leftarrow> emit_event p DeployReset (case j of Inr (Some job) \<Rightarrow> job_ID job | _ \<Rightarrow> []) [];
           State_Monad.return (Inr reclaimed)
         }
     }
   }"

end
