(* ===== verification/DeployTheorems.thy ===== *)
theory DeployTheorems
  imports StandaloneDeploy
begin

text \<open>
  What a deployment of the standalone engine does and does not do, as statements about the
  calls it makes, in order: the checks come before any change, the containers are created in
  dependency order, preserved containers and volumes are left alone, the environment is cleaned.
  Then the two polling loops, and the configuration that a container is created with.
\<close>

section \<open>Checks come first\<close>

lemma runs_for_each:
  assumes "\<And>x. x \<in> set xs \<Longrightarrow> runs (f x) (\<lambda>r new. (\<forall>(q, ok) \<in> set new. P q) \<and> (is_ok r \<longrightarrow> Q x (set new)))"
    and "\<And>x A B. Q x A \<Longrightarrow> A \<subseteq> B \<Longrightarrow> Q x B"
  shows "runs (for_each f xs) (\<lambda>r new. (\<forall>(q, ok) \<in> set new. P q) \<and> (is_ok r \<longrightarrow> (\<forall>x \<in> set xs. Q x (set new))))"
  using assms(1)
proof (induction xs)
  case Nil
  show ?case by (simp add: runs_return)
next
  case (Cons x xs)
  have x: "runs (f x) (\<lambda>r new. (\<forall>(q, ok) \<in> set new. P q) \<and> (is_ok r \<longrightarrow> Q x (set new)))"
    using Cons.prems by simp
  have xs: "runs (for_each f xs) (\<lambda>r new. (\<forall>(q, ok) \<in> set new. P q) \<and> (is_ok r \<longrightarrow> (\<forall>x \<in> set xs. Q x (set new))))"
    using Cons by simp
  show ?case
    unfolding for_each.simps
  proof (rule runs_bind [OF x], rule runs_or_fail, goal_cases)
    case (2 r new u)
    then show ?case by (intro runs_mono [OF xs]) (auto intro: assms(2))
  qed auto
qed

definition networks_checked :: "(string \<times> network_config) list \<Rightarrow> (request \<times> bool) set \<Rightarrow> bool" where
  "networks_checked nets calls \<longleftrightarrow>
     (\<forall>(k, n) \<in> set nets. nw_External n \<longrightarrow> (NetworkInspect (external_name k (nw_Name n)), True) \<in> calls)"

definition volumes_checked :: "(string \<times> volume_config) list \<Rightarrow> (request \<times> bool) set \<Rightarrow> bool" where
  "volumes_checked vols calls \<longleftrightarrow>
     (\<forall>(k, v) \<in> set vols. vol_External v \<longrightarrow> (VolumeInspect (external_name k (vol_Name v)), True) \<in> calls)"

definition images_pulled :: "service_config list \<Rightarrow> (request \<times> bool) set \<Rightarrow> bool" where
  "images_pulled svcs calls \<longleftrightarrow> (\<forall>svc \<in> set svcs. s_Image svc \<noteq> [] \<longrightarrow> (ImagePull (s_Image svc), True) \<in> calls)"

lemma preflight_networks_runs:
  "runs (preflightExternalNetworks e nets)
     (\<lambda>r new. (\<forall>(q, ok) \<in> set new. \<not> mutating q) \<and> (is_ok r \<longrightarrow> networks_checked nets (set new)))"
proof -
  have "runs (preflightExternalNetworks e nets)
     (\<lambda>r new. (\<forall>(q, ok) \<in> set new. \<not> mutating q) \<and> (is_ok r \<longrightarrow> (\<forall>x \<in> set nets.
        nw_External (snd x) \<longrightarrow> (NetworkInspect (external_name (fst x) (nw_Name (snd x))), True) \<in> set new)))"
    unfolding preflightExternalNetworks_def
    by (rule runs_for_each) (auto simp: Let_def split: sum.splits if_splits intro!: runs_return runs_call)
  then show ?thesis by (rule runs_mono) (auto simp: networks_checked_def)
qed

lemma preflight_volumes_runs:
  "runs (preflightExternalVolumes e vols)
     (\<lambda>r new. (\<forall>(q, ok) \<in> set new. \<not> mutating q) \<and> (is_ok r \<longrightarrow> volumes_checked vols (set new)))"
proof -
  have "runs (preflightExternalVolumes e vols)
     (\<lambda>r new. (\<forall>(q, ok) \<in> set new. \<not> mutating q) \<and> (is_ok r \<longrightarrow> (\<forall>x \<in> set vols.
        vol_External (snd x) \<longrightarrow> (VolumeInspect (external_name (fst x) (vol_Name (snd x))), True) \<in> set new)))"
    unfolding preflightExternalVolumes_def
    by (rule runs_for_each) (auto simp: Let_def split: sum.splits if_splits intro!: runs_return runs_call)
  then show ?thesis by (rule runs_mono) (auto simp: volumes_checked_def)
qed

lemma pull_all_runs:
  "runs (pull_all e svcs errs)
     (\<lambda>errs' new. (\<forall>(q, ok) \<in> set new. \<not> mutating q) \<and> length errs \<le> length errs' \<and>
        (length errs' = length errs \<longrightarrow> images_pulled svcs (set new)))"
proof (induction svcs arbitrary: errs)
  case Nil
  show ?case by (simp add: runs_return images_pulled_def)
next
  case (Cons svc svcs)
  show ?case
  proof (cases "s_Image svc = []")
    case True
    then show ?thesis using Cons [of errs] by (simp add: images_pulled_def)
  next
    case False
    have "runs (docker (ImagePull (s_Image svc)) (api_ImagePull e (s_Image svc)))
      (\<lambda>r new. new = [(ImagePull (s_Image svc), is_ok r)])"
      by (rule runs_docker) simp
    then show ?thesis
      unfolding pull_all.simps if_not_P [OF False]
    proof (rule runs_bind, goal_cases)
      case (1 r new)
      show ?case
      proof (cases r)
        case (Inl err)
        with 1 show ?thesis
          using Cons [of "errs @ [s_Name svc @ '' ('' @ s_Image svc @ ''): '' @ error_text err]"]
          by (auto elim!: runs_mono)
      next
        case (Inr u)
        with 1 show ?thesis
          using Cons [of errs] by (auto elim!: runs_mono simp: images_pulled_def)
      qed
    qed
  qed
qed

lemma pull_images_runs:
  "runs (pull_images e pull svcs)
     (\<lambda>r new. (\<forall>(q, ok) \<in> set new. \<not> mutating q) \<and> (is_ok r \<longrightarrow> pull \<longrightarrow> images_pulled svcs (set new)))"
  unfolding pull_images_def
  by (auto intro!: runs_return runs_bind [OF pull_all_runs])

definition all_checked :: "compose_config \<Rightarrow> bool \<Rightarrow> (request \<times> bool) set \<Rightarrow> bool" where
  "all_checked cfg pull calls \<longleftrightarrow>
     networks_checked (c_Networks cfg) calls \<and> volumes_checked (c_Volumes cfg) calls \<and>
     (pull \<longrightarrow> images_pulled (c_Services cfg) calls)"

lemma checked_mono:
  "networks_checked nets A \<Longrightarrow> A \<subseteq> B \<Longrightarrow> networks_checked nets B"
  "volumes_checked vols A \<Longrightarrow> A \<subseteq> B \<Longrightarrow> volumes_checked vols B"
  "images_pulled svcs A \<Longrightarrow> A \<subseteq> B \<Longrightarrow> images_pulled svcs B"
  by (fastforce simp: networks_checked_def volumes_checked_def images_pulled_def)+

lemma deploy_preflight_runs:
  "runs (deploy_preflight e cfg pull)
     (\<lambda>r new. (\<forall>(q, ok) \<in> set new. \<not> mutating q) \<and> (is_ok r \<longrightarrow> all_checked cfg pull (set new)))"
  unfolding deploy_preflight_def
proof (rule runs_bind [OF preflight_networks_runs], rule runs_or_fail, goal_cases)
  case (2 r new u)
  then show ?case
    apply (intro runs_bind [OF preflight_volumes_runs] runs_or_fail)
     apply auto[1]
    apply (rule runs_mono [OF pull_images_runs])
    apply (auto simp: all_checked_def intro: checked_mono)
    done
qed auto

lemma trace_change_environ [simp]:
  "run_state (change_environ f) s = ((), s\<lparr>environ := f (environ s)\<rparr>)"
  by (simp add: change_environ_def)

lemma runs_trivial:
  assumes "runs m R"
  shows "\<exists>new. trace (snd (run_state m s)) = trace s @ new \<and> R (fst (run_state m s)) new"
  using assms unfolding runs_def by blast

lemma runs_environ: "runs m R \<Longrightarrow> run_state m s = (x, s') \<Longrightarrow> environ s' = environ s"
  unfolding runs_def by (metis snd_conv)

text \<open>A deployment, on the environment where it has set its variables.\<close>

lemma deploy_run:
  assumes "run_state (DeployWithResult fuel e rt project content opts hook) s = (res, s')"
  shows "\<exists>s2. run_state (case loader rt (fold setenv (EnvVars opts) (environ s)) project content of
       Inl m \<Rightarrow> State_Monad.return ([], Inl (Err (''parse compose: '' @ m)))
     | Inr cfg \<Rightarrow> deploy_parsed fuel e rt project cfg opts hook) (s\<lparr>environ := fold setenv (EnvVars opts) (environ s)\<rparr>) = (res, s2) \<and>
     s' = s2\<lparr>environ := fold (\<lambda>(k, _) env. env(k := None)) (EnvVars opts) (environ s2)\<rparr>"
  using assms by (auto simp: DeployWithResult_def split: prod.splits)

lemma deploy_trace:
  assumes "run_state (DeployWithResult fuel e rt project content opts hook) s = (res, s')"
    and "loader rt (fold setenv (EnvVars opts) (environ s)) project content = Inr cfg"
    and "runs (deploy_parsed fuel e rt project cfg opts hook) R"
  shows "\<exists>new. trace s' = trace s @ new \<and> R res new"
proof -
  from deploy_run [OF assms(1)] assms(2) obtain s2 where
    "run_state (deploy_parsed fuel e rt project cfg opts hook) (s\<lparr>environ := fold setenv (EnvVars opts) (environ s)\<rparr>) = (res, s2)"
    "trace s' = trace s2" by auto
  with runs_trivial [OF assms(3), of "s\<lparr>environ := fold setenv (EnvVars opts) (environ s)\<rparr>"] show ?thesis by simp
qed

definition checked_then :: "compose_config \<Rightarrow> bool \<Rightarrow> (request \<times> bool) list \<Rightarrow> bool" where
  "checked_then cfg pull new \<longleftrightarrow>
     (\<exists>pre post. new = pre @ post \<and> (\<forall>(q, ok) \<in> set pre. \<not> mutating q) \<and>
        (post \<noteq> [] \<longrightarrow> validateServices cfg = Inr () \<and> all_checked cfg pull (set pre)))"

lemma deploy_parsed_runs:
  assumes apply_runs: "runs (deploy_apply fuel e rt project cfg (PreserveContainerNames opts) hook) A"
    and invalid: "\<And>m. validateServices cfg = Inl m \<Longrightarrow> R ([], Inl (Err m)) []"
    and failed: "\<And>m pre. validateServices cfg = Inr () \<Longrightarrow> (\<forall>(q, ok) \<in> set pre. \<not> mutating q) \<Longrightarrow>
      R (collectIgnoredFieldWarnings cfg, Inl m) pre"
    and applied: "\<And>r pre post. validateServices cfg = Inr () \<Longrightarrow> (\<forall>(q, ok) \<in> set pre. \<not> mutating q) \<Longrightarrow>
      all_checked cfg (PullImages opts) (set pre) \<Longrightarrow> A r post \<Longrightarrow> R (collectIgnoredFieldWarnings cfg, r) (pre @ post)"
  shows "runs (deploy_parsed fuel e rt project cfg opts hook) R"
proof (cases "validateServices cfg")
  case (Inl m)
  then show ?thesis using invalid by (simp add: deploy_parsed_def runs_return)
next
  case (Inr u)
  then have valid: "validateServices cfg = Inr ()" by simp
  show ?thesis
    unfolding deploy_parsed_def valid sum.case Let_def
  proof (rule runs_bind [OF deploy_preflight_runs], goal_cases)
    case (1 r pre)
    show ?case
    proof (cases r)
      case (Inl m)
      with 1 failed [OF valid] show ?thesis by (auto intro!: runs_return)
    next
      case Inr
      with 1 applied [OF valid] show ?thesis
        by (auto intro!: runs_bind [OF apply_runs] runs_return)
    qed
  qed
qed

section \<open>What is never called\<close>

text \<open>The calls of a deployment after the old containers are gone.\<close>

fun constructive :: "request \<Rightarrow> bool" where
  "constructive (ContainerStop _) = False"
| "constructive (ContainerRemove _ _ _) = False"
| "constructive (ContainerRename _ _) = False"
| "constructive (NetworkRemove _) = False"
| "constructive (VolumeRemove _ _) = False"
| "constructive (HookAfterRemove _) = False"
| "constructive _ = True"

lemma of_sdk_Inr_iff [simp]: "of_sdk r = Inr x \<longleftrightarrow> r = Inr x"
  by (cases r) (auto simp: of_sdk_def)

named_theorems emit_rules

lemmas [emit_rules] = emits_return emits_observe emits_wait emits_bind emits_or_fail emits_for_each

lemma emits_docker_rule [emit_rules]: "P q \<Longrightarrow> emits P (docker q f)"
  by (rule emits_docker)

lemma emits_sum [emit_rules]:
  "(\<And>a. x = Inl a \<Longrightarrow> emits P (f a)) \<Longrightarrow> (\<And>b. x = Inr b \<Longrightarrow> emits P (g b)) \<Longrightarrow> emits P (case x of Inl a \<Rightarrow> f a | Inr b \<Rightarrow> g b)"
  by (simp split: sum.split)

lemma emits_option [emit_rules]:
  "(x = None \<Longrightarrow> emits P f) \<Longrightarrow> (\<And>b. x = Some b \<Longrightarrow> emits P (g b)) \<Longrightarrow> emits P (case x of None \<Rightarrow> f | Some b \<Rightarrow> g b)"
  by (simp split: option.split)

lemma emits_list [emit_rules]:
  "emits P f \<Longrightarrow> (\<And>y ys. x = y # ys \<Longrightarrow> emits P (g y ys)) \<Longrightarrow> emits P (case x of [] \<Rightarrow> f | y # ys \<Rightarrow> g y ys)"
  by (simp split: list.split)

lemma emits_prod [emit_rules]:
  "(\<And>a b. x = (a, b) \<Longrightarrow> emits P (f a b)) \<Longrightarrow> emits P (case x of (a, b) \<Rightarrow> f a b)"
  by (simp split: prod.split)

lemma emits_if [emit_rules]:
  "(b \<Longrightarrow> emits P f) \<Longrightarrow> (\<not> b \<Longrightarrow> emits P g) \<Longrightarrow> emits P (if b then f else g)"
  by simp

lemma emits_let [emit_rules]: "emits P (f x) \<Longrightarrow> emits P (let y = x in f y)"
  by simp

lemma emits_verdict [emit_rules]:
  "emits P a \<Longrightarrow> (\<And>m. v = Failed m \<Longrightarrow> emits P (b m)) \<Longrightarrow> emits P c \<Longrightarrow>
   emits P (case v of Met \<Rightarrow> a | Failed m \<Rightarrow> b m | NotYet \<Rightarrow> c)"
  by (simp split: verdict.split)

lemma emits_for_all [emit_rules]: "(\<And>x. x \<in> set xs \<Longrightarrow> emits P (f x)) \<Longrightarrow> emits P (for_all f xs)"
  by (induction xs) (auto intro!: emits_bind)

lemma emits_pause [emit_rules]: "emits P (pause e d)"
  unfolding pause_def by (intro emit_rules)

lemma emits_containerLogTail [emit_rules]: "(\<And>n. P (ContainerLogs i n)) \<Longrightarrow> emits P (containerLogTail e rt i n)"
  unfolding containerLogTail_def by (intro emit_rules)

lemma emits_crashError [emit_rules]: "(\<And>n. P (ContainerLogs i n)) \<Longrightarrow> emits P (crashError e rt i svc code extra)"
  unfolding crashError_def by (intro emit_rules)

lemma emits_verify_loop [emit_rules]:
  "P (ContainerInspect i) \<Longrightarrow> (\<And>n. P (ContainerLogs i n)) \<Longrightarrow> emits P (verify_loop fuel e rt i svc deadline)"
  by (induction fuel) (simp_all, (intro emit_rules; simp)+)

lemma emits_verifyRunning [emit_rules]:
  "P (ContainerInspect i) \<Longrightarrow> (\<And>n. P (ContainerLogs i n)) \<Longrightarrow> emits P (verifyRunning fuel e rt i svc)"
  unfolding verifyRunning_def by (intro emit_rules)

lemma emits_poll_dependency [emit_rules]:
  "(\<And>i. P (ContainerInspect i)) \<Longrightarrow> (\<And>a fs. P (ContainerList a fs)) \<Longrightarrow> emits P (poll_dependency e project service cond)"
  unfolding poll_dependency_def inspect_dependency_def by (intro emit_rules)

lemma emits_wait_loop [emit_rules]:
  "(\<And>i. P (ContainerInspect i)) \<Longrightarrow> (\<And>a fs. P (ContainerList a fs)) \<Longrightarrow> emits P (wait_loop fuel e project svc cond budget deadline)"
  by (induction fuel) (simp_all, (intro emit_rules; simp)+)

lemma emits_waitForDependency [emit_rules]:
  "(\<And>i. P (ContainerInspect i)) \<Longrightarrow> (\<And>a fs. P (ContainerList a fs)) \<Longrightarrow> emits P (waitForDependency fuel e project dep)"
  unfolding waitForDependency_def by (intro emit_rules; simp)

lemma emits_hooks [emit_rules]:
  "P (HookApplyToService project service) \<Longrightarrow> emits P (hook_apply hook project service env mounts)"
  "P (HookAfterCreate project service i) \<Longrightarrow> emits P (hook_after_create hook project service i)"
  "P (HookBeforeDeploy project) \<Longrightarrow> emits P (hook_before hook project)"
  "P (HookAfterRemove project) \<Longrightarrow> emits P (hook_after_remove h project)"
  unfolding hook_apply_def hook_after_create_def hook_before_def hook_after_remove_def
  by (intro emit_rules; simp)+

lemma emits_connect_networks [emit_rules]:
  "(\<And>n as. P (NetworkConnect n i as)) \<Longrightarrow> emits P (connect_networks e project cfg svc i)"
  unfolding connect_networks_def by (intro emit_rules)

lemma emits_createAndStart [emit_rules]:
  assumes "\<And>n k. P (ContainerCreate n k)" "\<And>n i as. P (NetworkConnect n i as)" "\<And>i. P (ContainerStart i)"
    "\<And>i. P (ContainerInspect i)" "\<And>i n. P (ContainerLogs i n)"
    "\<And>p s. P (HookApplyToService p s)" "\<And>p s i. P (HookAfterCreate p s i)"
  shows "emits P (createAndStart fuel e rt project cfg svc hook)"
  unfolding createAndStart_def by (intro emit_rules assms)

lemma emits_ensureNetworks [emit_rules]:
  "(\<And>fs. P (NetworkList fs)) \<Longrightarrow> (\<And>n d ls. P (NetworkCreate n d ls)) \<Longrightarrow> emits P (ensureNetworks e project nets)"
  unfolding ensureNetworks_def Let_def by (intro emit_rules)

lemma emits_ensureVolumes [emit_rules]:
  "(\<And>n. P (VolumeInspect n)) \<Longrightarrow> (\<And>n d ls. P (VolumeCreate n d ls)) \<Longrightarrow> emits P (ensureVolumes e project vols)"
  unfolding ensureVolumes_def Let_def by (intro emit_rules)

lemma emits_deploy_service [emit_rules]:
  assumes "\<And>n k. P (ContainerCreate n k)" "\<And>n i as. P (NetworkConnect n i as)" "\<And>i. P (ContainerStart i)"
    "\<And>i. P (ContainerInspect i)" "\<And>i n. P (ContainerLogs i n)" "\<And>a fs. P (ContainerList a fs)"
    "\<And>p s. P (HookApplyToService p s)" "\<And>p s i. P (HookAfterCreate p s i)"
  shows "emits P (deploy_service fuel e rt project cfg hook n)"
  unfolding deploy_service_def Let_def by (intro emit_rules assms)

lemma emits_removeProjectContainers:
  assumes "P (ContainerList True [LabelProject @ ''='' @ project])"
    and "\<And>w cs w' c. api_ContainerList e True [LabelProject @ ''='' @ project] w = (Inr cs, w') \<Longrightarrow> c \<in> set cs \<Longrightarrow>
      \<not> preserved names c \<Longrightarrow> P (ContainerStop (ct_ID c)) \<and> P (ContainerRemove (ct_ID c) True True)"
  shows "emits P (removeProjectContainers e project ignoreErrors names)"
proof -
  have "runs (listProjectContainers e project True)
    (\<lambda>r new. (\<forall>(q, ok) \<in> set new. P q) \<and> (\<forall>cs. r = Inr cs \<longrightarrow> (\<exists>w w'. api_ContainerList e True [LabelProject @ ''='' @ project] w = (Inr cs, w'))))"
    using assms(1)
    by (auto simp: runs_def listProjectContainers_def docker_def of_sdk_Inr_iff split: prod.splits)
  then show ?thesis
    unfolding emits_def removeProjectContainers_def
  proof (rule runs_bind, goal_cases)
    case (1 r new)
    show ?case
    proof (cases r)
      case (Inr cs)
      have "emits P (for_each (remove_container e ignoreErrors names) cs)"
        using 1 Inr assms(2) unfolding remove_container_def by (intro emit_rules) blast+
      with 1 Inr show ?thesis by (auto simp: emits_def elim!: runs_mono)
    qed (use 1 in \<open>auto intro!: runs_return\<close>)
  qed
qed

lemma emits_deploy_apply:
  assumes "emits P (removeProjectContainers e project False preserve)" "\<And>q. constructive q \<Longrightarrow> P q"
  shows "emits P (deploy_apply fuel e rt project cfg preserve hook)"
  unfolding deploy_apply_def by (intro emit_rules assms(1); intro emit_rules assms(2); simp)

lemma deploy_apply_appends: "runs (deploy_apply fuel e rt project cfg preserve hook) (\<lambda>_ _. True)"
proof -
  have "emits (\<lambda>_. True) (deploy_apply fuel e rt project cfg preserve hook)"
    by (intro emits_deploy_apply emits_removeProjectContainers) auto
  then show ?thesis by (simp add: emits_def)
qed

text \<open>C25: Nothing of a running stack is touched before the new definition is known to be
  deployable: the calls of a deployment split into a first part that changes nothing, and a
  second part that is empty unless the file parsed under the environment of the stack, every
  service passed the validation, and the first part holds a successful inspection of every external
  network and volume and, when images are to be pulled, a successful pull of every image.\<close>

theorem Deploy_checks_first:
  assumes "run_state (DeployWithResult fuel e rt project content opts hook) s = (res, s')"
  shows "\<exists>pre post. trace s' = trace s @ pre @ post \<and> (\<forall>(q, ok) \<in> set pre. \<not> mutating q) \<and>
    (post \<noteq> [] \<longrightarrow> (\<exists>cfg. loader rt (fold setenv (EnvVars opts) (environ s)) project content = Inr cfg \<and>
       validateServices cfg = Inr () \<and> all_checked cfg (PullImages opts) (set pre)))"
proof (cases "loader rt (fold setenv (EnvVars opts) (environ s)) project content")
  case (Inl m)
  with deploy_run [OF assms] show ?thesis by auto
next
  case (Inr cfg)
  have "runs (deploy_parsed fuel e rt project cfg opts hook) (\<lambda>_. checked_then cfg (PullImages opts))"
    by (rule deploy_parsed_runs [OF deploy_apply_appends]) (auto simp: checked_then_def intro: exI [of _ "[]"])
  from deploy_trace [OF assms Inr this] Inr show ?thesis
    by (auto simp: checked_then_def)
qed

section \<open>Preserved containers and volumes\<close>

text \<open>The daemon lists the container of this id only under a preserved name.\<close>

definition always_preserved :: "'w sdk \<Rightarrow> string \<Rightarrow> string list \<Rightarrow> string \<Rightarrow> bool" where
  "always_preserved e project names i \<longleftrightarrow>
     (\<forall>w cs w'. api_ContainerList e True [LabelProject @ ''='' @ project] w = (Inr cs, w') \<longrightarrow>
        (\<forall>c \<in> set cs. ct_ID c = i \<longrightarrow> preserved names c))"

fun hits_container :: "string \<Rightarrow> request \<Rightarrow> bool" where
  "hits_container i (ContainerStop j) = (j = i)"
| "hits_container i (ContainerRemove j _ _) = (j = i)"
| "hits_container i (ContainerRename j _) = (j = i)"
| "hits_container _ _ = False"

lemma removeProjectContainers_preserves:
  assumes "always_preserved e project names i"
  shows "emits (\<lambda>q. \<not> hits_container i q) (removeProjectContainers e project ignoreErrors names)"
  using assms by (intro emits_removeProjectContainers) (auto simp: always_preserved_def)

lemma emits_deploy_parsed:
  assumes "emits P (deploy_apply fuel e rt project cfg (PreserveContainerNames opts) hook)" "\<And>q. \<not> mutating q \<Longrightarrow> P q"
  shows "emits P (deploy_parsed fuel e rt project cfg opts hook)"
  unfolding emits_def
  by (rule deploy_parsed_runs [OF assms(1) [unfolded emits_def]]) (use assms(2) in fastforce)+

lemma deploy_emits:
  assumes "run_state (DeployWithResult fuel e rt project content opts hook) s = (res, s')"
    and "\<And>cfg. emits P (deploy_parsed fuel e rt project cfg opts hook)"
  shows "\<exists>new. trace s' = trace s @ new \<and> (\<forall>(q, ok) \<in> set new. P q)"
proof (cases "loader rt (fold setenv (EnvVars opts) (environ s)) project content")
  case (Inl m)
  with deploy_run [OF assms(1)] show ?thesis by auto
next
  case (Inr cfg)
  from deploy_trace [OF assms(1) Inr assms(2) [unfolded emits_def]] show ?thesis .
qed

text \<open>C28: A deployment never stops, removes or renames a container that the caller asked to
  preserve by name, in any of its branches: the backup of a self-deploy survives a failing
  deployment.\<close>

theorem Deploy_preserves:
  assumes "run_state (DeployWithResult fuel e rt project content opts hook) s = (res, s')"
    and "always_preserved e project (PreserveContainerNames opts) i"
  shows "\<exists>new. trace s' = trace s @ new \<and> (\<forall>(q, ok) \<in> set new. \<not> hits_container i q)"
proof (rule deploy_emits [OF assms(1)], rule emits_deploy_parsed, rule emits_deploy_apply)
  show "emits (\<lambda>q. \<not> hits_container i q) (removeProjectContainers e project False (PreserveContainerNames opts))"
    using assms(2) by (rule removeProjectContainers_preserves)
next
  show "\<not> hits_container i q" if "constructive q" for q using that by (cases q) auto
next
  show "\<not> hits_container i q" if "\<not> mutating q" for q using that by (cases q) auto
qed

text \<open>The volume is never listed with both labels, of the project and of the application.\<close>

definition foreign_volume :: "'w sdk \<Rightarrow> string \<Rightarrow> string \<Rightarrow> bool" where
  "foreign_volume e project v \<longleftrightarrow>
     (\<forall>w vs w'. api_VolumeList e [LabelProject @ ''='' @ project, LabelManaged @ ''=true''] w = (Inr vs, w') \<longrightarrow>
        v \<notin> vu_Name ` set vs)"

text \<open>Named volumes are removed by calls of their own; anonymous ones go with their container, when the
  second flag of its removal is set.\<close>

fun removes_volume :: "string \<Rightarrow> request \<Rightarrow> bool" where
  "removes_volume v (VolumeRemove n _) = (n = v)"
| "removes_volume _ _ = False"

fun removes_anonymous :: "string \<Rightarrow> request \<Rightarrow> bool" where
  "removes_anonymous i (ContainerRemove j _ volumes) = (j = i \<and> volumes)"
| "removes_anonymous _ _ = False"

lemma removes_anonymous_hits: "removes_anonymous i q \<Longrightarrow> hits_container i q"
  by (cases q) auto

text \<open>The removal of a project, call by call.\<close>

lemma emits_removeWithPreserve:
  assumes "emits P (removeProjectContainers e project True names)"
    and "\<And>fs. P (NetworkList fs)" "\<And>n. P (NetworkRemove n)" "\<And>fs. P (VolumeList fs)" "P (HookAfterRemove project)"
    and "\<And>w vs w' v. removeVolumes \<Longrightarrow>
      api_VolumeList e [LabelProject @ ''='' @ project, LabelManaged @ ''=true''] w = (Inr vs, w') \<Longrightarrow>
      v \<in> set vs \<Longrightarrow> P (VolumeRemove (vu_Name v) False)"
  shows "emits P (removeWithPreserve e project removeVolumes names hooks)"
proof -
  let ?f = "api_VolumeList e [LabelProject @ ''='' @ project, LabelManaged @ ''=true'']"
  let ?q = "VolumeList [LabelProject @ ''='' @ project, LabelManaged @ ''=true'']"
  have vols: "emits P (State_Monad.bind (docker ?q ?f) (\<lambda>vols. case vols of
      Inl _ \<Rightarrow> State_Monad.return ()
    | Inr vols \<Rightarrow> for_all (\<lambda>v. docker (VolumeRemove (vu_Name v) False) (api_VolumeRemove e (vu_Name v) False)) vols))"
    if removeVolumes
  proof -
    have "runs (docker ?q ?f) (\<lambda>r new. (\<forall>(q, ok) \<in> set new. P q) \<and> (\<forall>vs. r = Inr vs \<longrightarrow> (\<exists>w w'. ?f w = (Inr vs, w'))))"
      using assms(4) by (auto simp: runs_def docker_def split: prod.splits)
    then show ?thesis
      unfolding emits_def
    proof (rule runs_bind, goal_cases)
      case (1 r new)
      show ?case
      proof (cases r)
        case (Inr vs)
        have "emits P (for_all (\<lambda>v. docker (VolumeRemove (vu_Name v) False) (api_VolumeRemove e (vu_Name v) False)) vs)"
          using 1 Inr assms(6) that by (intro emit_rules) blast
        with 1 Inr show ?thesis by (auto simp: emits_def elim!: runs_mono)
      qed (use 1 in \<open>auto intro!: runs_return\<close>)
    qed
  qed
  show ?thesis
    unfolding removeWithPreserve_def
    by (intro emit_rules assms vols)
qed

text \<open>C29: Removing a project never stops, renames or removes a container that is to be preserved, so that its
  anonymous volumes stay as well, and removes a named volume only when the caller asked for it and the
  daemon listed the volume with the labels of both the project and the application: named volumes of
  others that carry the label of the project are spared.  The other containers of the project lose
  their anonymous volumes.\<close>

theorem RemoveExcept_spares:
  assumes "run_state (RemoveExcept e project removeVolumes names hooks) s = (res, s')"
    and "always_preserved e project names i" and "\<not> removeVolumes \<or> foreign_volume e project v"
  shows "\<exists>new. trace s' = trace s @ new \<and>
    (\<forall>(q, ok) \<in> set new. \<not> hits_container i q \<and> \<not> removes_anonymous i q \<and> \<not> removes_volume v q)"
proof -
  have "emits (\<lambda>q. \<not> hits_container i q \<and> \<not> removes_volume v q) (removeProjectContainers e project True names)"
    using assms(2) by (intro emits_removeProjectContainers) (auto simp: always_preserved_def)
  then have "emits (\<lambda>q. \<not> hits_container i q \<and> \<not> removes_volume v q) (RemoveExcept e project removeVolumes names hooks)"
    unfolding RemoveExcept_def
    by (rule emits_removeWithPreserve) (use assms(3) in \<open>auto simp: foreign_volume_def\<close>)
  from emitsD [OF this assms(1)] show ?thesis using removes_anonymous_hits by blast
qed

text \<open>A deployment never removes a named volume or a network, whatever happens: the data of the
  previous stack stays where it is, but for the anonymous volumes of its containers.\<close>

theorem Deploy_never_removes_data:
  assumes "run_state (DeployWithResult fuel e rt project content opts hook) s = (res, s')"
  shows "\<exists>new. trace s' = trace s @ new \<and> (\<forall>(q, ok) \<in> set new. \<not> removes_volume v q \<and> q \<noteq> NetworkRemove n)"
proof (rule deploy_emits [OF assms], rule emits_deploy_parsed, rule emits_deploy_apply)
  show "emits (\<lambda>q. \<not> removes_volume v q \<and> q \<noteq> NetworkRemove n) (removeProjectContainers e project False (PreserveContainerNames opts))"
    by (intro emits_removeProjectContainers) auto
next
  show "\<not> removes_volume v q \<and> q \<noteq> NetworkRemove n" if "constructive q" for q using that by (cases q) auto
next
  show "\<not> removes_volume v q \<and> q \<noteq> NetworkRemove n" if "\<not> mutating q" for q using that by (cases q) auto
qed

section \<open>The order of creation\<close>

fun created :: "(request \<times> bool) list \<Rightarrow> string list" where
  "created [] = []"
| "created ((q, ok) # calls) =
     (case q of ContainerCreate n k \<Rightarrow> if ok then n # created calls else created calls | _ \<Rightarrow> created calls)"

lemma created_append [simp]: "created (xs @ ys) = created xs @ created ys"
proof (induction xs)
  case (Cons x xs)
  then show ?case by (cases x) (auto split: request.splits)
qed simp

definition no_create :: "request \<Rightarrow> bool" where
  "no_create q \<longleftrightarrow> (\<forall>n k. q \<noteq> ContainerCreate n k)"

lemma no_create_simps [simp]:
  "no_create (ContainerInspect i)" "no_create (ContainerList a fs)" "no_create (ContainerLogs i m)" "no_create (ContainerStart i)"
  "no_create (NetworkConnect n i as)" "no_create (HookApplyToService p sv)" "no_create (HookAfterCreate p sv i)"
  "no_create (NetworkList fs)" "no_create (NetworkCreate n d ls)" "no_create (VolumeInspect n)" "no_create (VolumeCreate n d ls)"
  "no_create (HookBeforeDeploy p)" "no_create (ContainerStop i)" "no_create (ContainerRemove i f g)"
  by (simp_all add: no_create_def)

lemma created_none: "\<forall>(q, ok) \<in> set new. no_create q \<Longrightarrow> created new = []"
  by (induction new rule: created.induct) (auto simp: no_create_def split: request.splits)

lemma runs_no_create: "emits no_create m \<Longrightarrow> runs m (\<lambda>_ new. created new = [])"
  unfolding emits_def by (erule runs_mono) (rule created_none)

lemma runs_for_each_created:
  assumes "\<And>x. x \<in> set xs \<Longrightarrow> runs (f x) (\<lambda>r new. is_ok r \<longrightarrow> created new = h x)"
  shows "runs (for_each f xs) (\<lambda>r new. is_ok r \<longrightarrow> created new = concat (map h xs))"
  using assms
proof (induction xs)
  case Nil
  show ?case by (simp add: runs_return)
next
  case (Cons x xs)
  have x: "runs (f x) (\<lambda>r new. is_ok r \<longrightarrow> created new = h x)" using Cons.prems by simp
  have xs: "runs (for_each f xs) (\<lambda>r new. is_ok r \<longrightarrow> created new = concat (map h xs))" using Cons by simp
  show ?case
    unfolding for_each.simps
    by (rule runs_bind [OF x], rule runs_or_fail) (auto intro: runs_mono [OF xs])
qed

text \<open>A step that creates no container, before or after the others.\<close>

lemma runs_skip_first:
  assumes "emits no_create m" "\<And>x. runs (f x) (\<lambda>r new. is_ok r \<longrightarrow> Q (created new))"
  shows "runs (do { r \<leftarrow> m; or_fail r f }) (\<lambda>r new. is_ok r \<longrightarrow> Q (created new))"
  by (rule runs_bind [OF runs_no_create [OF assms(1)]], rule runs_or_fail)
    (auto intro: runs_mono [OF assms(2)])

lemma createAndStart_created:
  "runs (createAndStart fuel e rt project cfg svc hook) (\<lambda>r new. is_ok r \<longrightarrow> created new = [container_name project svc])"
proof -
  let ?n = "container_name project svc"
  have create: "runs (docker (ContainerCreate ?n k) f) (\<lambda>r new. is_ok r \<longrightarrow> created new = [?n])" for k f
    by (rule runs_docker) simp
  have rest: "runs (State_Monad.bind (docker (ContainerCreate ?n k) f) (\<lambda>r. or_fail (of_sdk r) g))
      (\<lambda>r new. is_ok r \<longrightarrow> created new = [?n])" if "\<And>x. emits no_create (g x)" for k f g
    by (rule runs_bind [OF create], rule runs_or_fail)
      (auto intro!: runs_mono [OF runs_no_create [OF that]])
  show ?thesis
    unfolding createAndStart_def Let_def
    by (rule runs_skip_first, (intro emit_rules; simp), simp split: prod.splits, intro allI impI rest emit_rules) simp_all
qed

lemma deploy_service_created:
  "runs (deploy_service fuel e rt project cfg hook name)
     (\<lambda>r new. is_ok r \<longrightarrow> created new = [container_name project (service_by_name (c_Services cfg) name)])"
  unfolding deploy_service_def Let_def
  by (rule runs_skip_first, (intro emit_rules; simp))
    (rule runs_bind [OF createAndStart_created], auto intro!: runs_return simp: wrap_result_def is_ok_def split: sum.splits)

lemma deploy_apply_created:
  "runs (deploy_apply fuel e rt project cfg preserve hook)
     (\<lambda>r new. is_ok r \<longrightarrow> (\<exists>order. topologicalOrder (c_Services cfg) = Inr order \<and>
        created new = map (\<lambda>n. container_name project (service_by_name (c_Services cfg) n)) order))"
proof -
  let ?Q = "\<lambda>names. \<exists>order. topologicalOrder (c_Services cfg) = Inr order \<and>
    names = map (\<lambda>n. container_name project (service_by_name (c_Services cfg) n)) order"
  have loop: "runs (for_each (deploy_service fuel e rt project cfg hook) order)
    (\<lambda>r new. is_ok r \<longrightarrow> created new = map (\<lambda>n. container_name project (service_by_name (c_Services cfg) n)) order)" for order
    by (rule runs_mono [OF runs_for_each_created [OF deploy_service_created]]) simp
  have last: "runs (or_fail (of_go (topologicalOrder (c_Services cfg))) (for_each (deploy_service fuel e rt project cfg hook)))
      (\<lambda>r new. is_ok r \<longrightarrow> ?Q (created new))"
    by (cases "topologicalOrder (c_Services cfg)") (auto simp: of_go_def intro!: runs_return runs_mono [OF loop])
  show ?thesis
    unfolding deploy_apply_def
    by (intro runs_skip_first [where Q = ?Q] emits_removeProjectContainers emits_ensureNetworks emits_ensureVolumes emits_hooks last)
      simp_all
qed

text \<open>C26: A deployment that succeeds has created exactly one container for every service, under
  the name of the service, in the order that \<open>topologicalOrder\<close> gives: every dependency before
  the services that need it.\<close>

theorem Deploy_creates_in_order:
  assumes "run_state (DeployWithResult fuel e rt project content opts hook) s = ((warnings, Inr ()), s')"
  shows "\<exists>new cfg order. trace s' = trace s @ new \<and>
    loader rt (fold setenv (EnvVars opts) (environ s)) project content = Inr cfg \<and>
    topologicalOrder (c_Services cfg) = Inr order \<and>
    created new = map (\<lambda>n. container_name project (service_by_name (c_Services cfg) n)) order"
proof (cases "loader rt (fold setenv (EnvVars opts) (environ s)) project content")
  case (Inl m)
  with deploy_run [OF assms] show ?thesis by simp
next
  case (Inr cfg)
  let ?Q = "\<lambda>names. \<exists>order. topologicalOrder (c_Services cfg) = Inr order \<and>
    names = map (\<lambda>n. container_name project (service_by_name (c_Services cfg) n)) order"
  have none: "created pre = []" if "\<forall>(q, ok) \<in> set pre. \<not> mutating q" for pre
    by (rule created_none) (use that in \<open>force simp: no_create_def\<close>)
  have "runs (deploy_parsed fuel e rt project cfg opts hook) (\<lambda>(w, r) new. is_ok r \<longrightarrow> ?Q (created new))"
    by (rule deploy_parsed_runs [OF deploy_apply_created]) (auto simp: none)
  from deploy_trace [OF assms Inr this] Inr show ?thesis by auto
qed

section \<open>The environment of the process\<close>

lemma fold_unset: "fold (\<lambda>(k, _) env. env(k := None)) kvs env k = (if k \<in> fst ` set kvs then None else env k)"
  by (induction kvs arbitrary: env) auto

lemma fold_setenv: "k \<notin> fst ` set kvs \<Longrightarrow> fold setenv kvs env k = env k"
  by (induction kvs arbitrary: env) (auto simp: setenv_def split: prod.splits)

text \<open>After a deployment, successful or not, the variables of the stack are gone from the
  environment of the process and every other variable is what it was.  A variable that the process
  had under the same name is lost.\<close>

theorem Deploy_environment:
  assumes "run_state (DeployWithResult fuel e rt project content opts hook) s = (res, s')"
  shows "environ s' k = (if k \<in> fst ` set (EnvVars opts) then None else environ s k)"
proof -
  let ?env = "fold setenv (EnvVars opts) (environ s)"
  have applied: "runs (deploy_parsed fuel e rt project cfg opts hook) (\<lambda>_ _. True)" for cfg
    by (rule deploy_parsed_runs [OF deploy_apply_appends]) auto
  obtain s2 where s2: "run_state (case loader rt ?env project content of
       Inl m \<Rightarrow> State_Monad.return ([], Inl (Err (''parse compose: '' @ m)))
     | Inr cfg \<Rightarrow> deploy_parsed fuel e rt project cfg opts hook) (s\<lparr>environ := ?env\<rparr>) = (res, s2)"
    and s': "s' = s2\<lparr>environ := fold (\<lambda>(k, _) env. env(k := None)) (EnvVars opts) (environ s2)\<rparr>"
    using deploy_run [OF assms] by blast
  have "environ s2 = ?env"
  proof (cases "loader rt ?env project content")
    case (Inl m)
    with s2 show ?thesis by auto
  next
    case (Inr cfg)
    with s2 have "run_state (deploy_parsed fuel e rt project cfg opts hook) (s\<lparr>environ := ?env\<rparr>) = (res, s2)" by simp
    from runs_environ [OF applied this] show ?thesis by simp
  qed
  with s' show ?thesis by (simp add: fold_unset fold_setenv)
qed

section \<open>The polling loops\<close>

text \<open>Documented behaviour of the clock: sleeping takes at least as long as asked for, and time does
  not run backwards during a call.\<close>

definition steady_clock :: "'w sdk \<Rightarrow> bool" where
  "steady_clock e \<longleftrightarrow>
     (\<forall>d w. clock_now e w + d \<le> clock_now e (sleep_for e d w)) \<and>
     (\<forall>a fs w. clock_now e w \<le> clock_now e (snd (api_ContainerList e a fs w))) \<and>
     (\<forall>i w. clock_now e w \<le> clock_now e (snd (api_ContainerInspect e i w)))"

lemma docker_run:
  "run_state (docker q f) s = (fst (f (world s)), s\<lparr>world := snd (f (world s)), trace := trace s @ [(q, is_ok (fst (f (world s))))]\<rparr>)"
  by (simp add: docker_def split: prod.splits)

lemma observe_run [simp]: "run_state (observe f) s = (f (world s), s)"
  by (simp add: observe_def)

lemma pause_run:
  "run_state (pause e d) s =
     (case ctx_error e (sleep_for e d (world s)) of Some m \<Rightarrow> Inl (Err m) | None \<Rightarrow> Inr (), s\<lparr>world := sleep_for e d (world s)\<rparr>)"
  by (simp add: pause_def wait_def)

lemma of_sdk_Inl [simp]: "of_sdk (Inl x) = Inl (Err (error_text x))" and of_sdk_Inr [simp]: "of_sdk (Inr y) = Inr y"
  by (simp_all add: of_sdk_def)

lemma of_sdk_fuel [simp]: "of_sdk r \<noteq> Inl OutOfFuel" "Inl OutOfFuel \<noteq> of_sdk r"
  by (cases r; simp)+

lemma wrap_simps [simp]:
  "wrap_result m (Inl (Err t)) = Inl (Err (m @ t))" "wrap_result m (Inl OutOfFuel) = Inl OutOfFuel" "wrap_result m (Inr x) = Inr x"
  by (simp_all add: wrap_result_def wrap_def)

lemma wrap_fuel_iff [simp]: "wrap_result m r = Inl OutOfFuel \<longleftrightarrow> r = Inl OutOfFuel"
  by (cases r) (auto simp: wrap_result_def wrap_def split: engine_error.splits)

lemma wrap_Inr_iff [simp]: "wrap_result m r = Inr y \<longleftrightarrow> r = Inr y"
  by (cases r) (auto simp: wrap_result_def)

text \<open>One look at the dependency: the container list, and what the inspection of the first one says.\<close>

definition look :: "'w sdk \<Rightarrow> string \<Rightarrow> string \<Rightarrow> string \<Rightarrow> 'w \<Rightarrow> verdict \<Rightarrow> 'w \<Rightarrow> bool" where
  "look e project service cond w v w' \<longleftrightarrow>
     (\<exists>list w1. api_ContainerList e True (dependency_filters project service) w = (Inr list, w1) \<and>
        (case list of
           [] \<Rightarrow> v = NotYet \<and> w' = w1
         | c # _ \<Rightarrow> \<exists>r. api_ContainerInspect e (ct_ID c) w1 = (r, w') \<and>
             v = (case r of Inl _ \<Rightarrow> NotYet
                  | Inr info \<Rightarrow> (case in_State info of None \<Rightarrow> NotYet | Some st \<Rightarrow> judge cond service st))))"

lemma poll_dependency_run:
  assumes "run_state (poll_dependency e project service cond) s = (r, s1)"
  shows "r \<noteq> Inl OutOfFuel" "r = Inr v \<Longrightarrow> look e project service cond (world s) v (world s1)"
    "steady_clock e \<Longrightarrow> clock_now e (world s) \<le> clock_now e (world s1)"
proof -
  obtain l w1 where l: "api_ContainerList e True (dependency_filters project service) (world s) = (l, w1)" by fastforce
  have w1: "steady_clock e \<Longrightarrow> clock_now e (world s) \<le> clock_now e w1"
    using l unfolding steady_clock_def by (metis snd_conv)
  have "r \<noteq> Inl OutOfFuel \<and> (r = Inr v \<longrightarrow> look e project service cond (world s) v (world s1)) \<and>
    (steady_clock e \<longrightarrow> clock_now e (world s) \<le> clock_now e (world s1))"
  proof (cases l)
    case (Inl m)
    with assms l w1 show ?thesis by (auto simp: poll_dependency_def docker_run)
  next
    case (Inr cs)
    show ?thesis
    proof (cases cs)
      case Nil
      with assms l w1 Inr show ?thesis
        by (auto simp: poll_dependency_def docker_run inspect_dependency_def look_def)
    next
      case (Cons c cs')
      obtain i w2 where i: "api_ContainerInspect e (ct_ID c) w1 = (i, w2)" by fastforce
      have "steady_clock e \<Longrightarrow> clock_now e w1 \<le> clock_now e w2"
        using i unfolding steady_clock_def by (metis snd_conv)
      with assms l w1 Inr Cons i show ?thesis
        by (auto simp: poll_dependency_def docker_run inspect_dependency_def look_def)
    qed
  qed
  then show "r \<noteq> Inl OutOfFuel" "r = Inr v \<Longrightarrow> look e project service cond (world s) v (world s1)"
    "steady_clock e \<Longrightarrow> clock_now e (world s) \<le> clock_now e (world s1)" by auto
qed

lemma wait_loop_met:
  "run_state (wait_loop fuel e project service cond budget deadline) s = (Inr (), s') \<Longrightarrow>
   \<exists>w. look e project service cond w Met (world s')"
proof (induction fuel arbitrary: s)
  case (Suc fuel)
  obtain r s1 where r: "run_state (poll_dependency e project service cond) s = (r, s1)" by fastforce
  show ?case
  proof (cases r)
    case (Inr v)
    note look = poll_dependency_run(2) [OF r Inr]
    from Suc.prems r Inr look Suc.IH show ?thesis
      by (cases v) (auto simp: pause_run split: if_splits option.splits)
  qed (use Suc.prems r in auto)
qed simp

lemma wait_loop_fuel:
  assumes "steady_clock e" and "deadline - clock_now e (world s) < int fuel * second"
    and "run_state (wait_loop (Suc fuel) e project service cond budget deadline) s = (r, s')"
  shows "r \<noteq> Inl OutOfFuel"
  using assms(2,3)
proof (induction fuel arbitrary: s)
  case fuel: (0 s)
  obtain p s1 where p: "run_state (poll_dependency e project service cond) s = (p, s1)" by fastforce
  from fuel p poll_dependency_run(1,3) [OF p] assms(1) show ?case
    by (auto simp: or_fail_def timed_out_def split: sum.splits verdict.splits)
next
  case fuel: (Suc fuel s)
  obtain p s1 where p: "run_state (poll_dependency e project service cond) s = (p, s1)" by fastforce
  have "deadline - clock_now e (sleep_for e second (world s1)) < int fuel * second"
  proof -
    have "clock_now e (world s1) + second \<le> clock_now e (sleep_for e second (world s1))"
      using assms(1) by (simp add: steady_clock_def)
    moreover have "int (Suc fuel) * second = int fuel * second + second" by (simp add: algebra_simps)
    ultimately show ?thesis using fuel.prems(1) poll_dependency_run(3) [OF p assms(1)] by linarith
  qed
  then have next_turn: "run_state (wait_loop (Suc fuel) e project service cond budget deadline)
      (s1\<lparr>world := sleep_for e second (world s1)\<rparr>) = (r, s') \<Longrightarrow> r \<noteq> Inl OutOfFuel"
    using fuel.IH [of "s1\<lparr>world := sleep_for e second (world s1)\<rparr>"] by simp
  note step = fuel.prems(2) [unfolded wait_loop.simps(2) [of "Suc fuel"]]
  show ?case
  proof (cases p)
    case (Inl m)
    with step p poll_dependency_run(1) [OF p] show ?thesis by auto
  next
    case (Inr v)
    with step p next_turn show ?thesis
      by (cases v) (auto simp del: wait_loop.simps simp: pause_run timed_out_def split: if_splits option.splits)
  qed
qed

lemma judge_Met:
  "judge cond service st = Met \<longleftrightarrow>
     cond = ''service_started'' \<and> (st_Running st \<or> st_Health st = Some ''healthy'') \<or>
     cond = ''service_healthy'' \<and> (st_Health st = Some ''healthy'' \<or> st_Health st = None \<and> st_Running st) \<or>
     cond = ''service_completed_successfully'' \<and> st_Status st = ''exited'' \<and> st_ExitCode st = 0"
  by (auto simp: judge_def split: option.splits)

lemma look_Met:
  "look e project service cond w Met w' \<longleftrightarrow>
     (\<exists>w1 c cs info st. api_ContainerList e True (dependency_filters project service) w = (Inr (c # cs), w1) \<and>
        api_ContainerInspect e (ct_ID c) w1 = (Inr info, w') \<and> in_State info = Some st \<and> judge cond service st = Met)"
proof -
  have "Met = (case r of Inl _ \<Rightarrow> NotYet
      | Inr info \<Rightarrow> (case in_State info of None \<Rightarrow> NotYet | Some st \<Rightarrow> judge cond service st)) \<longleftrightarrow>
    (\<exists>info st. r = Inr info \<and> in_State info = Some st \<and> judge cond service st = Met)" for r :: "sdk_error + container_info"
    by (cases r) (auto split: option.splits)
  note met = this
  show ?thesis
  proof
    assume "look e project service cond w Met w'"
    then obtain list w1 where list: "api_ContainerList e True (dependency_filters project service) w = (Inr list, w1)"
      and rest: "case list of [] \<Rightarrow> Met = NotYet \<and> w' = w1
        | c # _ \<Rightarrow> \<exists>r. api_ContainerInspect e (ct_ID c) w1 = (r, w') \<and>
            Met = (case r of Inl _ \<Rightarrow> NotYet
              | Inr info \<Rightarrow> (case in_State info of None \<Rightarrow> NotYet | Some st \<Rightarrow> judge cond service st))"
      unfolding look_def by blast
    from rest obtain c cs where "list = c # cs" by (cases list) auto
    with list rest show "\<exists>w1 c cs info st. api_ContainerList e True (dependency_filters project service) w = (Inr (c # cs), w1) \<and>
        api_ContainerInspect e (ct_ID c) w1 = (Inr info, w') \<and> in_State info = Some st \<and> judge cond service st = Met"
      unfolding met by auto
  next
    assume "\<exists>w1 c cs info st. api_ContainerList e True (dependency_filters project service) w = (Inr (c # cs), w1) \<and>
        api_ContainerInspect e (ct_ID c) w1 = (Inr info, w') \<and> in_State info = Some st \<and> judge cond service st = Met"
    then show "look e project service cond w Met w'"
      unfolding look_def by (auto simp: met)
  qed
qed

text \<open>When waiting for a dependency succeeds, the last thing observed is a container of the
  dependency in the state that its condition names: running or healthy for \<open>service_started\<close>,
  healthy (or running, without a health check) for \<open>service_healthy\<close>, exited with code zero for
  \<open>service_completed_successfully\<close>.\<close>

theorem waitForDependency_success:
  assumes "run_state (waitForDependency fuel e project dep) s = (Inr (), s')"
  shows "\<exists>w w1 c cs info st.
    api_ContainerList e True (dependency_filters project (dep_Service dep)) w = (Inr (c # cs), w1) \<and>
    api_ContainerInspect e (ct_ID c) w1 = (Inr info, world s') \<and> in_State info = Some st \<and>
    (effective_condition dep = ''service_started'' \<and> (st_Running st \<or> st_Health st = Some ''healthy'') \<or>
     effective_condition dep = ''service_healthy'' \<and> (st_Health st = Some ''healthy'' \<or> st_Health st = None \<and> st_Running st) \<or>
     effective_condition dep = ''service_completed_successfully'' \<and> st_Status st = ''exited'' \<and> st_ExitCode st = 0)"
proof -
  let ?cond = "effective_condition dep"
  obtain timeout budget where "wait_timeout ?cond = Some (timeout, budget)"
    using assms by (auto simp: waitForDependency_def split: option.splits)
  with assms have "run_state (wait_loop fuel e project (dep_Service dep) ?cond budget (clock_now e (world s) + timeout)) s = (Inr (), s')"
    by (simp add: waitForDependency_def)
  from wait_loop_met [OF this] show ?thesis
    unfolding look_Met judge_Met by blast
qed

section \<open>Deployments end\<close>

definition finishes :: "('w, engine_error + 'a) prog \<Rightarrow> bool" where
  "finishes m \<longleftrightarrow> (\<forall>s. fst (run_state m s) \<noteq> Inl OutOfFuel)"

named_theorems finish_rules

lemma finishes_return [finish_rules]: "r \<noteq> Inl OutOfFuel \<Longrightarrow> finishes (State_Monad.return r)"
  by (simp add: finishes_def)

lemma finishes_bind: "(\<And>x. finishes (f x)) \<Longrightarrow> finishes (State_Monad.bind m f)"
  by (simp add: finishes_def split: prod.splits)

lemmas [finish_rules] =
  finishes_bind [where m = "docker q f" for q f]
  finishes_bind [where m = "observe f" for f]
  finishes_bind [where m = "pull_all e svcs errs" for e svcs errs]

lemma finishes_or_fail: "r \<noteq> Inl OutOfFuel \<Longrightarrow> (\<And>x. finishes (f x)) \<Longrightarrow> finishes (or_fail r f)"
  by (cases r) (simp_all add: finishes_def)

lemma finishes_then [finish_rules]:
  assumes "finishes m" "\<And>x. finishes (f x)"
  shows "finishes (do { r \<leftarrow> m; or_fail r f })"
  unfolding finishes_def
proof
  fix s
  obtain r s1 where m: "run_state m s = (r, s1)" by fastforce
  with assms(1) have "r \<noteq> Inl OutOfFuel" unfolding finishes_def by (metis fst_conv)
  from finishes_or_fail [of r f, OF this assms(2)] m show "fst (run_state (do { r \<leftarrow> m; or_fail r f }) s) \<noteq> Inl OutOfFuel"
    by (simp add: finishes_def)
qed

lemma finishes_wrap [finish_rules]:
  "finishes m \<Longrightarrow> finishes (do { r \<leftarrow> m; State_Monad.return (wrap_result t r) })"
  by (simp add: finishes_def split: prod.splits) (metis fst_conv)

lemma finishes_for_each [finish_rules]: "(\<And>x. x \<in> set xs \<Longrightarrow> finishes (f x)) \<Longrightarrow> finishes (for_each f xs)"
  by (induction xs) (simp_all add: finishes_return finishes_then)

lemma of_go_fuel [simp]: "of_go r \<noteq> Inl OutOfFuel" by (cases r) (simp_all add: of_go_def)

lemma finishes_prod [finish_rules]:
  "(\<And>a b. x = (a, b) \<Longrightarrow> finishes (f a b)) \<Longrightarrow> finishes (case x of (a, b) \<Rightarrow> f a b)"
  by (simp split: prod.split)

lemma finishes_if [finish_rules]: "(b \<Longrightarrow> finishes f) \<Longrightarrow> (\<not> b \<Longrightarrow> finishes g) \<Longrightarrow> finishes (if b then f else g)"
  by simp

lemma finishes_option [finish_rules]:
  "finishes f \<Longrightarrow> (\<And>b. finishes (g b)) \<Longrightarrow> finishes (case x of None \<Rightarrow> f | Some b \<Rightarrow> g b)"
  by (simp split: option.split)

lemma finishes_pure: "r \<noteq> Inl OutOfFuel \<Longrightarrow> (\<And>x. finishes (f x)) \<Longrightarrow> finishes (or_fail r f)"
  by (rule finishes_or_fail)

lemmas [finish_rules] =
  finishes_pure [where r = "of_sdk r" for r, OF of_sdk_fuel(1)]
  finishes_pure [where r = "of_go r" for r, OF of_go_fuel]

lemma finishes_listProjectContainers [finish_rules]: "finishes (listProjectContainers e project b)"
  unfolding listProjectContainers_def by (intro finish_rules) simp

lemma finishes_checks [finish_rules]:
  "finishes (preflightExternalNetworks e nets)" "finishes (preflightExternalVolumes e vols)"
  "finishes (pull_images e pull svcs)"
  unfolding preflightExternalNetworks_def preflightExternalVolumes_def pull_images_def Let_def
  by (intro finish_rules; simp split: sum.split)+

lemma finishes_removeProjectContainers [finish_rules]: "finishes (removeProjectContainers e project ignoreErrors names)"
  unfolding removeProjectContainers_def remove_container_def
  by (intro finish_rules finishes_bind) (auto split: if_splits)

lemma finishes_ensure [finish_rules]:
  "finishes (ensureNetworks e project nets)" "finishes (ensureVolumes e project vols)"
  unfolding ensureNetworks_def ensureVolumes_def Let_def
  by (intro finish_rules; simp)+

lemma finishes_hooks [finish_rules]:
  "finishes (hook_before hook project)" "finishes (hook_apply hook project svc env mounts)"
  "finishes (hook_after_create hook project svc i)" "finishes (connect_networks e project cfg sc i)"
  unfolding hook_before_def hook_apply_def hook_after_create_def connect_networks_def Let_def
  by (intro finish_rules; simp)+

lemma finishes_waitForDependency:
  assumes "steady_clock e" and "302 \<le> fuel"
  shows "finishes (waitForDependency fuel e project dep)"
proof (cases "wait_timeout (effective_condition dep)")
  case None
  then show ?thesis by (simp add: waitForDependency_def finishes_def)
next
  case (Some tb)
  obtain timeout budget where tb: "tb = (timeout, budget)" by fastforce
  obtain n where n: "fuel = Suc n" using assms(2) by (cases fuel) auto
  have "timeout \<le> 300 * second"
    using Some tb by (auto simp: wait_timeout_def second_def split: if_splits)
  moreover have "300 * second < int n * second" using assms(2) n by (simp add: second_def)
  ultimately have "clock_now e (world s) + timeout - clock_now e (world s) < int n * second" for s :: "'a engine" by simp
  from wait_loop_fuel [OF assms(1) this] show ?thesis
    unfolding finishes_def waitForDependency_def Some tb n
    by (auto simp del: wait_loop.simps) (metis prod.collapse)
qed

definition crash_message :: "string \<Rightarrow> int \<Rightarrow> string \<Rightarrow> bool" where
  "crash_message svc code m \<longleftrightarrow>
     has_prefix m (''service '' @ go_quote svc @ '' exited with code '' @ show_int code @ '' during start'')"

lemma crashError_run:
  "\<exists>m s1. run_state (crashError e rt i svc code extra) s = (Err m, s1) \<and> crash_message svc code m"
  by (auto simp: crashError_def containerLogTail_def docker_run Let_def crash_message_def has_prefix_def)

text \<open>What the start of a container is judged by: crashed with an exit code, or running and not
  restarted, or neither.\<close>

definition crashed :: "container_info \<Rightarrow> int option" where
  "crashed info =
     (case in_State info of
        None \<Rightarrow> None
      | Some st \<Rightarrow>
          if st_Status st = ''exited'' \<or> st_Status st = ''dead'' \<or> (st_Running st \<and> in_RestartCount info > 0)
          then Some (st_ExitCode st) else None)"

definition pending :: "container_info \<Rightarrow> bool" where
  "pending info \<longleftrightarrow> crashed info = None \<and> (\<exists>st. in_State info = Some st \<and> \<not> st_Running st)"

lemma verify_loop_step:
  assumes "run_state (verify_loop (Suc fuel) e rt i svc deadline) s = (r, s')"
    and "api_ContainerInspect e i (world s) = (a, w)"
  shows "(case a of
      Inl _ \<Rightarrow> r = Inr () \<and> world s' = w
    | Inr info \<Rightarrow>
        (case crashed info of
           Some code \<Rightarrow> \<exists>m. r = Inl (Err m) \<and> crash_message svc code m
         | None \<Rightarrow>
             if pending info \<and> clock_now e w \<le> deadline
             then \<exists>s1. world s1 = sleep_for e probeInterval w \<and>
               (case ctx_error e (world s1) of
                  Some m \<Rightarrow> r = Inl (Err m) \<and> s' = s1
                | None \<Rightarrow> run_state (verify_loop fuel e rt i svc deadline) s1 = (r, s'))
             else r = Inr () \<and> world s' = w))"
proof (cases a)
  case (Inl m)
  with assms show ?thesis by (auto simp: docker_run)
next
  case (Inr info)
  define s1 where "s1 = s\<lparr>world := w, trace := trace s @ [(ContainerInspect i, True)]\<rparr>"
  have [simp]: "world s1 = w" by (simp add: s1_def)
  note crash = crashError_run [of e rt i svc]
  show ?thesis
  proof (cases "in_State info")
    case None
    with assms Inr show ?thesis by (auto simp: docker_run crashed_def pending_def)
  next
    case (Some st)
    show ?thesis
    proof (cases "crashed info")
      case (Some code)
      obtain extra m s2 where
        "run_state (verify_loop (Suc fuel) e rt i svc deadline) s = (Inl (Err m), s2)" "crash_message svc code m"
      proof (cases "st_Status st = ''exited'' \<or> st_Status st = ''dead''")
        case True
        obtain m s2 where "run_state (crashError e rt i svc (st_ExitCode st) (st_Error st)) s1 = (Err m, s2)"
          "crash_message svc (st_ExitCode st) m" using crash by blast
        with True Some \<open>in_State info = Some st\<close> Inr assms(2) that show ?thesis
          by (auto simp: docker_run crashed_def s1_def)
      next
        case False
        let ?extra = "''restart loop (restart count='' @ show_int (in_RestartCount info) @ '')''"
        obtain m s2 where "run_state (crashError e rt i svc (st_ExitCode st) ?extra) s1 = (Err m, s2)"
          "crash_message svc (st_ExitCode st) m" using crash by blast
        with False Some \<open>in_State info = Some st\<close> Inr assms(2) that show ?thesis
          by (auto simp: docker_run crashed_def s1_def split: if_splits)
      qed
      with assms(1) Inr Some show ?thesis by auto
    next
      case None
      with \<open>in_State info = Some st\<close> have st: "st_Status st \<noteq> ''exited''" "st_Status st \<noteq> ''dead''"
        "\<not> (st_Running st \<and> in_RestartCount info > 0)" by (auto simp: crashed_def split: if_splits)
      show ?thesis
      proof (cases "st_Running st")
        case True
        with st assms Inr \<open>in_State info = Some st\<close> None show ?thesis
          by (auto simp: docker_run pending_def)
      next
        case False
        with \<open>in_State info = Some st\<close> None have "pending info" by (simp add: pending_def)
        with False st assms Inr \<open>in_State info = Some st\<close> None show ?thesis
          by (cases "ctx_error e (sleep_for e probeInterval w)")
            (auto simp: docker_run pause_run intro!: exI [of _ "s1\<lparr>world := sleep_for e probeInterval w\<rparr>"] simp: s1_def)
      qed
    qed
  qed
qed

definition verify_verdict :: "'w sdk \<Rightarrow> string \<Rightarrow> string \<Rightarrow> int \<Rightarrow> engine_error + unit \<Rightarrow> 'w \<Rightarrow> bool" where
  "verify_verdict e i svc deadline r w' \<longleftrightarrow>
     (\<exists>w a w1. api_ContainerInspect e i w = (a, w1) \<and>
       (case r of
          Inr _ \<Rightarrow> w' = w1 \<and> (\<forall>info. a = Inr info \<longrightarrow> crashed info = None \<and> (pending info \<longrightarrow> deadline < clock_now e w1))
        | Inl (Err m) \<Rightarrow> (\<exists>info code. a = Inr info \<and> crashed info = Some code \<and> crash_message svc code m) \<or> ctx_error e w' = Some m
        | Inl OutOfFuel \<Rightarrow> False))"

lemma verify_loop_outcome:
  assumes "steady_clock e" and "deadline - clock_now e (world s) < int fuel * probeInterval"
    and "run_state (verify_loop (Suc fuel) e rt i svc deadline) s = (r, s')"
  shows "verify_verdict e i svc deadline r (world s')"
  using assms(2,3)
proof (induction fuel arbitrary: s)
  case fuel: (0 s)
  obtain a w where a: "api_ContainerInspect e i (world s) = (a, w)" by fastforce
  have "clock_now e (world s) \<le> clock_now e w"
    using assms(1) a unfolding steady_clock_def by (metis snd_conv)
  with fuel.prems(1) have "deadline < clock_now e w" by simp
  with verify_loop_step [OF fuel.prems(2) a] a show ?case
    by (fastforce simp: verify_verdict_def split: sum.splits option.splits if_splits)
next
  case fuel: (Suc fuel s)
  obtain a w where a: "api_ContainerInspect e i (world s) = (a, w)" by fastforce
  note step = verify_loop_step [OF fuel.prems(2) a]
  show ?case
  proof (cases "\<exists>info. a = Inr info \<and> pending info \<and> clock_now e w \<le> deadline")
    case True
    then obtain info where info: "a = Inr info" "pending info" "clock_now e w \<le> deadline" by blast
    then have "crashed info = None" by (simp add: pending_def)
    with step info obtain s1 where s1: "world s1 = sleep_for e probeInterval w"
      "case ctx_error e (world s1) of Some m \<Rightarrow> r = Inl (Err m) \<and> s' = s1
       | None \<Rightarrow> run_state (verify_loop (Suc fuel) e rt i svc deadline) s1 = (r, s')" by auto
    have "clock_now e (world s) \<le> clock_now e w" "clock_now e w + probeInterval \<le> clock_now e (world s1)"
      using assms(1) a s1(1) unfolding steady_clock_def by (metis snd_conv, metis)
    then have "deadline - clock_now e (world s1) < int fuel * probeInterval"
      using fuel.prems(1) by (simp add: algebra_simps)
    note IH = fuel.IH [OF this]
    show ?thesis
    proof (cases "ctx_error e (world s1)")
      case None
      with s1 IH show ?thesis by simp
    next
      case (Some m)
      with s1 a show ?thesis by (auto simp: verify_verdict_def)
    qed
  next
    case False
    with step a show ?thesis
      by (fastforce simp: verify_verdict_def split: sum.splits option.splits if_splits)
  qed
qed

lemma verifyRunning_verdict:
  assumes "steady_clock e" and "12 \<le> fuel"
    and "run_state (verifyRunning fuel e rt i svc) s = (r, s')"
  shows "verify_verdict e i svc (clock_now e (world s) + probeTimeout) r (world s')"
proof -
  obtain n where n: "fuel = Suc n" using assms(2) by (cases fuel) auto
  show ?thesis
    using assms n by (intro verify_loop_outcome [where fuel = n and s = s and rt = rt])
      (auto simp del: verify_loop.simps simp: verifyRunning_def probeTimeout_def probeInterval_def)
qed

text \<open>C30: With a clock that does not stand still, verifying a start always ends, and its result
  rests on the last inspection of the container.  It succeeds only when that inspection failed or
  showed no crash, and a container that is neither running nor dead is accepted only after the grace
  period.  It fails only with the exit code of an observed crash, or with the error of the cancelled
  context.\<close>

theorem verifyRunning_outcome:
  assumes "steady_clock e" and "12 \<le> fuel"
    and "run_state (verifyRunning fuel e rt i svc) s = (r, s')"
  shows "\<exists>w a w1. api_ContainerInspect e i w = (a, w1) \<and>
    (case r of
       Inr _ \<Rightarrow> world s' = w1 \<and> (\<forall>info. a = Inr info \<longrightarrow> crashed info = None \<and>
         (pending info \<longrightarrow> clock_now e (world s) + probeTimeout < clock_now e w1))
     | Inl (Err m) \<Rightarrow> (\<exists>info code. a = Inr info \<and> crashed info = Some code \<and> crash_message svc code m) \<or>
         ctx_error e (world s') = Some m
     | Inl OutOfFuel \<Rightarrow> False)"
  using verifyRunning_verdict [OF assms] unfolding verify_verdict_def .

lemma finishes_verifyRunning: "steady_clock e \<Longrightarrow> 12 \<le> fuel \<Longrightarrow> finishes (verifyRunning fuel e rt i svc)"
  unfolding finishes_def
proof
  fix s :: "'a engine"
  assume e: "steady_clock e" "12 \<le> fuel"
  obtain r s' where "run_state (verifyRunning fuel e rt i svc) s = (r, s')" by fastforce
  with verifyRunning_verdict [OF e this] show "fst (run_state (verifyRunning fuel e rt i svc) s) \<noteq> Inl OutOfFuel"
    by (auto simp: verify_verdict_def)
qed

lemma finishes_deploy_service:
  assumes "steady_clock e" and "302 \<le> fuel"
  shows "finishes (deploy_service fuel e rt project cfg hook n)"
  unfolding deploy_service_def createAndStart_def Let_def
  by (intro finish_rules finishes_waitForDependency finishes_verifyRunning) (use assms in auto)

lemma finishes_deploy_apply:
  assumes "steady_clock e" and "302 \<le> fuel"
  shows "finishes (deploy_apply fuel e rt project cfg preserve hook)"
  unfolding deploy_apply_def by (intro finish_rules finishes_deploy_service assms)

lemma deploy_finishes:
  assumes "steady_clock e" and "302 \<le> fuel"
    and "run_state (DeployWithResult fuel e rt project content opts hook) s = ((warnings, r), s')"
  shows "r \<noteq> Inl OutOfFuel"
proof (cases "loader rt (fold setenv (EnvVars opts) (environ s)) project content")
  case (Inl m)
  with deploy_run [OF assms(3)] show ?thesis by auto
next
  case (Inr cfg)
  have "finishes (do { r \<leftarrow> deploy_preflight e cfg (PullImages opts);
      or_fail r (\<lambda>_. deploy_apply fuel e rt project cfg (PreserveContainerNames opts) hook) })"
    unfolding deploy_preflight_def by (intro finish_rules finishes_deploy_apply assms)
  then have parsed: "snd (fst (run_state (deploy_parsed fuel e rt project cfg opts hook) s0)) \<noteq> Inl OutOfFuel" for s0
    unfolding finishes_def deploy_parsed_def Let_def
    by (cases "validateServices cfg") (auto split: prod.splits, metis fst_conv)
  from deploy_run [OF assms(3)] Inr show ?thesis
    using parsed by (metis fst_conv snd_conv sum.case(2))
qed

text \<open>C27: Every deployment ends: with a clock that does not stand still, 302 turns are enough for
  every loop of a deployment, so its result is success or an error of the code.\<close>

theorem Deploy_returns:
  assumes "steady_clock e" and "302 \<le> fuel"
    and "run_state (DeployWithResult fuel e rt project content opts hook) s = ((warnings, r), s')"
  shows "r \<noteq> Inl OutOfFuel"
  using assms by (rule deploy_finishes)

section \<open>What a container is attached to\<close>

text \<open>An external network is attached under the name that the preflight checked, but an
  external volume is not: the check looks at the name of the volume, and the container mounts the
  volume \<open>project_key\<close>, which the daemon creates empty when it is missing.\<close>

theorem external_references:
  assumes "map_of (c_Networks cfg) k = Some n" and "nw_External n"
    and "map_of (c_Volumes cfg) (vc_Source v) = Some vcfg" and "vol_External vcfg"
    and "external_name (vc_Source v) (vol_Name vcfg) \<noteq> project @ ''_'' @ vc_Source v"
    and "vc_Source v \<noteq> []" and "vc_Type v = ''volume''"
  shows "qualifyNetwork project (c_Networks cfg) k = external_name k (nw_Name n) \<and>
    m_Source (service_mount project cfg v) = project @ ''_'' @ vc_Source v \<and>
    m_Source (service_mount project cfg v) \<noteq> external_name (vc_Source v) (vol_Name vcfg)"
  using assms by (simp add: qualifyNetwork_def external_name_def service_mount_def)

lemma emits_ensure_default:
  assumes "nets \<noteq> []" and "''default'' \<notin> fst ` set nets"
  shows "emits (\<lambda>q. \<forall>d ls. q \<noteq> NetworkCreate (project @ ''_default'') d ls) (ensureNetworks e project nets)"
  unfolding ensureNetworks_def Let_def
  by (intro emit_rules) (use assms in \<open>force simp: image_iff\<close>)+

text \<open>A service without networks is attached to the default network of the project, which the
  engine never creates when the file declares only other networks.\<close>

theorem default_network_missing:
  assumes "c_Networks cfg \<noteq> []" and "''default'' \<notin> fst ` set (c_Networks cfg)" and "s_Networks svc = []"
    and "run_state (ensureNetworks e project (c_Networks cfg)) s = (r, s')"
  shows "k_NetworkMode (container_spec_of rt project cfg svc env mounts) = project @ ''_default'' \<and>
    (\<exists>new. trace s' = trace s @ new \<and> (\<forall>(q, ok) \<in> set new. \<forall>d ls. q \<noteq> NetworkCreate (project @ ''_default'') d ls))"
proof
  have "map_of (c_Networks cfg) ''default'' = None" using assms(2) by (simp add: map_of_eq_None_iff)
  then show "k_NetworkMode (container_spec_of rt project cfg svc env mounts) = project @ ''_default''"
    using assms(3) by (simp add: container_spec_of_def networks_order_def qualifyNetwork_def Let_def)
  from emitsD [OF emits_ensure_default [OF assms(1,2)] assms(4)]
  show "\<exists>new. trace s' = trace s @ new \<and> (\<forall>(q, ok) \<in> set new. \<forall>d ls. q \<noteq> NetworkCreate (project @ ''_default'') d ls)"
    by blast
qed

section \<open>Listing projects\<close>

definition in_project :: "string \<Rightarrow> container_summary \<Rightarrow> bool" where
  "in_project p c \<longleftrightarrow> label_of c LabelProject = p"

lemma group_containers_Cons:
  "group_containers (c # cs) acc =
     (if label_of c LabelProject = [] then group_containers cs acc
      else group_containers cs (AList.update (label_of c LabelProject)
        (count_container c (case map_of acc (label_of c LabelProject) of Some s \<Rightarrow> s | None \<Rightarrow> empty_info (label_of c LabelProject))) acc))"
  by (simp add: Let_def)

declare group_containers.simps(2) [simp del]

lemma group_containers_lookup:
  assumes "p \<noteq> []"
  shows "map_of (group_containers cs acc) p =
    (case filter (in_project p) cs of
       [] \<Rightarrow> map_of acc p
     | mine \<Rightarrow> Some (fold count_container mine (case map_of acc p of Some s \<Rightarrow> s | None \<Rightarrow> empty_info p)))"
proof (induction cs arbitrary: acc)
  case (Cons c cs)
  with assms show ?case
    by (auto simp: group_containers_Cons in_project_def update_conv' split: list.splits)
qed simp

lemma group_containers_keys:
  assumes "distinct (map fst acc)"
  shows "distinct (map fst (group_containers cs acc)) \<and>
   fst ` set (group_containers cs acc) = fst ` set acc \<union> {p. p \<noteq> [] \<and> (\<exists>c \<in> set cs. in_project p c)}"
  using assms
proof (induction cs arbitrary: acc)
  case (Cons c cs)
  then show ?case
    by (auto simp: group_containers_Cons distinct_update AList.dom_update in_project_def)
qed simp

lemma count_all:
  fixes s :: stack_info
  shows "si_Name (fold count_container cs s) = si_Name s"
    and "si_Containers (fold count_container cs s) = si_Containers s + int (length cs)"
    and "si_Running (fold count_container cs s) = si_Running s + int (length (filter (\<lambda>c. ct_State c = ''running'') cs))"
    and "set (si_Services (fold count_container cs s)) = set (si_Services s) \<union> {v. v \<noteq> [] \<and> (\<exists>c \<in> set cs. label_of c LabelService = v)}"
    and "distinct (si_Services s) \<Longrightarrow> distinct (si_Services (fold count_container cs s))"
  by (induction cs arbitrary: s) (auto simp: count_container_def Let_def)

lemma fold_count_status: "si_Status (fold count_container cs s) = si_Status s"
  by (induction cs arbitrary: s) (auto simp: count_container_def Let_def)

text \<open>The list of stacks has one entry for every project label in use.  Its counts are those of
  the containers with this label, its services are their service labels without repetitions, and its
  status is inactive when none of them runs, active when all do, and partial otherwise.\<close>

theorem Standalone_List_groups:
  assumes "api_ContainerList e True [LabelProject] (world s) = (Inr cs, w)"
    and "run_state (Standalone_List e) s = (Inr infos, s')"
  shows "distinct (map si_Name infos) \<and>
    set (map si_Name infos) = {p. p \<noteq> [] \<and> (\<exists>c \<in> set cs. in_project p c)} \<and>
    (\<forall>i \<in> set infos. let mine = filter (in_project (si_Name i)) cs; up = filter (\<lambda>c. ct_State c = ''running'') mine in
       si_Containers i = int (length mine) \<and> si_Running i = int (length up) \<and>
       distinct (si_Services i) \<and> set (si_Services i) = {v. v \<noteq> [] \<and> (\<exists>c \<in> set mine. label_of c LabelService = v)} \<and>
       si_Status i = (if up = [] then ''inactive'' else if length up = length mine then ''active'' else ''partial''))"
proof -
  define gs where "gs = group_containers cs []"
  have infos: "infos = map (\<lambda>(_, s). s\<lparr>si_Status := stack_status s\<rparr>) gs"
    using assms by (auto simp: Standalone_List_def docker_run gs_def)
  have dist: "distinct (map fst gs)" and keys: "fst ` set gs = {p. p \<noteq> [] \<and> (\<exists>c \<in> set cs. in_project p c)}"
    using group_containers_keys [of "[]" cs] by (simp_all add: gs_def)
  have entry: "g = fold count_container (filter (in_project p) cs) (empty_info p) \<and> filter (in_project p) cs \<noteq> []"
    if "(p, g) \<in> set gs" for p g
  proof -
    have lookup: "map_of gs p = Some g" using dist that by simp
    have "p \<noteq> []" using keys that by force
    from group_containers_lookup [OF this, of cs "[]"] lookup show ?thesis
      by (auto simp: gs_def split: list.splits)
  qed
  have name: "si_Name g = p" if "(p, g) \<in> set gs" for p g
    using entry [OF that] by (simp add: count_all empty_info_def)
  have names: "map si_Name infos = map fst gs"
    unfolding infos by (auto simp: name)
  have each: "let mine = filter (in_project (si_Name i)) cs; up = filter (\<lambda>c. ct_State c = ''running'') mine in
       si_Containers i = int (length mine) \<and> si_Running i = int (length up) \<and>
       distinct (si_Services i) \<and> set (si_Services i) = {v. v \<noteq> [] \<and> (\<exists>c \<in> set mine. label_of c LabelService = v)} \<and>
       si_Status i = (if up = [] then ''inactive'' else if length up = length mine then ''active'' else ''partial'')"
    if "i \<in> set infos" for i
  proof -
    from that obtain p g where g: "(p, g) \<in> set gs" "i = g\<lparr>si_Status := stack_status g\<rparr>" unfolding infos by auto
    show ?thesis
      using entry [OF g(1)] name [OF g(1)] unfolding g(2)
      by (simp add: Let_def count_all empty_info_def stack_status_def)
  qed
  from dist keys names each show ?thesis by (simp add: set_map [symmetric] del: set_map)
qed

section \<open>A small daemon\<close>

text \<open>A daemon with a list of running containers, a clock that moves with every sleep, one external
  network and one managed volume, and a stack of two services.\<close>

definition demo_info :: container_info where
  "demo_info = \<lparr>in_State = Some \<lparr>st_Status = ''running'', st_Running = True, st_ExitCode = 0, st_Error = [], st_Health = None, st_HealthLog = []\<rparr>,
     in_RestartCount = 0, in_Name = [], in_Image = [], in_Config = None, in_Mounts = [], in_Networks = None\<rparr>"

definition demo_container :: "string \<Rightarrow> string \<Rightarrow> string \<Rightarrow> container_summary" where
  "demo_container i name svc =
     \<lparr>ct_ID = i, ct_Names = [''/'' @ name], ct_State = ''running'', ct_Labels = [(LabelProject, ''app''), (LabelService, svc)],
      ct_Mounts = [], ct_Networks = None\<rparr>"

definition demo_docker :: "(int \<times> container_summary list) sdk" where
  "demo_docker =
     \<lparr>api_NetworkInspect = (\<lambda>n w. (if n = ''proxy'' then Inr () else Inl (NotFound ''no network''), w)),
      api_VolumeInspect = (\<lambda>n w. (Inl (NotFound ''no volume''), w)),
      api_ImagePull = (\<lambda>n w. (Inr (), w)),
      api_ContainerList = (\<lambda>a fs (t, cs). (Inr (if length fs = 2 then filter (\<lambda>c. last fs = LabelService @ ''='' @ label_of c LabelService) cs else cs), (t, cs))),
      api_ContainerInspect = (\<lambda>i w. (Inr demo_info, w)),
      api_ContainerLogs = (\<lambda>i n w. (Inr [], w)),
      api_NetworkList = (\<lambda>fs w. (Inr [], w)),
      api_VolumeList = (\<lambda>fs w. (Inr [\<lparr>vu_Name = ''app_data'', vu_Size = Some 1\<rparr>], w)),
      api_ContainerStop = (\<lambda>i w. (Inr (), w)),
      api_ContainerStart = (\<lambda>i w. (Inr (), w)),
      api_ContainerRemove = (\<lambda>i f v (t, cs). (Inr (), (t, filter (\<lambda>c. ct_ID c \<noteq> i) cs))),
      api_ContainerCreate = (\<lambda>n k (t, cs). (Inr n, (t, cs @ [demo_container n n (case map_of (k_Labels k) LabelService of Some s \<Rightarrow> s | None \<Rightarrow> [])]))),
      api_ContainerRename = (\<lambda>i n w. (Inr (), w)),
      api_NetworkCreate = (\<lambda>n d ls w. (Inr (), w)),
      api_NetworkConnect = (\<lambda>n i as w. (Inr (), w)),
      api_NetworkRemove = (\<lambda>n w. (Inr (), w)),
      api_VolumeCreate = (\<lambda>n d ls w. (Inr (), w)),
      api_VolumeRemove = (\<lambda>n f w. (Inr (), w)),
      clock_now = fst,
      sleep_for = (\<lambda>d (t, cs). (t + max 0 d, cs)),
      ctx_error = (\<lambda>w. None)\<rparr>"

definition demo_stack :: compose_config where
  "demo_stack =
     \<lparr>c_Services = [no_service\<lparr>s_Name := ''web'', s_Image := ''nginx'', s_DependsOn := [\<lparr>dep_Service = ''db'', dep_Condition = []\<rparr>]\<rparr>,
                    no_service\<lparr>s_Name := ''db'', s_Image := ''postgres''\<rparr>],
      c_Networks = [(''front'', no_network\<lparr>nw_Name := ''proxy'', nw_External := True\<rparr>)], c_Volumes = []\<rparr>"

definition demo_runtime :: runtime where
  "demo_runtime = \<lparr>loader = (\<lambda>env project content. if env ''TAG'' = None then Inl ''TAG is not set'' else Inr demo_stack),
     rat_of_string = (\<lambda>s. None), grow_cap = (\<lambda>c n. n)\<rparr>"

definition demo_engine :: "(int \<times> container_summary list) engine" where
  "demo_engine = \<lparr>world = (0, [demo_container ''c1'' ''old'' ''web'', demo_container ''c2'' ''swirl-previous'' ''web'']), trace = [], environ = Map.empty\<rparr>"

definition demo_options :: deploy_options where
  "demo_options = \<lparr>PullImages = True, EnvVars = [(''TAG'', ''1'')], PreserveContainerNames = [''swirl-previous'']\<rparr>"

abbreviation demo_run :: "(string list \<times> (engine_error + unit)) \<times> (int \<times> container_summary list) engine" where
  "demo_run \<equiv> run_state (DeployWithResult 302 demo_docker demo_runtime ''app'' [] demo_options None) demo_engine"

lemma demo_deploy: "fst demo_run = ([], Inr ())"
  by code_simp

lemma demo_changes: "\<exists>q ok. (q, ok) \<in> set (trace (snd demo_run)) \<and> mutating q"
proof -
  have "list_ex (\<lambda>(q, ok). mutating q) (trace (snd demo_run))" by code_simp
  then show ?thesis by (auto simp: list_ex_iff)
qed

lemma demo_loader: "loader demo_runtime (fold setenv (EnvVars demo_options) (environ demo_engine)) ''app'' [] = Inr demo_stack"
  by code_simp

lemma demo_steady: "steady_clock demo_docker"
  by (simp add: steady_clock_def demo_docker_def)

text \<open>The daemon that always lists the same two containers.\<close>

definition listing_docker :: "(int \<times> container_summary list) sdk" where
  "listing_docker = demo_docker\<lparr>api_ContainerList := \<lambda>a fs w. (Inr (snd (world demo_engine)), w)\<rparr>"

lemma listing_preserved: "always_preserved listing_docker ''app'' [''swirl-previous''] ''c2''"
  by (auto simp: always_preserved_def listing_docker_def demo_engine_def preserved_def demo_container_def trim_slash_def
      trim_prefix_def has_prefix_def)

theorem Deploy_checks_first_witness:
  "\<exists>pre post. trace (snd demo_run) = trace demo_engine @ pre @ post \<and> (\<forall>(q, ok) \<in> set pre. \<not> mutating q) \<and>
    post \<noteq> [] \<and> validateServices demo_stack = Inr () \<and> all_checked demo_stack True (set pre)"
proof -
  obtain pre post where t: "trace (snd demo_run) = trace demo_engine @ pre @ post" "\<forall>(q, ok) \<in> set pre. \<not> mutating q"
    and c: "post \<noteq> [] \<longrightarrow> (\<exists>cfg. loader demo_runtime (fold setenv (EnvVars demo_options) (environ demo_engine)) ''app'' [] = Inr cfg \<and>
       validateServices cfg = Inr () \<and> all_checked cfg (PullImages demo_options) (set pre))"
    using Deploy_checks_first [OF prod.collapse [symmetric], of 302 demo_docker demo_runtime "''app''" "[]" demo_options None demo_engine]
    by blast
  have "post \<noteq> []"
  proof
    assume "post = []"
    with t demo_changes show False by (auto simp: demo_engine_def)
  qed
  with t c demo_loader show ?thesis by (auto simp: demo_options_def)
qed

theorem Deploy_preserves_witness:
  "always_preserved listing_docker ''app'' [''swirl-previous''] ''c2'' \<and>
   (\<exists>new. trace (snd (run_state (DeployWithResult 302 listing_docker demo_runtime ''app'' [] demo_options None) demo_engine)) =
     trace demo_engine @ new \<and> (\<forall>(q, ok) \<in> set new. \<not> hits_container ''c2'' q))"
  using listing_preserved
    Deploy_preserves [OF prod.collapse [symmetric], of listing_docker "''app''" demo_options "''c2''" 302 demo_runtime "[]" None demo_engine]
  by (simp add: demo_options_def)

theorem RemoveExcept_spares_witness:
  "foreign_volume demo_docker ''app'' ''shared'' \<and>
   (\<exists>new. trace (snd (run_state (RemoveExcept listing_docker ''app'' True [''swirl-previous''] []) demo_engine)) =
     trace demo_engine @ new \<and> (\<forall>(q, ok) \<in> set new. \<not> hits_container ''c2'' q \<and> \<not> removes_anonymous ''c2'' q \<and> \<not> removes_volume ''shared'' q))"
proof -
  have "foreign_volume demo_docker ''app'' ''shared''" "foreign_volume listing_docker ''app'' ''shared''"
    by (simp_all add: foreign_volume_def demo_docker_def listing_docker_def)
  with RemoveExcept_spares [OF prod.collapse [symmetric] listing_preserved, of True "''shared''" "[]" demo_engine] show ?thesis
    by simp
qed

theorem Deploy_never_removes_data_witness:
  "\<exists>new. trace (snd demo_run) = trace demo_engine @ new \<and>
     (\<forall>(q, ok) \<in> set new. \<not> removes_volume ''app_data'' q \<and> q \<noteq> NetworkRemove ''n1'')"
  by (rule Deploy_never_removes_data [OF prod.collapse [symmetric]])

theorem Deploy_creates_in_order_witness:
  "\<exists>new cfg order. trace (snd demo_run) = trace demo_engine @ new \<and>
    loader demo_runtime (fold setenv (EnvVars demo_options) (environ demo_engine)) ''app'' [] = Inr cfg \<and>
    topologicalOrder (c_Services cfg) = Inr order \<and>
    created new = map (\<lambda>n. container_name ''app'' (service_by_name (c_Services cfg) n)) order"
proof -
  have "demo_run = (([], Inr ()), snd demo_run)"
    by (rule prod_eqI) (simp_all only: demo_deploy fst_conv snd_conv)
  from Deploy_creates_in_order [OF this] show ?thesis .
qed

theorem Deploy_environment_witness:
  "environ (snd (run_state (DeployWithResult 302 demo_docker demo_runtime ''app'' [] demo_options None)
      (demo_engine\<lparr>environ := [''TAG'' \<mapsto> ''0'']\<rparr>))) ''TAG'' = None"
  by (subst Deploy_environment [OF prod.collapse [symmetric]]) (simp add: demo_options_def)

lemma demo_wait:
  "fst (run_state (waitForDependency 1 demo_docker ''app'' \<lparr>dep_Service = ''web'', dep_Condition = []\<rparr>) demo_engine) = Inr ()"
  by code_simp

theorem waitForDependency_success_witness:
  "\<exists>s' w w1 c cs info st.
    run_state (waitForDependency 1 demo_docker ''app'' \<lparr>dep_Service = ''web'', dep_Condition = []\<rparr>) demo_engine = (Inr (), s') \<and>
    api_ContainerList demo_docker True (dependency_filters ''app'' ''web'') w = (Inr (c # cs), w1) \<and>
    api_ContainerInspect demo_docker (ct_ID c) w1 = (Inr info, world s') \<and> in_State info = Some st \<and>
    (st_Running st \<or> st_Health st = Some ''healthy'')"
proof -
  obtain s' where s': "run_state (waitForDependency 1 demo_docker ''app'' \<lparr>dep_Service = ''web'', dep_Condition = []\<rparr>) demo_engine = (Inr (), s')"
    using demo_wait by (metis prod.collapse)
  from waitForDependency_success [OF this] s' show ?thesis
    by (fastforce simp: effective_condition_def)
qed

abbreviation demo_verify :: "(engine_error + unit) \<times> (int \<times> container_summary list) engine" where
  "demo_verify \<equiv> run_state (verifyRunning 12 demo_docker demo_runtime ''c1'' ''web'') demo_engine"

lemma demo_verified: "fst demo_verify = Inr ()"
  by code_simp

theorem verifyRunning_outcome_witness:
  "\<exists>w a w1. api_ContainerInspect demo_docker ''c1'' w = (a, w1) \<and> fst demo_verify = Inr () \<and> world (snd demo_verify) = w1 \<and>
    (\<forall>info. a = Inr info \<longrightarrow> crashed info = None)"
proof -
  have "demo_verify = (Inr (), snd demo_verify)"
    by (rule prod_eqI) (simp_all only: demo_verified fst_conv snd_conv)
  from verifyRunning_outcome [OF demo_steady _ this] demo_verified show ?thesis by fastforce
qed

theorem Deploy_returns_witness:
  "snd (fst (run_state (DeployWithResult 302 demo_docker demo_runtime ''app'' [] demo_options None) (demo_engine\<lparr>world := (7, [])\<rparr>)))
    \<noteq> Inl OutOfFuel"
  by (rule Deploy_returns [OF demo_steady, of 302 demo_runtime "''app''" "[]" demo_options None _
      "fst (fst (run_state (DeployWithResult 302 demo_docker demo_runtime ''app'' [] demo_options None) (demo_engine\<lparr>world := (7, [])\<rparr>)))"
      _ "snd (run_state (DeployWithResult 302 demo_docker demo_runtime ''app'' [] demo_options None) (demo_engine\<lparr>world := (7, [])\<rparr>))"])
    simp_all

text \<open>An external volume \<open>data\<close> next to the external network of the stack.\<close>

definition demo_external :: compose_config where
  "demo_external = demo_stack\<lparr>c_Volumes := [(''data'', \<lparr>vol_Name = ''data'', vol_Driver = [], vol_DriverOpts = None, vol_External = True, vol_Labels = []\<rparr>)]\<rparr>"

theorem external_references_witness:
  "m_Source (service_mount ''app'' demo_external (no_volume\<lparr>vc_Type := ''volume'', vc_Source := ''data'', vc_Target := ''/d''\<rparr>)) = ''app_data'' \<and>
   qualifyNetwork ''app'' (c_Networks demo_external) ''front'' = ''proxy''"
  using external_references [of demo_external "''front''" "no_network\<lparr>nw_Name := ''proxy'', nw_External := True\<rparr>"
      "no_volume\<lparr>vc_Type := ''volume'', vc_Source := ''data'', vc_Target := ''/d''\<rparr>"
      "\<lparr>vol_Name = ''data'', vol_Driver = [], vol_DriverOpts = None, vol_External = True, vol_Labels = []\<rparr>" "''app''"]
  by (simp add: demo_external_def demo_stack_def external_name_def no_network_def)

theorem default_network_missing_witness:
  "k_NetworkMode (container_spec_of demo_runtime ''app'' demo_stack (no_service\<lparr>s_Name := ''db''\<rparr>) [] []) = ''app_default'' \<and>
   (\<exists>new. trace (snd (run_state (ensureNetworks demo_docker ''app'' (c_Networks demo_stack)) demo_engine)) = trace demo_engine @ new \<and>
     (\<forall>(q, ok) \<in> set new. \<forall>d ls. q \<noteq> NetworkCreate ''app_default'' d ls))"
  using default_network_missing [where cfg = demo_stack and svc = "no_service\<lparr>s_Name := ''db''\<rparr>" and e = demo_docker
      and project = "''app''" and s = demo_engine and rt = demo_runtime and env = "[]" and mounts = "[]",
      OF _ _ _ prod.collapse [symmetric]]
  by (simp add: demo_stack_def no_service_def)

theorem Standalone_List_groups_witness:
  "\<exists>infos. fst (run_state (Standalone_List demo_docker) demo_engine) = Inr infos \<and> map si_Status infos = [''active''] \<and>
    set (map si_Name infos) = {p. p \<noteq> [] \<and> (\<exists>c \<in> set (snd (world demo_engine)). in_project p c)}"
proof -
  have "fst (run_state (Standalone_List demo_docker) demo_engine) =
    Inr [\<lparr>si_Name = ''app'', si_Services = [''web''], si_Containers = 2, si_Running = 2, si_Status = ''active''\<rparr>]" (is "_ = Inr ?infos")
    by code_simp
  moreover have "api_ContainerList demo_docker True [LabelProject] (world demo_engine) = (Inr (snd (world demo_engine)), world demo_engine)"
    by (simp add: demo_docker_def demo_engine_def)
  ultimately show ?thesis
    using Standalone_List_groups [of demo_docker demo_engine "snd (world demo_engine)" "world demo_engine" ?infos
        "snd (run_state (Standalone_List demo_docker) demo_engine)"]
    by (auto simp: prod_eq_iff)
qed

end
