(* ===== verification/MachineRules.thy ===== *)
theory MachineRules
  imports SelfDeployChecks DeployTheorems
begin

text \<open>
  Reasoning about programs on the \<open>machine\<close> of SelfDeployFiles: which calls they make of the daemon,
  what they do to the files, and how files behave on a disk that works.
\<close>

section \<open>Calls of the daemon\<close>

text \<open>Whatever the machine, the program appends calls with the property to the trace.\<close>

definition traced :: "(request \<Rightarrow> bool) \<Rightarrow> ('w, 'a) mprog \<Rightarrow> bool" where
  "traced P m \<longleftrightarrow> (\<forall>s. \<exists>new. trace (m_engine (snd (run_state m s))) = trace (m_engine s) @ new \<and> (\<forall>(q, ok) \<in> set new. P q))"

named_theorems trace_rules

lemma traced_return [trace_rules]: "traced P (State_Monad.return x)"
  by (simp add: traced_def)

lemma traced_bind [trace_rules]:
  assumes "traced P m" "\<And>x. traced P (f x)"
  shows "traced P (State_Monad.bind m f)"
  unfolding traced_def
proof
  fix s
  obtain x s1 where m: "run_state m s = (x, s1)" by fastforce
  with assms(1) obtain new1 where "trace (m_engine s1) = trace (m_engine s) @ new1" "\<forall>(q, ok) \<in> set new1. P q"
    unfolding traced_def by (metis snd_conv)
  moreover from assms(2) obtain new2 where
    "trace (m_engine (snd (run_state (f x) s1))) = trace (m_engine s1) @ new2" "\<forall>(q, ok) \<in> set new2. P q"
    unfolding traced_def by meson
  ultimately show "\<exists>new. trace (m_engine (snd (run_state (State_Monad.bind m f) s))) = trace (m_engine s) @ new \<and> (\<forall>(q, ok) \<in> set new. P q)"
    using m by (auto intro!: exI [of _ "new1 @ new2"])
qed

lemma traced_or_fail [trace_rules]: "(\<And>x. r = Inr x \<Longrightarrow> traced P (f x)) \<Longrightarrow> traced P (or_fail r f)"
  by (cases r) (simp_all add: traced_return)

lemma traced_if [trace_rules]: "(b \<Longrightarrow> traced P f) \<Longrightarrow> (\<not> b \<Longrightarrow> traced P g) \<Longrightarrow> traced P (if b then f else g)"
  by simp

lemma traced_sum [trace_rules]:
  "(\<And>a. x = Inl a \<Longrightarrow> traced P (f a)) \<Longrightarrow> (\<And>b. x = Inr b \<Longrightarrow> traced P (g b)) \<Longrightarrow> traced P (case x of Inl a \<Rightarrow> f a | Inr b \<Rightarrow> g b)"
  by (simp split: sum.split)

lemma traced_option [trace_rules]:
  "(x = None \<Longrightarrow> traced P f) \<Longrightarrow> (\<And>b. x = Some b \<Longrightarrow> traced P (g b)) \<Longrightarrow> traced P (case x of None \<Rightarrow> f | Some b \<Rightarrow> g b)"
  by (simp split: option.split)

lemma traced_list [trace_rules]:
  "traced P f \<Longrightarrow> (\<And>y ys. x = y # ys \<Longrightarrow> traced P (g y ys)) \<Longrightarrow> traced P (case x of [] \<Rightarrow> f | y # ys \<Rightarrow> g y ys)"
  by (simp split: list.split)

lemma traced_prod [trace_rules]: "(\<And>a b. x = (a, b) \<Longrightarrow> traced P (f a b)) \<Longrightarrow> traced P (case x of (a, b) \<Rightarrow> f a b)"
  by (simp split: prod.split)

lemma traced_error [trace_rules]:
  "(\<And>m. x = Err m \<Longrightarrow> traced P (f m)) \<Longrightarrow> (x = OutOfFuel \<Longrightarrow> traced P g) \<Longrightarrow> traced P (case x of Err m \<Rightarrow> f m | OutOfFuel \<Rightarrow> g)"
  by (simp split: engine_error.split)

lemma traced_engine:
  assumes "\<And>s. \<exists>new. trace (snd (run_state p s)) = trace s @ new \<and> (\<forall>(q, ok) \<in> set new. P q)"
  shows "traced P (on_engine p)"
  unfolding traced_def
proof
  fix s :: "'a machine"
  show "\<exists>new. trace (m_engine (snd (run_state (on_engine p) s))) = trace (m_engine s) @ new \<and> (\<forall>(q, ok) \<in> set new. P q)"
    using assms [of "m_engine s"] by (cases "run_state p (m_engine s)") (simp add: on_engine_def)
qed

lemma traced_emits [trace_rules]: "emits P p \<Longrightarrow> traced P (on_engine p)"
  by (rule traced_engine) (auto simp: emits_def runs_def)

lemma traced_silent: "(\<And>s. trace (snd (run_state p s)) = trace s) \<Longrightarrow> traced P (on_engine p)"
  by (rule traced_engine) simp

lemma traced_quiet [trace_rules]:
  "traced P (on_engine (State (\<lambda>s. (f s, s))))" "traced P (on_engine (observe f'))"
  "traced P (on_engine (State (\<lambda>e. case g (world e) of (r, w) \<Rightarrow> (r, e\<lparr>world := w\<rparr>))))"
  "traced P (on_engine (change_environ h))"
  by (rule traced_silent, simp add: change_environ_def split: prod.split)+

lemma traced_pure [trace_rules]: "traced P (get_file path)" "traced P (put_file path c)"
  by (simp_all add: traced_def get_file_def put_file_def)

lemma traced_io [trace_rules]: "traced P (io_call sys q)" "traced P (time_Now sys)"
  unfolding io_call_def time_Now_def by (rule trace_rules)+

lemma traced_files [trace_rules]:
  "traced P (os_ReadFile sys path)" "traced P (os_Stat sys path)" "traced P (os_Remove sys path)"
  "traced P (os_CreateExclusive sys path c)"
  unfolding os_ReadFile_def os_Stat_def os_Remove_def os_CreateExclusive_def try_io_def by (intro trace_rules)+

lemma traced_temp_step [trace_rules]:
  "traced P act \<Longrightarrow> traced P rest \<Longrightarrow> traced P (temp_step sys q tmp msg act rest)"
  unfolding temp_step_def by (intro trace_rules)

lemma traced_atomicWriteFile [trace_rules]: "traced P (atomicWriteFile sys pkg path c)"
  unfolding atomicWriteFile_def by (intro trace_rules)

lemma tracedD:
  assumes "traced P m" and "run_state m s = (r, s')"
  shows "\<exists>new. trace (m_engine s') = trace (m_engine s) @ new \<and> (\<forall>(q, ok) \<in> set new. P q)"
  using assms unfolding traced_def by (metis snd_conv)

lemma traced_nothing: "traced (\<lambda>_. False) p \<Longrightarrow> trace (m_engine (snd (run_state p m))) = trace (m_engine m)"
proof -
  assume "traced (\<lambda>_. False) p"
  from tracedD [OF this prod.collapse [symmetric]] obtain new where
    new: "trace (m_engine (snd (run_state p m))) = trace (m_engine m) @ new" "\<forall>(q, ok) \<in> set new. False" by blast
  then have "new = []" by (cases new) auto
  with new show ?thesis by simp
qed

section \<open>Files\<close>

text \<open>Running the primitives.\<close>

lemma io_call_run:
  "run_state (io_call sys q) m =
     (fst (sys_io sys q (world (m_engine m))), m\<lparr>m_engine := (m_engine m)\<lparr>world := snd (sys_io sys q (world (m_engine m)))\<rparr>\<rparr>)"
  by (simp add: io_call_def on_engine_def split: prod.splits)

lemma get_file_run [simp]: "run_state (get_file path) m = (m_files m path, m)"
  by (simp add: get_file_def)

lemma put_file_run [simp]: "run_state (put_file path c) m = ((), m\<lparr>m_files := (m_files m)(path := c)\<rparr>)"
  by (simp add: put_file_def)

lemma time_Now_run [simp]: "run_state (time_Now sys) m = (clock_now (sys_sdk sys) (world (m_engine m)), m)"
  by (simp add: time_Now_def on_engine_def)

text \<open>A disk that works: no call fails.\<close>

definition disk_ok :: "'w system \<Rightarrow> bool" where
  "disk_ok sys \<longleftrightarrow> (\<forall>q w. fst (sys_io sys q w) = None)"

lemma io_call_ok: "disk_ok sys \<Longrightarrow> fst (run_state (io_call sys q) m) = None"
  by (simp add: io_call_run disk_ok_def)

lemma io_call_disk:
  assumes "disk_ok sys"
  obtains w where "run_state (io_call sys q) m = (None, m\<lparr>m_engine := (m_engine m)\<lparr>world := w\<rparr>\<rparr>)"
  using assms by (auto simp: io_call_run disk_ok_def)

text \<open>What a system call leaves alone.\<close>

lemma io_call_keeps:
  assumes "run_state (io_call sys q) m = (f, m')"
  shows "m_files m' = m_files m" "m_writer m' = m_writer m"
  using assms by (auto simp: io_call_run)

lemma os_Remove_files:
  "m_files (snd (run_state (os_Remove sys path) m)) =
     (if fst (run_state (os_Remove sys path) m) = Inr () then (m_files m)(path := None) else m_files m)"
  "fst (run_state (os_Remove sys path) m) = Inr () \<Longrightarrow> m_files m path \<noteq> None"
  by (auto simp: os_Remove_def try_io_def io_call_run split: option.splits)

lemma temp_step_files:
  assumes "run_state (temp_step sys q tmp msg act rest) m = (r, m')"
  obtains (failed) e where "r = Inl e" "\<forall>p. p \<noteq> tmp \<longrightarrow> m_files m' p = m_files m p"
  | (success) x m1 m2 where "run_state act m1 = (x, m2)" "m_files m1 = m_files m" "m_writer m1 = m_writer m" "run_state rest m2 = (r, m')"
proof -
  obtain f m1 where f: "run_state (io_call sys q) m = (f, m1)" by fastforce
  show ?thesis
  proof (cases f)
    case None
    obtain x m2 where x: "run_state act m1 = (x, m2)" by (cases "run_state act m1")
    with assms f None have "run_state rest m2 = (r, m')" by (simp add: temp_step_def)
    with success [OF x] io_call_keeps [OF f] show ?thesis by blast
  next
    case (Some e)
    obtain x m2 where x: "run_state (os_Remove sys tmp) m1 = (x, m2)" by fastforce
    with assms f Some have "r = Inl (msg @ fs_text e)" "m' = m2" by (simp_all add: temp_step_def)
    moreover have "\<forall>p. p \<noteq> tmp \<longrightarrow> m_files m2 p = m_files m p"
      using os_Remove_files(1) [of sys tmp m1] x io_call_keeps [OF f] by (auto split: if_splits)
    ultimately show ?thesis using failed by blast
  qed
qed

lemma atomicWriteFile_files:
  assumes run: "run_state (atomicWriteFile sys pkg path c) m = (r, m')"
    and tmp: "sys_temp sys path (world (m_engine m)) = tmp"
  shows "p \<noteq> tmp \<Longrightarrow> p \<noteq> path \<Longrightarrow> m_files m' p = m_files m p"
    and "r = Inr () \<Longrightarrow> m_files m' path = Some c"
    and "r = Inl e \<Longrightarrow> tmp \<noteq> path \<Longrightarrow> m_files m' path = m_files m path"
proof -
  have "(\<forall>p. p \<noteq> tmp \<longrightarrow> p \<noteq> path \<longrightarrow> m_files m' p = m_files m p) \<and>
    (case r of Inr _ \<Rightarrow> m_files m' path = Some c | Inl _ \<Rightarrow> \<forall>p. p \<noteq> tmp \<longrightarrow> m_files m' p = m_files m p)"
  proof -
    obtain f m1 where f: "run_state (io_call sys (CreateTemp path)) m = (f, m1)" by fastforce
    note k = io_call_keeps [OF f]
    show ?thesis
    proof (cases f)
      case (Some e)
      with run f k show ?thesis by (auto simp: atomicWriteFile_def on_engine_def tmp)
    next
      case None
      with run f k have "run_state (temp_step sys (WriteTemp tmp) tmp (pkg @ '': write temp: '') (put_file tmp (Some c))
         (temp_step sys (ChmodTemp tmp) tmp (pkg @ '': chmod temp: '') (State_Monad.return ())
           (temp_step sys (CloseTemp tmp) tmp (pkg @ '': close temp: '') (State_Monad.return ())
             (temp_step sys (Rename tmp path) tmp (pkg @ '': rename temp: '')
               (do { _ \<leftarrow> put_file tmp None; put_file path (Some c) })
               (State_Monad.return (Inr ()))))))
         (m1\<lparr>m_files := (m_files m1)(tmp := Some (Bytes []))\<rparr>) = (r, m')"
        by (simp add: atomicWriteFile_def on_engine_def tmp)
      then show ?thesis
        by (elim temp_step_files) (use k in auto)
    qed
  qed
  then show "p \<noteq> tmp \<Longrightarrow> p \<noteq> path \<Longrightarrow> m_files m' p = m_files m p"
    and "r = Inr () \<Longrightarrow> m_files m' path = Some c"
    and "r = Inl e \<Longrightarrow> tmp \<noteq> path \<Longrightarrow> m_files m' path = m_files m path" by auto
qed

lemma disk_okE:
  assumes "disk_ok sys" "run_state (io_call sys q) m = (f, m')"
  shows "f = None"
  using assms by (auto simp: io_call_run disk_ok_def)

lemma temp_step_ok:
  assumes "disk_ok sys" and "\<And>m. fst (run_state rest m) = Inr ()"
  shows "fst (run_state (temp_step sys q tmp msg act rest) m) = Inr ()"
  using assms by (auto simp: temp_step_def split: prod.splits option.splits dest: disk_okE)

lemma atomicWriteFile_ok: "disk_ok sys \<Longrightarrow> fst (run_state (atomicWriteFile sys pkg path c) m) = Inr ()"
  by (auto simp: atomicWriteFile_def on_engine_def split: prod.splits option.splits dest: disk_okE)
    (metis (no_types, lifting) fst_conv run_state_return temp_step_ok)

end
