(* ===== verification/TriggerTheorems.thy ===== *)
theory TriggerTheorems
  imports SelfDeployTrigger MachineRules
begin

text \<open>
  The shared directory and the lock of a self-deploy: atomic writes, what the reclaim of a stale lock
  does, the exclusion of a second deploy and its gap, and the logs of the sidekick.
\<close>

section \<open>Atomic writes\<close>

text \<open>A write of the job or of the state is atomic: whatever system call fails, the file afterwards
  holds the new content if the write reports success and the old content if it reports an error, and
  no other file but the temporary one is touched.\<close>

theorem atomicWriteFile_atomic:
  assumes "run_state (atomicWriteFile sys pkg path c) m = (r, m')"
    and "sys_temp sys path (world (m_engine m)) = tmp" and "tmp \<noteq> path"
  shows "m_files m' path = (case r of Inr _ \<Rightarrow> Some c | Inl _ \<Rightarrow> m_files m path) \<and>
    (\<forall>p. p \<noteq> tmp \<and> p \<noteq> path \<longrightarrow> m_files m' p = m_files m p)"
  using atomicWriteFile_files [OF assms(1,2)] assms(3) by (cases r) auto

section \<open>On a disk that works\<close>

text \<open>The temporary file of a write is none of the files of the directory.\<close>

definition fresh_temps :: "'w system \<Rightarrow> bool" where
  "fresh_temps sys \<longleftrightarrow> (\<forall>path w. sys_temp sys path w \<notin> {jobPath, statePath, lockPath})"

definition keeps_files :: "('w, 'a) mprog \<Rightarrow> bool" where
  "keeps_files p \<longleftrightarrow> (\<forall>m. m_files (snd (run_state p m)) = m_files m)"

lemma keeps_filesD: "keeps_files p \<Longrightarrow> run_state p m = (x, m') \<Longrightarrow> m_files m' = m_files m"
  unfolding keeps_files_def by (metis snd_conv)

lemma keeps_files_bind: "keeps_files p \<Longrightarrow> (\<And>x. keeps_files (f x)) \<Longrightarrow> keeps_files (State_Monad.bind p f)"
  by (auto simp: keeps_files_def split: prod.split) (metis snd_conv)

lemma keeps_files_basic:
  "keeps_files (State_Monad.return x)"
  "keeps_files (on_engine e)" "keeps_files (call g)" "keeps_files (call_sdk q h)" "keeps_files (io_call sys io)"
  "keeps_files (time_Now sys)"
  "(\<And>x. keeps_files (f x)) \<Longrightarrow> keeps_files (or_fail r f)"
  "(\<And>e. keeps_files (f1 e)) \<Longrightarrow> (\<And>y. keeps_files (g1 y)) \<Longrightarrow> keeps_files (case s of Inl e \<Rightarrow> f1 e | Inr y \<Rightarrow> g1 y)"
  "keeps_files p1 \<Longrightarrow> keeps_files p2 \<Longrightarrow> keeps_files (if b then p1 else p2)"
  by (simp_all add: keeps_files_def on_engine_def call_def call_sdk_def io_call_def time_Now_def or_fail_def
      split: prod.split sum.split)

lemmas keeps_files_rules = keeps_files_bind keeps_files_basic

lemma os_Remove_ok:
  assumes "disk_ok sys" "run_state (os_Remove sys path) m = (r, m')"
  shows "m_files m' = (m_files m)(path := None)" "r = (if m_files m path = None then Inl ErrNotExist else Inr ())"
  using assms
  by (auto simp: os_Remove_def try_io_def io_call_run disk_ok_def fun_upd_idem split: option.splits)

lemma os_ReadFile_ok:
  assumes "disk_ok sys" "run_state (os_ReadFile sys path) m = (r, m')"
  shows "m_files m' = m_files m" "r = (case m_files m path of None \<Rightarrow> Inl ErrNotExist | Some c \<Rightarrow> Inr c)"
  using assms by (auto simp: os_ReadFile_def try_io_def io_call_run disk_ok_def split: option.splits)

lemma os_Stat_ok:
  assumes "disk_ok sys" "run_state (os_Stat sys path) m = (r, m')"
  shows "m_files m' = m_files m" "r = (case m_files m path of None \<Rightarrow> Inl ErrNotExist | Some c \<Rightarrow> Inr ())"
  using assms by (auto simp: os_Stat_def try_io_def io_call_run disk_ok_def split: option.splits)

lemma ensureSelfDeployDir_ok:
  assumes "disk_ok sys" "run_state (ensureSelfDeployDir sys) m = (r, m')"
  shows "r = Inr ()" "m_files m' = m_files m"
  using assms by (auto simp: ensureSelfDeployDir_def io_call_run disk_ok_def)

text \<open>Writing one of the files, as far as the files of the directory go.\<close>

lemma atomicWriteFile_dir:
  assumes "disk_ok sys" "fresh_temps sys" "run_state (atomicWriteFile sys pkg path c) m = (r, m')"
    and "p \<in> {jobPath, statePath, lockPath}"
  shows "r = Inr ()" "m_files m' p = (if p = path then Some c else m_files m p)"
proof -
  from atomicWriteFile_ok [OF assms(1), of pkg path c m] assms(3) show r: "r = Inr ()" by simp
  have "p \<noteq> sys_temp sys path (world (m_engine m))"
    using assms(2,4) unfolding fresh_temps_def by blast
  with atomicWriteFile_files(1,2) [OF assms(3) refl] r
  show "m_files m' p = (if p = path then Some c else m_files m p)" by simp
qed

lemma writeSelfDeployState_ok:
  assumes "disk_ok sys" "fresh_temps sys" "run_state (writeSelfDeployState sys st) m = (r, m')"
    and "p \<in> {jobPath, statePath, lockPath}"
  shows "r = Inr ()" "m_files m' p = (if p = statePath then Some (StateFile st) else m_files m p)"
proof -
  obtain d m1 where d: "run_state (ensureSelfDeployDir sys) m = (d, m1)" by fastforce
  note dir = ensureSelfDeployDir_ok [OF assms(1) d]
  with assms(3) d have w: "run_state (atomicWriteFile sys ''self-deploy'' statePath (StateFile st)) m1 = (r, m')"
    by (simp add: writeSelfDeployState_def)
  from atomicWriteFile_dir [OF assms(1,2) w assms(4)] dir(2)
  show "r = Inr ()" "m_files m' p = (if p = statePath then Some (StateFile st) else m_files m p)" by simp_all
qed

lemma writeSelfDeployJob_ok:
  assumes "disk_ok sys" "fresh_temps sys" "run_state (writeSelfDeployJob sys job) m = (r, m')"
    and "p \<in> {jobPath, statePath, lockPath}"
  shows "r = Inr jobPath" "m_files m' p = (if p = jobPath then Some (JobFile job) else m_files m p)"
proof -
  obtain d m1 where d: "run_state (ensureSelfDeployDir sys) m = (d, m1)" by fastforce
  note dir = ensureSelfDeployDir_ok [OF assms(1) d]
  obtain x m2 where w: "run_state (atomicWriteFile sys ''self-deploy'' jobPath (JobFile job)) m1 = (x, m2)" by fastforce
  note at = atomicWriteFile_dir [OF assms(1,2) w assms(4)]
  with assms(3) d dir w have "r = Inr jobPath" "m' = m2" by (auto simp: writeSelfDeployJob_def)
  with at dir(2) show "r = Inr jobPath" "m_files m' p = (if p = jobPath then Some (JobFile job) else m_files m p)" by simp_all
qed

lemma readSelfDeployState_ok:
  assumes "disk_ok sys" "run_state (readSelfDeployState sys) m = (r, m')"
  shows "m_files m' = m_files m"
    "r = (case m_files m statePath of None \<Rightarrow> Inr None
       | Some c \<Rightarrow> (case decode_state c of Inl e \<Rightarrow> Inl (''self-deploy: unmarshal state: '' @ e) | Inr s \<Rightarrow> Inr (Some s)))"
proof -
  obtain x m1 where x: "run_state (os_ReadFile sys statePath) m = (x, m1)" by fastforce
  with os_ReadFile_ok [OF assms(1) x] assms(2) show "m_files m' = m_files m"
    "r = (case m_files m statePath of None \<Rightarrow> Inr None
       | Some c \<Rightarrow> (case decode_state c of Inl e \<Rightarrow> Inl (''self-deploy: unmarshal state: '' @ e) | Inr s \<Rightarrow> Inr (Some s)))"
    by (auto simp: readSelfDeployState_def split: option.splits)
qed

section \<open>The reclaim of a stale lock\<close>

lemma drop_lock_ok:
  assumes "disk_ok sys" "run_state (drop_lock sys) m = (r, m')"
  shows "r = Inr True" "m_files m' = (m_files m)(lockPath := None)"
  using assms os_Remove_ok(1) [OF assms(1)] by (auto simp: drop_lock_def split: prod.splits)

text \<open>The state that the reclaim finds on disk, if there is one that parses.\<close>

definition state_on_disk :: "'w machine \<Rightarrow> self_deploy_state option" where
  "state_on_disk m = (case m_files m statePath of Some (StateFile st) \<Rightarrow> Some st | _ \<Rightarrow> None)"

lemma readSelfDeployState_cases:
  assumes "disk_ok sys" "run_state (readSelfDeployState sys) m = (r, m')"
  shows "r = Inr (Some st) \<longleftrightarrow> state_on_disk m = Some st"
  using readSelfDeployState_ok(2) [OF assms]
  by (auto simp: state_on_disk_def decode_state_def split: option.splits content.splits)

text \<open>The lock is in use as far as the state tells: a deploy is in progress, and without a sidekick to ask for
  or a client to ask with.\<close>

lemma reclaimStaleLock_start:
  assumes "disk_ok sys" "m_files m lockPath \<noteq> None" "run_state (reclaimStaleLock sys has_client) m = (r, m')"
  obtains
    (drop) m1 where "m_files m1 = m_files m" "run_state (drop_lock sys) m1 = (r, m')"
      "\<forall>st. state_on_disk m = Some st \<longrightarrow> \<not> isInProgressPhase (sd_Phase st)"
  | (keep) st where "state_on_disk m = Some st" "isInProgressPhase (sd_Phase st)" "sd_JobID st = [] \<or> \<not> has_client"
      "r = Inr False" "m_files m' = m_files m"
  | (ask) st i m1 where "state_on_disk m = Some st" "isInProgressPhase (sd_Phase st)" "sd_JobID st \<noteq> []" "has_client"
      "\<exists>w. i = fst (api_ContainerInspect (sys_sdk sys) (sidekickContainerName (sd_JobID st)) w)" "m_files m1 = m_files m"
      "sidekick_running i \<Longrightarrow> r = Inr False \<and> m' = m1"
      "\<not> sidekick_running i \<Longrightarrow> run_state (do {
         t \<leftarrow> time_Now sys;
         w \<leftarrow> writeSelfDeployState sys (abandoned_state sys st t (abandoned_reason (sidekickContainerName (sd_JobID st)) i));
         case w of
           Inl e \<Rightarrow> State_Monad.return (Inl (''self-deploy: rewrite state.json: '' @ e))
         | Inr _ \<Rightarrow> do {
             r \<leftarrow> os_Remove sys lockPath;
             State_Monad.return (case r of
               Inl e \<Rightarrow> if e = ErrNotExist then Inr True else Inl (''self-deploy: remove stale lock: '' @ fs_text e)
             | Inr _ \<Rightarrow> Inr True)
           }
       }) m1 = (r, m')"
proof -
  obtain x m1 where x: "run_state (os_Stat sys lockPath) m = (x, m1)" by fastforce
  from os_Stat_ok [OF assms(1) x] assms(2) have m1: "x = Inr ()" "m_files m1 = m_files m" by auto
  obtain y m2 where y: "run_state (readSelfDeployState sys) m1 = (y, m2)" by fastforce
  have on_disk: "state_on_disk m1 = state_on_disk m" using m1 by (simp add: state_on_disk_def)
  from readSelfDeployState_ok(1) [OF assms(1) y] m1 have m2: "m_files m2 = m_files m" by simp
  show thesis
  proof (cases "state_on_disk m")
    case None
    with readSelfDeployState_cases [OF assms(1) y] on_disk have "y \<noteq> Inr (Some st)" for st by auto
    with assms(3) x m1 y have "run_state (drop_lock sys) m2 = (r, m')"
      by (auto simp: reclaimStaleLock_def split: sum.splits option.splits)
    with drop [OF m2] None show thesis by simp
  next
    case (Some st)
    with readSelfDeployState_cases [OF assms(1) y] on_disk have st: "y = Inr (Some st)" by simp
    show thesis
    proof (cases "isInProgressPhase (sd_Phase st)")
      case False
      with assms(3) x m1 y st have "run_state (drop_lock sys) m2 = (r, m')" by (simp add: reclaimStaleLock_def)
      with drop [OF m2] Some False show thesis by simp
    next
      case progress: True
      show thesis
      proof (cases "sd_JobID st = [] \<or> \<not> has_client")
        case True
        with assms(3) x m1 y st progress have "r = Inr False" "m' = m2" by (simp_all add: reclaimStaleLock_def)
        with keep [OF Some progress True] m2 show thesis by simp
      next
        case False
        let ?name = "sidekickContainerName (sd_JobID st)"
        obtain i m3 where i: "run_state (on_engine (docker (ContainerInspect ?name) (api_ContainerInspect (sys_sdk sys) ?name))) m2 = (i, m3)"
          by fastforce
        then have "m_files m3 = m_files m" "\<exists>w. i = fst (api_ContainerInspect (sys_sdk sys) ?name w)"
          using m2 by (auto simp: on_engine_def docker_run)
        with ask [OF Some progress _ _ this(2,1)] assms(3) x m1 y st progress False i show thesis
          by (simp add: reclaimStaleLock_def Let_def split: if_splits)
      qed
    qed
  qed
qed

text \<open>C39: What the reclaim does with a lock, on a disk that works: it keeps the lock, and changes nothing, if the state on
  disk is of a deploy in progress whose sidekick runs, or cannot be asked for; it removes the lock if
  there is no such state; and if the sidekick does not run, it removes the lock after it has
  replaced the state by a failed one.\<close>

theorem reclaimStaleLock_outcome:
  assumes "disk_ok sys" and "fresh_temps sys" and "m_files m lockPath \<noteq> None"
    and "run_state (reclaimStaleLock sys has_client) m = (r, m')"
  shows "case state_on_disk m of
      None \<Rightarrow> r = Inr True \<and> m_files m' = (m_files m)(lockPath := None)
    | Some st \<Rightarrow>
        if \<not> isInProgressPhase (sd_Phase st) then r = Inr True \<and> m_files m' = (m_files m)(lockPath := None)
        else if sd_JobID st = [] \<or> \<not> has_client then r = Inr False \<and> m_files m' = m_files m
        else (\<exists>i w. i = fst (api_ContainerInspect (sys_sdk sys) (sidekickContainerName (sd_JobID st)) w) \<and>
          (if sidekick_running i then r = Inr False \<and> m_files m' = m_files m
           else r = Inr True \<and> m_files m' lockPath = None \<and> m_files m' jobPath = m_files m jobPath \<and>
             (\<exists>t. state_on_disk m' = Some (abandoned_state sys st t (abandoned_reason (sidekickContainerName (sd_JobID st)) i)))))"
  using assms(1,3,4)
proof (cases rule: reclaimStaleLock_start)
  case (drop m1)
  with drop_lock_ok [OF assms(1) drop(2)] show ?thesis by (auto split: option.split)
next
  case (keep st)
  then show ?thesis by simp
next
  case (ask st i m1)
  have "if sidekick_running i then r = Inr False \<and> m_files m' = m_files m
     else r = Inr True \<and> m_files m' lockPath = None \<and> m_files m' jobPath = m_files m jobPath \<and>
       (\<exists>t. state_on_disk m' = Some (abandoned_state sys st t (abandoned_reason (sidekickContainerName (sd_JobID st)) i)))"
  proof (cases "sidekick_running i")
    case False
    let ?t = "clock_now (sys_sdk sys) (world (m_engine m1))"
    let ?st = "abandoned_state sys st ?t (abandoned_reason (sidekickContainerName (sd_JobID st)) i)"
    obtain x m2 where x: "run_state (writeSelfDeployState sys ?st) m1 = (x, m2)" by fastforce
    note written = writeSelfDeployState_ok [OF assms(1,2) x]
    obtain y m3 where y: "run_state (os_Remove sys lockPath) m2 = (y, m3)" by fastforce
    note removed = os_Remove_ok [OF assms(1) y]
    from ask(8) [OF False] x y written(1) [of lockPath] removed(2) have "r = Inr True" "m' = m3"
      by (auto split: if_splits)
    with removed(1) written(2) ask(6) show ?thesis using False by (auto simp: state_on_disk_def)
  qed (use ask in auto)
  with ask(1-5) show ?thesis by auto
qed

section \<open>One deploy at a time, and the gap\<close>

lemma acquire_ok:
  assumes "disk_ok sys" "run_state (acquireSelfDeployLock sys) m = (r, m')"
  shows "if m_files m lockPath = None then r = Inr () \<and> m_files m' lockPath \<noteq> None \<and> (\<forall>p. p \<noteq> lockPath \<longrightarrow> m_files m' p = m_files m p)
    else r = Inl LockHeld \<and> m_files m' = m_files m"
proof -
  obtain d m1 where d: "run_state (ensureSelfDeployDir sys) m = (d, m1)" by fastforce
  note dir = ensureSelfDeployDir_ok [OF assms(1) d]
  from assms d dir show ?thesis
    by (auto simp: acquireSelfDeployLock_def os_CreateExclusive_def try_io_def io_call_run disk_ok_def)
qed

text \<open>The lock excludes a second deploy: while the lock file is there, a trigger that gets as far as the lock is
  refused, writes no file and makes no call of the daemon.\<close>

theorem trigger_excluded:
  assumes "disk_ok (pr_sys p)" and "m_files m lockPath \<noteq> None" and "run_state (trigger_job p job) m = (r, m')"
  shows "r = Inl (Blocked ''a self-deploy is already in progress'') \<and> m_files m' = m_files m \<and>
    trace (m_engine m') = trace (m_engine m)"
proof -
  obtain l m1 where l: "run_state (acquireSelfDeployLock (pr_sys p)) m = (l, m1)" by fastforce
  from acquire_ok [OF assms(1) l] assms(2) have lock: "l = Inl LockHeld" "m_files m1 = m_files m" by auto
  have "traced (\<lambda>_. False) (acquireSelfDeployLock (pr_sys p))"
    unfolding acquireSelfDeployLock_def ensureSelfDeployDir_def by (intro trace_rules)
  from traced_nothing [OF this, of m] l have "trace (m_engine m1) = trace (m_engine m)" by simp
  with lock assms(3) l show ?thesis by (simp add: trigger_job_def)
qed

text \<open>The gap in the exclusion: between the lock and the first write of the state, a deploy leaves the state of
  the previous one on disk; when that is not of a deploy in progress, a second trigger reclaims the
  lock as stale and acquires it, so that both hold it.\<close>

theorem lock_taken_twice:
  assumes "disk_ok (pr_sys p)" and "run_state (acquireSelfDeployLock (pr_sys p)) m = (Inr (), m1)"
    and "\<forall>st. state_on_disk m = Some st \<longrightarrow> \<not> isInProgressPhase (sd_Phase st)"
    and "pr_Client p (world (m_engine m1)) = Inr ()"
    and "run_state (do { _ \<leftarrow> reclaim_if_client p; acquireSelfDeployLock (pr_sys p) }) m1 = (r, m2)"
  shows "r = Inr ()"
proof -
  from acquire_ok [OF assms(1,2)] have held: "m_files m1 lockPath \<noteq> None" "m_files m1 statePath = m_files m statePath"
    by (auto split: if_splits)
  obtain x m3 where x: "run_state (reclaimStaleLock (pr_sys p) True) m1 = (x, m3)" by fastforce
  have "state_on_disk m1 = state_on_disk m" using held(2) by (simp add: state_on_disk_def)
  with assms(3) have idle: "\<forall>st. state_on_disk m1 = Some st \<longrightarrow> \<not> isInProgressPhase (sd_Phase st)" by simp
  have free: "m_files m3 lockPath = None"
    using assms(1) held(1) x
  proof (cases rule: reclaimStaleLock_start)
    case (drop m4)
    from drop_lock_ok(2) [OF assms(1) drop(2)] show ?thesis by simp
  qed (use idle in auto)
  have "run_state (reclaim_if_client p) m1 = ((), m3)"
    using assms(4) x by (simp add: reclaim_if_client_def on_engine_def)
  with assms(5) have "run_state (acquireSelfDeployLock (pr_sys p)) m3 = (r, m2)" by simp
  from acquire_ok [OF assms(1) this] free show ?thesis by simp
qed

text \<open>What a trigger leaves behind.\<close>

lemma spawn_keeps_files: "keeps_files (spawnSidekick sys job path)"
  unfolding spawnSidekick_def resolvePrimaryDataMount_def create_sidekick_def create_container_def Let_def
  by (intro keeps_files_rules)

lemma remove_exited_keeps_files: "keeps_files (remove_exited sys cs)"
  by (induction cs) (auto intro!: keeps_files_rules)

lemma cleanup_keeps_files: "keeps_files (cleanupExitedSidekicks p)"
  unfolding cleanupExitedSidekicks_def Let_def by (intro keeps_files_rules remove_exited_keeps_files)

lemma spawnSidekick_Inr:
  assumes "run_state (spawnSidekick sys job path) m = (Inr (), m')"
  shows "\<exists>cid. (ContainerStart cid, True) \<in> set (trace (m_engine m'))"
  using assms
  by (auto simp: spawnSidekick_def call_sdk_def on_engine_def docker_run or_fail_def is_ok_def Let_def split: prod.splits sum.splits)

lemma launch_Inr:
  assumes "run_state (launch p job path t) m = (Inr j, m')"
  shows "j = job" "m_files m' = m_files m" "\<exists>cid. (ContainerStart cid, True) \<in> set (trace (m_engine m'))"
proof -
  obtain d m1 where d: "run_state (cleanupExitedSidekicks p) m = (d, m1)" by (cases "run_state (cleanupExitedSidekicks p) m")
  obtain s m2 where s: "run_state (spawnSidekick (pr_sys p) job path) m1 = (s, m2)" by fastforce
  have ok: "s = Inr ()" using assms d s by (cases s) (auto simp: launch_def split: prod.splits)
  with assms d s have e: "run_state (emit_event p DeployStart (job_ID job) (job_TargetImageTag job)) m2 = ((), m')" and j: "j = job"
    by (auto simp: launch_def split: prod.splits)
  then show "j = job" "m_files m' = m_files m" "\<exists>cid. (ContainerStart cid, True) \<in> set (trace (m_engine m'))"
    using keeps_filesD [OF cleanup_keeps_files d] keeps_filesD [OF spawn_keeps_files s] spawnSidekick_Inr [OF s [unfolded ok]]
    by (auto simp: emit_event_def call_def on_engine_def)
qed

text \<open>C40: What a trigger leaves behind, on a disk that works and when nobody holds the lock: a trigger that reports success
  has started a container, and has left the lock, the job and a pending state with the id of the
  job; a trigger that reports an error has released the lock.\<close>

theorem trigger_outcome:
  assumes "disk_ok (pr_sys p)" and "fresh_temps (pr_sys p)" and "m_files m lockPath = None"
    and "run_state (trigger_job p job) m = (r, m')"
  shows "case r of
      Inr j \<Rightarrow> j = job \<and> m_files m' lockPath \<noteq> None \<and> m_files m' jobPath = Some (JobFile job) \<and>
        (\<exists>t. state_on_disk m' = Some (initial_state (job_ID job) t)) \<and>
        (\<exists>cid. (ContainerStart cid, True) \<in> set (trace (m_engine m')))
    | Inl e \<Rightarrow> m_files m' lockPath = None"
proof -
  obtain l m1 where l: "run_state (acquireSelfDeployLock (pr_sys p)) m = (l, m1)" by fastforce
  from acquire_ok [OF assms(1) l] assms(3) have lock: "l = Inr ()" "m_files m1 lockPath \<noteq> None" by auto
  obtain x m2 where x: "run_state (trigger_locked p job) m1 = (x, m2)" by fastforce
  show ?thesis
  proof (cases x)
    case (Inl e)
    obtain u m3 where u: "run_state (releaseSelfDeployLock (pr_sys p)) m2 = (u, m3)"
      by (cases "run_state (releaseSelfDeployLock (pr_sys p)) m2")
    then have "m_files m3 lockPath = None"
      using os_Remove_ok(1) [OF assms(1)] by (auto simp: releaseSelfDeployLock_def split: prod.splits)
    with assms(4) l lock x u Inl show ?thesis by (auto simp: trigger_job_def)
  next
    case (Inr j)
    with assms(4) l lock x have r: "r = Inr j" "m' = m2" by (auto simp: trigger_job_def)
    obtain a n1 where a: "run_state (writeSelfDeployJob (pr_sys p) job) m1 = (a, n1)" by fastforce
    note job_file = writeSelfDeployJob_ok [OF assms(1,2) a]
    let ?t = "clock_now (sys_sdk (pr_sys p)) (world (m_engine n1))"
    obtain b n2 where b: "run_state (writeSelfDeployState (pr_sys p) (initial_state (job_ID job) ?t)) n1 = (b, n2)" by fastforce
    note state_file = writeSelfDeployState_ok [OF assms(1,2) b]
    obtain c n3 where c: "run_state (on_engine (observe (pr_Client p))) n2 = (c, n3)" by fastforce
    from x Inr a job_file(1) [of lockPath] b state_file(1) [of lockPath] c
    have "run_state (launch p job jobPath ?t) n3 = (Inr j, m2)"
      by (cases c) (simp_all add: trigger_locked_def)
    note l = launch_Inr [OF this]
    from keeps_filesD [OF keeps_files_basic(2) c] l(2) have "m_files m2 = m_files n2" by simp
    with r l(1,3) job_file(2) state_file(2) lock(2) show ?thesis by (auto simp: state_on_disk_def)
  qed
qed

section \<open>The logs of the sidekick\<close>

text \<open>A frame as the daemon writes it: the stream, three zero bytes, the length in big-endian order, and the text.\<close>

definition be_bytes :: "nat \<Rightarrow> string" where
  "be_bytes n = map char_of [n div 256 ^ 3 mod 256, n div 256 ^ 2 mod 256, n div 256 mod 256, n mod 256]"

definition log_frame :: "char \<times> string \<Rightarrow> string" where
  "log_frame f = fst f # [CHR 0x00, CHR 0x00, CHR 0x00] @ be_bytes (length (snd f)) @ snd f"

lemma be32_bytes:
  assumes "n < 2 ^ 32"
  shows "be32 (be_bytes n) = n"
proof -
  let ?a = "n div 256" and ?b = "n div 256 div 256" and ?c = "n div 256 div 256 div 256"
  have "?c < 256" using assms by (simp add: div_mult2_eq [symmetric])
  moreover have "n div 256 ^ 2 = ?b" "n div 256 ^ 3 = ?c" by (simp_all add: div_mult2_eq [symmetric])
  ultimately have "be32 (be_bytes n) = ((?c * 256 + ?b mod 256) * 256 + ?a mod 256) * 256 + n mod 256"
    by (simp only: be32_def be_bytes_def list.map foldl.simps of_char_of) (simp add: take_bit_eq_mod)
  then show ?thesis by simp
qed

lemma demux_frame:
  assumes "length text < 2 ^ 32"
  shows "demux (log_frame (b, text) @ rest) =
    (if text = [] then demux rest else if length text > 2 ^ 20 then demux rest else text @ demux rest)"
proof -
  let ?bs = "log_frame (b, text) @ rest"
  have "length (be_bytes (length text)) = 4" by (simp add: be_bytes_def)
  then have "take 4 (drop 4 ?bs) = be_bytes (length text)" "drop 8 ?bs = text @ rest" "\<not> length ?bs < 8"
    by (simp_all add: log_frame_def)
  then show ?thesis
    using be32_bytes [OF assms] by (subst demux.simps) (simp add: Let_def)
qed

text \<open>The logs of the sidekick survive their framing: of a stream of frames, each with the length of its text, the status shows
  the texts in order, except for those of more than 1 MiB.\<close>

theorem demux_frames:
  assumes "\<forall>f \<in> set frames. length (snd f) < 2 ^ 32"
  shows "demux (concat (map log_frame frames)) = concat (filter (\<lambda>t. length t \<le> 2 ^ 20) (map snd frames))"
  using assms
proof (induction frames)
  case Nil
  then show ?case by (subst demux.simps) simp
next
  case (Cons f frames)
  then show ?case
    using demux_frame [of "snd f" "fst f" "concat (map log_frame frames)"] by (cases f) auto
qed

section \<open>Sorting in place\<close>

lemma exchange_inner_props:
  fixes xs :: "'a::linorder list"
  assumes "i < j" "i < length xs"
  shows "mset (exchange_inner (<) xs i j) = mset xs" "take i (exchange_inner (<) xs i j) = take i xs"
    "(\<forall>k. i < k \<and> k < j \<and> k < length xs \<longrightarrow> xs ! i \<le> xs ! k) \<Longrightarrow>
     (\<forall>k. i < k \<and> k < length xs \<longrightarrow> exchange_inner (<) xs i j ! i \<le> exchange_inner (<) xs i j ! k)"
  using assms
proof (induction "(<) :: 'a \<Rightarrow> 'a \<Rightarrow> bool" xs i j rule: exchange_inner.induct)
  case (1 xs i j)
  let ?xs = "if xs ! j < xs ! i then xs[i := xs ! j, j := xs ! i] else xs"
  {
    case 1
    then show ?case using "1.hyps"(1) by (subst exchange_inner.simps) (simp add: mset_swap)
  next
    case 2
    then show ?case using "1.hyps"(2) by (subst exchange_inner.simps) simp
  next
    case 3
    show ?case
    proof (cases "j < length xs")
      case True
      have "\<forall>k. i < k \<and> k < Suc j \<and> k < length ?xs \<longrightarrow> ?xs ! i \<le> ?xs ! k"
        using 3 True by (auto simp: nth_list_update less_Suc_eq)
      with "1.hyps"(3) [OF True] 3 True show ?thesis
        by (subst (1 2) exchange_inner.simps) simp
    qed (use 3 in \<open>simp add: exchange_inner.simps\<close>)
  }
qed

lemma exchange_outer_sorts:
  fixes xs :: "'a::linorder list"
  assumes "sorted (take i xs)" "\<forall>x \<in> set (take i xs). \<forall>y \<in> set (drop i xs). x \<le> y"
  shows "sorted (exchange_outer (<) xs i) \<and> mset (exchange_outer (<) xs i) = mset xs"
  using assms
proof (induction "(<) :: 'a \<Rightarrow> 'a \<Rightarrow> bool" xs i rule: exchange_outer.induct)
  case (1 xs i)
  show ?case
  proof (cases "i < length xs")
    case True
    let ?ys = "exchange_inner (<) xs i (Suc i)"
    note inner = exchange_inner_props [of i "Suc i" xs, OF lessI True]
    have least: "\<forall>k. i < k \<and> k < length xs \<longrightarrow> ?ys ! i \<le> ?ys ! k" by (rule inner(3)) auto
    have "mset (drop i ?ys) = mset (drop i xs)"
      using inner(1,2) by (metis add_left_cancel append_take_drop_id mset_append)
    then have drop: "set (drop i ?ys) = set (drop i xs)" by (rule mset_eq_setD)
    have split: "drop i ?ys = ?ys ! i # drop (Suc i) ?ys" "take (Suc i) ?ys = take i xs @ [?ys ! i]"
      using True inner(2) by (simp_all add: Cons_nth_drop_Suc take_Suc_conv_app_nth)
    have "?ys ! i \<in> set (drop i xs)" "set (drop (Suc i) ?ys) \<subseteq> set (drop i xs)"
      using drop split(1) by auto
    moreover have "?ys ! i \<le> y" if "y \<in> set (drop (Suc i) ?ys)" for y
      using that least by (auto simp: in_set_conv_nth)
    ultimately have "sorted (take (Suc i) ?ys)" "\<forall>x \<in> set (take (Suc i) ?ys). \<forall>y \<in> set (drop (Suc i) ?ys). x \<le> y"
      using 1(2,3) unfolding split(2) by (auto simp: sorted_append)
    with 1(1) [OF True] inner(1) True show ?thesis by (simp add: exchange_outer.simps [of _ xs i])
  qed (use 1(2) in \<open>simp add: exchange_outer.simps\<close>)
qed

text \<open>The two nested loops by which the code sorts strings agree with the sort of the library.\<close>

theorem sortStringsInPlace_sorts: "sortStringsInPlace s = sort s"
  using exchange_outer_sorts [of 0 s] unfolding sortStringsInPlace_def
  by (metis drop_0 empty_iff list.set(1) properties_for_sort sorted_wrt.simps(1) take_0)

end
