(* ===== verification/Paths.thy ===== *)
theory Paths
  imports GoPrelude
begin

text \<open>
  The functions \<open>Clean\<close>, \<open>Dir\<close> and \<open>Join\<close> of Go's path/filepath on slash-separated paths.
\<close>

text \<open>\<open>filepath.Clean\<close> on a list of components, with the components kept so far.\<close>

fun clean_parts :: "bool \<Rightarrow> string list \<Rightarrow> string list \<Rightarrow> string list" where
  "clean_parts rooted out [] = rev out"
| "clean_parts rooted out (c # cs) =
     (if c = [] \<or> c = ''.'' then clean_parts rooted out cs
      else if c \<noteq> ''..'' then clean_parts rooted (c # out) cs
      else if out \<noteq> [] \<and> hd out \<noteq> ''..'' then clean_parts rooted (tl out) cs
      else if rooted then clean_parts rooted out cs
      else clean_parts rooted (''..'' # out) cs)"

definition path_clean :: "string \<Rightarrow> string" where
  "path_clean p =
     (let rooted = has_prefix p ''/''; q = join ''/'' (clean_parts rooted [] (split_at (CHR ''/'') p))
      in if rooted then ''/'' @ q else if q = [] then ''.'' else q)"

definition path_dir :: "string \<Rightarrow> string" where
  "path_dir p = path_clean (rev (dropWhile (\<lambda>c. c \<noteq> CHR ''/'') (rev p)))"

definition path_join :: "string list \<Rightarrow> string" where
  "path_join ps = (let ps = filter (\<lambda>p. p \<noteq> []) ps in if ps = [] then [] else path_clean (join ''/'' ps))"

end
