(* ===== verification/DeployAgent.thy ===== *)
theory DeployAgent
  imports SelfDeployChecks Paths
begin

text \<open>
  The sidekick that replaces the primary container, cmd/deploy_agent: the wrappers of the Docker
  client (engine.go), the health checks (health.go), the deploy with its rollback (lifecycle.go) and
  the process around it (agent.go).

  All contexts of a deploy come from one deadline, so that the error of the context is a function of
  the world; deadlines of single calls are not modelled, since a call may fail anyway.  The polling
  loops take fuel, and \<open>OutOfFuel\<close> is kept apart from every error of the code.  The goroutine that
  flushes the log and the one that waits for a signal are steps of StateWriter and not modelled here.

  Two checks of the code have no counterpart: \<open>runDeploy\<close> refuses a job that is nil, which \<open>loadJob\<close>
  never returns and a value of \<open>self_deploy_job\<close> cannot be, and \<open>cid[:12]\<close> in the messages on a
  container panics on an id of fewer than 12 bytes, where \<open>take 12\<close> gives the whole id; the ids of the
  daemon have 64.
\<close>

section \<open>Durations\<close>

text \<open>The fraction that \<open>Duration.String\<close> writes: \<open>n\<close> digits without the trailing zeros.\<close>

definition duration_fraction :: "nat \<Rightarrow> nat \<Rightarrow> string" where
  "duration_fraction n v =
     (let s = show_nat v; padded = replicate (n - length s) (CHR ''0'') @ s;
          digits = rev (dropWhile (\<lambda>c. c = CHR ''0'') (rev padded))
      in if digits = [] then [] else CHR ''.'' # digits)"

definition show_duration :: "int \<Rightarrow> string" where
  "show_duration d =
     (let u = nat \<bar>d\<bar>; secs = u div 1000000000; mins = secs div 60
      in (if d < 0 then ''-'' else [])
         @ (if u = 0 then ''0s''
            else if u < 1000 then show_nat u @ ''ns''
            else if u < 1000000 then show_nat (u div 1000) @ duration_fraction 3 (u mod 1000) @ [CHR 0xC2, CHR 0xB5] @ ''s''
            else if u < 1000000000 then show_nat (u div 1000000) @ duration_fraction 6 (u mod 1000000) @ ''ms''
            else (if mins = 0 then []
                  else (if mins div 60 = 0 then [] else show_nat (mins div 60) @ ''h'') @ show_nat (mins mod 60) @ ''m'')
                 @ show_nat (secs mod 60) @ duration_fraction 9 (u mod 1000000000) @ ''s''))"

section \<open>The agent\<close>

record 'w agent =
  ag_sys :: "'w system"
  ag_Client :: "'w \<Rightarrow> go_error + unit"
  ag_Drain :: "'w \<Rightarrow> go_error option \<times> 'w"
  ag_ReadDir :: "string \<Rightarrow> 'w \<Rightarrow> (go_error + (string \<times> bool \<times> int option) list) \<times> 'w"
  ag_interrupted :: "'w \<Rightarrow> bool"
  ag_fuel :: nat
  ag_path :: string

definition sdk_call :: "request \<Rightarrow> ('w \<Rightarrow> ('e + 'a) \<times> 'w) \<Rightarrow> ('w, 'e + 'a) mprog" where
  "sdk_call q f = on_engine (docker q f)"

definition effect :: "('w \<Rightarrow> 'a \<times> 'w) \<Rightarrow> ('w, 'a) mprog" where
  "effect f = on_engine (State (\<lambda>e. case f (world e) of (x, w) \<Rightarrow> (x, e\<lparr>world := w\<rparr>)))"

definition set_writer :: "state_writer \<Rightarrow> ('w, unit) mprog" where
  "set_writer sw = State (\<lambda>m. ((), m\<lparr>m_writer := sw\<rparr>))"

text \<open>An operation on the writer which writes no file.\<close>

definition on_writer :: "(writer \<Rightarrow> writer) \<Rightarrow> ('w, unit) mprog" where
  "on_writer f = State (\<lambda>m. ((), m\<lparr>m_writer := fst (f (m_writer m, None))\<rparr>))"

text \<open>The agent's own \<open>atomicWriteFile\<close>, which makes the directory first.\<close>

definition write_state_file :: "'w agent \<Rightarrow> self_deploy_state \<Rightarrow> ('w, go_error + unit) mprog" where
  "write_state_file a st = do {
     f \<leftarrow> io_call (ag_sys a) (MkdirAll (path_dir (ag_path a)));
     case f of
       Some e \<Rightarrow> State_Monad.return (Inl (''deploy-agent: mkdir '' @ path_dir (ag_path a) @ '': '' @ fs_text e))
     | None \<Rightarrow> atomicWriteFile (ag_sys a) ''deploy-agent'' (ag_path a) (StateFile st)
   }"

text \<open>An operation on the writer which may flush: the content to be written is the one that the
  operation has for a write that succeeds, and the operation then gets the result of the write.\<close>

definition flushing :: "'w agent \<Rightarrow> (write_result \<Rightarrow> writer \<Rightarrow> writer) \<Rightarrow> ('w, unit) mprog" where
  "flushing a f = do {
     sw \<leftarrow> State (\<lambda>m. (m_writer m, m));
     r \<leftarrow> (case snd (f (Inr ()) (sw, None)) of
            None \<Rightarrow> State_Monad.return (Inr ())
          | Some st \<Rightarrow> write_state_file a st);
     set_writer (fst (f r (sw, None)))
   }"

definition sw_SetPhase :: "'w agent \<Rightarrow> string \<Rightarrow> ('w, unit) mprog" where
  "sw_SetPhase a phase = do {
     t \<leftarrow> time_Now (ag_sys a);
     on_writer (SetPhase (sys_time (ag_sys a) t) phase)
   }"

definition sw_Logf :: "'w agent \<Rightarrow> string \<Rightarrow> ('w, unit) mprog" where
  "sw_Logf a line = do {
     t \<leftarrow> time_Now (ag_sys a);
     on_writer (Logf (sys_time (ag_sys a) t) line)
   }"

definition sw_Fail :: "'w agent \<Rightarrow> go_error \<Rightarrow> ('w, unit) mprog" where
  "sw_Fail a err = do {
     t \<leftarrow> time_Now (ag_sys a);
     flushing a (\<lambda>io. Fail io (sys_time (ag_sys a) t) t err)
   }"

definition sw_Succeed :: "'w agent \<Rightarrow> ('w, unit) mprog" where
  "sw_Succeed a = do {
     t \<leftarrow> time_Now (ag_sys a);
     flushing a (\<lambda>io. Succeed io (sys_time (ag_sys a) t) t)
   }"

definition sw_MarkRolledBack :: "'w agent \<Rightarrow> go_error \<Rightarrow> ('w, unit) mprog" where
  "sw_MarkRolledBack a reason = do {
     t \<leftarrow> time_Now (ag_sys a);
     flushing a (\<lambda>io. MarkRolledBack io (sys_time (ag_sys a) t) t reason)
   }"

definition sw_MarkRecovery :: "'w agent \<Rightarrow> go_error \<Rightarrow> ('w, unit) mprog" where
  "sw_MarkRecovery a reason = do {
     t \<leftarrow> time_Now (ag_sys a);
     flushing a (\<lambda>io. MarkRecovery io (sys_time (ag_sys a) t) reason)
   }"

section \<open>The wrappers of the client\<close>

definition agent_error :: "string \<Rightarrow> go_error \<Rightarrow> engine_error" where
  "agent_error what m = Err (''deploy-agent: '' @ what @ '': '' @ m)"

definition newDockerClient :: "'w agent \<Rightarrow> ('w, engine_error + unit) mprog" where
  "newDockerClient a = do {
     c \<leftarrow> on_engine (observe (ag_Client a));
     State_Monad.return (map_sum (agent_error ''init docker client'') id c)
   }"

definition pingDocker :: "'w agent \<Rightarrow> ('w, engine_error + unit) mprog" where
  "pingDocker a = do {
     r \<leftarrow> sdk_call DaemonPing (sys_Ping (ag_sys a));
     State_Monad.return (map_sum (\<lambda>e. agent_error ''docker daemon unreachable'' (error_text e)) id r)
   }"

text \<open>A missing container is not an error.\<close>

definition if_present :: "string \<Rightarrow> sdk_error + unit \<Rightarrow> engine_error + unit" where
  "if_present what r =
     (case r of Inr _ \<Rightarrow> Inr () | Inl e \<Rightarrow> if IsNotFound e then Inr () else Inl (agent_error what (error_text e)))"

definition stopContainer :: "'w agent \<Rightarrow> string \<Rightarrow> ('w, engine_error + unit) mprog" where
  "stopContainer a i =
     (if i = [] then State_Monad.return (Inr ())
      else do {
        r \<leftarrow> sdk_call (ContainerStop i) (api_ContainerStop (sys_sdk (ag_sys a)) i);
        State_Monad.return (if_present (''stop container '' @ go_quote i) r)
      })"

definition renameContainer :: "'w agent \<Rightarrow> string \<Rightarrow> string \<Rightarrow> ('w, engine_error + unit) mprog" where
  "renameContainer a i newName =
     (if i = [] \<or> newName = [] then State_Monad.return (Inl (Err ''deploy-agent: renameContainer needs both id and newName''))
      else do {
        r \<leftarrow> sdk_call (ContainerRename i newName) (api_ContainerRename (sys_sdk (ag_sys a)) i newName);
        State_Monad.return (map_sum (\<lambda>e. agent_error (''rename container '' @ go_quote i @ '' to '' @ go_quote newName) (error_text e)) id r)
      })"

definition removeContainer :: "'w agent \<Rightarrow> string \<Rightarrow> ('w, engine_error + unit) mprog" where
  "removeContainer a i =
     (if i = [] then State_Monad.return (Inr ())
      else do {
        r \<leftarrow> sdk_call (ContainerRemove i True False) (api_ContainerRemove (sys_sdk (ag_sys a)) i True False);
        State_Monad.return (if_present (''remove container '' @ go_quote i) r)
      })"

definition startContainer :: "'w agent \<Rightarrow> string \<Rightarrow> ('w, engine_error + unit) mprog" where
  "startContainer a i =
     (if i = [] then State_Monad.return (Inl (Err ''deploy-agent: startContainer needs an id''))
      else do {
        r \<leftarrow> sdk_call (ContainerStart i) (api_ContainerStart (sys_sdk (ag_sys a)) i);
        State_Monad.return (map_sum (\<lambda>e. agent_error (''start container '' @ go_quote i) (error_text e)) id r)
      })"

definition inspect :: "'w agent \<Rightarrow> string \<Rightarrow> ('w, sdk_error + container_info) mprog" where
  "inspect a i = sdk_call (ContainerInspect i) (api_ContainerInspect (sys_sdk (ag_sys a)) i)"

definition inspectContainer :: "'w agent \<Rightarrow> string \<Rightarrow> ('w, engine_error + container_info) mprog" where
  "inspectContainer a i = do {
     r \<leftarrow> inspect a i;
     State_Monad.return (map_sum (\<lambda>e. agent_error (''inspect container '' @ go_quote i) (error_text e)) id r)
   }"

definition containerExists :: "'w agent \<Rightarrow> string \<Rightarrow> ('w, engine_error + bool) mprog" where
  "containerExists a i = do {
     r \<leftarrow> inspect a i;
     State_Monad.return (case r of
       Inr _ \<Rightarrow> Inr True
     | Inl e \<Rightarrow> if IsNotFound e then Inr False else Inl (Err (error_text e)))
   }"

definition is_swirl_container :: "container_summary \<Rightarrow> bool" where
  "is_swirl_container c \<longleftrightarrow>
     contains (to_lower (case map_of (ct_Labels c) LabelService of Some s \<Rightarrow> s | None \<Rightarrow> [])) ''swirl''"

definition list_project :: "'w agent \<Rightarrow> string \<Rightarrow> ('w, engine_error + container_summary list) mprog" where
  "list_project a project = do {
     r \<leftarrow> sdk_call (ContainerList True [LabelProject @ ''='' @ project])
            (api_ContainerList (sys_sdk (ag_sys a)) True [LabelProject @ ''='' @ project]);
     State_Monad.return (of_sdk r)
   }"

fun first_address :: "(string \<times> string option) list \<Rightarrow> string" where
  "first_address [] = []"
| "first_address ((_, ip) # ns) = (case ip of None \<Rightarrow> first_address ns | Some i \<Rightarrow> if i = [] then first_address ns else i)"

definition findSwirlContainerIP :: "'w agent \<Rightarrow> string \<Rightarrow> ('w, engine_error + string) mprog" where
  "findSwirlContainerIP a project = do {
     l \<leftarrow> list_project a project;
     or_fail l (\<lambda>cs.
       case first_that is_swirl_container cs of
         None \<Rightarrow> State_Monad.return (Inr [])
       | Some c \<Rightarrow> do {
           i \<leftarrow> inspect a (ct_ID c);
           State_Monad.return (map_sum id (\<lambda>info. case in_Networks info of None \<Rightarrow> [] | Some ns \<Rightarrow> first_address ns) (of_sdk i))
         })
   }"

definition findSwirlContainerID :: "'w agent \<Rightarrow> string \<Rightarrow> ('w, engine_error + string) mprog" where
  "findSwirlContainerID a project = do {
     l \<leftarrow> list_project a project;
     State_Monad.return (map_sum id (\<lambda>cs. case first_that is_swirl_container cs of None \<Rightarrow> [] | Some c \<Rightarrow> ct_ID c) l)
   }"

definition pullImageRaw :: "'w agent \<Rightarrow> string \<Rightarrow> ('w, engine_error + unit) mprog" where
  "pullImageRaw a ref =
     (if ref = [] then State_Monad.return (Inl (Err ''deploy-agent: pullImage needs a reference''))
      else do {
        r \<leftarrow> sdk_call (ImagePull ref) (api_ImagePull (sys_sdk (ag_sys a)) ref);
        case r of
          Inl e \<Rightarrow> State_Monad.return (Inl (agent_error (''pull image '' @ go_quote ref) (error_text e)))
        | Inr _ \<Rightarrow> do {
            d \<leftarrow> effect (ag_Drain a);
            State_Monad.return (case d of
              Some m \<Rightarrow> Inl (agent_error (''drain image pull stream for '' @ go_quote ref) m)
            | None \<Rightarrow> Inr ())
          }
      })"

definition imageExists :: "'w agent \<Rightarrow> string \<Rightarrow> ('w, bool) mprog" where
  "imageExists a ref =
     (if ref = [] then State_Monad.return False
      else do {
        r \<leftarrow> sdk_call (ImageInspect ref) (sys_ImageInspect (ag_sys a) ref);
        State_Monad.return (is_ok r)
      })"

section \<open>Waiting for health\<close>

definition sec :: int where "sec = 1000000000"

definition healthPollInterval :: int where "healthPollInterval = 2 * sec"
definition containerHealthPollInterval :: int where "containerHealthPollInterval = 2 * sec"
definition minHealthTimeout :: int where "minHealthTimeout = 30 * sec"

text \<open>The remaining budget ends the loop; else the next attempt comes after the interval, or after what
  remains, unless the context is cancelled.\<close>

definition next_attempt :: "'w agent \<Rightarrow> int \<Rightarrow> ('w, (engine_error + unit) option) mprog" where
  "next_attempt a deadline = do {
     t \<leftarrow> time_Now (ag_sys a);
     if deadline - t \<le> 0 then State_Monad.return None
     else do {
       r \<leftarrow> on_engine (pause (sys_sdk (ag_sys a)) (min healthPollInterval (deadline - t)));
       State_Monad.return (Some r)
     }
   }"

text \<open>A probe is logged as a success when the server answers with a status of 2xx.\<close>

definition answers_2xx :: "go_error + int \<Rightarrow> bool" where
  "answers_2xx r = (case r of Inl _ \<Rightarrow> False | Inr status \<Rightarrow> 200 \<le> status \<and> status < 300)"

definition http_get :: "string \<Rightarrow> ('w \<Rightarrow> (go_error + int) \<times> 'w) \<Rightarrow> ('w, go_error + int) prog" where
  "http_get url f = State (\<lambda>s. case f (world s) of (r, w) \<Rightarrow> (r, s\<lparr>world := w, trace := trace s @ [(HttpGet url, answers_2xx r)]\<rparr>))"

definition probeOnce :: "'w agent \<Rightarrow> string \<Rightarrow> ('w, go_error + int) mprog" where
  "probeOnce a url = on_engine (http_get url (sys_HttpGet (ag_sys a) url))"

text \<open>The last error, status and URL, and the number of attempts.\<close>

record probe_log =
  pl_err :: "go_error option"
  pl_status :: int
  pl_url :: string
  pl_attempts :: nat

definition probe_round :: "'w agent \<Rightarrow> ('w, go_error + string) mprog \<Rightarrow> probe_log \<Rightarrow> ('w, probe_log option) mprog" where
  "probe_round a resolve l = do {
     let l = l\<lparr>pl_attempts := Suc (pl_attempts l)\<rparr>;
     u \<leftarrow> resolve;
     case u of
       Inl e \<Rightarrow> State_Monad.return (Some (l\<lparr>pl_err := Some e, pl_status := 0\<rparr>))
     | Inr url \<Rightarrow>
         if url = [] then State_Monad.return (Some (l\<lparr>pl_err := None, pl_status := 0\<rparr>))
         else do {
           r \<leftarrow> probeOnce a url;
           State_Monad.return (case r of
             Inl e \<Rightarrow> Some (l\<lparr>pl_url := url, pl_err := Some e, pl_status := 0\<rparr>)
           | Inr status \<Rightarrow>
               if 200 \<le> status \<and> status < 300 then None
               else Some (l\<lparr>pl_url := url, pl_err := None, pl_status := status\<rparr>))
         }
   }"

definition health_timeout :: "int \<Rightarrow> probe_log \<Rightarrow> engine_error" where
  "health_timeout limit l =
     (case pl_err l of
        Some e \<Rightarrow> Err (''deploy-agent: health check '' @ go_quote (pl_url l) @ '' did not succeed within '' @ show_duration limit @
          '' after '' @ show_nat (pl_attempts l) @ '' attempts: '' @ e)
      | None \<Rightarrow> Err (''deploy-agent: health check '' @ go_quote (pl_url l) @ '' did not return 2xx within '' @ show_duration limit @
          '' after '' @ show_nat (pl_attempts l) @ '' attempts (last status='' @ show_int (pl_status l) @ '')''))"

fun health_loop :: "nat \<Rightarrow> 'w agent \<Rightarrow> ('w, go_error + string) mprog \<Rightarrow> int \<Rightarrow> int \<Rightarrow> probe_log \<Rightarrow> ('w, engine_error + unit) mprog" where
  "health_loop 0 a resolve limit deadline l = State_Monad.return (Inl OutOfFuel)"
| "health_loop (Suc fuel) a resolve limit deadline l = do {
     p \<leftarrow> probe_round a resolve l;
     case p of
       None \<Rightarrow> State_Monad.return (Inr ())
     | Some l \<Rightarrow> do {
         n \<leftarrow> next_attempt a deadline;
         case n of
           None \<Rightarrow> State_Monad.return (Inl (health_timeout limit l))
         | Some r \<Rightarrow> or_fail r (\<lambda>_. health_loop fuel a resolve limit deadline l)
       }
   }"

definition waitHealthyResolver :: "'w agent \<Rightarrow> ('w, go_error + string) mprog \<Rightarrow> int \<Rightarrow> ('w, engine_error + unit) mprog" where
  "waitHealthyResolver a resolve limit = do {
     let limit = max limit minHealthTimeout;
     t \<leftarrow> time_Now (ag_sys a);
     health_loop (ag_fuel a) a resolve limit (t + limit) \<lparr>pl_err = None, pl_status = 0, pl_url = [], pl_attempts = 0\<rparr>
   }"

definition waitHealthy :: "'w agent \<Rightarrow> string \<Rightarrow> int \<Rightarrow> ('w, engine_error + unit) mprog" where
  "waitHealthy a url limit = waitHealthyResolver a (State_Monad.return (Inr url)) limit"

text \<open>One poll of the health of a container: done, or the last status seen.\<close>

definition judge_health :: "string \<Rightarrow> nat \<Rightarrow> string \<Rightarrow> sdk_error + container_info \<Rightarrow> (engine_error + unit) + string" where
  "judge_health containerID attempts seen r =
     (case r of
        Inl _ \<Rightarrow> Inr seen
      | Inr info \<Rightarrow>
          (case in_State info of
             None \<Rightarrow> Inl (Inr ())
           | Some st \<Rightarrow>
               (case st_Health st of
                  None \<Rightarrow> Inl (Inr ())
                | Some h \<Rightarrow>
                    if h = ''healthy'' then Inl (Inr ())
                    else if h = ''unhealthy'' then
                      Inl (Inl (Err (''deploy-agent: container '' @ take 12 containerID @ '' reported unhealthy after '' @ show_nat attempts @
                        '' inspect polls (last log: '' @ (if st_HealthLog st = [] then [] else last (st_HealthLog st)) @ '')'')))
                    else Inr h)))"

fun container_health_loop :: "nat \<Rightarrow> 'w agent \<Rightarrow> string \<Rightarrow> int \<Rightarrow> int \<Rightarrow> nat \<Rightarrow> string \<Rightarrow> ('w, engine_error + unit) mprog" where
  "container_health_loop 0 a cid limit deadline attempts seen = State_Monad.return (Inl OutOfFuel)"
| "container_health_loop (Suc fuel) a cid limit deadline attempts seen = do {
     i \<leftarrow> inspect a cid;
     case judge_health cid (Suc attempts) seen i of
       Inl r \<Rightarrow> State_Monad.return r
     | Inr seen \<Rightarrow> do {
         n \<leftarrow> next_attempt a deadline;
         case n of
           None \<Rightarrow> State_Monad.return (Inl (Err (''deploy-agent: container '' @ take 12 cid @ '' did not reach healthy status within '' @
             show_duration limit @ '' (last='' @ go_quote seen @ '', '' @ show_nat (Suc attempts) @ '' attempts)'')))
         | Some r \<Rightarrow> or_fail r (\<lambda>_. container_health_loop fuel a cid limit deadline (Suc attempts) seen)
       }
   }"

definition waitContainerHealthy :: "'w agent \<Rightarrow> string \<Rightarrow> int \<Rightarrow> ('w, engine_error + unit) mprog" where
  "waitContainerHealthy a cid limit =
     (if cid = [] then State_Monad.return (Inr ())
      else do {
        let limit = max limit containerHealthPollInterval;
        t \<leftarrow> time_Now (ag_sys a);
        container_health_loop (ag_fuel a) a cid limit (t + limit) 0 []
      })"

section \<open>Budgets and URLs\<close>

definition previousContainerName :: string where "previousContainerName = ''swirl-previous''"
definition pullBudgetMin :: int where "pullBudgetMin = 60 * sec"
definition pullBudgetMax :: int where "pullBudgetMax = 300 * sec"
definition stopGraceDefault :: int where "stopGraceDefault = 30 * sec"
definition rollbackHealthTimeout :: int where "rollbackHealthTimeout = 30 * sec"
definition SelfDeployDefaultTimeout :: int where "SelfDeployDefaultTimeout = 600 * sec"

definition short :: "string \<Rightarrow> string" where "short i = (if length i > 12 then take 12 i else i)"

text \<open>\<open>limit / 2\<close> rounds towards zero.\<close>

definition splitPullBudget :: "int \<Rightarrow> int" where
  "splitPullBudget limit =
     (let budget = (if limit < 0 then - (- limit div 2) else limit div 2);
          budget = (if budget < pullBudgetMin then pullBudgetMin else budget)
      in if budget > pullBudgetMax then pullBudgetMax else budget)"

definition splitHealthBudget :: "int \<Rightarrow> int \<Rightarrow> int" where
  "splitHealthBudget limit pullBudget =
     (let remaining = limit - pullBudget in if remaining < minHealthTimeout then minHealthTimeout else remaining)"

text \<open>A duration is an int64, so that the product of the timeout wraps around.\<close>

definition deploy_timeout :: "self_deploy_job \<Rightarrow> int" where
  "deploy_timeout j =
     (let timeout = int64 (job_TimeoutSec j * sec) in if timeout \<le> 0 then SelfDeployDefaultTimeout else timeout)"

definition expose_port :: "self_deploy_job \<Rightarrow> int" where
  "expose_port j = (if job_ExposePort j = 0 then SelfDeployExposePort else job_ExposePort j)"

definition buildHealthURL :: "self_deploy_job \<Rightarrow> string" where
  "buildHealthURL j = ''http://127.0.0.1:'' @ show_int (expose_port j) @ ''/api/system/ready''"

definition resolveHealthURL :: "'w agent \<Rightarrow> self_deploy_job \<Rightarrow> ('w, go_error + string) mprog" where
  "resolveHealthURL a j = do {
     r \<leftarrow> findSwirlContainerIP a (job_StackName j);
     State_Monad.return (Inr (case r of
       Inl _ \<Rightarrow> buildHealthURL j
     | Inr ip \<Rightarrow> if ip = [] then buildHealthURL j
         else ''http://'' @ ip @ '':'' @ show_int (expose_port j) @ ''/api/system/ready''))
   }"

section \<open>The steps of a deploy\<close>

definition stopPrimary :: "'w agent \<Rightarrow> string \<Rightarrow> ('w, engine_error + unit) mprog" where
  "stopPrimary a i = stopContainer a i"

definition renamePrimary :: "'w agent \<Rightarrow> string \<Rightarrow> string \<Rightarrow> ('w, engine_error + unit) mprog" where
  "renamePrimary a oldName newName = do {
     x \<leftarrow> containerExists a newName;
     case x of
       Inl e \<Rightarrow> State_Monad.return (Inl (wrap (''deploy-agent: probe stale '' @ go_quote newName @ '': '') e))
     | Inr found \<Rightarrow> do {
         r \<leftarrow> (if found then removeContainer a newName else State_Monad.return (Inr ()));
         case r of
           Inl e \<Rightarrow> State_Monad.return (Inl (wrap (''deploy-agent: remove stale '' @ go_quote newName @ '': '') e))
         | Inr _ \<Rightarrow> renameContainer a oldName newName
       }
   }"

definition removePrevious :: "'w agent \<Rightarrow> ('w, engine_error + unit) mprog" where
  "removePrevious a = do {
     x \<leftarrow> containerExists a previousContainerName;
     or_fail x (\<lambda>found. if found then removeContainer a previousContainerName else State_Monad.return (Inr ()))
   }"

definition err_text :: "engine_error \<Rightarrow> go_error" where
  "err_text e = (case e of Err m \<Rightarrow> m | OutOfFuel \<Rightarrow> [])"

definition pullImage :: "'w agent \<Rightarrow> string \<Rightarrow> ('w, engine_error + unit) mprog" where
  "pullImage a ref = do {
     r \<leftarrow> pullImageRaw a ref;
     case r of
       Inr _ \<Rightarrow> State_Monad.return (Inr ())
     | Inl pullErr \<Rightarrow> do {
         x \<leftarrow> imageExists a ref;
         if x then do {
           _ \<leftarrow> sw_Logf a (''pull failed ('' @ err_text pullErr @ ''); image is present locally, continuing with cached tag'');
           State_Monad.return (Inr ())
         }
         else State_Monad.return (Inl pullErr)
       }
   }"

definition deployNew :: "'w agent \<Rightarrow> string \<Rightarrow> string \<Rightarrow> (string \<times> string) list \<Rightarrow> ('w, engine_error + unit) mprog" where
  "deployNew a project yaml vars = do {
     (_, r) \<leftarrow> on_engine (DeployWithResult (ag_fuel a) (sys_sdk (ag_sys a)) (sys_runtime (ag_sys a)) project yaml
       \<lparr>PullImages = False, EnvVars = vars, PreserveContainerNames = [previousContainerName]\<rparr> None);
     State_Monad.return r
   }"

section \<open>Failure and rollback\<close>

definition remove_partial :: "'w agent \<Rightarrow> self_deploy_job \<Rightarrow> ('w, unit) mprog" where
  "remove_partial a j = do {
     r \<leftarrow> on_engine (RemoveExcept (sys_sdk (ag_sys a)) (job_StackName j) False [previousContainerName] []);
     case r of
       Inl e \<Rightarrow> sw_Logf a (''rollback: cleanup of new stack failed (continuing): '' @ err_text e)
     | Inr _ \<Rightarrow> sw_Logf a ''rollback: removed partial new stack''
   }"

text \<open>A container outside the project which has the primary's name.\<close>

definition remove_leftover :: "'w agent \<Rightarrow> string \<Rightarrow> ('w, engine_error + unit) mprog" where
  "remove_leftover a originalName =
     (if originalName = [] then State_Monad.return (Inr ())
      else do {
        x \<leftarrow> containerExists a originalName;
        if x = Inr True then do {
          _ \<leftarrow> sw_Logf a (''rollback: removing leftover container named '' @ go_quote originalName);
          r \<leftarrow> removeContainer a originalName;
          State_Monad.return (wrap_result (''remove leftover '' @ go_quote originalName @ '': '') r)
        }
        else State_Monad.return (Inr ())
      })"

definition restore_previous :: "'w agent \<Rightarrow> self_deploy_job \<Rightarrow> string \<Rightarrow> ('w, engine_error + unit) mprog" where
  "restore_previous a j originalName = do {
     x \<leftarrow> containerExists a previousContainerName;
     case x of
       Inl e \<Rightarrow> State_Monad.return (Inl (wrap ''probe previous: '' e))
     | Inr found \<Rightarrow>
         if \<not> found then
           State_Monad.return (Inl (Err (''previous container '' @ go_quote previousContainerName @ '' not found; manual recovery required'')))
         else do {
           let target = (if originalName = [] then job_StackName j else originalName);
           _ \<leftarrow> sw_Logf a (''rollback: renaming '' @ go_quote previousContainerName @ '' back to '' @ go_quote target);
           r \<leftarrow> renameContainer a previousContainerName target;
           or_fail (wrap_result ''rename back: '' r) (\<lambda>_. do {
             _ \<leftarrow> sw_Logf a (''rollback: starting '' @ go_quote target);
             r \<leftarrow> startContainer a target;
             or_fail (wrap_result ''start previous: '' r) (\<lambda>_. do {
               _ \<leftarrow> sw_Logf a (''rollback: waiting for old Swirl to respond at '' @ buildHealthURL j @ '' (budget '' @
                 show_duration rollbackHealthTimeout @ '')'');
               r \<leftarrow> waitHealthy a (buildHealthURL j) rollbackHealthTimeout;
               or_fail (wrap_result ''previous Swirl did not come back up: '' r) (\<lambda>_. do {
                 _ \<leftarrow> sw_Logf a ''rollback: previous Swirl is healthy again'';
                 State_Monad.return (Inr ())
               })
             })
           })
         }
   }"

definition rollback :: "'w agent \<Rightarrow> self_deploy_job \<Rightarrow> string \<Rightarrow> ('w, engine_error + unit) mprog" where
  "rollback a j originalName = do {
     _ \<leftarrow> sw_Logf a ''attempting auto-rollback'';
     _ \<leftarrow> remove_partial a j;
     r \<leftarrow> remove_leftover a originalName;
     or_fail r (\<lambda>_. restore_previous a j originalName)
   }"

text \<open>The only error that is not one of the code is that the fuel of a loop is spent.\<close>

definition handleDeployFailure :: "'w agent \<Rightarrow> self_deploy_job \<Rightarrow> string \<Rightarrow> go_error \<Rightarrow> ('w, engine_error + unit) mprog" where
  "handleDeployFailure a j originalName cause = do {
     _ \<leftarrow> sw_Logf a (''deploy failed: '' @ cause);
     if job_AutoRollback j then do {
       r \<leftarrow> rollback a j originalName;
       case r of
         Inl OutOfFuel \<Rightarrow> State_Monad.return (Inl OutOfFuel)
       | Inl (Err rb) \<Rightarrow> do {
           _ \<leftarrow> sw_Logf a (''rollback failed: '' @ rb);
           _ \<leftarrow> sw_MarkRecovery a (''deploy failed and rollback failed: deploy='' @ cause @ ''; rollback='' @ rb);
           State_Monad.return (Inl (Err (''self-deploy: deploy failed ('' @ cause @ '') and rollback failed ('' @ rb @ '')'')))
         }
       | Inr _ \<Rightarrow> do {
           _ \<leftarrow> sw_MarkRolledBack a cause;
           State_Monad.return (Inl (Err (''self-deploy: deploy failed, rolled back to previous: '' @ cause)))
         }
     }
     else do {
       _ \<leftarrow> sw_MarkRecovery a cause;
       State_Monad.return (Inl (Err (''self-deploy: deploy failed (no auto-rollback): '' @ cause)))
     }
   }"

section \<open>The deploy\<close>

definition health_gate :: "'w agent \<Rightarrow> self_deploy_job \<Rightarrow> int \<Rightarrow> ('w, engine_error + unit) mprog" where
  "health_gate a j budget = do {
     u \<leftarrow> resolveHealthURL a j;
     _ \<leftarrow> (case u of
       Inr (c # cs) \<Rightarrow> sw_Logf a (''waiting for new Swirl to answer GET '' @ (c # cs) @ '' (budget '' @ show_duration budget @ '', resolved by label)'')
     | _ \<Rightarrow> sw_Logf a (''waiting for new Swirl to answer /api/system/ready (budget '' @ show_duration budget @ '', awaiting container registration)''));
     r \<leftarrow> waitHealthyResolver a (resolveHealthURL a j) budget;
     State_Monad.return (wrap_result ''health check: '' r)
   }"

definition container_gate :: "'w agent \<Rightarrow> self_deploy_job \<Rightarrow> int \<Rightarrow> ('w, engine_error + unit) mprog" where
  "container_gate a j budget = do {
     c \<leftarrow> findSwirlContainerID a (job_StackName j);
     case c of
       Inr (x # xs) \<Rightarrow> do {
         _ \<leftarrow> sw_Logf a (''waiting for container '' @ take 12 (x # xs) @ '' to report Docker healthcheck=healthy (budget '' @ show_duration budget @ '')'');
         r \<leftarrow> waitContainerHealthy a (x # xs) budget;
         State_Monad.return (wrap_result ''container healthcheck: '' r)
       }
     | _ \<Rightarrow> State_Monad.return (Inr ())
   }"

text \<open>Steps 3 to 5 of \<open>runDeploy\<close>, whose errors all end in \<open>handleDeployFailure\<close>.\<close>

definition install :: "'w agent \<Rightarrow> self_deploy_job \<Rightarrow> int \<Rightarrow> ('w, engine_error + unit) mprog" where
  "install a j timeout = do {
     _ \<leftarrow> sw_SetPhase a SelfDeployPhasePulling;
     _ \<leftarrow> sw_Logf a (''pulling image '' @ job_TargetImageTag j);
     let pullBudget = splitPullBudget timeout;
     r \<leftarrow> pullImage a (job_TargetImageTag j);
     or_fail (wrap_result ''image pull: '' r) (\<lambda>_. do {
       _ \<leftarrow> sw_SetPhase a SelfDeployPhaseStarting;
       _ \<leftarrow> sw_Logf a (''deploying stack (project='' @ job_StackName j @ '')'');
       r \<leftarrow> deployNew a (job_StackName j) (job_ComposeYAML j) (job_EnvVars j);
       or_fail (wrap_result ''deploy new stack: '' r) (\<lambda>_. do {
         _ \<leftarrow> sw_SetPhase a SelfDeployPhaseHealthCheck;
         r \<leftarrow> health_gate a j (splitHealthBudget timeout pullBudget);
         or_fail r (\<lambda>_. container_gate a j (splitHealthBudget timeout pullBudget))
       })
     })
   }"

text \<open>Step 6.\<close>

definition commit :: "'w agent \<Rightarrow> ('w, engine_error + unit) mprog" where
  "commit a = do {
     _ \<leftarrow> sw_Logf a (''deploy healthy; removing '' @ previousContainerName);
     r \<leftarrow> removePrevious a;
     _ \<leftarrow> (case r of
       Inl e \<Rightarrow> sw_Logf a (''warning: could not remove '' @ previousContainerName @ '': '' @ err_text e @ '' (leaving in place for operator cleanup)'')
     | Inr _ \<Rightarrow> State_Monad.return ());
     _ \<leftarrow> sw_Succeed a;
     State_Monad.return (Inr ())
   }"

definition after_rename :: "'w agent \<Rightarrow> self_deploy_job \<Rightarrow> string \<Rightarrow> int \<Rightarrow> ('w, engine_error + unit) mprog" where
  "after_rename a j originalName timeout = do {
     r \<leftarrow> install a j timeout;
     case r of
       Inl OutOfFuel \<Rightarrow> State_Monad.return (Inl OutOfFuel)
     | Inl (Err cause) \<Rightarrow> handleDeployFailure a j originalName cause
     | Inr _ \<Rightarrow> commit a
   }"

text \<open>An error before the rename: it becomes the state, and the result.\<close>

definition failed_early :: "'w agent \<Rightarrow> engine_error \<Rightarrow> ('w, engine_error + unit) mprog" where
  "failed_early a e = do {
     _ \<leftarrow> sw_Fail a (err_text e);
     State_Monad.return (Inl e)
   }"

definition original_name :: "'w agent \<Rightarrow> self_deploy_job \<Rightarrow> ('w, string) mprog" where
  "original_name a j = do {
     i \<leftarrow> inspectContainer a (job_PrimaryContainer j);
     let n = (case i of Inl _ \<Rightarrow> [] | Inr info \<Rightarrow> trim_prefix (in_Name info) ''/'');
     State_Monad.return (if n = [] then job_StackName j else n)
   }"

text \<open>Steps 1 and 2: stop the primary and move it out of the way.\<close>

definition displace_primary :: "'w agent \<Rightarrow> self_deploy_job \<Rightarrow> string \<Rightarrow> ('w, engine_error + unit) mprog" where
  "displace_primary a j originalName = do {
     _ \<leftarrow> sw_SetPhase a SelfDeployPhaseStopping;
     _ \<leftarrow> sw_Logf a (''stopping primary container '' @ short (job_PrimaryContainer j) @ '' (graceful '' @ show_duration stopGraceDefault @ '')'');
     r \<leftarrow> stopPrimary a (job_PrimaryContainer j);
     or_fail r (\<lambda>_. do {
       _ \<leftarrow> sw_Logf a (''renaming primary container '' @ short (job_PrimaryContainer j) @ '' -> '' @ previousContainerName @
         '' (original name: '' @ originalName @ '')'');
       r \<leftarrow> renamePrimary a (job_PrimaryContainer j) previousContainerName;
       case r of
         Inr _ \<Rightarrow> State_Monad.return (Inr ())
       | Inl e \<Rightarrow> do {
           _ \<leftarrow> startContainer a (job_PrimaryContainer j);
           State_Monad.return (Inl e)
         }
     })
   }"

definition runDeploy :: "'w agent \<Rightarrow> self_deploy_job \<Rightarrow> ('w, engine_error + unit) mprog" where
  "runDeploy a j = do {
     env \<leftarrow> on_engine (State (\<lambda>s. (environ s, s)));
     case ValidateSelfDeployJob (sys_runtime (ag_sys a)) env j of
       Inl m \<Rightarrow> failed_early a (Err m)
     | Inr _ \<Rightarrow> do {
         c \<leftarrow> newDockerClient a;
         case c of
           Inl e \<Rightarrow> failed_early a e
         | Inr _ \<Rightarrow> do {
             p \<leftarrow> pingDocker a;
             case p of
               Inl e \<Rightarrow> failed_early a e
             | Inr _ \<Rightarrow> do {
                 originalName \<leftarrow> original_name a j;
                 r \<leftarrow> displace_primary a j originalName;
                 case r of
                   Inl e \<Rightarrow> failed_early a e
                 | Inr _ \<Rightarrow> after_rename a j originalName (deploy_timeout j)
               }
           }
       }
   }"

section \<open>The process\<close>

definition ExitOK :: int where "ExitOK = 0"
definition ExitRuntime :: int where "ExitRuntime = 1"
definition ExitUsage :: int where "ExitUsage = 2"
definition ExitDeployErr :: int where "ExitDeployErr = 3"

definition EnvJobPath :: string where "EnvJobPath = ''SWIRL_SELF_DEPLOY_JOB''"

text \<open>The flag package on the two names of the one flag: whether help is asked for, or a usage error.
  A flag without a value is set; parsing stops at the first argument that is no flag.\<close>

definition flag_bool :: "string \<Rightarrow> bool option" where
  "flag_bool v =
     (if v \<in> {''1'', ''t'', ''T'', ''true'', ''TRUE'', ''True''} then Some True
      else if v \<in> {''0'', ''f'', ''F'', ''false'', ''FALSE'', ''False''} then Some False
      else None)"

fun parse_flags :: "bool \<Rightarrow> string list \<Rightarrow> bool option" where
  "parse_flags help [] = Some help"
| "parse_flags help (s # args) =
     (if length s < 2 \<or> hd s \<noteq> CHR ''-'' then Some help
      else if s = ''--'' then Some help
      else let name = (if s ! 1 = CHR ''-'' then drop 2 s else drop 1 s) in
        if hd name = CHR ''-'' \<or> hd name = CHR ''='' then None
        else (case str_cut ''='' name of
            Some (n, v) \<Rightarrow>
              (case flag_bool v of
                 Some b \<Rightarrow> if n = ''help'' \<or> n = ''h'' then parse_flags b args else None
               | None \<Rightarrow> None)
          | None \<Rightarrow> if name = ''help'' \<or> name = ''h'' then parse_flags True args else None))"

definition loadJob :: "'w system \<Rightarrow> string \<Rightarrow> ('w, go_error + self_deploy_job) mprog" where
  "loadJob sys path = do {
     r \<leftarrow> os_ReadFile sys path;
     State_Monad.return (case r of
       Inl e \<Rightarrow> Inl (fs_text e)
     | Inr c \<Rightarrow>
         if c = Bytes [] then Inl ''job file is empty''
         else (case decode_job c of
           Inl e \<Rightarrow> Inl (''parse job JSON: '' @ e)
         | Inr j \<Rightarrow> if TrimSpace (job_ID j) = [] then Inl ''job file missing ID'' else Inr j))
   }"

text \<open>\<open>newStateWriter\<close> with the write of its first flush.\<close>

definition open_writer :: "'w agent \<Rightarrow> self_deploy_state \<Rightarrow> ('w, go_error + unit) mprog" where
  "open_writer a initial = do {
     t \<leftarrow> time_Now (ag_sys a);
     r \<leftarrow> (case newStateWriter (Inr ()) t initial None of
            Inr (_, Some st) \<Rightarrow> write_state_file a st
          | _ \<Rightarrow> State_Monad.return (Inr ()));
     or_fail (newStateWriter r t initial None) (\<lambda>(sw, _). do {
       _ \<leftarrow> set_writer sw;
       State_Monad.return (Inr ())
     })
   }"

definition DefaultJobFile :: string where "DefaultJobFile = ''job.json''"
definition DefaultStateFile :: string where "DefaultStateFile = ''state.json''"
definition DefaultLockFile :: string where "DefaultLockFile = ''.lock''"

text \<open>A copy that fails leaves a part of the file, which does not parse.\<close>

definition copyFileIfExists :: "'w system \<Rightarrow> string \<Rightarrow> string \<Rightarrow> ('w, go_error + unit) mprog" where
  "copyFileIfExists sys src dst = do {
     f \<leftarrow> io_call sys (OpenRead src);
     c \<leftarrow> get_file src;
     case (f, c) of
       (Some e, _) \<Rightarrow> State_Monad.return (if e = ErrNotExist then Inr () else Inl (fs_text e))
     | (None, None) \<Rightarrow> State_Monad.return (Inr ())
     | (None, Some c) \<Rightarrow> do {
         f \<leftarrow> io_call sys (OpenTruncate dst);
         case f of
           Some e \<Rightarrow> State_Monad.return (Inl (fs_text e))
         | None \<Rightarrow> do {
             _ \<leftarrow> put_file dst (Some (Bytes []));
             f \<leftarrow> io_call sys (CopyFile src dst);
             case f of
               Some e \<Rightarrow> State_Monad.return (Inl (fs_text e))
             | None \<Rightarrow> do { _ \<leftarrow> put_file dst (Some c); State_Monad.return (Inr ()) }
           }
       }
   }"

text \<open>The entries that are directories and can be inspected; all but the \<open>keep\<close> last modified are to
  be deleted.  The sort of the code is not stable: this is one order of equal times.\<close>

definition old_entries :: "nat \<Rightarrow> (string \<times> bool \<times> int option) list \<Rightarrow> string list" where
  "old_entries keep entries =
     (let dirs = concat (map (\<lambda>(n, is_dir, t). case t of Some t \<Rightarrow> if is_dir then [(n, t)] else [] | None \<Rightarrow> []) entries)
      in map fst (take (length dirs - keep) (sort_key snd dirs)))"

fun remove_trees :: "'w system \<Rightarrow> string \<Rightarrow> string list \<Rightarrow> ('w, unit) mprog" where
  "remove_trees sys root [] = State_Monad.return ()"
| "remove_trees sys root (n # ns) = do {
     let path = path_join [root, n];
     f \<leftarrow> io_call sys (RemoveAll path);
     _ \<leftarrow> (case f of
       Some _ \<Rightarrow> State_Monad.return ()
     | None \<Rightarrow> State (\<lambda>m. ((), m\<lparr>m_files := (\<lambda>p. if p = path \<or> has_prefix p (path @ ''/'') then None else m_files m p)\<rparr>)));
     remove_trees sys root ns
   }"

definition pruneHistory :: "'w agent \<Rightarrow> string \<Rightarrow> nat \<Rightarrow> ('w, go_error + unit) mprog" where
  "pruneHistory a root keep = do {
     r \<leftarrow> effect (ag_ReadDir a root);
     or_fail r (\<lambda>entries. do {
       _ \<leftarrow> remove_trees (ag_sys a) root (old_entries keep entries);
       State_Monad.return (Inr ())
     })
   }"

definition make_dir :: "'w agent \<Rightarrow> string \<Rightarrow> string \<Rightarrow> ('w, go_error + unit) mprog" where
  "make_dir a what path = do {
     f \<leftarrow> io_call (ag_sys a) (MkdirAll path);
     State_Monad.return (case f of Some e \<Rightarrow> Inl (''mkdir '' @ what @ '': '' @ fs_text e) | None \<Rightarrow> Inr ())
   }"

definition rotateHistory :: "'w agent \<Rightarrow> string \<Rightarrow> self_deploy_job \<Rightarrow> ('w, go_error + unit) mprog" where
  "rotateHistory a dir job =
     (if job_ID job = [] then State_Monad.return (Inl ''nil job or empty id'')
      else do {
        let root = path_join [dir, ''history''];
        let target = path_join [root, job_ID job];
        r \<leftarrow> make_dir a ''history'' root;
        or_fail r (\<lambda>_. do {
          r \<leftarrow> make_dir a target target;
          or_fail r (\<lambda>_. do {
            _ \<leftarrow> flushing a (\<lambda>io w. snd (flushLocked io w));
            r \<leftarrow> copyFileIfExists (ag_sys a) (path_join [dir, DefaultJobFile]) (path_join [target, DefaultJobFile]);
            or_fail r (\<lambda>_. do {
              r \<leftarrow> copyFileIfExists (ag_sys a) (path_join [dir, DefaultStateFile]) (path_join [target, DefaultStateFile]);
              or_fail r (\<lambda>_. pruneHistory a root 20)
            })
          })
        })
      })"

text \<open>From the deploy to the exit code.\<close>

definition run_job :: "'w agent \<Rightarrow> string \<Rightarrow> self_deploy_job \<Rightarrow> ('w, int) mprog" where
  "run_job a dir job = do {
     runErr \<leftarrow> runDeploy a job;
     _ \<leftarrow> os_Remove (ag_sys a) (path_join [dir, DefaultLockFile]);
     _ \<leftarrow> rotateHistory a dir job;
     interrupted \<leftarrow> on_engine (observe (ag_interrupted a));
     _ \<leftarrow> flushing a Close;
     State_Monad.return (if interrupted then 130 else if runErr = Inr () then ExitOK else ExitDeployErr)
   }"

definition runWithIO :: "'w agent \<Rightarrow> string list \<Rightarrow> ('w, int) mprog" where
  "runWithIO a args =
     (case parse_flags False args of
        None \<Rightarrow> State_Monad.return ExitUsage
      | Some True \<Rightarrow> State_Monad.return ExitOK
      | Some False \<Rightarrow> do {
          env \<leftarrow> on_engine (State (\<lambda>s. (environ s, s)));
          case (case env EnvJobPath of Some p \<Rightarrow> p | None \<Rightarrow> []) of
            [] \<Rightarrow> State_Monad.return ExitUsage
          | c # cs \<Rightarrow> do {
              r \<leftarrow> loadJob (ag_sys a) (c # cs);
              case r of
                Inl _ \<Rightarrow> State_Monad.return ExitUsage
              | Inr job \<Rightarrow> do {
                  let dir = path_dir (c # cs);
                  let a = a\<lparr>ag_path := path_join [dir, DefaultStateFile]\<rparr>;
                  t \<leftarrow> time_Now (ag_sys a);
                  w \<leftarrow> open_writer a
                    \<lparr>sd_JobID = job_ID job, sd_Phase = SelfDeployPhasePending, sd_StartedAt = t, sd_FinishedAt = 0,
                     sd_Error = [], sd_LogTail = [], sd_EventPublished = False\<rparr>;
                  case w of
                    Inl _ \<Rightarrow> State_Monad.return ExitRuntime
                  | Inr _ \<Rightarrow> run_job a dir job
                }
            }
        })"
end
