(* ===== verification/AgentTheorems.thy ===== *)
theory AgentTheorems
  imports DeployAgent MachineRules
begin

text \<open>
  The deploy agent: which containers and volumes a deploy may remove, in which phase it ends, when a
  rollback is possible, and that it ends.
\<close>

section \<open>The calls of a deploy\<close>

lemma traced_on_writer [trace_rules]: "traced P (on_writer f)" "traced P (State (\<lambda>m. (m_writer m, m)))" "traced P (set_writer sw)"
  by (simp_all add: traced_def on_writer_def set_writer_def)

lemma traced_flushing [trace_rules]: "traced P (flushing a f)"
  unfolding flushing_def write_state_file_def by (intro trace_rules)

lemma traced_sw [trace_rules]:
  "traced P (sw_SetPhase a phase)" "traced P (sw_Logf a line)" "traced P (sw_Fail a err)" "traced P (sw_Succeed a)"
  "traced P (sw_MarkRolledBack a reason)" "traced P (sw_MarkRecovery a reason)"
  unfolding sw_SetPhase_def sw_Logf_def sw_Fail_def sw_Succeed_def sw_MarkRolledBack_def sw_MarkRecovery_def
  by (intro trace_rules)+

lemma traced_call [trace_rules]: "P q \<Longrightarrow> traced P (sdk_call q f)"
  unfolding sdk_call_def by (intro trace_rules emits_docker)

lemma traced_http_get [trace_rules]: "P (HttpGet url) \<Longrightarrow> traced P (on_engine (http_get url f))"
  by (rule traced_engine) (simp add: http_get_def split: prod.split)

lemma traced_effect [trace_rules]: "traced P (effect f)"
  unfolding effect_def by (intro trace_rules)

text \<open>A predicate that holds of the calls which change nothing, and of starting a container.\<close>

definition lenient :: "(request \<Rightarrow> bool) \<Rightarrow> bool" where
  "lenient P \<longleftrightarrow> (\<forall>q. \<not> mutating q \<longrightarrow> P q) \<and> (\<forall>i. P (ContainerStart i)) \<and> (\<forall>q. constructive q \<longrightarrow> P q)"

lemma lenientD:
  assumes "lenient P"
  shows "P DaemonPing" "P (ContainerInspect i)" "P (ContainerList b fs)" "P (ImagePull ref)" "P (ImageInspect ref)" "P (HttpGet url)"
    "P (ContainerStart i)" "P (NetworkList fs)"
  using assms by (simp_all add: lenient_def)

lemma traced_lookups [trace_rules]:
  assumes "lenient P"
  shows "traced P (newDockerClient a)" "traced P (pingDocker a)" "traced P (startContainer a i)" "traced P (inspect a i)"
    "traced P (inspectContainer a i)" "traced P (containerExists a i)" "traced P (list_project a project)"
    "traced P (findSwirlContainerIP a project)" "traced P (findSwirlContainerID a project)"
    "traced P (pullImageRaw a ref)" "traced P (imageExists a ref)" "traced P (pullImage a ref)" "traced P (probeOnce a url)"
    "traced P (resolveHealthURL a j)" "traced P (original_name a j)"
  unfolding newDockerClient_def pingDocker_def startContainer_def inspect_def inspectContainer_def containerExists_def
    list_project_def findSwirlContainerIP_def findSwirlContainerID_def pullImageRaw_def imageExists_def pullImage_def
    probeOnce_def resolveHealthURL_def original_name_def Let_def
  by (intro trace_rules lenientD [OF assms])+

lemma traced_next_attempt [trace_rules]: "traced P (next_attempt a deadline)"
  unfolding next_attempt_def by (intro trace_rules emits_pause)

lemma traced_probe_round [trace_rules]: "lenient P \<Longrightarrow> traced P resolve \<Longrightarrow> traced P (probe_round a resolve l)"
  unfolding probe_round_def Let_def by (intro trace_rules)

lemma traced_health_loop [trace_rules]:
  "lenient P \<Longrightarrow> traced P resolve \<Longrightarrow> traced P (health_loop fuel a resolve limit deadline l)"
proof (induction fuel arbitrary: l)
  case (Suc fuel)
  then show ?case unfolding health_loop.simps by (intro trace_rules) simp_all
qed (simp add: trace_rules)

lemma traced_waitHealthy [trace_rules]:
  "lenient P \<Longrightarrow> traced P resolve \<Longrightarrow> traced P (waitHealthyResolver a resolve limit)"
  "lenient P \<Longrightarrow> traced P (waitHealthy a url limit)"
  unfolding waitHealthy_def waitHealthyResolver_def Let_def by (intro trace_rules; simp)+

lemma traced_container_health_loop [trace_rules]:
  "lenient P \<Longrightarrow> traced P (container_health_loop fuel a cid limit deadline attempts seen)"
proof (induction fuel arbitrary: attempts seen)
  case (Suc fuel)
  then show ?case unfolding container_health_loop.simps by (intro trace_rules) simp_all
qed (simp add: trace_rules)

lemma traced_waitContainerHealthy [trace_rules]: "lenient P \<Longrightarrow> traced P (waitContainerHealthy a cid limit)"
  unfolding waitContainerHealthy_def Let_def by (intro trace_rules; simp)

lemma traced_gates [trace_rules]:
  assumes "lenient P"
  shows "traced P (health_gate a j budget)" "traced P (container_gate a j budget)"
  unfolding health_gate_def container_gate_def by (intro trace_rules assms)+

lemma traced_stop [trace_rules]: "P (ContainerStop i) \<Longrightarrow> traced P (stopContainer a i)"
  unfolding stopContainer_def by (intro trace_rules)

lemma traced_remove [trace_rules]: "P (ContainerRemove i True False) \<Longrightarrow> traced P (removeContainer a i)"
  unfolding removeContainer_def by (intro trace_rules)

lemma traced_rename [trace_rules]: "P (ContainerRename i n) \<Longrightarrow> traced P (renameContainer a i n)"
  unfolding renameContainer_def by (intro trace_rules)

text \<open>The engine's part of a deploy, under the condition on the containers it removes.\<close>

definition engine_removal :: "(request \<Rightarrow> bool) \<Rightarrow> 'w agent \<Rightarrow> string \<Rightarrow> bool" where
  "engine_removal P a project \<longleftrightarrow>
     (\<forall>ignore. emits P (removeProjectContainers (sys_sdk (ag_sys a)) project ignore [previousContainerName]))"

lemma traced_deployNew:
  assumes "lenient P" and "engine_removal P a project"
  shows "traced P (deployNew a project yaml vars)"
proof -
  have "traced P (on_engine (DeployWithResult (ag_fuel a) (sys_sdk (ag_sys a)) (sys_runtime (ag_sys a)) project yaml
       \<lparr>PullImages = False, EnvVars = vars, PreserveContainerNames = [previousContainerName]\<rparr> None))"
  proof (rule traced_engine)
    fix s
    show "\<exists>new. trace (snd (run_state (DeployWithResult (ag_fuel a) (sys_sdk (ag_sys a)) (sys_runtime (ag_sys a)) project yaml
       \<lparr>PullImages = False, EnvVars = vars, PreserveContainerNames = [previousContainerName]\<rparr> None) s)) = trace s @ new \<and>
       (\<forall>(q, ok) \<in> set new. P q)"
      by (rule deploy_emits [OF prod.collapse [symmetric]], rule emits_deploy_parsed, rule emits_deploy_apply)
        (use assms in \<open>auto simp: engine_removal_def lenient_def\<close>)
  qed
  then show ?thesis unfolding deployNew_def by (rule traced_bind) (intro trace_rules)
qed

lemma traced_install:
  assumes "lenient P" and "engine_removal P a (job_StackName j)"
  shows "traced P (install a j timeout)"
  unfolding install_def Let_def by (intro trace_rules traced_deployNew assms)

lemma traced_rollback:
  assumes "lenient P" and "engine_removal P a (job_StackName j)"
    and "\<And>n. P (NetworkRemove n)" and "P (ContainerRemove originalName True False)" and "\<And>n. P (ContainerRename previousContainerName n)"
  shows "traced P (rollback a j originalName)"
proof -
  have "emits P (RemoveExcept (sys_sdk (ag_sys a)) (job_StackName j) False [previousContainerName] [])"
    using assms(1-3) unfolding RemoveExcept_def removeWithPreserve_def engine_removal_def
    by (intro emit_rules) (auto simp: lenient_def)
  then show ?thesis
    unfolding rollback_def remove_partial_def remove_leftover_def restore_previous_def Let_def
    by (intro trace_rules assms)
qed


fun removes_container :: "string \<Rightarrow> request \<Rightarrow> bool" where
  "removes_container i (ContainerRemove j _ _) = (j = i)"
| "removes_container _ _ = False"

lemma lenient_spares: "lenient (\<lambda>q. \<not> removes_container i q)"
proof -
  have "\<not> removes_container i q" if "\<not> mutating q \<or> constructive q" for q
    using that by (cases q) auto
  then show ?thesis by (auto simp: lenient_def)
qed

lemma engine_spares:
  assumes "always_preserved (sys_sdk (ag_sys a)) project [previousContainerName] i"
  shows "engine_removal (\<lambda>q. \<not> removes_container i q) a project"
  unfolding engine_removal_def
proof
  fix ignore
  show "emits (\<lambda>q. \<not> removes_container i q) (removeProjectContainers (sys_sdk (ag_sys a)) project ignore [previousContainerName])"
  proof (rule emits_mono)
    show "emits (\<lambda>q. \<not> hits_container i q) (removeProjectContainers (sys_sdk (ag_sys a)) project ignore [previousContainerName])"
      using assms by (rule removeProjectContainers_preserves)
    show "\<not> removes_container i q" if "\<not> hits_container i q" for q
      using that by (cases q) auto
  qed
qed

lemma traced_handleDeployFailure:
  assumes "traced P (rollback a j originalName)"
  shows "traced P (handleDeployFailure a j originalName cause)"
  unfolding handleDeployFailure_def by (intro trace_rules assms)

text \<open>C2: A deploy that does not succeed never removes the backup: from the moment the primary has been
  renamed, no call removes a container that the daemon lists only under the name of the backup,
  neither through the engine's clean-up, nor on any error, nor in the rollback, except by the
  primary's own original name.\<close>

theorem backup_survives_failure:
  assumes "run_state (after_rename a j originalName timeout) s = (r, s')" and "r \<noteq> Inr ()"
    and "always_preserved (sys_sdk (ag_sys a)) (job_StackName j) [previousContainerName] i" and "i \<noteq> originalName"
  shows "\<exists>new. trace (m_engine s') = trace (m_engine s) @ new \<and> (\<forall>(q, ok) \<in> set new. \<not> removes_container i q)"
proof -
  let ?P = "\<lambda>q. \<not> removes_container i q"
  have parts: "traced ?P (install a j timeout)" "traced ?P (handleDeployFailure a j originalName cause)" for cause
    using assms(4)
    by (intro traced_install traced_handleDeployFailure traced_rollback lenient_spares engine_spares assms(3); simp)+
  obtain x s1 where x: "run_state (install a j timeout) s = (x, s1)" by fastforce
  from tracedD [OF parts(1) x] obtain new1 where
    new1: "trace (m_engine s1) = trace (m_engine s) @ new1" "\<forall>(q, ok) \<in> set new1. ?P q" by blast
  consider (fuel) "x = Inl OutOfFuel" | (err) cause where "x = Inl (Err cause)" | (ok) "x = Inr ()"
    by (cases x) (auto, metis engine_error.exhaust)
  then show ?thesis
  proof cases
    case fuel
    with assms(1) x new1 show ?thesis by (auto simp: after_rename_def)
  next
    case err
    with assms(1) x have "run_state (handleDeployFailure a j originalName cause) s1 = (r, s')" by (simp add: after_rename_def)
    from tracedD [OF parts(2) this] new1 show ?thesis by (metis (no_types, lifting) UnE append_assoc set_append)
  next
    case ok
    with assms(1,2) x show ?thesis by (auto simp: after_rename_def commit_def split: prod.splits)
  qed
qed

text \<open>C14: Nothing that the agent does removes a named volume, whatever the outcome, and no container is removed
  with its anonymous volumes that the daemon lists only under the name of the backup, nor the one
  that is removed by that name: the data of the primary survives every deploy and every rollback.\<close>

theorem runDeploy_keeps_volumes:
  assumes "run_state (runDeploy a j) s = (r, s')"
  shows "\<exists>new. trace (m_engine s') = trace (m_engine s) @ new \<and> (\<forall>(q, ok) \<in> set new. \<not> removes_volume v q \<and>
    (\<forall>i. always_preserved (sys_sdk (ag_sys a)) (job_StackName j) [previousContainerName] i \<longrightarrow> \<not> removes_anonymous i q))"
proof -
  let ?P = "\<lambda>q. \<not> removes_volume v q \<and>
    (\<forall>i. always_preserved (sys_sdk (ag_sys a)) (job_StackName j) [previousContainerName] i \<longrightarrow> \<not> removes_anonymous i q)"
  have lenient: "lenient ?P"
  proof -
    have "?P q" if "\<not> mutating q \<or> constructive q" for q using that by (cases q) auto
    then show ?thesis by (auto simp: lenient_def)
  qed
  have engine: "engine_removal ?P a (job_StackName j)"
    unfolding engine_removal_def by (intro allI emits_removeProjectContainers) (auto simp: always_preserved_def)
  have "traced ?P (runDeploy a j)"
    unfolding runDeploy_def failed_early_def displace_primary_def stopPrimary_def renamePrimary_def after_rename_def commit_def
      removePrevious_def Let_def
    by (intro trace_rules lenient traced_install traced_handleDeployFailure traced_rollback engine; simp)
  from tracedD [OF this assms] show ?thesis .
qed

section \<open>The phase in which a deploy ends\<close>

definition phase_of :: "'w machine \<Rightarrow> string" where
  "phase_of m = sd_Phase (sw_st (m_writer m))"

lemma finish_fields:
  "sd_Phase (sw_st (fst (finish io stamp f line w))) = sd_Phase (f (sw_st (fst w)))"
  "sd_JobID (sw_st (fst (finish io stamp f line w))) = sd_JobID (f (sw_st (fst w)))"
  by (simp_all add: finish_def flushLocked_def appendLogLocked_def Let_def split: prod.splits option.splits sum.splits)

lemma finish_file:
  "sd_JobID (f (sw_st sw)) \<noteq> [] \<Longrightarrow>
   snd (finish (Inr ()) stamp f line (sw, None)) = Some (sw_st (fst (finish io stamp f line (sw, None))))"
  by (simp add: finish_def flushLocked_def appendLogLocked_def snapshotRingLocked_def Let_def split: option.splits sum.splits)

text \<open>An operation that ends the deploy: the phase, and the content of the file when the disk works.\<close>

lemma flushing_finish:
  assumes "run_state (flushing a (\<lambda>io. finish io stamp f line)) m = (u, m')"
  shows "phase_of m' = sd_Phase (f (sw_st (m_writer m)))"
    and "disk_ok (ag_sys a) \<Longrightarrow> sd_JobID (f (sw_st (m_writer m))) \<noteq> [] \<Longrightarrow>
      m_files m' (ag_path a) = Some (StateFile (sw_st (m_writer m')))"
proof -
  let ?g = "\<lambda>io. finish io stamp f line" and ?sw = "m_writer m"
  obtain r m1 where r: "run_state (case snd (?g (Inr ()) (?sw, None)) of
      None \<Rightarrow> State_Monad.return (Inr ()) | Some st \<Rightarrow> write_state_file a st) m = (r, m1)" by fastforce
  with assms have m': "m' = m1\<lparr>m_writer := fst (?g r (?sw, None))\<rparr>"
    by (simp add: flushing_def set_writer_def)
  then show "phase_of m' = sd_Phase (f (sw_st (m_writer m)))"
    by (simp add: phase_of_def finish_fields)
  assume disk: "disk_ok (ag_sys a)" and job: "sd_JobID (f (sw_st (m_writer m))) \<noteq> []"
  let ?st = "sw_st (fst (?g r (?sw, None)))"
  from r finish_file [where f = f and sw = "m_writer m" and stamp = stamp and line = line and io = r] job have "run_state (write_state_file a ?st) m = (r, m1)" by simp
  moreover obtain g m2 where g: "run_state (io_call (ag_sys a) (MkdirAll (path_dir (ag_path a)))) m = (g, m2)" by fastforce
  ultimately have w: "run_state (atomicWriteFile (ag_sys a) ''deploy-agent'' (ag_path a) (StateFile ?st)) m2 = (r, m1)"
    using disk_okE [OF disk g] by (simp add: write_state_file_def)
  with atomicWriteFile_ok [OF disk, of "''deploy-agent''" "ag_path a" "StateFile ?st" m2] have "r = Inr ()" by simp
  from atomicWriteFile_files(2) [OF w refl this] show "m_files m' (ag_path a) = Some (StateFile (sw_st (m_writer m')))"
    by (simp add: m')
qed

text \<open>The result of a deploy goes with the phase, and with the state file.\<close>

definition ended :: "'w agent \<Rightarrow> string set \<Rightarrow> 'w machine \<Rightarrow> bool" where
  "ended a phases m \<longleftrightarrow> phase_of m \<in> phases \<and>
     (disk_ok (ag_sys a) \<and> sd_JobID (sw_st (m_writer m)) \<noteq> [] \<longrightarrow>
        m_files m (ag_path a) = Some (StateFile (sw_st (m_writer m))))"

lemma flushing_ended:
  assumes "run_state (flushing a (\<lambda>io. finish io stamp f line)) m = (u, m')"
    and "\<And>st. sd_Phase (f st) \<in> phases" and "\<And>st. sd_JobID (f st) = sd_JobID st"
  shows "ended a phases m'"
proof -
  have "sd_JobID (sw_st (m_writer m')) = sd_JobID (sw_st (m_writer m))"
    using assms(1,3) by (auto simp: flushing_def set_writer_def finish_fields split: prod.splits)
  with flushing_finish [OF assms(1)] assms(2,3) show ?thesis by (simp add: ended_def)
qed

lemma sw_ended:
  "run_state (sw_Fail a e) m = (u, m') \<Longrightarrow> SelfDeployPhaseFailed \<in> phases \<Longrightarrow> ended a phases m'"
  "run_state (sw_Succeed a) m = (u, m') \<Longrightarrow> SelfDeployPhaseSuccess \<in> phases \<Longrightarrow> ended a phases m'"
  "run_state (sw_MarkRolledBack a e) m = (u, m') \<Longrightarrow> SelfDeployPhaseRolledBack \<in> phases \<Longrightarrow> ended a phases m'"
  "run_state (sw_MarkRecovery a e) m = (u, m') \<Longrightarrow> SelfDeployPhaseRecovery \<in> phases \<Longrightarrow> ended a phases m'"
  unfolding sw_Fail_def sw_Succeed_def sw_MarkRolledBack_def sw_MarkRecovery_def Fail_def Succeed_def MarkRolledBack_def MarkRecovery_def
  by (simp, erule flushing_ended; simp)+

lemma handleDeployFailure_ends:
  assumes "run_state (handleDeployFailure a j originalName cause) m = (r, m')" and "r \<noteq> Inl OutOfFuel"
  shows "(\<exists>e. r = Inl (Err e)) \<and>
    ended a (if job_AutoRollback j then {SelfDeployPhaseRecovery, SelfDeployPhaseRolledBack} else {SelfDeployPhaseRecovery}) m'"
  using assms
  by (auto simp: handleDeployFailure_def split: prod.splits if_splits sum.splits engine_error.splits
      elim: sw_ended(3,4))

lemma commit_ends: "run_state (commit a) m = (r, m') \<Longrightarrow> r = Inr () \<and> ended a {SelfDeployPhaseSuccess} m'"
  by (auto simp: commit_def split: prod.splits elim: sw_ended(2))

lemma failed_early_ends:
  "run_state (failed_early a e) m = (r, m') \<Longrightarrow> r = Inl e \<and> ended a {SelfDeployPhaseFailed} m'"
  by (auto simp: failed_early_def split: prod.splits elim: sw_ended(1))

lemma runDeploy_cases:
  assumes "run_state (runDeploy a j) m = (r, m')"
  obtains (early) e m1 where "run_state (failed_early a e) m1 = (r, m')"
  | (failed) n cause m2 where "run_state (handleDeployFailure a j n cause) m2 = (r, m')"
  | (fuel) "r = Inl OutOfFuel"
  | (succeeded) m2 where "run_state (commit a) m2 = (r, m')"
proof -
  have "thesis" if run: "run_state (after_rename a j n t) m1 = (r, m')" for n t m1
  proof -
    obtain x m2 where x: "run_state (install a j t) m1 = (x, m2)" by fastforce
    with run fuel failed succeeded show thesis
      by (cases x) (auto simp: after_rename_def split: engine_error.splits)
  qed
  with assms early show thesis
    by (auto simp only: runDeploy_def run_state_bind split: prod.splits sum.splits)
qed

text \<open>C3: Every deploy that returns ends in a final phase, and the result and the phase agree: success goes with
  the phase of success, an error with one of failure, recovery or rollback, the last only if the job
  allows it.  When the disk works, state.json then holds the final state of the writer.\<close>

theorem runDeploy_ends:
  assumes "run_state (runDeploy a j) m = (r, m')" and "r \<noteq> Inl OutOfFuel"
  shows "(if r = Inr () then phase_of m' = SelfDeployPhaseSuccess
      else (\<exists>e. r = Inl (Err e)) \<and>
        phase_of m' \<in> {SelfDeployPhaseFailed, SelfDeployPhaseRecovery} \<union> (if job_AutoRollback j then {SelfDeployPhaseRolledBack} else {}))
    \<and> (disk_ok (ag_sys a) \<and> sd_JobID (sw_st (m_writer m')) \<noteq> [] \<longrightarrow>
        m_files m' (ag_path a) = Some (StateFile (sw_st (m_writer m'))))"
  using assms(1)
proof (cases rule: runDeploy_cases)
  case (early e m1)
  from failed_early_ends [OF this] assms(2) show ?thesis by (cases e) (auto simp: ended_def)
next
  case (failed n cause m2)
  from handleDeployFailure_ends [OF this assms(2)] show ?thesis by (auto simp: ended_def split: if_splits)
next
  case (succeeded m2)
  from commit_ends [OF this] show ?thesis by (simp add: ended_def)
qed (use assms(2) in simp)

section \<open>A deploy ends\<close>

text \<open>Documented behaviour: the clock is that of DeployTheorems, and does not run backwards in a probe.\<close>

definition steady_system :: "'w system \<Rightarrow> bool" where
  "steady_system sys \<longleftrightarrow> steady_clock (sys_sdk sys) \<and>
     (\<forall>url w. clock_now (sys_sdk sys) w \<le> clock_now (sys_sdk sys) (snd (sys_HttpGet sys url w)))"

definition clock_of :: "'w agent \<Rightarrow> 'w machine \<Rightarrow> int" where
  "clock_of a m = clock_now (sys_sdk (ag_sys a)) (world (m_engine m))"

definition forward :: "'w agent \<Rightarrow> ('w, 'a) mprog \<Rightarrow> bool" where
  "forward a p \<longleftrightarrow> (\<forall>m. clock_of a m \<le> clock_of a (snd (run_state p m)))"

lemma forward_return: "forward a (State_Monad.return x)"
  by (simp add: forward_def)

lemma forward_bind: "forward a p \<Longrightarrow> (\<And>x. forward a (f x)) \<Longrightarrow> forward a (State_Monad.bind p f)"
  unfolding forward_def
proof
  fix m
  assume p: "\<forall>m. clock_of a m \<le> clock_of a (snd (run_state p m))"
    and f: "\<And>x. \<forall>m. clock_of a m \<le> clock_of a (snd (run_state (f x) m))"
  obtain x m1 where x: "run_state p m = (x, m1)" by fastforce
  with p have "clock_of a m \<le> clock_of a m1" by (metis snd_conv)
  also have "\<dots> \<le> clock_of a (snd (run_state (f x) m1))" using f by blast
  finally show "clock_of a m \<le> clock_of a (snd (run_state (State_Monad.bind p f) m))" using x by simp
qed

lemma forward_cases:
  "(\<And>e. forward a (f e)) \<Longrightarrow> (\<And>x. forward a (g x)) \<Longrightarrow> forward a (case r of Inl e \<Rightarrow> f e | Inr x \<Rightarrow> g x)"
  "forward a h \<Longrightarrow> (\<And>x. forward a (k x)) \<Longrightarrow> forward a (case v of None \<Rightarrow> h | Some x \<Rightarrow> k x)"
  "forward a h \<Longrightarrow> forward a h' \<Longrightarrow> forward a (if b then h else h')"
  "(\<And>x. forward a (l x)) \<Longrightarrow> forward a (or_fail w l)"
  by (simp_all add: or_fail_def forward_return split: sum.split option.split)

lemma forward_call: "(\<And>w. clock_now (sys_sdk (ag_sys a)) w \<le> clock_now (sys_sdk (ag_sys a)) (snd (f w))) \<Longrightarrow> forward a (sdk_call q f)"
  by (simp add: forward_def clock_of_def sdk_call_def on_engine_def docker_run split: prod.splits)

lemma forward_http_get:
  "(\<And>w. clock_now (sys_sdk (ag_sys a)) w \<le> clock_now (sys_sdk (ag_sys a)) (snd (f w))) \<Longrightarrow> forward a (on_engine (http_get url f))"
  by (simp add: forward_def clock_of_def http_get_def on_engine_def case_prod_unfold)

lemmas forward_rules = forward_return forward_bind forward_cases

lemma forward_lookups:
  assumes "steady_system (ag_sys a)"
  shows "forward a (inspect a i)" "forward a (probeOnce a url)" "forward a (resolveHealthURL a j)"
  using assms unfolding steady_system_def steady_clock_def
    inspect_def probeOnce_def resolveHealthURL_def findSwirlContainerIP_def list_project_def
  by (intro forward_rules forward_call forward_http_get; simp)+

lemma forward_probe_round: "steady_system (ag_sys a) \<Longrightarrow> forward a resolve \<Longrightarrow> forward a (probe_round a resolve l)"
  unfolding probe_round_def Let_def by (intro forward_rules forward_lookups)

text \<open>An attempt that is followed by another one is a step towards the deadline.\<close>

lemma next_attempt_run:
  assumes "steady_system (ag_sys a)" and "run_state (next_attempt a deadline) m = (n, m')"
  shows "n \<noteq> Some (Inl OutOfFuel)"
    and "n = Some r \<Longrightarrow> 0 < deadline - clock_of a m \<and>
      clock_of a m + min healthPollInterval (deadline - clock_of a m) \<le> clock_of a m'"
  using assms
  by (auto simp: next_attempt_def clock_of_def on_engine_def pause_run steady_system_def steady_clock_def split: if_splits option.splits)

lemma next_attempt_left:
  assumes "steady_system (ag_sys a)" and "run_state (next_attempt a deadline) m = (Some r, m')"
    and "deadline - clock_of a m \<le> int (Suc fuel) * healthPollInterval"
  shows "deadline - clock_of a m' \<le> int fuel * healthPollInterval"
proof (cases "healthPollInterval \<le> deadline - clock_of a m")
  case True
  with next_attempt_run(2) [OF assms(1,2) refl] assms(3) show ?thesis by (simp add: algebra_simps)
next
  case False
  with next_attempt_run(2) [OF assms(1,2) refl] have "deadline - clock_of a m' \<le> 0" by simp
  moreover have "0 \<le> int fuel * healthPollInterval" by (simp add: healthPollInterval_def sec_def)
  ultimately show ?thesis by linarith
qed

lemma health_loop_fuel:
  assumes "steady_system (ag_sys a)" "forward a resolve"
  shows "deadline - clock_of a m \<le> int fuel * healthPollInterval \<Longrightarrow>
    fst (run_state (health_loop (Suc fuel) a resolve limit deadline l) m) \<noteq> Inl OutOfFuel"
proof (induction fuel arbitrary: m l)
  case left: 0
  obtain p m1 where p: "run_state (probe_round a resolve l) m = (p, m1)" by fastforce
  with forward_probe_round [OF assms, of l] have c: "clock_of a m \<le> clock_of a m1" unfolding forward_def by (metis snd_conv)
  show ?case
  proof (cases p)
    case (Some l')
    obtain n m2 where n: "run_state (next_attempt a deadline) m1 = (n, m2)" by fastforce
    with next_attempt_run(2) [OF assms(1) n] left c have "n = None" by (cases n) auto
    with p Some n show ?thesis by (simp add: health_timeout_def split: option.split)
  qed (use p in simp)
next
  case (Suc fuel)
  obtain p m1 where p: "run_state (probe_round a resolve l) m = (p, m1)" by fastforce
  with forward_probe_round [OF assms, of l] have c: "clock_of a m \<le> clock_of a m1" unfolding forward_def by (metis snd_conv)
  show ?case
  proof (cases p)
    case (Some l')
    obtain n m2 where n: "run_state (next_attempt a deadline) m1 = (n, m2)" by fastforce
    have next_turn: "fst (run_state (health_loop (Suc fuel) a resolve limit deadline l') m2) \<noteq> Inl OutOfFuel" if "n = Some r" for r
      using Suc.IH next_attempt_left [OF assms(1) n [unfolded that], of fuel] Suc.prems c by simp
    show ?thesis
      using p Some n next_turn next_attempt_run(1) [OF assms(1) n]
      by (subst health_loop.simps)
        (auto simp del: health_loop.simps simp: health_timeout_def or_fail_def split: option.splits sum.splits)
  qed (use p in simp)
qed

lemma judge_health_fuel: "judge_health cid n seen r \<noteq> Inl (Inl OutOfFuel)"
  by (auto simp: judge_health_def split: sum.splits option.splits)

lemma container_health_loop_fuel:
  assumes "steady_system (ag_sys a)"
  shows "deadline - clock_of a m \<le> int fuel * healthPollInterval \<Longrightarrow>
    fst (run_state (container_health_loop (Suc fuel) a cid limit deadline k seen) m) \<noteq> Inl OutOfFuel"
proof (induction fuel arbitrary: m k seen)
  case left: 0
  obtain i m1 where i: "run_state (inspect a cid) m = (i, m1)" by fastforce
  with forward_lookups(1) [OF assms, of cid] have c: "clock_of a m \<le> clock_of a m1" unfolding forward_def by (metis snd_conv)
  obtain n m2 where n: "run_state (next_attempt a deadline) m1 = (n, m2)" by fastforce
  with next_attempt_run(2) [OF assms n] left c have "n = None" by (cases n) auto
  with i n judge_health_fuel [of cid "Suc k" seen i] show ?case by (auto split: sum.split)
next
  case (Suc fuel)
  obtain i m1 where i: "run_state (inspect a cid) m = (i, m1)" by fastforce
  with forward_lookups(1) [OF assms, of cid] have c: "clock_of a m \<le> clock_of a m1" unfolding forward_def by (metis snd_conv)
  show ?case
  proof (cases "judge_health cid (Suc k) seen i")
    case (Inr seen')
    obtain n m2 where n: "run_state (next_attempt a deadline) m1 = (n, m2)" by fastforce
    have next_turn: "fst (run_state (container_health_loop (Suc fuel) a cid limit deadline (Suc k) seen') m2) \<noteq> Inl OutOfFuel"
      if "n = Some r" for r
      using Suc.IH next_attempt_left [OF assms n [unfolded that], of fuel] Suc.prems c by simp
    show ?thesis
      using i Inr n next_turn next_attempt_run(1) [OF assms n]
      by (subst container_health_loop.simps)
        (auto simp del: container_health_loop.simps simp: or_fail_def split: option.splits sum.splits)
  qed (use i judge_health_fuel [of cid "Suc k" seen i] in auto)
qed

text \<open>Programs that do not run out of fuel.\<close>

definition returns :: "('w, engine_error + 'a) mprog \<Rightarrow> bool" where
  "returns p \<longleftrightarrow> (\<forall>m. fst (run_state p m) \<noteq> Inl OutOfFuel)"

lemma returns_return: "r \<noteq> Inl OutOfFuel \<Longrightarrow> returns (State_Monad.return r)"
  by (simp add: returns_def)

lemma returns_bind: "(\<And>x. returns (f x)) \<Longrightarrow> returns (State_Monad.bind p f)"
  by (simp add: returns_def split: prod.splits)

lemma returns_then:
  assumes "returns p" and "\<And>x. x \<noteq> Inl OutOfFuel \<Longrightarrow> returns (f x)"
  shows "returns (State_Monad.bind p f)"
  unfolding returns_def
proof
  fix m
  obtain x m1 where "run_state p m = (x, m1)" by fastforce
  with assms show "fst (run_state (State_Monad.bind p f) m) \<noteq> Inl OutOfFuel"
    unfolding returns_def by (metis fst_conv run_state_bind split_conv)
qed

lemma returns_try:
  assumes "returns p" and "\<And>e. e \<noteq> OutOfFuel \<Longrightarrow> returns (f e)" and "\<And>x. returns (g x)"
  shows "returns (State_Monad.bind p (\<lambda>r. case r of Inl e \<Rightarrow> f e | Inr x \<Rightarrow> g x))"
  using assms(1)
proof (rule returns_then)
  show "returns (case r of Inl e \<Rightarrow> f e | Inr x \<Rightarrow> g x)" if "r \<noteq> Inl OutOfFuel" for r
    using that assms(2,3) by (cases r) auto
qed

lemma returns_or_fail: "r \<noteq> Inl OutOfFuel \<Longrightarrow> (\<And>x. returns (f x)) \<Longrightarrow> returns (or_fail r f)"
  by (cases r) (simp_all add: returns_def)

lemma returns_if: "returns f \<Longrightarrow> returns g \<Longrightarrow> returns (if b then f else g)"
  by simp

lemma returns_wrap: "returns p \<Longrightarrow> returns (do { r \<leftarrow> p; State_Monad.return (wrap_result t r) })"
  by (rule returns_then) (simp_all add: returns_return)

lemma agent_error_fuel [simp]: "agent_error t m \<noteq> OutOfFuel" "map_sum (\<lambda>e. agent_error t (error_text e)) id x \<noteq> Inl OutOfFuel"
  "map_sum (agent_error t) id y \<noteq> Inl OutOfFuel" "if_present t z \<noteq> Inl OutOfFuel"
  by (simp add: agent_error_def, (cases x; simp add: agent_error_def), (cases y; simp add: agent_error_def),
    simp add: if_present_def agent_error_def split: sum.split)

lemma returns_calls:
  "returns (newDockerClient a)" "returns (pingDocker a)" "returns (stopContainer a i)" "returns (renameContainer a i n)"
  "returns (removeContainer a i)" "returns (startContainer a i)" "returns (containerExists a i)"
  unfolding newDockerClient_def pingDocker_def stopContainer_def renameContainer_def removeContainer_def startContainer_def
    containerExists_def
  by (intro returns_if returns_bind returns_return; auto split: sum.split)+

lemma returns_pull: "returns (pullImageRaw a ref)" "returns (pullImage a ref)"
proof -
  show raw: "returns (pullImageRaw a ref)"
    unfolding pullImageRaw_def
    by (intro returns_if returns_bind returns_return; auto simp: returns_def split: sum.split option.split prod.split)
  show "returns (pullImage a ref)"
    unfolding pullImage_def
  proof (rule returns_then [OF raw])
    fix x :: "engine_error + unit"
    assume "x \<noteq> Inl OutOfFuel"
    then show "returns (case x of Inr _ \<Rightarrow> State_Monad.return (Inr ())
      | Inl pullErr \<Rightarrow> do {
         x \<leftarrow> imageExists a ref;
         if x then do {
           _ \<leftarrow> sw_Logf a (''pull failed ('' @ err_text pullErr @ ''); image is present locally, continuing with cached tag'');
           State_Monad.return (Inr ())
         }
         else State_Monad.return (Inl pullErr)
       })"
      by (cases x) (auto simp: returns_def split: prod.split)
  qed
qed

text \<open>The fuel is enough for the longest wait.\<close>

definition fuel_covers :: "'w agent \<Rightarrow> int \<Rightarrow> bool" where
  "fuel_covers a budget \<longleftrightarrow> 0 < ag_fuel a \<and> budget \<le> int (ag_fuel a - 1) * healthPollInterval"

lemma fuel_covers_mono: "fuel_covers a budget \<Longrightarrow> budget' \<le> budget \<Longrightarrow> fuel_covers a budget'"
  unfolding fuel_covers_def by (blast intro: order_trans)

lemma returns_waitHealthyResolver:
  assumes "steady_system (ag_sys a)" "forward a resolve" "fuel_covers a (max limit minHealthTimeout)"
  shows "returns (waitHealthyResolver a resolve limit)"
  unfolding returns_def
proof
  fix m
  obtain n where n: "ag_fuel a = Suc n" using assms(3) by (cases "ag_fuel a") (auto simp: fuel_covers_def)
  have "clock_of a m + max limit minHealthTimeout - clock_of a m \<le> int n * healthPollInterval"
    using assms(3) n by (simp add: fuel_covers_def)
  from health_loop_fuel [OF assms(1,2) this] n
  show "fst (run_state (waitHealthyResolver a resolve limit) m) \<noteq> Inl OutOfFuel"
    by (simp del: health_loop.simps add: waitHealthyResolver_def clock_of_def Let_def)
qed

lemma returns_waitContainerHealthy:
  assumes "steady_system (ag_sys a)" "fuel_covers a (max limit containerHealthPollInterval)"
  shows "returns (waitContainerHealthy a cid limit)"
  unfolding returns_def
proof
  fix m
  obtain n where n: "ag_fuel a = Suc n" using assms(2) by (cases "ag_fuel a") (auto simp: fuel_covers_def)
  have "clock_of a m + max limit containerHealthPollInterval - clock_of a m \<le> int n * healthPollInterval"
    using assms(2) n by (simp add: fuel_covers_def)
  from container_health_loop_fuel [OF assms(1) this] n
  show "fst (run_state (waitContainerHealthy a cid limit) m) \<noteq> Inl OutOfFuel"
    by (simp del: container_health_loop.simps add: waitContainerHealthy_def clock_of_def Let_def)
qed

lemma returns_deployNew:
  assumes "steady_system (ag_sys a)" and "302 \<le> ag_fuel a"
  shows "returns (deployNew a project yaml vars)"
  unfolding returns_def
proof
  fix m :: "'a machine"
  let ?p = "DeployWithResult (ag_fuel a) (sys_sdk (ag_sys a)) (sys_runtime (ag_sys a)) project yaml
       \<lparr>PullImages = False, EnvVars = vars, PreserveContainerNames = [previousContainerName]\<rparr> None"
  obtain ws r e where p: "run_state ?p (m_engine m) = ((ws, r), e)" by (metis surj_pair)
  from deploy_finishes [OF _ assms(2) p] assms(1) p show "fst (run_state (deployNew a project yaml vars) m) \<noteq> Inl OutOfFuel"
    by (simp add: deployNew_def on_engine_def steady_system_def)
qed

lemma returns_rollback:
  assumes "steady_system (ag_sys a)" "fuel_covers a minHealthTimeout"
  shows "returns (rollback a j n)"
proof -
  have health: "returns (waitHealthy a url rollbackHealthTimeout)" for url
    unfolding waitHealthy_def using assms
    by (intro returns_waitHealthyResolver forward_return) (simp_all add: rollbackHealthTimeout_def minHealthTimeout_def)
  have "returns (restore_previous a j n)"
    unfolding restore_previous_def Let_def
    by (rule returns_then [OF returns_calls(7)], split sum.split,
        intro conjI allI impI returns_if returns_return returns_bind returns_then [OF returns_calls(4)] returns_then [OF returns_calls(6)]
          returns_then [OF health] returns_or_fail) (auto simp: wrap_def split: engine_error.splits)
  moreover have "returns (remove_leftover a n)"
    unfolding remove_leftover_def
    by (intro returns_if returns_bind returns_wrap returns_calls returns_return) simp_all
  ultimately show ?thesis
    unfolding rollback_def by (intro returns_bind returns_then [OF \<open>returns (remove_leftover a n)\<close>] returns_or_fail)
qed

lemma returns_handleDeployFailure:
  assumes "steady_system (ag_sys a)" "fuel_covers a minHealthTimeout"
  shows "returns (handleDeployFailure a j n cause)"
proof -
  note rb = returns_rollback [OF assms, of j n]
  show ?thesis
    unfolding handleDeployFailure_def
    by (intro returns_bind returns_if returns_then [OF rb] returns_return)
      (auto simp: returns_def split: sum.split engine_error.split prod.split)
qed

lemma budgets:
  "60 * sec \<le> splitPullBudget t" "splitPullBudget t \<le> 300 * sec"
  "30 * sec \<le> splitHealthBudget t (splitPullBudget t)" "splitHealthBudget t (splitPullBudget t) \<le> max (30 * sec) (t - 60 * sec)"
  by (auto simp: splitPullBudget_def splitHealthBudget_def pullBudgetMin_def pullBudgetMax_def minHealthTimeout_def sec_def Let_def)

lemma returns_install:
  assumes "steady_system (ag_sys a)" "302 \<le> ag_fuel a" "fuel_covers a (max minHealthTimeout t)"
  shows "returns (install a j t)"
proof -
  have "max (splitHealthBudget t (splitPullBudget t)) minHealthTimeout \<le> max minHealthTimeout t"
    "max (splitHealthBudget t (splitPullBudget t)) containerHealthPollInterval \<le> max minHealthTimeout t"
    using budgets(3,4) [of t] by (auto simp: minHealthTimeout_def containerHealthPollInterval_def sec_def)
  note covers = fuel_covers_mono [OF assms(3) this(1)] fuel_covers_mono [OF assms(3) this(2)]
  have gates: "returns (health_gate a j (splitHealthBudget t (splitPullBudget t)))"
    "returns (container_gate a j (splitHealthBudget t (splitPullBudget t)))"
    unfolding health_gate_def container_gate_def
    by (intro returns_bind returns_wrap returns_waitHealthyResolver forward_lookups assms(1) covers)
      (auto intro!: returns_bind returns_wrap returns_waitContainerHealthy returns_return covers assms(1) split: sum.split list.split)
  show ?thesis
    unfolding install_def Let_def
    by (intro returns_bind returns_then [OF returns_pull(2)] returns_then [OF returns_deployNew [OF assms(1,2)]]
        returns_then [OF gates(1)] gates(2) returns_or_fail) simp_all
qed

lemma returns_failure: "e \<noteq> OutOfFuel \<Longrightarrow> returns (State_Monad.return (Inl (wrap t e)))"
  by (rule returns_return) (simp add: wrap_def split: engine_error.split)

lemma returns_renamePrimary: "returns (renamePrimary a i n)"
proof -
  have "returns (if found then removeContainer a n else State_Monad.return (Inr ()))" for found
    by (intro returns_if returns_calls returns_return) simp
  note remove = returns_then [OF this]
  show ?thesis
    unfolding renamePrimary_def
  proof (rule returns_then [OF returns_calls(7)], goal_cases)
    case (1 x)
    then show ?case
    proof (cases x)
      case (Inr found)
      show ?thesis unfolding Inr sum.case
      proof (rule remove, goal_cases)
        case (1 y)
        then show ?case by (cases y) (auto intro: returns_failure returns_calls)
      qed
    qed (auto intro: returns_failure)
  qed
qed

lemma returns_displace_primary: "returns (displace_primary a j n)"
proof -
  have "returns (case r of Inr _ \<Rightarrow> State_Monad.return (Inr ())
     | Inl e \<Rightarrow> do { _ \<leftarrow> startContainer a (job_PrimaryContainer j); State_Monad.return (Inl e) })" if "r \<noteq> Inl OutOfFuel" for r :: "engine_error + unit"
    using that by (cases r) (auto intro: returns_bind returns_return)
  then show ?thesis
    unfolding displace_primary_def stopPrimary_def
    by (intro returns_bind returns_then [OF returns_calls(3)] returns_or_fail returns_then [OF returns_renamePrimary])
qed

text \<open>C4: Every deploy ends: with a clock that does not stand still, and with fuel for the turns of the engine's loops
  and for a poll every two seconds of the deploy's timeout, the result is success or an error of
  the code; for the default timeout of ten minutes, 302 turns are enough.\<close>

theorem runDeploy_returns:
  assumes "steady_system (ag_sys a)" and "302 \<le> ag_fuel a"
    and "deploy_timeout j \<le> int (ag_fuel a - 1) * healthPollInterval"
    and "run_state (runDeploy a j) m = (r, m')"
  shows "r \<noteq> Inl OutOfFuel"
proof -
  have "minHealthTimeout \<le> int (ag_fuel a - 1) * healthPollInterval"
    using assms(2) by (simp add: minHealthTimeout_def healthPollInterval_def sec_def)
  with assms(2,3) have covers: "fuel_covers a (max minHealthTimeout (deploy_timeout j))" "fuel_covers a minHealthTimeout"
    by (auto simp: fuel_covers_def)
  have early: "returns (failed_early a e)" if "e \<noteq> OutOfFuel" for e
    using that unfolding failed_early_def by (intro returns_bind returns_return) simp
  note displace = returns_displace_primary [of a j]
  have commit: "returns (commit a)"
    unfolding commit_def by (intro returns_bind returns_return) simp
  have "returns (after_rename a j n (deploy_timeout j))" for n
    unfolding after_rename_def
    by (rule returns_then [OF returns_install [OF assms(1,2) covers(1)]], split sum.split)
      (auto intro!: returns_handleDeployFailure assms(1) covers(2) commit split: engine_error.split)
  then have "returns (case ValidateSelfDeployJob (sys_runtime (ag_sys a)) env j of
       Inl m \<Rightarrow> failed_early a (Err m)
     | Inr _ \<Rightarrow> do {
         c \<leftarrow> newDockerClient a;
         case c of
           Inl e \<Rightarrow> failed_early a e
         | Inr _ \<Rightarrow> do {
             p \<leftarrow> pingDocker a;
             case p of
               Inl e \<Rightarrow> failed_early a e
             | Inr _ \<Rightarrow> do {
                 originalName \<leftarrow> original_name a j;
                 r \<leftarrow> displace_primary a j originalName;
                 case r of
                   Inl e \<Rightarrow> failed_early a e
                 | Inr _ \<Rightarrow> after_rename a j originalName (deploy_timeout j)
               }
           }
       })" for env
    by (split sum.split) (intro conjI allI impI early returns_try returns_calls(1,2) returns_bind displace; simp)
  then have "returns (runDeploy a j)"
    unfolding runDeploy_def by (rule returns_bind)
  with assms(4) show ?thesis unfolding returns_def by (metis fst_conv)
qed

section \<open>When there is no rollback\<close>

text \<open>Documented behaviour of the client: once the context is cancelled, a request fails with the error of the
  context, and the context stays cancelled.\<close>

definition cancelled_fails :: "'w sdk \<Rightarrow> bool" where
  "cancelled_fails e \<longleftrightarrow> (\<forall>w. ctx_error e w \<noteq> None \<longrightarrow>
     (\<forall>all fs. (\<exists>t. fst (api_ContainerList e all fs w) = Inl (SdkError t)) \<and> ctx_error e (snd (api_ContainerList e all fs w)) \<noteq> None) \<and>
     (\<forall>i. (\<exists>t. fst (api_ContainerInspect e i w) = Inl (SdkError t)) \<and> ctx_error e (snd (api_ContainerInspect e i w)) \<noteq> None))"

definition cancelled :: "'w agent \<Rightarrow> 'w machine \<Rightarrow> bool" where
  "cancelled a m \<longleftrightarrow> ctx_error (sys_sdk (ag_sys a)) (world (m_engine m)) \<noteq> None"

lemma sw_Logf_step:
  obtains m' where "run_state (sw_Logf a line) m = ((), m')" "m_engine m' = m_engine m"
  by (simp add: sw_Logf_def on_writer_def)

lemma unit_step:
  fixes p :: "('w, unit) mprog"
  obtains m' where "run_state p m = ((), m')"
  by (cases "run_state p m") auto

lemma cancelled_exists:
  assumes "cancelled_fails (sys_sdk (ag_sys a))" "cancelled a m"
  shows "\<exists>t m'. run_state (containerExists a i) m = (Inl (Err t), m') \<and> cancelled a m' \<and>
    trace (m_engine m') = trace (m_engine m) @ [(ContainerInspect i, False)]"
proof -
  obtain t where "fst (api_ContainerInspect (sys_sdk (ag_sys a)) i (world (m_engine m))) = Inl (SdkError t)"
    "ctx_error (sys_sdk (ag_sys a)) (snd (api_ContainerInspect (sys_sdk (ag_sys a)) i (world (m_engine m)))) \<noteq> None"
    using assms unfolding cancelled_fails_def cancelled_def by blast
  then show ?thesis
    by (simp add: containerExists_def inspect_def sdk_call_def on_engine_def docker_run cancelled_def IsNotFound_def)
qed

lemma cancelled_remove_partial:
  assumes "cancelled_fails (sys_sdk (ag_sys a))" "cancelled a m"
  shows "\<exists>m'. run_state (remove_partial a j) m = ((), m') \<and> cancelled a m' \<and>
    trace (m_engine m') = trace (m_engine m) @ [(ContainerList True [LabelProject @ ''='' @ job_StackName j], False)]"
proof -
  let ?l = "api_ContainerList (sys_sdk (ag_sys a)) True [LabelProject @ ''='' @ job_StackName j] (world (m_engine m))"
  obtain t where t: "fst ?l = Inl (SdkError t)" "ctx_error (sys_sdk (ag_sys a)) (snd ?l) \<noteq> None"
    using assms unfolding cancelled_fails_def cancelled_def by blast
  let ?m = "m\<lparr>m_engine := (m_engine m)\<lparr>world := snd ?l,
    trace := trace (m_engine m) @ [(ContainerList True [LabelProject @ ''='' @ job_StackName j], False)]\<rparr>\<rparr>"
  have "run_state (remove_partial a j) m = run_state (sw_Logf a (''rollback: cleanup of new stack failed (continuing): '' @ t)) ?m"
    using t by (simp add: remove_partial_def on_engine_def RemoveExcept_def removeWithPreserve_def removeProjectContainers_def
        listProjectContainers_def docker_run err_text_def error_text_def)
  then show ?thesis using t(2) by (simp add: sw_Logf_def on_writer_def cancelled_def)
qed

lemma cancelled_rollback:
  assumes "cancelled_fails (sys_sdk (ag_sys a))" "cancelled a m" and "run_state (rollback a j n) m = (r, m')"
  shows "(\<exists>t. r = Inl (Err t)) \<and>
    (\<exists>new. trace (m_engine m') = trace (m_engine m) @ new \<and> (\<forall>(q, ok) \<in> set new. \<not> mutating q \<and> \<not> ok))"
proof -
  obtain m1 where m1: "run_state (sw_Logf a ''attempting auto-rollback'') m = ((), m1)" "m_engine m1 = m_engine m"
    by (rule sw_Logf_step)
  with assms(2) have "cancelled a m1" by (simp add: cancelled_def)
  from cancelled_remove_partial [OF assms(1) this, of j] obtain m2 where
    m2: "run_state (remove_partial a j) m1 = ((), m2)" "cancelled a m2"
      "trace (m_engine m2) = trace (m_engine m1) @ [(ContainerList True [LabelProject @ ''='' @ job_StackName j], False)]" by blast
  obtain m3 new where m3: "run_state (remove_leftover a n) m2 = (Inr (), m3)" "cancelled a m3"
      "trace (m_engine m3) = trace (m_engine m2) @ new" "\<forall>(q, ok) \<in> set new. \<not> mutating q \<and> \<not> ok"
  proof (cases "n = []")
    case True
    with m2(2) that [of m2 "[]"] show ?thesis by (simp add: remove_leftover_def)
  next
    case False
    from cancelled_exists [OF assms(1) m2(2), of n] obtain t m3 where
      "run_state (containerExists a n) m2 = (Inl (Err t), m3)" "cancelled a m3"
      "trace (m_engine m3) = trace (m_engine m2) @ [(ContainerInspect n, False)]" by blast
    with False that [of m3 "[(ContainerInspect n, False)]"] show ?thesis by (simp add: remove_leftover_def)
  qed
  from cancelled_exists [OF assms(1) m3(2), of previousContainerName] obtain t m4 where
    "run_state (containerExists a previousContainerName) m3 = (Inl (Err t), m4)"
    "trace (m_engine m4) = trace (m_engine m3) @ [(ContainerInspect previousContainerName, False)]" by blast
  then have "run_state (restore_previous a j n) m3 = (Inl (Err (''probe previous: '' @ t)), m4)"
    by (simp add: restore_previous_def wrap_def)
  with assms(3) m1 m2 m3 have "r = Inl (Err (''probe previous: '' @ t))" "m' = m4"
    by (simp_all add: rollback_def)
  with m1 m2 m3 \<open>trace (m_engine m4) = _\<close> show ?thesis by auto
qed

text \<open>There is no rollback after the deadline of the deploy: when a step fails because the context is
  cancelled, the automatic rollback fails before it has changed anything, the backup stays stopped
  under its new name, and the phase is recovery, although the job asks for a rollback.\<close>

theorem no_rollback_after_deadline:
  assumes "cancelled_fails (sys_sdk (ag_sys a))" and "cancelled a m"
    and "run_state (handleDeployFailure a j n cause) m = (r, m')"
  shows "phase_of m' = SelfDeployPhaseRecovery \<and> r \<noteq> Inr () \<and>
    (\<exists>new. trace (m_engine m') = trace (m_engine m) @ new \<and> (\<forall>(q, ok) \<in> set new. \<not> mutating q \<and> \<not> ok))"
proof -
  let ?P = "\<lambda>m m'. \<exists>new. trace (m_engine m') = trace (m_engine m) @ new \<and> (\<forall>(q, ok) \<in> set new. \<not> mutating q \<and> \<not> ok)"
  have quiet: "trace (m_engine (snd (run_state (sw_MarkRecovery a e) m))) = trace (m_engine m)" for e m
    by (rule traced_nothing) (rule trace_rules)
  obtain m1 where m1: "run_state (sw_Logf a (''deploy failed: '' @ cause)) m = ((), m1)" "m_engine m1 = m_engine m"
    by (rule sw_Logf_step)
  show ?thesis
  proof (cases "job_AutoRollback j")
    case False
    obtain m2 where m2: "run_state (sw_MarkRecovery a cause) m1 = ((), m2)" by (rule unit_step)
    with assms(3) m1 False have "r \<noteq> Inr ()" "m' = m2" by (auto simp: handleDeployFailure_def)
    with sw_ended(4) [OF m2, of "{SelfDeployPhaseRecovery}"] quiet [of cause m1] m1 m2 show ?thesis
      by (auto simp: ended_def)
  next
    case True
    obtain x m2 where x: "run_state (rollback a j n) m1 = (x, m2)" by fastforce
    from assms(2) m1(2) have "cancelled a m1" by (simp add: cancelled_def)
    from cancelled_rollback [OF assms(1) this x] obtain t where t: "x = Inl (Err t)" and P: "?P m1 m2" by blast
    obtain m3 where m3: "run_state (sw_Logf a (''rollback failed: '' @ t)) m2 = ((), m3)" "m_engine m3 = m_engine m2"
      by (rule sw_Logf_step)
    obtain m4 where m4: "run_state (sw_MarkRecovery a (''deploy failed and rollback failed: deploy='' @ cause @ ''; rollback='' @ t)) m3 = ((), m4)"
      by (rule unit_step)
    from assms(3) m1 x t m3 m4 True have "r \<noteq> Inr ()" "m' = m4" by (auto simp: handleDeployFailure_def)
    with sw_ended(4) [OF m4, of "{SelfDeployPhaseRecovery}"]
      quiet [of "''deploy failed and rollback failed: deploy='' @ cause @ ''; rollback='' @ t" m3] m1 m3 m4 P show ?thesis
      by (auto simp: ended_def)
  qed
qed

end
