(* ===== verification/AgentOutcomes.thy ===== *)
theory AgentOutcomes
  imports AgentTheorems
begin

text \<open>
  Further properties of the deploy agent: what a success means, the failures that the code makes
  possible, the budgets of the waits, and concrete runs on the small daemon of DeployTheorems.
\<close>

section \<open>Success\<close>

text \<open>The endpoint that says whether the new server is ready, at its address or at that of the host.\<close>

definition ready_url :: "self_deploy_job \<Rightarrow> string \<Rightarrow> bool" where
  "ready_url j url \<longleftrightarrow> (\<exists>ip. url = ''http://'' @ ip @ '':'' @ show_int (expose_port j) @ ''/api/system/ready'')"

text \<open>Some calls follow, which all have the property.\<close>

definition followed :: "(request \<Rightarrow> bool) \<Rightarrow> 'w machine \<Rightarrow> 'w machine \<Rightarrow> bool" where
  "followed P m m' \<longleftrightarrow> (\<exists>new. trace (m_engine m') = trace (m_engine m) @ new \<and> (\<forall>(q, ok) \<in> set new. P q))"

lemma followed_run: "traced P p \<Longrightarrow> run_state p m = (x, m') \<Longrightarrow> followed P m m'"
  unfolding followed_def by (rule tracedD)

lemma followed_trans: "followed P m m1 \<Longrightarrow> followed P m1 m2 \<Longrightarrow> followed P m m2"
  unfolding followed_def by (elim exE, rule_tac x = "new @ newa" in exI) auto

lemma followed_refl: "followed P m m"
  by (simp add: followed_def)

text \<open>The last of the calls made is this one, and it succeeded.\<close>

definition ends_with :: "request \<Rightarrow> 'w machine \<Rightarrow> 'w machine \<Rightarrow> bool" where
  "ends_with q m m' \<longleftrightarrow> (\<exists>calls. trace (m_engine m') = trace (m_engine m) @ calls @ [(q, True)])"

lemma followed_ends: "followed P m m1 \<Longrightarrow> ends_with q m1 m2 \<Longrightarrow> ends_with q m m2"
  unfolding followed_def ends_with_def by (elim exE, rule_tac x = "new @ calls" in exI) auto

lemma resolveHealthURL_ready:
  assumes "run_state (resolveHealthURL a j) m = (u, m')"
  obtains url where "u = Inr url" "ready_url j url"
proof -
  have "ready_url j (buildHealthURL j)"
    unfolding ready_url_def buildHealthURL_def by (rule exI [of _ "''127.0.0.1''"]) simp
  with assms that show thesis
    by (auto simp: resolveHealthURL_def ready_url_def split: prod.splits sum.splits if_splits)
qed

text \<open>Calls that touch no container.\<close>

abbreviation spares_containers :: "request \<Rightarrow> bool" where
  "spares_containers q \<equiv> \<forall>i. \<not> hits_container i q"

lemma lenient_spares_containers: "lenient spares_containers"
proof -
  have "spares_containers q" if "\<not> mutating q \<or> constructive q" for q using that by (cases q) auto
  then show ?thesis by (auto simp: lenient_def)
qed

lemma probe_round_answered:
  assumes "run_state (probe_round a (resolveHealthURL a j) l) m = (None, m')"
  shows "\<exists>m1 url. followed spares_containers m m1 \<and> ready_url j url \<and> trace (m_engine m') = trace (m_engine m1) @ [(HttpGet url, True)]"
proof -
  obtain u m1 where u: "run_state (resolveHealthURL a j) m = (u, m1)" by fastforce
  from u obtain url where url: "u = Inr url" "ready_url j url" by (rule resolveHealthURL_ready)
  have "url \<noteq> []"
    using assms u url by (auto simp: probe_round_def Let_def)
  with assms u url have "trace (m_engine m') = trace (m_engine m1) @ [(HttpGet url, True)]"
    by (auto simp: probe_round_def Let_def probeOnce_def http_get_def answers_2xx_def on_engine_def split: sum.splits if_splits prod.splits)
  moreover have "followed spares_containers m m1"
    using followed_run [OF traced_lookups(14) [OF lenient_spares_containers] u] .
  ultimately show ?thesis using url by (auto simp: ends_with_def intro: exI [of _ "[]"])
qed

lemma health_loop_answered:
  "run_state (health_loop fuel a (resolveHealthURL a j) limit deadline l) m = (Inr (), m') \<Longrightarrow>
   \<exists>m1 url. followed spares_containers m m1 \<and> ready_url j url \<and> trace (m_engine m') = trace (m_engine m1) @ [(HttpGet url, True)]"
proof (induction fuel arbitrary: l m)
  case (Suc fuel)
  obtain p m1 where p: "run_state (probe_round a (resolveHealthURL a j) l) m = (p, m1)" by fastforce
  show ?case
  proof (cases p)
    case None
    with Suc.prems p have "m' = m1" by simp
    with probe_round_answered [OF p [unfolded None]] show ?thesis by blast
  next
    case (Some l')
    obtain n m2 where n: "run_state (next_attempt a deadline) m1 = (n, m2)" by fastforce
    have "run_state (health_loop fuel a (resolveHealthURL a j) limit deadline l') m2 = (Inr (), m')"
      using Suc.prems p n Some by (auto simp: or_fail_def split: option.splits sum.splits)
    from Suc.IH [OF this] obtain m3 url where
      "followed spares_containers m2 m3" "ready_url j url" "trace (m_engine m') = trace (m_engine m3) @ [(HttpGet url, True)]" by blast
    moreover have "followed spares_containers m m2"
      using followed_trans [OF followed_run [OF traced_probe_round [OF lenient_spares_containers traced_lookups(14) [OF lenient_spares_containers]] p]
          followed_run [OF traced_next_attempt n]] .
    ultimately show ?thesis using followed_trans by blast
  qed
qed simp

lemma health_gate_answered:
  assumes "run_state (health_gate a j budget) m = (Inr (), m')"
  shows "\<exists>m1 url. followed spares_containers m m1 \<and> ready_url j url \<and> trace (m_engine m') = trace (m_engine m1) @ [(HttpGet url, True)]"
proof -
  let ?log = "\<lambda>u. case u of
       Inr (c # cs) \<Rightarrow> sw_Logf a (''waiting for new Swirl to answer GET '' @ (c # cs) @ '' (budget '' @ show_duration budget @ '', resolved by label)'')
     | _ \<Rightarrow> sw_Logf a (''waiting for new Swirl to answer /api/system/ready (budget '' @ show_duration budget @ '', awaiting container registration)'')"
  obtain u m1 where u: "run_state (resolveHealthURL a j) m = (u, m1)" by fastforce
  obtain x m2 where x: "run_state (?log u) m1 = (x, m2)" by (rule that [OF surjective_pairing])
  have "traced spares_containers (?log u)" by (intro trace_rules)
  then have m2: "followed spares_containers m m2"
    by (rule followed_trans [OF followed_run [OF traced_lookups(14) [OF lenient_spares_containers] u] followed_run [OF _ x]])
  from assms u x obtain b d where "run_state (health_loop (ag_fuel a) a (resolveHealthURL a j) b d
      \<lparr>pl_err = None, pl_status = 0, pl_url = [], pl_attempts = 0\<rparr>) m2 = (Inr (), m')"
    by (auto simp: health_gate_def waitHealthyResolver_def Let_def split: prod.splits sum.splits)
  from health_loop_answered [OF this] m2 show ?thesis using followed_trans by blast
qed

text \<open>The image is there after the pull.\<close>

definition image_seen :: "self_deploy_job \<Rightarrow> (request \<times> bool) list \<Rightarrow> bool" where
  "image_seen j calls \<longleftrightarrow>
     (ImagePull (job_TargetImageTag j), True) \<in> set calls \<or> (ImageInspect (job_TargetImageTag j), True) \<in> set calls"

lemma pullImage_seen:
  assumes "run_state (pullImage a (job_TargetImageTag j)) m = (Inr (), m')"
  obtains calls where "trace (m_engine m') = trace (m_engine m) @ calls" "image_seen j calls"
    "\<forall>(q, ok) \<in> set calls. spares_containers q"
proof -
  from followed_run [OF traced_lookups(12) [OF lenient_spares_containers] assms] obtain calls where
    calls: "trace (m_engine m') = trace (m_engine m) @ calls" "\<forall>(q, ok) \<in> set calls. spares_containers q"
    unfolding followed_def by blast
  have "\<exists>calls'. trace (m_engine m') = trace (m_engine m) @ calls' \<and> image_seen j calls'"
    using assms
    by (auto simp: pullImage_def pullImageRaw_def imageExists_def sdk_call_def effect_def on_engine_def docker_run is_ok_def image_seen_def
        sw_Logf_def on_writer_def split: if_splits sum.splits prod.splits option.splits)
  with calls that show thesis by auto
qed

lemma always_true: "lenient (\<lambda>_. True)" "engine_removal (\<lambda>_. True) a p"
  by (simp_all add: lenient_def engine_removal_def emits_removeProjectContainers)

lemma no_early_success: "run_state (failed_early a e) m \<noteq> (Inr (), m')"
  using failed_early_ends by fastforce

lemma runDeploy_Inr:
  assumes "run_state (runDeploy a j) m = (Inr (), m')"
  obtains n m1 m2 where "ValidateSelfDeployJob (sys_runtime (ag_sys a)) (environ (m_engine m)) j = Inr ()"
    "followed (\<lambda>_. True) m m1"
    "run_state (displace_primary a j n) m1 = (Inr (), m2)" "run_state (after_rename a j n (deploy_timeout j)) m2 = (Inr (), m')"
proof -
  have env: "run_state (on_engine (State (\<lambda>s. (environ s, s)))) m = (environ (m_engine m), m)"
    by (simp add: on_engine_def)
  from assms no_early_success obtain c k1 p k2 n m1 m2 where
    "ValidateSelfDeployJob (sys_runtime (ag_sys a)) (environ (m_engine m)) j = Inr ()"
    "run_state (newDockerClient a) m = (c, k1)" "run_state (pingDocker a) k1 = (p, k2)" "run_state (original_name a j) k2 = (n, m1)"
    "run_state (displace_primary a j n) m1 = (Inr (), m2)" "run_state (after_rename a j n (deploy_timeout j)) m2 = (Inr (), m')"
    by (auto simp only: runDeploy_def run_state_bind env split: prod.splits sum.splits) (metis (full_types) old.unit.exhaust)
  moreover from this(2-4) have "followed (\<lambda>_. True) m m1"
    by (intro followed_trans [OF followed_run [OF traced_lookups(1) [OF always_true(1)]]
        followed_trans [OF followed_run [OF traced_lookups(2) [OF always_true(1)]] followed_run [OF traced_lookups(15) [OF always_true(1)]]]])
  ultimately show thesis using that by blast
qed

lemma after_rename_Inr:
  assumes "run_state (after_rename a j n t) m = (Inr (), m')"
  obtains m1 where "run_state (install a j t) m = (Inr (), m1)" "run_state (commit a) m1 = (Inr (), m')"
proof -
  obtain x m1 where x: "run_state (install a j t) m = (x, m1)" by fastforce
  show thesis
  proof (cases x)
    case (Inl e)
    with assms x handleDeployFailure_ends [of a j n _ m1 "Inr ()" m'] show ?thesis
      by (cases e) (auto simp: after_rename_def)
  next
    case (Inr u)
    with assms x that show ?thesis by (simp add: after_rename_def)
  qed
qed

lemma renameContainer_last:
  assumes "run_state (renameContainer a i n) m = (Inr (), m')"
  shows "ends_with (ContainerRename i n) m m'"
  using assms
  by (auto simp: renameContainer_def sdk_call_def on_engine_def docker_run is_ok_def ends_with_def split: if_splits sum.splits prod.splits
      intro: exI [of _ "[]"])

lemma renamePrimary_last:
  assumes "run_state (renamePrimary a i n) m = (Inr (), m')"
  shows "ends_with (ContainerRename i n) m m'"
proof -
  obtain x m1 where x: "run_state (containerExists a n) m = (x, m1)" by fastforce
  with assms obtain found where found: "x = Inr found" by (cases x) (auto simp: renamePrimary_def)
  let ?p = "if found then removeContainer a n else State_Monad.return (Inr ())"
  obtain y m2 where y: "run_state ?p m1 = (y, m2)" by fastforce
  have "traced (\<lambda>_. True) ?p" by (intro trace_rules) simp
  from followed_trans [OF followed_run [OF traced_lookups(6) [OF always_true(1)] x] followed_run [OF this y]]
  have "followed (\<lambda>_. True) m m2" .
  moreover from assms x found y have "run_state (renameContainer a i n) m2 = (Inr (), m')"
    by (cases y) (auto simp: renamePrimary_def)
  ultimately show ?thesis using followed_ends renameContainer_last by blast
qed

lemma displace_primary_last:
  assumes "run_state (displace_primary a j n) m = (Inr (), m')"
  shows "ends_with (ContainerRename (job_PrimaryContainer j) previousContainerName) m m'"
proof -
  let ?p = "do {
     _ \<leftarrow> sw_SetPhase a SelfDeployPhaseStopping;
     _ \<leftarrow> sw_Logf a (''stopping primary container '' @ short (job_PrimaryContainer j) @ '' (graceful '' @ show_duration stopGraceDefault @ '')'');
     stopPrimary a (job_PrimaryContainer j)
   }"
  and ?log = "sw_Logf a (''renaming primary container '' @ short (job_PrimaryContainer j) @ '' -> '' @ previousContainerName @
         '' (original name: '' @ n @ '')'')"
  obtain x m1 where x: "run_state ?p m = (x, m1)" by (rule that [OF surjective_pairing])
  obtain y m2 where y: "run_state ?log m1 = (y, m2)" by (rule that [OF surjective_pairing])
  have "traced (\<lambda>_. True) ?p" "traced (\<lambda>_. True) ?log" unfolding stopPrimary_def by (intro trace_rules; simp)+
  from followed_trans [OF followed_run [OF this(1) x] followed_run [OF this(2) y]] have "followed (\<lambda>_. True) m m2" .
  moreover from assms x y have "run_state (renamePrimary a (job_PrimaryContainer j) previousContainerName) m2 = (Inr (), m')"
    by (auto simp: displace_primary_def or_fail_def split: prod.splits sum.splits)
  ultimately show ?thesis using followed_ends renamePrimary_last by blast
qed

text \<open>The stages of an installation that succeeds.\<close>

lemma install_stages:
  assumes "run_state (install a j t) m = (Inr (), m')"
  obtains m1 m2 m3 m4 url calls where
    "trace (m_engine m1) = trace (m_engine m) @ calls" "image_seen j calls" "\<forall>(q, ok) \<in> set calls. spares_containers q"
    "run_state (deployNew a (job_StackName j) (job_ComposeYAML j) (job_EnvVars j)) m1 = (Inr (), m2)"
    "followed spares_containers m2 m3" "ready_url j url" "trace (m_engine m4) = trace (m_engine m3) @ [(HttpGet url, True)]" "followed spares_containers m4 m'"
proof -
  let ?b = "splitHealthBudget t (splitPullBudget t)"
  from assms obtain k1 k2 k3 k4 k5 k6 k7 k8 where
    s1: "run_state (sw_SetPhase a SelfDeployPhasePulling) m = ((), k1)"
      "run_state (sw_Logf a (''pulling image '' @ job_TargetImageTag j)) k1 = ((), k2)"
    and pull: "run_state (pullImage a (job_TargetImageTag j)) k2 = (Inr (), k3)"
    and s2: "run_state (sw_SetPhase a SelfDeployPhaseStarting) k3 = ((), k4)"
      "run_state (sw_Logf a (''deploying stack (project='' @ job_StackName j @ '')'')) k4 = ((), k5)"
    and new: "run_state (deployNew a (job_StackName j) (job_ComposeYAML j) (job_EnvVars j)) k5 = (Inr (), k6)"
    and s3: "run_state (sw_SetPhase a SelfDeployPhaseHealthCheck) k6 = ((), k7)"
    and gate: "run_state (health_gate a j ?b) k7 = (Inr (), k8)" and last: "run_state (container_gate a j ?b) k8 = (Inr (), m')"
    by (auto simp: install_def Let_def or_fail_def split: prod.splits sum.splits)
  have quiet: "trace (m_engine m') = trace (m_engine m)" if "traced (\<lambda>_. False) p" "run_state p m = (x, m')" for p :: "('a, unit) mprog" and m x m'
    using traced_nothing [OF that(1), of m] that(2) by simp
  from pull obtain calls where calls: "trace (m_engine k3) = trace (m_engine k2) @ calls" "image_seen j calls"
    "\<forall>(q, ok) \<in> set calls. spares_containers q" by (rule pullImage_seen)
  with quiet [OF traced_sw(1) s1(1)] quiet [OF traced_sw(2) s1(2)] quiet [OF traced_sw(1) s2(1)] quiet [OF traced_sw(2) s2(2)]
  have "trace (m_engine k5) = trace (m_engine m) @ calls" by simp
  moreover from health_gate_answered [OF gate] obtain m3 url where
    answer: "followed spares_containers k7 m3" "ready_url j url" "trace (m_engine k8) = trace (m_engine m3) @ [(HttpGet url, True)]" by blast
  moreover have "followed spares_containers k6 m3"
    using followed_trans [OF followed_run [OF traced_sw(1) s3] answer(1)] .
  moreover have "followed spares_containers k8 m'"
    by (rule followed_run [OF traced_gates(2) [OF lenient_spares_containers] last])
  ultimately show thesis using calls(2,3) new that by blast
qed

text \<open>C5: A deploy succeeds only in this order: the job is valid; the primary is renamed to the backup; the image is
  pulled, or found on the host; the stack of the job is deployed by the engine, which reports success;
  and only then a probe of the ready endpoint is answered with a status of 2xx.  No container is
  stopped, renamed or removed between the rename and that probe except by the engine, and afterwards
  only the backup is removed, with its anonymous volumes kept.\<close>

theorem runDeploy_success:
  assumes "run_state (runDeploy a j) m = (Inr (), m')"
  shows "ValidateSelfDeployJob (sys_runtime (ag_sys a)) (environ (m_engine m)) j = Inr () \<and>
    (\<exists>before pulls deploy waits after e e' warnings url.
       trace e = trace (m_engine m) @ before @ (ContainerRename (job_PrimaryContainer j) previousContainerName, True) # pulls \<and>
       image_seen j pulls \<and>
       run_state (DeployWithResult (ag_fuel a) (sys_sdk (ag_sys a)) (sys_runtime (ag_sys a)) (job_StackName j) (job_ComposeYAML j)
         \<lparr>PullImages = False, EnvVars = job_EnvVars j, PreserveContainerNames = [previousContainerName]\<rparr> None) e = ((warnings, Inr ()), e') \<and>
       trace e' = trace e @ deploy \<and>
       trace (m_engine m') = trace e' @ waits @ (HttpGet url, True) # after \<and> ready_url j url \<and>
       (\<forall>(q, ok) \<in> set (pulls @ waits). spares_containers q) \<and>
       (\<forall>(q, ok) \<in> set after. spares_containers q \<or> q = ContainerRemove previousContainerName True False))"
proof -
  let ?last = "\<lambda>q. spares_containers q \<or> q = ContainerRemove previousContainerName True False"
  let ?rename = "ContainerRename (job_PrimaryContainer j) previousContainerName"
  have "lenient ?last" using lenient_spares_containers by (auto simp: lenient_def)
  then have commit: "traced ?last (commit a)"
    unfolding commit_def removePrevious_def by (intro trace_rules) (assumption | simp)+
  from assms obtain n m0 m1 m2 where valid: "ValidateSelfDeployJob (sys_runtime (ag_sys a)) (environ (m_engine m)) j = Inr ()"
    and start: "followed (\<lambda>_. True) m m1"
    and m2: "run_state (displace_primary a j n) m1 = (Inr (), m2)"
    and after: "run_state (after_rename a j n (deploy_timeout j)) m2 = (Inr (), m')" by (rule runDeploy_Inr)
  from followed_ends [OF start displace_primary_last [OF m2]] obtain before where
    before: "trace (m_engine m2) = trace (m_engine m) @ before @ [(?rename, True)]"
    unfolding ends_with_def by blast
  from after obtain m8 where inst: "run_state (install a j (deploy_timeout j)) m2 = (Inr (), m8)"
    and last: "run_state (commit a) m8 = (Inr (), m')" by (rule after_rename_Inr)
  from inst obtain m3 m4 m5 m6 url pulls where
    pulls: "trace (m_engine m3) = trace (m_engine m2) @ pulls" "image_seen j pulls" "\<forall>(q, ok) \<in> set pulls. spares_containers q"
    and new: "run_state (deployNew a (job_StackName j) (job_ComposeYAML j) (job_EnvVars j)) m3 = (Inr (), m4)"
    and waits: "followed spares_containers m4 m5" "ready_url j url" "trace (m_engine m6) = trace (m_engine m5) @ [(HttpGet url, True)]" "followed spares_containers m6 m8"
    by (rule install_stages)
  from new obtain warnings where run: "run_state (DeployWithResult (ag_fuel a) (sys_sdk (ag_sys a)) (sys_runtime (ag_sys a)) (job_StackName j)
      (job_ComposeYAML j) \<lparr>PullImages = False, EnvVars = job_EnvVars j, PreserveContainerNames = [previousContainerName]\<rparr> None) (m_engine m3) =
      ((warnings, Inr ()), m_engine m4)"
    by (auto simp: deployNew_def on_engine_def split: prod.splits)
  from followed_run [OF traced_deployNew [OF always_true] new] obtain deploy where
    deploy: "trace (m_engine m4) = trace (m_engine m3) @ deploy" unfolding followed_def by blast
  from waits(1) obtain ws where ws: "trace (m_engine m5) = trace (m_engine m4) @ ws" "\<forall>(q, ok) \<in> set ws. spares_containers q"
    unfolding followed_def by blast
  from waits(4) obtain gate where gate: "trace (m_engine m8) = trace (m_engine m6) @ gate" "\<forall>(q, ok) \<in> set gate. spares_containers q"
    unfolding followed_def by blast
  from followed_run [OF commit last] obtain rest where
    rest: "trace (m_engine m') = trace (m_engine m8) @ rest" "\<forall>(q, ok) \<in> set rest. ?last q"
    unfolding followed_def by blast
  have "trace (m_engine m3) = trace (m_engine m) @ before @ (?rename, True) # pulls" using before pulls(1) by simp
  moreover have "trace (m_engine m') = trace (m_engine m4) @ ws @ (HttpGet url, True) # gate @ rest"
    using ws(1) waits(3) gate(1) rest(1) by simp
  moreover have "\<forall>(q, ok) \<in> set (pulls @ ws). spares_containers q" using pulls(3) ws(2) by auto
  moreover have "\<forall>(q, ok) \<in> set (gate @ rest). ?last q" using gate(2) rest(2) by auto
  ultimately show ?thesis using valid pulls(2) run deploy waits(2) by blast
qed

section \<open>Failures\<close>

text \<open>The sidekick parses the stack without its variables: when the YAML of a job does not parse under
  the environment of the sidekick alone, the deploy fails at once and makes no call, whatever
  variables the job carries.\<close>

theorem runDeploy_ignores_variables:
  assumes "loader (sys_runtime (ag_sys a)) (environ (m_engine m)) ''self-deploy-validate'' (job_ComposeYAML j) = Inl err"
    and "run_state (runDeploy a (j\<lparr>job_EnvVars := vars\<rparr>)) m = (r, m')"
  shows "(\<exists>e. r = Inl (Err e)) \<and> phase_of m' = SelfDeployPhaseFailed \<and> trace (m_engine m') = trace (m_engine m)"
proof -
  have "\<exists>e. ValidateSelfDeployJob (sys_runtime (ag_sys a)) (environ (m_engine m)) (j\<lparr>job_EnvVars := vars\<rparr>) = Inl e"
    using assms(1) by (simp add: ValidateSelfDeployJob_def validateInvariants_def)
  then obtain e where "run_state (failed_early a (Err e)) m = (r, m')"
    using assms(2) by (auto simp: runDeploy_def on_engine_def)
  with failed_early_ends [OF this] traced_nothing [of "failed_early a (Err e)" m] show ?thesis
    by (auto simp: ended_def failed_early_def intro!: trace_rules)
qed

text \<open>The container that holds the name of the backup is removed by force before the rename, and
  nothing checks that it is not the primary itself: a primary that runs as the backup of an
  earlier deploy is destroyed by the next one.\<close>

theorem renamePrimary_removes_namesake:
  assumes "api_ContainerInspect (sys_sdk (ag_sys a)) previousContainerName (world (m_engine m)) = (Inr info, w)"
    and "run_state (renamePrimary a i previousContainerName) m = (r, m')"
  shows "\<exists>ok rest. trace (m_engine m') =
    trace (m_engine m) @ (ContainerInspect previousContainerName, True) # (ContainerRemove previousContainerName True False, ok) # rest"
proof -
  obtain m1 where m1: "run_state (containerExists a previousContainerName) m = (Inr True, m1)"
      "trace (m_engine m1) = trace (m_engine m) @ [(ContainerInspect previousContainerName, True)]"
    using assms(1) by (simp add: containerExists_def inspect_def sdk_call_def on_engine_def docker_run)
  obtain x ok m2 where m2: "run_state (removeContainer a previousContainerName) m1 = (x, m2)"
      "trace (m_engine m2) = trace (m_engine m1) @ [(ContainerRemove previousContainerName True False, ok)]"
    by (simp add: removeContainer_def sdk_call_def on_engine_def docker_run previousContainerName_def)
  let ?rest = "case x of
       Inl e \<Rightarrow> State_Monad.return (Inl (wrap (''deploy-agent: remove stale '' @ go_quote previousContainerName @ '': '') e))
     | Inr _ \<Rightarrow> renameContainer a i previousContainerName"
  have run: "run_state ?rest m2 = (r, m')"
    using assms(2) by (simp only: renamePrimary_def run_state_bind m1(1) m2(1) split_conv sum.case if_True)
  have "traced (\<lambda>_. True) ?rest" by (intro trace_rules) simp
  from tracedD [OF this run] obtain rest where "trace (m_engine m') = trace (m_engine m2) @ rest" by blast
  with m1(2) m2(2) show ?thesis by simp
qed

section \<open>Budgets\<close>

text \<open>C24: Whatever timeout a job has, in seconds and up to the wrap-around of the product in nanoseconds, the timeout of
  its deploy is positive and an int64, the pull gets one to five minutes and the health check at
  least thirty seconds, and from 90 seconds on the two budgets add up to the timeout.\<close>

theorem deploy_budgets:
  "0 < deploy_timeout j \<and> deploy_timeout j < 2 ^ 63 \<and>
   60 * sec \<le> splitPullBudget (deploy_timeout j) \<and> splitPullBudget (deploy_timeout j) \<le> 300 * sec \<and>
   30 * sec \<le> splitHealthBudget (deploy_timeout j) (splitPullBudget (deploy_timeout j)) \<and>
   (90 * sec \<le> deploy_timeout j \<longrightarrow>
      splitPullBudget (deploy_timeout j) + splitHealthBudget (deploy_timeout j) (splitPullBudget (deploy_timeout j)) = deploy_timeout j)"
proof -
  have "int64 n < 2 ^ 63" for n
    unfolding int64_def using sint_less [of "word_of_int n :: 64 word"] by simp
  then have "0 < deploy_timeout j \<and> deploy_timeout j < 2 ^ 63"
    by (auto simp: deploy_timeout_def Let_def SelfDeployDefaultTimeout_def sec_def not_le)
  moreover have "splitPullBudget t + splitHealthBudget t (splitPullBudget t) = t" if "90 * sec \<le> t" for t
    using that by (auto simp: splitPullBudget_def splitHealthBudget_def pullBudgetMin_def pullBudgetMax_def minHealthTimeout_def sec_def Let_def)
  ultimately show ?thesis using budgets [of "deploy_timeout j"] by blast
qed

end
