(* ===== verification/AgentWitnesses.thy ===== *)
theory AgentWitnesses
  imports AgentOutcomes
begin

text \<open>
  Concrete runs of the deploy agent on the small daemon of DeployTheorems: each property of the agent
  is applied where its hypotheses hold.
\<close>

section \<open>A small system\<close>

text \<open>A daemon that knows the primary and no other container, and a stack without services.\<close>

definition small_docker :: "(int \<times> container_summary list) sdk" where
  "small_docker = demo_docker\<lparr>
     api_ContainerInspect := (\<lambda>i w. (if i = ''c1'' then Inr demo_info else Inl (NotFound ''no container''), w)),
     api_ContainerList := (\<lambda>a fs w. (Inr [], w))\<rparr>"

definition small_runtime :: runtime where
  "small_runtime = demo_runtime\<lparr>loader := \<lambda>env project content. Inr \<lparr>c_Services = [], c_Networks = [], c_Volumes = []\<rparr>\<rparr>"

definition demo_system :: "(int \<times> container_summary list) sdk \<Rightarrow> (int \<times> container_summary list) system" where
  "demo_system e =
     \<lparr>sys_sdk = e, sys_runtime = small_runtime, sys_io = (\<lambda>q w. (None, w)), sys_temp = (\<lambda>path w. path @ ''.tmp''),
      sys_Ping = (\<lambda>w. (Inr (), w)), sys_ImageInspect = (\<lambda>i w. (Inl (NotFound ''no image''), w)),
      sys_HttpGet = (\<lambda>url w. (Inr 200, w)), sys_time = (\<lambda>t. ''t''), sys_newId = (\<lambda>w. ''00000001'')\<rparr>"

definition demo_agent :: "(int \<times> container_summary list) sdk \<Rightarrow> (int \<times> container_summary list) agent" where
  "demo_agent e =
     \<lparr>ag_sys = demo_system e, ag_Client = (\<lambda>w. Inr ()), ag_Drain = (\<lambda>w. (None, w)), ag_ReadDir = (\<lambda>p w. (Inr [], w)),
      ag_interrupted = (\<lambda>w. False), ag_fuel = 302, ag_path = ''/d/s''\<rparr>"

definition demo_job :: self_deploy_job where
  "demo_job = \<lparr>job_ID = ''00000001'', job_CreatedAt = 0, job_CreatedBy = [], job_ComposeYAML = ''y'', job_ImageTag = ''swirl:2'',
     job_ExposePort = 1, job_PreviousImageTag = ''swirl:1'', job_TargetImageTag = ''i'', job_PrimaryContainer = ''c1'',
     job_SourceStackID = ''s'', job_StackName = ''app'', job_TimeoutSec = 300, job_AutoRollback = True, job_EnvVars = []\<rparr>"

definition demo_machine :: "(string \<rightharpoonup> string) \<Rightarrow> (int \<times> container_summary list) machine" where
  "demo_machine env =
     \<lparr>m_engine = \<lparr>world = (0, []), trace = [], environ = env\<rparr>, m_files = Map.empty,
      m_writer = \<lparr>sw_st = demo_state, sw_ring = [], sw_next = 0, sw_filled = False, sw_dirty = False, sw_stopped = False\<rparr>\<rparr>"

lemmas run_simps = run_state_bind run_state_return on_engine_def docker_run observe_def wait_def io_call_def get_file_def put_file_def
  time_Now_def sdk_call_def effect_def on_writer_def set_writer_def

lemmas demo_simps = demo_agent_def demo_system_def small_docker_def demo_docker_def demo_machine_def demo_job_def demo_state_def
  small_runtime_def demo_runtime_def

lemmas writer_simps = SetPhase_def Logf_def Fail_def Succeed_def MarkRolledBack_def MarkRecovery_def finish_def appendLogLocked_def
  flushLocked_def snapshotRingLocked_def

lemmas sw_simps = sw_Logf_def sw_Succeed_def sw_Fail_def sw_SetPhase_def flushing_def write_state_file_def atomicWriteFile_def temp_step_def

text \<open>Every stage of a deploy succeeds there, from every machine.\<close>

lemma demo_texts:
  "TrimSpace ''app'' = ''app''" "TrimSpace ''y'' = ''y''" "TrimSpace ''i'' = ''i''" "TrimSpace ''c1'' = ''c1''" "topologicalOrder [] = Inr []"
  by code_simp+

lemma demo_valid: "ValidateSelfDeployJob small_runtime env demo_job = Inr ()"
  by (simp add: ValidateSelfDeployJob_def validateInvariants_def demo_simps demo_texts Let_def)

lemma demo_stages:
  "fst (run_state (newDockerClient (demo_agent small_docker)) m) = Inr ()"
  "fst (run_state (pingDocker (demo_agent small_docker)) m) = Inr ()"
  "fst (run_state (displace_primary (demo_agent small_docker) demo_job n) m) = Inr ()"
  "fst (run_state (pullImage (demo_agent small_docker) ''i'') m) = Inr ()"
  by (simp_all add: newDockerClient_def pingDocker_def displace_primary_def stopPrimary_def stopContainer_def renamePrimary_def
      containerExists_def inspect_def renameContainer_def pullImage_def pullImageRaw_def if_present_def sw_simps run_simps
      writer_simps demo_simps Let_def IsNotFound_def previousContainerName_def split: prod.split)

lemma demo_deployNew: "fst (run_state (deployNew (demo_agent small_docker) ''app'' ''y'' []) m) = Inr ()"
  by (simp add: deployNew_def DeployWithResult_def change_environ_def deploy_parsed_def validateServices_def deploy_preflight_def
      preflightExternalNetworks_def preflightExternalVolumes_def pull_images_def deploy_apply_def removeProjectContainers_def
      listProjectContainers_def ensureNetworks_def ensureVolumes_def hook_before_def run_simps demo_simps demo_texts of_go_def Let_def split: prod.split)

lemma demo_gates:
  "fst (run_state (health_gate (demo_agent small_docker) demo_job t) m) = Inr ()"
  "fst (run_state (container_gate (demo_agent small_docker) demo_job t) m) = Inr ()"
proof -
  show "fst (run_state (health_gate (demo_agent small_docker) demo_job t) m) = Inr ()"
    by (simp add: health_loop.simps(2) [of 301, simplified] health_gate_def waitHealthyResolver_def probe_round_def probeOnce_def http_get_def answers_2xx_def resolveHealthURL_def findSwirlContainerIP_def
        list_project_def buildHealthURL_def sw_simps run_simps demo_simps Let_def split: prod.split list.split)
  show "fst (run_state (container_gate (demo_agent small_docker) demo_job t) m) = Inr ()"
    by (simp add: container_gate_def findSwirlContainerID_def list_project_def run_simps demo_simps Let_def split: prod.split)
qed

text \<open>Composing stages that succeed from every machine.\<close>

lemma succeed_then:
  assumes "\<And>m. fst (run_state p m) = Inr ()" and "\<And>m. fst (run_state (f (Inr ())) m) = Inr ()"
  shows "fst (run_state (State_Monad.bind p f) m) = Inr ()"
  using assms by (cases "run_state p m") (metis fst_conv run_state_bind split_conv)

lemma succeed_skip: "(\<And>x m. fst (run_state (f x) m) = Inr ()) \<Longrightarrow> fst (run_state (State_Monad.bind p f) m) = Inr ()"
  by (cases "run_state p m") simp

lemma succeed_if: "fst (run_state p m) = Inr () \<Longrightarrow> fst (run_state (if True then p else q) m) = Inr ()"
  by simp

lemma demo_install: "fst (run_state (install (demo_agent small_docker) demo_job t) m) = Inr ()"
proof -
  have job: "job_TargetImageTag demo_job = ''i''" "job_StackName demo_job = ''app''" "job_ComposeYAML demo_job = ''y''" "job_EnvVars demo_job = []"
    by (simp_all add: demo_job_def)
  show ?thesis
    unfolding install_def Let_def job
    by (rule succeed_skip, rule succeed_skip, rule succeed_then [OF demo_stages(4)], simp only: wrap_simps or_fail_simps,
        rule succeed_skip, rule succeed_skip, rule succeed_then [OF demo_deployNew], simp only: wrap_simps or_fail_simps,
        rule succeed_skip, rule succeed_then [OF demo_gates(1)], simp only: or_fail_simps, rule demo_gates(2))
qed

lemma commit_Inr: "fst (run_state (commit a) m) = Inr ()"
  by (simp add: commit_def split: prod.split)

abbreviation demo_deployed where
  "demo_deployed \<equiv> run_state (runDeploy (demo_agent small_docker) demo_job) (demo_machine Map.empty)"

lemma demo_deployed: "fst demo_deployed = Inr ()"
proof -
  have rt: "sys_runtime (ag_sys (demo_agent small_docker)) = small_runtime" by (simp add: demo_agent_def demo_system_def)
  show ?thesis
    unfolding runDeploy_def after_rename_def rt
    by (rule succeed_skip, simp only: demo_valid sum.case, rule succeed_then [OF demo_stages(1)], simp only: sum.case,
        rule succeed_then [OF demo_stages(2)], simp only: sum.case, rule succeed_skip,
        rule succeed_then [OF demo_stages(3)], simp only: sum.case, rule succeed_then [OF demo_install], simp only: sum.case, rule commit_Inr)
qed

section \<open>The properties at work\<close>

theorem runDeploy_success_witness:
  "\<exists>before between url after. trace (m_engine (snd demo_deployed)) =
     before @ (ContainerRename ''c1'' previousContainerName, True) # between @ (HttpGet url, True) # after \<and> ready_url demo_job url"
proof -
  have "demo_deployed = (Inr (), snd demo_deployed)" by (metis demo_deployed prod.collapse)
  from runDeploy_success [OF this] show ?thesis
  proof (elim conjE exE, goal_cases)
    case (1 before pulls deploy waits after e e' warnings url)
    then have "trace (m_engine (snd demo_deployed)) =
        before @ (ContainerRename ''c1'' previousContainerName, True) # (pulls @ deploy @ waits) @ (HttpGet url, True) # after"
      by (simp add: demo_machine_def demo_job_def)
    with 1 show ?case by blast
  qed
qed

theorem runDeploy_keeps_volumes_witness:
  "\<exists>new. trace (m_engine (snd demo_deployed)) = [] @ new \<and>
     (\<forall>(q, ok) \<in> set new. \<not> removes_volume ''data'' q \<and> \<not> removes_anonymous previousContainerName q)"
proof -
  have "always_preserved (sys_sdk (ag_sys (demo_agent small_docker))) (job_StackName demo_job) [previousContainerName] previousContainerName"
    by (simp add: always_preserved_def demo_agent_def demo_system_def small_docker_def)
  with runDeploy_keeps_volumes [OF prod.collapse [symmetric], of "demo_agent small_docker" demo_job "demo_machine Map.empty" "''data''"]
  show ?thesis by (fastforce simp: demo_machine_def)
qed

theorem runDeploy_ends_witness:
  "phase_of (snd demo_deployed) = SelfDeployPhaseSuccess"
proof -
  have "demo_deployed = (Inr (), snd demo_deployed)" by (metis demo_deployed prod.collapse)
  from runDeploy_ends [OF this] show ?thesis by simp
qed

lemma small_steady: "steady_system (ag_sys (demo_agent small_docker))"
  by (simp add: steady_system_def steady_clock_def demo_simps)

theorem runDeploy_returns_witness: "fst demo_deployed \<noteq> Inl OutOfFuel"
proof -
  have "302 \<le> ag_fuel (demo_agent small_docker)"
    "deploy_timeout demo_job \<le> int (ag_fuel (demo_agent small_docker) - 1) * healthPollInterval"
    by (simp_all add: deploy_timeout_def int64_def demo_job_def demo_agent_def healthPollInterval_def sec_def Let_def)
  from runDeploy_returns [OF small_steady this prod.collapse [symmetric]] show ?thesis .
qed

text \<open>A daemon that cannot pull, and lists the backup next to another container.\<close>

definition broken_docker :: "(int \<times> container_summary list) sdk" where
  "broken_docker = listing_docker\<lparr>api_ImagePull := \<lambda>n w. (Inl (SdkError ''denied''), w)\<rparr>"

theorem backup_survives_failure_witness:
  "\<exists>new. trace (m_engine (snd (run_state (after_rename (demo_agent broken_docker) demo_job ''swirl'' 0) (demo_machine Map.empty)))) =
     [] @ new \<and> (\<forall>(q, ok) \<in> set new. \<not> removes_container ''c2'' q)"
proof -
  let ?run = "run_state (after_rename (demo_agent broken_docker) demo_job ''swirl'' 0) (demo_machine Map.empty)"
  have pull: "\<exists>e. fst (run_state (pullImage (demo_agent broken_docker) ''i'') m) = Inl (Err e)" for m
    by (simp add: pullImage_def pullImageRaw_def imageExists_def agent_error_def broken_docker_def listing_docker_def run_simps demo_simps)
  have "run_state (install (demo_agent broken_docker) demo_job 0) m \<noteq> (Inr (), m')" for m m'
  proof -
    have pulled: "run_state (pullImage (demo_agent broken_docker) (job_TargetImageTag demo_job)) m \<noteq> (Inr (), m')" for m m'
      using pull [of m] by (auto simp: demo_job_def)
    show ?thesis
      using pulled by (auto simp: install_def or_fail_def Let_def split: prod.splits sum.splits)
  qed
  then have "fst ?run \<noteq> Inr ()" by (metis after_rename_Inr prod.collapse)
  moreover have "always_preserved (sys_sdk (ag_sys (demo_agent broken_docker))) (job_StackName demo_job) [previousContainerName] ''c2''"
    using listing_preserved
    by (simp add: always_preserved_def broken_docker_def demo_agent_def demo_system_def demo_job_def previousContainerName_def)
  ultimately show ?thesis
    using backup_survives_failure [OF prod.collapse [symmetric], of "demo_agent broken_docker" demo_job "''swirl''" 0 "demo_machine Map.empty" "''c2''"]
    by (simp add: demo_machine_def)
qed

text \<open>A daemon behind a context whose deadline has passed.\<close>

definition late_docker :: "(int \<times> container_summary list) sdk" where
  "late_docker = demo_docker\<lparr>
     api_ContainerList := (\<lambda>a fs w. (Inl (SdkError ''context deadline exceeded''), w)),
     api_ContainerInspect := (\<lambda>i w. (Inl (SdkError ''context deadline exceeded''), w)),
     ctx_error := (\<lambda>w. Some ''context deadline exceeded'')\<rparr>"

theorem no_rollback_after_deadline_witness:
  "job_AutoRollback demo_job \<and>
   phase_of (snd (run_state (handleDeployFailure (demo_agent late_docker) demo_job ''swirl'' ''health check'') (demo_machine Map.empty))) =
     SelfDeployPhaseRecovery"
proof -
  have "cancelled_fails (sys_sdk (ag_sys (demo_agent late_docker)))" "cancelled (demo_agent late_docker) (demo_machine Map.empty)"
    by (simp_all add: cancelled_fails_def cancelled_def demo_agent_def demo_system_def late_docker_def)
  from no_rollback_after_deadline [OF this prod.collapse [symmetric], of demo_job "''swirl''" "''health check''"]
  show ?thesis by (simp add: demo_job_def)
qed

text \<open>The sidekick's environment lacks the variable that the job carries.\<close>

definition strict_agent :: "(int \<times> container_summary list) agent" where
  "strict_agent = (demo_agent small_docker)\<lparr>ag_sys := (demo_system small_docker)\<lparr>sys_runtime := demo_runtime\<rparr>\<rparr>"

theorem runDeploy_ignores_variables_witness:
  "loader demo_runtime [''TAG'' \<mapsto> ''1''] ''app'' ''y'' = Inr demo_stack \<and>
   phase_of (snd (run_state (runDeploy strict_agent (demo_job\<lparr>job_EnvVars := [(''TAG'', ''1'')]\<rparr>)) (demo_machine Map.empty))) =
     SelfDeployPhaseFailed"
proof -
  have "loader (sys_runtime (ag_sys strict_agent)) (environ (m_engine (demo_machine Map.empty))) ''self-deploy-validate'' (job_ComposeYAML demo_job) =
      Inl ''TAG is not set''"
    by (simp add: strict_agent_def demo_runtime_def demo_machine_def)
  from runDeploy_ignores_variables [OF this prod.collapse [symmetric], of "[(''TAG'', ''1'')]"] show ?thesis
    by (simp add: demo_runtime_def)
qed

theorem renamePrimary_removes_namesake_witness:
  "\<exists>ok rest. trace (m_engine (snd (run_state (renamePrimary (demo_agent demo_docker) ''c2'' previousContainerName) (demo_machine Map.empty)))) =
     (ContainerInspect previousContainerName, True) # (ContainerRemove previousContainerName True False, ok) # rest"
proof -
  have "api_ContainerInspect (sys_sdk (ag_sys (demo_agent demo_docker))) previousContainerName (world (m_engine (demo_machine Map.empty))) =
      (Inr demo_info, (0, []))"
    by (simp add: demo_agent_def demo_system_def demo_docker_def demo_machine_def)
  from renamePrimary_removes_namesake [OF this prod.collapse [symmetric], of "''c2''"] show ?thesis
    by (simp add: demo_machine_def)
qed

theorem deploy_budgets_witness: "splitPullBudget (deploy_timeout demo_job) + splitHealthBudget (deploy_timeout demo_job) (splitPullBudget (deploy_timeout demo_job)) = 300 * sec"
proof -
  have "deploy_timeout demo_job = 300 * sec"
    by (simp add: deploy_timeout_def int64_def demo_job_def sec_def Let_def)
  with deploy_budgets [of demo_job] show ?thesis by (simp add: sec_def)
qed

end
