(* ===== verification/TriggerWitnesses.thy ===== *)
theory TriggerWitnesses
  imports TriggerTheorems AgentWitnesses
begin

text \<open>Concrete runs for the properties of the shared directory, on the system of AgentWitnesses.\<close>

definition demo_primary :: "(int \<times> container_summary list) primary" where
  "demo_primary =
     \<lparr>pr_sys = demo_system demo_docker, pr_FindSetting = (\<lambda>w. (Inr None, w)), pr_SaveSetting = (\<lambda>c w. (Inr (), w)),
      pr_FindStack = (\<lambda>i w. (Inr None, w)), pr_ClearError = (\<lambda>i w. w), pr_Event = (\<lambda>a i t w. w), pr_Client = (\<lambda>w. Inr ()),
      pr_Standalone = True, pr_SelfID = (\<lambda>w. Some ''c1'')\<rparr>"

lemma demo_disk: "disk_ok (demo_system e)" "fresh_temps (demo_system e)"
proof -
  show "disk_ok (demo_system e)" by (simp add: disk_ok_def demo_system_def)
  have "last x \<noteq> CHR ''p''" if "x \<in> {jobPath, statePath, lockPath}" for x
    using that by (auto simp: jobPath_def statePath_def lockPath_def)
  moreover have "last (path @ ''.tmp'') = CHR ''p''" for path by simp
  ultimately have "path @ ''.tmp'' \<notin> {jobPath, statePath, lockPath}" for path by metis
  then show "fresh_temps (demo_system e)"
    by (simp only: fresh_temps_def demo_system_def system.simps) simp
qed

text \<open>A machine on which a deploy holds the lock, with the state of the deploy before.\<close>

definition held_machine :: "self_deploy_state \<Rightarrow> (int \<times> container_summary list) machine" where
  "held_machine st = (demo_machine Map.empty)\<lparr>m_files := [lockPath \<mapsto> Bytes ''t'', statePath \<mapsto> StateFile st]\<rparr>"

theorem atomicWriteFile_atomic_witness:
  "m_files (snd (run_state (atomicWriteFile (demo_system demo_docker) ''self-deploy'' statePath (Bytes [])) (demo_machine Map.empty))) statePath =
     Some (Bytes [])"
proof -
  have "fst (run_state (atomicWriteFile (demo_system demo_docker) ''self-deploy'' statePath (Bytes [])) (demo_machine Map.empty)) = Inr ()"
    by (rule atomicWriteFile_ok [OF demo_disk(1)])
  moreover have "sys_temp (demo_system demo_docker) statePath (world (m_engine (demo_machine Map.empty))) = statePath @ ''.tmp''"
    by (simp add: demo_system_def)
  ultimately show ?thesis
    using atomicWriteFile_atomic [OF prod.collapse [symmetric], of "demo_system demo_docker" statePath "demo_machine Map.empty" "statePath @ ''.tmp''"
        "''self-deploy''" "Bytes []"] by simp
qed

theorem reclaimStaleLock_outcome_witness:
  "fst (run_state (reclaimStaleLock (demo_system demo_docker) True) (held_machine demo_state)) = Inr False \<and>
   fst (run_state (reclaimStaleLock (demo_system demo_docker) True) (held_machine (demo_state\<lparr>sd_Phase := SelfDeployPhaseFailed\<rparr>))) = Inr True"
proof -
  have held: "m_files (held_machine st) lockPath \<noteq> None" "state_on_disk (held_machine st) = Some st" for st
    by (simp_all add: held_machine_def state_on_disk_def)
  have pending: "isInProgressPhase (sd_Phase demo_state)" "sd_JobID demo_state \<noteq> []"
    by (simp_all add: demo_state_def isInProgressPhase_def)
  have failed: "\<not> isInProgressPhase SelfDeployPhaseFailed" by (simp add: isInProgressPhase_def phase_defs)
  have alive: "sidekick_running (fst (api_ContainerInspect (sys_sdk (demo_system demo_docker)) n w))" for n w
    by (simp add: demo_system_def demo_docker_def demo_info_def sidekick_running_def)
  obtain r1 m1 where r1: "run_state (reclaimStaleLock (demo_system demo_docker) True) (held_machine demo_state) = (r1, m1)" by fastforce
  obtain r2 m2 where r2: "run_state (reclaimStaleLock (demo_system demo_docker) True) (held_machine (demo_state\<lparr>sd_Phase := SelfDeployPhaseFailed\<rparr>)) = (r2, m2)"
    by fastforce
  from reclaimStaleLock_outcome [OF demo_disk held(1) r1] held(2) pending alive have "r1 = Inr False" by auto
  moreover from reclaimStaleLock_outcome [OF demo_disk held(1) r2] held(2) failed have "r2 = Inr True" by simp
  ultimately show ?thesis using r1 r2 by simp
qed

theorem trigger_excluded_witness:
  "fst (run_state (trigger_job demo_primary demo_job) (held_machine demo_state)) = Inl (Blocked ''a self-deploy is already in progress'')"
proof -
  have "disk_ok (pr_sys demo_primary)" "m_files (held_machine demo_state) lockPath \<noteq> None"
    using demo_disk(1) [of demo_docker] by (simp_all add: demo_primary_def held_machine_def)
  from trigger_excluded [OF this prod.collapse [symmetric]] show ?thesis by blast
qed

theorem lock_taken_twice_witness:
  "fst (run_state (do { _ \<leftarrow> acquireSelfDeployLock (pr_sys demo_primary); _ \<leftarrow> reclaim_if_client demo_primary; acquireSelfDeployLock (pr_sys demo_primary) })
     (demo_machine Map.empty)) = Inr ()"
proof -
  have disk: "disk_ok (pr_sys demo_primary)" using demo_disk(1) [of demo_docker] by (simp add: demo_primary_def)
  obtain r m1 where r: "run_state (acquireSelfDeployLock (pr_sys demo_primary)) (demo_machine Map.empty) = (r, m1)" by fastforce
  from acquire_ok [OF disk r] have ok: "r = Inr ()" by (simp add: demo_machine_def)
  have "pr_Client demo_primary (world (m_engine m1)) = Inr ()" by (simp add: demo_primary_def)
  from lock_taken_twice [OF disk r [unfolded ok] _ this prod.collapse [symmetric]] r show ?thesis
    by (simp add: state_on_disk_def demo_machine_def)
qed

theorem trigger_outcome_witness:
  "m_files (snd (run_state (trigger_job demo_primary demo_job) (demo_machine Map.empty))) lockPath = None \<longleftrightarrow>
   (\<exists>e. fst (run_state (trigger_job demo_primary demo_job) (demo_machine Map.empty)) = Inl e)"
proof -
  have "disk_ok (pr_sys demo_primary)" "fresh_temps (pr_sys demo_primary)" "m_files (demo_machine Map.empty) lockPath = None"
    using demo_disk [of demo_docker] by (simp_all add: demo_primary_def demo_machine_def)
  from trigger_outcome [OF this prod.collapse [symmetric], of demo_job] show ?thesis by (auto split: sum.splits)
qed

theorem demux_frames_witness:
  "demux (log_frame (CHR 0x01, ''hello '') @ log_frame (CHR 0x02, ''world'')) = ''hello world''"
  using demux_frames [of "[(CHR 0x01, ''hello ''), (CHR 0x02, ''world'')]"] by simp

end
