(* ===== verification/Entities.thy ===== *)
theory Entities
  imports StackHistory Auth Interpolation Utf8
begin

text \<open>
  The entities of dao/entity.go that the other theories do not need, and the storage operations of
  dao/bolt over them: settings, registries, swarm stacks, events, charts, dashboards, hosts, vault
  secrets, secret bindings, backups and backup schedules, and the operations on users and roles
  that the authentication leaves out.

  Every operation takes the bucket of its entity.  The slice expression at the end of a paged
  search panics when the bounds are out of range; such a search returns an option, with
  \<open>None\<close> for the panic.  \<open>sort.Slice\<close> is not stable: the order of records with equal
  times is that of the bucket here.
\<close>

section \<open>Entities\<close>

type_synonym options = "(string \<times> string) list"

record setting =
  st_ID :: string
  st_Options :: string
  st_UpdatedAt :: int
  st_UpdatedBy :: operator

record registry =
  rg_ID :: string
  rg_Name :: string
  rg_URL :: string
  rg_Username :: string
  rg_Password :: string
  rg_SkipTLSVerify :: bool
  rg_CACertPEM :: string
  rg_CAFingerprint :: string
  rg_CreatedAt :: int
  rg_UpdatedAt :: int
  rg_CreatedBy :: operator
  rg_UpdatedBy :: operator

record dao_stack =
  sk_Name :: string
  sk_Content :: string
  sk_CreatedAt :: int
  sk_UpdatedAt :: int
  sk_CreatedBy :: operator
  sk_UpdatedBy :: operator

record dao_event =
  ev_ID :: string
  ev_Type :: string
  ev_Action :: string
  ev_Args :: "options option"
  ev_UserID :: string
  ev_Username :: string
  ev_OriginatingUser :: string
  ev_Time :: int

record chart_margin =
  mg_Left :: int
  mg_Right :: int
  mg_Top :: int
  mg_Bottom :: int

record chart =
  ch_ID :: string
  ch_Title :: string
  ch_Description :: string
  ch_Metrics :: "(string \<times> string) list"
  ch_Dashboard :: string
  ch_Type :: string
  ch_Unit :: string
  ch_Width :: int
  ch_Height :: int
  ch_Options :: options
  ch_Margin :: chart_margin
  ch_CreatedAt :: int
  ch_UpdatedAt :: int
  ch_CreatedBy :: operator
  ch_UpdatedBy :: operator

record dashboard =
  da_Name :: string
  da_Key :: string
  da_Period :: int
  da_Interval :: int
  da_Charts :: "(string \<times> int \<times> int) list"
  da_UpdatedAt :: int
  da_UpdatedBy :: operator

record dao_host =
  ho_ID :: string
  ho_Name :: string
  ho_Endpoint :: string
  ho_AuthMethod :: string
  ho_TLSCACert :: string
  ho_TLSCert :: string
  ho_TLSKey :: string
  ho_SSHUser :: string
  ho_SSHKey :: string
  ho_Status :: string
  ho_Error :: string
  ho_Color :: string
  ho_Type :: string
  ho_SwirlURL :: string
  ho_SwirlToken :: string
  ho_TokenExpiresAt :: int
  ho_TokenAutoRefresh :: bool
  ho_Immutable :: bool
  ho_EngineVer :: string
  ho_OS :: string
  ho_Arch :: string
  ho_CPUs :: int
  ho_Memory :: int
  ho_CreatedAt :: int
  ho_UpdatedAt :: int
  ho_CreatedBy :: operator
  ho_UpdatedBy :: operator
  ho_AddonConfigExtract :: string

record vault_secret =
  vs_ID :: string
  vs_Name :: string
  vs_Description :: string
  vs_Path :: string
  vs_Field :: string
  vs_Labels :: options
  vs_CreatedAt :: int
  vs_UpdatedAt :: int
  vs_CreatedBy :: operator
  vs_UpdatedBy :: operator

record secret_binding =
  sb_ID :: string
  sb_StackID :: string
  sb_VaultSecretID :: string
  sb_Field :: string
  sb_Service :: string
  sb_TargetType :: string
  sb_TargetPath :: string
  sb_EnvName :: string
  sb_UID :: int
  sb_GID :: int
  sb_Mode :: string
  sb_StorageMode :: string
  sb_DeployedHash :: string
  sb_DeployedAt :: int
  sb_CreatedAt :: int
  sb_UpdatedAt :: int
  sb_CreatedBy :: operator
  sb_UpdatedBy :: operator

record backup =
  bk_ID :: string
  bk_Name :: string
  bk_Source :: string
  bk_Size :: int
  bk_Checksum :: string
  bk_Path :: string
  bk_Includes :: "string list"
  bk_Stats :: "(string \<times> nat) list"
  bk_KeyFingerprint :: string
  bk_VerifiedAt :: "int option"
  bk_CreatedAt :: int
  bk_CreatedBy :: operator

record backup_schedule =
  sc_ID :: string
  sc_Enabled :: bool
  sc_DayConfig :: string
  sc_Time :: string
  sc_Retention :: int
  sc_LastRunAt :: "int option"
  sc_CreatedAt :: int
  sc_UpdatedAt :: int

definition registry_Match :: "registry \<Rightarrow> string \<Rightarrow> bool" where
  "registry_Match r img = has_prefix img (rg_URL r)"

definition zero_margin :: chart_margin where
  "zero_margin = \<lparr>mg_Left = 0, mg_Right = 0, mg_Top = 0, mg_Bottom = 0\<rparr>"

definition NewChart :: "string \<Rightarrow> string \<Rightarrow> string \<Rightarrow> string \<Rightarrow> string \<Rightarrow> string \<Rightarrow> int \<Rightarrow> chart" where
  "NewChart dash key title legend query unit left =
     \<lparr>ch_ID = key, ch_Title = title, ch_Description = title, ch_Metrics = [(legend, query)], ch_Dashboard = dash,
      ch_Type = ''line'', ch_Unit = unit, ch_Width = 12, ch_Height = 200, ch_Options = [],
      ch_Margin = zero_margin\<lparr>mg_Left := left\<rparr>, ch_CreatedAt = 0, ch_UpdatedAt = 0,
      ch_CreatedBy = no_operator, ch_UpdatedBy = no_operator\<rparr>"

definition dashboard_ID :: "string \<Rightarrow> string \<Rightarrow> string" where
  "dashboard_ID name key = (if key = [] then name else name @ '':'' @ key)"

section \<open>Searching\<close>

text \<open>\<open>strings.ToLower\<close> changes letters beyond ASCII too, which \<^const>\<open>to_lower\<close> leaves alone.\<close>

definition matchAny :: "string \<Rightarrow> string list \<Rightarrow> bool" where
  "matchAny s candidates \<longleftrightarrow> list_ex (\<lambda>v. contains (to_lower v) (to_lower s)) candidates"

definition Page :: "int \<Rightarrow> int \<Rightarrow> int \<Rightarrow> int \<times> int" where
  "Page cnt pageIndex pageSize =
     (let start = pageSize * (pageIndex - 1); stop = pageSize * pageIndex in
      if cnt < start then (0, 0) else if cnt < stop then (start, cnt) else (start, stop))"

definition go_slice :: "int \<Rightarrow> int \<Rightarrow> 'a list \<Rightarrow> 'a list option" where
  "go_slice start stop xs =
     (if 0 \<le> start \<and> start \<le> stop \<and> stop \<le> int (length xs)
      then Some (take (nat (stop - start)) (drop (nat start) xs)) else None)"

type_synonym 'a page_result = "(dao_error + 'a list \<times> nat) option"

definition paged :: "int \<Rightarrow> int \<Rightarrow> dao_error + 'a list \<Rightarrow> 'a page_result" where
  "paged pageIndex pageSize r =
     (case r of Inl e \<Rightarrow> Some (Inl e)
      | Inr items \<Rightarrow>
          (case Page (int (length items)) pageIndex pageSize of
             (start, stop) \<Rightarrow> map_option (\<lambda>page. Inr (page, length items)) (go_slice start stop items)))"

definition newest_first :: "('a \<Rightarrow> int) \<Rightarrow> 'a list \<Rightarrow> 'a list" where
  "newest_first t items = sort_key (\<lambda>x. - t x) items"

text \<open>\<open>slice\<close>: the records under the given keys, in the order of the keys.\<close>

fun Dao_slice :: "('b, 'raw, 'v) bolt \<Rightarrow> ('raw \<Rightarrow> 'acc \<Rightarrow> dao_error + 'acc) \<Rightarrow> string list \<Rightarrow> 'acc \<Rightarrow> 'b \<Rightarrow> dao_error + 'acc" where
  "Dao_slice db fn [] acc b = Inr acc"
| "Dao_slice db fn (k # ks) acc b =
     (case Get db k b of None \<Rightarrow> Dao_slice db fn ks acc b
      | Some data \<Rightarrow> or_return (fn data acc) (\<lambda>acc. Dao_slice db fn ks acc b))"

definition all_of :: "('b, 'raw, 'v) bolt \<Rightarrow> 'b \<Rightarrow> dao_error + 'v list" where
  "all_of db b = Dao_each db (collect db (\<lambda>_. True)) [] b"

section \<open>Users, roles and settings\<close>

definition UserCount :: "('b, 'raw, dao_user) bolt \<Rightarrow> 'b \<Rightarrow> nat" where
  "UserCount db b = Dao_count db b"

definition UserDelete :: "('b, 'raw, dao_user) bolt \<Rightarrow> string \<Rightarrow> 'b \<Rightarrow> (dao_error + unit) \<times> 'b" where
  "UserDelete db key b = Dao_delete db key b"

record user_search_args =
  ua_Name :: string
  ua_LoginName :: string
  ua_Admin :: bool
  ua_Status :: int
  ua_PageIndex :: int
  ua_PageSize :: int

definition user_matches :: "user_search_args \<Rightarrow> dao_user \<Rightarrow> bool" where
  "user_matches args u \<longleftrightarrow>
     (ua_Name args \<noteq> [] \<longrightarrow> matchAny (ua_Name args) [us_Name u])
     \<and> (ua_LoginName args \<noteq> [] \<longrightarrow> matchAny (ua_LoginName args) [us_LoginName u])
     \<and> (ua_Admin args \<longrightarrow> us_Admin u)
     \<and> (ua_Status args \<ge> 0 \<longrightarrow> us_Status u = ua_Status args)"

definition UserSearch :: "('b, 'raw, dao_user) bolt \<Rightarrow> user_search_args \<Rightarrow> 'b \<Rightarrow> dao_user page_result" where
  "UserSearch db args b =
     paged (ua_PageIndex args) (ua_PageSize args) (Dao_each db (collect db (user_matches args)) [] b)"

definition UserUpdateProfile :: "('b, 'raw, dao_user) bolt \<Rightarrow> dao_user \<Rightarrow> 'b \<Rightarrow> (dao_error + unit) \<times> 'b" where
  "UserUpdateProfile db user b =
     Dao_update db (us_ID user)
       (\<lambda>old. old\<lparr>us_Name := us_Name user, us_LoginName := us_LoginName user, us_Email := us_Email user,
                 us_Tokens := us_Tokens user, us_UpdatedAt := us_UpdatedAt user,
                 us_UpdatedBy := us_UpdatedBy user\<rparr>) b"

definition UserUpdatePassword :: "('b, 'raw, dao_user) bolt \<Rightarrow> dao_user \<Rightarrow> 'b \<Rightarrow> (dao_error + unit) \<times> 'b" where
  "UserUpdatePassword db user b =
     Dao_update db (us_ID user)
       (\<lambda>old. old\<lparr>us_Password := us_Password user, us_Salt := us_Salt user, us_UpdatedAt := us_UpdatedAt user,
                 us_UpdatedBy := us_UpdatedBy user\<rparr>) b"

definition RoleSearch :: "('b, 'raw, dao_role) bolt \<Rightarrow> string \<Rightarrow> 'b \<Rightarrow> dao_error + dao_role list" where
  "RoleSearch db name b = Dao_each db (collect db (\<lambda>r. matchAny name [ro_Name r])) [] b"

definition RoleCreate :: "('b, 'raw, dao_role) bolt \<Rightarrow> dao_role \<Rightarrow> 'b \<Rightarrow> (dao_error + unit) \<times> 'b" where
  "RoleCreate db role b = Dao_replace db (ro_ID role) role b"

definition RoleDelete :: "('b, 'raw, dao_role) bolt \<Rightarrow> string \<Rightarrow> 'b \<Rightarrow> (dao_error + unit) \<times> 'b" where
  "RoleDelete db key b = Dao_delete db key b"

definition SettingGetAll :: "('b, 'raw, setting) bolt \<Rightarrow> 'b \<Rightarrow> dao_error + setting list" where
  "SettingGetAll db b = all_of db b"

definition SettingGet :: "('b, 'raw, setting) bolt \<Rightarrow> string \<Rightarrow> 'b \<Rightarrow> dao_error + setting option" where
  "SettingGet db key b = Dao_get_opt db key b"

definition SettingUpdate :: "('b, 'raw, setting) bolt \<Rightarrow> setting \<Rightarrow> 'b \<Rightarrow> (dao_error + unit) \<times> 'b" where
  "SettingUpdate db s b = Dao_replace db (st_ID s) s b"

section \<open>Registries and swarm stacks\<close>

definition RegistryCreate :: "('b, 'raw, registry) bolt \<Rightarrow> registry \<Rightarrow> 'b \<Rightarrow> (dao_error + unit) \<times> 'b" where
  "RegistryCreate db r b = Dao_replace db (rg_ID r) r b"

definition RegistryUpdate :: "('b, 'raw, registry) bolt \<Rightarrow> registry \<Rightarrow> 'b \<Rightarrow> (dao_error + unit) \<times> 'b" where
  "RegistryUpdate db r b =
     Dao_update db (rg_ID r)
       (\<lambda>old. r\<lparr>rg_CreatedAt := rg_CreatedAt old, rg_CreatedBy := rg_CreatedBy old,
               rg_Password := (if rg_Password r = [] then rg_Password old else rg_Password r)\<rparr>) b"

definition RegistryGetAll :: "('b, 'raw, registry) bolt \<Rightarrow> 'b \<Rightarrow> dao_error + registry list" where
  "RegistryGetAll db b = all_of db b"

definition RegistryGet :: "('b, 'raw, registry) bolt \<Rightarrow> string \<Rightarrow> 'b \<Rightarrow> dao_error + registry option" where
  "RegistryGet db key b = Dao_get_opt db key b"

definition zero_registry :: registry where
  "zero_registry = \<lparr>rg_ID = [], rg_Name = [], rg_URL = [], rg_Username = [], rg_Password = [],
     rg_SkipTLSVerify = False, rg_CACertPEM = [], rg_CAFingerprint = [], rg_CreatedAt = 0, rg_UpdatedAt = 0,
     rg_CreatedBy = no_operator, rg_UpdatedBy = no_operator\<rparr>"

definition RegistryGetByURL :: "('b, 'raw, registry) bolt \<Rightarrow> string \<Rightarrow> 'b \<Rightarrow> dao_error + registry option" where
  "RegistryGetByURL db url b = Dao_find db zero_registry (\<lambda>r. rg_URL r = url) b"

definition RegistryDelete :: "('b, 'raw, registry) bolt \<Rightarrow> string \<Rightarrow> 'b \<Rightarrow> (dao_error + unit) \<times> 'b" where
  "RegistryDelete db key b = Dao_delete db key b"

definition StackGetAll :: "('b, 'raw, dao_stack) bolt \<Rightarrow> 'b \<Rightarrow> dao_error + dao_stack list" where
  "StackGetAll db b = all_of db b"

definition StackCreate :: "('b, 'raw, dao_stack) bolt \<Rightarrow> dao_stack \<Rightarrow> 'b \<Rightarrow> (dao_error + unit) \<times> 'b" where
  "StackCreate db s b = Dao_replace db (sk_Name s) s b"

definition StackGet :: "('b, 'raw, dao_stack) bolt \<Rightarrow> string \<Rightarrow> 'b \<Rightarrow> dao_error + dao_stack option" where
  "StackGet db key b = Dao_get_opt db key b"

text \<open>The update goes to the bucket of the roles, so it takes that one: \<open>StackUpdate\<close> names the
  constant \<open>Role\<close>.  The codec is still that of a stack.\<close>

definition StackUpdate :: "('b, 'raw, dao_stack) bolt \<Rightarrow> dao_stack \<Rightarrow> 'b \<Rightarrow> (dao_error + unit) \<times> 'b" where
  "StackUpdate db s role_bucket =
     Dao_update db (sk_Name s) (\<lambda>old. s\<lparr>sk_CreatedAt := sk_CreatedAt old, sk_CreatedBy := sk_CreatedBy old\<rparr>)
       role_bucket"

definition StackDelete :: "('b, 'raw, dao_stack) bolt \<Rightarrow> string \<Rightarrow> 'b \<Rightarrow> (dao_error + unit) \<times> 'b" where
  "StackDelete db key b = Dao_delete db key b"

section \<open>Events, charts and dashboards\<close>

record event_search_args =
  ea_Type :: string
  ea_Name :: string
  ea_PageIndex :: int
  ea_PageSize :: int

text \<open>An argument that is absent reads as the empty string.\<close>

definition event_matches :: "event_search_args \<Rightarrow> dao_event \<Rightarrow> bool" where
  "event_matches args e \<longleftrightarrow>
     (ea_Name args \<noteq> [] \<longrightarrow>
        (case ev_Args e of None \<Rightarrow> False
         | Some m \<Rightarrow> matchAny (ea_Name args) [case map_of m ''name'' of None \<Rightarrow> [] | Some v \<Rightarrow> v]))
     \<and> (ea_Type args \<noteq> [] \<longrightarrow> ev_Type e = ea_Type args)"

definition EventSearch :: "('b, 'raw, dao_event) bolt \<Rightarrow> event_search_args \<Rightarrow> 'b \<Rightarrow> dao_event page_result" where
  "EventSearch db args b =
     paged (ea_PageIndex args) (ea_PageSize args)
       (map_sum id (newest_first ev_Time) (Dao_each db (collect db (event_matches args)) [] b))"

definition EventCreate :: "('b, 'raw, dao_event) bolt \<Rightarrow> dao_event \<Rightarrow> 'b \<Rightarrow> (dao_error + unit) \<times> 'b" where
  "EventCreate db e b = Dao_replace db (ev_ID e) e b"

record chart_search_args =
  ca_Title :: string
  ca_Dashboard :: string
  ca_PageIndex :: int
  ca_PageSize :: int

definition chart_matches :: "chart_search_args \<Rightarrow> chart \<Rightarrow> bool" where
  "chart_matches args c \<longleftrightarrow>
     (ca_Title args \<noteq> [] \<longrightarrow> matchAny (ca_Title args) [ch_Title c])
     \<and> (ca_Dashboard args \<noteq> [] \<longrightarrow> matchAny (ch_Dashboard c) [ca_Dashboard args, []])"

definition ChartSearch :: "('b, 'raw, chart) bolt \<Rightarrow> chart_search_args \<Rightarrow> 'b \<Rightarrow> chart page_result" where
  "ChartSearch db args b =
     paged (ca_PageIndex args) (ca_PageSize args)
       (map_sum id (newest_first ch_UpdatedAt) (Dao_each db (collect db (chart_matches args)) [] b))"

definition ChartCreate :: "('b, 'raw, chart) bolt \<Rightarrow> chart \<Rightarrow> 'b \<Rightarrow> (dao_error + unit) \<times> 'b" where
  "ChartCreate db c b = Dao_replace db (ch_ID c) c b"

definition ChartGet :: "('b, 'raw, chart) bolt \<Rightarrow> string \<Rightarrow> 'b \<Rightarrow> dao_error + chart option" where
  "ChartGet db key b = Dao_get_opt db key b"

definition ChartGetBatch :: "('b, 'raw, chart) bolt \<Rightarrow> string list \<Rightarrow> 'b \<Rightarrow> dao_error + chart list" where
  "ChartGetBatch db keys b = Dao_slice db (collect db (\<lambda>_. True)) keys [] b"

definition ChartUpdate :: "('b, 'raw, chart) bolt \<Rightarrow> chart \<Rightarrow> 'b \<Rightarrow> (dao_error + unit) \<times> 'b" where
  "ChartUpdate db c b =
     Dao_update db (ch_ID c) (\<lambda>old. c\<lparr>ch_CreatedAt := ch_CreatedAt old, ch_CreatedBy := ch_CreatedBy old\<rparr>) b"

definition ChartDelete :: "('b, 'raw, chart) bolt \<Rightarrow> string \<Rightarrow> 'b \<Rightarrow> (dao_error + unit) \<times> 'b" where
  "ChartDelete db key b = Dao_delete db key b"

definition DashboardGet :: "('b, 'raw, dashboard) bolt \<Rightarrow> string \<Rightarrow> string \<Rightarrow> 'b \<Rightarrow> dao_error + dashboard option" where
  "DashboardGet db name key b = Dao_get_opt db (dashboard_ID name key) b"

definition DashboardUpdate :: "('b, 'raw, dashboard) bolt \<Rightarrow> dashboard \<Rightarrow> 'b \<Rightarrow> (dao_error + unit) \<times> 'b" where
  "DashboardUpdate db d b = Dao_replace db (dashboard_ID (da_Name d) (da_Key d)) d b"

section \<open>Hosts\<close>

definition HostCreate :: "('b, 'raw, dao_host) bolt \<Rightarrow> dao_host \<Rightarrow> 'b \<Rightarrow> (dao_error + unit) \<times> 'b" where
  "HostCreate db h b = Dao_replace db (ho_ID h) h b"

text \<open>What an edit keeps of the stored host: its origin and status, each secret that the form
  leaves empty, and the flag \<open>Immutable\<close>.\<close>

definition kept_of_host :: "dao_host \<Rightarrow> dao_host \<Rightarrow> dao_host" where
  "kept_of_host h old =
     h\<lparr>ho_CreatedAt := ho_CreatedAt old, ho_CreatedBy := ho_CreatedBy old, ho_Status := ho_Status old,
       ho_EngineVer := ho_EngineVer old, ho_OS := ho_OS old, ho_Arch := ho_Arch old, ho_CPUs := ho_CPUs old,
       ho_Memory := ho_Memory old,
       ho_TLSKey := (if ho_TLSKey h = [] then ho_TLSKey old else ho_TLSKey h),
       ho_SSHKey := (if ho_SSHKey h = [] then ho_SSHKey old else ho_SSHKey h),
       ho_SwirlToken := (if ho_SwirlToken h = [] then ho_SwirlToken old else ho_SwirlToken h),
       ho_AddonConfigExtract := (if ho_AddonConfigExtract h = [] then ho_AddonConfigExtract old else ho_AddonConfigExtract h),
       ho_Immutable := ho_Immutable old\<rparr>"

definition HostUpdate :: "('b, 'raw, dao_host) bolt \<Rightarrow> dao_host \<Rightarrow> 'b \<Rightarrow> (dao_error + unit) \<times> 'b" where
  "HostUpdate db h b = Dao_update db (ho_ID h) (kept_of_host h) b"

definition HostUpdateStatus :: "('b, 'raw, dao_host) bolt \<Rightarrow> string \<Rightarrow> string \<Rightarrow> string \<Rightarrow> string \<Rightarrow> string \<Rightarrow> string \<Rightarrow> int \<Rightarrow> int
    \<Rightarrow> 'b \<Rightarrow> (dao_error + unit) \<times> 'b" where
  "HostUpdateStatus db key status errMsg engineVer os arch cpus memory b =
     Dao_update db key
       (\<lambda>old. old\<lparr>ho_Status := status, ho_Error := errMsg,
          ho_EngineVer := (if engineVer \<noteq> [] then engineVer else ho_EngineVer old),
          ho_OS := (if os \<noteq> [] then os else ho_OS old),
          ho_Arch := (if arch \<noteq> [] then arch else ho_Arch old),
          ho_CPUs := (if cpus > 0 then cpus else ho_CPUs old),
          ho_Memory := (if memory > 0 then memory else ho_Memory old)\<rparr>) b"

definition HostGet :: "('b, 'raw, dao_host) bolt \<Rightarrow> string \<Rightarrow> 'b \<Rightarrow> dao_error + dao_host option" where
  "HostGet db key b = Dao_get_opt db key b"

definition HostGetAll :: "('b, 'raw, dao_host) bolt \<Rightarrow> 'b \<Rightarrow> dao_error + dao_host list" where
  "HostGetAll db b = all_of db b"

definition HostSearch :: "('b, 'raw, dao_host) bolt \<Rightarrow> string \<Rightarrow> string \<Rightarrow> 'b \<Rightarrow> dao_error + dao_host list \<times> nat" where
  "HostSearch db name status b =
     or_return
       (Dao_each db
          (collect db (\<lambda>h. \<not> (name \<noteq> [] \<and> \<not> contains (ho_Name h) name) \<and> \<not> (status \<noteq> [] \<and> ho_Status h \<noteq> status))) [] b)
       (\<lambda>hosts. Inr (hosts, length hosts))"

definition HostUpdateAddonConfigExtract :: "('b, 'raw, dao_host) bolt \<Rightarrow> string \<Rightarrow> string \<Rightarrow> 'b \<Rightarrow> (dao_error + unit) \<times> 'b" where
  "HostUpdateAddonConfigExtract db key extractJSON b =
     Dao_update db key (\<lambda>old. old\<lparr>ho_AddonConfigExtract := extractJSON\<rparr>) b"

definition HostDelete :: "('b, 'raw, dao_host) bolt \<Rightarrow> string \<Rightarrow> 'b \<Rightarrow> (dao_error + unit) \<times> 'b" where
  "HostDelete db key b = Dao_delete db key b"

section \<open>Vault secrets and their bindings\<close>

definition VaultSecretCreate :: "('b, 'raw, vault_secret) bolt \<Rightarrow> vault_secret \<Rightarrow> 'b \<Rightarrow> (dao_error + unit) \<times> 'b" where
  "VaultSecretCreate db s b = Dao_replace db (vs_ID s) s b"

definition VaultSecretUpdate :: "('b, 'raw, vault_secret) bolt \<Rightarrow> vault_secret \<Rightarrow> 'b \<Rightarrow> (dao_error + unit) \<times> 'b" where
  "VaultSecretUpdate db s b =
     Dao_update db (vs_ID s) (\<lambda>old. s\<lparr>vs_CreatedAt := vs_CreatedAt old, vs_CreatedBy := vs_CreatedBy old\<rparr>) b"

definition VaultSecretGet :: "('b, 'raw, vault_secret) bolt \<Rightarrow> string \<Rightarrow> 'b \<Rightarrow> dao_error + vault_secret option" where
  "VaultSecretGet db key b = Dao_get_opt db key b"

definition VaultSecretGetByName :: "('b, 'raw, vault_secret) bolt \<Rightarrow> string \<Rightarrow> 'b \<Rightarrow> dao_error + vault_secret option" where
  "VaultSecretGetByName db name b =
     Dao_each db
       (\<lambda>buf found. or_return (lift_err (decode db buf)) (\<lambda>s. Inr (if vs_Name s = name then Some s else found))) None b"

definition VaultSecretGetAll :: "('b, 'raw, vault_secret) bolt \<Rightarrow> 'b \<Rightarrow> dao_error + vault_secret list" where
  "VaultSecretGetAll db b = all_of db b"

definition VaultSecretSearch :: "('b, 'raw, vault_secret) bolt \<Rightarrow> string \<Rightarrow> 'b \<Rightarrow> dao_error + vault_secret list \<times> nat" where
  "VaultSecretSearch db name b =
     or_return (Dao_each db (collect db (\<lambda>s. \<not> (name \<noteq> [] \<and> \<not> contains (vs_Name s) name))) [] b)
       (\<lambda>items. Inr (items, length items))"

definition VaultSecretDelete :: "('b, 'raw, vault_secret) bolt \<Rightarrow> string \<Rightarrow> 'b \<Rightarrow> (dao_error + unit) \<times> 'b" where
  "VaultSecretDelete db key b = Dao_delete db key b"

definition BindingGet :: "('b, 'raw, secret_binding) bolt \<Rightarrow> string \<Rightarrow> 'b \<Rightarrow> dao_error + secret_binding option" where
  "BindingGet db key b = Dao_get_opt db key b"

definition BindingGetByStack :: "('b, 'raw, secret_binding) bolt \<Rightarrow> string \<Rightarrow> 'b \<Rightarrow> dao_error + secret_binding list" where
  "BindingGetByStack db stackID b = Dao_each db (collect db (\<lambda>x. sb_StackID x = stackID)) [] b"

definition BindingGetByVaultSecret :: "('b, 'raw, secret_binding) bolt \<Rightarrow> string \<Rightarrow> 'b \<Rightarrow> dao_error + secret_binding list" where
  "BindingGetByVaultSecret db secretID b = Dao_each db (collect db (\<lambda>x. sb_VaultSecretID x = secretID)) [] b"

definition BindingGetAll :: "('b, 'raw, secret_binding) bolt \<Rightarrow> 'b \<Rightarrow> dao_error + secret_binding list" where
  "BindingGetAll db b = all_of db b"

definition BindingUpsert :: "('b, 'raw, secret_binding) bolt \<Rightarrow> secret_binding \<Rightarrow> 'b \<Rightarrow> (dao_error + unit) \<times> 'b" where
  "BindingUpsert db x b = Dao_replace db (sb_ID x) x b"

definition BindingDelete :: "('b, 'raw, secret_binding) bolt \<Rightarrow> string \<Rightarrow> 'b \<Rightarrow> (dao_error + unit) \<times> 'b" where
  "BindingDelete db key b = Dao_delete db key b"

fun delete_keys :: "('b, 'raw, 'v) bolt \<Rightarrow> string list \<Rightarrow> 'b \<Rightarrow> (dao_error + unit) \<times> 'b" where
  "delete_keys db [] b = (Inr (), b)"
| "delete_keys db (key # keys) b =
     (case Dao_delete db key b of (Inl e, b') \<Rightarrow> (Inl e, b') | (Inr _, b') \<Rightarrow> delete_keys db keys b')"

definition BindingDeleteByStack :: "('b, 'raw, secret_binding) bolt \<Rightarrow> string \<Rightarrow> 'b \<Rightarrow> (dao_error + unit) \<times> 'b" where
  "BindingDeleteByStack db stackID b =
     (case BindingGetByStack db stackID b of
        Inl e \<Rightarrow> (Inl e, b) | Inr items \<Rightarrow> delete_keys db (map sb_ID items) b)"

section \<open>Backups and their schedules\<close>

definition BackupCreate :: "('b, 'raw, backup) bolt \<Rightarrow> backup \<Rightarrow> 'b \<Rightarrow> (dao_error + unit) \<times> 'b" where
  "BackupCreate db r b = Dao_replace db (bk_ID r) r b"

definition BackupUpdate :: "('b, 'raw, backup) bolt \<Rightarrow> backup \<Rightarrow> 'b \<Rightarrow> (dao_error + unit) \<times> 'b" where
  "BackupUpdate db r b = Dao_replace db (bk_ID r) r b"

definition BackupGet :: "('b, 'raw, backup) bolt \<Rightarrow> string \<Rightarrow> 'b \<Rightarrow> dao_error + backup option" where
  "BackupGet db key b = Dao_get_opt db key b"

definition BackupGetAll :: "('b, 'raw, backup) bolt \<Rightarrow> 'b \<Rightarrow> dao_error + backup list" where
  "BackupGetAll db b = map_sum id (newest_first bk_CreatedAt) (all_of db b)"

definition BackupGetBySource :: "('b, 'raw, backup) bolt \<Rightarrow> string \<Rightarrow> 'b \<Rightarrow> dao_error + backup list" where
  "BackupGetBySource db source b =
     map_sum id (newest_first bk_CreatedAt) (Dao_each db (collect db (\<lambda>r. bk_Source r = source)) [] b)"

definition BackupDelete :: "('b, 'raw, backup) bolt \<Rightarrow> string \<Rightarrow> 'b \<Rightarrow> (dao_error + unit) \<times> 'b" where
  "BackupDelete db key b = Dao_delete db key b"

definition BackupScheduleGet :: "('b, 'raw, backup_schedule) bolt \<Rightarrow> string \<Rightarrow> 'b \<Rightarrow> dao_error + backup_schedule option" where
  "BackupScheduleGet db key b = Dao_get_opt db key b"

definition BackupScheduleGetAll :: "('b, 'raw, backup_schedule) bolt \<Rightarrow> 'b \<Rightarrow> dao_error + backup_schedule list" where
  "BackupScheduleGetAll db b = all_of db b"

definition BackupScheduleUpsert :: "('b, 'raw, backup_schedule) bolt \<Rightarrow> backup_schedule \<Rightarrow> 'b \<Rightarrow> (dao_error + unit) \<times> 'b" where
  "BackupScheduleUpsert db s b = Dao_replace db (sc_ID s) s b"

definition BackupScheduleDelete :: "('b, 'raw, backup_schedule) bolt \<Rightarrow> string \<Rightarrow> 'b \<Rightarrow> (dao_error + unit) \<times> 'b" where
  "BackupScheduleDelete db key b = Dao_delete db key b"

definition BackupScheduleTouch :: "('b, 'raw, backup_schedule) bolt \<Rightarrow> string \<Rightarrow> int \<Rightarrow> 'b \<Rightarrow> (dao_error + unit) \<times> 'b" where
  "BackupScheduleTouch db key lastRunAt b =
     Dao_update db key (\<lambda>old. old\<lparr>sc_LastRunAt := Some lastRunAt, sc_UpdatedAt := lastRunAt\<rparr>) b"

text \<open>The archive operations of dao/bolt/backup.go: this database keeps no archives.\<close>

definition errDBStorageNotSupported :: dao_error where
  "errDBStorageNotSupported =
     DaoError (''backup storage mode 'db' is not supported with BoltDB '' @ [CHR 0xE2, CHR 0x80, CHR 0x94]
       @ '' use 'fs' or 'vault'' @ [CHR 0x27])"

definition BackupArchiveWrite :: "string \<Rightarrow> string \<Rightarrow> 's \<Rightarrow> (dao_error + unit) \<times> 's" where
  "BackupArchiveWrite key data s = (Inl errDBStorageNotSupported, s)"

definition BackupArchiveRead :: "string \<Rightarrow> 's \<Rightarrow> (dao_error + string) \<times> 's" where
  "BackupArchiveRead key s = (Inl errDBStorageNotSupported, s)"

definition BackupArchiveDelete :: "string \<Rightarrow> 's \<Rightarrow> (dao_error + unit) \<times> 's" where
  "BackupArchiveDelete key s = (Inl errDBStorageNotSupported, s)"

end
