(* ===== verification/BackupDocument.thy ===== *)
theory BackupDocument
  imports Entities
begin

text \<open>
  The plaintext of a backup archive, biz/backup.go: the document with one list per component, and
  the projections of users and hosts that it stores.

  An element \<open>null\<close> of a list in an uploaded document is not represented.
\<close>

section \<open>The document\<close>

record user_export =
  ue_ID :: string
  ue_Name :: string
  ue_LoginName :: string
  ue_Password :: string
  ue_Salt :: string
  ue_Email :: string
  ue_Admin :: bool
  ue_Type :: string
  ue_Status :: int
  ue_Roles :: "string list"
  ue_Tokens :: options
  ue_CreatedAt :: int
  ue_UpdatedAt :: int
  ue_CreatedBy :: operator
  ue_UpdatedBy :: operator

record host_export =
  he_ID :: string
  he_Name :: string
  he_Endpoint :: string
  he_AuthMethod :: string
  he_TLSCACert :: string
  he_TLSCert :: string
  he_TLSKey :: string
  he_SSHUser :: string
  he_SSHKey :: string
  he_Status :: string
  he_Error :: string
  he_EngineVer :: string
  he_OS :: string
  he_Arch :: string
  he_CPUs :: int
  he_Memory :: int
  he_CreatedAt :: int
  he_UpdatedAt :: int
  he_CreatedBy :: operator
  he_UpdatedBy :: operator

record backup_document =
  doc_Version :: string
  doc_ExportedAt :: int
  doc_SwirlVersion :: string
  doc_Settings :: "setting list"
  doc_Roles :: "dao_role list"
  doc_Users :: "user_export list"
  doc_Registries :: "registry list"
  doc_Stacks :: "dao_stack list"
  doc_ComposeStacks :: "compose_stack list"
  doc_Hosts :: "host_export list"
  doc_Charts :: "chart list"
  doc_VaultSecrets :: "vault_secret list"
  doc_Bindings :: "secret_binding list"
  doc_Events :: "dao_event list"

section \<open>Projections\<close>

definition toUserExport :: "dao_user \<Rightarrow> user_export" where
  "toUserExport u =
     \<lparr>ue_ID = us_ID u, ue_Name = us_Name u, ue_LoginName = us_LoginName u, ue_Password = us_Password u,
      ue_Salt = us_Salt u, ue_Email = us_Email u, ue_Admin = us_Admin u, ue_Type = us_Type u,
      ue_Status = us_Status u, ue_Roles = us_Roles u, ue_Tokens = us_Tokens u, ue_CreatedAt = us_CreatedAt u,
      ue_UpdatedAt = us_UpdatedAt u, ue_CreatedBy = us_CreatedBy u, ue_UpdatedBy = us_UpdatedBy u\<rparr>"

definition fromUserExport :: "user_export \<Rightarrow> dao_user" where
  "fromUserExport e =
     \<lparr>us_ID = ue_ID e, us_Name = ue_Name e, us_LoginName = ue_LoginName e, us_Password = ue_Password e,
      us_Salt = ue_Salt e, us_Email = ue_Email e, us_Admin = ue_Admin e, us_Type = ue_Type e,
      us_Status = ue_Status e, us_Roles = ue_Roles e, us_Tokens = ue_Tokens e, us_CreatedAt = ue_CreatedAt e,
      us_UpdatedAt = ue_UpdatedAt e, us_CreatedBy = ue_CreatedBy e, us_UpdatedBy = ue_UpdatedBy e\<rparr>"

definition toHostExport :: "dao_host \<Rightarrow> host_export" where
  "toHostExport h =
     \<lparr>he_ID = ho_ID h, he_Name = ho_Name h, he_Endpoint = ho_Endpoint h, he_AuthMethod = ho_AuthMethod h,
      he_TLSCACert = ho_TLSCACert h, he_TLSCert = ho_TLSCert h, he_TLSKey = ho_TLSKey h,
      he_SSHUser = ho_SSHUser h, he_SSHKey = ho_SSHKey h, he_Status = ho_Status h, he_Error = ho_Error h,
      he_EngineVer = ho_EngineVer h, he_OS = ho_OS h, he_Arch = ho_Arch h, he_CPUs = ho_CPUs h,
      he_Memory = ho_Memory h, he_CreatedAt = ho_CreatedAt h, he_UpdatedAt = ho_UpdatedAt h,
      he_CreatedBy = ho_CreatedBy h, he_UpdatedBy = ho_UpdatedBy h\<rparr>"

text \<open>The fields that the projection has no room for get their zero values.\<close>

definition fromHostExport :: "host_export \<Rightarrow> dao_host" where
  "fromHostExport e =
     \<lparr>ho_ID = he_ID e, ho_Name = he_Name e, ho_Endpoint = he_Endpoint e, ho_AuthMethod = he_AuthMethod e,
      ho_TLSCACert = he_TLSCACert e, ho_TLSCert = he_TLSCert e, ho_TLSKey = he_TLSKey e,
      ho_SSHUser = he_SSHUser e, ho_SSHKey = he_SSHKey e, ho_Status = he_Status e, ho_Error = he_Error e,
      ho_Color = [], ho_Type = [], ho_SwirlURL = [], ho_SwirlToken = [], ho_TokenExpiresAt = 0,
      ho_TokenAutoRefresh = False, ho_Immutable = False,
      ho_EngineVer = he_EngineVer e, ho_OS = he_OS e, ho_Arch = he_Arch e, ho_CPUs = he_CPUs e,
      ho_Memory = he_Memory e, ho_CreatedAt = he_CreatedAt e, ho_UpdatedAt = he_UpdatedAt e,
      ho_CreatedBy = he_CreatedBy e, ho_UpdatedBy = he_UpdatedBy e, ho_AddonConfigExtract = []\<rparr>"

lemma fromUserExport_toUserExport [simp]: "fromUserExport (toUserExport u) = u"
  by (simp add: fromUserExport_def toUserExport_def)

lemma fromHostExport_toHostExport:
  "fromHostExport (toHostExport h) =
   h\<lparr>ho_Color := [], ho_Type := [], ho_SwirlURL := [], ho_SwirlToken := [], ho_TokenExpiresAt := 0,
     ho_TokenAutoRefresh := False, ho_Immutable := False, ho_AddonConfigExtract := []\<rparr>"
  by (simp add: fromHostExport_def toHostExport_def)

lemma export_keys [simp]:
  "us_ID (fromUserExport e) = ue_ID e" "ho_ID (fromHostExport x) = he_ID x"
  "ue_ID (toUserExport u) = us_ID u" "he_ID (toHostExport h) = ho_ID h"
  by (simp_all add: fromUserExport_def fromHostExport_def toUserExport_def toHostExport_def)

section \<open>Components\<close>

definition ComponentSettings :: string where "ComponentSettings = ''settings''"
definition ComponentRoles :: string where "ComponentRoles = ''roles''"
definition ComponentUsers :: string where "ComponentUsers = ''users''"
definition ComponentRegistries :: string where "ComponentRegistries = ''registries''"
definition ComponentStacks :: string where "ComponentStacks = ''stacks''"
definition ComponentComposeStacks :: string where "ComponentComposeStacks = ''composeStacks''"
definition ComponentHosts :: string where "ComponentHosts = ''hosts''"
definition ComponentCharts :: string where "ComponentCharts = ''charts''"
definition ComponentEvents :: string where "ComponentEvents = ''events''"
definition ComponentVaultSecrets :: string where "ComponentVaultSecrets = ''vaultSecrets''"
definition ComponentBindings :: string where "ComponentBindings = ''composeStackSecretBindings''"

lemmas component_names = ComponentSettings_def ComponentRoles_def ComponentUsers_def ComponentRegistries_def
  ComponentStacks_def ComponentComposeStacks_def ComponentHosts_def ComponentCharts_def ComponentEvents_def
  ComponentVaultSecrets_def ComponentBindings_def

definition AllBackupComponents :: "string list" where
  "AllBackupComponents =
     [ComponentSettings, ComponentRoles, ComponentUsers, ComponentRegistries, ComponentStacks,
      ComponentComposeStacks, ComponentHosts, ComponentCharts, ComponentVaultSecrets, ComponentBindings,
      ComponentEvents]"

definition statsFromDocument :: "backup_document \<Rightarrow> (string \<times> nat) list" where
  "statsFromDocument doc =
     [(ComponentSettings, length (doc_Settings doc)), (ComponentRoles, length (doc_Roles doc)),
      (ComponentUsers, length (doc_Users doc)), (ComponentRegistries, length (doc_Registries doc)),
      (ComponentStacks, length (doc_Stacks doc)), (ComponentComposeStacks, length (doc_ComposeStacks doc)),
      (ComponentHosts, length (doc_Hosts doc)), (ComponentCharts, length (doc_Charts doc)),
      (ComponentVaultSecrets, length (doc_VaultSecrets doc)), (ComponentBindings, length (doc_Bindings doc)),
      (ComponentEvents, length (doc_Events doc))]"

end
