(* ===== verification/BackupCrypto.thy ===== *)
theory BackupCrypto
  imports BackupDocument SelfDeployFiles Paths
begin

text \<open>
  The keys and the two encrypted formats of the backup archives, biz/backup_crypto.go, and the
  state that the backup operations thread.

  The record \<open>backup_state\<close> has the database as a map from bucket names to buckets, the files by
  path, the cache of the passphrase, the cache of the key statuses and the live settings.  \<open>bs_world\<close> is everything
  else that a call can read or change: the clock, the source of random bytes, the Vault server.
  scrypt, AES-GCM, HMAC and SHA-256 are fields of the environment, as are JSON with gzip; keys are byte
  strings.  The mutexes are not modelled: the operations here run one after the other.
\<close>

section \<open>The environment and the state\<close>

datatype backup_error =
    ErrMissingKey
  | ErrShortPassphrase
  | ErrInvalidFormat
  | ErrDecrypt
  | ErrBackupNotFound
  | BackupDao dao_error
  | BackupError go_error
  | Wrapped go_error backup_error
  | BackupPanic

record ('b, 'raw) swirl_dao =
  dao_setting :: "('b, 'raw, setting) bolt"
  dao_role :: "('b, 'raw, dao_role) bolt"
  dao_user :: "('b, 'raw, dao_user) bolt"
  dao_registry :: "('b, 'raw, registry) bolt"
  dao_stack :: "('b, 'raw, dao_stack) bolt"
  dao_compose_stack :: "('b, 'raw, compose_stack) bolt"
  dao_host :: "('b, 'raw, dao_host) bolt"
  dao_chart :: "('b, 'raw, chart) bolt"
  dao_vault_secret :: "('b, 'raw, vault_secret) bolt"
  dao_binding :: "('b, 'raw, secret_binding) bolt"
  dao_event :: "('b, 'raw, dao_event) bolt"
  dao_backup :: "('b, 'raw, backup) bolt"
  dao_schedule :: "('b, 'raw, backup_schedule) bolt"

text \<open>What the archive storage reads of the live settings.\<close>

record backup_settings =
  set_StorageMode :: string
  set_VaultPrefix :: string
  set_KVPrefix :: string

text \<open>The Vault client (vault/client.go) as the backups use it, and the archive collection of the DAO.\<close>

datatype vault_value = VaultString string | VaultOther

record 'w vault_client =
  vc_IsEnabled :: "'w \<Rightarrow> bool"
  vc_WriteKVv2 :: "string \<Rightarrow> (string \<times> vault_value) list \<Rightarrow> 'w \<Rightarrow> (go_error + unit) \<times> 'w"
  vc_ReadKVv2 :: "string \<Rightarrow> 'w \<Rightarrow> (go_error + (string \<times> vault_value) list) \<times> 'w"
  vc_DeleteKVv2 :: "string \<Rightarrow> 'w \<Rightarrow> (go_error + unit) \<times> 'w"
  vc_ReadMetadataSummary :: "string \<Rightarrow> 'w \<Rightarrow> (go_error + bool) \<times> 'w"

record 'w archive_dao =
  ad_Write :: "string \<Rightarrow> string \<Rightarrow> 'w \<Rightarrow> (dao_error + unit) \<times> 'w"
  ad_Read :: "string \<Rightarrow> 'w \<Rightarrow> (dao_error + string) \<times> 'w"
  ad_Delete :: "string \<Rightarrow> 'w \<Rightarrow> (dao_error + unit) \<times> 'w"

type_synonym 'w provider = "'w \<Rightarrow> (go_error + string \<times> string) \<times> 'w"

record ('b, 'w) backup_state =
  bs_db :: "string \<Rightarrow> 'b"
  bs_files :: "string \<rightharpoonup> string"
  bs_provider :: "'w provider option"
  bs_keyCache :: string
  bs_keyCacheExpires :: "int option"
  bs_statusCache :: "string \<rightharpoonup> string"
  bs_statusFP :: string
  bs_settings :: "backup_settings option"
  bs_world :: 'w

type_synonym ('b, 'w, 'a) bprog = "(('b, 'w) backup_state, 'a) state"

type_synonym ('b, 'w, 'a) fallible = "(('b, 'w) backup_state, backup_error + 'a) state"

record ('b, 'raw, 'w) backup_env =
  be_dao :: "('b, 'raw) swirl_dao"
  be_getenv :: "string \<Rightarrow> string"
  be_now :: "'w \<Rightarrow> int \<times> 'w"
  be_random :: "nat \<Rightarrow> 'w \<Rightarrow> (go_error + string) \<times> 'w"
  be_newId :: "'w \<Rightarrow> string \<times> 'w"
  be_newObjectID :: "'w \<Rightarrow> string \<times> 'w"
  be_scrypt :: "string \<Rightarrow> string \<Rightarrow> go_error + string"
  be_Seal :: "string \<Rightarrow> string \<Rightarrow> string \<Rightarrow> string"
  be_Open :: "string \<Rightarrow> string \<Rightarrow> string \<Rightarrow> go_error + string"
  be_hmac :: "string \<Rightarrow> string \<Rightarrow> string"
  be_sha256 :: "string \<Rightarrow> string"
  be_json :: "backup_document \<Rightarrow> go_error + string"
  be_unjson :: "string \<Rightarrow> go_error + backup_document"
  be_gzip :: "string \<Rightarrow> string"
  be_gunzip :: "string \<Rightarrow> go_error + string"
  be_format :: "int \<Rightarrow> string"
  be_version :: string
  be_io :: "io_op \<Rightarrow> 'w \<Rightarrow> fs_error option \<times> 'w"
  be_temp :: "string \<Rightarrow> 'w \<Rightarrow> string \<times> 'w"
  be_vault :: "go_error + 'w vault_client"
  be_archives :: "'w archive_dao"
  be_rfc3339 :: "int \<Rightarrow> string"

definition peek :: "(('b, 'w) backup_state \<Rightarrow> 'a) \<Rightarrow> ('b, 'w, 'a) bprog" where
  "peek f = State (\<lambda>s. (f s, s))"

definition poke :: "(('b, 'w) backup_state \<Rightarrow> ('b, 'w) backup_state) \<Rightarrow> ('b, 'w, unit) bprog" where
  "poke f = State (\<lambda>s. ((), f s))"

definition outside :: "('w \<Rightarrow> 'a \<times> 'w) \<Rightarrow> ('b, 'w, 'a) bprog" where
  "outside f = State (\<lambda>s. case f (bs_world s) of (x, w) \<Rightarrow> (x, s\<lparr>bs_world := w\<rparr>))"

definition put_bucket :: "string \<Rightarrow> 'b \<Rightarrow> ('b, 'w) backup_state \<Rightarrow> ('b, 'w) backup_state" where
  "put_bucket name b s = s\<lparr>bs_db := (bs_db s)(name := b)\<rparr>"

definition on_bucket :: "string \<Rightarrow> ('b \<Rightarrow> 'a \<times> 'b) \<Rightarrow> ('b, 'w, 'a) bprog" where
  "on_bucket name f =
     State (\<lambda>s. case f (bs_db s name) of (x, b) \<Rightarrow> (x, put_bucket name b s))"

definition reading :: "string \<Rightarrow> ('b \<Rightarrow> dao_error + 'a) \<Rightarrow> ('b, 'w, 'a) fallible" where
  "reading name f = peek (\<lambda>s. map_sum BackupDao id (f (bs_db s name)))"

definition writing :: "string \<Rightarrow> ('b \<Rightarrow> (dao_error + unit) \<times> 'b) \<Rightarrow> ('b, 'w, unit) fallible" where
  "writing name f = on_bucket name (\<lambda>b. apfst (map_sum BackupDao id) (f b))"

lemma run_primitives [simp]:
  "run_state (peek f) s = (f s, s)" "run_state (poke g) s = ((), g s)"
  by (simp_all add: peek_def poke_def)

section \<open>The passphrase\<close>

definition backupKeyEnv :: string where "backupKeyEnv = ''SWIRL_BACKUP_KEY''"
definition backupKeyMinLen :: nat where "backupKeyMinLen = 16"
definition backupSaltAtRest :: string where "backupSaltAtRest = ''swirl-backup-at-rest''"
definition nonceLen :: nat where "nonceLen = 12"
definition portableSaltLen :: nat where "portableSaltLen = 16"
definition magicAtRest :: string where "magicAtRest = ''SWBR''"
definition magicPortable :: string where "magicPortable = ''SWBP''"

definition SetBackupKeyProvider :: "'w provider option \<Rightarrow> ('b, 'w, unit) bprog" where
  "SetBackupKeyProvider p = poke (\<lambda>s. s\<lparr>bs_provider := p, bs_keyCache := [], bs_keyCacheExpires := None\<rparr>)"

definition deriveKey :: "('b, 'raw, 'w) backup_env \<Rightarrow> string \<Rightarrow> string \<Rightarrow> backup_error + string" where
  "deriveKey E passphrase salt = map_sum BackupError id (be_scrypt E passphrase salt)"

definition remember_passphrase :: "string \<Rightarrow> int \<Rightarrow> ('b, 'w) backup_state \<Rightarrow> ('b, 'w) backup_state" where
  "remember_passphrase pw t s = s\<lparr>bs_keyCache := pw, bs_keyCacheExpires := Some (t + 5 * minute)\<rparr>"

definition fetchFromProvider :: "('b, 'raw, 'w) backup_env \<Rightarrow> ('b, 'w, string) fallible" where
  "fetchFromProvider E = do {
     p \<leftarrow> peek bs_provider;
     case p of
       None \<Rightarrow> State_Monad.return (Inl ErrMissingKey)
     | Some lookup \<Rightarrow> do {
         r \<leftarrow> outside lookup;
         case r of
           Inl e \<Rightarrow> State_Monad.return (Inl (Wrapped ''backup key provider'' (BackupError e)))
         | Inr (pw, source) \<Rightarrow> do {
             t \<leftarrow> outside (be_now E);
             _ \<leftarrow> poke (remember_passphrase pw t);
             State_Monad.return (Inr pw)
           }
       }
   }"

text \<open>Is the clock before the expiry of the cache?  The clock is read only when there is one.\<close>

definition before_expiry :: "('b, 'raw, 'w) backup_env \<Rightarrow> bool \<Rightarrow> int option \<Rightarrow> ('b, 'w, bool) bprog" where
  "before_expiry E if_zero expires =
     (case expires of
        None \<Rightarrow> State_Monad.return if_zero
      | Some t \<Rightarrow> do { n \<leftarrow> outside (be_now E); State_Monad.return (n < t) })"

definition provider_status :: "('b, 'raw, 'w) backup_env \<Rightarrow> ('b, 'w, bool \<times> string \<times> backup_error option) bprog" where
  "provider_status E = do {
     r \<leftarrow> fetchFromProvider E;
     State_Monad.return (case r of
       Inl e \<Rightarrow> (False, [], Some e)
     | Inr pw \<Rightarrow> if length pw \<ge> backupKeyMinLen then (True, ''vault'', None)
                else (False, ''vault'', Some ErrShortPassphrase))
   }"

definition backupKeyStatus :: "('b, 'raw, 'w) backup_env \<Rightarrow> ('b, 'w, bool \<times> string \<times> backup_error option) bprog" where
  "backupKeyStatus E =
     (if length (be_getenv E backupKeyEnv) \<ge> backupKeyMinLen then State_Monad.return (True, ''env'', None)
      else do {
        pw \<leftarrow> peek bs_keyCache;
        expires \<leftarrow> peek bs_keyCacheExpires;
        if pw = [] then provider_status E
        else do {
          fresh \<leftarrow> before_expiry E True expires;
          if fresh then State_Monad.return (length pw \<ge> backupKeyMinLen, ''cache'', None)
          else provider_status E
        }
      })"

definition backupKeyConfigured :: "('b, 'raw, 'w) backup_env \<Rightarrow> ('b, 'w, bool) bprog" where
  "backupKeyConfigured E = do { r \<leftarrow> backupKeyStatus E; State_Monad.return (fst r) }"

definition provider_key :: "('b, 'raw, 'w) backup_env \<Rightarrow> ('b, 'w, string) fallible" where
  "provider_key E = do {
     r \<leftarrow> fetchFromProvider E;
     State_Monad.return (or_return r (\<lambda>pw.
       if length pw < backupKeyMinLen then Inl ErrShortPassphrase
       else deriveKey E pw backupSaltAtRest))
   }"

definition masterKey :: "('b, 'raw, 'w) backup_env \<Rightarrow> ('b, 'w, string) fallible" where
  "masterKey E =
     (if length (be_getenv E backupKeyEnv) \<ge> backupKeyMinLen
      then State_Monad.return (deriveKey E (be_getenv E backupKeyEnv) backupSaltAtRest)
      else do {
        cached \<leftarrow> peek bs_keyCache;
        expires \<leftarrow> peek bs_keyCacheExpires;
        fresh \<leftarrow> before_expiry E False expires;
        if cached \<noteq> [] \<and> fresh then State_Monad.return (deriveKey E cached backupSaltAtRest)
        else provider_key E
      })"

definition deriveKeyFromPassphrase :: "('b, 'raw, 'w) backup_env \<Rightarrow> string \<Rightarrow> backup_error + string" where
  "deriveKeyFromPassphrase E passphrase =
     (if passphrase = [] then Inl (BackupError ''passphrase is required'')
      else deriveKey E passphrase backupSaltAtRest)"

definition hex_string :: "string \<Rightarrow> string" where
  "hex_string s = concat (map (\<lambda>c. [hex_digit (of_char c div 16), hex_digit (of_char c mod 16)]) s)"

definition keyFingerprint :: "('b, 'raw, 'w) backup_env \<Rightarrow> string \<Rightarrow> string" where
  "keyFingerprint E key = hex_string (take 16 (be_hmac E key ''swirl-backup-key-fp/v1''))"

definition currentKeyFingerprint :: "('b, 'raw, 'w) backup_env \<Rightarrow> ('b, 'w, string) bprog" where
  "currentKeyFingerprint E = do {
     r \<leftarrow> masterKey E;
     State_Monad.return (case r of Inl _ \<Rightarrow> [] | Inr key \<Rightarrow> keyFingerprint E key)
   }"

section \<open>The two formats\<close>

text \<open>\<open>aes.NewCipher\<close> accepts keys of 16, 24 and 32 bytes.\<close>

definition aesGCM :: "string \<Rightarrow> backup_error + string" where
  "aesGCM key = (if length key \<in> {16, 24, 32} then Inr key else Inl (BackupError ''crypto/aes: invalid key size''))"

definition random_bytes :: "('b, 'raw, 'w) backup_env \<Rightarrow> nat \<Rightarrow> ('b, 'w, string) fallible" where
  "random_bytes E n = do { r \<leftarrow> outside (be_random E n); State_Monad.return (map_sum BackupError id r) }"

definition encryptAtRest :: "('b, 'raw, 'w) backup_env \<Rightarrow> string \<Rightarrow> ('b, 'w, string) fallible" where
  "encryptAtRest E plaintext = do {
     r \<leftarrow> masterKey E;
     or_fail r (\<lambda>key. or_fail (aesGCM key) (\<lambda>aead. do {
       r \<leftarrow> random_bytes E nonceLen;
       or_fail r (\<lambda>nonce. State_Monad.return (Inr (magicAtRest @ nonce @ be_Seal E aead nonce plaintext)))
     }))
   }"

definition openAtRest :: "('b, 'raw, 'w) backup_env \<Rightarrow> string \<Rightarrow> string \<Rightarrow> backup_error + string" where
  "openAtRest E archive key =
     (if length archive < length magicAtRest + nonceLen \<or> take (length magicAtRest) archive \<noteq> magicAtRest
      then Inl ErrInvalidFormat
      else or_return (aesGCM key) (\<lambda>aead.
        let nonce = take nonceLen (drop (length magicAtRest) archive);
            ct = drop (length magicAtRest + nonceLen) archive
        in case be_Open E aead nonce ct of Inl _ \<Rightarrow> Inl ErrDecrypt | Inr pt \<Rightarrow> Inr pt))"

definition decryptAtRest :: "('b, 'raw, 'w) backup_env \<Rightarrow> string \<Rightarrow> ('b, 'w, string) fallible" where
  "decryptAtRest E archive = do {
     r \<leftarrow> masterKey E;
     State_Monad.return (or_return r (openAtRest E archive))
   }"

definition decryptAtRestWithKey :: "('b, 'raw, 'w) backup_env \<Rightarrow> string \<Rightarrow> string \<Rightarrow> backup_error + string" where
  "decryptAtRestWithKey E archive key = openAtRest E archive key"

definition encryptPortable :: "('b, 'raw, 'w) backup_env \<Rightarrow> string \<Rightarrow> string \<Rightarrow> ('b, 'w, string) fallible" where
  "encryptPortable E plaintext passphrase =
     (if passphrase = [] then State_Monad.return (Inl (BackupError ''passphrase is required for portable export''))
      else do {
        r \<leftarrow> random_bytes E portableSaltLen;
        or_fail r (\<lambda>salt. or_fail (deriveKey E passphrase salt) (\<lambda>key. or_fail (aesGCM key) (\<lambda>aead. do {
          r \<leftarrow> random_bytes E nonceLen;
          or_fail r (\<lambda>nonce. State_Monad.return
            (Inr (magicPortable @ salt @ nonce @ be_Seal E aead nonce plaintext)))
        })))
      })"

definition decryptPortable :: "('b, 'raw, 'w) backup_env \<Rightarrow> string \<Rightarrow> string \<Rightarrow> backup_error + string" where
  "decryptPortable E archive passphrase =
     (let head = length magicPortable in
      if length archive < head + portableSaltLen + nonceLen \<or> take head archive \<noteq> magicPortable
      then Inl ErrInvalidFormat
      else if passphrase = [] then Inl (BackupError ''passphrase is required for portable archive'')
      else
        let salt = take portableSaltLen (drop head archive);
            nonce = take nonceLen (drop (head + portableSaltLen) archive);
            ct = drop (head + portableSaltLen + nonceLen) archive
        in or_return (deriveKey E passphrase salt) (\<lambda>key. or_return (aesGCM key) (\<lambda>aead.
             case be_Open E aead nonce ct of Inl _ \<Rightarrow> Inl ErrDecrypt | Inr pt \<Rightarrow> Inr pt)))"

definition decryptAny :: "('b, 'raw, 'w) backup_env \<Rightarrow> string \<Rightarrow> string \<Rightarrow> ('b, 'w, string) fallible" where
  "decryptAny E archive passphrase =
     (if take (length magicAtRest) archive = magicAtRest then decryptAtRest E archive
      else if take (length magicPortable) archive = magicPortable
      then State_Monad.return (decryptPortable E archive passphrase)
      else State_Monad.return (Inl ErrInvalidFormat))"

end
