(* ===== verification/BackupStore.thy ===== *)
theory BackupStore
  imports BackupCrypto
begin

text \<open>
  Where the archives are kept, the storage part of biz/backup.go: files under the backup directory,
  entries of Vault, or the archive collection of the database, with the path of a record telling
  which.  Base64 is that of encoding/base64.
\<close>

section \<open>Base64\<close>

definition b64_alphabet :: string where
  "b64_alphabet = ''ABCDEFGHIJKLMNOPQRSTUVWXYZabcdefghijklmnopqrstuvwxyz0123456789+/''"

definition b64_char :: "nat \<Rightarrow> char" where
  "b64_char n = b64_alphabet ! n"

definition b64_val :: "char \<Rightarrow> nat option" where
  "b64_val c = map_of (zip b64_alphabet [0..<64]) c"

definition byte_val :: "char \<Rightarrow> nat" where "byte_val c = of_char c"

fun b64_encode :: "string \<Rightarrow> string" where
  "b64_encode [] = []"
| "b64_encode [a] =
     [b64_char (byte_val a div 4), b64_char (byte_val a mod 4 * 16), CHR ''='', CHR ''='']"
| "b64_encode [a, b] =
     [b64_char (byte_val a div 4), b64_char (byte_val a mod 4 * 16 + byte_val b div 16),
      b64_char (byte_val b mod 16 * 4), CHR ''='']"
| "b64_encode (a # b # c # rest) =
     b64_char (byte_val a div 4) # b64_char (byte_val a mod 4 * 16 + byte_val b div 16) #
     b64_char (byte_val b mod 16 * 4 + byte_val c div 64) # b64_char (byte_val c mod 64) # b64_encode rest"

text \<open>One group of four characters, the last of which may be padding; trailing bits are ignored.\<close>

definition b64_group :: "char \<Rightarrow> char \<Rightarrow> char \<Rightarrow> char \<Rightarrow> bool \<Rightarrow> string option" where
  "b64_group c1 c2 c3 c4 at_end =
     (case (b64_val c1, b64_val c2) of
        (Some p, Some q) \<Rightarrow>
          if c3 = CHR ''='' then (if c4 = CHR ''='' \<and> at_end then Some [char_of (p * 4 + q div 16)] else None)
          else (case b64_val c3 of
            None \<Rightarrow> None
          | Some r \<Rightarrow>
              if c4 = CHR ''='' then
                (if at_end then Some [char_of (p * 4 + q div 16), char_of (q mod 16 * 16 + r div 4)] else None)
              else (case b64_val c4 of
                None \<Rightarrow> None
              | Some t \<Rightarrow> Some [char_of (p * 4 + q div 16), char_of (q mod 16 * 16 + r div 4), char_of (r mod 4 * 64 + t)]))
      | _ \<Rightarrow> None)"

fun b64_groups :: "string \<Rightarrow> string option" where
  "b64_groups [] = Some []"
| "b64_groups (c1 # c2 # c3 # c4 # rest) =
     (case b64_group c1 c2 c3 c4 (rest = []) of
        None \<Rightarrow> None | Some bytes \<Rightarrow> map_option (\<lambda>more. bytes @ more) (b64_groups rest))"
| "b64_groups _ = None"

definition b64_decode :: "string \<Rightarrow> go_error + string" where
  "b64_decode s =
     (case b64_groups (filter (\<lambda>c. c \<noteq> CHR 0x0A \<and> c \<noteq> CHR 0x0D) s) of
        None \<Rightarrow> Inl ''illegal base64 data'' | Some bytes \<Rightarrow> Inr bytes)"

section \<open>Paths and settings\<close>

definition backupFileSuffix :: string where "backupFileSuffix = ''.swb''"
definition backupSchemaFile :: string where "backupSchemaFile = ''file://''"
definition backupSchemaVault :: string where "backupSchemaVault = ''vault:''"
definition backupSchemaDB :: string where "backupSchemaDB = ''db:''"

definition splitStoragePath :: "string \<Rightarrow> string \<times> string" where
  "splitStoragePath path =
     (if has_prefix path backupSchemaDB then (backupSchemaDB, trim_prefix path backupSchemaDB)
      else if has_prefix path backupSchemaVault then (backupSchemaVault, trim_prefix path backupSchemaVault)
      else if has_prefix path backupSchemaFile then (backupSchemaFile, trim_prefix path backupSchemaFile)
      else (backupSchemaFile, path))"

definition backupDir :: "('b, 'raw, 'w) backup_env \<Rightarrow> string" where
  "backupDir E =
     (if be_getenv E ''SWIRL_BACKUP_DIR'' \<noteq> [] then be_getenv E ''SWIRL_BACKUP_DIR'' else ''/data/swirl/backups'')"

definition backupStorageMode :: "backup_settings option \<Rightarrow> string \<times> string" where
  "backupStorageMode settings =
     (case settings of
        None \<Rightarrow> (''fs'', ''backups'')
      | Some s \<Rightarrow>
          let m = to_lower (TrimSpace (set_StorageMode s)); p = TrimSpace (set_VaultPrefix s)
          in (if m = [] then ''fs'' else m, if p = [] then ''backups'' else p))"

definition trim_set :: "char set \<Rightarrow> string \<Rightarrow> string" where
  "trim_set cs s = rev (dropWhile (\<lambda>c. c \<in> cs) (rev (dropWhile (\<lambda>c. c \<in> cs) s)))"

definition resolvePrefixed :: "backup_settings \<Rightarrow> string \<Rightarrow> string" where
  "resolvePrefixed s name =
     (let slashes = {CHR ''/'', CHR '' ''}; kv = trim_set slashes (set_KVPrefix s); name = trim_set slashes name
      in if kv = [] then name else kv @ ''/'' @ name)"

section \<open>Files\<close>

definition file_call :: "('b, 'raw, 'w) backup_env \<Rightarrow> io_op \<Rightarrow> ('b, 'w, fs_error option) bprog" where
  "file_call E q = outside (be_io E q)"

definition set_file :: "string \<Rightarrow> string option \<Rightarrow> ('b, 'w, unit) bprog" where
  "set_file path c = poke (\<lambda>s. s\<lparr>bs_files := (bs_files s)(path := c)\<rparr>)"

definition fs_error_of :: "fs_error \<Rightarrow> backup_error" where
  "fs_error_of e = BackupError (fs_text e)"

definition file_Read :: "('b, 'raw, 'w) backup_env \<Rightarrow> string \<Rightarrow> ('b, 'w, string) fallible" where
  "file_Read E path = do {
     f \<leftarrow> file_call E (ReadFile path);
     c \<leftarrow> peek (\<lambda>s. bs_files s path);
     State_Monad.return (case f of Some e \<Rightarrow> Inl (fs_error_of e)
       | None \<Rightarrow> (case c of None \<Rightarrow> Inl (fs_error_of ErrNotExist) | Some bytes \<Rightarrow> Inr bytes))
   }"

text \<open>\<open>os.Stat\<close>: does the file exist, or does the call fail?\<close>

definition file_Stat :: "('b, 'raw, 'w) backup_env \<Rightarrow> string \<Rightarrow> ('b, 'w, fs_error option) bprog" where
  "file_Stat E path = do {
     f \<leftarrow> file_call E (StatFile path);
     c \<leftarrow> peek (\<lambda>s. bs_files s path);
     State_Monad.return (case f of Some e \<Rightarrow> Some e | None \<Rightarrow> if c = None then Some ErrNotExist else None)
   }"

definition file_Remove :: "('b, 'raw, 'w) backup_env \<Rightarrow> string \<Rightarrow> ('b, 'w, fs_error option) bprog" where
  "file_Remove E path = do {
     f \<leftarrow> file_call E (RemoveFile path);
     c \<leftarrow> peek (\<lambda>s. bs_files s path);
     case f of
       Some e \<Rightarrow> State_Monad.return (Some e)
     | None \<Rightarrow>
         if c = None then State_Monad.return (Some ErrNotExist)
         else do { _ \<leftarrow> set_file path None; State_Monad.return None }
   }"

text \<open>A step on the temporary file; when it fails, the file is removed as far as possible.\<close>

definition on_temp :: "('b, 'raw, 'w) backup_env \<Rightarrow> io_op \<Rightarrow> string \<Rightarrow> ('b, 'w, unit) bprog \<Rightarrow> ('b, 'w, unit) fallible
    \<Rightarrow> ('b, 'w, unit) fallible" where
  "on_temp E q tmp act rest = do {
     f \<leftarrow> file_call E q;
     case f of
       Some e \<Rightarrow> do { _ \<leftarrow> file_Remove E tmp; State_Monad.return (Inl (fs_error_of e)) }
     | None \<Rightarrow> do { _ \<leftarrow> act; rest }
   }"

text \<open>The rename comes last, and a failed one leaves the temporary file.\<close>

definition file_Rename :: "('b, 'raw, 'w) backup_env \<Rightarrow> string \<Rightarrow> string \<Rightarrow> string \<Rightarrow> ('b, 'w, unit) fallible" where
  "file_Rename E tmp path bytes = do {
     f \<leftarrow> file_call E (Rename tmp path);
     case f of
       Some e \<Rightarrow> State_Monad.return (Inl (fs_error_of e))
     | None \<Rightarrow> do { _ \<leftarrow> set_file tmp None; _ \<leftarrow> set_file path (Some bytes); State_Monad.return (Inr ()) }
   }"

definition writeFileAtomic :: "('b, 'raw, 'w) backup_env \<Rightarrow> string \<Rightarrow> string \<Rightarrow> ('b, 'w, unit) fallible" where
  "writeFileAtomic E path bytes = do {
     f \<leftarrow> file_call E (CreateTemp (path_dir path));
     tmp \<leftarrow> outside (be_temp E (path_dir path));
     case f of
       Some e \<Rightarrow> State_Monad.return (Inl (fs_error_of e))
     | None \<Rightarrow> do {
         _ \<leftarrow> set_file tmp (Some []);
         on_temp E (WriteTemp tmp) tmp (set_file tmp (Some bytes))
           (on_temp E (SyncTemp tmp) tmp (State_Monad.return ())
             (on_temp E (CloseTemp tmp) tmp (State_Monad.return ())
               (on_temp E (ChmodTemp tmp) tmp (State_Monad.return ())
                 (file_Rename E tmp path bytes))))
       }
   }"

section \<open>The archive of a record\<close>

definition lookupVaultClient :: "('b, 'raw, 'w) backup_env \<Rightarrow> backup_error + 'w vault_client" where
  "lookupVaultClient E = map_sum BackupError id (be_vault E)"

definition archive_payload :: "('b, 'raw, 'w) backup_env \<Rightarrow> int \<Rightarrow> string \<Rightarrow> (string \<times> vault_value) list" where
  "archive_payload E t archive =
     [(''archive'', VaultString (b64_encode archive)), (''created_at'', VaultString (be_rfc3339 E t))]"

definition vault_write :: "('b, 'raw, 'w) backup_env \<Rightarrow> 'w vault_client \<Rightarrow> string \<Rightarrow> string \<Rightarrow> ('b, 'w, unit) fallible" where
  "vault_write E vc logical archive = do {
     t \<leftarrow> outside (be_now E);
     r \<leftarrow> outside (vc_WriteKVv2 vc logical (archive_payload E t archive));
     State_Monad.return (map_sum BackupError id r)
   }"

definition dao_call :: "('w \<Rightarrow> (dao_error + 'a) \<times> 'w) \<Rightarrow> ('b, 'w, 'a) fallible" where
  "dao_call f = do { r \<leftarrow> outside f; State_Monad.return (map_sum BackupDao id r) }"

definition writeArchive_db :: "('b, 'raw, 'w) backup_env \<Rightarrow> string \<Rightarrow> string \<Rightarrow> ('b, 'w, string) fallible" where
  "writeArchive_db E key archive = do {
     r \<leftarrow> dao_call (ad_Write (be_archives E) key archive);
     State_Monad.return (case r of Inl e \<Rightarrow> Inl (Wrapped ''db write'' e) | Inr _ \<Rightarrow> Inr (backupSchemaDB @ key))
   }"

definition writeArchive_vault :: "('b, 'raw, 'w) backup_env \<Rightarrow> string \<Rightarrow> string \<Rightarrow> string \<Rightarrow> ('b, 'w, string) fallible" where
  "writeArchive_vault E vaultPrefix key archive =
     (case lookupVaultClient E of
        Inl e \<Rightarrow> State_Monad.return (Inl (Wrapped ''vault client not available'' e))
      | Inr vc \<Rightarrow> do {
          on \<leftarrow> peek (\<lambda>s. vc_IsEnabled vc (bs_world s));
          settings \<leftarrow> peek bs_settings;
          if \<not> on then State_Monad.return (Inl (BackupError ''vault integration is not enabled''))
          else case settings of
            None \<Rightarrow> State_Monad.return (Inl (BackupError ''settings are not loaded''))
          | Some s \<Rightarrow> do {
              r \<leftarrow> vault_write E vc (resolvePrefixed s (vaultPrefix @ ''/'' @ key)) archive;
              State_Monad.return (case r of
                Inl e \<Rightarrow> Inl (Wrapped (''vault write '' @ resolvePrefixed s (vaultPrefix @ ''/'' @ key)) e)
              | Inr _ \<Rightarrow> Inr (backupSchemaVault @ resolvePrefixed s (vaultPrefix @ ''/'' @ key)))
            }
        })"

definition writeArchive_fs :: "('b, 'raw, 'w) backup_env \<Rightarrow> string \<Rightarrow> string \<Rightarrow> ('b, 'w, string) fallible" where
  "writeArchive_fs E key archive = do {
     f \<leftarrow> file_call E (MkdirAll (backupDir E));
     case f of
       Some e \<Rightarrow> State_Monad.return (Inl (Wrapped ''cannot create backup dir'' (fs_error_of e)))
     | None \<Rightarrow> do {
         r \<leftarrow> writeFileAtomic E (path_join [backupDir E, key @ backupFileSuffix]) archive;
         or_fail r (\<lambda>_. State_Monad.return (Inr (backupSchemaFile @ path_join [backupDir E, key @ backupFileSuffix])))
       }
   }"

definition writeArchive :: "('b, 'raw, 'w) backup_env \<Rightarrow> string \<Rightarrow> string \<Rightarrow> ('b, 'w, string) fallible" where
  "writeArchive E key archive = do {
     settings \<leftarrow> peek bs_settings;
     case backupStorageMode settings of (mode, vaultPrefix) \<Rightarrow>
       if mode = ''db'' then writeArchive_db E key archive
       else if mode = ''vault'' then writeArchive_vault E vaultPrefix key archive
       else writeArchive_fs E key archive
   }"

definition readArchiveFromVault :: "('b, 'raw, 'w) backup_env \<Rightarrow> string \<Rightarrow> ('b, 'w, string) fallible" where
  "readArchiveFromVault E logical =
     (case lookupVaultClient E of
        Inl e \<Rightarrow> State_Monad.return (Inl e)
      | Inr vc \<Rightarrow> do {
          r \<leftarrow> outside (vc_ReadKVv2 vc logical);
          State_Monad.return (case r of
            Inl e \<Rightarrow> Inl (BackupError e)
          | Inr entry \<Rightarrow>
              (case map_of entry ''archive'' of
                 Some (VaultString raw) \<Rightarrow>
                   if raw = [] then Inl (BackupError (''vault entry '' @ logical @ '' is missing the 'archive' field''))
                   else (case b64_decode raw of
                     Inl e \<Rightarrow> Inl (Wrapped ''decode vault archive payload'' (BackupError e))
                   | Inr bytes \<Rightarrow> Inr bytes)
               | _ \<Rightarrow> Inl (BackupError (''vault entry '' @ logical @ '' is missing the 'archive' field''))))
        })"

definition readArchive :: "('b, 'raw, 'w) backup_env \<Rightarrow> backup \<Rightarrow> ('b, 'w, string) fallible" where
  "readArchive E rec =
     (case splitStoragePath (bk_Path rec) of (schema, loc) \<Rightarrow>
        if schema = backupSchemaDB then dao_call (ad_Read (be_archives E) loc)
        else if schema = backupSchemaVault then readArchiveFromVault E loc
        else file_Read E loc)"

definition rewriteArchive :: "('b, 'raw, 'w) backup_env \<Rightarrow> backup \<Rightarrow> string \<Rightarrow> ('b, 'w, unit) fallible" where
  "rewriteArchive E rec archive =
     (case splitStoragePath (bk_Path rec) of (schema, loc) \<Rightarrow>
        if schema = backupSchemaDB then dao_call (ad_Write (be_archives E) loc archive)
        else if schema = backupSchemaVault then or_fail (lookupVaultClient E) (\<lambda>vc. vault_write E vc loc archive)
        else writeFileAtomic E loc archive)"

definition deleteArchiveByPath :: "('b, 'raw, 'w) backup_env \<Rightarrow> string \<Rightarrow> ('b, 'w, unit) fallible" where
  "deleteArchiveByPath E path =
     (case splitStoragePath path of (schema, loc) \<Rightarrow>
        if schema = backupSchemaDB then dao_call (ad_Delete (be_archives E) loc)
        else if schema = backupSchemaVault then or_fail (lookupVaultClient E) (\<lambda>vc. do {
          r \<leftarrow> outside (vc_DeleteKVv2 vc loc);
          State_Monad.return (map_sum BackupError id r)
        })
        else do {
          f \<leftarrow> file_Remove E loc;
          State_Monad.return (case f of
            None \<Rightarrow> Inr () | Some e \<Rightarrow> if e = ErrNotExist then Inr () else Inl (fs_error_of e))
        })"

text \<open>The boolean result of \<open>archiveMissing\<close>; both callers ignore its error.\<close>

definition archiveMissing :: "('b, 'raw, 'w) backup_env \<Rightarrow> backup \<Rightarrow> ('b, 'w, bool) bprog" where
  "archiveMissing E rec =
     (case splitStoragePath (bk_Path rec) of (schema, loc) \<Rightarrow>
        if schema = backupSchemaDB then do {
          r \<leftarrow> dao_call (ad_Read (be_archives E) loc);
          State_Monad.return (case r of Inl _ \<Rightarrow> True | Inr bytes \<Rightarrow> bytes = [])
        }
        else if schema = backupSchemaVault then
          (case lookupVaultClient E of
             Inl e \<Rightarrow> State_Monad.return False
           | Inr vc \<Rightarrow> do {
               r \<leftarrow> outside (vc_ReadMetadataSummary vc loc);
               State_Monad.return (case r of Inl _ \<Rightarrow> False | Inr exists \<Rightarrow> \<not> exists)
             })
        else do {
          f \<leftarrow> file_Stat E loc;
          State_Monad.return (f = Some ErrNotExist)
        })"

definition isDBStorageAvailable :: "('b, 'raw, 'w) backup_env \<Rightarrow> (dao_error \<Rightarrow> string) \<Rightarrow> ('b, 'w, bool) bprog" where
  "isDBStorageAvailable E err_text = do {
     r \<leftarrow> outside (ad_Write (be_archives E) ''__probe__'' []);
     case r of
       Inl e \<Rightarrow>
         if contains (err_text e) ''not supported'' then State_Monad.return False
         else do { _ \<leftarrow> outside (ad_Delete (be_archives E) ''__probe__''); State_Monad.return True }
     | Inr _ \<Rightarrow> do { _ \<leftarrow> outside (ad_Delete (be_archives E) ''__probe__''); State_Monad.return True }
   }"

end
