(* ===== verification/Backup.thy ===== *)
theory Backup
  imports BackupStore
begin

text \<open>
  The backups of biz/backup.go: the export of the database into a document and its import, the
  operations on the backup records with their key statuses, the recovery with an old passphrase,
  retention, the schedules, and the hourly tick of backup/backup.go.

  The per-backup lock of \<open>Delete\<close> and \<open>Recover\<close> is not modelled, as the operations run one after the
  other.  Log messages are dropped.  The key status of a record, which is not stored, is a second
  result.
\<close>

section \<open>Audit events\<close>

definition create_event :: "('b, 'raw, 'w) backup_env \<Rightarrow> string \<Rightarrow> string \<Rightarrow> options \<Rightarrow> web_user option
    \<Rightarrow> ('b, 'w, unit) bprog" where
  "create_event E type action args user = do {
     key \<leftarrow> outside (be_newObjectID E);
     t \<leftarrow> outside (be_now E);
     _ \<leftarrow> writing ''event'' (EventCreate (dao_event (be_dao E))
       \<lparr>ev_ID = key, ev_Type = type, ev_Action = action, ev_Args = Some args,
        ev_UserID = (case user of None \<Rightarrow> [] | Some u \<Rightarrow> u_id u),
        ev_Username = (case user of None \<Rightarrow> [] | Some u \<Rightarrow> u_name u), ev_OriginatingUser = [], ev_Time = t\<rparr>);
     State_Monad.return ()
   }"

definition CreateBackup :: "('b, 'raw, 'w) backup_env \<Rightarrow> string \<Rightarrow> string \<Rightarrow> string \<Rightarrow> web_user option \<Rightarrow> ('b, 'w, unit) bprog" where
  "CreateBackup E action key name user = create_event E ''Backup'' action [(''id'', key), (''name'', name)] user"

text \<open>The callers record an event only for a user.\<close>

definition audit :: "('b, 'raw, 'w) backup_env \<Rightarrow> string \<Rightarrow> string \<Rightarrow> string \<Rightarrow> web_user option \<Rightarrow> ('b, 'w, unit) bprog" where
  "audit E action key name user = (if user = None then State_Monad.return () else CreateBackup E action key name user)"

section \<open>Export\<close>

definition reading_page :: "string \<Rightarrow> ('b \<Rightarrow> 'v page_result) \<Rightarrow> ('b, 'w, 'v list) fallible" where
  "reading_page name f =
     peek (\<lambda>s. case f (bs_db s name) of None \<Rightarrow> Inl BackupPanic | Some r \<Rightarrow> map_sum BackupDao fst r)"

definition every_user :: user_search_args where
  "every_user = \<lparr>ua_Name = [], ua_LoginName = [], ua_Admin = False, ua_Status = -1, ua_PageIndex = 1, ua_PageSize = 10000\<rparr>"

definition every_chart :: chart_search_args where
  "every_chart = \<lparr>ca_Title = [], ca_Dashboard = [], ca_PageIndex = 1, ca_PageSize = 10000\<rparr>"

definition builtin_chart :: "chart \<Rightarrow> bool" where
  "builtin_chart c \<longleftrightarrow> has_prefix (ch_ID c) ''$''"

definition read_users :: "('b, 'raw, 'w) backup_env \<Rightarrow> ('b, 'w, dao_user list) fallible" where
  "read_users E = reading_page ''user'' (UserSearch (dao_user (be_dao E)) every_user)"

definition read_charts :: "('b, 'raw, 'w) backup_env \<Rightarrow> ('b, 'w, chart list) fallible" where
  "read_charts E = reading_page ''chart'' (ChartSearch (dao_chart (be_dao E)) every_chart)"

definition read_compose_stacks :: "('b, 'raw, 'w) backup_env \<Rightarrow> ('b, 'w, compose_stack list) fallible" where
  "read_compose_stacks E =
     reading ''compose_stack'' (\<lambda>b. map_sum id fst (ComposeStackSearch (dao_compose_stack (be_dao E)) [] [] b))"

definition exportDocument :: "('b, 'raw, 'w) backup_env \<Rightarrow> ('b, 'w, backup_document) fallible" where
  "exportDocument E = do {
     t \<leftarrow> outside (be_now E);
     r \<leftarrow> reading ''setting'' (SettingGetAll (dao_setting (be_dao E)));
     or_fail r (\<lambda>settings. do {
     r \<leftarrow> reading ''role'' (RoleSearch (dao_role (be_dao E)) []);
     or_fail r (\<lambda>roles. do {
     r \<leftarrow> read_users E;
     or_fail r (\<lambda>users. do {
     r \<leftarrow> reading ''registry'' (RegistryGetAll (dao_registry (be_dao E)));
     or_fail r (\<lambda>registries. do {
     r \<leftarrow> reading ''stack'' (StackGetAll (dao_stack (be_dao E)));
     or_fail r (\<lambda>stacks. do {
     r \<leftarrow> read_compose_stacks E;
     or_fail r (\<lambda>composeStacks. do {
     r \<leftarrow> reading ''host'' (HostGetAll (dao_host (be_dao E)));
     or_fail r (\<lambda>hosts. do {
     r \<leftarrow> read_charts E;
     or_fail r (\<lambda>charts. do {
     r \<leftarrow> reading ''vault_secret'' (VaultSecretGetAll (dao_vault_secret (be_dao E)));
     or_fail r (\<lambda>vaultSecrets. do {
     r \<leftarrow> reading ''compose_stack_secret_binding'' (BindingGetAll (dao_binding (be_dao E)));
     or_fail r (\<lambda>bindings. State_Monad.return (Inr
       \<lparr>doc_Version = ''1.0'', doc_ExportedAt = t, doc_SwirlVersion = be_version E, doc_Settings = settings,
        doc_Roles = roles, doc_Users = map toUserExport users, doc_Registries = registries, doc_Stacks = stacks,
        doc_ComposeStacks = composeStacks, doc_Hosts = map toHostExport hosts,
        doc_Charts = filter (\<lambda>c. \<not> builtin_chart c) charts, doc_VaultSecrets = vaultSecrets,
        doc_Bindings = bindings, doc_Events = []\<rparr>)) }) }) }) }) }) }) }) }) }) }"

section \<open>Import\<close>

definition delete_each :: "string \<Rightarrow> (string \<Rightarrow> 'b \<Rightarrow> (dao_error + unit) \<times> 'b) \<Rightarrow> string list \<Rightarrow> ('b, 'w, unit) fallible" where
  "delete_each name del keys = for_each (\<lambda>key. writing name (del key)) keys"

definition create_each :: "string \<Rightarrow> ('v \<Rightarrow> 'b \<Rightarrow> (dao_error + unit) \<times> 'b) \<Rightarrow> 'v list \<Rightarrow> ('b, 'w, nat) fallible" where
  "create_each name ins items = do {
     r \<leftarrow> for_each (\<lambda>v. writing name (ins v)) items;
     State_Monad.return (map_sum id (\<lambda>_. length items) r)
   }"

text \<open>Wipe a bucket and fill it with the records of the document.\<close>

definition replace_all :: "string \<Rightarrow> ('b, 'w, 'x list) fallible \<Rightarrow> ('x \<Rightarrow> string) \<Rightarrow> (string \<Rightarrow> 'b \<Rightarrow> (dao_error + unit) \<times> 'b)
    \<Rightarrow> ('v \<Rightarrow> 'b \<Rightarrow> (dao_error + unit) \<times> 'b) \<Rightarrow> 'v list \<Rightarrow> ('b, 'w, nat) fallible" where
  "replace_all name existing key del ins items = do {
     r \<leftarrow> existing;
     or_fail r (\<lambda>xs. do {
       r \<leftarrow> delete_each name del (map key xs);
       or_fail r (\<lambda>_. create_each name ins items)
     })
   }"

definition restore_charts :: "('b, 'raw, 'w) backup_env \<Rightarrow> chart list \<Rightarrow> ('b, 'w, nat) fallible" where
  "restore_charts E charts = do {
     r \<leftarrow> read_charts E;
     or_fail r (\<lambda>xs. do {
       r \<leftarrow> delete_each ''chart'' (ChartDelete (dao_chart (be_dao E))) (map ch_ID (filter (\<lambda>c. \<not> builtin_chart c) xs));
       or_fail r (\<lambda>_. create_each ''chart'' (ChartCreate (dao_chart (be_dao E))) charts)
     })
   }"

definition restoreComponent :: "('b, 'raw, 'w) backup_env \<Rightarrow> string \<Rightarrow> backup_document \<Rightarrow> ('b, 'w, nat) fallible" where
  "restoreComponent E cname doc =
     (let d = be_dao E in
      if cname = ComponentSettings then create_each ''setting'' (SettingUpdate (dao_setting d)) (doc_Settings doc)
      else if cname = ComponentRoles then
        replace_all ''role'' (reading ''role'' (RoleSearch (dao_role d) [])) ro_ID (RoleDelete (dao_role d))
          (RoleCreate (dao_role d)) (doc_Roles doc)
      else if cname = ComponentUsers then
        replace_all ''user'' (read_users E) us_ID (UserDelete (dao_user d))
          (\<lambda>u. UserCreate (dao_user d) (fromUserExport u)) (doc_Users doc)
      else if cname = ComponentRegistries then
        replace_all ''registry'' (reading ''registry'' (RegistryGetAll (dao_registry d))) rg_ID
          (RegistryDelete (dao_registry d)) (RegistryCreate (dao_registry d)) (doc_Registries doc)
      else if cname = ComponentStacks then
        replace_all ''stack'' (reading ''stack'' (StackGetAll (dao_stack d))) sk_Name (StackDelete (dao_stack d))
          (StackCreate (dao_stack d)) (doc_Stacks doc)
      else if cname = ComponentComposeStacks then
        replace_all ''compose_stack'' (read_compose_stacks E) cs_ID (ComposeStackDelete (dao_compose_stack d))
          (ComposeStackCreate (dao_compose_stack d)) (doc_ComposeStacks doc)
      else if cname = ComponentHosts then
        replace_all ''host'' (reading ''host'' (HostGetAll (dao_host d))) ho_ID (HostDelete (dao_host d))
          (\<lambda>h. HostCreate (dao_host d) (fromHostExport h)) (doc_Hosts doc)
      else if cname = ComponentCharts then restore_charts E (doc_Charts doc)
      else if cname = ComponentVaultSecrets then
        replace_all ''vault_secret'' (reading ''vault_secret'' (VaultSecretGetAll (dao_vault_secret d))) vs_ID
          (VaultSecretDelete (dao_vault_secret d)) (VaultSecretCreate (dao_vault_secret d)) (doc_VaultSecrets doc)
      else if cname = ComponentBindings then
        replace_all ''compose_stack_secret_binding'' (reading ''compose_stack_secret_binding'' (BindingGetAll (dao_binding d)))
          sb_ID (BindingDelete (dao_binding d)) (BindingUpsert (dao_binding d)) (doc_Bindings doc)
      else if cname = ComponentEvents then create_each ''event'' (EventCreate (dao_event d)) (doc_Events doc)
      else State_Monad.return (Inr 0))"

text \<open>The result of an import: the counts so far, and an error if there was one.\<close>

type_synonym counts = "(string \<times> nat) list"

fun import_loop :: "('b, 'raw, 'w) backup_env \<Rightarrow> backup_document \<Rightarrow> string list \<Rightarrow> counts
    \<Rightarrow> ('b, 'w, counts \<times> backup_error option) bprog" where
  "import_loop E doc [] acc = State_Monad.return (acc, None)"
| "import_loop E doc (cname # cnames) acc = do {
     r \<leftarrow> restoreComponent E cname doc;
     case r of
       Inl e \<Rightarrow> State_Monad.return (acc, Some (Wrapped (''restore '' @ cname) e))
     | Inr n \<Rightarrow> import_loop E doc cnames (acc @ [(cname, n)])
   }"

definition selected_components :: "string list \<Rightarrow> string list" where
  "selected_components components =
     filter (\<lambda>c. if components = [] then c \<noteq> ComponentEvents else c \<in> set components) AllBackupComponents"

definition importDocument :: "('b, 'raw, 'w) backup_env \<Rightarrow> backup_document \<Rightarrow> string list
    \<Rightarrow> ('b, 'w, counts \<times> backup_error option) bprog" where
  "importDocument E doc components =
     (if doc_Version doc \<noteq> ''1.0''
      then State_Monad.return ([], Some (BackupError (''unsupported backup version: '' @ doc_Version doc)))
      else import_loop E doc (selected_components components) [])"

definition marshalGzip :: "('b, 'raw, 'w) backup_env \<Rightarrow> backup_document \<Rightarrow> backup_error + string" where
  "marshalGzip E doc = map_sum BackupError (be_gzip E) (be_json E doc)"

definition unmarshalGzip :: "('b, 'raw, 'w) backup_env \<Rightarrow> string \<Rightarrow> backup_error + backup_document" where
  "unmarshalGzip E bytes =
     (case be_gunzip E bytes of
        Inl e \<Rightarrow> Inl (Wrapped ''decompress'' (BackupError e))
      | Inr raw \<Rightarrow> map_sum (\<lambda>e. Wrapped ''decode'' (BackupError e)) id (be_unjson E raw))"

section \<open>Key statuses\<close>

definition BackupKeyCompatible :: string where "BackupKeyCompatible = ''compatible''"
definition BackupKeyIncompatible :: string where "BackupKeyIncompatible = ''incompatible''"
definition BackupKeyUnverified :: string where "BackupKeyUnverified = ''unverified''"
definition BackupKeyMissingFile :: string where "BackupKeyMissingFile = ''missing''"
definition BackupKeyUnknown :: string where "BackupKeyUnknown = ''unknown''"

definition classifyByFingerprint :: "backup \<Rightarrow> string \<Rightarrow> string" where
  "classifyByFingerprint r currentFP =
     (if bk_KeyFingerprint r = [] then BackupKeyUnverified
      else if bk_KeyFingerprint r = currentFP then BackupKeyCompatible
      else BackupKeyIncompatible)"

definition record_status :: "string \<Rightarrow> string \<Rightarrow> (string \<rightharpoonup> string) \<Rightarrow> backup \<Rightarrow> string" where
  "record_status currentFP statusFP cache r =
     (if currentFP = [] then BackupKeyUnknown
      else if statusFP \<noteq> currentFP then classifyByFingerprint r currentFP
      else case cache (bk_ID r) of Some s \<Rightarrow> s | None \<Rightarrow> classifyByFingerprint r currentFP)"

definition decorateStatus :: "('b, 'raw, 'w) backup_env \<Rightarrow> backup list \<Rightarrow> ('b, 'w, (backup \<times> string) list) bprog" where
  "decorateStatus E records = do {
     currentFP \<leftarrow> currentKeyFingerprint E;
     statusFP \<leftarrow> peek bs_statusFP;
     cache \<leftarrow> peek bs_statusCache;
     State_Monad.return (map (\<lambda>r. (r, record_status currentFP statusFP cache r)) records)
   }"

text \<open>A cache of no fingerprint is pinned to the current one.\<close>

definition cacheStatus :: "('b, 'raw, 'w) backup_env \<Rightarrow> string \<Rightarrow> string \<Rightarrow> ('b, 'w, unit) bprog" where
  "cacheStatus E key status = do {
     statusFP \<leftarrow> peek bs_statusFP;
     fp \<leftarrow> (if statusFP = [] then currentKeyFingerprint E else State_Monad.return statusFP);
     poke (\<lambda>s. s\<lparr>bs_statusFP := fp, bs_statusCache := (bs_statusCache s)(key \<mapsto> status)\<rparr>)
   }"

section \<open>The operations on backups\<close>

definition get_backup :: "('b, 'raw, 'w) backup_env \<Rightarrow> string \<Rightarrow> ('b, 'w, backup option) fallible" where
  "get_backup E key = reading ''backup'' (BackupGet (dao_backup (be_dao E)) key)"

text \<open>The record, with an error when there is none.\<close>

definition require_backup :: "('b, 'raw, 'w) backup_env \<Rightarrow> string \<Rightarrow> ('b, 'w, backup) fallible" where
  "require_backup E key = do {
     r \<leftarrow> get_backup E key;
     State_Monad.return (or_return r (\<lambda>rec. case rec of None \<Rightarrow> Inl ErrBackupNotFound | Some rec \<Rightarrow> Inr rec))
   }"

definition List_backups :: "('b, 'raw, 'w) backup_env \<Rightarrow> ('b, 'w, (backup \<times> string) list) fallible" where
  "List_backups E = do {
     r \<leftarrow> reading ''backup'' (BackupGetAll (dao_backup (be_dao E)));
     or_fail r (\<lambda>records. do { rs \<leftarrow> decorateStatus E records; State_Monad.return (Inr rs) })
   }"

definition Find_backup :: "('b, 'raw, 'w) backup_env \<Rightarrow> string \<Rightarrow> ('b, 'w, (backup \<times> string) option) fallible" where
  "Find_backup E key = do {
     r \<leftarrow> get_backup E key;
     or_fail r (\<lambda>rec. case rec of
       None \<Rightarrow> State_Monad.return (Inr None)
     | Some rec \<Rightarrow> do { rs \<leftarrow> decorateStatus E [rec]; State_Monad.return (Inr (Some (hd rs))) })
   }"

record backup_manifest =
  mf_Version :: string
  mf_ExportedAt :: int
  mf_SwirlVersion :: string
  mf_Stats :: counts

definition Manifest :: "('b, 'raw, 'w) backup_env \<Rightarrow> string \<Rightarrow> ('b, 'w, backup_manifest option) fallible" where
  "Manifest E key = do {
     r \<leftarrow> get_backup E key;
     State_Monad.return (map_sum id (map_option (\<lambda>rec.
       \<lparr>mf_Version = ''1.0'', mf_ExportedAt = bk_CreatedAt rec, mf_SwirlVersion = [], mf_Stats = bk_Stats rec\<rparr>)) r)
   }"

definition new_record :: "('b, 'raw, 'w) backup_env \<Rightarrow> string \<Rightarrow> string \<Rightarrow> string \<Rightarrow> string \<Rightarrow> string \<Rightarrow> counts \<Rightarrow> int \<Rightarrow> string
    \<Rightarrow> web_user option \<Rightarrow> backup" where
  "new_record E key source path plaintext archive stats t fp user =
     \<lparr>bk_ID = key, bk_Name = source @ ''-'' @ be_format E t, bk_Source = source, bk_Size = int (length archive),
      bk_Checksum = hex_string (be_sha256 E plaintext), bk_Path = path, bk_Includes = AllBackupComponents,
      bk_Stats = stats, bk_KeyFingerprint = fp, bk_VerifiedAt = Some t, bk_CreatedAt = t,
      bk_CreatedBy = (case user of None \<Rightarrow> no_operator | Some u \<Rightarrow> \<lparr>op_ID = u_id u, op_Name = u_name u\<rparr>)\<rparr>"

text \<open>The last part of \<open>Create\<close>: store the record, or remove the archive again.\<close>

definition store_record :: "('b, 'raw, 'w) backup_env \<Rightarrow> backup \<Rightarrow> web_user option \<Rightarrow> ('b, 'w, backup) fallible" where
  "store_record E rec user = do {
     r \<leftarrow> writing ''backup'' (BackupCreate (dao_backup (be_dao E)) rec);
     case r of
       Inl e \<Rightarrow> do { _ \<leftarrow> deleteArchiveByPath E (bk_Path rec); State_Monad.return (Inl e) }
     | Inr _ \<Rightarrow> do {
         _ \<leftarrow> poke (\<lambda>s. if bs_statusFP s = bk_KeyFingerprint rec
                     then s\<lparr>bs_statusCache := (bs_statusCache s)(bk_ID rec \<mapsto> BackupKeyCompatible)\<rparr> else s);
         _ \<leftarrow> audit E ''Create'' (bk_ID rec) (bk_Name rec) user;
         State_Monad.return (Inr rec)
       }
   }"

definition store_archive :: "('b, 'raw, 'w) backup_env \<Rightarrow> string \<Rightarrow> string \<Rightarrow> string \<Rightarrow> counts \<Rightarrow> web_user option
    \<Rightarrow> ('b, 'w, backup) fallible" where
  "store_archive E source plaintext archive stats user = do {
     key \<leftarrow> outside (be_newId E);
     r \<leftarrow> writeArchive E key archive;
     or_fail r (\<lambda>path. do {
       t \<leftarrow> outside (be_now E);
       fp \<leftarrow> currentKeyFingerprint E;
       store_record E (new_record E key source path plaintext archive stats t fp user) user
     })
   }"

definition create_from :: "('b, 'raw, 'w) backup_env \<Rightarrow> string \<Rightarrow> backup_document \<Rightarrow> web_user option \<Rightarrow> ('b, 'w, backup) fallible" where
  "create_from E source doc user =
     or_fail (marshalGzip E doc) (\<lambda>plaintext. do {
       r \<leftarrow> encryptAtRest E plaintext;
       or_fail r (\<lambda>archive. store_archive E source plaintext archive (statsFromDocument doc) user)
     })"

definition Create :: "('b, 'raw, 'w) backup_env \<Rightarrow> string \<Rightarrow> web_user option \<Rightarrow> ('b, 'w, backup) fallible" where
  "Create E source user = do {
     ok \<leftarrow> backupKeyConfigured E;
     if \<not> ok then State_Monad.return (Inl ErrMissingKey)
     else do {
       r \<leftarrow> exportDocument E;
       case r of
         Inl e \<Rightarrow> State_Monad.return (Inl (Wrapped ''export failed'' e))
       | Inr doc \<Rightarrow> create_from E (if source = [] then ''manual'' else source) doc user
     }
   }"

definition Delete_backup :: "('b, 'raw, 'w) backup_env \<Rightarrow> string \<Rightarrow> web_user option \<Rightarrow> ('b, 'w, unit) fallible" where
  "Delete_backup E key user = do {
     r \<leftarrow> require_backup E key;
     or_fail r (\<lambda>rec. do {
       r \<leftarrow> writing ''backup'' (BackupDelete (dao_backup (be_dao E)) key);
       or_fail r (\<lambda>_. do {
         _ \<leftarrow> (if bk_Path rec = [] then State_Monad.return (Inr ()) else deleteArchiveByPath E (bk_Path rec));
         _ \<leftarrow> poke (\<lambda>s. s\<lparr>bs_statusCache := (bs_statusCache s)(key := None)\<rparr>);
         _ \<leftarrow> audit E ''Delete'' (bk_ID rec) (bk_Name rec) user;
         State_Monad.return (Inr ())
       })
     })
   }"

definition read_record :: "('b, 'raw, 'w) backup_env \<Rightarrow> backup \<Rightarrow> ('b, 'w, string) fallible" where
  "read_record E rec = do {
     r \<leftarrow> readArchive E rec;
     State_Monad.return (map_sum (Wrapped ''cannot read backup archive'') id r)
   }"

definition open_portable :: "('b, 'raw, 'w) backup_env \<Rightarrow> backup \<Rightarrow> string \<Rightarrow> string \<Rightarrow> web_user option
    \<Rightarrow> ('b, 'w, string \<times> string) fallible" where
  "open_portable E rec raw password user = do {
     r \<leftarrow> decryptAtRest E raw;
     or_fail r (\<lambda>plaintext. do {
       r \<leftarrow> encryptPortable E plaintext password;
       or_fail r (\<lambda>out. do {
         _ \<leftarrow> audit E ''Download'' (bk_ID rec) (bk_Name rec) user;
         State_Monad.return (Inr (bk_Name rec @ ''.enc'', out))
       })
     })
   }"

definition Open_backup :: "('b, 'raw, 'w) backup_env \<Rightarrow> string \<Rightarrow> string \<Rightarrow> string \<Rightarrow> web_user option
    \<Rightarrow> ('b, 'w, string \<times> string) fallible" where
  "Open_backup E key mode password user = do {
     r \<leftarrow> require_backup E key;
     or_fail r (\<lambda>rec. do {
       r \<leftarrow> read_record E rec;
       or_fail r (\<lambda>raw.
         if mode = [] \<or> mode = ''raw'' then do {
           _ \<leftarrow> audit E ''Download'' (bk_ID rec) (bk_Name rec) user;
           State_Monad.return (Inr (bk_Name rec @ backupFileSuffix, raw))
         }
         else if mode = ''portable'' then open_portable E rec raw password user
         else State_Monad.return (Inl (BackupError (''unknown download mode: '' @ mode))))
     })
   }"

definition restore_plaintext :: "('b, 'raw, 'w) backup_env \<Rightarrow> string \<Rightarrow> string list \<Rightarrow> ('b, 'w, counts \<times> backup_error option) bprog" where
  "restore_plaintext E plaintext components =
     (case unmarshalGzip E plaintext of
        Inl e \<Rightarrow> State_Monad.return ([], Some e) | Inr doc \<Rightarrow> importDocument E doc components)"

definition failed_with :: "backup_error \<Rightarrow> ('b, 'w, counts \<times> backup_error option) bprog" where
  "failed_with e = State_Monad.return ([], Some e)"

definition Restore :: "('b, 'raw, 'w) backup_env \<Rightarrow> string \<Rightarrow> string list \<Rightarrow> web_user option
    \<Rightarrow> ('b, 'w, counts \<times> backup_error option) bprog" where
  "Restore E key components user = do {
     r \<leftarrow> require_backup E key;
     case r of Inl e \<Rightarrow> failed_with e | Inr rec \<Rightarrow> do {
     r \<leftarrow> read_record E rec;
     case r of Inl e \<Rightarrow> failed_with e | Inr raw \<Rightarrow> do {
     r \<leftarrow> decryptAtRest E raw;
     case r of Inl e \<Rightarrow> failed_with e | Inr plaintext \<Rightarrow> do {
     res \<leftarrow> restore_plaintext E plaintext components;
     if snd res \<noteq> None then State_Monad.return res
     else do { _ \<leftarrow> audit E ''Restore'' (bk_ID rec) (bk_Name rec) user; State_Monad.return res } }}}}"

definition PreviewUpload :: "('b, 'raw, 'w) backup_env \<Rightarrow> string \<Rightarrow> string \<Rightarrow> ('b, 'w, backup_manifest) fallible" where
  "PreviewUpload E archive password = do {
     r \<leftarrow> decryptAny E archive password;
     State_Monad.return (or_return r (\<lambda>plaintext. or_return (unmarshalGzip E plaintext) (\<lambda>doc. Inr
       \<lparr>mf_Version = doc_Version doc, mf_ExportedAt = doc_ExportedAt doc, mf_SwirlVersion = doc_SwirlVersion doc,
        mf_Stats = statsFromDocument doc\<rparr>)))
   }"

definition RestoreUpload :: "('b, 'raw, 'w) backup_env \<Rightarrow> string \<Rightarrow> string \<Rightarrow> string list \<Rightarrow> web_user option
    \<Rightarrow> ('b, 'w, counts \<times> backup_error option) bprog" where
  "RestoreUpload E archive password components user = do {
     r \<leftarrow> decryptAny E archive password;
     case r of Inl e \<Rightarrow> failed_with e | Inr plaintext \<Rightarrow> do {
     res \<leftarrow> restore_plaintext E plaintext components;
     if snd res \<noteq> None \<or> user = None then State_Monad.return res
     else do {
       t \<leftarrow> outside (be_now E);
       _ \<leftarrow> audit E ''Restore'' [] (''uploaded-'' @ be_format E t) user;
       State_Monad.return res
     }}}"

section \<open>Verification and recovery\<close>

definition update_backup :: "('b, 'raw, 'w) backup_env \<Rightarrow> backup \<Rightarrow> ('b, 'w, unit) fallible" where
  "update_backup E rec = writing ''backup'' (BackupUpdate (dao_backup (be_dao E)) rec)"

definition with_status :: "('b, 'raw, 'w) backup_env \<Rightarrow> backup \<Rightarrow> string \<Rightarrow> ('b, 'w, backup \<times> string) fallible" where
  "with_status E rec status = do { _ \<leftarrow> cacheStatus E (bk_ID rec) status; State_Monad.return (Inr (rec, status)) }"

definition verify_stamped :: "('b, 'raw, 'w) backup_env \<Rightarrow> backup \<Rightarrow> string \<Rightarrow> ('b, 'w, backup \<times> string) fallible" where
  "verify_stamped E rec currentFP =
     (if bk_KeyFingerprint rec = currentFP then do {
        t \<leftarrow> outside (be_now E);
        _ \<leftarrow> update_backup E (rec\<lparr>bk_VerifiedAt := Some t\<rparr>);
        with_status E (rec\<lparr>bk_VerifiedAt := Some t\<rparr>) BackupKeyCompatible
      } else with_status E rec BackupKeyIncompatible)"

definition verify_legacy :: "('b, 'raw, 'w) backup_env \<Rightarrow> backup \<Rightarrow> string \<Rightarrow> ('b, 'w, backup \<times> string) fallible" where
  "verify_legacy E rec currentFP = do {
     r \<leftarrow> readArchive E rec;
     case r of
       Inl _ \<Rightarrow> with_status E rec BackupKeyMissingFile
     | Inr raw \<Rightarrow> do {
         r \<leftarrow> decryptAtRest E raw;
         case r of
           Inl _ \<Rightarrow> with_status E rec BackupKeyIncompatible
         | Inr _ \<Rightarrow> do {
             t \<leftarrow> outside (be_now E);
             _ \<leftarrow> update_backup E (rec\<lparr>bk_KeyFingerprint := currentFP, bk_VerifiedAt := Some t\<rparr>);
             with_status E (rec\<lparr>bk_KeyFingerprint := currentFP, bk_VerifiedAt := Some t\<rparr>) BackupKeyCompatible
           }
       }
   }"

definition Verify :: "('b, 'raw, 'w) backup_env \<Rightarrow> string \<Rightarrow> ('b, 'w, backup \<times> string) fallible" where
  "Verify E key = do {
     r \<leftarrow> require_backup E key;
     or_fail r (\<lambda>rec. do {
       ok \<leftarrow> backupKeyConfigured E;
       if \<not> ok then with_status E rec BackupKeyUnknown
       else do {
         missing \<leftarrow> archiveMissing E rec;
         if missing then with_status E rec BackupKeyMissingFile
         else do {
           currentFP \<leftarrow> currentKeyFingerprint E;
           if bk_KeyFingerprint rec \<noteq> [] then verify_stamped E rec currentFP
           else verify_legacy E rec currentFP
         }
       }
     })
   }"

record status_summary =
  sum_Total :: nat
  sum_Compatible :: nat
  sum_Incompatible :: nat
  sum_Unverified :: nat
  sum_Missing :: nat
  sum_KeyMissing :: bool
  sum_Fingerprint :: string

definition count_status :: "string \<Rightarrow> status_summary \<Rightarrow> status_summary" where
  "count_status status c =
     (if status = BackupKeyMissingFile then c\<lparr>sum_Missing := sum_Missing c + 1\<rparr>
      else if status = BackupKeyUnverified then c\<lparr>sum_Unverified := sum_Unverified c + 1\<rparr>
      else if status = BackupKeyCompatible then c\<lparr>sum_Compatible := sum_Compatible c + 1\<rparr>
      else if status = BackupKeyIncompatible then c\<lparr>sum_Incompatible := sum_Incompatible c + 1\<rparr>
      else c)"

definition classify_record :: "('b, 'raw, 'w) backup_env \<Rightarrow> string \<Rightarrow> backup \<Rightarrow> ('b, 'w, string) bprog" where
  "classify_record E currentFP r =
     (if currentFP = [] then State_Monad.return BackupKeyUnknown
      else do {
        missing \<leftarrow> archiveMissing E r;
        State_Monad.return (if missing then BackupKeyMissingFile else classifyByFingerprint r currentFP)
      })"

fun verify_all_loop :: "('b, 'raw, 'w) backup_env \<Rightarrow> string \<Rightarrow> backup list \<Rightarrow> status_summary \<Rightarrow> (string \<rightharpoonup> string)
    \<Rightarrow> ('b, 'w, status_summary \<times> (string \<rightharpoonup> string)) bprog" where
  "verify_all_loop E currentFP [] c cache = State_Monad.return (c, cache)"
| "verify_all_loop E currentFP (r # rs) c cache = do {
     status \<leftarrow> classify_record E currentFP r;
     verify_all_loop E currentFP rs (count_status status c) (cache(bk_ID r \<mapsto> status))
   }"

definition VerifyAll :: "('b, 'raw, 'w) backup_env \<Rightarrow> ('b, 'w, status_summary) bprog" where
  "VerifyAll E = do {
     currentFP \<leftarrow> currentKeyFingerprint E;
     r \<leftarrow> reading ''backup'' (BackupGetAll (dao_backup (be_dao E)));
     let c = \<lparr>sum_Total = 0, sum_Compatible = 0, sum_Incompatible = 0, sum_Unverified = 0, sum_Missing = 0,
              sum_KeyMissing = (currentFP = []), sum_Fingerprint = currentFP\<rparr>
     in case r of
          Inl _ \<Rightarrow> State_Monad.return c
        | Inr records \<Rightarrow> do {
            res \<leftarrow> verify_all_loop E currentFP records (c\<lparr>sum_Total := length records\<rparr>) Map.empty;
            _ \<leftarrow> poke (\<lambda>s. s\<lparr>bs_statusCache := snd res, bs_statusFP := currentFP\<rparr>);
            State_Monad.return (fst res)
          }
   }"

text \<open>The second half of \<open>Recover\<close>, from the plaintext on.\<close>

definition reencrypt :: "('b, 'raw, 'w) backup_env \<Rightarrow> backup \<Rightarrow> string \<Rightarrow> web_user option \<Rightarrow> ('b, 'w, backup \<times> string) fallible" where
  "reencrypt E rec plaintext user = do {
     r \<leftarrow> encryptAtRest E plaintext;
     or_fail r (\<lambda>archive. do {
       r \<leftarrow> rewriteArchive E rec archive;
       or_fail r (\<lambda>_. do {
         t \<leftarrow> outside (be_now E);
         fp \<leftarrow> currentKeyFingerprint E;
         let rec = rec\<lparr>bk_Size := int (length archive), bk_Checksum := hex_string (be_sha256 E plaintext),
                       bk_KeyFingerprint := fp, bk_VerifiedAt := Some t\<rparr>
         in do {
           r \<leftarrow> update_backup E rec;
           or_fail r (\<lambda>_. do {
             _ \<leftarrow> cacheStatus E (bk_ID rec) BackupKeyCompatible;
             _ \<leftarrow> audit E ''Update'' (bk_ID rec) (''recover:'' @ bk_Name rec) user;
             State_Monad.return (Inr (rec, BackupKeyCompatible))
           })
         }
       })
     })
   }"

definition Recover :: "('b, 'raw, 'w) backup_env \<Rightarrow> string \<Rightarrow> string \<Rightarrow> web_user option \<Rightarrow> ('b, 'w, backup \<times> string) fallible" where
  "Recover E key oldPassphrase user =
     (if length oldPassphrase < backupKeyMinLen
      then State_Monad.return (Inl (BackupError (''passphrase must be at least '' @ show_nat backupKeyMinLen @ '' characters'')))
      else do {
        ok \<leftarrow> backupKeyConfigured E;
        if \<not> ok then State_Monad.return (Inl ErrMissingKey)
        else do {
          r \<leftarrow> require_backup E key;
          or_fail r (\<lambda>rec. do {
            r \<leftarrow> read_record E rec;
            or_fail r (\<lambda>raw.
              or_fail (or_return (deriveKeyFromPassphrase E oldPassphrase) (decryptAtRestWithKey E raw))
                (\<lambda>plaintext. reencrypt E rec plaintext user))
          })
        }
      })"

section \<open>Schedules and retention\<close>

definition parseHM :: "string \<Rightarrow> go_error + int \<times> int" where
  "parseHM t =
     (case split_at (CHR '':'') t of
        [h, m] \<Rightarrow>
          (case Atoi h of
             Inl _ \<Rightarrow> Inl (''invalid hour in time: '' @ t)
           | Inr hr \<Rightarrow>
               if hr < 0 \<or> hr > 23 then Inl (''invalid hour in time: '' @ t)
               else (case Atoi m of
                       Inl _ \<Rightarrow> Inl (''invalid minute in time: '' @ t)
                     | Inr mn \<Rightarrow> if mn < 0 \<or> mn > 59 then Inl (''invalid minute in time: '' @ t) else Inr (hr, mn)))
      | _ \<Rightarrow> Inl (''invalid time: '' @ t))"

definition two_digits :: "int \<Rightarrow> string" where
  "two_digits n = (if n < 10 then ''0'' @ show_int n else show_int n)"

definition validateSchedule :: "backup_schedule \<Rightarrow> go_error + backup_schedule" where
  "validateSchedule s =
     (if sc_ID s \<notin> {''daily'', ''weekly'', ''monthly''} then Inl (''invalid schedule type: '' @ sc_ID s)
      else or_return (parseHM (sc_Time s)) (\<lambda>(hr, mn).
        if sc_DayConfig s = [] then Inl ''dayConfig is required''
        else Inr (s\<lparr>sc_Time := two_digits hr @ '':'' @ two_digits mn,
                    sc_Retention := (if sc_Retention s < 0 then 0 else sc_Retention s)\<rparr>)))"

definition Schedules :: "('b, 'raw, 'w) backup_env \<Rightarrow> ('b, 'w, backup_schedule list) fallible" where
  "Schedules E = reading ''backup_schedule'' (BackupScheduleGetAll (dao_schedule (be_dao E)))"

definition merged_schedule :: "backup_schedule \<Rightarrow> backup_schedule option \<Rightarrow> int \<Rightarrow> backup_schedule" where
  "merged_schedule s existing t =
     (case existing of
        None \<Rightarrow> s\<lparr>sc_UpdatedAt := t, sc_CreatedAt := t\<rparr>
      | Some old \<Rightarrow> s\<lparr>sc_UpdatedAt := t, sc_CreatedAt := sc_CreatedAt old,
                      sc_LastRunAt := (if sc_LastRunAt s = None then sc_LastRunAt old else sc_LastRunAt s)\<rparr>)"

definition SaveSchedule :: "('b, 'raw, 'w) backup_env \<Rightarrow> backup_schedule \<Rightarrow> web_user option \<Rightarrow> ('b, 'w, backup_schedule) fallible" where
  "SaveSchedule E schedule user =
     or_fail (map_sum BackupError id (validateSchedule schedule)) (\<lambda>s. do {
       r \<leftarrow> reading ''backup_schedule'' (BackupScheduleGet (dao_schedule (be_dao E)) (sc_ID s));
       or_fail r (\<lambda>existing. do {
         t \<leftarrow> outside (be_now E);
         r \<leftarrow> writing ''backup_schedule'' (BackupScheduleUpsert (dao_schedule (be_dao E)) (merged_schedule s existing t));
         or_fail r (\<lambda>_. do {
           _ \<leftarrow> audit E ''Update'' (sc_ID s) (''schedule:'' @ sc_ID s) user;
           State_Monad.return (Inr (merged_schedule s existing t))
         })
       })
     })"

definition DeleteSchedule :: "('b, 'raw, 'w) backup_env \<Rightarrow> string \<Rightarrow> web_user option \<Rightarrow> ('b, 'w, unit) fallible" where
  "DeleteSchedule E key user = do {
     r \<leftarrow> writing ''backup_schedule'' (BackupScheduleDelete (dao_schedule (be_dao E)) key);
     or_fail r (\<lambda>_. do { _ \<leftarrow> audit E ''Delete'' key (''schedule:'' @ key) user; State_Monad.return (Inr ()) })
   }"

fun delete_old :: "('b, 'raw, 'w) backup_env \<Rightarrow> string list \<Rightarrow> nat \<Rightarrow> ('b, 'w, nat) bprog" where
  "delete_old E [] deleted = State_Monad.return deleted"
| "delete_old E (key # keys) deleted = do {
     r \<leftarrow> Delete_backup E key None;
     delete_old E keys (case r of Inl _ \<Rightarrow> deleted | Inr _ \<Rightarrow> deleted + 1)
   }"

definition ApplyRetention :: "('b, 'raw, 'w) backup_env \<Rightarrow> string \<Rightarrow> int \<Rightarrow> ('b, 'w, nat) fallible" where
  "ApplyRetention E source keep =
     (if keep \<le> 0 then State_Monad.return (Inr 0)
      else do {
        r \<leftarrow> reading ''backup'' (BackupGetBySource (dao_backup (be_dao E)) source);
        or_fail r (\<lambda>records.
          if int (length records) \<le> keep then State_Monad.return (Inr 0)
          else do {
            deleted \<leftarrow> delete_old E (map bk_ID (drop (nat keep) (newest_first bk_CreatedAt records))) 0;
            State_Monad.return (Inr deleted)
          })
      })"

definition RunScheduled :: "('b, 'raw, 'w) backup_env \<Rightarrow> backup_schedule \<Rightarrow> ('b, 'w, unit) fallible" where
  "RunScheduled E schedule = do {
     r \<leftarrow> Create E (sc_ID schedule) None;
     or_fail r (\<lambda>_. do {
       t \<leftarrow> outside (be_now E);
       _ \<leftarrow> writing ''backup_schedule'' (BackupScheduleTouch (dao_schedule (be_dao E)) (sc_ID schedule) t);
       _ \<leftarrow> (if sc_Retention schedule > 0 then ApplyRetention E (sc_ID schedule) (sc_Retention schedule)
            else State_Monad.return (Inr 0));
       State_Monad.return (Inr ())
     })
   }"

definition parseDays :: "string \<Rightarrow> int list" where
  "parseDays s =
     concat (map (\<lambda>p. if TrimSpace p = [] then [] else (case Atoi (TrimSpace p) of Inl _ \<Rightarrow> [] | Inr n \<Rightarrow> [n]))
       (split_at (CHR '','') s))"

text \<open>A time in the time zone of the process, as \<open>local\<close> computes it from an instant.\<close>

record civil_time =
  cv_Year :: int
  cv_YearDay :: int
  cv_Weekday :: int
  cv_Day :: int
  cv_Hour :: int

definition same_day :: "civil_time \<Rightarrow> civil_time \<Rightarrow> bool" where
  "same_day x y \<longleftrightarrow> cv_Year x = cv_Year y \<and> cv_YearDay x = cv_YearDay y"

definition ShouldRun :: "(int \<Rightarrow> civil_time) \<Rightarrow> backup_schedule \<Rightarrow> int \<Rightarrow> bool" where
  "ShouldRun local schedule t =
     (sc_Enabled schedule
      \<and> (case parseHM (sc_Time schedule) of
           Inl _ \<Rightarrow> False
         | Inr (hr, mn) \<Rightarrow>
             cv_Hour (local t) = hr
             \<and> (case sc_LastRunAt schedule of None \<Rightarrow> True | Some l \<Rightarrow> \<not> same_day (local l) (local t))
             \<and> (if sc_ID schedule \<in> {''daily'', ''weekly''} then cv_Weekday (local t) \<in> set (parseDays (sc_DayConfig schedule))
                else if sc_ID schedule = ''monthly'' then cv_Day (local t) \<in> set (parseDays (sc_DayConfig schedule))
                else False)))"

fun run_due :: "('b, 'raw, 'w) backup_env \<Rightarrow> (int \<Rightarrow> civil_time) \<Rightarrow> int \<Rightarrow> backup_schedule list \<Rightarrow> ('b, 'w, unit) bprog" where
  "run_due E local t [] = State_Monad.return ()"
| "run_due E local t (schedule # schedules) = do {
     _ \<leftarrow> (if ShouldRun local schedule t then RunScheduled E schedule else State_Monad.return (Inr ()));
     run_due E local t schedules
   }"

definition tick :: "('b, 'raw, 'w) backup_env \<Rightarrow> (int \<Rightarrow> civil_time) \<Rightarrow> ('b, 'w, unit) bprog" where
  "tick E local = do {
     ok \<leftarrow> backupKeyConfigured E;
     if \<not> ok then State_Monad.return ()
     else do {
       r \<leftarrow> Schedules E;
       case r of
         Inl _ \<Rightarrow> State_Monad.return ()
       | Inr schedules \<Rightarrow> do { t \<leftarrow> outside (be_now E); run_due E local t schedules }
     }
   }"

definition startupKeyCheck :: "('b, 'raw, 'w) backup_env \<Rightarrow> ('b, 'w, status_summary option) bprog" where
  "startupKeyCheck E = do {
     ok \<leftarrow> backupKeyConfigured E;
     if \<not> ok then State_Monad.return None
     else do { c \<leftarrow> VerifyAll E; State_Monad.return (Some c) }
   }"

end
