(* ===== verification/BackupRules.thy ===== *)
theory BackupRules
  imports Backup
begin

text \<open>
  Rules for the programs of the backups: what the loops over a bucket do to its records, when the
  bucket behaves as documented, and what an export reads.
\<close>

section \<open>Running programs\<close>

lemma run_reading [simp]: "run_state (reading name f) s = (map_sum BackupDao id (f (bs_db s name)), s)"
  by (simp add: reading_def)

lemma run_reading_page [simp]:
  "run_state (reading_page name f) s =
   (case f (bs_db s name) of None \<Rightarrow> Inl BackupPanic | Some r \<Rightarrow> map_sum BackupDao fst r, s)"
  by (simp add: reading_page_def)

lemma run_writing [simp]:
  "run_state (writing name f) s =
   (map_sum BackupDao id (fst (f (bs_db s name))), put_bucket name (snd (f (bs_db s name))) s)"
  by (cases "f (bs_db s name)") (simp add: writing_def on_bucket_def)

lemma run_outside: "run_state (outside f) s = (fst (f (bs_world s)), s\<lparr>bs_world := snd (f (bs_world s))\<rparr>)"
  by (simp add: outside_def split: prod.split)

lemma put_bucket_simps [simp]:
  "bs_db (put_bucket name b s) name' = (if name' = name then b else bs_db s name')"
  "put_bucket name b' (put_bucket name b s) = put_bucket name b' s"
  "put_bucket name (bs_db s name) s = s"
  "bs_files (put_bucket name b s) = bs_files s" "bs_provider (put_bucket name b s) = bs_provider s"
  "bs_keyCache (put_bucket name b s) = bs_keyCache s" "bs_keyCacheExpires (put_bucket name b s) = bs_keyCacheExpires s"
  "bs_statusCache (put_bucket name b s) = bs_statusCache s" "bs_statusFP (put_bucket name b s) = bs_statusFP s"
  "bs_settings (put_bucket name b s) = bs_settings s" "bs_world (put_bucket name b s) = bs_world s"
  by (simp_all add: put_bucket_def)

lemma for_each_map: "for_each f (map g xs) = for_each (\<lambda>x. f (g x)) xs"
  by (induction xs) simp_all

section \<open>Records by key\<close>

text \<open>The map from keys to records that a list of records stands for.\<close>

definition index :: "('v \<Rightarrow> string) \<Rightarrow> 'v list \<Rightarrow> string \<rightharpoonup> 'v" where
  "index key xs = map_of (map (\<lambda>x. (key x, x)) xs)"

definition keyed :: "('b, 'raw, 'v) bolt \<Rightarrow> ('v \<Rightarrow> string) \<Rightarrow> 'b \<Rightarrow> bool" where
  "keyed db key b \<longleftrightarrow> readable db b \<and> (\<forall>k v. recs db b k = Some v \<longrightarrow> key v = k)"

lemma index_Some:
  "distinct (map key xs) \<Longrightarrow> index key xs k = Some v \<longleftrightarrow> v \<in> set xs \<and> key v = k"
  by (auto simp: index_def map_of_eq_Some_iff comp_def)

lemma index_None: "index key xs k = None \<longleftrightarrow> k \<notin> key ` set xs"
  by (auto simp: index_def map_of_eq_None_iff image_iff)

lemma index_map: "(\<And>x. key (g x) = key' x) \<Longrightarrow> index key (map g xs) = (\<lambda>k. map_option g (index key' xs k))"
  by (induction xs) (auto simp: index_def fun_eq_iff)

lemma index_unique:
  assumes "distinct (map key xs)" and "\<And>k v. m k = Some v \<longleftrightarrow> v \<in> set xs \<and> key v = k"
  shows "index key xs = m"
proof
  fix k
  show "index key xs k = m k"
    using index_Some [OF assms(1), of k] assms(2) [of k] by (metis not_Some_eq)
qed

context bolt_bucket
begin

lemma vals_index:
  assumes "keyed db key b"
  shows "index key (vals db b) = recs db b" and "distinct (map key (vals db b))"
    and "v \<in> set (vals db b) \<longleftrightarrow> recs db b (key v) = Some v"
proof -
  show d: "distinct (map key (vals db b))"
    using assms by (auto simp: keyed_def intro: vals_distinct)
  show m: "v \<in> set (vals db b) \<longleftrightarrow> recs db b (key v) = Some v" for v
    using assms by (auto simp: keyed_def set_vals)
  show "index key (vals db b) = recs db b"
  proof (rule index_unique [OF d])
    show "recs db b k = Some v \<longleftrightarrow> v \<in> set (vals db b) \<and> key v = k" for k v
      using assms m by (auto simp: keyed_def)
  qed
qed

lemma all_of_vals: "keyed db key b \<Longrightarrow> all_of db b = Inr (vals db b)"
  by (simp add: all_of_def keyed_def Dao_each_collect)

end

section \<open>Loops over a bucket\<close>

context healthy_bucket
begin

lemma delete_step:
  assumes "readable db b"
  obtains b' where "Dao_delete db k b = (Inr (), b')" "readable db b'" "recs db b' = (recs db b)(k := None)"
  using Dao_delete_total [of k b] Dao_delete_recs [of k b] assms by blast

lemma replace_step:
  assumes "readable db b"
  obtains b' where "Dao_replace db k v b = (Inr (), b')" "readable db b'" "recs db b' = (recs db b)(k \<mapsto> v)"
  using Dao_replace_total [of k v b] Dao_replace_recs [of k v b] assms by blast

lemma run_delete_each:
  fixes s :: "('a, 'w) backup_state"
  assumes "readable db (bs_db s name)"
  shows "\<exists>b'. run_state (delete_each name (Dao_delete db) keys) s = (Inr (), put_bucket name b' s)
     \<and> readable db b' \<and> recs db b' = recs db (bs_db s name) |` (- set keys)"
  using assms
proof (induction keys arbitrary: s)
  case Nil
  then show ?case by (intro exI [of _ "bs_db s name"]) (simp add: delete_each_def)
next
  case (Cons k keys)
  obtain b1 where b1: "Dao_delete db k (bs_db s name) = (Inr (), b1)" "readable db b1"
    "recs db b1 = (recs db (bs_db s name))(k := None)"
    using delete_step [OF Cons.prems] by blast
  let ?s1 = "put_bucket name b1 s"
  obtain b' where "run_state (delete_each name (Dao_delete db) keys) ?s1 = (Inr (), put_bucket name b' ?s1)"
    "readable db b'" "recs db b' = recs db b1 |` (- set keys)"
    using Cons.IH [of ?s1] b1(2) by auto
  with b1 show ?case
    by (intro exI [of _ b']) (auto simp: delete_each_def fun_eq_iff restrict_map_def)
qed

lemma run_create_each:
  fixes s :: "('a, 'w) backup_state"
  assumes "readable db (bs_db s name)" and "distinct (map (\<lambda>x. key (g x)) items)"
  shows "\<exists>b'. run_state (create_each name (\<lambda>x. Dao_replace db (key (g x)) (g x)) items) s
       = (Inr (length items), put_bucket name b' s)
     \<and> readable db b' \<and> recs db b' = recs db (bs_db s name) ++ index key (map g items)"
proof -
  have "\<exists>b'. run_state (for_each (\<lambda>x. writing name (Dao_replace db (key (g x)) (g x))) items) s
       = (Inr (), put_bucket name b' s)
     \<and> readable db b' \<and> recs db b' = recs db (bs_db s name) ++ index key (map g items)"
    using assms
  proof (induction items arbitrary: s)
    case Nil
    then show ?case by (intro exI [of _ "bs_db s name"]) (simp add: index_def)
  next
    case (Cons x items)
    obtain b1 where b1: "Dao_replace db (key (g x)) (g x) (bs_db s name) = (Inr (), b1)" "readable db b1"
      "recs db b1 = (recs db (bs_db s name))(key (g x) \<mapsto> g x)"
      using replace_step [OF Cons.prems(1)] by blast
    let ?s1 = "put_bucket name b1 s"
    obtain b' where b': "run_state (for_each (\<lambda>x. writing name (Dao_replace db (key (g x)) (g x))) items) ?s1
        = (Inr (), put_bucket name b' ?s1)"
      "readable db b'" "recs db b' = recs db b1 ++ index key (map g items)"
      using Cons.IH [of ?s1] b1(2) Cons.prems(2) by auto
    have "index key (map g items) (key (g x)) = None"
      using Cons.prems(2) by (auto simp: index_None)
    then have "recs db b' = recs db (bs_db s name) ++ index key (map g (x # items))"
      by (auto simp: b'(3) b1(3) index_def fun_eq_iff map_add_def split: option.split)
    with b1 b' show ?case by (intro exI [of _ b']) simp
  qed
  then show ?thesis by (auto simp: create_each_def)
qed

lemma run_replace_all:
  fixes s :: "('a, 'w) backup_state"
  assumes "readable db (bs_db s name)" and "distinct (map (\<lambda>x. key (g x)) items)"
    and "run_state existing s = (Inr xs, s)" and "\<And>k. recs db (bs_db s name) k \<noteq> None \<Longrightarrow> k \<in> key' ` set xs"
  shows "\<exists>b'. run_state (replace_all name existing key' (Dao_delete db) (\<lambda>x. Dao_replace db (key (g x)) (g x)) items) s
       = (Inr (length items), put_bucket name b' s)
     \<and> readable db b' \<and> recs db b' = index key (map g items)"
proof -
  obtain b1 where b1: "run_state (delete_each name (Dao_delete db) (map key' xs)) s = (Inr (), put_bucket name b1 s)"
    "readable db b1" "recs db b1 = recs db (bs_db s name) |` (- set (map key' xs))"
    using run_delete_each [OF assms(1)] by blast
  have empty: "recs db b1 = Map.empty"
  proof
    show "recs db b1 k = None" for k
      using assms(4) [of k] unfolding b1(3) restrict_map_def by (cases "recs db (bs_db s name) k") auto
  qed
  let ?s1 = "put_bucket name b1 s"
  obtain b' where b': "run_state (create_each name (\<lambda>x. Dao_replace db (key (g x)) (g x)) items) ?s1
      = (Inr (length items), put_bucket name b' ?s1)"
    "readable db b'" "recs db b' = recs db b1 ++ index key (map g items)"
    using run_create_each [of ?s1 name key g items] b1(2) assms(2) by auto
  have "recs db b' = index key (map g items)"
    unfolding b'(3) empty by (rule empty_map_add)
  with b1 b' show ?thesis
    by (intro exI [of _ b']) (simp add: replace_all_def assms(3))
qed

end

end
