(* ===== verification/BackupTransfer.thy ===== *)
theory BackupTransfer
  imports BackupRules
begin

text \<open>
  What a backup transports: an export reads every record of the database, and an import makes the
  selected components equal to what was exported, up to the fields that the export drops, and leaves
  every other bucket alone.
\<close>

section \<open>The database behaves as documented\<close>

definition healthy_dao :: "('b, 'raw) swirl_dao \<Rightarrow> bool" where
  "healthy_dao d \<longleftrightarrow>
     healthy_bucket (dao_setting d) \<and> healthy_bucket (dao_role d) \<and> healthy_bucket (dao_user d)
     \<and> healthy_bucket (dao_registry d) \<and> healthy_bucket (dao_stack d) \<and> healthy_bucket (dao_compose_stack d)
     \<and> healthy_bucket (dao_host d) \<and> healthy_bucket (dao_chart d) \<and> healthy_bucket (dao_vault_secret d)
     \<and> healthy_bucket (dao_binding d) \<and> healthy_bucket (dao_event d) \<and> healthy_bucket (dao_backup d)
     \<and> healthy_bucket (dao_schedule d)"

text \<open>Every record can be decoded and is stored under its own id, and the two paged buckets fit into
  one page.\<close>

definition db_ok :: "('b, 'raw) swirl_dao \<Rightarrow> (string \<Rightarrow> 'b) \<Rightarrow> bool" where
  "db_ok d db \<longleftrightarrow>
     keyed (dao_setting d) st_ID (db ''setting'') \<and> keyed (dao_role d) ro_ID (db ''role'')
     \<and> keyed (dao_user d) us_ID (db ''user'') \<and> keyed (dao_registry d) rg_ID (db ''registry'')
     \<and> keyed (dao_stack d) sk_Name (db ''stack'') \<and> keyed (dao_compose_stack d) cs_ID (db ''compose_stack'')
     \<and> keyed (dao_host d) ho_ID (db ''host'') \<and> keyed (dao_chart d) ch_ID (db ''chart'')
     \<and> keyed (dao_vault_secret d) vs_ID (db ''vault_secret'')
     \<and> keyed (dao_binding d) sb_ID (db ''compose_stack_secret_binding'')
     \<and> keyed (dao_event d) ev_ID (db ''event'')
     \<and> length (vals (dao_user d) (db ''user'')) \<le> 10000 \<and> length (vals (dao_chart d) (db ''chart'')) \<le> 10000"

section \<open>Reading whole buckets\<close>

lemma paged_all: "length xs \<le> 10000 \<Longrightarrow> paged 1 10000 (Inr xs) = Some (Inr (xs, length xs))"
  by (auto simp: paged_def Page_def go_slice_def)

lemma contains_Nil [simp]: "contains s [] = True"
  by (cases s) (simp_all add: contains_def)

lemma matchAny_all [simp]: "matchAny [] (s # ss)"
  by (simp add: matchAny_def to_lower_def)

lemma set_newest_first [simp]: "set (newest_first t xs) = set xs" "length (newest_first t xs) = length xs"
  by (simp_all add: newest_first_def)

lemma distinct_newest_first: "distinct (map f (newest_first t xs)) \<longleftrightarrow> distinct (map f xs)"
proof -
  have "mset (map f (newest_first t xs)) = mset (map f xs)"
    by (simp add: newest_first_def mset_map)
  then show ?thesis by (rule mset_eq_imp_distinct_iff)
qed

context bolt_bucket
begin

lemma Dao_each_vals:
  "keyed db key b \<Longrightarrow> (\<And>v. p v) \<Longrightarrow> Dao_each db (collect db p) [] b = Inr (vals db b)"
  by (simp add: keyed_def Dao_each_collect)

end

lemma healthy_bolt: "healthy_bucket db \<Longrightarrow> bolt_bucket db"
  by (rule healthy_bucket.axioms)

lemmas each_vals = bolt_bucket.Dao_each_vals [OF healthy_bolt] and all_vals = bolt_bucket.all_of_vals [OF healthy_bolt]

lemma run_read_users:
  assumes "healthy_bucket (dao_user (be_dao E))" "keyed (dao_user (be_dao E)) us_ID (bs_db s ''user'')"
    and "length (vals (dao_user (be_dao E)) (bs_db s ''user'')) \<le> 10000"
  shows "run_state (read_users E) s = (Inr (vals (dao_user (be_dao E)) (bs_db s ''user'')), s)"
  using assms
  by (simp add: read_users_def UserSearch_def every_user_def user_matches_def paged_all each_vals [where key = us_ID])

lemma run_read_charts:
  assumes "healthy_bucket (dao_chart (be_dao E))" "keyed (dao_chart (be_dao E)) ch_ID (bs_db s ''chart'')"
    and "length (vals (dao_chart (be_dao E)) (bs_db s ''chart'')) \<le> 10000"
  shows "run_state (read_charts E) s
    = (Inr (newest_first ch_UpdatedAt (vals (dao_chart (be_dao E)) (bs_db s ''chart''))), s)"
  using assms
  by (simp add: read_charts_def ChartSearch_def every_chart_def chart_matches_def paged_all each_vals [where key = ch_ID])

lemma run_read_compose_stacks:
  assumes "healthy_bucket (dao_compose_stack (be_dao E))"
    and "keyed (dao_compose_stack (be_dao E)) cs_ID (bs_db s ''compose_stack'')"
  shows "run_state (read_compose_stacks E) s = (Inr (vals (dao_compose_stack (be_dao E)) (bs_db s ''compose_stack'')), s)"
  using assms by (simp add: read_compose_stacks_def ComposeStackSearch_def each_vals [where key = cs_ID])

section \<open>Export\<close>

definition snapshot :: "('b, 'raw) swirl_dao \<Rightarrow> string \<Rightarrow> int \<Rightarrow> (string \<Rightarrow> 'b) \<Rightarrow> backup_document" where
  "snapshot d ver t db =
     \<lparr>doc_Version = ''1.0'', doc_ExportedAt = t, doc_SwirlVersion = ver,
      doc_Settings = vals (dao_setting d) (db ''setting''), doc_Roles = vals (dao_role d) (db ''role''),
      doc_Users = map toUserExport (vals (dao_user d) (db ''user'')),
      doc_Registries = vals (dao_registry d) (db ''registry''), doc_Stacks = vals (dao_stack d) (db ''stack''),
      doc_ComposeStacks = vals (dao_compose_stack d) (db ''compose_stack''),
      doc_Hosts = map toHostExport (vals (dao_host d) (db ''host'')),
      doc_Charts = filter (\<lambda>c. \<not> builtin_chart c) (newest_first ch_UpdatedAt (vals (dao_chart d) (db ''chart''))),
      doc_VaultSecrets = vals (dao_vault_secret d) (db ''vault_secret''),
      doc_Bindings = vals (dao_binding d) (db ''compose_stack_secret_binding''), doc_Events = []\<rparr>"

lemma export_snapshot:
  assumes "healthy_dao (be_dao E)" "db_ok (be_dao E) (bs_db s)"
  shows "\<exists>t w. run_state (exportDocument E) s = (Inr (snapshot (be_dao E) (be_version E) t (bs_db s)), s\<lparr>bs_world := w\<rparr>)"
proof -
  let ?w = "snd (be_now E (bs_world s))"
  have reads:
    "run_state (read_users E) (s\<lparr>bs_world := ?w\<rparr>) = (Inr (vals (dao_user (be_dao E)) (bs_db s ''user'')), s\<lparr>bs_world := ?w\<rparr>)"
    "run_state (read_charts E) (s\<lparr>bs_world := ?w\<rparr>)
      = (Inr (newest_first ch_UpdatedAt (vals (dao_chart (be_dao E)) (bs_db s ''chart''))), s\<lparr>bs_world := ?w\<rparr>)"
    "run_state (read_compose_stacks E) (s\<lparr>bs_world := ?w\<rparr>)
      = (Inr (vals (dao_compose_stack (be_dao E)) (bs_db s ''compose_stack'')), s\<lparr>bs_world := ?w\<rparr>)"
    using assms run_read_users [of E "s\<lparr>bs_world := ?w\<rparr>"] run_read_charts [of E "s\<lparr>bs_world := ?w\<rparr>"]
      run_read_compose_stacks [of E "s\<lparr>bs_world := ?w\<rparr>"]
    by (simp_all add: healthy_dao_def db_ok_def)
  have facts: "healthy_bucket (dao_setting (be_dao E))" "healthy_bucket (dao_role (be_dao E))"
    "healthy_bucket (dao_registry (be_dao E))" "healthy_bucket (dao_stack (be_dao E))" "healthy_bucket (dao_host (be_dao E))"
    "healthy_bucket (dao_vault_secret (be_dao E))" "healthy_bucket (dao_binding (be_dao E))"
    using assms(1) by (simp_all add: healthy_dao_def)
  show ?thesis
    using assms(2)
    unfolding exportDocument_def snapshot_def
    by (intro exI [of _ "fst (be_now E (bs_world s))"] exI [of _ ?w])
      (simp add: run_outside reads SettingGetAll_def RoleSearch_def RegistryGetAll_def StackGetAll_def HostGetAll_def
        VaultSecretGetAll_def BindingGetAll_def db_ok_def
        all_vals [OF facts(1), where key = st_ID] all_vals [OF facts(3), where key = rg_ID] all_vals [OF facts(4), where key = sk_Name] all_vals [OF facts(5), where key = ho_ID]
        all_vals [OF facts(6), where key = vs_ID] all_vals [OF facts(7), where key = sb_ID] each_vals [OF facts(2), where key = ro_ID])
qed

section \<open>Import\<close>

definition bucket_of :: "string \<Rightarrow> string" where
  "bucket_of c =
     (if c = ComponentSettings then ''setting'' else if c = ComponentRoles then ''role''
      else if c = ComponentUsers then ''user'' else if c = ComponentRegistries then ''registry''
      else if c = ComponentStacks then ''stack'' else if c = ComponentComposeStacks then ''compose_stack''
      else if c = ComponentHosts then ''host'' else if c = ComponentCharts then ''chart''
      else if c = ComponentVaultSecrets then ''vault_secret''
      else if c = ComponentBindings then ''compose_stack_secret_binding'' else ''event'')"

text \<open>What is left of a host.\<close>

definition exported_host :: "dao_host \<Rightarrow> dao_host" where
  "exported_host h = fromHostExport (toHostExport h)"

text \<open>The abstract effect of restoring a component: from the bucket \<open>old\<close> and the database \<open>db0\<close>
  of the backup to the bucket \<open>new\<close>.\<close>

definition restored :: "('b, 'raw) swirl_dao \<Rightarrow> string \<Rightarrow> (string \<Rightarrow> 'b) \<Rightarrow> 'b \<Rightarrow> 'b \<Rightarrow> bool" where
  "restored d c db0 old new =
     (let saved = db0 (bucket_of c) in
      if c = ComponentSettings then recs (dao_setting d) new = recs (dao_setting d) old ++ recs (dao_setting d) saved
      else if c = ComponentRoles then recs (dao_role d) new = recs (dao_role d) saved
      else if c = ComponentUsers then recs (dao_user d) new = recs (dao_user d) saved
      else if c = ComponentRegistries then recs (dao_registry d) new = recs (dao_registry d) saved
      else if c = ComponentStacks then recs (dao_stack d) new = recs (dao_stack d) saved
      else if c = ComponentComposeStacks then recs (dao_compose_stack d) new = recs (dao_compose_stack d) saved
      else if c = ComponentHosts then recs (dao_host d) new = map_option exported_host \<circ> recs (dao_host d) saved
      else if c = ComponentCharts then
        recs (dao_chart d) new = (\<lambda>k. recs (dao_chart d) (if has_prefix k ''$'' then old else saved) k)
      else if c = ComponentVaultSecrets then recs (dao_vault_secret d) new = recs (dao_vault_secret d) saved
      else if c = ComponentBindings then recs (dao_binding d) new = recs (dao_binding d) saved
      else recs (dao_event d) new = recs (dao_event d) old)"

lemma distinct_components: "distinct AllBackupComponents"
  by (simp add: AllBackupComponents_def component_names)

lemma bucket_of_inj: "inj_on bucket_of (set AllBackupComponents)"
  by (simp add: AllBackupComponents_def component_names bucket_of_def)

context healthy_bucket
begin

lemma replace_all_saved:
  fixes s :: "('a, 'w) backup_state"
  assumes "keyed db key (bs_db s name)" "keyed db key saved" "\<And>v. key (g v) = key v"
    and "run_state existing s = (Inr (vals db (bs_db s name)), s)"
  shows "\<exists>b'. run_state (replace_all name existing key (Dao_delete db) (\<lambda>x. Dao_replace db (key (g x)) (g x)) (vals db saved)) s
       = (Inr (length (vals db saved)), put_bucket name b' s)
     \<and> recs db b' = map_option g \<circ> recs db saved"
proof -
  have d: "distinct (map (\<lambda>x. key (g x)) (vals db saved))"
    using vals_index(2) [OF assms(2)] assms(3) by simp
  have cover: "k \<in> key ` set (vals db (bs_db s name))" if k: "recs db (bs_db s name) k \<noteq> None" for k
  proof -
    from k obtain v where v: "recs db (bs_db s name) k = Some v" by blast
    with assms(1) have "key v = k" by (auto simp: keyed_def)
    with v vals_index(3) [OF assms(1), of v] show ?thesis by force
  qed
  have "index key (map g (vals db saved)) = map_option g \<circ> recs db saved"
    using assms(3) vals_index(1) [OF assms(2)] by (simp add: index_map [where key' = key] comp_def)
  moreover have "readable db (bs_db s name)" using assms(1) by (simp add: keyed_def)
  ultimately show ?thesis
    using run_replace_all [of s name key g "vals db saved" existing "vals db (bs_db s name)" key, OF _ d assms(4) cover]
    by force
qed

lemma replace_all_same:
  fixes s :: "('a, 'w) backup_state"
  assumes "keyed db key (bs_db s name)" "keyed db key saved"
    and "run_state existing s = (Inr (vals db (bs_db s name)), s)"
  shows "\<exists>b'. run_state (replace_all name existing key (Dao_delete db) (\<lambda>x. Dao_replace db (key x) x) (vals db saved)) s
       = (Inr (length (vals db saved)), put_bucket name b' s) \<and> recs db b' = recs db saved"
  using replace_all_saved [of key s name saved "\<lambda>x. x" existing] assms by (simp add: comp_def option.map_ident)

end

text \<open>The operations that the restore uses, as operations on a bucket.\<close>

lemma dao_ops:
  "RoleDelete = Dao_delete" "UserDelete = Dao_delete" "RegistryDelete = Dao_delete" "StackDelete = Dao_delete"
  "ComposeStackDelete = Dao_delete" "HostDelete = Dao_delete" "ChartDelete = Dao_delete"
  "VaultSecretDelete = Dao_delete" "BindingDelete = Dao_delete"
  "SettingUpdate = (\<lambda>db x. Dao_replace db (st_ID x) x)" "RoleCreate = (\<lambda>db x. Dao_replace db (ro_ID x) x)"
  "UserCreate = (\<lambda>db x. Dao_replace db (us_ID x) x)" "RegistryCreate = (\<lambda>db x. Dao_replace db (rg_ID x) x)"
  "StackCreate = (\<lambda>db x. Dao_replace db (sk_Name x) x)" "ComposeStackCreate = (\<lambda>db x. Dao_replace db (cs_ID x) x)"
  "HostCreate = (\<lambda>db x. Dao_replace db (ho_ID x) x)" "ChartCreate = (\<lambda>db x. Dao_replace db (ch_ID x) x)"
  "VaultSecretCreate = (\<lambda>db x. Dao_replace db (vs_ID x) x)" "BindingUpsert = (\<lambda>db x. Dao_replace db (sb_ID x) x)"
  "EventCreate = (\<lambda>db x. Dao_replace db (ev_ID x) x)"
  "SettingGetAll = all_of" "RegistryGetAll = all_of" "StackGetAll = all_of" "HostGetAll = all_of"
  "VaultSecretGetAll = all_of" "BindingGetAll = all_of"
  by (intro ext, simp add: RoleDelete_def UserDelete_def RegistryDelete_def StackDelete_def ComposeStackDelete_def
    HostDelete_def ChartDelete_def VaultSecretDelete_def BindingDelete_def SettingUpdate_def RoleCreate_def UserCreate_def
    RegistryCreate_def StackCreate_def ComposeStackCreate_def HostCreate_def ChartCreate_def VaultSecretCreate_def
    BindingUpsert_def EventCreate_def SettingGetAll_def RegistryGetAll_def StackGetAll_def HostGetAll_def
    VaultSecretGetAll_def BindingGetAll_def)+

lemma RoleSearch_all: "RoleSearch db [] = all_of db"
  by (intro ext) (simp add: RoleSearch_def all_of_def)

lemma create_each_map: "create_each name ins (map g xs) = create_each name (\<lambda>x. ins (g x)) xs"
  by (simp add: create_each_def for_each_map)

lemma replace_all_map:
  "replace_all name existing key del ins (map g xs) = replace_all name existing key del (\<lambda>x. ins (g x)) xs"
  by (simp add: replace_all_def create_each_map)

text \<open>The conditions of \<^const>\<open>db_ok\<close> on the bucket of one component.\<close>

definition component_ok :: "('b, 'raw) swirl_dao \<Rightarrow> string \<Rightarrow> 'b \<Rightarrow> bool" where
  "component_ok d c b =
     (if c = ComponentSettings then keyed (dao_setting d) st_ID b
      else if c = ComponentRoles then keyed (dao_role d) ro_ID b
      else if c = ComponentUsers then keyed (dao_user d) us_ID b \<and> length (vals (dao_user d) b) \<le> 10000
      else if c = ComponentRegistries then keyed (dao_registry d) rg_ID b
      else if c = ComponentStacks then keyed (dao_stack d) sk_Name b
      else if c = ComponentComposeStacks then keyed (dao_compose_stack d) cs_ID b
      else if c = ComponentHosts then keyed (dao_host d) ho_ID b
      else if c = ComponentCharts then keyed (dao_chart d) ch_ID b \<and> length (vals (dao_chart d) b) \<le> 10000
      else if c = ComponentVaultSecrets then keyed (dao_vault_secret d) vs_ID b
      else if c = ComponentBindings then keyed (dao_binding d) sb_ID b
      else keyed (dao_event d) ev_ID b)"

lemma db_ok_component: "db_ok d db \<Longrightarrow> c \<in> set AllBackupComponents \<Longrightarrow> component_ok d c (db (bucket_of c))"
  by (auto simp: db_ok_def component_ok_def bucket_of_def AllBackupComponents_def component_names)

definition restores :: "('b, 'raw, 'w) backup_env \<Rightarrow> string \<Rightarrow> backup_document \<Rightarrow> (string \<Rightarrow> 'b) \<Rightarrow> ('b, 'w) backup_state \<Rightarrow> bool" where
  "restores E c doc db0 s \<longleftrightarrow>
     (\<exists>n b'. run_state (restoreComponent E c doc) s = (Inr n, put_bucket (bucket_of c) b' s)
        \<and> map_of (statsFromDocument doc) c = Some n
        \<and> restored (be_dao E) c db0 (bs_db s (bucket_of c)) b')"

lemmas restore_defs = restores_def restoreComponent_def component_names bucket_of_def component_ok_def restored_def
  snapshot_def statsFromDocument_def

lemma all_of_bucket:
  assumes "healthy_bucket db" "keyed db key (bs_db s name)"
  shows "run_state (reading name (all_of db)) s = (Inr (vals db (bs_db s name)), s)"
  using assms by (simp add: all_vals [where key = key])

lemma restores_plain:
  assumes h: "healthy_dao (be_dao E)" and s: "component_ok (be_dao E) c (bs_db s (bucket_of c))"
    and saved: "component_ok (be_dao E) c (db0 (bucket_of c))"
    and c: "c \<in> {ComponentRoles, ComponentUsers, ComponentRegistries, ComponentStacks, ComponentComposeStacks,
                   ComponentVaultSecrets, ComponentBindings}"
  shows "restores E c (snapshot (be_dao E) ver t db0) db0 s"
proof -
  have hs: "healthy_bucket (dao_role (be_dao E))" "healthy_bucket (dao_user (be_dao E))"
    "healthy_bucket (dao_registry (be_dao E))" "healthy_bucket (dao_stack (be_dao E))"
    "healthy_bucket (dao_compose_stack (be_dao E))" "healthy_bucket (dao_vault_secret (be_dao E))"
    "healthy_bucket (dao_binding (be_dao E))"
    using h by (simp_all add: healthy_dao_def)
  note saves = hs [THEN healthy_bucket.replace_all_same]
  from c consider "c = ComponentRoles" | "c = ComponentUsers" | "c = ComponentRegistries" | "c = ComponentStacks"
    | "c = ComponentComposeStacks" | "c = ComponentVaultSecrets" | "c = ComponentBindings" by blast
  then show ?thesis
  proof cases
    case 1
    then show ?thesis
      using saves(1) [of ro_ID s "''role''" "db0 ''role''" "reading ''role'' (all_of (dao_role (be_dao E)))"] all_of_bucket [OF hs(1), of ro_ID s]
        s saved by (simp add: restore_defs Let_def replace_all_map dao_ops RoleSearch_all)
  next
    case 2
    then show ?thesis
      using saves(2) [of us_ID s "''user''" "db0 ''user''" "read_users E"] run_read_users [OF hs(2), of s]
        s saved by (simp add: restore_defs Let_def replace_all_map dao_ops)
  next
    case 3
    then show ?thesis
      using saves(3) [of rg_ID s "''registry''" "db0 ''registry''" "reading ''registry'' (all_of (dao_registry (be_dao E)))"] all_of_bucket [OF hs(3), of rg_ID s]
        s saved by (simp add: restore_defs Let_def replace_all_map dao_ops)
  next
    case 4
    then show ?thesis
      using saves(4) [of sk_Name s "''stack''" "db0 ''stack''" "reading ''stack'' (all_of (dao_stack (be_dao E)))"] all_of_bucket [OF hs(4), of sk_Name s]
        s saved by (simp add: restore_defs Let_def replace_all_map dao_ops)
  next
    case 5
    then show ?thesis
      using saves(5) [of cs_ID s "''compose_stack''" "db0 ''compose_stack''" "read_compose_stacks E"] run_read_compose_stacks [OF hs(5), of s]
        s saved by (simp add: restore_defs Let_def replace_all_map dao_ops)
  next
    case 6
    then show ?thesis
      using saves(6) [of vs_ID s "''vault_secret''" "db0 ''vault_secret''" "reading ''vault_secret'' (all_of (dao_vault_secret (be_dao E)))"] all_of_bucket [OF hs(6), of vs_ID s]
        s saved by (simp add: restore_defs Let_def replace_all_map dao_ops)
  next
    case 7
    then show ?thesis
      using saves(7) [of sb_ID s "''compose_stack_secret_binding''" "db0 ''compose_stack_secret_binding''" "reading ''compose_stack_secret_binding'' (all_of (dao_binding (be_dao E)))"] all_of_bucket [OF hs(7), of sb_ID s]
        s saved by (simp add: restore_defs Let_def replace_all_map dao_ops)
  qed
qed

lemma restores_settings:
  assumes "healthy_dao (be_dao E)" "component_ok (be_dao E) ComponentSettings (bs_db s ''setting'')"
    "component_ok (be_dao E) ComponentSettings (db0 ''setting'')"
  shows "restores E ComponentSettings (snapshot (be_dao E) ver t db0) db0 s"
proof -
  have h: "healthy_bucket (dao_setting (be_dao E))" using assms(1) by (simp add: healthy_dao_def)
  have k: "keyed (dao_setting (be_dao E)) st_ID (bs_db s ''setting'')" "keyed (dao_setting (be_dao E)) st_ID (db0 ''setting'')"
    using assms(2,3) by (simp_all add: component_ok_def)
  note v = bolt_bucket.vals_index [OF healthy_bolt [OF h] k(2)]
  have "readable (dao_setting (be_dao E)) (bs_db s ''setting'')" using k(1) by (simp add: keyed_def)
  from healthy_bucket.run_create_each [OF h this, of st_ID "\<lambda>x. x" "vals (dao_setting (be_dao E)) (db0 ''setting'')"] v(1,2)
  show ?thesis by (auto simp: restore_defs Let_def dao_ops)
qed

lemma restores_hosts:
  assumes "healthy_dao (be_dao E)" "component_ok (be_dao E) ComponentHosts (bs_db s ''host'')"
    "component_ok (be_dao E) ComponentHosts (db0 ''host'')"
  shows "restores E ComponentHosts (snapshot (be_dao E) ver t db0) db0 s"
proof -
  have h: "healthy_bucket (dao_host (be_dao E))" using assms(1) by (simp add: healthy_dao_def)
  have k: "keyed (dao_host (be_dao E)) ho_ID (bs_db s ''host'')" "keyed (dao_host (be_dao E)) ho_ID (db0 ''host'')"
    using assms(2,3) by (simp_all add: component_ok_def component_names)
  have same: "ho_ID (exported_host x) = ho_ID x" for x by (simp add: exported_host_def)
  from healthy_bucket.replace_all_saved [OF h k same, of "reading ''host'' (all_of (dao_host (be_dao E)))"]
    all_of_bucket [OF h, of ho_ID s] k(1)
  show ?thesis by (simp add: restore_defs Let_def dao_ops replace_all_map same exported_host_def [symmetric])
qed

lemma restores_charts:
  assumes "healthy_dao (be_dao E)" "component_ok (be_dao E) ComponentCharts (bs_db s ''chart'')"
    "component_ok (be_dao E) ComponentCharts (db0 ''chart'')"
  shows "restores E ComponentCharts (snapshot (be_dao E) ver t db0) db0 s"
proof -
  let ?db = "dao_chart (be_dao E)"
  define own where "own b = filter (\<lambda>c. \<not> builtin_chart c) (newest_first ch_UpdatedAt (vals ?db b))" for b
  have h: "healthy_bucket ?db" using assms(1) by (simp add: healthy_dao_def)
  have k: "keyed ?db ch_ID (bs_db s ''chart'')" "keyed ?db ch_ID (db0 ''chart'')"
    "length (vals ?db (bs_db s ''chart'')) \<le> 10000"
    using assms(2,3) by (simp_all add: component_ok_def component_names)
  note v = bolt_bucket.vals_index [OF healthy_bolt [OF h]]
  have own_iff: "x \<in> set (own b) \<longleftrightarrow> \<not> has_prefix (ch_ID x) ''$'' \<and> recs ?db b (ch_ID x) = Some x" if "keyed ?db ch_ID b" for x b
    using v(3) [OF that, of x] by (auto simp: own_def builtin_chart_def)
  have key: "ch_ID x = i" if "recs ?db b i = Some x" "keyed ?db ch_ID b" for x i b
    using that by (simp add: keyed_def)
  have d: "distinct (map ch_ID (own (db0 ''chart'')))"
    using v(2) [OF k(2)] by (simp add: own_def distinct_map_filter distinct_newest_first)
  have saved: "index ch_ID (own (db0 ''chart'')) = (\<lambda>k. if has_prefix k ''$'' then None else recs ?db (db0 ''chart'') k)"
  proof (rule index_unique [OF d])
    show "(if has_prefix i ''$'' then None else recs ?db (db0 ''chart'') i) = Some x
        \<longleftrightarrow> x \<in> set (own (db0 ''chart'')) \<and> ch_ID x = i" for i x
      using own_iff [OF k(2), of x] key [OF _ k(2), of i x] by (cases "ch_ID x = i") auto
  qed
  have ids: "ch_ID ` set (own (bs_db s ''chart'')) = {i. \<not> has_prefix i ''$'' \<and> recs ?db (bs_db s ''chart'') i \<noteq> None}"
  proof
    show "{i. \<not> has_prefix i ''$'' \<and> recs ?db (bs_db s ''chart'') i \<noteq> None} \<subseteq> ch_ID ` set (own (bs_db s ''chart''))"
    proof
      fix i
      assume "i \<in> {i. \<not> has_prefix i ''$'' \<and> recs ?db (bs_db s ''chart'') i \<noteq> None}"
      then obtain x where x: "\<not> has_prefix i ''$''" "recs ?db (bs_db s ''chart'') i = Some x" by blast
      with key [OF x(2) k(1)] show "i \<in> ch_ID ` set (own (bs_db s ''chart''))"
        using own_iff [OF k(1), of x] by blast
    qed
  qed (use own_iff [OF k(1)] in auto)
  obtain b1 where b1: "run_state (delete_each ''chart'' (Dao_delete ?db) (map ch_ID (own (bs_db s ''chart'')))) s
      = (Inr (), put_bucket ''chart'' b1 s)" "readable ?db b1"
    "recs ?db b1 = recs ?db (bs_db s ''chart'') |` (- set (map ch_ID (own (bs_db s ''chart''))))"
    using healthy_bucket.run_delete_each [OF h, of s "''chart''"] k(1) unfolding keyed_def by blast
  obtain b2 where b2: "run_state (create_each ''chart'' (\<lambda>x. Dao_replace ?db (ch_ID x) x) (own (db0 ''chart''))) (put_bucket ''chart'' b1 s)
      = (Inr (length (own (db0 ''chart''))), put_bucket ''chart'' b2 (put_bucket ''chart'' b1 s))"
    "recs ?db b2 = recs ?db b1 ++ index ch_ID (own (db0 ''chart''))"
    using healthy_bucket.run_create_each [OF h, of "put_bucket ''chart'' b1 s" "''chart''" ch_ID "\<lambda>x. x" "own (db0 ''chart'')"]
      b1(2) d by auto
  have "recs ?db b2 = (\<lambda>k. recs ?db (if has_prefix k ''$'' then bs_db s ''chart'' else db0 ''chart'') k)"
  proof
    fix i
    show "recs ?db b2 i = recs ?db (if has_prefix i ''$'' then bs_db s ''chart'' else db0 ''chart'') i"
      using ids b2(2) unfolding b1(3) saved
      by (cases "recs ?db (bs_db s ''chart'') i") (auto simp: map_add_def restrict_map_def split: option.split)
  qed
  with b1(1) b2(1) run_read_charts [OF h k(1) k(3)] show ?thesis
    by (auto simp: restore_defs Let_def dao_ops restore_charts_def own_def)
qed

lemma restores_events: "restores E ComponentEvents (snapshot (be_dao E) ver t db0) db0 s"
  by (auto simp: restore_defs Let_def create_each_def intro!: exI [of _ "bs_db s ''event''"])

lemma restores_component:
  assumes h: "healthy_dao (be_dao E)" and s: "component_ok (be_dao E) c (bs_db s (bucket_of c))"
    and saved: "db_ok (be_dao E) db0" and c: "c \<in> set AllBackupComponents"
  shows "restores E c (snapshot (be_dao E) ver t db0) db0 s"
proof -
  note ok = db_ok_component [OF saved c]
  have "c \<in> {ComponentRoles, ComponentUsers, ComponentRegistries, ComponentStacks, ComponentComposeStacks,
              ComponentVaultSecrets, ComponentBindings}
      \<or> c = ComponentSettings \<or> c = ComponentHosts \<or> c = ComponentCharts \<or> c = ComponentEvents"
    using c by (auto simp: AllBackupComponents_def)
  moreover have "bucket_of ComponentSettings = ''setting''" "bucket_of ComponentHosts = ''host''"
    "bucket_of ComponentCharts = ''chart''"
    by (simp_all add: bucket_of_def component_names)
  ultimately show ?thesis
    using restores_plain [of E c s db0 ver t, OF h s ok] restores_settings [OF h, of s db0 ver t]
      restores_hosts [OF h, of s db0 ver t] restores_charts [OF h, of s db0 ver t]
      restores_events s ok by metis
qed

text \<open>The counts that an import reports.\<close>

definition counts_of :: "backup_document \<Rightarrow> string list \<Rightarrow> counts" where
  "counts_of doc cs = map (\<lambda>c. (c, the (map_of (statsFromDocument doc) c))) cs"

lemma import_loop_restores:
  assumes h: "healthy_dao (be_dao E)" and saved: "db_ok (be_dao E) db0"
    and "distinct cs" "set cs \<subseteq> set AllBackupComponents"
    and "\<And>c. c \<in> set cs \<Longrightarrow> component_ok (be_dao E) c (bs_db s (bucket_of c))"
  shows "\<exists>db'. run_state (import_loop E (snapshot (be_dao E) ver t db0) cs acc) s
       = ((acc @ counts_of (snapshot (be_dao E) ver t db0) cs, None), s\<lparr>bs_db := db'\<rparr>)
     \<and> (\<forall>c \<in> set cs. restored (be_dao E) c db0 (bs_db s (bucket_of c)) (db' (bucket_of c)))
     \<and> (\<forall>name. name \<notin> bucket_of ` set cs \<longrightarrow> db' name = bs_db s name)"
  using assms(3-)
proof (induction cs arbitrary: s acc)
  case Nil
  then show ?case by (intro exI [of _ "bs_db s"]) (simp add: counts_of_def)
next
  case (Cons c cs)
  let ?doc = "snapshot (be_dao E) ver t db0"
  have "restores E c ?doc db0 s"
    using restores_component [OF h _ saved] Cons.prems by simp
  then obtain n b' where c: "run_state (restoreComponent E c ?doc) s = (Inr n, put_bucket (bucket_of c) b' s)"
    "map_of (statsFromDocument ?doc) c = Some n" "restored (be_dao E) c db0 (bs_db s (bucket_of c)) b'"
    by (auto simp: restores_def)
  let ?s = "put_bucket (bucket_of c) b' s"
  have other: "bucket_of c' \<noteq> bucket_of c" if "c' \<in> set cs" for c'
    using bucket_of_inj Cons.prems that unfolding inj_on_def by (metis distinct.simps(2) list.set_intros subsetD)
  then obtain db' where db': "run_state (import_loop E ?doc cs (acc @ [(c, n)])) ?s
       = ((acc @ [(c, n)] @ counts_of ?doc cs, None), ?s\<lparr>bs_db := db'\<rparr>)"
     "\<forall>c' \<in> set cs. restored (be_dao E) c' db0 (bs_db s (bucket_of c')) (db' (bucket_of c'))"
     "\<forall>name. name \<notin> bucket_of ` set cs \<longrightarrow> db' name = bs_db ?s name"
    using Cons.IH [of ?s "acc @ [(c, n)]"] Cons.prems by auto
  have "bucket_of c \<notin> bucket_of ` set cs" using other by force
  with db'(3) have "db' (bucket_of c) = b'" by simp
  with c db' show ?case
    by (intro exI [of _ db']) (auto simp: counts_of_def put_bucket_def)
qed

end
