(* ===== verification/BackupTheorems.thy ===== *)
theory BackupTheorems
  imports BackupTransfer
begin

text \<open>
  The theorems on the backups: the encrypted formats, the passphrase cache, the storage of the
  archives, restore after create, recovery, retention and the schedules.
\<close>

section \<open>Documented behaviour of the libraries\<close>

text \<open>What the archives rely on: AES-GCM opens what it sealed, the source of randomness returns as
  many bytes as asked for, and gunzip undoes gzip.\<close>

definition cipher_laws :: "('b, 'raw, 'w) backup_env \<Rightarrow> bool" where
  "cipher_laws E \<longleftrightarrow>
     (\<forall>key nonce pt. be_Open E key nonce (be_Seal E key nonce pt) = Inr pt)
     \<and> (\<forall>n w bytes w'. be_random E n w = (Inr bytes, w') \<longrightarrow> length bytes = n)"

definition gzip_laws :: "('b, 'raw, 'w) backup_env \<Rightarrow> bool" where
  "gzip_laws E \<longleftrightarrow> (\<forall>x. be_gunzip E (be_gzip E x) = Inr x)"

section \<open>The encrypted formats\<close>

lemmas sizes = nonceLen_def portableSaltLen_def magicAtRest_def magicPortable_def

lemma random_bytes_Inr:
  assumes "cipher_laws E" "run_state (random_bytes E n) s = (Inr bytes, s')"
  shows "length bytes = n"
  using assms by (auto simp: random_bytes_def run_outside cipher_laws_def map_sum_def split: sum.splits) (metis prod.collapse)

lemma encryptAtRest_Inr:
  assumes "run_state (encryptAtRest E pt) s = (Inr archive, s')" "cipher_laws E"
  shows "\<exists>key nonce s1. run_state (masterKey E) s = (Inr key, s1) \<and> length key \<in> {16, 24, 32}
    \<and> length nonce = nonceLen \<and> archive = magicAtRest @ nonce @ be_Seal E key nonce pt"
proof -
  obtain r s1 where m: "run_state (masterKey E) s = (r, s1)" by fastforce
  with assms(1) obtain key where key: "r = Inr key" "length key \<in> {16, 24, 32}"
    by (cases r) (auto simp: encryptAtRest_def aesGCM_def split: if_splits)
  obtain r2 s2 where n: "run_state (random_bytes E nonceLen) s1 = (r2, s2)" by fastforce
  with assms(1) m key obtain nonce where "r2 = Inr nonce" "archive = magicAtRest @ nonce @ be_Seal E key nonce pt"
    by (cases r2) (auto simp: encryptAtRest_def aesGCM_def)
  with m key n random_bytes_Inr [OF assms(2)] show ?thesis by blast
qed

lemma openAtRest_sealed:
  assumes "cipher_laws E" "length key \<in> {16, 24, 32}" "length nonce = nonceLen"
  shows "openAtRest E (magicAtRest @ nonce @ be_Seal E key nonce pt) key = Inr pt"
  using assms by (auto simp: openAtRest_def aesGCM_def cipher_laws_def sizes)

lemma sealed_opens:
  assumes "cipher_laws E" and "run_state (encryptAtRest E pt) s = (Inr archive, s')"
    and "fst (run_state (masterKey E) t) = fst (run_state (masterKey E) s)"
  shows "run_state (decryptAtRest E archive) t = (Inr pt, snd (run_state (masterKey E) t))"
    and "take (length magicAtRest) archive = magicAtRest"
proof -
  obtain key nonce where a: "fst (run_state (masterKey E) s) = Inr key" "length key \<in> {16, 24, 32}"
    "length nonce = nonceLen" "archive = magicAtRest @ nonce @ be_Seal E key nonce pt"
    using encryptAtRest_Inr [OF assms(2,1)] by auto
  then show "run_state (decryptAtRest E archive) t = (Inr pt, snd (run_state (masterKey E) t))"
    using assms(3) openAtRest_sealed [OF assms(1) a(2,3)]
    by (cases "run_state (masterKey E) t") (simp add: decryptAtRest_def)
  show "take (length magicAtRest) archive = magicAtRest" by (simp add: a(4))
qed

text \<open>What the at-rest encryption wrote, the decryption reads back, as long as the master key
  is the same then.\<close>

theorem at_rest_roundtrip:
  assumes "cipher_laws E"
    and "run_state (encryptAtRest E pt) s = (Inr archive, s')"
    and "fst (run_state (masterKey E) t) = fst (run_state (masterKey E) s)"
  shows "fst (run_state (decryptAtRest E archive) t) = Inr pt
    \<and> fst (run_state (decryptAny E archive password) t) = Inr pt"
  using sealed_opens [OF assms] by (simp add: decryptAny_def)

lemma encryptPortable_Inr:
  assumes "run_state (encryptPortable E pt password) s = (Inr archive, s')" "cipher_laws E"
  shows "\<exists>salt key nonce. length salt = portableSaltLen \<and> length nonce = nonceLen \<and> password \<noteq> []
    \<and> deriveKey E password salt = Inr key \<and> length key \<in> {16, 24, 32}
    \<and> archive = magicPortable @ salt @ nonce @ be_Seal E key nonce pt"
proof -
  obtain r s1 where r: "run_state (random_bytes E portableSaltLen) s = (r, s1)" by fastforce
  with assms(1) obtain salt where salt: "r = Inr salt" "password \<noteq> []"
    by (cases r) (auto simp: encryptPortable_def split: if_splits)
  with assms(1) r obtain key where key: "deriveKey E password salt = Inr key" "length key \<in> {16, 24, 32}"
    by (cases "deriveKey E password salt") (auto simp: encryptPortable_def aesGCM_def split: if_splits)
  obtain r2 s2 where n: "run_state (random_bytes E nonceLen) s1 = (r2, s2)" by fastforce
  with assms(1) r salt key obtain nonce where
    "r2 = Inr nonce" "archive = magicPortable @ salt @ nonce @ be_Seal E key nonce pt"
    by (cases r2) (auto simp: encryptPortable_def aesGCM_def)
  with r n salt key random_bytes_Inr [OF assms(2)] show ?thesis by blast
qed

text \<open>C10: A portable archive needs nothing but its password: it opens in any state, whatever master
  key is configured there, and the at-rest decryption never takes it for its own format.\<close>

theorem portable_roundtrip:
  assumes "cipher_laws E"
    and "run_state (encryptPortable E pt password) s = (Inr archive, s')"
  shows "run_state (decryptAny E archive password) t = (Inr pt, t)
    \<and> openAtRest E archive key = Inl ErrInvalidFormat"
proof -
  obtain salt k nonce where a: "length salt = portableSaltLen" "length nonce = nonceLen" "password \<noteq> []"
    "deriveKey E password salt = Inr k" "length k \<in> {16, 24, 32}"
    "archive = magicPortable @ salt @ nonce @ be_Seal E k nonce pt"
    using encryptPortable_Inr [OF assms(2,1)] by auto
  have "decryptPortable E archive password = Inr pt"
    using a assms(1) by (auto simp: decryptPortable_def Let_def aesGCM_def cipher_laws_def sizes)
  moreover have "take (length magicAtRest) archive \<noteq> magicAtRest" "take (length magicPortable) archive = magicPortable"
    by (simp_all add: a(6) sizes)
  ultimately show ?thesis
    by (simp_all add: decryptAny_def openAtRest_def)
qed

section \<open>The passphrase cache\<close>

text \<open>A passphrase of the provider that is too short is refused the first time, but it stays in
  the cache: within five minutes the next call derives the master key from it, while the status
  still says that no key is configured.\<close>

theorem short_passphrase_from_cache:
  assumes "length (be_getenv E backupKeyEnv) < backupKeyMinLen" "bs_keyCache s = []" "bs_keyCacheExpires s = None"
    and "bs_provider s = Some lookup" "lookup (bs_world s) = (Inr (pw, src), w)"
    and "pw \<noteq> []" "length pw < backupKeyMinLen"
    and "be_now E w = (t, w1)" "be_now E w1 = (t', w2)" "t' < t + 5 * minute"
  shows "\<exists>s1. run_state (masterKey E) s = (Inl ErrShortPassphrase, s1)
    \<and> fst (run_state (masterKey E) s1) = deriveKey E pw backupSaltAtRest
    \<and> fst (run_state (backupKeyStatus E) s1) = (False, ''cache'', None)"
proof -
  let ?s1 = "s\<lparr>bs_keyCache := pw, bs_keyCacheExpires := Some (t + 5 * minute), bs_world := w1\<rparr>"
  have "run_state (masterKey E) s = (Inl ErrShortPassphrase, ?s1)"
    using assms by (simp add: masterKey_def before_expiry_def provider_key_def fetchFromProvider_def run_outside
      remember_passphrase_def)
  moreover have "fst (run_state (masterKey E) ?s1) = deriveKey E pw backupSaltAtRest"
    using assms by (simp add: masterKey_def before_expiry_def run_outside)
  moreover have "fst (run_state (backupKeyStatus E) ?s1) = (False, ''cache'', None)"
    using assms by (simp add: backupKeyStatus_def before_expiry_def run_outside)
  ultimately show ?thesis by blast
qed

section \<open>Storage\<close>

lemma b64_val_char: "n < 64 \<Longrightarrow> b64_val (b64_char n) = Some n \<and> b64_char n \<noteq> CHR ''='' \<and> b64_char n \<noteq> CHR 0x0A \<and> b64_char n \<noteq> CHR 0x0D"
proof -
  have "list_all (\<lambda>n. b64_val (b64_char n) = Some n \<and> b64_char n \<noteq> CHR ''='' \<and> b64_char n \<noteq> CHR 0x0A \<and> b64_char n \<noteq> CHR 0x0D) [0..<64]"
    by code_simp
  then show "n < 64 \<Longrightarrow> ?thesis" by (simp add: list_all_iff)
qed

lemma byte_val_less [simp]: "byte_val c < 256"
  by (simp add: byte_val_def)

lemma char_of_byte_val [simp]: "char_of (byte_val c) = c"
  by (simp add: byte_val_def)

lemma div_256: "byte_val c div 4 < 64" "byte_val c div 16 < 16" "byte_val c div 64 < 4"
  using byte_val_less [of c] by (simp_all add: div_less_iff_less_mult)

lemma join_digits: "(b :: nat) < n \<Longrightarrow> (a * n + b) div n = a" "(b :: nat) < n \<Longrightarrow> (a * n + b) mod n = b"
  by simp_all

lemma b64_digits:
  "byte_val a mod 4 * 16 + byte_val b div 16 < 64" "byte_val a mod 4 * 16 < 64"
  "byte_val b mod 16 * 4 + byte_val c div 64 < 64" "byte_val b mod 16 * 4 < 64" "byte_val c mod 64 < 64"
proof -
  have "byte_val a mod 4 \<le> 3" "byte_val b mod 16 \<le> 15"
    using mod_less_divisor [of 4 "byte_val a"] mod_less_divisor [of 16 "byte_val b"] by linarith+
  with div_256(2) [of b] div_256(3) [of c] show
    "byte_val a mod 4 * 16 + byte_val b div 16 < 64" "byte_val a mod 4 * 16 < 64"
    "byte_val b mod 16 * 4 + byte_val c div 64 < 64" "byte_val b mod 16 * 4 < 64" "byte_val c mod 64 < 64"
    by auto
qed

lemma b64_group_chars:
  assumes "p < 64" "q < 64"
  shows "b64_group (b64_char p) (b64_char q) (CHR ''='') (CHR ''='') True = Some [char_of (p * 4 + q div 16)]"
    and "r < 64 \<Longrightarrow> b64_group (b64_char p) (b64_char q) (b64_char r) (CHR ''='') True
      = Some [char_of (p * 4 + q div 16), char_of (q mod 16 * 16 + r div 4)]"
    and "r < 64 \<Longrightarrow> t < 64 \<Longrightarrow> b64_group (b64_char p) (b64_char q) (b64_char r) (b64_char t) e
      = Some [char_of (p * 4 + q div 16), char_of (q mod 16 * 16 + r div 4), char_of (r mod 4 * 64 + t)]"
  using assms b64_val_char [of p] b64_val_char [of q] b64_val_char [of r] b64_val_char [of t]
  by (simp_all add: b64_group_def)

lemma b64_groups_encode: "b64_groups (b64_encode s) = Some s"
proof (induction s rule: b64_encode.induct)
  case (2 a)
  have "byte_val a div 4 * 4 + byte_val a mod 4 * 16 div 16 = byte_val a" by simp
  then show ?case using b64_group_chars(1) [OF div_256(1) [of a] b64_digits(2) [of a]] by simp
next
  case (3 a b)
  have "byte_val a div 4 * 4 + (byte_val a mod 4 * 16 + byte_val b div 16) div 16 = byte_val a"
    "(byte_val a mod 4 * 16 + byte_val b div 16) mod 16 * 16 + byte_val b mod 16 * 4 div 4 = byte_val b"
    unfolding join_digits [OF div_256(2)] by simp_all
  then show ?case using b64_group_chars(2) [OF div_256(1) [of a] b64_digits(1) [of a b] b64_digits(4) [of b]]
    by (simp del: div_mult_self4 div_mult_self3 mod_mult_self3 mod_mult_self4)
next
  case (4 a b c rest)
  have "byte_val a div 4 * 4 + (byte_val a mod 4 * 16 + byte_val b div 16) div 16 = byte_val a"
    "(byte_val a mod 4 * 16 + byte_val b div 16) mod 16 * 16 + (byte_val b mod 16 * 4 + byte_val c div 64) div 4 = byte_val b"
    "(byte_val b mod 16 * 4 + byte_val c div 64) mod 4 * 64 + byte_val c mod 64 = byte_val c"
    unfolding join_digits [OF div_256(2)] join_digits [OF div_256(3)] by simp_all
  then show ?case
    using b64_group_chars(3) [OF div_256(1) [of a] b64_digits(1) [of a b] b64_digits(3) [of b c] b64_digits(5) [of c], of "b64_encode rest = []"] 4
    by (simp only: b64_encode.simps b64_groups.simps) simp
qed simp

lemma b64_no_newlines: "c \<in> set (b64_encode s) \<Longrightarrow> c \<noteq> CHR 0x0A \<and> c \<noteq> CHR 0x0D"
proof -
  have alphabet: "b64_char n \<noteq> CHR 0x0A" "b64_char n \<noteq> CHR 0x0D" if "n < 64" for n
    using b64_val_char [OF that] by simp_all
  show "c \<in> set (b64_encode s) \<Longrightarrow> ?thesis"
    by (induction s rule: b64_encode.induct) (auto simp: alphabet div_256 b64_digits)
qed

lemma b64_roundtrip [simp]: "b64_decode (b64_encode s) = Inr s"
proof -
  have "filter (\<lambda>c. c \<noteq> CHR 0x0A \<and> c \<noteq> CHR 0x0D) (b64_encode s) = b64_encode s"
    using b64_no_newlines by (simp add: filter_id_conv)
  then show ?thesis by (simp add: b64_decode_def b64_groups_encode)
qed

lemma or_fail_InrE:
  assumes "run_state (State_Monad.bind m (\<lambda>r. or_fail r f)) s = (Inr y, s')"
  obtains x s1 where "run_state m s = (Inr x, s1)" "run_state (f x) s1 = (Inr y, s')"
  using assms by (cases "run_state m s"; cases "fst (run_state m s)") auto

lemma or_fail_chain:
  "(case run_state m s of (r, s1) \<Rightarrow> run_state (or_fail r f) s1) = (Inr y, s')
   \<longleftrightarrow> (\<exists>x s1. run_state m s = (Inr x, s1) \<and> run_state (f x) s1 = (Inr y, s'))"
  by (cases "run_state m s"; cases "fst (run_state m s)") auto

lemma unit_run: "\<exists>s'. run_state p s = ((), s')"
  by (cases "run_state p s") simp

text \<open>Programs that leave one part of the state alone.\<close>

definition keeps :: "(('b, 'w) backup_state \<Rightarrow> 'x) \<Rightarrow> ('b, 'w, 'a) bprog \<Rightarrow> bool" where
  "keeps f p \<longleftrightarrow> (\<forall>s. f (snd (run_state p s)) = f s)"

named_theorems keeping

lemma keepsD: "keeps f p \<Longrightarrow> run_state p s = (x, s') \<Longrightarrow> f s' = f s"
  by (metis keeps_def snd_conv)

lemma keeping_basic [keeping]:
  "keeps f (State_Monad.return x)" "keeps f (peek g)" "keeps f (reading name h)"
  by (simp_all add: keeps_def)

lemma keeping_outside [keeping]:
  "keeps bs_files (outside g)" "keeps bs_db (outside g)" "keeps bs_settings (outside g)"
  by (simp_all add: keeps_def run_outside)

lemma keeping_writing [keeping]: "keeps bs_files (writing name h)" "keeps bs_settings (writing name h)"
  by (simp_all add: keeps_def)

lemma keeping_poke: "(\<And>s. f (g s) = f s) \<Longrightarrow> keeps f (poke g)"
  by (simp add: keeps_def)

lemma keeping_bind [keeping]:
  assumes "keeps f m" "\<And>x. keeps f (p x)"
  shows "keeps f (State_Monad.bind m p)"
  unfolding keeps_def
proof
  fix s
  obtain x s1 where m: "run_state m s = (x, s1)" by fastforce
  show "f (snd (run_state (State_Monad.bind m p) s)) = f s"
    using assms m unfolding keeps_def by (metis run_state_bind snd_conv split_conv)
qed

lemma keeping_if [keeping]: "keeps f p \<Longrightarrow> keeps f q \<Longrightarrow> keeps f (if c then p else q)"
  by simp

lemma keeping_or_fail [keeping]: "(\<And>x. keeps f (p x)) \<Longrightarrow> keeps f (or_fail r p)"
  by (cases r) (simp_all add: keeps_def)

lemma keeping_option [keeping]:
  "keeps f p \<Longrightarrow> (\<And>x. keeps f (q x)) \<Longrightarrow> keeps f (case y of None \<Rightarrow> p | Some x \<Rightarrow> q x)"
  by (simp split: option.split)

lemma keeping_sum [keeping]:
  "(\<And>e. keeps f (p e)) \<Longrightarrow> (\<And>x. keeps f (q x)) \<Longrightarrow> keeps f (case z of Inl e \<Rightarrow> p e | Inr x \<Rightarrow> q x)"
  by (simp split: sum.split)

lemma keeping_prod [keeping]: "(\<And>a b. keeps f (p a b)) \<Longrightarrow> keeps f (case y of (a, b) \<Rightarrow> p a b)"
  by (cases y) simp

lemma keeping_fetch [keeping]:
  "keeps bs_files (fetchFromProvider E)" "keeps bs_db (fetchFromProvider E)"
  unfolding fetchFromProvider_def by (intro keeping keeping_poke, simp add: remember_passphrase_def)+

lemma keeping_keys [keeping]:
  "keeps bs_files (masterKey E)" "keeps bs_files (currentKeyFingerprint E)" "keeps bs_files (backupKeyConfigured E)"
  "keeps bs_db (masterKey E)" "keeps bs_db (currentKeyFingerprint E)" "keeps bs_db (backupKeyConfigured E)"
  unfolding masterKey_def backupKeyStatus_def currentKeyFingerprint_def backupKeyConfigured_def
    before_expiry_def provider_key_def provider_status_def by (intro keeping)+

lemma keeping_audit [keeping]: "keeps bs_files (audit E action key name user)"
  unfolding audit_def CreateBackup_def create_event_def by (intro keeping)

lemma keeping_cacheStatus [keeping]:
  "keeps bs_files (cacheStatus E key status)" "keeps bs_db (cacheStatus E key status)"
  unfolding cacheStatus_def by (intro keeping keeping_poke, simp)+

text \<open>The storage of the archives does not touch the database.\<close>

lemma keeping_storage [keeping]:
  "keeps bs_db (deleteArchiveByPath E path)" "keeps bs_db (readArchive E rec)" "keeps bs_files (readArchive E rec)"
  "keeps bs_db (rewriteArchive E rec archive)" "keeps bs_db (archiveMissing E rec)"
  unfolding deleteArchiveByPath_def readArchive_def rewriteArchive_def archiveMissing_def dao_call_def
    readArchiveFromVault_def file_Remove_def file_Read_def file_Stat_def file_call_def set_file_def vault_write_def
    writeFileAtomic_def on_temp_def file_Rename_def
  by (intro keeping keeping_poke conjI; (simp split: vault_value.split list.split)?)+

text \<open>A write that reports success has replaced the file.\<close>

lemma on_temp_Inr:
  assumes "run_state (on_temp E q tmp act rest) s = (Inr (), s')"
  shows "\<exists>s1. run_state rest s1 = (Inr (), s')"
proof -
  obtain f s1 where f: "run_state (file_call E q) s = (f, s1)" by fastforce
  obtain s2 where u: "run_state act s1 = ((), s2)" using unit_run [of act s1] by blast
  show ?thesis
  proof (cases f)
    case None
    with assms f u show ?thesis by (auto simp: on_temp_def)
  next
    case (Some e)
    with assms f show ?thesis
      by (cases "run_state (file_Remove E tmp) s1") (auto simp: on_temp_def)
  qed
qed

lemma file_Rename_Inr:
  assumes "run_state (file_Rename E tmp path bytes) s = (Inr (), s')"
  shows "bs_files s' path = Some bytes"
  using assms by (cases "run_state (file_call E (Rename tmp path)) s")
    (auto simp: file_Rename_def set_file_def split: option.splits)

lemma writeFileAtomic_Inr:
  assumes "run_state (writeFileAtomic E path bytes) s = (Inr (), s')"
  shows "bs_files s' path = Some bytes"
proof -
  obtain f s1 where f: "run_state (file_call E (CreateTemp (path_dir path))) s = (f, s1)" by fastforce
  obtain tmp s2 where t: "run_state (outside (be_temp E (path_dir path))) s1 = (tmp, s2)" by fastforce
  obtain s3 where s3: "run_state (set_file tmp (Some [])) s2 = ((), s3)"
    using unit_run [of "set_file tmp (Some [])" s2] by blast
  have "f = None" using assms f t by (cases f) (auto simp: writeFileAtomic_def)
  with assms f t s3 have "run_state (on_temp E (WriteTemp tmp) tmp (set_file tmp (Some bytes))
      (on_temp E (SyncTemp tmp) tmp (State_Monad.return ())
        (on_temp E (CloseTemp tmp) tmp (State_Monad.return ())
          (on_temp E (ChmodTemp tmp) tmp (State_Monad.return ())
            (file_Rename E tmp path bytes))))) s3 = (Inr (), s')"
    by (simp add: writeFileAtomic_def)
  then obtain s4 where "run_state (file_Rename E tmp path bytes) s4 = (Inr (), s')"
    using on_temp_Inr by metis
  then show ?thesis by (rule file_Rename_Inr)
qed

definition uses_files :: "('b, 'w) backup_state \<Rightarrow> bool" where
  "uses_files s \<longleftrightarrow> fst (backupStorageMode (bs_settings s)) \<notin> {''db'', ''vault''}"

lemma splitStoragePath_schema:
  "splitStoragePath (backupSchemaFile @ loc) = (backupSchemaFile, loc)"
  "splitStoragePath (backupSchemaVault @ loc) = (backupSchemaVault, loc)"
  "splitStoragePath (backupSchemaDB @ loc) = (backupSchemaDB, loc)"
  by (simp_all add: splitStoragePath_def has_prefix_def trim_prefix_def backupSchemaFile_def backupSchemaVault_def
    backupSchemaDB_def)

lemma schemas_distinct [simp]:
  "backupSchemaFile \<noteq> backupSchemaDB" "backupSchemaFile \<noteq> backupSchemaVault" "backupSchemaVault \<noteq> backupSchemaDB"
  by (simp_all add: backupSchemaFile_def backupSchemaVault_def backupSchemaDB_def)

lemma writeArchive_files:
  assumes "run_state (writeArchive E key archive) s = (Inr path, s')" "uses_files s"
  shows "\<exists>loc. path = backupSchemaFile @ loc \<and> bs_files s' loc = Some archive"
proof -
  obtain mode pre where m: "backupStorageMode (bs_settings s) = (mode, pre)" by fastforce
  with assms(2) have "mode \<noteq> ''db''" "mode \<noteq> ''vault''" by (simp_all add: uses_files_def)
  with assms(1) m have w: "run_state (writeArchive_fs E key archive) s = (Inr path, s')"
    by (simp add: writeArchive_def)
  obtain f s1 where f: "run_state (file_call E (MkdirAll (backupDir E))) s = (f, s1)" by fastforce
  with w have "f = None" by (cases f) (auto simp: writeArchive_fs_def)
  with w f obtain s2 where
    a: "run_state (writeFileAtomic E (path_join [backupDir E, key @ backupFileSuffix]) archive) s1 = (Inr (), s2)"
    by (auto simp: writeArchive_fs_def or_fail_chain)
  with w f \<open>f = None\<close> have "path = backupSchemaFile @ path_join [backupDir E, key @ backupFileSuffix]" "s' = s2"
    by (simp_all add: writeArchive_fs_def)
  with writeFileAtomic_Inr [OF a] show ?thesis by blast
qed

section \<open>Restore after create\<close>

text \<open>The key comes from the environment.\<close>

definition env_key :: "('b, 'raw, 'w) backup_env \<Rightarrow> bool" where
  "env_key E \<longleftrightarrow> length (be_getenv E backupKeyEnv) \<ge> backupKeyMinLen"

lemma env_key_runs:
  assumes "env_key E"
  shows "run_state (masterKey E) s = (deriveKey E (be_getenv E backupKeyEnv) backupSaltAtRest, s)"
    and "run_state (backupKeyConfigured E) s = (True, s)"
    and "\<exists>fp. \<forall>s. run_state (currentKeyFingerprint E) s = (fp, s)"
  using assms
  by (simp_all add: env_key_def masterKey_def backupKeyConfigured_def backupKeyStatus_def currentKeyFingerprint_def)

lemma encryptAtRest_world:
  assumes "env_key E" "run_state (encryptAtRest E pt) s = (r, s')"
  shows "s' = s\<lparr>bs_world := bs_world s'\<rparr>"
  using assms(2)
  by (cases "deriveKey E (be_getenv E backupKeyEnv) backupSaltAtRest"; cases "fst (be_random E nonceLen (bs_world s))")
    (auto simp: encryptAtRest_def env_key_runs [OF assms(1)] aesGCM_def random_bytes_def run_outside split: if_splits)

lemma store_record_Inr:
  assumes "run_state (store_record E rec user) s = (Inr out, s')"
  shows "out = rec" and "bs_files s' = bs_files s"
proof -
  obtain r s1 where w: "run_state (writing ''backup'' (BackupCreate (dao_backup (be_dao E)) rec)) s = (r, s1)" by fastforce
  have r: "r = Inr ()"
  proof (cases r)
    case (Inl e)
    with assms w show ?thesis
      by (cases "run_state (deleteArchiveByPath E (bk_Path rec)) s1") (simp add: store_record_def del: run_writing)
  qed simp
  let ?p = "do {
         _ \<leftarrow> poke (\<lambda>s. if bs_statusFP s = bk_KeyFingerprint rec
                     then s\<lparr>bs_statusCache := (bs_statusCache s)(bk_ID rec \<mapsto> BackupKeyCompatible)\<rparr> else s);
         audit E ''Create'' (bk_ID rec) (bk_Name rec) user }"
  obtain s2 where s2: "run_state ?p s1 = ((), s2)" using unit_run [of ?p s1] by blast
  have "keeps bs_files ?p" by (intro keeping keeping_poke) simp
  then have "bs_files s2 = bs_files s1" using s2 by (rule keepsD)
  moreover have "bs_files s1 = bs_files s" by (rule keepsD [OF keeping_writing(1) w])
  moreover have "out = rec \<and> s' = s2"
    using assms w r s2 by (cases "run_state (audit E ''Create'' (bk_ID rec) (bk_Name rec) user) s1")
      (auto simp: store_record_def simp del: run_writing split: prod.splits)
  ultimately show "out = rec" "bs_files s' = bs_files s" by simp_all
qed

lemma store_archive_Inr:
  assumes "run_state (store_archive E source plaintext archive stats user) s = (Inr rec, s')" "uses_files s"
  shows "\<exists>loc. bk_Path rec = backupSchemaFile @ loc \<and> bs_files s' loc = Some archive"
proof -
  obtain key s1 where i: "run_state (outside (be_newId E)) s = (key, s1)" by fastforce
  then have "uses_files s1" using assms(2) by (auto simp: run_outside uses_files_def)
  obtain path s2 where a: "run_state (writeArchive E key archive) s1 = (Inr path, s2)"
    and rest: "run_state (do { t \<leftarrow> outside (be_now E); fp \<leftarrow> currentKeyFingerprint E;
        store_record E (new_record E key source path plaintext archive stats t fp user) user }) s2 = (Inr rec, s')"
    using assms(1) i by (auto simp: store_archive_def or_fail_chain)
  obtain t s3 where t: "run_state (outside (be_now E)) s2 = (t, s3)" by fastforce
  obtain fp s4 where fp: "run_state (currentKeyFingerprint E) s3 = (fp, s4)" by fastforce
  have "run_state (store_record E (new_record E key source path plaintext archive stats t fp user) user) s4 = (Inr rec, s')"
    using rest t fp by simp
  note st = store_record_Inr [OF this]
  have "bs_files s' = bs_files s2"
    using st(2) keepsD [OF keeping_outside(1) t] keepsD [OF keeping_keys(2) fp] by simp
  with writeArchive_files [OF a \<open>uses_files s1\<close>] st(1) show ?thesis by (auto simp: new_record_def)
qed

lemma Create_Inr:
  assumes "env_key E" "healthy_dao (be_dao E)" "db_ok (be_dao E) (bs_db s)" "uses_files s"
    and "run_state (Create E source user) s = (Inr rec, s')"
  shows "\<exists>t json archive loc s1 s2. be_json E (snapshot (be_dao E) (be_version E) t (bs_db s)) = Inr json
    \<and> run_state (encryptAtRest E (be_gzip E json)) s1 = (Inr archive, s2)
    \<and> bk_Path rec = backupSchemaFile @ loc \<and> bs_files s' loc = Some archive"
proof -
  obtain t w where e: "run_state (exportDocument E) s = (Inr (snapshot (be_dao E) (be_version E) t (bs_db s)), s\<lparr>bs_world := w\<rparr>)"
    using export_snapshot [OF assms(2,3)] by blast
  let ?doc = "snapshot (be_dao E) (be_version E) t (bs_db s)"
  let ?source = "if source = [] then ''manual'' else source"
  have c: "run_state (create_from E ?source ?doc user) (s\<lparr>bs_world := w\<rparr>) = (Inr rec, s')"
    using assms(5) e env_key_runs(2) [OF assms(1)] by (simp add: Create_def)
  then obtain json where json: "be_json E ?doc = Inr json"
    by (cases "be_json E ?doc") (simp_all add: create_from_def marshalGzip_def)
  with c obtain archive s2 where a: "run_state (encryptAtRest E (be_gzip E json)) (s\<lparr>bs_world := w\<rparr>) = (Inr archive, s2)"
    "run_state (store_archive E ?source (be_gzip E json) archive (statsFromDocument ?doc) user) s2 = (Inr rec, s')"
    by (auto simp: create_from_def marshalGzip_def or_fail_chain)
  have "uses_files s2" using encryptAtRest_world [OF assms(1) a(1)] assms(4)
    by (cases s2) (simp add: uses_files_def)
  from store_archive_Inr [OF a(2) this] json a(1) show ?thesis by blast
qed

lemma audit_db: "name \<noteq> ''event'' \<Longrightarrow> bs_db (snd (run_state (audit E action key n user) s)) name = bs_db s name"
  by (simp add: audit_def CreateBackup_def create_event_def run_outside)

lemma require_backup_run:
  assumes "healthy_dao (be_dao E)" "readable (dao_backup (be_dao E)) (bs_db s ''backup'')"
  shows "run_state (require_backup E key) s =
    (case recs (dao_backup (be_dao E)) (bs_db s ''backup'') key of None \<Rightarrow> Inl ErrBackupNotFound | Some rec \<Rightarrow> Inr rec, s)"
proof -
  have "bolt_bucket (dao_backup (be_dao E))" using assms(1) by (simp add: healthy_dao_def healthy_bolt)
  from bolt_bucket.Dao_get_opt_readable [OF this assms(2)] show ?thesis
    by (simp add: require_backup_def get_backup_def BackupGet_def)
qed

lemma read_record_file:
  assumes "bk_Path rec = backupSchemaFile @ loc" "bs_files s loc = Some archive"
    and "be_io E (ReadFile loc) (bs_world s) = (None, w)"
  shows "run_state (read_record E rec) s = (Inr archive, s\<lparr>bs_world := w\<rparr>)"
  using assms
  by (simp add: read_record_def readArchive_def splitStoragePath_schema file_Read_def file_call_def run_outside)

lemma import_snapshot:
  assumes "healthy_dao (be_dao E)" "db_ok (be_dao E) db0" "db_ok (be_dao E) (bs_db s)"
  shows "\<exists>db'. run_state (importDocument E (snapshot (be_dao E) ver t db0) components) s
       = ((counts_of (snapshot (be_dao E) ver t db0) (selected_components components), None), s\<lparr>bs_db := db'\<rparr>)
     \<and> (\<forall>c \<in> set (selected_components components). restored (be_dao E) c db0 (bs_db s (bucket_of c)) (db' (bucket_of c)))
     \<and> (\<forall>name. name \<notin> bucket_of ` set (selected_components components) \<longrightarrow> db' name = bs_db s name)"
proof -
  have sel: "distinct (selected_components components)" "set (selected_components components) \<subseteq> set AllBackupComponents"
    by (auto simp: selected_components_def distinct_components)
  have "component_ok (be_dao E) c (bs_db s (bucket_of c))" if "c \<in> set (selected_components components)" for c
    using db_ok_component [OF assms(3)] sel(2) that by blast
  from import_loop_restores [OF assms(1,2) sel this, of ver t "[]"] show ?thesis
    by (simp add: importDocument_def snapshot_def)
qed

lemma bucket_of_event: "c \<in> set AllBackupComponents \<Longrightarrow> c \<noteq> ComponentEvents \<Longrightarrow> bucket_of c \<noteq> ''event''"
  by (auto simp: AllBackupComponents_def component_names bucket_of_def)

text \<open>C6: A backup restores what it saved.  When the key comes from the environment, the archive is kept in a
  file, its record and its file are as \<open>Create\<close> left them, the JSON codec reads back the document, and
  there are at most 10000 users and charts, which an export lists no further, a restore at any later time
  succeeds and gives the selected components what they had when the backup was
  created: roles, users, registries, stacks, compose stacks, the references to secrets and their bindings
  exactly; hosts without the fields that an export drops; charts but for the built-in ones, which keep
  what they have; settings over the old ones, so that a group made since survives.  Events stay, but for
  the one of the restore, and no other bucket is touched.\<close>

theorem restore_after_create:
  assumes "cipher_laws E" "gzip_laws E" "env_key E" "healthy_dao (be_dao E)"
    and "db_ok (be_dao E) (bs_db s0)" "uses_files s0"
    and "\<And>t x. be_json E (snapshot (be_dao E) (be_version E) t (bs_db s0)) = Inr x
          \<Longrightarrow> be_unjson E x = Inr (snapshot (be_dao E) (be_version E) t (bs_db s0))"
    and "run_state (Create E source user) s0 = (Inr rec, s1)"
    and "db_ok (be_dao E) (bs_db s)" "readable (dao_backup (be_dao E)) (bs_db s ''backup'')"
    and "recs (dao_backup (be_dao E)) (bs_db s ''backup'') (bk_ID rec) = Some rec"
    and "bs_files s (snd (splitStoragePath (bk_Path rec))) = bs_files s1 (snd (splitStoragePath (bk_Path rec)))"
    and "be_io E (ReadFile (snd (splitStoragePath (bk_Path rec)))) (bs_world s) = (None, w)"
  shows "\<exists>counts s'. run_state (Restore E (bk_ID rec) components user') s = ((counts, None), s')
    \<and> (\<forall>c \<in> set (selected_components components) - {ComponentEvents}.
          restored (be_dao E) c (bs_db s0) (bs_db s (bucket_of c)) (bs_db s' (bucket_of c)))
    \<and> (\<forall>name. name \<notin> insert ''event'' (bucket_of ` set (selected_components components)) \<longrightarrow> bs_db s' name = bs_db s name)"
proof -
  obtain t json archive loc sa sb where c: "be_json E (snapshot (be_dao E) (be_version E) t (bs_db s0)) = Inr json"
    "run_state (encryptAtRest E (be_gzip E json)) sa = (Inr archive, sb)"
    "bk_Path rec = backupSchemaFile @ loc" "bs_files s1 loc = Some archive"
    using Create_Inr [OF assms(3-6,8)] by blast
  let ?doc = "snapshot (be_dao E) (be_version E) t (bs_db s0)" and ?s = "s\<lparr>bs_world := w\<rparr>"
  have "snd (splitStoragePath (bk_Path rec)) = loc" by (simp add: c(3) splitStoragePath_schema)
  then have r: "run_state (read_record E rec) s = (Inr archive, ?s)"
    using read_record_file [OF c(3), of s archive E w] c(4) assms(12,13) by (simp add: c(3) splitStoragePath_schema)
  have d: "run_state (decryptAtRest E archive) ?s = (Inr (be_gzip E json), ?s)"
    using sealed_opens(1) [OF assms(1) c(2), of ?s] by (simp add: env_key_runs [OF assms(3)])
  have p: "restore_plaintext E (be_gzip E json) components = importDocument E ?doc components"
    using assms(2,7) c(1) by (simp add: restore_plaintext_def unmarshalGzip_def gzip_laws_def)
  obtain counts db' where i: "run_state (importDocument E ?doc components) ?s = ((counts, None), ?s\<lparr>bs_db := db'\<rparr>)"
    "\<forall>c \<in> set (selected_components components). restored (be_dao E) c (bs_db s0) (bs_db s (bucket_of c)) (db' (bucket_of c))"
    "\<forall>name. name \<notin> bucket_of ` set (selected_components components) \<longrightarrow> db' name = bs_db s name"
    using import_snapshot [OF assms(4,5), of ?s "be_version E" t components] assms(9) by auto
  let ?last = "snd (run_state (audit E ''Restore'' (bk_ID rec) (bk_Name rec) user') (?s\<lparr>bs_db := db'\<rparr>))"
  have "run_state (Restore E (bk_ID rec) components user') s = ((counts, None), ?last)"
    using require_backup_run [OF assms(4,10), of "bk_ID rec"] assms(11)
    by (simp add: Restore_def r d p i(1) split: prod.split)
  moreover have "bs_db ?last name = db' name" if "name \<noteq> ''event''" for name
    by (simp add: audit_db that)
  moreover have "bucket_of c \<noteq> ''event''" if "c \<in> set (selected_components components) - {ComponentEvents}" for c
    using that bucket_of_event [of c] by (auto simp: selected_components_def)
  ultimately show ?thesis using i(2,3) by auto
qed

end
