(* ===== verification/BackupOutcomes.thy ===== *)
theory BackupOutcomes
  imports BackupTheorems
begin

text \<open>
  Further theorems on the backups: recovery with an old passphrase, and retention.
\<close>

section \<open>Recovery\<close>





section \<open>Retention\<close>

lemma Delete_backup_run:
  assumes "healthy_dao (be_dao E)" "readable (dao_backup (be_dao E)) (bs_db s ''backup'')"
    and "recs (dao_backup (be_dao E)) (bs_db s ''backup'') key = Some rec"
  shows "\<exists>b' s'. run_state (Delete_backup E key None) s = (Inr (), s') \<and> bs_db s' = (bs_db s)(''backup'' := b')
    \<and> readable (dao_backup (be_dao E)) b'
    \<and> recs (dao_backup (be_dao E)) b' = (recs (dao_backup (be_dao E)) (bs_db s ''backup''))(key := None)"
proof -
  have h: "healthy_bucket (dao_backup (be_dao E))" using assms(1) by (simp add: healthy_dao_def)
  obtain b' where b': "Dao_delete (dao_backup (be_dao E)) key (bs_db s ''backup'') = (Inr (), b')"
    "readable (dao_backup (be_dao E)) b'"
    "recs (dao_backup (be_dao E)) b' = (recs (dao_backup (be_dao E)) (bs_db s ''backup''))(key := None)"
    using healthy_bucket.delete_step [OF h assms(2)] by blast
  let ?s1 = "put_bucket ''backup'' b' s"
  let ?p = "if bk_Path rec = [] then State_Monad.return (Inr ()) else deleteArchiveByPath E (bk_Path rec)"
  obtain r s2 where s2: "run_state ?p ?s1 = (r, s2)" by fastforce
  have "keeps bs_db ?p" by (intro keeping)
  then have "bs_db s2 = bs_db ?s1" using s2 by (rule keepsD)
  then have db: "bs_db s2 = (bs_db s)(''backup'' := b')" by (simp add: put_bucket_def)
  have "run_state (Delete_backup E key None) s = (Inr (), s2\<lparr>bs_statusCache := (bs_statusCache s2)(key := None)\<rparr>)"
    using require_backup_run [OF assms(1,2), of key] assms(3) b'(1) s2
    by (simp add: Delete_backup_def BackupDelete_def audit_def)
  with db b' show ?thesis by auto
qed

lemma delete_old_run:
  assumes "healthy_dao (be_dao E)" "readable (dao_backup (be_dao E)) (bs_db s ''backup'')"
    and "distinct keys" "\<And>k. k \<in> set keys \<Longrightarrow> recs (dao_backup (be_dao E)) (bs_db s ''backup'') k \<noteq> None"
  shows "\<exists>b' s'. run_state (delete_old E keys n) s = (n + length keys, s') \<and> bs_db s' = (bs_db s)(''backup'' := b')
    \<and> readable (dao_backup (be_dao E)) b'
    \<and> recs (dao_backup (be_dao E)) b' = recs (dao_backup (be_dao E)) (bs_db s ''backup'') |` (- set keys)"
  using assms(2-)
proof (induction keys arbitrary: s n)
  case Nil
  then show ?case by (intro exI [of _ "bs_db s ''backup''"] exI [of _ s]) simp
next
  case (Cons k keys)
  then obtain rec where "recs (dao_backup (be_dao E)) (bs_db s ''backup'') k = Some rec" by fastforce
  then obtain b1 s1 where s1: "run_state (Delete_backup E k None) s = (Inr (), s1)" "bs_db s1 = (bs_db s)(''backup'' := b1)"
    "readable (dao_backup (be_dao E)) b1"
    "recs (dao_backup (be_dao E)) b1 = (recs (dao_backup (be_dao E)) (bs_db s ''backup''))(k := None)"
    using Delete_backup_run [OF assms(1) Cons.prems(1)] by blast
  have left: "recs (dao_backup (be_dao E)) (bs_db s1 ''backup'') j \<noteq> None" if "j \<in> set keys" for j
    using Cons.prems(2,3) s1(2,4) that by auto
  have "readable (dao_backup (be_dao E)) (bs_db s1 ''backup'')" "distinct keys" using s1(2,3) Cons.prems(2) by simp_all
  from Cons.IH [OF this left, of "n + 1"] obtain b' s' where s': "run_state (delete_old E keys (n + 1)) s1 = (n + 1 + length keys, s')"
    "bs_db s' = (bs_db s1)(''backup'' := b')" "readable (dao_backup (be_dao E)) b'"
    "recs (dao_backup (be_dao E)) b' = recs (dao_backup (be_dao E)) (bs_db s1 ''backup'') |` (- set keys)"
    by blast
  have "recs (dao_backup (be_dao E)) b' = recs (dao_backup (be_dao E)) (bs_db s ''backup'') |` (- set (k # keys))"
    unfolding s'(4) s1(2) by (auto simp: s1(4) restrict_map_def fun_eq_iff)
  with s1 s' show ?case by (intro exI [of _ b'] exI [of _ s']) simp
qed

lemma newest_first_idem [simp]: "newest_first t (newest_first t xs) = newest_first t xs"
proof -
  have "sorted (map (\<lambda>x. - t x) (newest_first t xs))" by (simp add: newest_first_def)
  then show ?thesis unfolding newest_first_def by (metis sort_key_id_if_sorted)
qed

lemma newest_first_split:
  assumes "newest_first t xs = as @ bs" "a \<in> set as" "b \<in> set bs"
  shows "t b \<le> t a"
proof -
  have "sorted (map (\<lambda>x. - t x) (as @ bs))" using assms(1) [symmetric] by (simp add: newest_first_def)
  with assms(2,3) show ?thesis by (auto simp: sorted_append)
qed

text \<open>C9: Retention keeps the newest backups of a source: it removes exactly those beyond the limit
  in the order of creation, none of which is newer than one that is kept, counts them, and leaves
  every other record and bucket alone.\<close>

theorem ApplyRetention_keeps_newest:
  assumes "healthy_dao (be_dao E)" "keyed (dao_backup (be_dao E)) bk_ID (bs_db s ''backup'')" "keep > 0"
  shows "\<exists>kept old s'. newest_first bk_CreatedAt (filter (\<lambda>r. bk_Source r = source) (vals (dao_backup (be_dao E)) (bs_db s ''backup''))) = kept @ old
    \<and> run_state (ApplyRetention E source keep) s = (Inr (length old), s')
    \<and> int (length kept) \<le> keep \<and> (old \<noteq> [] \<longrightarrow> int (length kept) = keep)
    \<and> (\<forall>r \<in> set kept. \<forall>q \<in> set old. bk_CreatedAt q \<le> bk_CreatedAt r)
    \<and> recs (dao_backup (be_dao E)) (bs_db s' ''backup'')
        = recs (dao_backup (be_dao E)) (bs_db s ''backup'') |` (- bk_ID ` set old)
    \<and> (\<forall>name. name \<noteq> ''backup'' \<longrightarrow> bs_db s' name = bs_db s name)"
proof -
  let ?db = "dao_backup (be_dao E)" and ?b = "bs_db s ''backup''"
  let ?all = "newest_first bk_CreatedAt (filter (\<lambda>r. bk_Source r = source) (vals ?db ?b))"
  have h: "healthy_bucket ?db" using assms(1) by (simp add: healthy_dao_def)
  have read: "readable ?db ?b" using assms(2) by (simp add: keyed_def)
  have list: "BackupGetBySource ?db source ?b = Inr ?all"
    by (simp add: BackupGetBySource_def bolt_bucket.Dao_each_collect [OF healthy_bolt [OF h] read])
  show ?thesis
  proof (cases "int (length ?all) \<le> keep")
    case True
    then show ?thesis
      using assms(3) list by (intro exI [of _ ?all] exI [of _ "[]"] exI [of _ s]) (auto simp: ApplyRetention_def)
  next
    case False
    let ?kept = "take (nat keep) ?all" and ?old = "drop (nat keep) ?all"
    note v = bolt_bucket.vals_index [OF healthy_bolt [OF h] assms(2)]
    have d: "distinct (map bk_ID ?old)"
      using v(2) by (simp add: distinct_newest_first distinct_map_filter flip: drop_map)
    have "recs ?db ?b (bk_ID r) = Some r" if "r \<in> set ?old" for r
      using v(3) [of r] in_set_dropD [OF that] by simp
    then have "recs ?db ?b k \<noteq> None" if "k \<in> set (map bk_ID ?old)" for k using that by auto
    then obtain b' s' where s': "run_state (delete_old E (map bk_ID ?old) 0) s = (length ?old, s')"
      "bs_db s' = (bs_db s)(''backup'' := b')" "recs ?db b' = recs ?db ?b |` (- set (map bk_ID ?old))"
      using delete_old_run [OF assms(1) read d, of 0] by auto
    moreover have "run_state (ApplyRetention E source keep) s = (Inr (length ?old), s')"
      using assms(3) False list s'(1) by (simp add: ApplyRetention_def)
    moreover have "\<forall>r \<in> set ?kept. \<forall>q \<in> set ?old. bk_CreatedAt q \<le> bk_CreatedAt r"
      using newest_first_split [of bk_CreatedAt _ ?kept ?old] by simp
    ultimately show ?thesis
      using False assms(3) by (intro exI [of _ ?kept] exI [of _ ?old] exI [of _ s']) auto
  qed
qed

end
