(* ===== verification/StorageTypes.thy ===== *)
theory StorageTypes
  imports BackupTransfer Auth StackHistory
begin

text \<open>
  The typing of the database: every record of the sixteen buckets can be decoded and is stored under
  its own id, a session under its id or that of its user, and every write of dao/bolt keeps it so.
  The writes are the steps of a transition relation over all buckets.
\<close>

section \<open>Well-typed databases\<close>

text \<open>The DAO, with the three buckets that no backup has.\<close>

record ('b, 'raw) storage =
  sg_dao :: "('b, 'raw) swirl_dao"
  sg_session :: "('b, 'raw, session) bolt"
  sg_dashboard :: "('b, 'raw, dashboard) bolt"
  sg_version :: "('b, 'raw, compose_stack_version) bolt"

definition healthy_storage :: "('b, 'raw) storage \<Rightarrow> bool" where
  "healthy_storage g \<longleftrightarrow> healthy_dao (sg_dao g) \<and> healthy_bucket (sg_session g) \<and> healthy_bucket (sg_dashboard g)
     \<and> healthy_bucket (sg_version g)"

text \<open>Every record can be decoded, and goes with its key.\<close>

definition stored :: "('b, 'raw, 'v) bolt \<Rightarrow> (string \<Rightarrow> 'v \<Rightarrow> bool) \<Rightarrow> 'b \<Rightarrow> bool" where
  "stored db P b \<longleftrightarrow> readable db b \<and> (\<forall>k v. recs db b k = Some v \<longrightarrow> P k v)"

lemma keyed_stored: "keyed db key b \<longleftrightarrow> stored db (\<lambda>k v. key v = k) b"
  by (simp add: keyed_def stored_def)

definition session_key :: "string \<Rightarrow> session \<Rightarrow> bool" where
  "session_key k x \<longleftrightarrow> k = se_ID x \<or> k = se_UserID x"

definition typed :: "('b, 'raw) storage \<Rightarrow> string \<Rightarrow> 'b \<Rightarrow> bool" where
  "typed g name b =
     (if name = ''setting'' then keyed (dao_setting (sg_dao g)) st_ID b
      else if name = ''role'' then keyed (dao_role (sg_dao g)) ro_ID b
      else if name = ''user'' then keyed (dao_user (sg_dao g)) us_ID b
      else if name = ''registry'' then keyed (dao_registry (sg_dao g)) rg_ID b
      else if name = ''stack'' then keyed (dao_stack (sg_dao g)) sk_Name b
      else if name = ''compose_stack'' then keyed (dao_compose_stack (sg_dao g)) cs_ID b
      else if name = ''host'' then keyed (dao_host (sg_dao g)) ho_ID b
      else if name = ''chart'' then keyed (dao_chart (sg_dao g)) ch_ID b
      else if name = ''vault_secret'' then keyed (dao_vault_secret (sg_dao g)) vs_ID b
      else if name = ''compose_stack_secret_binding'' then keyed (dao_binding (sg_dao g)) sb_ID b
      else if name = ''event'' then keyed (dao_event (sg_dao g)) ev_ID b
      else if name = ''backup'' then keyed (dao_backup (sg_dao g)) bk_ID b
      else if name = ''backup_schedule'' then keyed (dao_schedule (sg_dao g)) sc_ID b
      else if name = ''session'' then stored (sg_session g) session_key b
      else if name = ''dashboard'' then keyed (sg_dashboard g) (\<lambda>x. dashboard_ID (da_Name x) (da_Key x)) b
      else if name = ''compose_stack_version'' then keyed (sg_version g) v_ID b
      else True)"

lemma session_key_simps [simp]:
  "session_key (se_ID x) x" "session_key (se_UserID x) x"
  "session_key k (x\<lparr>se_Expiry := t, se_UpdatedAt := t'\<rparr>) = session_key k x"
  "session_key k (mark uid rid t x) = session_key k x"
  by (simp_all add: session_key_def mark_def)

definition well_typed :: "('b, 'raw) storage \<Rightarrow> (string \<Rightarrow> 'b) \<Rightarrow> bool" where
  "well_typed g db \<longleftrightarrow> (\<forall>name. typed g name (db name))"

lemma typed_buckets:
  "typed g ''setting'' b = keyed (dao_setting (sg_dao g)) st_ID b"
  "typed g ''role'' b = keyed (dao_role (sg_dao g)) ro_ID b"
  "typed g ''user'' b = keyed (dao_user (sg_dao g)) us_ID b"
  "typed g ''registry'' b = keyed (dao_registry (sg_dao g)) rg_ID b"
  "typed g ''stack'' b = keyed (dao_stack (sg_dao g)) sk_Name b"
  "typed g ''compose_stack'' b = keyed (dao_compose_stack (sg_dao g)) cs_ID b"
  "typed g ''host'' b = keyed (dao_host (sg_dao g)) ho_ID b"
  "typed g ''chart'' b = keyed (dao_chart (sg_dao g)) ch_ID b"
  "typed g ''vault_secret'' b = keyed (dao_vault_secret (sg_dao g)) vs_ID b"
  "typed g ''compose_stack_secret_binding'' b = keyed (dao_binding (sg_dao g)) sb_ID b"
  "typed g ''event'' b = keyed (dao_event (sg_dao g)) ev_ID b"
  "typed g ''backup'' b = keyed (dao_backup (sg_dao g)) bk_ID b"
  "typed g ''backup_schedule'' b = keyed (dao_schedule (sg_dao g)) sc_ID b"
  "typed g ''session'' b = stored (sg_session g) session_key b"
  "typed g ''dashboard'' b = keyed (sg_dashboard g) (\<lambda>x. dashboard_ID (da_Name x) (da_Key x)) b"
  "typed g ''compose_stack_version'' b = keyed (sg_version g) v_ID b"
  by (simp_all add: typed_def)

text \<open>One write to one bucket.  \<open>EventPrune\<close> and \<open>SessionPrune\<close> delete inside of \<open>ForEach\<close>, where bolt does not
  say which entries the iteration then visits: they may delete any of the old records.\<close>

inductive dao_write :: "('b, 'raw) storage \<Rightarrow> string \<Rightarrow> 'b \<Rightarrow> 'b \<Rightarrow> bool" for g where
  "dao_write g ''setting'' b (snd (SettingUpdate (dao_setting (sg_dao g)) setting b))"
| "dao_write g ''role'' b (snd (RoleCreate (dao_role (sg_dao g)) role b))"
| "dao_write g ''role'' b (snd (RoleUpdate (dao_role (sg_dao g)) role b))"
| "dao_write g ''role'' b (snd (RoleDelete (dao_role (sg_dao g)) k b))"
| "dao_write g ''user'' b (snd (UserCreate (dao_user (sg_dao g)) user b))"
| "dao_write g ''user'' b (snd (UserUpdate (dao_user (sg_dao g)) user b))"
| "dao_write g ''user'' b (snd (UserUpdateStatus (dao_user (sg_dao g)) user b))"
| "dao_write g ''user'' b (snd (UserUpdateProfile (dao_user (sg_dao g)) user b))"
| "dao_write g ''user'' b (snd (UserUpdatePassword (dao_user (sg_dao g)) user b))"
| "dao_write g ''user'' b (snd (UserDelete (dao_user (sg_dao g)) k b))"
| "dao_write g ''registry'' b (snd (RegistryCreate (dao_registry (sg_dao g)) registry b))"
| "dao_write g ''registry'' b (snd (RegistryUpdate (dao_registry (sg_dao g)) registry b))"
| "dao_write g ''registry'' b (snd (RegistryDelete (dao_registry (sg_dao g)) k b))"
| "dao_write g ''stack'' b (snd (StackCreate (dao_stack (sg_dao g)) stack b))"
| "dao_write g ''stack'' b (snd (StackDelete (dao_stack (sg_dao g)) k b))"
| "dao_write g ''compose_stack'' b (snd (ComposeStackCreate (dao_compose_stack (sg_dao g)) cs b))"
| "dao_write g ''compose_stack'' b (snd (ComposeStackUpdate (dao_compose_stack (sg_dao g)) cs b))"
| "dao_write g ''compose_stack'' b (snd (ComposeStackUpdateStatus (dao_compose_stack (sg_dao g)) k status b))"
| "dao_write g ''compose_stack'' b (snd (ComposeStackUpdateError (dao_compose_stack (sg_dao g)) k msg b))"
| "dao_write g ''compose_stack'' b (snd (ComposeStackUpdateWarnings (dao_compose_stack (sg_dao g)) k warnings b))"
| "dao_write g ''compose_stack'' b (snd (ComposeStackDelete (dao_compose_stack (sg_dao g)) k b))"
| "dao_write g ''host'' b (snd (HostCreate (dao_host (sg_dao g)) host b))"
| "dao_write g ''host'' b (snd (HostUpdate (dao_host (sg_dao g)) host b))"
| "dao_write g ''host'' b (snd (HostUpdateStatus (dao_host (sg_dao g)) k status msg ver os arch cpus mem b))"
| "dao_write g ''host'' b (snd (HostUpdateAddonConfigExtract (dao_host (sg_dao g)) k text b))"
| "dao_write g ''host'' b (snd (HostDelete (dao_host (sg_dao g)) k b))"
| "dao_write g ''chart'' b (snd (ChartCreate (dao_chart (sg_dao g)) chart b))"
| "dao_write g ''chart'' b (snd (ChartUpdate (dao_chart (sg_dao g)) chart b))"
| "dao_write g ''chart'' b (snd (ChartDelete (dao_chart (sg_dao g)) k b))"
| "dao_write g ''vault_secret'' b (snd (VaultSecretCreate (dao_vault_secret (sg_dao g)) secret b))"
| "dao_write g ''vault_secret'' b (snd (VaultSecretUpdate (dao_vault_secret (sg_dao g)) secret b))"
| "dao_write g ''vault_secret'' b (snd (VaultSecretDelete (dao_vault_secret (sg_dao g)) k b))"
| "dao_write g ''compose_stack_secret_binding'' b (snd (BindingUpsert (dao_binding (sg_dao g)) binding b))"
| "dao_write g ''compose_stack_secret_binding'' b (snd (BindingDelete (dao_binding (sg_dao g)) k b))"
| "dao_write g ''compose_stack_secret_binding'' b (snd (BindingDeleteByStack (dao_binding (sg_dao g)) k b))"
| "dao_write g ''event'' b (snd (EventCreate (dao_event (sg_dao g)) event b))"
| "(\<And>k. k \<in> set ks \<Longrightarrow> \<exists>x. recs (dao_event (sg_dao g)) b k = Some x \<and> ev_Time x < time) \<Longrightarrow>
    dao_write g ''event'' b (snd (delete_keys (dao_event (sg_dao g)) ks b))"
| "dao_write g ''backup'' b (snd (BackupCreate (dao_backup (sg_dao g)) backup b))"
| "dao_write g ''backup'' b (snd (BackupUpdate (dao_backup (sg_dao g)) backup b))"
| "dao_write g ''backup'' b (snd (BackupDelete (dao_backup (sg_dao g)) k b))"
| "dao_write g ''backup_schedule'' b (snd (BackupScheduleUpsert (dao_schedule (sg_dao g)) schedule b))"
| "dao_write g ''backup_schedule'' b (snd (BackupScheduleTouch (dao_schedule (sg_dao g)) k time b))"
| "dao_write g ''backup_schedule'' b (snd (BackupScheduleDelete (dao_schedule (sg_dao g)) k b))"
| "dao_write g ''session'' b (snd (SessionCreate (sg_session g) session b))"
| "dao_write g ''session'' b (snd (SessionUpdate (sg_session g) session b))"
| "dao_write g ''session'' b (snd (SessionUpdateExpiry (sg_session g) k time time' b))"
| "dao_write g ''session'' b (snd (SessionUpdateDirty (sg_session g) k k' time b))"
| "(\<And>k. k \<in> set ks \<Longrightarrow> \<exists>x. recs (sg_session g) b k = Some x \<and> se_Expiry x + hour < time) \<Longrightarrow>
    dao_write g ''session'' b (snd (delete_keys (sg_session g) ks b))"
| "dao_write g ''dashboard'' b (snd (DashboardUpdate (sg_dashboard g) dash b))"
| "dao_write g ''compose_stack_version'' b (snd (ComposeStackVersionCreate (sg_version g) version b))"
| "dao_write g ''compose_stack_version'' b (snd (ComposeStackVersionDeleteByStack (sg_version g) k b))"
| "dao_write g ''compose_stack_version'' b (snd (ComposeStackVersionPrune (sg_version g) k keep b))"

text \<open>A step of the database.  \<open>StackUpdate\<close> goes to the bucket of the roles; it is a step only
  where no role has the name of the stack as its id.\<close>

inductive dao_step :: "('b, 'raw) storage \<Rightarrow> (string \<Rightarrow> 'b) \<Rightarrow> (string \<Rightarrow> 'b) \<Rightarrow> bool" for g where
  bucket_write: "dao_write g name (db name) b' \<Longrightarrow> dao_step g db (db(name := b'))"
| stack_update: "Get (dao_stack (sg_dao g)) (sk_Name stack) (db ''role'') = None
    \<Longrightarrow> dao_step g db (db(''role'' := snd (StackUpdate (dao_stack (sg_dao g)) stack (db ''role''))))"

section \<open>Preservation\<close>

context bolt_bucket
begin

lemma stored_replace: "stored db P b \<Longrightarrow> P k v \<Longrightarrow> stored db P (snd (Dao_replace db k v b))"
proof -
  assume a: "stored db P b" "P k v"
  obtain r b' where r: "Dao_replace db k v b = (r, b')" by fastforce
  show ?thesis
  proof (cases r)
    case (Inl e)
    with r a show ?thesis by (auto simp: Dao_replace_def db_update_def split: sum.splits)
  next
    case (Inr u)
    then show ?thesis using Dao_replace_recs [of k v b b'] r a by (auto simp: stored_def)
  qed
qed

lemma stored_delete: "stored db P b \<Longrightarrow> stored db P (snd (Dao_delete db k b))"
proof -
  assume a: "stored db P b"
  obtain r b' where r: "Dao_delete db k b = (r, b')" by fastforce
  show ?thesis
  proof (cases r)
    case (Inl e)
    with r a show ?thesis by (auto simp: Dao_delete_def db_update_def split: sum.splits)
  next
    case (Inr u)
    then show ?thesis using Dao_delete_recs [of k b b'] r a by (auto simp: stored_def split: if_splits)
  qed
qed

lemma stored_update:
  assumes "stored db P b" "\<And>old. P k old \<Longrightarrow> P k (f old)"
  shows "stored db P (snd (Dao_update db k f b))"
proof -
  obtain r b' where r: "Dao_update db k f b = (r, b')" by fastforce
  show ?thesis
  proof (cases r)
    case (Inl e)
    with r assms show ?thesis by (auto simp: Dao_update_def db_update_def split: sum.splits)
  next
    case (Inr u)
    then show ?thesis using Dao_update_recs [of k f b b'] r assms by (auto simp: stored_def split: if_splits)
  qed
qed

lemma stored_delete_keys: "stored db P b \<Longrightarrow> stored db P (snd (delete_keys db ks b))"
proof (induction ks arbitrary: b)
  case (Cons k ks)
  from stored_delete [OF Cons.prems, of k] show ?case
    using Cons.IH by (auto split: prod.split sum.split)
qed simp

lemmas keyed_replace = stored_replace [where P = "\<lambda>k v. key v = k" for key, folded keyed_stored]
lemmas keyed_delete = stored_delete [where P = "\<lambda>k v. key v = k" for key, folded keyed_stored]
lemmas keyed_update = stored_update [where P = "\<lambda>k v. key v = k" for key, folded keyed_stored]
lemmas keyed_delete_keys = stored_delete_keys [where P = "\<lambda>k v. key v = k" for key, folded keyed_stored]

end

text \<open>A session is marked in place.\<close>

lemma SessionUpdateDirty_stored:
  assumes "healthy_bucket db" "stored db session_key b"
  shows "stored db session_key (snd (SessionUpdateDirty db uid rid time b))"
proof -
  obtain r b' where r: "SessionUpdateDirty db uid rid time b = (r, b')" by fastforce
  have sb: "session_bucket db" using assms(1) by (simp add: session_bucket_def healthy_bolt)
  show ?thesis
  proof (cases r)
    case (Inl e)
    with r assms show ?thesis by (auto simp: SessionUpdateDirty_def db_update_def split: sum.splits)
  next
    case (Inr u)
    with session_bucket.SessionUpdateDirty_recs [OF sb, of uid rid time b b'] r assms(2) show ?thesis
      by (auto simp: stored_def)
  qed
qed

lemma delete_versions_keys: "delete_versions db ks b = delete_keys db ks b"
  by (induction ks arbitrary: b) (auto split: prod.split sum.split)

lemmas keyed_writes = bolt_bucket.keyed_replace [OF healthy_bolt] bolt_bucket.keyed_update [OF healthy_bolt]
  bolt_bucket.keyed_delete [OF healthy_bolt] bolt_bucket.keyed_delete_keys [OF healthy_bolt]
  bolt_bucket.stored_replace [OF healthy_bolt] bolt_bucket.stored_update [OF healthy_bolt]
  bolt_bucket.stored_delete_keys [OF healthy_bolt] SessionUpdateDirty_stored

lemmas replace_ops = SettingUpdate_def RoleCreate_def UserCreate_def RegistryCreate_def StackCreate_def ComposeStackCreate_def
  HostCreate_def ChartCreate_def VaultSecretCreate_def BindingUpsert_def EventCreate_def BackupCreate_def BackupUpdate_def
  BackupScheduleUpsert_def SessionCreate_def SessionUpdate_def DashboardUpdate_def ComposeStackVersionCreate_def
lemmas update_ops = RoleUpdate_def UserUpdate_def UserUpdateStatus_def UserUpdateProfile_def UserUpdatePassword_def
  RegistryUpdate_def ComposeStackUpdate_def ComposeStackUpdateStatus_def ComposeStackUpdateError_def
  ComposeStackUpdateWarnings_def HostUpdate_def kept_of_host_def HostUpdateStatus_def HostUpdateAddonConfigExtract_def
  ChartUpdate_def VaultSecretUpdate_def BackupScheduleTouch_def SessionUpdateExpiry_def
lemmas delete_ops = RoleDelete_def UserDelete_def RegistryDelete_def StackDelete_def ComposeStackDelete_def HostDelete_def
  ChartDelete_def VaultSecretDelete_def BindingDelete_def BindingDeleteByStack_def BackupDelete_def BackupScheduleDelete_def
  ComposeStackVersionDeleteByStack_def ComposeStackVersionPrune_def delete_versions_keys

lemma write_typed:
  assumes "dao_write g name b b'" "healthy_storage g" "typed g name b"
  shows "typed g name b'"
  using assms
  by (induction rule: dao_write.induct)
    (simp_all add: typed_buckets healthy_storage_def healthy_dao_def replace_ops update_ops delete_ops keyed_writes
      split: sum.split)

lemma step_well_typed:
  assumes "dao_step g db db'" "healthy_storage g" "well_typed g db"
  shows "well_typed g db'"
  using assms
proof (induction rule: dao_step.induct)
  case (bucket_write name db b')
  then show ?case using write_typed [of g name "db name" b'] by (simp add: well_typed_def)
next
  case (stack_update stack db)
  then have "db(''role'' := snd (StackUpdate (dao_stack (sg_dao g)) stack (db ''role''))) = db"
    by (simp add: StackUpdate_def Dao_update_def db_update_def)
  with stack_update show ?case by simp
qed

text \<open>C8: The database stays well-typed: after any sequence of writes of the DAO, to any of its sixteen
  buckets, every record can be decoded as a record of its bucket and has the key it is stored under
  as its id, but for the sessions, whose key is their id or the id of their user.  The one
  write that goes to a bucket of another type, \<open>StackUpdate\<close>, is harmless only as long as no role
  has the name of the stack as its id.\<close>

theorem storage_well_typed:
  assumes "healthy_storage g" "well_typed g db" "(dao_step g)\<^sup>*\<^sup>* db db'"
  shows "well_typed g db'"
  using assms(3,2) by (induction rule: rtranclp_induct) (simp_all add: step_well_typed [OF _ assms(1)])

end
