(* ===== verification/BackupWitnesses.thy ===== *)
theory BackupWitnesses
  imports BackupOutcomes StorageTypes
begin

text \<open>
  A small database that meets every law the theorems on the backups rely on, and the theorems applied
  to it.
\<close>

section \<open>One type of records for all buckets\<close>

datatype raw_record =
    RawSetting setting | RawRole dao_role | RawUser dao_user | RawRegistry registry | RawStack dao_stack
  | RawComposeStack compose_stack | RawHost dao_host | RawChart chart | RawSecret vault_secret
  | RawBinding secret_binding | RawEvent dao_event | RawBackup backup | RawSchedule backup_schedule
  | RawSession session | RawDashboard dashboard | RawVersion compose_stack_version

text \<open>A bucket of such records that decodes those of one constructor only.\<close>

definition typed_bolt :: "('v \<Rightarrow> raw_record) \<Rightarrow> (raw_record \<Rightarrow> 'v option) \<Rightarrow> (raw_record bucket, raw_record, 'v) bolt" where
  "typed_bolt con sel =
     (let read = (\<lambda>x. case sel x of None \<Rightarrow> Inl ''unexpected record'' | Some v \<Rightarrow> Inr v) in
      \<lparr>Put = (\<lambda>k x b. Inr (bucket_put k x b)), Get = bucket_get, Delete = (\<lambda>k b. Inr (bucket_delete k b)),
       Entries = entries, encode = (\<lambda>v. Inr (con v)), decode = read, decode_into = (\<lambda>x u. read x)\<rparr>)"

lemma typed_bolt_simps [simp]:
  "Put (typed_bolt con sel) k x b = Inr (bucket_put k x b)" "Get (typed_bolt con sel) = bucket_get"
  "Delete (typed_bolt con sel) k b = Inr (bucket_delete k b)" "Entries (typed_bolt con sel) = entries"
  "encode (typed_bolt con sel) v = Inr (con v)"
  "decode (typed_bolt con sel) x = (case sel x of None \<Rightarrow> Inl ''unexpected record'' | Some v \<Rightarrow> Inr v)"
  by (simp_all add: typed_bolt_def)

lemma bucket_laws [simp]:
  "bucket_get k' (bucket_put k v b) = (if k' = k then Some v else bucket_get k' b)"
  "bucket_get k' (bucket_delete k b) = (if k' = k then None else bucket_get k' b)"
  "bucket_get k empty_bucket = None"
  using entries [of b] by (auto simp: bucket_eval map_of_alist_put map_of_filter_key)

lemma typed_bolt_healthy: "(\<And>v. sel (con v) = Some v) \<Longrightarrow> healthy_bucket (typed_bolt con sel)"
proof unfold_locales
  show "distinct (map fst (Entries (typed_bolt con sel) b))" for b
    using entries [of b] by (simp add: sorted_distinct)
  show "map_of (Entries (typed_bolt con sel) b) k = Get (typed_bolt con sel) k b" for b k
    by (simp add: bucket_eval)
qed auto

definition demo_dao :: "(raw_record bucket, raw_record) swirl_dao" where
  "demo_dao =
     \<lparr>dao_setting = typed_bolt RawSetting (\<lambda>x. case x of RawSetting v \<Rightarrow> Some v | _ \<Rightarrow> None),
      dao_role = typed_bolt RawRole (\<lambda>x. case x of RawRole v \<Rightarrow> Some v | _ \<Rightarrow> None),
      dao_user = typed_bolt RawUser (\<lambda>x. case x of RawUser v \<Rightarrow> Some v | _ \<Rightarrow> None),
      dao_registry = typed_bolt RawRegistry (\<lambda>x. case x of RawRegistry v \<Rightarrow> Some v | _ \<Rightarrow> None),
      dao_stack = typed_bolt RawStack (\<lambda>x. case x of RawStack v \<Rightarrow> Some v | _ \<Rightarrow> None),
      dao_compose_stack = typed_bolt RawComposeStack (\<lambda>x. case x of RawComposeStack v \<Rightarrow> Some v | _ \<Rightarrow> None),
      dao_host = typed_bolt RawHost (\<lambda>x. case x of RawHost v \<Rightarrow> Some v | _ \<Rightarrow> None),
      dao_chart = typed_bolt RawChart (\<lambda>x. case x of RawChart v \<Rightarrow> Some v | _ \<Rightarrow> None),
      dao_vault_secret = typed_bolt RawSecret (\<lambda>x. case x of RawSecret v \<Rightarrow> Some v | _ \<Rightarrow> None),
      dao_binding = typed_bolt RawBinding (\<lambda>x. case x of RawBinding v \<Rightarrow> Some v | _ \<Rightarrow> None),
      dao_event = typed_bolt RawEvent (\<lambda>x. case x of RawEvent v \<Rightarrow> Some v | _ \<Rightarrow> None),
      dao_backup = typed_bolt RawBackup (\<lambda>x. case x of RawBackup v \<Rightarrow> Some v | _ \<Rightarrow> None),
      dao_schedule = typed_bolt RawSchedule (\<lambda>x. case x of RawSchedule v \<Rightarrow> Some v | _ \<Rightarrow> None)\<rparr>"

lemma demo_dao_healthy [simp]: "healthy_dao demo_dao"
  by (simp add: healthy_dao_def demo_dao_def typed_bolt_healthy)

section \<open>A small environment\<close>

text \<open>One role in an otherwise empty database.\<close>

definition demo_role :: dao_role where
  "demo_role = \<lparr>ro_ID = ''r'', ro_Name = ''ops'', ro_Description = [], ro_Perms = [''stack.view''], ro_UpdatedAt = 0,
     ro_CreatedAt = 0, ro_CreatedBy = no_operator, ro_UpdatedBy = no_operator\<rparr>"

definition demo_db :: "string \<Rightarrow> raw_record bucket" where
  "demo_db = (\<lambda>_. empty_bucket)(''role'' := bucket_put ''r'' (RawRole demo_role) empty_bucket)"

definition empty_document :: backup_document where
  "empty_document = snapshot demo_dao ''2.0'' 0 demo_db"

text \<open>A cipher that puts the key before the text, a clock that stands still, a disk that works, and a json
  encoding of the documents of this database: the time of the export.\<close>

definition demo_env :: "(raw_record bucket, raw_record, unit) backup_env" where
  "demo_env =
     \<lparr>be_dao = demo_dao, be_getenv = (\<lambda>x. if x = backupKeyEnv then replicate 16 CHR ''k'' else []),
      be_now = (\<lambda>w. (7, w)), be_random = (\<lambda>n w. (Inr (replicate n CHR ''n''), w)), be_newId = (\<lambda>w. (''b1'', w)),
      be_newObjectID = (\<lambda>w. (''e1'', w)), be_scrypt = (\<lambda>p s. if take 1 p = ''o'' then Inr (replicate 32 CHR ''o'') else Inr (replicate 32 CHR ''s'')),
      be_Seal = (\<lambda>k n x. k @ x), be_Open = (\<lambda>k n x. if take (length k) x = k then Inr (drop (length k) x) else Inl ''cipher: message authentication failed''),
      be_hmac = (\<lambda>k x. take 1 k), be_sha256 = (\<lambda>x. take 4 x),
      be_json = (\<lambda>d. Inr (if doc_ExportedAt d < 0 then CHR ''-'' # replicate (nat (- doc_ExportedAt d)) CHR ''1'' else replicate (nat (doc_ExportedAt d)) CHR ''1'')),
      be_unjson = (\<lambda>x. Inr (empty_document\<lparr>doc_ExportedAt := (if x \<noteq> [] \<and> hd x = CHR ''-'' then - int (length x - 1) else int (length x))\<rparr>)),
      be_gzip = id, be_gunzip = Inr, be_format = (\<lambda>t. ''t''), be_version = ''2.0'', be_io = (\<lambda>q w. (None, w)),
      be_temp = (\<lambda>p w. (''tmp'', w)), be_vault = Inl ''no vault'',
      be_archives = \<lparr>ad_Write = (\<lambda>k x w. (Inl errDBStorageNotSupported, w)), ad_Read = (\<lambda>k w. (Inl errDBStorageNotSupported, w)),
        ad_Delete = (\<lambda>k w. (Inl errDBStorageNotSupported, w))\<rparr>,
      be_rfc3339 = (\<lambda>t. ''t'')\<rparr>"

text \<open>Without a key in the environment, and with a provider that knows a passphrase of three letters.\<close>

definition keyless_env :: "(raw_record bucket, raw_record, unit) backup_env" where
  "keyless_env = demo_env\<lparr>be_getenv := (\<lambda>x. [])\<rparr>"

definition demo_server :: "(raw_record bucket, unit) backup_state" where
  "demo_server =
     \<lparr>bs_db = demo_db, bs_files = Map.empty, bs_provider = None, bs_keyCache = [], bs_keyCacheExpires = None,
      bs_statusCache = Map.empty, bs_statusFP = [], bs_settings = None, bs_world = ()\<rparr>"

lemma typed_recs [simp]:
  "recs (typed_bolt con sel) empty_bucket = Map.empty"
  "sel (con v) = Some v \<Longrightarrow> recs (typed_bolt con sel) (bucket_put k (con v) b) = (recs (typed_bolt con sel) b)(k \<mapsto> v)"
  by (auto simp: recs_def Dao_get_def fun_eq_iff)

lemma typed_readable [simp]:
  "readable (typed_bolt con sel) empty_bucket"
  "sel (con v) = Some v \<Longrightarrow> readable (typed_bolt con sel) b \<Longrightarrow> readable (typed_bolt con sel) (bucket_put k (con v) b)"
  by (auto simp: readable_def)

lemma vals_empty [simp]: "vals (typed_bolt con sel) empty_bucket = []"
  by (simp add: vals_def bucket_eval)

lemma demo_laws [simp]:
  "be_dao demo_env = demo_dao" "cipher_laws demo_env" "gzip_laws demo_env" "env_key demo_env"
  by (auto simp: demo_env_def cipher_laws_def gzip_laws_def env_key_def backupKeyMinLen_def min_def)

lemma demo_env_sels [simp]:
  "be_getenv demo_env x = (if x = backupKeyEnv then replicate 16 CHR ''k'' else [])" "be_now demo_env w = (7, w)"
  "be_random demo_env n w = (Inr (replicate n CHR ''n''), w)" "be_newId demo_env w = (''b1'', w)"
  "be_scrypt demo_env p x = Inr (replicate 32 (if take 1 p = ''o'' then CHR ''o'' else CHR ''s''))"
  "be_Seal demo_env k u x = k @ x" "be_gzip demo_env x = x" "be_gunzip demo_env x = Inr x" "be_version demo_env = ''2.0''"
  "be_io demo_env q w = (None, w)" "be_temp demo_env y w = (''tmp'', w)"
  by (simp_all add: demo_env_def)

lemma keyless_env_sels [simp]:
  "be_getenv keyless_env x = []" "be_now keyless_env = be_now demo_env" "be_scrypt keyless_env = be_scrypt demo_env"
  by (simp_all add: keyless_env_def)

lemma demo_server_sels [simp]:
  "bs_db demo_server = demo_db" "bs_settings demo_server = None" "bs_keyCache demo_server = []"
  "bs_keyCacheExpires demo_server = None" "bs_files demo_server = Map.empty"
  by (simp_all add: demo_server_def)

lemma demo_db_ok [simp]: "db_ok demo_dao demo_db" 
  by (simp add: db_ok_def demo_dao_def demo_db_def keyed_def demo_role_def) 

section \<open>The properties there\<close>

lemma demo_masterKey: "run_state (masterKey demo_env) s = (Inr (replicate 32 CHR ''s''), s)"
  by (simp add: env_key_runs [OF demo_laws(4)]) (simp add: deriveKey_def numeral_eq_Suc)

lemma demo_encrypt:
  "run_state (encryptAtRest demo_env pt) s = (Inr (magicAtRest @ replicate 12 CHR ''n'' @ replicate 32 CHR ''s'' @ pt), s)"
  by (simp add: encryptAtRest_def demo_masterKey aesGCM_def random_bytes_def run_outside nonceLen_def)

theorem at_rest_roundtrip_witness:
  "\<exists>archive s. run_state (encryptAtRest demo_env ''pt'') demo_server = (Inr archive, s)
     \<and> fst (run_state (decryptAny demo_env archive []) s) = Inr ''pt''"
  using at_rest_roundtrip [OF demo_laws(2) demo_encrypt, of demo_server demo_server "''pt''" "[]"] demo_encrypt [of "''pt''" demo_server]
  by blast

theorem portable_roundtrip_witness:
  "\<exists>archive s. run_state (encryptPortable demo_env ''pt'' ''secret'') demo_server = (Inr archive, s)
     \<and> run_state (decryptAny demo_env archive ''secret'') s = (Inr ''pt'', s)"
proof -
  have "\<exists>archive. run_state (encryptPortable demo_env ''pt'' ''secret'') demo_server = (Inr archive, demo_server)"
    by (simp add: encryptPortable_def aesGCM_def random_bytes_def run_outside deriveKey_def)
  then show ?thesis using portable_roundtrip [OF demo_laws(2)] by blast
qed

definition short_server :: "(raw_record bucket, unit) backup_state" where
  "short_server = demo_server\<lparr>bs_provider := Some (\<lambda>w. (Inr (''abc'', ''vault''), w))\<rparr>"

theorem short_passphrase_from_cache_witness:
  "\<exists>s1. run_state (masterKey keyless_env) short_server = (Inl ErrShortPassphrase, s1)
     \<and> fst (run_state (masterKey keyless_env) s1) = Inr (replicate 32 CHR ''s'')"
proof -
  have "deriveKey keyless_env ''abc'' backupSaltAtRest = Inr (replicate 32 CHR ''s'')"
    by (simp add: deriveKey_def)
  moreover have "bs_provider short_server = Some (\<lambda>w. (Inr (''abc'', ''vault''), w))" "bs_keyCache short_server = []"
    "bs_keyCacheExpires short_server = None"
    by (simp_all add: short_server_def)
  ultimately show ?thesis
    using short_passphrase_from_cache [of keyless_env short_server "\<lambda>w. (Inr (''abc'', ''vault''), w)" "''abc''" "''vault''" "()" 7 "()" 7 "()"]
    by (auto simp: backupKeyMinLen_def minute_def Auth.second_def)
qed

text \<open>The backup of the role, restored after the role was deleted.\<close>

lemma demo_export:
  "\<exists>t w. run_state (exportDocument demo_env) demo_server = (Inr (snapshot demo_dao ''2.0'' t demo_db), demo_server\<lparr>bs_world := w\<rparr>)"
  using export_snapshot [of demo_env demo_server] by simp

lemma demo_json: "be_json demo_env (snapshot demo_dao ''2.0'' t demo_db) = Inr x \<Longrightarrow> be_unjson demo_env x = Inr (snapshot demo_dao ''2.0'' t demo_db)"
  by (auto simp: demo_env_def empty_document_def snapshot_def split: if_splits)

lemma demo_writeArchive:
  assumes "bs_settings s = None"
  shows "\<exists>path s'. run_state (writeArchive demo_env key archive) s = (Inr path, s') \<and> bs_db s' = bs_db s \<and> bs_statusFP s' = bs_statusFP s"
  using assms
  by (simp add: writeArchive_def backupStorageMode_def writeArchive_fs_def file_call_def run_outside writeFileAtomic_def on_temp_def
      set_file_def file_Rename_def)

lemma demo_Create:
  "\<exists>rec s1. run_state (Create demo_env ''manual'' None) demo_server = (Inr rec, s1) \<and> bk_ID rec = ''b1''
     \<and> bs_db s1 = demo_db(''backup'' := bucket_put ''b1'' (RawBackup rec) empty_bucket)"
proof -
  obtain t w where "run_state (exportDocument demo_env) demo_server = (Inr (snapshot demo_dao ''2.0'' t demo_db), demo_server\<lparr>bs_world := w\<rparr>)"
    using demo_export by blast
  moreover obtain x where "be_json demo_env (snapshot demo_dao ''2.0'' t demo_db) = Inr x" by (simp add: demo_env_def)
  moreover obtain fp where "\<forall>s. run_state (currentKeyFingerprint demo_env) s = (fp, s)"
    using env_key_runs(3) [OF demo_laws(4)] by blast
  moreover obtain path s2 where "run_state (writeArchive demo_env ''b1''
      (magicAtRest @ replicate 12 CHR ''n'' @ replicate 32 CHR ''s'' @ x)) (demo_server\<lparr>bs_world := w\<rparr>) = (Inr path, s2)"
    "bs_db s2 = demo_db"
    using demo_writeArchive [of "demo_server\<lparr>bs_world := w\<rparr>" "''b1''"] by fastforce
  ultimately show ?thesis
    by (simp add: Create_def env_key_runs create_from_def marshalGzip_def demo_encrypt store_archive_def run_outside
      store_record_def new_record_def audit_def put_bucket_def BackupCreate_def Dao_replace_def db_update_def)
      (simp add: demo_dao_def demo_db_def)
qed

lemma demo_uses_files [simp]: "uses_files demo_server"
  by (simp add: uses_files_def backupStorageMode_def)

theorem restore_after_create_witness:
  "\<exists>rec s1. run_state (Create demo_env ''manual'' None) demo_server = (Inr rec, s1)
     \<and> recs (dao_role demo_dao)
         (bs_db (snd (run_state (Restore demo_env ''b1'' [''roles''] None) (put_bucket ''role'' empty_bucket s1))) ''role'') ''r''
       = Some demo_role"
proof -
  obtain rec s1 where c: "run_state (Create demo_env ''manual'' None) demo_server = (Inr rec, s1)" "bk_ID rec = ''b1''"
    "bs_db s1 = demo_db(''backup'' := bucket_put ''b1'' (RawBackup rec) empty_bucket)"
    using demo_Create by blast
  let ?s = "put_bucket ''role'' empty_bucket s1"
  have ok: "db_ok demo_dao (bs_db ?s)"
    by (simp add: db_ok_def demo_dao_def demo_db_def keyed_def put_bucket_def c(3))
  have rec: "readable (dao_backup demo_dao) (bs_db ?s ''backup'')" "recs (dao_backup demo_dao) (bs_db ?s ''backup'') ''b1'' = Some rec"
    by (simp_all add: demo_dao_def c(3))
  obtain counts s' where r: "run_state (Restore demo_env ''b1'' [''roles''] None) ?s = ((counts, None), s')"
    "\<forall>c \<in> set (selected_components [''roles'']) - {ComponentEvents}. restored demo_dao c demo_db (bs_db ?s (bucket_of c)) (bs_db s' (bucket_of c))"
    using restore_after_create [OF demo_laws(2-4) _ _ demo_uses_files _ c(1), of ?s _ "[''roles'']" None, unfolded demo_laws demo_env_sels c(2) demo_server_sels,
        OF demo_dao_healthy demo_db_ok demo_json ok rec] 
    by auto
  have "ComponentRoles \<in> set (selected_components [''roles'']) - {ComponentEvents}" "bucket_of ComponentRoles = ''role''"
    by (simp_all add: selected_components_def component_names AllBackupComponents_def bucket_of_def)
  with bspec [OF r(2) this(1)] have "restored demo_dao ComponentRoles demo_db (bs_db ?s ''role'') (bs_db s' ''role'')"
    by (simp only:)
  then have "recs (dao_role demo_dao) (bs_db s' ''role'') = recs (dao_role demo_dao) (demo_db ''role'')"
    by (simp add: restored_def component_names bucket_of_def)
  then have "recs (dao_role demo_dao) (bs_db s' ''role'') ''r'' = Some demo_role"
    by (simp add: demo_db_def demo_dao_def)
  with c r(1) show ?thesis by auto
qed

text \<open>Two backups of the source \<open>auto\<close>, one of them under an old key.\<close>

definition demo_backup :: "string \<Rightarrow> int \<Rightarrow> backup" where
  "demo_backup key t =
     \<lparr>bk_ID = key, bk_Name = key, bk_Source = ''auto'', bk_Size = 0, bk_Checksum = [], bk_Path = backupSchemaFile @ ''/'' @ key,
      bk_Includes = [], bk_Stats = [], bk_KeyFingerprint = [], bk_VerifiedAt = None, bk_CreatedAt = t, bk_CreatedBy = no_operator\<rparr>"

definition old_archive :: string where
  "old_archive = magicAtRest @ replicate 12 CHR ''n'' @ replicate 32 CHR ''o'' @ ''pt''"

definition backup_server :: "(raw_record bucket, unit) backup_state" where
  "backup_server = demo_server\<lparr>
     bs_db := demo_db(''backup'' := bucket_put ''b1'' (RawBackup (demo_backup ''b1'' 1))
       (bucket_put ''b2'' (RawBackup (demo_backup ''b2'' 2)) empty_bucket)),
     bs_files := [''/b1'' \<mapsto> old_archive]\<rparr>"

lemma backup_server_db:
  "keyed (dao_backup demo_dao) bk_ID (bs_db backup_server ''backup'')"
  "recs (dao_backup demo_dao) (bs_db backup_server ''backup'') = [''b1'' \<mapsto> demo_backup ''b1'' 1, ''b2'' \<mapsto> demo_backup ''b2'' 2]"
  "vals (dao_backup demo_dao) (bs_db backup_server ''backup'') = [demo_backup ''b1'' 1, demo_backup ''b2'' 2]"
  by (simp_all add: backup_server_def demo_dao_def keyed_def demo_backup_def fun_eq_iff vals_def bucket_eval)




theorem ApplyRetention_keeps_newest_witness:
  "\<exists>s'. run_state (ApplyRetention demo_env ''auto'' 1) backup_server = (Inr 1, s')
     \<and> recs (dao_backup demo_dao) (bs_db s' ''backup'') = [''b2'' \<mapsto> demo_backup ''b2'' 2]"
proof -
  have new: "newest_first bk_CreatedAt (filter (\<lambda>r. bk_Source r = ''auto'') (vals (dao_backup demo_dao) (bs_db backup_server ''backup'')))
      = [demo_backup ''b2'' 2, demo_backup ''b1'' 1]"
    by (simp add: backup_server_db newest_first_def demo_backup_def)
  obtain kept old s' where o: "[demo_backup ''b2'' 2, demo_backup ''b1'' 1] = kept @ old"
    "run_state (ApplyRetention demo_env ''auto'' 1) backup_server = (Inr (length old), s')"
    "int (length kept) \<le> 1" "old \<noteq> [] \<longrightarrow> int (length kept) = 1"
    "recs (dao_backup demo_dao) (bs_db s' ''backup'') = recs (dao_backup demo_dao) (bs_db backup_server ''backup'') |` (- bk_ID ` set old)"
    using ApplyRetention_keeps_newest [of demo_env backup_server 1 "''auto''"] backup_server_db(1) new by auto
  have "length kept = 1"
  proof (cases "old = []")
    case True
    with o(1) have "length kept = 2" by (metis append_Nil2 length_Cons list.size(3) numeral_2_eq_2)
    with o(3) show ?thesis by simp
  qed (use o(4) in simp)
  with o(1) have "old = [demo_backup ''b1'' 1]" by (cases kept) auto
  with o(2,5) show ?thesis
    by (auto simp: backup_server_db(2) demo_backup_def restrict_map_def fun_eq_iff)
qed

text \<open>A role is added, and a session stored under its user.\<close>

definition demo_storage :: "(raw_record bucket, raw_record) storage" where
  "demo_storage =
     \<lparr>sg_dao = demo_dao,
      sg_session = typed_bolt RawSession (\<lambda>x. case x of RawSession v \<Rightarrow> Some v | _ \<Rightarrow> None),
      sg_dashboard = typed_bolt RawDashboard (\<lambda>x. case x of RawDashboard v \<Rightarrow> Some v | _ \<Rightarrow> None),
      sg_version = typed_bolt RawVersion (\<lambda>x. case x of RawVersion v \<Rightarrow> Some v | _ \<Rightarrow> None)\<rparr>"

definition demo_session :: session where
  "demo_session = \<lparr>se_ID = ''t'', se_UserID = ''u'', se_Username = ''u'', se_Admin = False, se_Roles = [], se_Perm = 0, se_Dirty = False,
     se_Expiry = 0, se_MaxExpiry = 0, se_CreatedAt = 0, se_UpdatedAt = 0\<rparr>"

theorem storage_well_typed_witness:
  "well_typed demo_storage ((demo_db(''role'' := snd (RoleCreate (dao_role demo_dao) (demo_role\<lparr>ro_ID := ''q''\<rparr>) (demo_db ''role''))))
     (''session'' := snd (SessionUpdate (sg_session demo_storage) demo_session empty_bucket)))"
proof -
  have healthy: "healthy_storage demo_storage"
    unfolding healthy_storage_def by (simp add: demo_storage_def demo_dao_healthy) (intro conjI typed_bolt_healthy; simp)
  have ok: "well_typed demo_storage demo_db"
    by (simp add: well_typed_def typed_def demo_storage_def demo_dao_def demo_db_def keyed_def stored_def demo_role_def)
  let ?db = "demo_db(''role'' := snd (RoleCreate (dao_role (sg_dao demo_storage)) (demo_role\<lparr>ro_ID := ''q''\<rparr>) (demo_db ''role'')))"
  have role: "dao_step demo_storage demo_db ?db" by (intro dao_step.intros dao_write.intros)
  have session: "dao_step demo_storage ?db (?db(''session'' := snd (SessionUpdate (sg_session demo_storage) demo_session (?db ''session''))))"
    by (intro dao_step.intros dao_write.intros)
  note steps = rtranclp.rtrancl_into_rtrancl [where r = "dao_step demo_storage", OF r_into_rtranclp [where r = "dao_step demo_storage", OF role] session]
  from storage_well_typed [OF healthy ok steps] have "well_typed demo_storage (?db(''session'' := snd (SessionUpdate (sg_session demo_storage) demo_session (?db ''session''))))" .
  moreover have "sg_dao demo_storage = demo_dao" by (simp add: demo_storage_def)
  moreover have "?db ''session'' = empty_bucket" by (simp add: demo_db_def)
  ultimately show ?thesis by (simp only:)
qed

end
