(* ===== verification/YamlNodes.thy ===== *)
theory YamlNodes
  imports GoPrelude
begin

text \<open>
  The node tree of gopkg.in/yaml.v3 as biz/compose_stack_addons_yaml.go edits it: nodes with a kind, a
  tag, a scalar value, comments and children; the children of a mapping alternate between keys and
  values.  Parsing and printing are the library's.  The code mutates nodes through pointers; here an
  update rebuilds the path to the node.
\<close>

section \<open>Nodes\<close>

datatype node_kind = ZeroKind | DocumentNode | SequenceNode | MappingNode | ScalarNode | AliasNode

datatype yaml_node =
  Node (nd_Kind: node_kind) (nd_Tag: string) (nd_Value: string) (nd_Style: nat) (nd_HeadComment: string)
    (nd_LineComment: string) (nd_Content: "yaml_node list")

text \<open>The style \<open>yaml.DoubleQuotedStyle\<close>.\<close>

definition DoubleQuotedStyle :: nat where "DoubleQuotedStyle = 2"

definition scalar_node :: "string \<Rightarrow> yaml_node" where
  "scalar_node x = Node ScalarNode ''!!str'' x 0 [] [] []"

definition mapping_node :: yaml_node where
  "mapping_node = Node MappingNode ''!!map'' [] 0 [] [] []"

definition set_Content :: "yaml_node list \<Rightarrow> yaml_node \<Rightarrow> yaml_node" where
  "set_Content c n = Node (nd_Kind n) (nd_Tag n) (nd_Value n) (nd_Style n) (nd_HeadComment n) (nd_LineComment n) c"

lemma set_Content_simps [simp]:
  "nd_Kind (set_Content c n) = nd_Kind n" "nd_Value (set_Content c n) = nd_Value n" "nd_Content (set_Content c n) = c"
  "set_Content (nd_Content n) n = n" "set_Content c (set_Content c' n) = set_Content c n"
  by (simp_all add: set_Content_def)

lemma new_nodes [simp]:
  "nd_Kind (scalar_node x) = ScalarNode" "nd_Value (scalar_node x) = x" "nd_Content (scalar_node x) = []"
  "nd_Kind mapping_node = MappingNode" "nd_Content mapping_node = []"
  by (simp_all add: scalar_node_def mapping_node_def)

text \<open>The library: reading a text, and writing it with the default indent and with an indent of 2.\<close>

record yaml_lib =
  yaml_Unmarshal :: "string \<Rightarrow> go_error + yaml_node"
  yaml_Marshal :: "yaml_node \<Rightarrow> go_error + string"
  yaml_Encode2 :: "yaml_node \<Rightarrow> go_error + string"

section \<open>Fields of a mapping\<close>

text \<open>Every search takes the first field of that name.\<close>

fun field :: "string \<Rightarrow> yaml_node list \<Rightarrow> yaml_node option" where
  "field key (k # v # rest) = (if nd_Value k = key then Some v else field key rest)"
| "field key _ = None"

fun map_field :: "string \<Rightarrow> (yaml_node \<Rightarrow> yaml_node) \<Rightarrow> yaml_node list \<Rightarrow> yaml_node list" where
  "map_field key f (k # v # rest) = (if nd_Value k = key then k # f v # rest else k # v # map_field key f rest)"
| "map_field key f c = c"

fun drop_field :: "string \<Rightarrow> yaml_node list \<Rightarrow> yaml_node list" where
  "drop_field key (k # v # rest) = (if nd_Value k = key then rest else k # v # drop_field key rest)"
| "drop_field key c = c"

fun field_names :: "yaml_node list \<Rightarrow> string list" where
  "field_names (k # v # rest) = nd_Value k # field_names rest"
| "field_names _ = []"

definition mappingFieldNode :: "yaml_node \<Rightarrow> string \<Rightarrow> yaml_node option" where
  "mappingFieldNode parent key = (if nd_Kind parent = MappingNode then field key (nd_Content parent) else None)"

definition at_field :: "string \<Rightarrow> (yaml_node \<Rightarrow> yaml_node) \<Rightarrow> yaml_node \<Rightarrow> yaml_node" where
  "at_field key f parent =
     (if nd_Kind parent = MappingNode then set_Content (map_field key f (nd_Content parent)) parent else parent)"

text \<open>\<open>ensureMappingChild\<close> and then \<open>f\<close> on the child: an existing field of another kind becomes an
  empty mapping.\<close>

definition as_mapping :: "yaml_node \<Rightarrow> yaml_node" where
  "as_mapping n =
     (if nd_Kind n = MappingNode then n
      else Node MappingNode ''!!map'' [] (nd_Style n) (nd_HeadComment n) (nd_LineComment n) [])"

definition append_field :: "string \<Rightarrow> yaml_node \<Rightarrow> yaml_node \<Rightarrow> yaml_node" where
  "append_field key v parent = set_Content (nd_Content parent @ [scalar_node key, v]) parent"

definition ensureMappingChild :: "string \<Rightarrow> (yaml_node \<Rightarrow> yaml_node) \<Rightarrow> yaml_node \<Rightarrow> yaml_node" where
  "ensureMappingChild key f parent =
     (if nd_Kind parent \<noteq> MappingNode then parent
      else case field key (nd_Content parent) of
             Some _ \<Rightarrow> at_field key (\<lambda>n. f (as_mapping n)) parent
           | None \<Rightarrow> append_field key (f mapping_node) parent)"

definition removeMappingChild :: "string \<Rightarrow> yaml_node \<Rightarrow> yaml_node" where
  "removeMappingChild key parent =
     (if nd_Kind parent = MappingNode then set_Content (drop_field key (nd_Content parent)) parent else parent)"

definition scalarValue :: "yaml_node \<Rightarrow> string \<Rightarrow> string" where
  "scalarValue parent key =
     (case mappingFieldNode parent key of
        None \<Rightarrow> []
      | Some v \<Rightarrow> if nd_Kind v = ScalarNode then nd_Value v else [])"

definition as_scalar :: "string \<Rightarrow> yaml_node \<Rightarrow> yaml_node" where
  "as_scalar x n = Node ScalarNode ''!!str'' x (nd_Style n) (nd_HeadComment n) [] []"

definition setOrRemoveScalar :: "string \<Rightarrow> string \<Rightarrow> yaml_node \<Rightarrow> yaml_node" where
  "setOrRemoveScalar key x parent =
     (if nd_Kind parent \<noteq> MappingNode then parent
      else if x = [] then removeMappingChild key parent
      else case field key (nd_Content parent) of
             Some _ \<Rightarrow> at_field key (as_scalar x) parent
           | None \<Rightarrow> append_field key (scalar_node x) parent)"

text \<open>The top node of a document; \<open>f\<close> on it.\<close>

definition documentNode :: "yaml_node \<Rightarrow> yaml_node option" where
  "documentNode root =
     (if nd_Kind root = DocumentNode then (case nd_Content root of [] \<Rightarrow> None | n # _ \<Rightarrow> Some n) else Some root)"

definition on_document :: "(yaml_node \<Rightarrow> yaml_node) \<Rightarrow> yaml_node \<Rightarrow> yaml_node" where
  "on_document f root =
     (if nd_Kind root = DocumentNode
      then (case nd_Content root of [] \<Rightarrow> root | n # ns \<Rightarrow> set_Content (f n # ns) root)
      else f root)"

section \<open>Well-formed trees\<close>

text \<open>The mappings of a document have a value for every key, and no key twice.\<close>

fun well_formed :: "yaml_node \<Rightarrow> bool" where
  "well_formed (Node k t v st h l c) \<longleftrightarrow>
     (k = MappingNode \<longrightarrow> even (length c) \<and> distinct (field_names c)) \<and> (\<forall>n \<in> set c. well_formed n)"

lemma well_formed_alt:
  "well_formed n \<longleftrightarrow>
     (nd_Kind n = MappingNode \<longrightarrow> even (length (nd_Content n)) \<and> distinct (field_names (nd_Content n)))
     \<and> (\<forall>m \<in> set (nd_Content n). well_formed m)"
  by (cases n) simp

lemma field_in: "field key c = Some v \<Longrightarrow> v \<in> set c"
  by (induction key c rule: field.induct) (auto split: if_splits)

lemma field_None_iff: "field key c = None \<longleftrightarrow> key \<notin> set (field_names c)"
  by (induction key c rule: field.induct) auto

lemma field_map_field: "field key' (map_field key f c) = (if key' = key then map_option f (field key c) else field key' c)"
  by (induction key f c rule: map_field.induct) auto

lemma field_names_map_field [simp]: "field_names (map_field key f c) = field_names c" "length (map_field key f c) = length c"
  by (induction key f c rule: map_field.induct) auto

lemma field_append: "even (length c) \<Longrightarrow> field key (c @ d) = (case field key c of None \<Rightarrow> field key d | Some v \<Rightarrow> Some v)"
  by (induction key c rule: field.induct) auto

lemma field_names_append: "even (length c) \<Longrightarrow> field_names (c @ d) = field_names c @ field_names d"
  by (induction c rule: field_names.induct) auto

lemma field_drop_field:
  "distinct (field_names c) \<Longrightarrow> field key' (drop_field key c) = (if key' = key then None else field key' c)"
  by (induction key c rule: drop_field.induct) (auto simp: field_None_iff)

lemma set_map_field: "n \<in> set (map_field key f c) \<Longrightarrow> n \<in> set c \<or> (\<exists>v \<in> set c. n = f v)"
  by (induction key f c rule: map_field.induct) (auto split: if_splits)

lemma mappingFieldNode_at_field [simp]:
  "mappingFieldNode (at_field key f n) key' =
     (if key' = key then map_option f (mappingFieldNode n key) else mappingFieldNode n key')"
  by (simp add: mappingFieldNode_def at_field_def field_map_field)

lemma nd_Kind_at_field [simp]: "nd_Kind (at_field key f n) = nd_Kind n"
  by (simp add: at_field_def)

lemma well_formed_field: "well_formed n \<Longrightarrow> mappingFieldNode n key = Some v \<Longrightarrow> well_formed v"
  by (cases n) (auto simp: mappingFieldNode_def split: if_splits dest: field_in)

text \<open>A mapping as the map of its fields.\<close>

definition mapping_ok :: "yaml_node \<Rightarrow> bool" where
  "mapping_ok n \<longleftrightarrow> nd_Kind n = MappingNode \<and> even (length (nd_Content n)) \<and> distinct (field_names (nd_Content n))"

named_theorems node_rules \<open>the fields of a mapping after an update\<close>

lemma mapping_ok_well_formed: "well_formed n \<Longrightarrow> nd_Kind n = MappingNode \<Longrightarrow> mapping_ok n"
  by (cases n) (simp add: mapping_ok_def)

lemma mapping_ok_kind: "mapping_ok n \<Longrightarrow> nd_Kind n = MappingNode"
  by (simp add: mapping_ok_def)

lemma mapping_ok_as_mapping: "well_formed n \<Longrightarrow> mapping_ok (as_mapping n)"
  by (cases n) (simp add: as_mapping_def mapping_ok_def)

lemma mapping_ok_new [simp]: "mapping_ok mapping_node"
  by (simp add: mapping_ok_def)

lemma mapping_ok_at_field [node_rules]: "mapping_ok n \<Longrightarrow> mapping_ok (at_field key f n)"
  by (simp add: mapping_ok_def at_field_def)

lemma append_field_ok:
  assumes "mapping_ok n" "mappingFieldNode n key = None"
  shows "mapping_ok (append_field key v n)"
    and "mappingFieldNode (append_field key v n) key' = (if key' = key then Some v else mappingFieldNode n key')"
proof -
  have n: "nd_Kind n = MappingNode" "even (length (nd_Content n))" "distinct (field_names (nd_Content n))"
    "field key (nd_Content n) = None"
    using assms by (simp_all add: mapping_ok_def mappingFieldNode_def)
  then show "mapping_ok (append_field key v n)"
    by (simp add: mapping_ok_def append_field_def field_names_append field_None_iff)
  show "mappingFieldNode (append_field key v n) key' = (if key' = key then Some v else mappingFieldNode n key')"
    using n by (cases "key' = key"; cases "field key' (nd_Content n)") (simp_all add: append_field_def mappingFieldNode_def field_append)
qed

lemma ensureMappingChild_ok [node_rules]:
  assumes "mapping_ok n"
  shows "mapping_ok (ensureMappingChild key f n)"
    and "mappingFieldNode (ensureMappingChild key f n) key' =
      (if key' = key then Some (f (case mappingFieldNode n key of None \<Rightarrow> mapping_node | Some v \<Rightarrow> as_mapping v))
       else mappingFieldNode n key')"
proof -
  have k: "nd_Kind n = MappingNode" and f: "mappingFieldNode n key = field key (nd_Content n)"
    using assms by (simp_all add: mapping_ok_def mappingFieldNode_def)
  show "mapping_ok (ensureMappingChild key f n)"
    using append_field_ok(1) [OF assms] mapping_ok_at_field [OF assms] k f
    by (simp add: ensureMappingChild_def split: option.split)
  show "mappingFieldNode (ensureMappingChild key f n) key' =
      (if key' = key then Some (f (case mappingFieldNode n key of None \<Rightarrow> mapping_node | Some v \<Rightarrow> as_mapping v))
       else mappingFieldNode n key')"
    using append_field_ok(2) [OF assms, of key "f mapping_node" key'] k f
    by (cases "field key (nd_Content n)") (auto simp: ensureMappingChild_def)
qed

lemma drop_field_names: "distinct (field_names c) \<Longrightarrow> field_names (drop_field key c) = filter (\<lambda>k. k \<noteq> key) (field_names c)"
  by (induction key c rule: drop_field.induct) (auto simp: filter_id_conv intro: filter_True [symmetric])

lemma drop_field_even: "even (length c) \<Longrightarrow> even (length (drop_field key c))"
  by (induction key c rule: drop_field.induct) auto

lemma removeMappingChild_ok [node_rules]:
  assumes "mapping_ok n"
  shows "mapping_ok (removeMappingChild key n)"
    and "mappingFieldNode (removeMappingChild key n) key' = (if key' = key then None else mappingFieldNode n key')"
  using assms
  by (simp_all add: mapping_ok_def removeMappingChild_def mappingFieldNode_def field_drop_field drop_field_names drop_field_even)

lemma setOrRemoveScalar_ok [node_rules]:
  assumes "mapping_ok n"
  shows "mapping_ok (setOrRemoveScalar key x n)"
    and "scalarValue (setOrRemoveScalar key x n) key' = (if key' = key then x else scalarValue n key')"
proof -
  have k: "nd_Kind n = MappingNode" and f: "mappingFieldNode n key = field key (nd_Content n)"
    using assms by (simp_all add: mapping_ok_def mappingFieldNode_def)
  show "mapping_ok (setOrRemoveScalar key x n)"
    using append_field_ok(1) [OF assms] mapping_ok_at_field [OF assms] removeMappingChild_ok(1) [OF assms] k f
    by (simp add: setOrRemoveScalar_def split: option.split)
  show "scalarValue (setOrRemoveScalar key x n) key' = (if key' = key then x else scalarValue n key')"
  proof (cases "x = []")
    case True
    then show ?thesis using removeMappingChild_ok(2) [OF assms, of key key'] k
      by (simp add: setOrRemoveScalar_def scalarValue_def)
  next
    case False
    then show ?thesis using append_field_ok(2) [OF assms, of key "scalar_node x" key'] k f
      by (cases "field key (nd_Content n)") (auto simp: setOrRemoveScalar_def scalarValue_def as_scalar_def)
  qed
qed

lemma documentNode_on_document [simp]: "documentNode (on_document f root) = map_option f (documentNode root)"
  if "nd_Kind root \<noteq> DocumentNode \<Longrightarrow> nd_Kind (f root) \<noteq> DocumentNode"
  using that by (auto simp: documentNode_def on_document_def split: list.split)

end
