(* ===== verification/AddonLabels.thy ===== *)
theory AddonLabels
  imports YamlNodes Utf8 StackHistory "HOL-Library.AList"
begin

text \<open>
  The add-on wizard of biz/compose_stack_addons_yaml.go: the labels of Traefik, Sablier, Watchtower
  and the backup container, and the resource limits, written into the services of a compose file and
  read back from it.
\<close>

section \<open>The configuration of the wizard\<close>

text \<open>A Go map is the list of its entries in some order of iteration.  The four add-ons have the same
  shape of configuration.\<close>

type_synonym labels = "(string \<times> string) list"

record addon_cfg =
  ad_Enabled :: bool
  ad_Labels :: labels

record resources_cfg =
  rs_CPUsLimit :: string
  rs_CPUsReservation :: string
  rs_MemoryLimit :: string
  rs_MemoryReservation :: string

record addons_config =
  ac_Traefik :: "(string \<times> addon_cfg) list"
  ac_Sablier :: "(string \<times> addon_cfg) list"
  ac_Watchtower :: "(string \<times> addon_cfg) list"
  ac_Backup :: "(string \<times> addon_cfg) list"
  ac_Resources :: "(string \<times> resources_cfg) list"

text \<open>The table \<open>addonPrefixes\<close>.\<close>

definition traefik_prefix :: string where "traefik_prefix = ''traefik.''"
definition sablier_prefix :: string where "sablier_prefix = ''sablier.''"
definition watchtower_prefix :: string where "watchtower_prefix = ''com.centurylinklabs.watchtower.''"
definition backup_prefix :: string where "backup_prefix = ''backup.''"

definition hasAnyAddon :: "addons_config \<Rightarrow> bool" where
  "hasAnyAddon cfg \<longleftrightarrow>
     ac_Traefik cfg \<noteq> [] \<or> ac_Sablier cfg \<noteq> [] \<or> ac_Watchtower cfg \<noteq> [] \<or> ac_Backup cfg \<noteq> [] \<or> ac_Resources cfg \<noteq> []"

section \<open>Labels of a configuration\<close>

definition filterPrefix :: "labels \<Rightarrow> string \<Rightarrow> labels" where
  "filterPrefix m p = filter (\<lambda>kv. has_prefix (fst kv) p) m"

text \<open>The builders, one for each add-on: a map that is nil and an empty map are the same list.\<close>

definition build_labels :: "string \<Rightarrow> addon_cfg \<Rightarrow> labels" where
  "build_labels p cfg =
     (let out = filterPrefix (ad_Labels cfg) p
      in if ad_Enabled cfg then AList.update (p @ ''enable'') ''true'' out else out)"

definition buildTraefikLabels :: "addon_cfg \<Rightarrow> labels" where "buildTraefikLabels = build_labels traefik_prefix"
definition buildSablierLabels :: "addon_cfg \<Rightarrow> labels" where "buildSablierLabels = build_labels sablier_prefix"
definition buildWatchtowerLabels :: "addon_cfg \<Rightarrow> labels" where "buildWatchtowerLabels = build_labels watchtower_prefix"
definition buildBackupLabels :: "addon_cfg \<Rightarrow> labels" where "buildBackupLabels = build_labels backup_prefix"

text \<open>The reverse: \<open>enable=true\<close> is the switch, every other label of the prefix is kept.\<close>

definition cfg_from_labels :: "string \<Rightarrow> labels \<Rightarrow> addon_cfg" where
  "cfg_from_labels p labels =
     (let own = filterPrefix labels p; switch = (\<lambda>kv. fst kv = p @ ''enable'' \<and> snd kv = ''true'')
      in \<lparr>ad_Enabled = (\<exists>kv \<in> set own. switch kv), ad_Labels = filter (\<lambda>kv. \<not> switch kv) own\<rparr>)"

definition traefikCfgFromLabels :: "labels \<Rightarrow> addon_cfg" where "traefikCfgFromLabels = cfg_from_labels traefik_prefix"
definition sablierCfgFromLabels :: "labels \<Rightarrow> addon_cfg" where "sablierCfgFromLabels = cfg_from_labels sablier_prefix"
definition watchtowerCfgFromLabels :: "labels \<Rightarrow> addon_cfg" where "watchtowerCfgFromLabels = cfg_from_labels watchtower_prefix"
definition backupCfgFromLabels :: "labels \<Rightarrow> addon_cfg" where "backupCfgFromLabels = cfg_from_labels backup_prefix"

section \<open>Labels of a service\<close>

definition isLabelsNode :: "yaml_node \<Rightarrow> bool" where
  "isLabelsNode n \<longleftrightarrow> nd_Kind n = MappingNode \<or> nd_Kind n = SequenceNode"

definition hasAnyPrefix :: "string \<Rightarrow> string list \<Rightarrow> bool" where
  "hasAnyPrefix s owned \<longleftrightarrow> list_ex (has_prefix s) owned"

definition splitSeqLabel :: "yaml_node \<Rightarrow> string \<times> string" where
  "splitSeqLabel item =
     (if nd_Kind item \<noteq> ScalarNode then ([], [])
      else case str_cut ''='' (nd_Value item) of None \<Rightarrow> (nd_Value item, []) | Some kv \<Rightarrow> kv)"

fun strip_fields :: "string list \<Rightarrow> yaml_node list \<Rightarrow> yaml_node list" where
  "strip_fields owned (k # v # rest) =
     (if hasAnyPrefix (nd_Value k) owned then strip_fields owned rest else k # v # strip_fields owned rest)"
| "strip_fields owned c = []"

definition stripPrefixes :: "string list \<Rightarrow> yaml_node \<Rightarrow> yaml_node" where
  "stripPrefixes owned n =
     (if nd_Kind n = MappingNode then set_Content (strip_fields owned (nd_Content n)) n
      else if nd_Kind n = SequenceNode
      then set_Content (filter (\<lambda>item. \<not> hasAnyPrefix (fst (splitSeqLabel item)) owned) (nd_Content n)) n
      else n)"

definition sequence_entry :: "string \<times> string \<Rightarrow> yaml_node" where
  "sequence_entry kv = Node ScalarNode ''!!str'' (fst kv @ ''='' @ snd kv) DoubleQuotedStyle [] [] []"

text \<open>The labels in the order of \<open>sort.Strings\<close>.\<close>

definition sorted_labels :: "labels \<Rightarrow> labels" where
  "sorted_labels pairs = map (\<lambda>k. (k, the (map_of pairs k))) (sort (map fst pairs))"

definition writeLabels :: "labels \<Rightarrow> yaml_node \<Rightarrow> yaml_node" where
  "writeLabels pairs n =
     (if nd_Kind n = MappingNode
      then set_Content (nd_Content n @ concat (map (\<lambda>(k, v). [scalar_node k, scalar_node v]) (sorted_labels pairs))) n
      else if nd_Kind n = SequenceNode
      then set_Content (nd_Content n @ map sequence_entry (sorted_labels pairs)) n
      else n)"

fun field_values :: "yaml_node list \<Rightarrow> labels" where
  "field_values (k # v # rest) = (nd_Value k, nd_Value v) # field_values rest"
| "field_values _ = []"

definition merge_labels :: "labels \<Rightarrow> labels \<Rightarrow> labels" where
  "merge_labels new into = fold (\<lambda>(k, v). AList.update k v) new into"

definition collectLabels :: "yaml_node \<Rightarrow> labels \<Rightarrow> labels" where
  "collectLabels n into =
     (if nd_Kind n = MappingNode then merge_labels (field_values (nd_Content n)) into
      else if nd_Kind n = SequenceNode
      then merge_labels (filter (\<lambda>kv. fst kv \<noteq> []) (map splitSeqLabel (nd_Content n))) into
      else into)"

text \<open>The two places of the labels of a service.  The purge goes through both.\<close>

definition labelLocations :: "yaml_node \<Rightarrow> yaml_node list" where
  "labelLocations svc =
     filter isLabelsNode
       (List.map_filter id [mappingFieldNode svc ''labels'',
          Option.bind (mappingFieldNode svc ''deploy'') (\<lambda>dep. mappingFieldNode dep ''labels'')])"

definition strip_locations :: "string list \<Rightarrow> yaml_node \<Rightarrow> yaml_node" where
  "strip_locations owned svc =
     at_field ''deploy'' (at_field ''labels'' (stripPrefixes owned)) (at_field ''labels'' (stripPrefixes owned) svc)"

definition ensureLabelsChild :: "(yaml_node \<Rightarrow> yaml_node) \<Rightarrow> yaml_node \<Rightarrow> yaml_node" where
  "ensureLabelsChild f parent =
     (if nd_Kind parent \<noteq> MappingNode then parent
      else case field ''labels'' (nd_Content parent) of
             Some _ \<Rightarrow> at_field ''labels'' f parent
           | None \<Rightarrow> append_field ''labels'' (f mapping_node) parent)"

definition resolveLabelsNode :: "string \<Rightarrow> (yaml_node \<Rightarrow> yaml_node) \<Rightarrow> yaml_node \<Rightarrow> yaml_node" where
  "resolveLabelsNode mode f svc =
     (if mode = ''swarm'' then ensureMappingChild ''deploy'' (ensureLabelsChild f) svc else ensureLabelsChild f svc)"

section \<open>Resources\<close>

definition applyDeployResources :: "resources_cfg \<Rightarrow> yaml_node \<Rightarrow> yaml_node" where
  "applyDeployResources r svc =
     (if rs_CPUsLimit r = [] \<and> rs_MemoryLimit r = [] \<and> rs_CPUsReservation r = [] \<and> rs_MemoryReservation r = [] then
        (case mappingFieldNode svc ''deploy'' of
           None \<Rightarrow> svc
         | Some deploy \<Rightarrow>
             if nd_Content (removeMappingChild ''resources'' deploy) = [] then removeMappingChild ''deploy'' svc
             else at_field ''deploy'' (removeMappingChild ''resources'') svc)
      else ensureMappingChild ''deploy'' (ensureMappingChild ''resources'' (\<lambda>res.
        let res =
          (if rs_CPUsLimit r \<noteq> [] \<or> rs_MemoryLimit r \<noteq> []
           then ensureMappingChild ''limits'' (\<lambda>n. setOrRemoveScalar ''memory'' (rs_MemoryLimit r) (setOrRemoveScalar ''cpus'' (rs_CPUsLimit r) n)) res
           else removeMappingChild ''limits'' res)
        in if rs_CPUsReservation r \<noteq> [] \<or> rs_MemoryReservation r \<noteq> []
           then ensureMappingChild ''reservations'' (\<lambda>n. setOrRemoveScalar ''memory'' (rs_MemoryReservation r) (setOrRemoveScalar ''cpus'' (rs_CPUsReservation r) n)) res
           else removeMappingChild ''reservations'' res)) svc)"

definition legacy_fields :: "string list" where
  "legacy_fields = [''cpus'', ''mem_limit'', ''mem_reservation'', ''cpu_shares'', ''cpu_quota'', ''cpuset'', ''memswap_limit'']"

definition if_mapping :: "(yaml_node \<Rightarrow> yaml_node) \<Rightarrow> yaml_node \<Rightarrow> yaml_node" where
  "if_mapping f n = (if nd_Kind n = MappingNode then f n else n)"

definition service_resources :: "resources_cfg \<Rightarrow> yaml_node \<Rightarrow> yaml_node" where
  "service_resources r svc = applyDeployResources r (fold removeMappingChild legacy_fields svc)"

definition applyResources :: "(string \<times> resources_cfg) list \<Rightarrow> yaml_node \<Rightarrow> yaml_node" where
  "applyResources cfg services = fold (\<lambda>(svc, r). at_field svc (if_mapping (service_resources r))) cfg services"

definition or_else :: "string \<Rightarrow> string \<Rightarrow> string" where
  "or_else v old = (if v \<noteq> [] then v else old)"

definition resource_value :: "yaml_node \<Rightarrow> string \<Rightarrow> string \<Rightarrow> string" where
  "resource_value svc block key =
     (case Option.bind (Option.bind (mappingFieldNode svc ''deploy'') (\<lambda>d. mappingFieldNode d ''resources'')) (\<lambda>r. mappingFieldNode r block) of
        None \<Rightarrow> [] | Some n \<Rightarrow> scalarValue n key)"

definition resourcesCfgFromService :: "yaml_node \<Rightarrow> resources_cfg \<times> bool" where
  "resourcesCfgFromService svc =
     (let out = \<lparr>rs_CPUsLimit = or_else (resource_value svc ''limits'' ''cpus'') (scalarValue svc ''cpus''),
                 rs_CPUsReservation = resource_value svc ''reservations'' ''cpus'',
                 rs_MemoryLimit = or_else (resource_value svc ''limits'' ''memory'') (scalarValue svc ''mem_limit''),
                 rs_MemoryReservation = or_else (resource_value svc ''reservations'' ''memory'') (scalarValue svc ''mem_reservation'')\<rparr>
      in (out, rs_CPUsLimit out \<noteq> [] \<or> rs_CPUsReservation out \<noteq> [] \<or> rs_MemoryLimit out \<noteq> [] \<or> rs_MemoryReservation out \<noteq> []))"

section \<open>Writing the configuration into a file\<close>

text \<open>Which owned are purged on a service, and which labels are written there.\<close>

definition addons :: "addons_config \<Rightarrow> (string \<times> (string \<times> addon_cfg) list) list" where
  "addons cfg = [(traefik_prefix, ac_Traefik cfg), (sablier_prefix, ac_Sablier cfg),
     (watchtower_prefix, ac_Watchtower cfg), (backup_prefix, ac_Backup cfg)]"

definition purge_of :: "addons_config \<Rightarrow> string \<Rightarrow> string list" where
  "purge_of cfg svc = map fst (filter (\<lambda>(p, m). map_of m svc \<noteq> None) (addons cfg))"

definition labels_of :: "addons_config \<Rightarrow> string \<Rightarrow> labels" where
  "labels_of cfg svc =
     fold (\<lambda>(p, m) acc. case map_of m svc of None \<Rightarrow> acc | Some c \<Rightarrow> merge_labels (build_labels p c) acc) (addons cfg) []"

definition touched :: "addons_config \<Rightarrow> string list" where
  "touched cfg = remdups (concat (map (map fst \<circ> snd) (addons cfg)))"

definition inject_service :: "string \<Rightarrow> addons_config \<Rightarrow> string \<Rightarrow> yaml_node \<Rightarrow> yaml_node" where
  "inject_service mode cfg svc n =
     resolveLabelsNode mode (writeLabels (labels_of cfg svc)) (strip_locations (purge_of cfg svc) n)"

text \<open>\<open>order\<close> is the order in which Go iterates over the map of touched services.\<close>

definition inject_services :: "string list \<Rightarrow> addons_config \<Rightarrow> string \<Rightarrow> yaml_node \<Rightarrow> yaml_node" where
  "inject_services order cfg mode services =
     applyResources (ac_Resources cfg)
       (fold (\<lambda>svc. at_field svc (if_mapping (inject_service mode cfg svc))) order services)"

definition injectAddonLabels :: "yaml_lib \<Rightarrow> string list \<Rightarrow> string \<Rightarrow> addons_config option \<Rightarrow> string \<Rightarrow> (go_error + unit) \<times> string" where
  "injectAddonLabels Y order content cfg mode =
     (case cfg of
        None \<Rightarrow> (Inr (), content)
      | Some cfg \<Rightarrow>
          if \<not> hasAnyAddon cfg then (Inr (), content)
          else case yaml_Unmarshal Y content of
            Inl e \<Rightarrow> (Inl (''addon labels: parse YAML: '' @ e), content)
          | Inr root \<Rightarrow>
              case documentNode root of
                None \<Rightarrow> (Inl ''addon labels: empty YAML document'', content)
              | Some doc \<Rightarrow>
                  if mappingFieldNode doc ''services'' = None then (Inr (), content)
                  else case yaml_Encode2 Y (on_document (at_field ''services'' (inject_services order cfg mode)) root) of
                    Inl e \<Rightarrow> (Inl (''addon labels: serialize YAML: '' @ e), content)
                  | Inr buf \<Rightarrow> (Inr (), buf))"

section \<open>Reading it back\<close>

definition service_labels :: "yaml_node \<Rightarrow> labels" where
  "service_labels svc = fold collectLabels (labelLocations svc) []"

definition put_cfg :: "string \<Rightarrow> addon_cfg \<Rightarrow> (string \<times> addon_cfg) list \<Rightarrow> (string \<times> addon_cfg) list" where
  "put_cfg svc c m = (if ad_Enabled c \<or> ad_Labels c \<noteq> [] then AList.update svc c m else m)"

definition extract_service :: "string \<Rightarrow> yaml_node \<Rightarrow> addons_config \<Rightarrow> addons_config" where
  "extract_service svc n out =
     (let labels = service_labels n; (rc, ok) = resourcesCfgFromService n in
      \<lparr>ac_Traefik = put_cfg svc (traefikCfgFromLabels labels) (ac_Traefik out),
       ac_Sablier = put_cfg svc (sablierCfgFromLabels labels) (ac_Sablier out),
       ac_Watchtower = put_cfg svc (watchtowerCfgFromLabels labels) (ac_Watchtower out),
       ac_Backup = put_cfg svc (backupCfgFromLabels labels) (ac_Backup out),
       ac_Resources = (if ok then AList.update svc rc (ac_Resources out) else ac_Resources out)\<rparr>)"

fun extract_services :: "yaml_node list \<Rightarrow> addons_config \<Rightarrow> addons_config" where
  "extract_services (k # v # rest) out =
     extract_services rest (if nd_Kind v = MappingNode then extract_service (nd_Value k) v out else out)"
| "extract_services _ out = out"

definition no_addons :: addons_config where
  "no_addons = \<lparr>ac_Traefik = [], ac_Sablier = [], ac_Watchtower = [], ac_Backup = [], ac_Resources = []\<rparr>"

definition extract_root :: "yaml_node \<Rightarrow> addons_config" where
  "extract_root root =
     (case Option.bind (documentNode root) (\<lambda>doc. mappingFieldNode doc ''services'') of
        None \<Rightarrow> no_addons
      | Some services \<Rightarrow>
          if nd_Kind services = MappingNode then extract_services (nd_Content services) no_addons else no_addons)"

definition extractAddonConfig :: "yaml_lib \<Rightarrow> string \<Rightarrow> addons_config \<times> go_error option" where
  "extractAddonConfig Y content =
     (if TrimSpace content = [] then (no_addons, None)
      else case yaml_Unmarshal Y content of
        Inl e \<Rightarrow> (no_addons, Some e)
      | Inr root \<Rightarrow> (extract_root root, None))"

definition detectActiveAddons :: "yaml_lib \<Rightarrow> compose_stack \<Rightarrow> string list" where
  "detectActiveAddons Y s =
     (if TrimSpace (cs_Content s) = [] then []
      else case extractAddonConfig Y (cs_Content s) of
        (cfg, Some _) \<Rightarrow> []
      | (cfg, None) \<Rightarrow>
          (if ac_Traefik cfg \<noteq> [] then [''traefik''] else [])
          @ (if ac_Sablier cfg \<noteq> [] then [''sablier''] else [])
          @ (if ac_Watchtower cfg \<noteq> [] then [''watchtower''] else [])
          @ (if ac_Backup cfg \<noteq> [] then [''backup''] else [])
          @ (if ac_Resources cfg \<noteq> [] then [''resources''] else [])
          @ (if \<not> cs_DisableRegistryCache s \<and> contains (cs_Content s) ''swirl-managed-registry-cache''
             then [''registry-cache''] else []))"

end
