(* ===== verification/AddonRules.thy ===== *)
theory AddonRules
  imports AddonLabels
begin

text \<open>
  How the edits of the wizard act on the label map of a service, and on the fields of a mapping.
\<close>

section \<open>Label lists as maps\<close>

lemma map_of_merge_labels: "map_of (merge_labels new into) = map_of into ++ map_of (rev new)"
  unfolding merge_labels_def
  by (induction new arbitrary: into) (auto simp: AList.update_conv' fun_eq_iff map_add_def split: option.split)

lemma distinct_merge_labels: "distinct (map fst into) \<Longrightarrow> distinct (map fst (merge_labels new into))"
  unfolding merge_labels_def
  by (induction new arbitrary: into) (auto simp: AList.distinct_update)

lemma map_of_rev_distinct: "distinct (map fst xs) \<Longrightarrow> map_of (rev xs) = map_of xs"
  by (rule map_of_eqI) (auto simp: rev_map [symmetric] intro!: map_of_eqI simp: map_of_inject_set)

lemma map_of_sorted_labels:
  assumes "distinct (map fst L)"
  shows "map_of (sorted_labels L) = map_of L" and "distinct (map fst (sorted_labels L))"
    and "set (map fst (sorted_labels L)) = fst ` set L"
proof -
  show d: "distinct (map fst (sorted_labels L))" using assms by (simp add: sorted_labels_def comp_def)
  show s: "set (map fst (sorted_labels L)) = fst ` set L" by (force simp: sorted_labels_def)
  show "map_of (sorted_labels L) = map_of L"
  proof
    fix k
    show "map_of (sorted_labels L) k = map_of L k"
    proof (cases "k \<in> fst ` set L")
      case False
      then show ?thesis using s by (metis list.set_map map_of_eq_None_iff)
    next
      case True
      then obtain v where v: "map_of L k = Some v" by (metis map_of_eq_None_iff not_None_eq)
      then have "(k, v) \<in> set (sorted_labels L)" using True by (force simp: sorted_labels_def)
      with d v show ?thesis by simp
    qed
  qed
qed

section \<open>One label node\<close>

definition loc_list :: "yaml_node \<Rightarrow> labels" where
  "loc_list n =
     (if nd_Kind n = MappingNode then field_values (nd_Content n)
      else if nd_Kind n = SequenceNode then filter (\<lambda>kv. fst kv \<noteq> []) (map splitSeqLabel (nd_Content n))
      else [])"

definition loc_map :: "yaml_node \<Rightarrow> string \<rightharpoonup> string" where
  "loc_map n = map_of (rev (loc_list n))"

lemma collectLabels_merge: "collectLabels n into = merge_labels (loc_list n) into"
  by (simp add: collectLabels_def loc_list_def merge_labels_def)

lemma loc_list_plain: "\<not> isLabelsNode n \<Longrightarrow> loc_list n = []"
  by (simp add: loc_list_def isLabelsNode_def)

lemma loc_map_new [simp]: "loc_map mapping_node = Map.empty"
  by (simp add: loc_map_def loc_list_def)

lemma field_values_strip: "field_values (strip_fields owned c) = filter (\<lambda>kv. \<not> hasAnyPrefix (fst kv) owned) (field_values c)"
  by (induction owned c rule: strip_fields.induct) auto

lemma even_strip: "even (length (strip_fields owned c))"
  by (induction owned c rule: strip_fields.induct) auto

lemma loc_list_strip: "loc_list (stripPrefixes owned n) = filter (\<lambda>kv. \<not> hasAnyPrefix (fst kv) owned) (loc_list n)"
  by (auto simp: loc_list_def stripPrefixes_def field_values_strip filter_map comp_def conj_commute)

lemma map_of_filter_keys: "map_of (filter (\<lambda>kv. P (fst kv)) xs) k = (if P k then map_of xs k else None)"
  by (induction xs) auto

lemma loc_map_strip: "loc_map (stripPrefixes owned n) k = (if hasAnyPrefix k owned then None else loc_map n k)"
  using map_of_filter_keys [of "\<lambda>k. \<not> hasAnyPrefix k owned" "rev (loc_list n)" k]
  by (simp add: loc_map_def loc_list_strip rev_filter)

lemma strip_kind [simp]: "nd_Kind (stripPrefixes owned n) = nd_Kind n"
  by (simp add: stripPrefixes_def)

lemma field_values_append: "even (length c) \<Longrightarrow> field_values (c @ d) = field_values c @ field_values d"
  by (induction c rule: field_values.induct) auto

lemma field_values_new: "field_values (concat (map (\<lambda>(k, v). [scalar_node k, scalar_node v]) L)) = L"
  by (induction L) auto

lemma split_entry: "CHR ''='' \<notin> set k \<Longrightarrow> splitSeqLabel (sequence_entry (k, v)) = (k, v)"
  by (simp add: splitSeqLabel_def sequence_entry_def str_cut_at_first [of "''=''" k v, simplified])

lemma split_entries: "\<forall>kv \<in> set L. CHR ''='' \<notin> set (fst kv) \<Longrightarrow> map splitSeqLabel (map sequence_entry L) = L"
  by (induction L) (auto simp: split_entry)

definition plain_keys :: "labels \<Rightarrow> bool" where
  "plain_keys L \<longleftrightarrow> distinct (map fst L) \<and> (\<forall>k \<in> fst ` set L. k \<noteq> [] \<and> CHR ''='' \<notin> set k)"

lemma loc_map_write:
  assumes "plain_keys L" "isLabelsNode n" "nd_Kind n = MappingNode \<Longrightarrow> even (length (nd_Content n))"
  shows "loc_map (writeLabels L n) = loc_map n ++ map_of L"
proof -
  have d: "distinct (map fst L)" using assms(1) by (simp add: plain_keys_def)
  note s = map_of_sorted_labels [OF d]
  have keys: "\<forall>kv \<in> set (sorted_labels L). fst kv \<noteq> [] \<and> CHR ''='' \<notin> set (fst kv)"
  proof
    fix kv assume "kv \<in> set (sorted_labels L)"
    then have "fst kv \<in> fst ` set L" unfolding s(3) [symmetric] by simp
    then show "fst kv \<noteq> [] \<and> CHR ''='' \<notin> set (fst kv)" using assms(1) unfolding plain_keys_def by blast
  qed
  then have "filter (\<lambda>kv. fst kv \<noteq> []) (map splitSeqLabel (map sequence_entry (sorted_labels L))) = sorted_labels L"
    by (simp add: split_entries filter_id_conv del: map_map)
  then have "loc_list (writeLabels L n) = loc_list n @ sorted_labels L"
    using assms(2,3) by (auto simp: loc_list_def writeLabels_def isLabelsNode_def field_values_append field_values_new)
  then show ?thesis
    using map_of_rev_distinct [OF s(2)] s(1) by (simp add: loc_map_def)
qed

section \<open>The labels of a service\<close>

definition label_map :: "yaml_node \<Rightarrow> string \<rightharpoonup> string" where
  "label_map svc = map_of (service_labels svc)"

definition slot_map :: "yaml_node option \<Rightarrow> string \<rightharpoonup> string" where
  "slot_map x = (case x of None \<Rightarrow> Map.empty | Some n \<Rightarrow> loc_map n)"

definition deploy_labels :: "yaml_node \<Rightarrow> yaml_node option" where
  "deploy_labels svc = Option.bind (mappingFieldNode svc ''deploy'') (\<lambda>dep. mappingFieldNode dep ''labels'')"

lemma slot_map_simps [simp]: "slot_map None = Map.empty" "slot_map (Some n) = loc_map n"
  by (simp_all add: slot_map_def)

lemma service_labels_distinct: "distinct (map fst (service_labels svc))"
proof -
  have "distinct (map fst into) \<Longrightarrow> distinct (map fst (fold collectLabels ns into))" for ns into
    by (induction ns arbitrary: into) (auto simp: collectLabels_merge distinct_merge_labels)
  then show ?thesis by (simp add: service_labels_def)
qed

lemma map_of_fold_collect: "map_of (fold collectLabels ns into) = foldl (\<lambda>m n. m ++ loc_map n) (map_of into) ns"
  by (induction ns arbitrary: into) (auto simp: collectLabels_merge map_of_merge_labels loc_map_def)

lemma label_map_slots: "label_map svc = slot_map (mappingFieldNode svc ''labels'') ++ slot_map (deploy_labels svc)"
proof -
  have "loc_map n = Map.empty" if "\<not> isLabelsNode n" for n
    using that by (simp add: loc_map_def loc_list_plain)
  then show ?thesis
    by (cases "mappingFieldNode svc ''labels''"; cases "deploy_labels svc")
      (auto simp: label_map_def service_labels_def labelLocations_def map_of_fold_collect deploy_labels_def List.map_filter_def)
qed

text \<open>Where the labels can be written: the node of the mode is absent or a mapping or a sequence.\<close>

definition writable :: "string \<Rightarrow> yaml_node \<Rightarrow> bool" where
  "writable mode svc \<longleftrightarrow>
     (case (if mode = ''swarm'' then deploy_labels svc else mappingFieldNode svc ''labels'') of
        None \<Rightarrow> True | Some n \<Rightarrow> isLabelsNode n)"

lemma ensureLabelsChild_field:
  assumes "mapping_ok n"
  shows "mapping_ok (ensureLabelsChild f n)"
    and "mappingFieldNode (ensureLabelsChild f n) key =
      (if key = ''labels'' then Some (f (case mappingFieldNode n ''labels'' of None \<Rightarrow> mapping_node | Some v \<Rightarrow> v))
       else mappingFieldNode n key)"
proof -
  have k: "nd_Kind n = MappingNode" and f: "mappingFieldNode n ''labels'' = field ''labels'' (nd_Content n)"
    using assms by (simp_all add: mapping_ok_def mappingFieldNode_def)
  show "mapping_ok (ensureLabelsChild f n)"
    using append_field_ok(1) [OF assms] mapping_ok_at_field [OF assms] k f
    by (simp add: ensureLabelsChild_def split: option.split)
  show "mappingFieldNode (ensureLabelsChild f n) key =
      (if key = ''labels'' then Some (f (case mappingFieldNode n ''labels'' of None \<Rightarrow> mapping_node | Some v \<Rightarrow> v))
       else mappingFieldNode n key)"
    using append_field_ok(2) [OF assms, of "''labels''" "f mapping_node" key] k f
    by (cases "field ''labels'' (nd_Content n)") (auto simp: ensureLabelsChild_def)
qed

lemma strip_locations_slots:
  "slot_map (mappingFieldNode (strip_locations owned svc) ''labels'') k =
     (if hasAnyPrefix k owned then None else slot_map (mappingFieldNode svc ''labels'') k)"
  "slot_map (deploy_labels (strip_locations owned svc)) k = (if hasAnyPrefix k owned then None else slot_map (deploy_labels svc) k)"
  by (cases "mappingFieldNode svc ''labels''"; simp add: strip_locations_def loc_map_strip)
    (cases "mappingFieldNode svc ''deploy''"; cases "deploy_labels svc"; simp add: strip_locations_def deploy_labels_def loc_map_strip)

end
