(* ===== verification/AddonTheorems.thy ===== *)
theory AddonTheorems
  imports AddonRules
begin

text \<open>
  What the wizard writes into a compose file it reads back, and the labels and services it does not
  own stay as they are.
\<close>

section \<open>Writing to one service\<close>

lemma stripped_even: "nd_Kind (stripPrefixes owned v) = MappingNode \<Longrightarrow> even (length (nd_Content (stripPrefixes owned v)))"
  by (simp add: strip_kind) (simp add: stripPrefixes_def even_strip)

lemma write_slot:
  assumes "plain_keys L" "case x of None \<Rightarrow> True | Some v \<Rightarrow> isLabelsNode v"
  shows "loc_map (writeLabels L (case map_option (stripPrefixes owned) x of None \<Rightarrow> mapping_node | Some v \<Rightarrow> v))
    = slot_map (map_option (stripPrefixes owned) x) ++ map_of L"
proof (cases x)
  case None
  then show ?thesis using loc_map_write [OF assms(1), of mapping_node] by (simp add: isLabelsNode_def)
next
  case (Some v)
  then show ?thesis using loc_map_write [OF assms(1), of "stripPrefixes owned v"] stripped_even assms(2) by (simp add: isLabelsNode_def)
qed

lemma strip_locations_ok: "mapping_ok n \<Longrightarrow> mapping_ok (strip_locations owned n)"
  by (simp add: strip_locations_def mapping_ok_at_field)

lemma strip_locations_fields:
  "mappingFieldNode (strip_locations owned n) ''labels'' = map_option (stripPrefixes owned) (mappingFieldNode n ''labels'')"
  "mappingFieldNode (strip_locations owned n) ''deploy'' = map_option (at_field ''labels'' (stripPrefixes owned)) (mappingFieldNode n ''deploy'')"
  "deploy_labels (strip_locations owned n) = map_option (stripPrefixes owned) (deploy_labels n)"
  by (simp_all add: strip_locations_def deploy_labels_def) (cases "mappingFieldNode n ''deploy''"; simp)

lemma at_field_as_mapping: "as_mapping (at_field key f v) = at_field key f (as_mapping v)"
  by (auto simp: as_mapping_def at_field_def set_Content_def)

lemma as_mapping_field [simp]: "mappingFieldNode (as_mapping v) key = mappingFieldNode v key"
  by (simp add: as_mapping_def mappingFieldNode_def)

lemma resolved_slots:
  assumes "well_formed n" "nd_Kind n = MappingNode" "writable mode n" "plain_keys L"
    and "n' = resolveLabelsNode mode (writeLabels L) (strip_locations owned n)"
  shows "label_map n' = slot_map (map_option (stripPrefixes owned) (mappingFieldNode n ''labels''))
      ++ (if mode = ''swarm'' then slot_map (map_option (stripPrefixes owned) (deploy_labels n)) ++ map_of L
          else map_of L ++ slot_map (map_option (stripPrefixes owned) (deploy_labels n)))"
proof (cases "mode = ''swarm''")
  case False
  have ok: "mapping_ok (strip_locations owned n)" using assms(1,2) by (simp add: strip_locations_ok mapping_ok_well_formed)
  have "mappingFieldNode n' ''labels'' = Some (writeLabels L (case map_option (stripPrefixes owned) (mappingFieldNode n ''labels'') of None \<Rightarrow> mapping_node | Some v \<Rightarrow> v))"
    "deploy_labels n' = deploy_labels (strip_locations owned n)"
    using False by (simp_all add: assms(5) resolveLabelsNode_def ensureLabelsChild_field [OF ok] deploy_labels_def strip_locations_fields(1))
  then show ?thesis
    using False write_slot [OF assms(4), of "mappingFieldNode n ''labels''" owned] assms(3)
    by (simp add: label_map_slots strip_locations_fields(3) writable_def)
next
  case True
  have ok: "mapping_ok (strip_locations owned n)" using assms(1,2) by (simp add: strip_locations_ok mapping_ok_well_formed)
  let ?D = "case mappingFieldNode (strip_locations owned n) ''deploy'' of None \<Rightarrow> mapping_node | Some v \<Rightarrow> as_mapping v"
  have D: "mapping_ok ?D"
    using assms(1) well_formed_field
    by (auto simp: strip_locations_fields at_field_as_mapping mapping_ok_as_mapping mapping_ok_at_field split: option.split)
  have L: "mappingFieldNode ?D ''labels'' = map_option (stripPrefixes owned) (deploy_labels n)"
    by (cases "mappingFieldNode n ''deploy''")
      (simp_all add: strip_locations_fields at_field_as_mapping deploy_labels_def, simp add: mappingFieldNode_def)
  have "mappingFieldNode n' ''labels'' = map_option (stripPrefixes owned) (mappingFieldNode n ''labels'')"
    "deploy_labels n' = Some (writeLabels L (case map_option (stripPrefixes owned) (deploy_labels n) of None \<Rightarrow> mapping_node | Some v \<Rightarrow> v))"
    using True unfolding deploy_labels_def [of n']
    by (simp_all add: assms(5) resolveLabelsNode_def ensureMappingChild_ok [OF ok] ensureLabelsChild_field [OF D] L)
      (simp add: strip_locations_fields)
  then show ?thesis
    using True write_slot [OF assms(4), of "deploy_labels n" owned] assms(3)
    by (simp add: label_map_slots writable_def)
qed

lemma slot_map_strip: "slot_map (map_option (stripPrefixes owned) x) k = (if hasAnyPrefix k owned then None else slot_map x k)"
  by (cases x) (simp_all add: loc_map_strip)

lemma inject_label_map:
  assumes "well_formed n" "nd_Kind n = MappingNode" "writable mode n" "plain_keys L" "\<forall>k \<in> fst ` set L. hasAnyPrefix k owned"
  shows "label_map (resolveLabelsNode mode (writeLabels L) (strip_locations owned n)) k =
    (if hasAnyPrefix k owned then map_of L k else label_map n k)"
proof -
  have "map_of L k = None" if "\<not> hasAnyPrefix k owned" using that assms(5) by (auto simp: map_of_eq_None_iff)
  then show ?thesis
    unfolding resolved_slots [OF assms(1-4) refl] label_map_slots [of n]
    by (auto simp: map_add_def slot_map_strip split: option.split)
qed

section \<open>The labels of a configuration\<close>

text \<open>A configuration as the wizard has it: no label twice, only labels of the prefix, none of them
  the switch.\<close>

definition canonical :: "string \<Rightarrow> addon_cfg \<Rightarrow> bool" where
  "canonical p c \<longleftrightarrow>
     plain_keys (ad_Labels c) \<and> (\<forall>k \<in> fst ` set (ad_Labels c). has_prefix k p)
     \<and> (if ad_Enabled c then p @ ''enable'' \<notin> fst ` set (ad_Labels c)
        else map_of (ad_Labels c) (p @ ''enable'') \<noteq> Some ''true'')"

definition prefixes_of_addons :: "string set" where
  "prefixes_of_addons = {traefik_prefix, sablier_prefix, watchtower_prefix, backup_prefix}"

lemmas prefix_defs = traefik_prefix_def sablier_prefix_def watchtower_prefix_def backup_prefix_def

lemma addon_prefixes: "fst ` set (addons cfg) = prefixes_of_addons" "distinct (map fst (addons cfg))"
  by (auto simp: addons_def prefixes_of_addons_def prefix_defs)

lemma one_prefix: "p \<in> prefixes_of_addons \<Longrightarrow> q \<in> prefixes_of_addons \<Longrightarrow> has_prefix k p \<Longrightarrow> has_prefix k q \<Longrightarrow> p = q"
  by (cases k) (auto simp: prefixes_of_addons_def prefix_defs has_prefix_def)

lemma ball_subset_insert: "A \<subseteq> insert x B \<Longrightarrow> P x \<Longrightarrow> \<forall>k \<in> B. P k \<Longrightarrow> \<forall>k \<in> A. P k"
  by blast

lemma map_of_build_labels:
  assumes "canonical p c"
  shows "map_of (build_labels p c) = (if ad_Enabled c then (map_of (ad_Labels c))(p @ ''enable'' \<mapsto> ''true'') else map_of (ad_Labels c))"
    and "distinct (map fst (build_labels p c))" and "\<forall>k \<in> fst ` set (build_labels p c). has_prefix k p"
proof -
  have own: "filterPrefix (ad_Labels c) p = ad_Labels c" using assms by (simp add: canonical_def filterPrefix_def filter_id_conv)
  then show "map_of (build_labels p c) = (if ad_Enabled c then (map_of (ad_Labels c))(p @ ''enable'' \<mapsto> ''true'') else map_of (ad_Labels c))"
    by (simp add: build_labels_def AList.update_conv')
  show "distinct (map fst (build_labels p c))"
    using own assms by (simp add: build_labels_def AList.distinct_update canonical_def plain_keys_def Let_def)
  show "\<forall>k \<in> fst ` set (build_labels p c). has_prefix k p"
  proof -
    have "fst ` set (build_labels p c) \<subseteq> insert (p @ ''enable'') (fst ` set (ad_Labels c))"
      using own AList.dom_update [of "p @ ''enable''" "''true''" "ad_Labels c"] by (auto simp: build_labels_def Let_def)
    moreover have "has_prefix (p @ ''enable'') p" by (simp add: has_prefix_def)
    moreover have "\<forall>k \<in> fst ` set (ad_Labels c). has_prefix k p" using assms unfolding canonical_def by (elim conjE)
    ultimately show ?thesis by (rule ball_subset_insert)
  qed
qed

definition canonical_config :: "addons_config \<Rightarrow> bool" where
  "canonical_config cfg \<longleftrightarrow> (\<forall>(p, m) \<in> set (addons cfg). \<forall>(svc, c) \<in> set m. canonical p c)"

text \<open>The configuration of the add-on with this prefix on a service.\<close>

definition addon_at :: "string \<Rightarrow> addons_config \<Rightarrow> string \<Rightarrow> addon_cfg option" where
  "addon_at p cfg svc = map_of (the (map_of (addons cfg) p)) svc"

lemma addon_at_simps:
  "addon_at traefik_prefix cfg svc = map_of (ac_Traefik cfg) svc" "addon_at sablier_prefix cfg svc = map_of (ac_Sablier cfg) svc"
  "addon_at watchtower_prefix cfg svc = map_of (ac_Watchtower cfg) svc" "addon_at backup_prefix cfg svc = map_of (ac_Backup cfg) svc"
  by (simp_all add: addon_at_def addons_def prefix_defs)

lemma addon_at_canonical: "canonical_config cfg \<Longrightarrow> p \<in> prefixes_of_addons \<Longrightarrow> addon_at p cfg svc = Some c \<Longrightarrow> canonical p c"
  by (auto simp: canonical_config_def prefixes_of_addons_def addon_at_simps addons_def dest!: map_of_SomeD)

definition own_labels :: "string \<Rightarrow> addons_config \<Rightarrow> string \<Rightarrow> string \<rightharpoonup> string" where
  "own_labels p cfg svc = (case addon_at p cfg svc of None \<Rightarrow> Map.empty | Some c \<Rightarrow> map_of (build_labels p c))"

lemma own_labels_prefix:
  assumes "canonical_config cfg" "p \<in> prefixes_of_addons" "own_labels p cfg svc k = Some v"
  shows "has_prefix k p" "addon_at p cfg svc \<noteq> None" "k \<noteq> []" "CHR ''='' \<notin> set k"
proof -
  obtain c where c: "addon_at p cfg svc = Some c" "map_of (build_labels p c) k = Some v"
    using assms(3) by (auto simp: own_labels_def split: option.splits)
  have can: "canonical p c" using addon_at_canonical [OF assms(1,2) c(1)] .
  have "k \<in> fst ` set (build_labels p c)" using c(2) by (metis map_of_eq_None_iff not_None_eq)
  then show p: "has_prefix k p" using map_of_build_labels(3) [OF can] by blast
  show "addon_at p cfg svc \<noteq> None" using c(1) by simp
  show "k \<noteq> []" using p assms(2) by (auto simp: has_prefix_def prefixes_of_addons_def prefix_defs)
  have "k = p @ ''enable'' \<or> k \<in> fst ` set (ad_Labels c)"
    using c(2) unfolding map_of_build_labels(1) [OF can]
    by (auto split: if_splits dest!: map_of_SomeD intro: rev_image_eqI)
  then show "CHR ''='' \<notin> set k"
  proof
    assume "k = p @ ''enable''"
    then show ?thesis using assms(2) by (auto simp: prefixes_of_addons_def prefix_defs)
  next
    assume "k \<in> fst ` set (ad_Labels c)"
    then show ?thesis using can unfolding canonical_def plain_keys_def by blast
  qed
qed

lemma map_of_labels_of:
  assumes "canonical_config cfg"
  shows "map_of (labels_of cfg svc) = own_labels traefik_prefix cfg svc ++ own_labels sablier_prefix cfg svc
      ++ own_labels watchtower_prefix cfg svc ++ own_labels backup_prefix cfg svc"
    and "distinct (map fst (labels_of cfg svc))"
proof -
  have b: "map_of (rev (build_labels p c)) = map_of (build_labels p c)" if "p \<in> prefixes_of_addons" "addon_at p cfg svc = Some c" for p c
    using map_of_build_labels(2) [OF addon_at_canonical [OF assms that]] by (rule map_of_rev_distinct)
  have "traefik_prefix \<in> prefixes_of_addons" "sablier_prefix \<in> prefixes_of_addons"
    "watchtower_prefix \<in> prefixes_of_addons" "backup_prefix \<in> prefixes_of_addons"
    by (simp_all add: prefixes_of_addons_def)
  note b = this [THEN b]
  show "map_of (labels_of cfg svc) = own_labels traefik_prefix cfg svc ++ own_labels sablier_prefix cfg svc
      ++ own_labels watchtower_prefix cfg svc ++ own_labels backup_prefix cfg svc"
    using b
    by (cases "addon_at traefik_prefix cfg svc"; cases "addon_at sablier_prefix cfg svc";
        cases "addon_at watchtower_prefix cfg svc"; cases "addon_at backup_prefix cfg svc")
      (simp_all add: labels_of_def addons_def own_labels_def addon_at_simps map_of_merge_labels)
  show "distinct (map fst (labels_of cfg svc))"
    by (simp add: labels_of_def addons_def distinct_merge_labels split: option.split)
qed

lemma four_prefixes:
  "traefik_prefix \<in> prefixes_of_addons" "sablier_prefix \<in> prefixes_of_addons"
  "watchtower_prefix \<in> prefixes_of_addons" "backup_prefix \<in> prefixes_of_addons"
  "distinct [traefik_prefix, sablier_prefix, watchtower_prefix, backup_prefix]"
  by (simp_all add: prefixes_of_addons_def prefix_defs)

lemma labels_of_own:
  assumes "canonical_config cfg" "p \<in> prefixes_of_addons" "has_prefix k p"
  shows "map_of (labels_of cfg svc) k = own_labels p cfg svc k"
proof -
  have other: "own_labels q cfg svc k = (if q = p then own_labels p cfg svc k else None)" if "q \<in> prefixes_of_addons" for q
  proof (cases "own_labels q cfg svc k")
    case (Some v)
    then have "q = p" using own_labels_prefix(1) [OF assms(1) that] one_prefix [OF that assms(2) _ assms(3)] by blast
    then show ?thesis by simp
  qed (cases "q = p", simp_all)
  note o = four_prefixes(1-4) [THEN other]
  have "p = traefik_prefix \<or> p = sablier_prefix \<or> p = watchtower_prefix \<or> p = backup_prefix"
    using assms(2) by (simp add: prefixes_of_addons_def)
  then show ?thesis
    unfolding map_of_labels_of(1) [OF assms(1)] map_add_def o using four_prefixes(5)
    by (elim disjE) (simp_all split: option.split)
qed

lemma labels_of_some:
  assumes "canonical_config cfg" "k \<in> fst ` set (labels_of cfg svc)"
  obtains p v where "p \<in> prefixes_of_addons" "own_labels p cfg svc k = Some v"
proof -
  obtain v where "map_of (labels_of cfg svc) k = Some v" using assms(2) by (metis map_of_eq_None_iff not_None_eq)
  then show ?thesis
    using that unfolding map_of_labels_of(1) [OF assms(1)] prefixes_of_addons_def
    by (auto simp: map_add_def split: option.splits)
qed

lemma plain_labels_of: "canonical_config cfg \<Longrightarrow> plain_keys (labels_of cfg svc)"
  unfolding plain_keys_def using map_of_labels_of(2) own_labels_prefix(3,4) labels_of_some by metis

lemma hasAnyPrefix_purge:
  "hasAnyPrefix k (purge_of cfg svc) \<longleftrightarrow> (\<exists>p \<in> prefixes_of_addons. addon_at p cfg svc \<noteq> None \<and> has_prefix k p)"
  by (auto simp: hasAnyPrefix_def purge_of_def list_ex_iff addons_def prefixes_of_addons_def addon_at_simps)

lemma purge_owns_labels:
  assumes "canonical_config cfg"
  shows "\<forall>k \<in> fst ` set (labels_of cfg svc). hasAnyPrefix k (purge_of cfg svc)"
proof
  fix k assume "k \<in> fst ` set (labels_of cfg svc)"
  from labels_of_some [OF assms this] show "hasAnyPrefix k (purge_of cfg svc)"
    unfolding hasAnyPrefix_purge using own_labels_prefix(1,2) [OF assms] by metis
qed

text \<open>The labels of an add-on on a service after the injection.\<close>

lemma injected_labels:
  assumes "canonical_config cfg" "well_formed n" "nd_Kind n = MappingNode" "writable mode n" "p \<in> prefixes_of_addons" "has_prefix k p"
  shows "label_map (inject_service mode cfg svc n) k =
    (case addon_at p cfg svc of None \<Rightarrow> label_map n k | Some c \<Rightarrow> map_of (build_labels p c) k)"
proof -
  have i: "label_map (inject_service mode cfg svc n) k =
      (if hasAnyPrefix k (purge_of cfg svc) then map_of (labels_of cfg svc) k else label_map n k)"
    unfolding inject_service_def
    by (rule inject_label_map [OF assms(2-4) plain_labels_of [OF assms(1)] purge_owns_labels [OF assms(1)]])
  show ?thesis
  proof (cases "addon_at p cfg svc")
    case None
    then have "\<not> hasAnyPrefix k (purge_of cfg svc)"
      unfolding hasAnyPrefix_purge using one_prefix [OF assms(5)] assms(6) by metis
    with i None show ?thesis by simp
  next
    case (Some c)
    then have "hasAnyPrefix k (purge_of cfg svc)" unfolding hasAnyPrefix_purge using assms(5,6) by auto
    with i Some show ?thesis by (simp add: labels_of_own [OF assms(1,5,6)] own_labels_def)
  qed
qed

section \<open>Reading a service\<close>

definition same_cfg :: "addon_cfg \<Rightarrow> addon_cfg \<Rightarrow> bool" where
  "same_cfg c d \<longleftrightarrow> ad_Enabled c = ad_Enabled d \<and> map_of (ad_Labels c) = map_of (ad_Labels d)"

definition empty_cfg :: "addon_cfg \<Rightarrow> bool" where
  "empty_cfg c \<longleftrightarrow> \<not> ad_Enabled c \<and> ad_Labels c = []"

lemma same_empty: "same_cfg c d \<Longrightarrow> empty_cfg c = empty_cfg d"
  by (simp add: same_cfg_def empty_cfg_def) (metis map_of_eq_empty_iff)

lemma option_by_Some:
  assumes "\<And>v. m = Some v \<longleftrightarrow> n = Some v \<and> P \<and> \<not> (Q \<and> v = t)"
  shows "m = (if P \<and> \<not> (Q \<and> n = Some t) then n else None)"
proof (cases n)
  case None
  then have "m = None" using assms [of "the m"] by (cases m) simp_all
  with None show ?thesis by simp
next
  case (Some w)
  then have "m = None \<or> m = Some w" using assms [of "the m"] by (cases m) simp_all
  with Some assms [of w] show ?thesis by auto
qed

lemma cfg_from_labels_map:
  assumes "distinct (map fst ls)"
  shows "ad_Enabled (cfg_from_labels p ls) \<longleftrightarrow> map_of ls (p @ ''enable'') = Some ''true''"
    and "map_of (ad_Labels (cfg_from_labels p ls)) k =
      (if has_prefix k p \<and> \<not> (k = p @ ''enable'' \<and> map_of ls k = Some ''true'') then map_of ls k else None)"
proof -
  show "ad_Enabled (cfg_from_labels p ls) \<longleftrightarrow> map_of ls (p @ ''enable'') = Some ''true''"
    using assms by (auto simp: cfg_from_labels_def Let_def filterPrefix_def has_prefix_def)
  have "distinct (map fst (ad_Labels (cfg_from_labels p ls)))"
    using assms by (simp add: cfg_from_labels_def Let_def filterPrefix_def distinct_map_filter)
  then have "map_of (ad_Labels (cfg_from_labels p ls)) k = Some v \<longleftrightarrow>
      (k, v) \<in> set ls \<and> has_prefix k p \<and> \<not> (k = p @ ''enable'' \<and> v = ''true'')" for v
    by (auto simp: cfg_from_labels_def Let_def filterPrefix_def)
  moreover have "(k, v) \<in> set ls \<longleftrightarrow> map_of ls k = Some v" for v using assms by simp
  ultimately have "map_of (ad_Labels (cfg_from_labels p ls)) k = Some v \<longleftrightarrow>
      map_of ls k = Some v \<and> has_prefix k p \<and> \<not> (k = p @ ''enable'' \<and> v = ''true'')" for v
    by blast
  then show "map_of (ad_Labels (cfg_from_labels p ls)) k =
      (if has_prefix k p \<and> \<not> (k = p @ ''enable'' \<and> map_of ls k = Some ''true'') then map_of ls k else None)"
    by (rule option_by_Some)
qed

lemma cfg_from_labels_cong:
  assumes "distinct (map fst ls)" "distinct (map fst ls')" "\<And>k. has_prefix k p \<Longrightarrow> map_of ls k = map_of ls' k"
  shows "same_cfg (cfg_from_labels p ls) (cfg_from_labels p ls')"
proof -
  have "has_prefix (p @ ''enable'') p" by (simp add: has_prefix_def)
  then have "ad_Enabled (cfg_from_labels p ls) = ad_Enabled (cfg_from_labels p ls')"
    using assms(3) by (simp add: cfg_from_labels_map [OF assms(1)] cfg_from_labels_map [OF assms(2)])
  moreover have "map_of (ad_Labels (cfg_from_labels p ls)) k = map_of (ad_Labels (cfg_from_labels p ls')) k" for k
    using assms(3) [of k]
    by (cases "has_prefix k p") (simp_all add: cfg_from_labels_map [OF assms(1)] cfg_from_labels_map [OF assms(2)])
  ultimately show ?thesis by (simp add: same_cfg_def fun_eq_iff)
qed

lemma cfg_from_built_labels:
  assumes "canonical p c" "distinct (map fst ls)" "\<And>k. has_prefix k p \<Longrightarrow> map_of ls k = map_of (build_labels p c) k"
  shows "same_cfg (cfg_from_labels p ls) c"
proof -
  have own: "has_prefix k p" if "map_of (ad_Labels c) k = Some v" for k v
    using assms(1) map_of_SomeD [OF that] by (force simp: canonical_def)
  have switch: "has_prefix (p @ ''enable'') p" by (simp add: has_prefix_def)
  have off: "ad_Enabled c \<Longrightarrow> map_of (ad_Labels c) (p @ ''enable'') = None"
    "\<not> ad_Enabled c \<Longrightarrow> map_of (ad_Labels c) (p @ ''enable'') \<noteq> Some ''true''"
    using assms(1) by (simp_all add: canonical_def map_of_eq_None_iff)
  have "map_of (ad_Labels (cfg_from_labels p ls)) k = map_of (ad_Labels c) k" for k
    using own [of k] off assms(3) [of k]
    by (cases "map_of (ad_Labels c) k")
      (auto simp: cfg_from_labels_map [OF assms(2)] map_of_build_labels(1) [OF assms(1)])
  moreover have "ad_Enabled (cfg_from_labels p ls) = ad_Enabled c"
    using off assms(3) [OF switch] by (auto simp: cfg_from_labels_map [OF assms(2)] map_of_build_labels(1) [OF assms(1)])
  ultimately show ?thesis by (simp add: same_cfg_def fun_eq_iff)
qed

text \<open>What a service contributes to the configuration read from a file.\<close>

definition service_cfg :: "string \<Rightarrow> yaml_node \<Rightarrow> addon_cfg option" where
  "service_cfg p n =
     (let c = cfg_from_labels p (service_labels n) in if empty_cfg c then None else Some c)"

lemma map_of_put_cfg:
  "map_of (put_cfg name c m) svc = (if svc = name \<and> \<not> empty_cfg c then Some c else map_of m svc)"
  by (simp add: put_cfg_def empty_cfg_def AList.update_conv')

lemma addon_at_extract_service:
  assumes "p \<in> prefixes_of_addons"
  shows "addon_at p (extract_service name n out) svc =
    (if svc = name then (case service_cfg p n of None \<Rightarrow> addon_at p out svc | Some c \<Rightarrow> Some c) else addon_at p out svc)"
proof -
  obtain rc ok where r: "resourcesCfgFromService n = (rc, ok)" by fastforce
  have "p = traefik_prefix \<or> p = sablier_prefix \<or> p = watchtower_prefix \<or> p = backup_prefix"
    using assms by (simp add: prefixes_of_addons_def)
  then show ?thesis
    by (elim disjE) (simp_all add: r addon_at_simps extract_service_def Let_def map_of_put_cfg service_cfg_def
      traefikCfgFromLabels_def sablierCfgFromLabels_def watchtowerCfgFromLabels_def backupCfgFromLabels_def)
qed

lemma addon_at_extract:
  assumes "p \<in> prefixes_of_addons" "distinct (field_names c)" "\<And>x. x \<in> set (field_names c) \<Longrightarrow> addon_at p out x = None"
  shows "addon_at p (extract_services c out) svc =
    (case field svc c of Some n \<Rightarrow> if nd_Kind n = MappingNode then service_cfg p n else None | None \<Rightarrow> addon_at p out svc)"
  using assms(2,3)
proof (induction c out rule: extract_services.induct)
  case (1 k v rest out)
  define next_out where "next_out = (if nd_Kind v = MappingNode then extract_service (nd_Value k) v out else out)"
  have out: "addon_at p next_out x = (if x = nd_Value k then (if nd_Kind v = MappingNode then service_cfg p v else None) else addon_at p out x)" for x
    using 1(3) [of "nd_Value k"] by (auto simp: next_out_def addon_at_extract_service [OF assms(1)] split: option.split)
  have ih: "addon_at p (extract_services rest next_out) svc =
      (case field svc rest of Some n \<Rightarrow> if nd_Kind n = MappingNode then service_cfg p n else None | None \<Rightarrow> addon_at p next_out svc)"
    unfolding next_out_def by (rule 1(1)) (use 1(2,3) out in \<open>auto simp: next_out_def\<close>)
  have "extract_services (k # v # rest) out = extract_services rest next_out" by (simp add: next_out_def)
  moreover have "field (nd_Value k) rest = None" using 1(2) by (simp add: field_None_iff)
  ultimately show ?case
    using out [of svc] ih by (cases "svc = nd_Value k") (simp_all del: extract_services.simps split: option.split)
qed simp_all

lemma addon_at_root:
  assumes "p \<in> prefixes_of_addons" "documentNode root = Some doc" "mappingFieldNode doc ''services'' = Some services"
    and "nd_Kind services = MappingNode" "distinct (field_names (nd_Content services))"
  shows "addon_at p (extract_root root) svc =
    (case mappingFieldNode services svc of Some n \<Rightarrow> if nd_Kind n = MappingNode then service_cfg p n else None | None \<Rightarrow> None)"
proof -
  have "addon_at p no_addons x = None" for x
    using assms(1) by (auto simp: prefixes_of_addons_def addon_at_simps no_addons_def)
  then show ?thesis
    using addon_at_extract [OF assms(1,5), of no_addons svc] assms(2-4)
    by (simp add: extract_root_def mappingFieldNode_def split: option.split)
qed

section \<open>The services\<close>

lemma fold_at_field:
  assumes "distinct (map fst xs)"
  shows "mappingFieldNode (fold (\<lambda>(key, f). at_field key f) xs n) key =
    (case map_of xs key of None \<Rightarrow> mappingFieldNode n key | Some f \<Rightarrow> map_option f (mappingFieldNode n key))"
  using assms
proof (induction xs arbitrary: n)
  case (Cons x xs)
  obtain k f where x: "x = (k, f)" by fastforce
  have "map_of xs k = None" using Cons.prems(1) by (simp add: x map_of_eq_None_iff)
  then show ?case
    using Cons.IH [of "at_field k f n"] Cons.prems(1) by (simp add: x split: option.split)
qed simp

lemma fold_at_field_ok: "mapping_ok n \<Longrightarrow> mapping_ok (fold (\<lambda>(key, f). at_field key f) xs n)"
  by (induction xs arbitrary: n) (auto simp: mapping_ok_at_field)

text \<open>Resources do not touch the labels.\<close>

lemma remove_fields:
  assumes "mapping_ok n"
  shows "mapping_ok (fold removeMappingChild keys n)"
    and "mappingFieldNode (fold removeMappingChild keys n) key = (if key \<in> set keys then None else mappingFieldNode n key)"
  using assms
  by (induction keys arbitrary: n) (auto simp: removeMappingChild_ok)

lemma resources_keep_labels:
  assumes ok: "mapping_ok n" and dep: "\<And>d. mappingFieldNode n ''deploy'' = Some d \<Longrightarrow> mapping_ok (as_mapping d)"
  shows "label_map (service_resources r n) = label_map n"
proof -
  let ?n = "fold removeMappingChild legacy_fields n"
  have legacy: "''labels'' \<notin> set legacy_fields" "''deploy'' \<notin> set legacy_fields" by (simp_all add: legacy_fields_def)
  have fields: "mapping_ok ?n" "mappingFieldNode ?n ''labels'' = mappingFieldNode n ''labels''"
    "mappingFieldNode ?n ''deploy'' = mappingFieldNode n ''deploy''"
    using remove_fields(1) [OF ok, of legacy_fields] remove_fields(2) [OF ok, of legacy_fields] legacy by simp_all
  have "mappingFieldNode (service_resources r n) ''labels'' = mappingFieldNode n ''labels''"
    by (simp add: service_resources_def applyDeployResources_def fields removeMappingChild_ok [OF fields(1)]
      ensureMappingChild_ok [OF fields(1)] split: option.split)
  moreover have "deploy_labels (service_resources r n) = deploy_labels n"
  proof (cases "mappingFieldNode n ''deploy''")
    case None
    then show ?thesis
      by (simp add: deploy_labels_def service_resources_def applyDeployResources_def fields ensureMappingChild_ok [OF fields(1)]
        ensureMappingChild_ok [OF mapping_ok_new]) (simp add: mappingFieldNode_def)
  next
    case (Some d)
    have rem: "mappingFieldNode (removeMappingChild ''resources'' d) ''labels'' = mappingFieldNode d ''labels''"
      using dep [OF Some] removeMappingChild_ok(2) [of d "''resources''" "''labels''"]
      by (cases "nd_Kind d = MappingNode") (simp_all add: as_mapping_def removeMappingChild_def)
    moreover have "mappingFieldNode (removeMappingChild ''resources'' d) ''labels'' = None" if "nd_Content (removeMappingChild ''resources'' d) = []"
      using that by (simp add: mappingFieldNode_def)
    ultimately show ?thesis
      using Some by (simp add: deploy_labels_def service_resources_def applyDeployResources_def fields
        ensureMappingChild_ok [OF fields(1)] ensureMappingChild_ok [OF dep [OF Some]] removeMappingChild_ok [OF fields(1)])
  qed
  ultimately show ?thesis by (simp add: label_map_slots)
qed

lemma mapping_ok_as_mapping_id: "mapping_ok n \<Longrightarrow> as_mapping n = n"
  by (simp add: mapping_ok_def as_mapping_def)

lemma inject_service_ok:
  assumes "well_formed n" "nd_Kind n = MappingNode"
  shows "mapping_ok (inject_service mode cfg svc n)"
    and "mappingFieldNode (inject_service mode cfg svc n) ''deploy'' = Some d \<Longrightarrow> mapping_ok (as_mapping d)"
proof -
  let ?n = "strip_locations (purge_of cfg svc) n"
  have ok: "mapping_ok ?n" using assms by (simp add: strip_locations_ok mapping_ok_well_formed)
  have dep: "mapping_ok (as_mapping v)" if "mappingFieldNode ?n ''deploy'' = Some v" for v
    using that assms(1) well_formed_field
    by (auto simp: strip_locations_fields at_field_as_mapping mapping_ok_as_mapping mapping_ok_at_field)
  have D: "mapping_ok (case mappingFieldNode ?n ''deploy'' of None \<Rightarrow> mapping_node | Some v \<Rightarrow> as_mapping v)"
    using dep by (simp split: option.split)
  show "mapping_ok (inject_service mode cfg svc n)"
    by (simp add: inject_service_def resolveLabelsNode_def ensureMappingChild_ok [OF ok] ensureLabelsChild_field [OF ok])
  show "mappingFieldNode (inject_service mode cfg svc n) ''deploy'' = Some d \<Longrightarrow> mapping_ok (as_mapping d)"
    using dep mapping_ok_as_mapping_id [OF ensureLabelsChild_field(1) [OF D]] ensureLabelsChild_field(1) [OF D]
    by (auto simp: inject_service_def resolveLabelsNode_def ensureMappingChild_ok [OF ok] ensureLabelsChild_field [OF ok] split: if_splits)
qed

section \<open>The round trip\<close>

text \<open>What a parser keeps of a printed tree: kinds, values and structure, but neither tags nor styles
  nor comments.  The library gives back the tree it has written, up to these.\<close>

fun shape :: "yaml_node \<Rightarrow> yaml_node" where
  "shape (Node k t v st h l c) = Node k [] v 0 [] [] (map shape c)"

definition yaml_roundtrip :: "yaml_lib \<Rightarrow> yaml_node \<Rightarrow> bool" where
  "yaml_roundtrip Y n \<longleftrightarrow>
     (\<forall>s. yaml_Encode2 Y n = Inr s \<longrightarrow> TrimSpace s \<noteq> [] \<and> (\<exists>n'. yaml_Unmarshal Y s = Inr n' \<and> shape n' = shape n))"

lemma shape_simps [simp]:
  "nd_Kind (shape n) = nd_Kind n" "nd_Value (shape n) = nd_Value n" "nd_Content (shape n) = map shape (nd_Content n)"
  by (cases n; simp)+

lemma field_shape [simp]: "field key (map shape c) = map_option shape (field key c)"
  by (induction key c rule: field.induct) auto

lemma mappingFieldNode_shape [simp]: "mappingFieldNode (shape n) key = map_option shape (mappingFieldNode n key)"
  by (simp add: mappingFieldNode_def)

lemma scalarValue_shape [simp]: "scalarValue (shape n) key = scalarValue n key"
  by (simp add: scalarValue_def split: option.split)

lemma field_values_shape: "field_values (map shape c) = field_values c"
  by (induction c rule: field_values.induct) auto

lemma splitSeqLabel_shape [simp]: "splitSeqLabel (shape n) = splitSeqLabel n"
  by (simp add: splitSeqLabel_def split: option.split)

lemma loc_list_shape [simp]: "loc_list (shape n) = loc_list n"
  by (simp add: loc_list_def field_values_shape comp_def)

lemma bind_field_shape:
  "Option.bind (map_option shape x) (\<lambda>n. mappingFieldNode n key) = map_option shape (Option.bind x (\<lambda>n. mappingFieldNode n key))"
  by (cases x) simp_all

lemma labelLocations_shape: "labelLocations (shape n) = map shape (labelLocations n)"
proof -
  have "filter isLabelsNode (List.map_filter id (map (map_option shape) xs)) = map shape (filter isLabelsNode (List.map_filter id xs))" for xs
    by (induction xs) (auto simp: List.map_filter_simps isLabelsNode_def split: option.split)
  from this [of "[mappingFieldNode n ''labels'', Option.bind (mappingFieldNode n ''deploy'') (\<lambda>dep. mappingFieldNode dep ''labels'')]"]
  show ?thesis by (simp add: labelLocations_def bind_field_shape)
qed

lemma service_labels_shape [simp]: "service_labels (shape n) = service_labels n"
proof -
  have "collectLabels (shape x) = collectLabels x" for x by (simp add: fun_eq_iff collectLabels_merge)
  then show ?thesis by (simp add: service_labels_def labelLocations_shape fold_map comp_def)
qed

lemma resources_shape [simp]: "resourcesCfgFromService (shape n) = resourcesCfgFromService n"
proof -
  have "resource_value (shape n) block key = resource_value n block key" for block key
    by (simp add: resource_value_def bind_field_shape split: option.split)
  then show ?thesis by (simp add: resourcesCfgFromService_def)
qed

lemma extract_services_shape: "extract_services (map shape c) out = extract_services c out"
  by (induction c out rule: extract_services.induct) (auto simp: extract_service_def)

lemma extract_root_shape: "extract_root (shape n) = extract_root n"
proof -
  have "documentNode (shape n) = map_option shape (documentNode n)"
    by (simp add: documentNode_def split: list.split)
  then show ?thesis
    by (cases "documentNode n") (auto simp: extract_root_def extract_services_shape Option.bind_def split: option.split)
qed

text \<open>A service after the whole edit.\<close>

definition edited_service :: "string list \<Rightarrow> addons_config \<Rightarrow> string \<Rightarrow> string \<Rightarrow> yaml_node \<Rightarrow> yaml_node" where
  "edited_service order cfg mode svc n =
     (let n = (if svc \<in> set order then if_mapping (inject_service mode cfg svc) n else n)
      in case map_of (ac_Resources cfg) svc of None \<Rightarrow> n | Some r \<Rightarrow> if_mapping (service_resources r) n)"

lemma map_of_map_pairs: "map_of (map (\<lambda>k. (k, f k)) ks) k = (if k \<in> set ks then Some (f k) else None)"
  by (induction ks) auto

lemma map_of_map_snd: "map_of (map (\<lambda>(k, v). (k, g v)) xs) k = map_option g (map_of xs k)"
  by (induction xs) auto

lemma inject_services_fields:
  assumes "distinct order" "distinct (map fst (ac_Resources cfg))"
  shows "mappingFieldNode (inject_services order cfg mode services) svc =
    map_option (edited_service order cfg mode svc) (mappingFieldNode services svc)"
proof -
  let ?xs = "map (\<lambda>svc. (svc, if_mapping (inject_service mode cfg svc))) order"
  let ?ys = "map (\<lambda>(svc, r). (svc, if_mapping (service_resources r))) (ac_Resources cfg)"
  have f: "fold (\<lambda>svc. at_field svc (if_mapping (inject_service mode cfg svc))) order n = fold (\<lambda>(key, f). at_field key f) ?xs n" for n
    by (simp add: fold_map comp_def)
  have g: "applyResources (ac_Resources cfg) n = fold (\<lambda>(key, f). at_field key f) ?ys n" for n
    by (simp add: applyResources_def fold_map comp_def split_def)
  have d: "distinct (map fst ?xs)" "distinct (map fst ?ys)" using assms by (simp_all add: comp_def case_prod_beta)
  show ?thesis
    unfolding inject_services_def f g fold_at_field [OF d(1)] fold_at_field [OF d(2)] map_of_map_pairs map_of_map_snd
    by (cases "mappingFieldNode services svc"; cases "map_of (ac_Resources cfg) svc") (simp_all add: edited_service_def)
qed

lemma inject_services_ok: "mapping_ok services \<Longrightarrow> mapping_ok (inject_services order cfg mode services)"
proof -
  have "mapping_ok n \<Longrightarrow> mapping_ok (fold (\<lambda>svc. at_field svc (if_mapping (inject_service mode cfg svc))) order n)" for n
    by (induction order arbitrary: n) (simp_all add: mapping_ok_at_field)
  moreover have "mapping_ok n \<Longrightarrow> mapping_ok (applyResources rs n)" for rs n
    unfolding applyResources_def by (induction rs arbitrary: n) (auto simp: mapping_ok_at_field)
  ultimately show "mapping_ok services \<Longrightarrow> ?thesis" by (simp add: inject_services_def)
qed

lemma service_resources_kind:
  assumes "mapping_ok n"
  shows "nd_Kind (service_resources r n) = MappingNode"
proof -
  have "mapping_ok (fold removeMappingChild legacy_fields n)" using remove_fields(1) [OF assms] .
  then show ?thesis
    using ensureMappingChild_ok(1) removeMappingChild_ok(1) mapping_ok_at_field mapping_ok_kind
    by (simp add: service_resources_def applyDeployResources_def split: option.split)
qed

lemma prefix_itself: "has_prefix p p"
  by (simp add: has_prefix_def)

lemma edited_labels:
  assumes "canonical_config cfg" "well_formed n" "nd_Kind n = MappingNode" "writable mode n"
    and "p \<in> prefixes_of_addons" "has_prefix k p" "set order = set (touched cfg)"
  shows "nd_Kind (edited_service order cfg mode svc n) = MappingNode
    \<and> label_map (edited_service order cfg mode svc n) k =
      (case addon_at p cfg svc of None \<Rightarrow> label_map n k | Some c \<Rightarrow> map_of (build_labels p c) k)"
proof -
  obtain m where m: "m = (if svc \<in> set order then if_mapping (inject_service mode cfg svc) n else n)" by simp
  have ok: "mapping_ok m" and dep: "\<And>d. mappingFieldNode m ''deploy'' = Some d \<Longrightarrow> mapping_ok (as_mapping d)"
    using inject_service_ok [OF assms(2,3), of mode cfg svc] mapping_ok_well_formed [OF assms(2,3)]
      well_formed_field [OF assms(2)] mapping_ok_as_mapping assms(3)
    by (auto simp: m if_mapping_def split: if_splits)
  have "label_map m k = (case addon_at p cfg svc of None \<Rightarrow> label_map n k | Some c \<Rightarrow> map_of (build_labels p c) k)"
  proof (cases "svc \<in> set order")
    case True
    then show ?thesis using injected_labels [OF assms(1-6)] assms(3) by (simp add: m if_mapping_def)
  next
    case False
    then have "addon_at p cfg svc = None"
      using assms(5,7) by (auto simp: touched_def addons_def prefixes_of_addons_def addon_at_simps map_of_eq_None_iff)
    with False show ?thesis by (simp add: m)
  qed
  moreover have "edited_service order cfg mode svc n =
      (case map_of (ac_Resources cfg) svc of None \<Rightarrow> m | Some r \<Rightarrow> if_mapping (service_resources r) m)"
    by (simp only: edited_service_def m Let_def)
  ultimately show ?thesis
    using mapping_ok_kind [OF ok] service_resources_kind [OF ok] resources_keep_labels [OF ok dep]
    by (cases "map_of (ac_Resources cfg) svc") (simp_all add: if_mapping_def)
qed

text \<open>C11: What the wizard saves it reads back, where it can be written: after an injection of a canonical
  configuration (every label once, of the prefix of its add-on and not its switch) into a well-formed
  file, which succeeds and whose text the codec reads back, the configuration read from the new text
  is, on every service that is a mapping and whose labels are absent, a mapping or a sequence, the one
  that was written, for every add-on that has one there, and what it was before for the others; a
  written configuration with neither switch nor labels is read as none.  On a service with a
  \<open>labels\<close> field of another form, such as \<open>labels:\<close> without a value, nothing is written:
  \<open>unwritable_labels_lost\<close>.\<close>

theorem wizard_roundtrip:
  assumes "yaml_Unmarshal Y content = Inr root" "well_formed root" "documentNode root = Some doc" "TrimSpace content \<noteq> []"
    and "mappingFieldNode doc ''services'' = Some services" "nd_Kind services = MappingNode"
    and "canonical_config cfg" "hasAnyAddon cfg" "distinct (map fst (ac_Resources cfg))"
    and "distinct order" "set order = set (touched cfg)"
    and "yaml_roundtrip Y (on_document (at_field ''services'' (inject_services order cfg mode)) root)"
    and "injectAddonLabels Y order content (Some cfg) mode = (Inr (), out)"
    and "mappingFieldNode services svc = Some n" "nd_Kind n = MappingNode" "writable mode n" "p \<in> prefixes_of_addons"
  shows "rel_option same_cfg (addon_at p (fst (extractAddonConfig Y out)) svc)
    (case addon_at p cfg svc of
       None \<Rightarrow> addon_at p (fst (extractAddonConfig Y content)) svc
     | Some c \<Rightarrow> if empty_cfg c then None else Some c)"
proof -
  let ?edit = "on_document (at_field ''services'' (inject_services order cfg mode)) root"
  have "yaml_Encode2 Y ?edit = Inr out"
    using assms(1,3,5,8,13) by (auto simp: injectAddonLabels_def split: sum.splits)
  then obtain root' where r: "TrimSpace out \<noteq> []" "yaml_Unmarshal Y out = Inr root'" "shape root' = shape ?edit"
    using assms(12) by (auto simp: yaml_roundtrip_def)
  then have out: "fst (extractAddonConfig Y out) = extract_root ?edit"
    using extract_root_shape [of root'] extract_root_shape [of ?edit] by (simp add: extractAddonConfig_def)
  have wf: "well_formed doc" using assms(2,3) by (cases root) (auto simp: documentNode_def split: if_splits list.splits)
  then have wfs: "well_formed services" using well_formed_field assms(5) by blast
  then have wfn: "well_formed n" using well_formed_field assms(14) by blast
  have kind: "nd_Kind doc = MappingNode" using assms(5) by (simp add: mappingFieldNode_def split: if_splits)
  let ?services = "inject_services order cfg mode services"
  have doc: "documentNode ?edit = Some (at_field ''services'' (inject_services order cfg mode) doc)"
    using assms(3) kind by (simp add: documentNode_on_document)
  have ok: "mapping_ok ?services"
    using mapping_ok_well_formed [OF wfs assms(6)] by (rule inject_services_ok)
  have new: "addon_at p (extract_root ?edit) svc =
      (case mappingFieldNode ?services svc of Some n \<Rightarrow> if nd_Kind n = MappingNode then service_cfg p n else None | None \<Rightarrow> None)"
    using addon_at_root [OF assms(17) doc, of ?services svc] assms(5) ok by (simp add: mapping_ok_def)
  have old: "addon_at p (fst (extractAddonConfig Y content)) svc = service_cfg p n"
    using addon_at_root [OF assms(17,3,5,6), of svc] mapping_ok_well_formed [OF wfs assms(6)] assms(1,4,14,15)
    by (simp add: extractAddonConfig_def mapping_ok_def)
  let ?n = "edited_service order cfg mode svc n"
  have e: "nd_Kind ?n = MappingNode"
    "has_prefix k p \<Longrightarrow> label_map ?n k = (case addon_at p cfg svc of None \<Rightarrow> label_map n k | Some c \<Rightarrow> map_of (build_labels p c) k)" for k
    by (rule edited_labels [OF assms(7) wfn assms(15,16,17) prefix_itself assms(11), THEN conjunct1],
        rule edited_labels [OF assms(7) wfn assms(15,16,17) _ assms(11), THEN conjunct2])
  have new: "addon_at p (extract_root ?edit) svc = service_cfg p ?n"
    using new e(1) by (simp add: inject_services_fields [OF assms(10,9)] assms(14))
  show ?thesis
  proof (cases "addon_at p cfg svc")
    case None
    then have "same_cfg (cfg_from_labels p (service_labels ?n)) (cfg_from_labels p (service_labels n))"
      using cfg_from_labels_cong [OF service_labels_distinct service_labels_distinct] e(2) by (simp add: label_map_def)
    then show ?thesis using None same_empty unfolding out new old by (auto simp: service_cfg_def Let_def)
  next
    case (Some c)
    then have "same_cfg (cfg_from_labels p (service_labels ?n)) c"
      using cfg_from_built_labels [OF addon_at_canonical [OF assms(7,17) Some] service_labels_distinct] e(2) by (simp add: label_map_def)
    then show ?thesis using Some same_empty unfolding out new by (auto simp: service_cfg_def Let_def)
  qed
qed

end
