(* ===== verification/AddonOutcomes.thy ===== *)
theory AddonOutcomes
  imports AddonTheorems "HOL-Library.Multiset"
begin

text \<open>
  The resources of the wizard, labels that cannot be written, and the order of the iteration over the
  services.
\<close>

section \<open>Resources\<close>

lemma field_as_mapping: "well_formed n \<Longrightarrow> mappingFieldNode n key = Some v \<Longrightarrow> well_formed v \<and> mapping_ok (as_mapping v)"
  using well_formed_field mapping_ok_as_mapping by blast

text \<open>A node that was there before, or a new one.\<close>

definition child :: "yaml_node \<Rightarrow> string \<Rightarrow> yaml_node" where
  "child n key = (case mappingFieldNode n key of None \<Rightarrow> mapping_node | Some v \<Rightarrow> as_mapping v)"

lemma well_formed_mapping_node [simp]: "well_formed mapping_node"
  by (simp add: mapping_node_def)

lemma well_formed_as_mapping: "well_formed n \<Longrightarrow> well_formed (as_mapping n)"
  by (cases n) (simp add: as_mapping_def)

lemma child_ok: "well_formed n \<Longrightarrow> well_formed (child n key) \<and> mapping_ok (child n key)"
  by (auto simp: child_def well_formed_as_mapping dest: field_as_mapping split: option.split)

lemma ensure_child:
  "mapping_ok n \<Longrightarrow> mappingFieldNode (ensureMappingChild key f n) key' = (if key' = key then Some (f (child n key)) else mappingFieldNode n key')"
  by (simp add: ensureMappingChild_ok child_def)

lemma set_pair:
  assumes "mapping_ok n" "key \<noteq> key2"
  shows "scalarValue (setOrRemoveScalar key2 y (setOrRemoveScalar key x n)) key = x"
    and "scalarValue (setOrRemoveScalar key2 y (setOrRemoveScalar key x n)) key2 = y"
  using assms setOrRemoveScalar_ok [OF assms(1), of key x] setOrRemoveScalar_ok [of "setOrRemoveScalar key x n" key2 y]
  by simp_all

definition block :: "string \<Rightarrow> string \<Rightarrow> string \<Rightarrow> yaml_node \<Rightarrow> yaml_node" where
  "block name cpus memory res =
     (if cpus \<noteq> [] \<or> memory \<noteq> []
      then ensureMappingChild name (\<lambda>n. setOrRemoveScalar ''memory'' memory (setOrRemoveScalar ''cpus'' cpus n)) res
      else removeMappingChild name res)"

lemma block_values:
  assumes "mapping_ok res" "mapping_ok (child res name)"
  shows "mapping_ok (block name cpus memory res)"
    and "key \<noteq> name \<Longrightarrow> mappingFieldNode (block name cpus memory res) key = mappingFieldNode res key"
    and "(case mappingFieldNode (block name cpus memory res) name of None \<Rightarrow> [] | Some n \<Rightarrow> scalarValue n ''cpus'') = cpus"
    and "(case mappingFieldNode (block name cpus memory res) name of None \<Rightarrow> [] | Some n \<Rightarrow> scalarValue n ''memory'') = memory"
  using assms
  by (simp_all add: block_def ensure_child removeMappingChild_ok ensureMappingChild_ok set_pair)

lemma scalarValue_absent: "mappingFieldNode n key = None \<Longrightarrow> scalarValue n key = []"
  by (simp add: scalarValue_def)

text \<open>C12: The resources of the wizard are read back as they were written, and a configuration without
  any value clears those of the service, legacy fields included.\<close>

theorem resources_roundtrip:
  assumes "well_formed n" "nd_Kind n = MappingNode"
  shows "resourcesCfgFromService (service_resources r n) =
    (r, \<not> (rs_CPUsLimit r = [] \<and> rs_CPUsReservation r = [] \<and> rs_MemoryLimit r = [] \<and> rs_MemoryReservation r = []))"
proof -
  let ?n = "fold removeMappingChild legacy_fields n" and ?m = "service_resources r n"
  have ok: "mapping_ok ?n"
    and fields: "mappingFieldNode ?n key = (if key \<in> set legacy_fields then None else mappingFieldNode n key)" for key
    using remove_fields [OF mapping_ok_well_formed [OF assms]] by blast+
  have no_legacy: "''deploy'' \<notin> set legacy_fields" "''cpus'' \<in> set legacy_fields" "''mem_limit'' \<in> set legacy_fields" "''mem_reservation'' \<in> set legacy_fields"
    by (simp_all add: legacy_fields_def)
  have child: "child ?n ''deploy'' = child n ''deploy''" by (simp add: child_def fields no_legacy)
  have dep: "well_formed (child n ''deploy'')" "mapping_ok (child n ''deploy'')" using child_ok [OF assms(1)] by simp_all
  then have res: "well_formed (child (child n ''deploy'') ''resources'')" "mapping_ok (child (child n ''deploy'') ''resources'')"
    using child_ok by simp_all
  let ?res = "child (child n ''deploy'') ''resources''"
  have blk: "mapping_ok (child ?res name)" for name using child_ok [OF res(1)] by simp
  have kept: "mappingFieldNode ?m key = mappingFieldNode ?n key" if "key \<noteq> ''deploy''" for key
    using that by (simp add: service_resources_def applyDeployResources_def ensure_child [OF ok] removeMappingChild_ok [OF ok] split: option.split)
  then have legacy: "scalarValue ?m ''cpus'' = []" "scalarValue ?m ''mem_limit'' = []" "scalarValue ?m ''mem_reservation'' = []"
    by (simp_all add: scalarValue_absent fields no_legacy)
  have "resource_value ?m ''limits'' ''cpus'' = rs_CPUsLimit r \<and> resource_value ?m ''limits'' ''memory'' = rs_MemoryLimit r
    \<and> resource_value ?m ''reservations'' ''cpus'' = rs_CPUsReservation r \<and> resource_value ?m ''reservations'' ''memory'' = rs_MemoryReservation r"
  proof (cases "rs_CPUsLimit r = [] \<and> rs_MemoryLimit r = [] \<and> rs_CPUsReservation r = [] \<and> rs_MemoryReservation r = []")
    case True
    have "Option.bind (mappingFieldNode ?m ''deploy'') (\<lambda>d. mappingFieldNode d ''resources'') = None"
    proof (cases "mappingFieldNode n ''deploy''")
      case None
      with True show ?thesis by (simp add: service_resources_def applyDeployResources_def fields no_legacy)
    next
      case (Some d)
      have "mappingFieldNode (removeMappingChild ''resources'' d) ''resources'' = None"
        using field_as_mapping [OF assms(1) Some] removeMappingChild_ok(2) [of d "''resources''"]
        by (cases "nd_Kind d = MappingNode") (simp_all add: as_mapping_def removeMappingChild_def, simp add: mappingFieldNode_def)
      with Some True show ?thesis
        by (simp add: service_resources_def applyDeployResources_def fields no_legacy removeMappingChild_ok [OF ok])
    qed
    with True show ?thesis by (simp add: resource_value_def)
  next
    case False
    let ?lim = "block ''limits'' (rs_CPUsLimit r) (rs_MemoryLimit r) ?res"
    let ?new = "block ''reservations'' (rs_CPUsReservation r) (rs_MemoryReservation r) ?lim"
    have "applyDeployResources r x = ensureMappingChild ''deploy'' (ensureMappingChild ''resources''
        (\<lambda>n. block ''reservations'' (rs_CPUsReservation r) (rs_MemoryReservation r) (block ''limits'' (rs_CPUsLimit r) (rs_MemoryLimit r) n))) x" for x
      by (simp only: applyDeployResources_def if_not_P [OF False] block_def Let_def)
    then have "Option.bind (mappingFieldNode ?m ''deploy'') (\<lambda>d. mappingFieldNode d ''resources'') = Some ?new"
      by (simp add: service_resources_def ensure_child [OF ok] child ensure_child [OF dep(2)])
    moreover have l: "mapping_ok ?lim" "child ?lim ''reservations'' = child ?res ''reservations''"
      using block_values(1,2) [OF res(2) blk] by (simp_all add: child_def)
    ultimately show ?thesis
      using block_values(3,4) [OF res(2) blk, of "''limits''" "rs_CPUsLimit r" "rs_MemoryLimit r"]
        block_values(3,4) [of ?lim "''reservations''" "rs_CPUsReservation r" "rs_MemoryReservation r"]
        block_values(2) [where res = ?lim and name = "''reservations''" and key = "''limits''"] blk
      by (simp add: resource_value_def)
  qed
  then show ?thesis using legacy by (auto simp: resourcesCfgFromService_def or_else_def Let_def)
qed

section \<open>Labels that are lost\<close>

text \<open>Where a service has a \<open>labels\<close> field that is neither a mapping nor a sequence, such as an
  empty one, the wizard purges the labels of its add-ons everywhere and writes none of the new ones,
  without an error.\<close>

theorem unwritable_labels_lost:
  assumes "well_formed n" "nd_Kind n = MappingNode" "\<not> writable mode n"
  shows "label_map (inject_service mode cfg svc n) k = (if hasAnyPrefix k (purge_of cfg svc) then None else label_map n k)"
proof -
  let ?n = "strip_locations (purge_of cfg svc) n"
  have ok: "mapping_ok ?n" using assms(1,2) by (simp add: strip_locations_ok mapping_ok_well_formed)
  have id: "writeLabels L v = v" "stripPrefixes owned v = v" if "\<not> isLabelsNode v" for L v owned
    using that by (simp_all add: writeLabels_def stripPrefixes_def isLabelsNode_def)
  have "mappingFieldNode (inject_service mode cfg svc n) ''labels'' = mappingFieldNode ?n ''labels''
    \<and> deploy_labels (inject_service mode cfg svc n) = deploy_labels ?n"
  proof (cases "mode = ''swarm''")
    case True
    with assms(3) obtain d v where d: "mappingFieldNode n ''deploy'' = Some d" "mappingFieldNode d ''labels'' = Some v" "\<not> isLabelsNode v"
      by (auto simp: writable_def deploy_labels_def Option.bind_eq_Some_conv split: option.splits)
    then have k: "nd_Kind d = MappingNode" by (simp add: mappingFieldNode_def split: if_splits)
    then have D: "mapping_ok (at_field ''labels'' (stripPrefixes (purge_of cfg svc)) d)"
      using field_as_mapping [OF assms(1) d(1)] by (simp add: as_mapping_def mapping_ok_at_field)
    then show ?thesis
      using True d id by (simp add: inject_service_def resolveLabelsNode_def ensureMappingChild_ok [OF ok] strip_locations_fields
        deploy_labels_def mapping_ok_as_mapping_id ensureLabelsChild_field [OF D])
  next
    case False
    with assms(3) id show ?thesis
      by (auto simp: inject_service_def resolveLabelsNode_def ensureLabelsChild_field [OF ok] strip_locations_fields
        deploy_labels_def writable_def split: option.splits)
  qed
  then show ?thesis
    by (auto simp: label_map_slots map_add_def strip_locations_slots split: option.split)
qed

section \<open>The order of the services\<close>

lemma map_field_commute: "a \<noteq> b \<Longrightarrow> map_field a f (map_field b g c) = map_field b g (map_field a f c)"
  by (induction c rule: field_names.induct) auto

lemma at_field_commute: "a \<noteq> b \<Longrightarrow> at_field a f (at_field b g n) = at_field b g (at_field a f n)"
  by (simp add: at_field_def map_field_commute)

text \<open>The same Go map, iterated in two orders, with values that are related.\<close>

definition same_entries :: "('a \<Rightarrow> 'a \<Rightarrow> bool) \<Rightarrow> (string \<times> 'a) list \<Rightarrow> (string \<times> 'a) list \<Rightarrow> bool" where
  "same_entries R m m' \<longleftrightarrow> distinct (map fst m) \<and> distinct (map fst m') \<and> (\<forall>k. rel_option R (map_of m k) (map_of m' k))"

definition shuffled_cfg :: "addon_cfg \<Rightarrow> addon_cfg \<Rightarrow> bool" where
  "shuffled_cfg c c' \<longleftrightarrow> ad_Enabled c = ad_Enabled c' \<and> same_entries (=) (ad_Labels c) (ad_Labels c')"

definition shuffled :: "addons_config \<Rightarrow> addons_config \<Rightarrow> bool" where
  "shuffled cfg cfg' \<longleftrightarrow> same_entries shuffled_cfg (ac_Traefik cfg) (ac_Traefik cfg') \<and> same_entries shuffled_cfg (ac_Sablier cfg) (ac_Sablier cfg')
     \<and> same_entries shuffled_cfg (ac_Watchtower cfg) (ac_Watchtower cfg') \<and> same_entries shuffled_cfg (ac_Backup cfg) (ac_Backup cfg')
     \<and> same_entries (=) (ac_Resources cfg) (ac_Resources cfg')"

lemma same_entries_eq:
  assumes "same_entries (=) m m'"
  shows "map_of m = map_of m'" and "mset m = mset m'"
proof -
  from assms show eq: "map_of m = map_of m'" by (auto simp: same_entries_def option.rel_eq fun_eq_iff)
  have d: "distinct (map fst m)" "distinct (map fst m')" using assms by (simp_all add: same_entries_def)
  have "(k, v) \<in> set m \<longleftrightarrow> (k, v) \<in> set m'" for k v
    using eq by (simp flip: map_of_eq_Some_iff [OF d(1)] map_of_eq_Some_iff [OF d(2)])
  then have "set m = set m'" by auto
  then show "mset m = mset m'"
    using d by (simp add: set_eq_iff_mset_eq_distinct distinct_map)
qed

lemma same_entries_None: "same_entries R m m' \<Longrightarrow> map_of m k = None \<longleftrightarrow> map_of m' k = None"
  by (auto simp: same_entries_def dest: spec [of _ k] elim: option.rel_cases)

lemma same_entries_empty:
  assumes "same_entries R m m'"
  shows "m = [] \<longleftrightarrow> m' = []"
proof -
  have "xs = [] \<longleftrightarrow> (\<forall>k. map_of xs k = None)" for xs :: "(string \<times> 'a) list"
    by (cases xs) auto
  from this [of m] this [of m'] same_entries_None [OF assms] show ?thesis by blast
qed

text \<open>The labels of an add-on, and those of a service, are the same map in any order.\<close>

lemma distinct_build_labels: "distinct (map fst (ad_Labels c)) \<Longrightarrow> distinct (map fst (build_labels p c))"
  by (simp add: build_labels_def filterPrefix_def distinct_map_filter distinct_update Let_def)

lemma build_labels_shuffled: "shuffled_cfg c c' \<Longrightarrow> map_of (rev (build_labels p c)) = map_of (rev (build_labels p c'))"
proof -
  assume a: "shuffled_cfg c c'"
  then have l: "same_entries (=) (ad_Labels c) (ad_Labels c')" and e: "ad_Enabled c = ad_Enabled c'" by (simp_all add: shuffled_cfg_def)
  have "map_of (filterPrefix (ad_Labels c) p) = map_of (filterPrefix (ad_Labels c') p)"
    using same_entries_eq(1) [OF l] by (simp add: filterPrefix_def map_of_filter_keys [of "\<lambda>k. has_prefix k p"] fun_eq_iff)
  moreover have "distinct (map fst (build_labels p c))" "distinct (map fst (build_labels p c'))"
    using l by (simp_all add: distinct_build_labels same_entries_def)
  ultimately show ?thesis
    using e by (simp add: map_of_rev_distinct build_labels_def update_conv' Let_def)
qed

definition add_labels :: "string \<Rightarrow> string \<times> (string \<times> addon_cfg) list \<Rightarrow> labels \<Rightarrow> labels" where
  "add_labels svc = (\<lambda>(p, m) acc. case map_of m svc of None \<Rightarrow> acc | Some c \<Rightarrow> merge_labels (build_labels p c) acc)"

lemma add_labels_shuffled:
  assumes "same_entries shuffled_cfg m m'" "map_of acc = map_of acc'"
  shows "map_of (add_labels svc (p, m) acc) = map_of (add_labels svc (p, m') acc')"
  using assms(2) assms(1) [unfolded same_entries_def]
  by (auto simp: add_labels_def map_of_merge_labels build_labels_shuffled dest: spec [of _ svc] elim!: option.rel_cases)

lemma distinct_add_labels: "distinct (map fst acc) \<Longrightarrow> distinct (map fst (add_labels svc x acc))"
  by (auto simp: add_labels_def distinct_merge_labels split: prod.split option.split)

lemma labels_of_add: "labels_of cfg svc = fold (add_labels svc) (addons cfg) []"
  by (simp add: labels_of_def add_labels_def)

lemma sorted_labels_eq:
  assumes "distinct (map fst a)" "distinct (map fst b)" "map_of a = map_of b"
  shows "sorted_labels a = sorted_labels b"
proof -
  have "fst ` set a = fst ` set b" using assms(3) by (metis dom_map_of_conv_image_fst)
  then have "sort (map fst a) = sort (map fst b)"
    using assms(1,2) by (intro sorted_distinct_set_unique) simp_all
  with assms(3) show ?thesis by (simp add: sorted_labels_def)
qed

lemma inject_service_shuffled:
  assumes "shuffled cfg cfg'"
  shows "inject_service mode cfg = inject_service mode cfg'"
proof -
  have s: "same_entries shuffled_cfg (ac_Traefik cfg) (ac_Traefik cfg')" "same_entries shuffled_cfg (ac_Sablier cfg) (ac_Sablier cfg')"
    "same_entries shuffled_cfg (ac_Watchtower cfg) (ac_Watchtower cfg')" "same_entries shuffled_cfg (ac_Backup cfg) (ac_Backup cfg')"
    using assms by (simp_all add: shuffled_def)
  have "purge_of cfg svc = purge_of cfg' svc" for svc
    using s [THEN same_entries_None, of svc] by (simp del: not_None_eq add: purge_of_def addons_def)
  moreover have "sorted_labels (labels_of cfg svc) = sorted_labels (labels_of cfg' svc)" for svc
  proof (rule sorted_labels_eq)
    show "distinct (map fst (labels_of cfg svc))" "distinct (map fst (labels_of cfg' svc))"
      by (simp_all add: labels_of_add addons_def distinct_add_labels)
    show "map_of (labels_of cfg svc) = map_of (labels_of cfg' svc)"
      by (simp add: labels_of_add addons_def add_labels_shuffled s)
  qed
  then have "writeLabels (labels_of cfg svc) = writeLabels (labels_of cfg' svc)" for svc
    by (simp add: writeLabels_def fun_eq_iff)
  ultimately show ?thesis by (intro ext) (simp add: inject_service_def)
qed

lemma applyResources_shuffled:
  assumes "same_entries (=) m m'"
  shows "applyResources m = applyResources m'"
proof -
  let ?f = "\<lambda>(svc, r). at_field svc (if_mapping (service_resources r))"
  have d: "distinct (map fst m)" using assms by (simp add: same_entries_def)
  have "fold ?f m = fold ?f m'"
  proof (rule fold_multiset_equiv [OF _ same_entries_eq(2) [OF assms]])
    show "?f x \<circ> ?f y = ?f y \<circ> ?f x" if "x \<in> set m" "y \<in> set m" for x y
    proof (cases "fst x = fst y")
      case True
      with that d have "x = y" by (metis eq_key_imp_eq_value prod.collapse)
      then show ?thesis by simp
    next
      case False
      then show ?thesis by (cases x; cases y) (simp add: fun_eq_iff at_field_commute)
    qed
  qed
  then show ?thesis by (simp add: applyResources_def fun_eq_iff)
qed

text \<open>C13: The injection gives the same file whatever the order of iteration of the maps: the order of
  the services it touches, and the orders of the services of each add-on, of the labels of each
  service and of the resources, in which two configurations may differ.\<close>

theorem inject_order_independent:
  assumes "distinct order" "distinct order'" "set order = set order'" "shuffled cfg cfg'"
  shows "injectAddonLabels Y order content (Some cfg) mode = injectAddonLabels Y order' content (Some cfg') mode"
proof -
  let ?f = "\<lambda>svc. at_field svc (if_mapping (inject_service mode cfg svc))"
  have "fold ?f order = fold ?f order'"
  proof (rule fold_multiset_equiv)
    show "mset order = mset order'" using assms(1-3) by (simp add: set_eq_iff_mset_eq_distinct)
    show "?f x \<circ> ?f y = ?f y \<circ> ?f x" for x y
      by (cases "x = y") (simp_all add: fun_eq_iff at_field_commute)
  qed
  moreover have res: "same_entries (=) (ac_Resources cfg) (ac_Resources cfg')" using assms(4) by (simp add: shuffled_def)
  ultimately have same: "inject_services order cfg mode = inject_services order' cfg' mode"
    by (intro ext)
      (simp only: inject_services_def inject_service_shuffled [OF assms(4), symmetric] applyResources_shuffled [OF res])
  have "hasAnyAddon cfg \<longleftrightarrow> hasAnyAddon cfg'"
    using assms(4) by (auto simp only: hasAnyAddon_def shuffled_def dest!: same_entries_empty)
  then show ?thesis unfolding injectAddonLabels_def option.case same by simp
qed

section \<open>A small file\<close>

definition web_service :: yaml_node where
  "web_service = set_Content [scalar_node ''image'', scalar_node ''nginx'',
     scalar_node ''labels'', set_Content [scalar_node ''traefik.old'', scalar_node ''x'', scalar_node ''app'', scalar_node ''y''] mapping_node] mapping_node"

definition web_services :: yaml_node where
  "web_services = set_Content [scalar_node ''web'', web_service] mapping_node"

definition web_document :: yaml_node where
  "web_document = set_Content [scalar_node ''services'', web_services] mapping_node"

definition web_config :: addons_config where
  "web_config = no_addons\<lparr>ac_Traefik := [(''web'', \<lparr>ad_Enabled = True, ad_Labels = [(''traefik.port'', ''80'')]\<rparr>)]\<rparr>"

definition web_yaml :: yaml_lib where
  "web_yaml = \<lparr>yaml_Unmarshal = (\<lambda>s. if s = ''in'' then Inr web_document
       else Inr (on_document (at_field ''services'' (inject_services [''web''] web_config ''standalone'')) web_document)),
     yaml_Marshal = (\<lambda>n. Inr ''out''), yaml_Encode2 = (\<lambda>n. Inr ''out'')\<rparr>"

lemma set_Content_new [simp]: "well_formed (set_Content c mapping_node) \<longleftrightarrow> even (length c) \<and> distinct (field_names c) \<and> (\<forall>n \<in> set c. well_formed n)"
  by (simp add: set_Content_def mapping_node_def)

lemma well_formed_scalar [simp]: "well_formed (scalar_node x)"
  by (simp add: scalar_node_def)

lemma TrimSpace_small: "TrimSpace ''in'' \<noteq> []" "TrimSpace ''out'' \<noteq> []"
  by code_simp+

lemma web_fields:
  "well_formed web_document" "documentNode web_document = Some web_document"
  "mappingFieldNode web_document ''services'' = Some web_services" "mappingFieldNode web_services ''web'' = Some web_service"
  "nd_Kind web_services = MappingNode" "nd_Kind web_service = MappingNode" "writable ''standalone'' web_service"
  by (simp_all add: web_document_def web_services_def web_service_def documentNode_def mappingFieldNode_def writable_def isLabelsNode_def)

theorem wizard_roundtrip_witness:
  "\<exists>c. map_of (ac_Traefik (fst (extractAddonConfig web_yaml ''out''))) ''web'' = Some c \<and> ad_Enabled c
     \<and> map_of (ad_Labels c) = [''traefik.port'' \<mapsto> ''80'']"
proof -
  have cfg: "canonical_config web_config" "hasAnyAddon web_config" "distinct (map fst (ac_Resources web_config))"
    "set [''web''] = set (touched web_config)"
    by (simp_all add: web_config_def no_addons_def canonical_config_def addons_def canonical_def plain_keys_def hasAnyAddon_def
      touched_def prefix_defs has_prefix_def)
  have y: "yaml_Unmarshal web_yaml ''in'' = Inr web_document"
    "yaml_roundtrip web_yaml (on_document (at_field ''services'' (inject_services [''web''] web_config ''standalone'')) web_document)"
    "injectAddonLabels web_yaml [''web''] ''in'' (Some web_config) ''standalone'' = (Inr (), ''out'')"
    using cfg(2) by (simp_all add: web_yaml_def yaml_roundtrip_def TrimSpace_small injectAddonLabels_def web_fields)
  have "rel_option same_cfg (addon_at traefik_prefix (fst (extractAddonConfig web_yaml ''out'')) ''web'')
      (Some \<lparr>ad_Enabled = True, ad_Labels = [(''traefik.port'', ''80'')]\<rparr>)"
    using wizard_roundtrip [OF y(1) web_fields(1,2) TrimSpace_small(1) web_fields(3,5) cfg(1-3) _ cfg(4) y(2,3) web_fields(4,6,7), of traefik_prefix]
    by (simp add: four_prefixes addon_at_simps) (simp add: web_config_def empty_cfg_def)
  then show ?thesis by (auto simp: addon_at_simps option_rel_Some2 same_cfg_def)
qed

theorem resources_roundtrip_witness:
  "resourcesCfgFromService (service_resources \<lparr>rs_CPUsLimit = ''0.5'', rs_CPUsReservation = [], rs_MemoryLimit = ''64m'', rs_MemoryReservation = []\<rparr> web_service)
   = (\<lparr>rs_CPUsLimit = ''0.5'', rs_CPUsReservation = [], rs_MemoryLimit = ''64m'', rs_MemoryReservation = []\<rparr>, True)"
proof -
  have "well_formed web_service" using web_fields(1,3,4) well_formed_field by blast
  from resources_roundtrip [OF this web_fields(6)] show ?thesis by simp
qed

theorem unwritable_labels_lost_witness:
  "label_map (inject_service ''standalone'' web_config ''web''
     (set_Content [scalar_node ''labels'', scalar_node []] mapping_node)) ''traefik.port'' = None"
proof -
  let ?n = "set_Content [scalar_node ''labels'', scalar_node []] mapping_node"
  have "\<not> writable ''standalone'' ?n" by (simp add: writable_def mappingFieldNode_def isLabelsNode_def)
  moreover have "well_formed ?n" "nd_Kind ?n = MappingNode" by simp_all
  moreover have "hasAnyPrefix ''traefik.port'' (purge_of web_config ''web'')"
    by (simp add: hasAnyPrefix_def purge_of_def addons_def web_config_def no_addons_def prefix_defs has_prefix_def)
  ultimately show ?thesis using unwritable_labels_lost [of ?n "''standalone''" web_config "''web''" "''traefik.port''"] by simp
qed

definition two_labels :: "labels \<Rightarrow> addons_config" where
  "two_labels ls = no_addons\<lparr>ac_Traefik := [(''web'', \<lparr>ad_Enabled = False, ad_Labels = ls\<rparr>)]\<rparr>"

theorem inject_order_independent_witness:
  "injectAddonLabels web_yaml [''web'', ''db''] ''in'' (Some (two_labels [(''traefik.a'', ''1''), (''traefik.b'', ''2'')])) ''standalone''
   = injectAddonLabels web_yaml [''db'', ''web''] ''in'' (Some (two_labels [(''traefik.b'', ''2''), (''traefik.a'', ''1'')])) ''standalone''"
proof (rule inject_order_independent)
  show "shuffled (two_labels [(''traefik.a'', ''1''), (''traefik.b'', ''2'')]) (two_labels [(''traefik.b'', ''2''), (''traefik.a'', ''1'')])"
    by (simp add: shuffled_def two_labels_def no_addons_def same_entries_def shuffled_cfg_def option.rel_eq)
qed auto

end
