(* ===== verification/Server.thy ===== *)
theory Server
  imports BackupStore "HOL-Library.Finite_Map"
begin

text \<open>
  What the business layer shares: values decoded from JSON, the live settings, the state of the
  server with its database, and the audit events of biz/event.go.

  The state \<open>server\<close> has the buckets by name, the live settings (a pointer that may be nil), the pool
  of Docker clients of docker/host.go (a client by the id of its host, and known by the endpoint it was
  made for) and the rest of the world.  Operations on it are state monads; an engine of DockerSdk can run over the same
  state as its world, which is how the deployments of compose stacks use it.
\<close>

section \<open>Values of type \<open>interface{}\<close>\<close>

text \<open>A decoder yields a \<open>float64\<close> for a number, or its text after \<open>UseNumber\<close>.  An object is a finite
  map, as Go's map is.  \<open>JNull\<close> is the nil interface.\<close>

datatype json =
    JNull
  | JBool bool
  | JFloat rat
  | JNumber string
  | JString string
  | JArray "json list"
  | JObject "(string, json) fmap"

text \<open>An argument of type \<open>interface{}\<close>: raw bytes as a \<open>json.RawMessage\<close> or a \<open>[]byte\<close>, or a value.
  A structure passed as such is not represented.\<close>

datatype go_value = RawMessage string | Bytes string | Json json

text \<open>\<open>x, _ := m[k].(T)\<close>: the zero value if the key is absent or has another type.\<close>

definition string_at :: "(string, json) fmap \<Rightarrow> string \<Rightarrow> string" where
  "string_at m k = (case fmlookup m k of Some (JString s) \<Rightarrow> s | _ \<Rightarrow> [])"

definition bool_at :: "(string, json) fmap \<Rightarrow> string \<Rightarrow> bool" where
  "bool_at m k = (case fmlookup m k of Some (JBool x) \<Rightarrow> x | _ \<Rightarrow> False)"

definition float_at :: "(string, json) fmap \<Rightarrow> string \<Rightarrow> rat" where
  "float_at m k = (case fmlookup m k of Some (JFloat x) \<Rightarrow> x | _ \<Rightarrow> 0)"

definition is_string_at :: "(string, json) fmap \<Rightarrow> string \<Rightarrow> bool" where
  "is_string_at m k = (case fmlookup m k of Some (JString s) \<Rightarrow> True | _ \<Rightarrow> False)"

text \<open>\<open>int(x)\<close> of a \<open>float64\<close> rounds towards zero.  Outside the range of an \<open>int64\<close> Go leaves the
  result to the machine; this is what amd64 does.\<close>

definition int_of_float :: "rat \<Rightarrow> int" where
  "int_of_float x =
     (let n = (if x \<ge> 0 then \<lfloor>x\<rfloor> else - \<lfloor>- x\<rfloor>) in if - (2 ^ 63) \<le> n \<and> n < 2 ^ 63 then n else - (2 ^ 63))"

section \<open>Live settings\<close>

record registry_cache =
  rc_Enabled :: bool
  rc_RegistryID :: string
  rc_Hostname :: string
  rc_Port :: int
  rc_CACertPEM :: string
  rc_CAFingerprint :: string
  rc_Username :: string
  rc_Password :: string
  rc_UseUpstreamPrefix :: bool
  rc_RewriteMode :: string
  rc_PreserveDigests :: bool

text \<open>The parts of \<open>misc.Setting\<close> that the modelled code reads.\<close>

record misc_setting =
  ms_RegistryCache :: registry_cache
  ms_Backup :: backup_settings

section \<open>Add-on configuration of a host\<close>

text \<open>The structures of biz/host_addon_extract.go.  The zero time is \<open>None\<close>, an absent map is empty.\<close>

record generic_extract =
  gx_Enabled :: bool
  gx_StackID :: string
  gx_ContainerName :: string
  gx_Defaults :: options
  gx_Overrides :: options

record registry_cache_extract =
  rx_Enabled :: bool
  rx_InsecureMode :: bool
  rx_AppliedAt :: "int option"
  rx_AppliedBy :: string
  rx_AppliedFingerprint :: string
  rx_LastSyncAt :: "int option"
  rx_LastSyncBy :: string
  rx_LastSyncFingerprint :: string

record traefik_extract =
  tx_Enabled :: bool
  tx_EntryPoints :: "string list"
  tx_CertResolvers :: "string list"
  tx_Middlewares :: "string list"
  tx_Networks :: "string list"
  tx_StackID :: string
  tx_ContainerName :: string
  tx_DefaultDomain :: string
  tx_DefaultEntrypoint :: string
  tx_DefaultCertResolver :: string
  tx_DefaultMiddleware :: string
  tx_Overrides :: options
  tx_SourceFile :: string
  tx_UploadedAt :: "int option"
  tx_UploadedBy :: string

record addon_extract =
  ax_Traefik :: "traefik_extract option"
  ax_Sablier :: "generic_extract option"
  ax_Watchtower :: "generic_extract option"
  ax_Backup :: "generic_extract option"
  ax_RegistryCache :: "registry_cache_extract option"

section \<open>State and environment\<close>

datatype server_error =
    SvError go_error
  | SvDao dao_error
  | SvCoded string go_error
  | SvEngine engine_error
  | VolumesContainData "string list"
  | EndpointSuggestion string string string string
  | WorkerRejected "string list"
  | SvPanic

record ('b, 'w) server =
  sv_db :: "string \<Rightarrow> 'b"
  sv_live :: "misc_setting option"
  sv_clients :: "string \<rightharpoonup> string"
  sv_log :: "(request \<times> bool) list"
  sv_world :: 'w

type_synonym ('b, 'w, 'a) sprog = "(('b, 'w) server, 'a) state"

text \<open>The result of \<open>url.Parse\<close> that the code reads.  The environment has the storage, the clock, the
  sources of ids, and the library functions for JSON, certificates, URLs and the encoding of credentials;
  \<open>sx_decodeExtract\<close> is what \<open>json.Unmarshal\<close> leaves in the structure, its error being ignored.\<close>

record url =
  url_Scheme :: string
  url_Host :: string
  url_Hostname :: string
  url_Port :: string

record ('b, 'raw, 'w) server_env =
  sx_dao :: "('b, 'raw) swirl_dao"
  sx_versions :: "('b, 'raw, compose_stack_version) bolt"
  sx_now :: "'w \<Rightarrow> int \<times> 'w"
  sx_createId :: "'w \<Rightarrow> string \<times> 'w"
  sx_newObjectID :: "'w \<Rightarrow> string \<times> 'w"
  sx_Unmarshal :: "string \<Rightarrow> go_error + json"
  sx_Decode :: "string \<Rightarrow> go_error + json"
  sx_Marshal :: "go_value \<Rightarrow> go_error + string"
  sx_setting_of :: "json \<Rightarrow> go_error + misc_setting"
  sx_MarshalCache :: "registry_cache \<Rightarrow> go_error + string"
  sx_pem :: "string \<Rightarrow> string option"
  sx_x509 :: "string \<Rightarrow> go_error + string"
  sx_sha256 :: "string \<Rightarrow> string"
  sx_url :: "string \<Rightarrow> go_error + url"
  sx_decodeExtract :: "string \<Rightarrow> addon_extract"
  sx_encodeExtract :: "addon_extract \<Rightarrow> go_error + string"
  sx_encodeAuth :: "string \<Rightarrow> string \<Rightarrow> string \<Rightarrow> go_error + string"

definition ask :: "(('b, 'w) server \<Rightarrow> 'a) \<Rightarrow> ('b, 'w, 'a) sprog" where
  "ask f = State (\<lambda>s. (f s, s))"

definition change :: "(('b, 'w) server \<Rightarrow> ('b, 'w) server) \<Rightarrow> ('b, 'w, unit) sprog" where
  "change f = State (\<lambda>s. ((), f s))"

definition external :: "('w \<Rightarrow> 'a \<times> 'w) \<Rightarrow> ('b, 'w, 'a) sprog" where
  "external f = State (\<lambda>s. case f (sv_world s) of (x, w) \<Rightarrow> (x, s\<lparr>sv_world := w\<rparr>))"

definition db_read :: "string \<Rightarrow> ('b \<Rightarrow> dao_error + 'a) \<Rightarrow> ('b, 'w, server_error + 'a) sprog" where
  "db_read name f = ask (\<lambda>s. map_sum SvDao id (f (sv_db s name)))"

definition db_write :: "string \<Rightarrow> ('b \<Rightarrow> (dao_error + unit) \<times> 'b) \<Rightarrow> ('b, 'w, server_error + unit) sprog" where
  "db_write name f =
     State (\<lambda>s. case f (sv_db s name) of (r, b) \<Rightarrow> (map_sum SvDao id r, s\<lparr>sv_db := (sv_db s)(name := b)\<rparr>))"

lemma run_server [simp]:
  "run_state (ask f) s = (f s, s)"
  "run_state (change g) s = ((), g s)"
  "run_state (db_read name h) s = (map_sum SvDao id (h (sv_db s name)), s)"
  by (simp_all add: ask_def change_def db_read_def)

lemma run_external: "run_state (external f) s = (fst (f (sv_world s)), s\<lparr>sv_world := snd (f (sv_world s))\<rparr>)"
  by (simp add: external_def split: prod.split)

lemma run_db_write:
  "run_state (db_write name f) s =
   (map_sum SvDao id (fst (f (sv_db s name))), s\<lparr>sv_db := (sv_db s)(name := snd (f (sv_db s name)))\<rparr>)"
  by (simp add: db_write_def split: prod.split)

section \<open>Events and operators\<close>

definition newOperator :: "web_user option \<Rightarrow> operator" where
  "newOperator user = (case user of None \<Rightarrow> no_operator | Some u \<Rightarrow> \<lparr>op_ID = u_id u, op_Name = u_name u\<rparr>)"

definition server_event :: "('b, 'raw, 'w) server_env \<Rightarrow> string \<Rightarrow> string \<Rightarrow> options option \<Rightarrow> web_user option
    \<Rightarrow> ('b, 'w, unit) sprog" where
  "server_event E type action args user = do {
     key \<leftarrow> external (sx_newObjectID E);
     t \<leftarrow> external (sx_now E);
     _ \<leftarrow> db_write ''event'' (EventCreate (dao_event (sx_dao E))
       \<lparr>ev_ID = key, ev_Type = type, ev_Action = action, ev_Args = args,
        ev_UserID = (case user of None \<Rightarrow> [] | Some u \<Rightarrow> u_id u),
        ev_Username = (case user of None \<Rightarrow> [] | Some u \<Rightarrow> u_name u), ev_OriginatingUser = [], ev_Time = t\<rparr>);
     State_Monad.return ()
   }"

definition CreateSetting :: "('b, 'raw, 'w) server_env \<Rightarrow> string \<Rightarrow> web_user option \<Rightarrow> ('b, 'w, unit) sprog" where
  "CreateSetting E action user = server_event E ''Setting'' action None user"

definition CreateRegistry :: "('b, 'raw, 'w) server_env \<Rightarrow> string \<Rightarrow> string \<Rightarrow> string \<Rightarrow> web_user option \<Rightarrow> ('b, 'w, unit) sprog" where
  "CreateRegistry E action key name user =
     server_event E ''Registry'' action (Some [(''id'', key), (''name'', name)]) user"

definition CreateStack :: "('b, 'raw, 'w) server_env \<Rightarrow> string \<Rightarrow> string \<Rightarrow> string \<Rightarrow> web_user option \<Rightarrow> ('b, 'w, unit) sprog" where
  "CreateStack E action node name user =
     server_event E ''Stack'' action (Some ((''name'', name) # (if node = [] then [] else [(''node'', node)]))) user"

definition CreateHost :: "('b, 'raw, 'w) server_env \<Rightarrow> string \<Rightarrow> string \<Rightarrow> string \<Rightarrow> web_user option \<Rightarrow> ('b, 'w, unit) sprog" where
  "CreateHost E action key name user =
     server_event E ''Host'' action (Some [(''id'', key), (''name'', name)]) user"

text \<open>An event adds one record to its bucket and touches nothing else of the database.\<close>

lemma server_event_frame:
  "bucket \<noteq> ''event'' \<Longrightarrow> sv_db (snd (run_state (server_event E type action args user) s)) bucket = sv_db s bucket"
  "sv_live (snd (run_state (server_event E type action args user) s)) = sv_live s"
  "sv_clients (snd (run_state (server_event E type action args user) s)) = sv_clients s"
  by (simp_all add: server_event_def run_external run_db_write)

lemma event_frames [simp]:
  "bucket \<noteq> ''event'' \<Longrightarrow> sv_db (snd (run_state (CreateSetting E a user) s)) bucket = sv_db s bucket"
  "bucket \<noteq> ''event'' \<Longrightarrow> sv_db (snd (run_state (CreateRegistry E a key name user) s)) bucket = sv_db s bucket"
  "bucket \<noteq> ''event'' \<Longrightarrow> sv_db (snd (run_state (CreateStack E a node name user) s)) bucket = sv_db s bucket"
  "sv_live (snd (run_state (CreateSetting E a user) s)) = sv_live s"
  "sv_live (snd (run_state (CreateRegistry E a key name user) s)) = sv_live s"
  "sv_live (snd (run_state (CreateStack E a node name user) s)) = sv_live s"
  "bucket \<noteq> ''event'' \<Longrightarrow> sv_db (snd (run_state (CreateHost E a key name user) s)) bucket = sv_db s bucket"
  "sv_clients (snd (run_state (CreateHost E a key name user) s)) = sv_clients s"
  "sv_clients (snd (run_state (CreateStack E a node name user) s)) = sv_clients s"
  by (simp_all add: CreateSetting_def CreateRegistry_def CreateStack_def CreateHost_def server_event_frame)

end
