(* ===== verification/Settings.thy ===== *)
theory Settings
  imports Server
begin

text \<open>
  The settings of the server, biz/setting.go, with the group \<open>registry_cache\<close> of biz/registry_cache.go,
  the registries it can be linked to, biz/registry.go, and its transfer between servers,
  biz/registry_cache_federation.go.

  Go mutates the decoded map in place; here each step returns the new map.  The generated shell script
  of \<open>BuildBootstrapScript\<close>, the creation of a certificate and the probe of the mirror are not modelled.
\<close>

section \<open>Secrets in a group of settings\<close>

text \<open>Eight bullets in UTF-8.\<close>

definition SettingSecretMask :: string where
  "SettingSecretMask = concat (replicate 8 [char_of (0xE2 :: nat), char_of (0x80 :: nat), char_of (0xA2 :: nat)])"

definition secretFieldsByID :: "string \<Rightarrow> string list option" where
  "secretFieldsByID = map_of
     [(''vault'', [''token'', ''secret_id'']), (''keycloak'', [''client_secret'']), (''registry_cache'', [''password''])]"

definition mask_field :: "string \<Rightarrow> (string, json) fmap \<Rightarrow> (string, json) fmap" where
  "mask_field f m = (if string_at m f \<noteq> [] then fmupd f (JString SettingSecretMask) m else m)"

definition sanitizeForResponse :: "string \<Rightarrow> json \<Rightarrow> json" where
  "sanitizeForResponse key v =
     (case secretFieldsByID key of
        None \<Rightarrow> v
      | Some secrets \<Rightarrow> (case v of JObject m \<Rightarrow> JObject (fold mask_field secrets m) | _ \<Rightarrow> v))"

definition preserve_field :: "(string, json) fmap \<Rightarrow> string \<Rightarrow> (string, json) fmap \<Rightarrow> (string, json) fmap" where
  "preserve_field old f m =
     (if (string_at m f = [] \<or> string_at m f = SettingSecretMask) \<and> is_string_at old f
      then fmupd f (JString (string_at old f)) m else m)"

definition preserveSecretsFromExisting :: "string \<Rightarrow> go_value \<Rightarrow> json \<Rightarrow> go_value" where
  "preserveSecretsFromExisting key incoming existing =
     (case secretFieldsByID key of
        None \<Rightarrow> incoming
      | Some secrets \<Rightarrow>
          (case (incoming, existing) of
             (Json (JObject m), JObject old) \<Rightarrow> Json (JObject (fold (preserve_field old) secrets m))
           | _ \<Rightarrow> incoming))"

section \<open>The registry cache\<close>

definition validRewriteModes :: "string list" where
  "validRewriteModes = [''off'', ''per-host'', ''always'']"

text \<open>\<open>strings.ToUpper\<close> on ASCII.\<close>

definition to_upper :: "string \<Rightarrow> string" where
  "to_upper s = map (\<lambda>c. if is_lower c then char_of ((of_char c :: nat) - 32) else c) s"

definition ComputeCAFingerprint :: "('b, 'raw, 'w) server_env \<Rightarrow> string \<Rightarrow> go_error + string" where
  "ComputeCAFingerprint E pemData =
     (if TrimSpace pemData = [] then Inl ''empty PEM''
      else case sx_pem E pemData of
        None \<Rightarrow> Inl ''invalid PEM''
      | Some block \<Rightarrow>
          (case sx_x509 E block of
             Inl e \<Rightarrow> Inl (''parse certificate: '' @ e)
           | Inr raw \<Rightarrow> Inr (to_upper (hex_string (sx_sha256 E raw)))))"

definition fingerprint_or_blank :: "('b, 'raw, 'w) server_env \<Rightarrow> string \<Rightarrow> string" where
  "fingerprint_or_blank E ca = (case ComputeCAFingerprint E ca of Inr fp \<Rightarrow> fp | Inl _ \<Rightarrow> [])"

definition trim_field :: "string \<Rightarrow> (string, json) fmap \<Rightarrow> (string, json) fmap" where
  "trim_field k m = (if is_string_at m k then fmupd k (JString (TrimSpace (string_at m k))) m else m)"

definition normalize_ca :: "('b, 'raw, 'w) server_env \<Rightarrow> (string, json) fmap \<Rightarrow> (string, json) fmap" where
  "normalize_ca E m =
     (if is_string_at m ''ca_cert_pem'' then
        (let ca = TrimSpace (string_at m ''ca_cert_pem'')
         in fmupd ''ca_fingerprint'' (JString (fingerprint_or_blank E ca)) (fmupd ''ca_cert_pem'' (JString ca) m))
      else m)"

definition default_port :: "(string, json) fmap \<Rightarrow> (string, json) fmap" where
  "default_port m =
     (if bool_at m ''enabled'' \<and> (fmlookup m ''port'' = None \<or> fmlookup m ''port'' = Some (JFloat 0))
      then fmupd ''port'' (JFloat 5000) m else m)"

definition default_mode :: "(string, json) fmap \<Rightarrow> (string, json) fmap" where
  "default_mode m = (if string_at m ''rewrite_mode'' = [] then fmupd ''rewrite_mode'' (JString ''per-host'') m else m)"

definition default_prefix :: "(string, json) fmap \<Rightarrow> (string, json) fmap" where
  "default_prefix m =
     (if fmlookup m ''use_upstream_prefix'' = None then fmupd ''use_upstream_prefix'' (JBool True) m else m)"

definition normalizeRegistryCache :: "('b, 'raw, 'w) server_env \<Rightarrow> go_value \<Rightarrow> go_value" where
  "normalizeRegistryCache E v =
     (case v of
        Json (JObject m) \<Rightarrow>
          Json (JObject (fmdrop ''upstreams'' (default_prefix (default_mode (default_port (normalize_ca E
            (fold trim_field [''hostname'', ''username'', ''rewrite_mode''] m)))))))
      | _ \<Rightarrow> v)"

text \<open>The host and the port of a registry's URL.\<close>

definition splitMirrorURL :: "('b, 'raw, 'w) server_env \<Rightarrow> string \<Rightarrow> string \<times> int" where
  "splitMirrorURL E raw =
     (let raw = TrimSpace raw in
      if raw = [] then ([], 0)
      else let raw = (if \<not> contains raw ''://'' then ''https://'' @ raw else raw) in
      case sx_url E raw of
        Inl _ \<Rightarrow> ([], 0)
      | Inr u \<Rightarrow>
          if url_Host u = [] then ([], 0)
          else if url_Port u = [] then (url_Hostname u, if url_Scheme u = ''http'' then 80 else 443)
          else case Atoi (url_Port u) of Inl _ \<Rightarrow> (url_Hostname u, 0) | Inr port \<Rightarrow> (url_Hostname u, port))"

definition overlay_fields :: "('b, 'raw, 'w) server_env \<Rightarrow> registry \<Rightarrow> (string, json) fmap \<Rightarrow> (string, json) fmap" where
  "overlay_fields E r m =
     (let (host, port) = splitMirrorURL E (rg_URL r);
          m = (if host \<noteq> [] then fmupd ''hostname'' (JString host) m else m);
          m = (if port > 0 then fmupd ''port'' (JFloat (of_int port)) m else m);
          m = fmupd ''username'' (JString (rg_Username r)) m;
          m = (if rg_Password r \<noteq> [] then fmupd ''password'' (JString (rg_Password r)) m else m);
          m = fmupd ''ca_cert_pem'' (JString (rg_CACertPEM r)) m
      in fmupd ''ca_fingerprint''
           (JString (if rg_CAFingerprint r \<noteq> [] then rg_CAFingerprint r else fingerprint_or_blank E (rg_CACertPEM r))) m)"

definition overlayRegistryCacheFromRegistry :: "('b, 'raw, 'w) server_env \<Rightarrow> 'b \<Rightarrow> go_value \<Rightarrow> go_value" where
  "overlayRegistryCacheFromRegistry E registries v =
     (case v of
        Json (JObject m) \<Rightarrow>
          (let key = TrimSpace (string_at m ''registry_id'') in
           if key = [] then v
           else case RegistryGet (dao_registry (sx_dao E)) key registries of
             Inr (Some r) \<Rightarrow> Json (JObject (overlay_fields E r m))
           | _ \<Rightarrow> Json (JObject (fmupd ''registry_id'' (JString []) m)))
      | _ \<Rightarrow> v)"

definition validateRegistryCache :: "go_value \<Rightarrow> go_error + unit" where
  "validateRegistryCache v =
     (case v of
        Json (JObject m) \<Rightarrow>
          if \<not> bool_at m ''enabled'' then Inr ()
          else if string_at m ''hostname'' = [] then Inl ''registry_cache: hostname is required when enabled''
          else let port = int_of_float (float_at m ''port'') in
            if port < 1 \<or> port > 65535
            then Inl (''registry_cache: port must be between 1 and 65535 (got '' @ show_int port @ '')'')
            else if string_at m ''rewrite_mode'' \<notin> set validRewriteModes
            then Inl (''registry_cache: invalid rewrite_mode '' @ go_quote (string_at m ''rewrite_mode'') @
              '' (expected off|per-host|always)'')
            else Inr ()
      | _ \<Rightarrow> Inr ())"

section \<open>Reading and saving settings\<close>

definition normalizeSettingOptions :: "('b, 'raw, 'w) server_env \<Rightarrow> string \<Rightarrow> go_value \<Rightarrow> go_value" where
  "normalizeSettingOptions E key v = (if key = ''registry_cache'' then normalizeRegistryCache E v else v)"

definition validateSettingOptions :: "string \<Rightarrow> go_value \<Rightarrow> go_error + unit" where
  "validateSettingOptions key v = (if key = ''registry_cache'' then validateRegistryCache v else Inr ())"

text \<open>A missing record is the nil interface.\<close>

definition setting_raw :: "('b, 'raw, 'w) server_env \<Rightarrow> string \<Rightarrow> 'b \<Rightarrow> server_error + json" where
  "setting_raw E key b =
     (case SettingGet (dao_setting (sx_dao E)) key b of
        Inl e \<Rightarrow> Inl (SvDao e)
      | Inr None \<Rightarrow> Inr JNull
      | Inr (Some st) \<Rightarrow> map_sum SvError id (sx_Decode E (st_Options st)))"

definition findRaw :: "('b, 'raw, 'w) server_env \<Rightarrow> string \<Rightarrow> ('b, 'w, server_error + json) sprog" where
  "findRaw E key = ask (\<lambda>s. setting_raw E key (sv_db s ''setting''))"

definition Find_setting :: "('b, 'raw, 'w) server_env \<Rightarrow> string \<Rightarrow> ('b, 'w, server_error + json) sprog" where
  "Find_setting E key = do {
     r \<leftarrow> findRaw E key;
     State_Monad.return (map_sum id (sanitizeForResponse key) r)
   }"

fun decode_settings :: "('b, 'raw, 'w) server_env \<Rightarrow> setting list \<Rightarrow> (string, json) fmap \<Rightarrow> server_error + (string, json) fmap" where
  "decode_settings E [] acc = Inr acc"
| "decode_settings E (st # sts) acc =
     (case sx_Decode E (st_Options st) of
        Inl e \<Rightarrow> Inl (SvError e)
      | Inr v \<Rightarrow> decode_settings E sts (fmupd (st_ID st) v acc))"

definition settings_raw :: "('b, 'raw, 'w) server_env \<Rightarrow> 'b \<Rightarrow> server_error + (string, json) fmap" where
  "settings_raw E b =
     or_return (map_sum SvDao id (SettingGetAll (dao_setting (sx_dao E)) b)) (\<lambda>sts. decode_settings E sts fmempty)"

definition loadRaw :: "('b, 'raw, 'w) server_env \<Rightarrow> ('b, 'w, server_error + (string, json) fmap) sprog" where
  "loadRaw E = ask (\<lambda>s. settings_raw E (sv_db s ''setting''))"

definition Load_settings :: "('b, 'raw, 'w) server_env \<Rightarrow> ('b, 'w, server_error + (string, json) fmap) sprog" where
  "Load_settings E = do {
     r \<leftarrow> loadRaw E;
     State_Monad.return (map_sum id (fmmap_keys sanitizeForResponse) r)
   }"

definition SetLiveSettings :: "misc_setting option \<Rightarrow> ('b, 'w, unit) sprog" where
  "SetLiveSettings v = change (\<lambda>s. s\<lparr>sv_live := v\<rparr>)"

definition refreshInMemory :: "('b, 'raw, 'w) server_env \<Rightarrow> ('b, 'w, server_error + unit) sprog" where
  "refreshInMemory E = do {
     live \<leftarrow> ask sv_live;
     if live = None then State_Monad.return (Inr ())
     else do {
       r \<leftarrow> loadRaw E;
       or_fail r (\<lambda>opts.
         case sx_setting_of E (JObject opts) of
           Inl e \<Rightarrow> State_Monad.return (Inl (SvError e))
         | Inr fresh \<Rightarrow> do { _ \<leftarrow> SetLiveSettings (Some fresh); State_Monad.return (Inr ()) })
     }
   }"

text \<open>The payload of the HTTP handler is decoded first, if it can be.\<close>

definition decode_payload :: "('b, 'raw, 'w) server_env \<Rightarrow> go_value \<Rightarrow> go_value" where
  "decode_payload E v =
     (let try = (\<lambda>raw. if raw = [] then v else case sx_Unmarshal E raw of Inr d \<Rightarrow> Json d | Inl _ \<Rightarrow> v)
      in case v of RawMessage raw \<Rightarrow> try raw | Bytes raw \<Rightarrow> try raw | Json _ \<Rightarrow> v)"

text \<open>What \<open>Save\<close> is going to store, before the validation.\<close>

definition options_to_store :: "('b, 'raw, 'w) server_env \<Rightarrow> string \<Rightarrow> go_value \<Rightarrow> server_error + json \<Rightarrow> 'b \<Rightarrow> go_value" where
  "options_to_store E key payload existing registries =
     (let v = decode_payload E payload;
          v = (case existing of Inl _ \<Rightarrow> v | Inr JNull \<Rightarrow> v | Inr old \<Rightarrow> preserveSecretsFromExisting key v old);
          v = normalizeSettingOptions E key v
      in if key = ''registry_cache'' then overlayRegistryCacheFromRegistry E registries v else v)"

definition Save_setting :: "('b, 'raw, 'w) server_env \<Rightarrow> string \<Rightarrow> go_value \<Rightarrow> web_user option
    \<Rightarrow> ('b, 'w, server_error + unit) sprog" where
  "Save_setting E key payload user = do {
     existing \<leftarrow> findRaw E key;
     registries \<leftarrow> ask (\<lambda>s. sv_db s ''registry'');
     let v = options_to_store E key payload existing registries;
     case validateSettingOptions key v of
       Inl e \<Rightarrow> State_Monad.return (Inl (SvError e))
     | Inr _ \<Rightarrow> do {
         t \<leftarrow> external (sx_now E);
         case sx_Marshal E v of
           Inl e \<Rightarrow> State_Monad.return (Inl (SvError e))
         | Inr text \<Rightarrow> do {
             r \<leftarrow> db_write ''setting'' (SettingUpdate (dao_setting (sx_dao E))
               \<lparr>st_ID = key, st_Options = text, st_UpdatedAt = t, st_UpdatedBy = newOperator user\<rparr>);
             or_fail r (\<lambda>_. do {
               _ \<leftarrow> refreshInMemory E;
               _ \<leftarrow> (if user = None then State_Monad.return () else CreateSetting E ''Update'' user);
               State_Monad.return (Inr ())
             })
           }
       }
   }"

section \<open>Registries\<close>

definition derive_fingerprint :: "('b, 'raw, 'w) server_env \<Rightarrow> registry \<Rightarrow> registry" where
  "derive_fingerprint E r =
     r\<lparr>rg_CAFingerprint := (if rg_CACertPEM r \<noteq> [] then fingerprint_or_blank E (rg_CACertPEM r) else [])\<rparr>"

definition Create_registry :: "('b, 'raw, 'w) server_env \<Rightarrow> registry \<Rightarrow> web_user option \<Rightarrow> ('b, 'w, server_error + unit) sprog" where
  "Create_registry E r user = do {
     key \<leftarrow> external (sx_createId E);
     t \<leftarrow> external (sx_now E);
     let r = derive_fingerprint E (r\<lparr>rg_ID := key, rg_CreatedAt := t, rg_UpdatedAt := t,
       rg_CreatedBy := newOperator user, rg_UpdatedBy := newOperator user\<rparr>);
     w \<leftarrow> db_write ''registry'' (RegistryCreate (dao_registry (sx_dao E)) r);
     or_fail w (\<lambda>_. do { _ \<leftarrow> CreateRegistry E ''Create'' (rg_ID r) (rg_Name r) user; State_Monad.return (Inr ()) })
   }"

definition refreshLinkedRegistryCache :: "('b, 'raw, 'w) server_env \<Rightarrow> string \<Rightarrow> web_user option \<Rightarrow> ('b, 'w, unit) sprog" where
  "refreshLinkedRegistryCache E registryID user =
     (if registryID = [] then State_Monad.return ()
      else do {
        live \<leftarrow> ask sv_live;
        case live of
          None \<Rightarrow> State_Monad.return ()
        | Some s \<Rightarrow>
            if rc_RegistryID (ms_RegistryCache s) \<noteq> registryID then State_Monad.return ()
            else (case sx_MarshalCache E (ms_RegistryCache s) of
                    Inl _ \<Rightarrow> State_Monad.return ()
                  | Inr buf \<Rightarrow> do { _ \<leftarrow> Save_setting E ''registry_cache'' (RawMessage buf) user; State_Monad.return () })
      })"

definition Update_registry :: "('b, 'raw, 'w) server_env \<Rightarrow> registry \<Rightarrow> web_user option \<Rightarrow> ('b, 'w, server_error + unit) sprog" where
  "Update_registry E r user = do {
     t \<leftarrow> external (sx_now E);
     let r = derive_fingerprint E (r\<lparr>rg_UpdatedAt := t, rg_UpdatedBy := newOperator user\<rparr>);
     w \<leftarrow> db_write ''registry'' (RegistryUpdate (dao_registry (sx_dao E)) r);
     or_fail w (\<lambda>_. do {
       _ \<leftarrow> CreateRegistry E ''Update'' (rg_ID r) (rg_Name r) user;
       _ \<leftarrow> refreshLinkedRegistryCache E (rg_ID r) user;
       State_Monad.return (Inr ())
     })
   }"

definition Search_registries :: "('b, 'raw, 'w) server_env \<Rightarrow> ('b, 'w, server_error + registry list) sprog" where
  "Search_registries E = do {
     r \<leftarrow> db_read ''registry'' (RegistryGetAll (dao_registry (sx_dao E)));
     State_Monad.return (map_sum id (map (\<lambda>x. x\<lparr>rg_Password := []\<rparr>)) r)
   }"

text \<open>A missing record is a nil pointer, and the assignment to its password panics.\<close>

definition Find_registry :: "('b, 'raw, 'w) server_env \<Rightarrow> string \<Rightarrow> ('b, 'w, server_error + registry) sprog" where
  "Find_registry E key = do {
     r \<leftarrow> db_read ''registry'' (RegistryGet (dao_registry (sx_dao E)) key);
     or_fail r (\<lambda>x. State_Monad.return (case x of None \<Rightarrow> Inl SvPanic | Some g \<Rightarrow> Inr (g\<lparr>rg_Password := []\<rparr>)))
   }"

text \<open>The encoded credentials of the registry of a URL, empty if there is none.\<close>

definition GetAuth :: "('b, 'raw, 'w) server_env \<Rightarrow> string \<Rightarrow> ('b, 'w, server_error + string) sprog" where
  "GetAuth E address = do {
     r \<leftarrow> db_read ''registry'' (RegistryGetByURL (dao_registry (sx_dao E)) address);
     or_fail r (\<lambda>x. State_Monad.return (case x of
       None \<Rightarrow> Inr []
     | Some g \<Rightarrow> map_sum SvError id (sx_encodeAuth E (rg_URL g) (rg_Username g) (rg_Password g))))
   }"

definition Delete_registry :: "('b, 'raw, 'w) server_env \<Rightarrow> string \<Rightarrow> string \<Rightarrow> web_user option \<Rightarrow> ('b, 'w, server_error + unit) sprog" where
  "Delete_registry E key name user = do {
     live \<leftarrow> ask sv_live;
     if (case live of None \<Rightarrow> False | Some s \<Rightarrow> rc_RegistryID (ms_RegistryCache s) = key)
     then State_Monad.return (Inl (SvCoded ''ErrRegistryLinked'' ''registry is linked as the Registry Cache source''))
     else do {
       r \<leftarrow> db_write ''registry'' (RegistryDelete (dao_registry (sx_dao E)) key);
       or_fail r (\<lambda>_. do { _ \<leftarrow> CreateRegistry E ''Delete'' key name user; State_Monad.return (Inr ()) })
     }
   }"

section \<open>The mirror\<close>

definition LiveRegistryCacheParams :: "misc_setting option \<Rightarrow> registry_cache option" where
  "LiveRegistryCacheParams live =
     (case live of
        None \<Rightarrow> None
      | Some s \<Rightarrow> if rc_Enabled (ms_RegistryCache s) then Some (ms_RegistryCache s) else None)"

definition portOrDefault :: "int \<Rightarrow> int" where
  "portOrDefault p = (if p = 0 then 5000 else p)"

definition BuildMirrorURL :: "registry_cache option \<Rightarrow> string" where
  "BuildMirrorURL p =
     (case p of
        None \<Rightarrow> []
      | Some rc \<Rightarrow> if rc_Hostname rc = [] then [] else ''https://'' @ rc_Hostname rc @ '':'' @ show_int (portOrDefault (rc_Port rc)))"

text \<open>Two spaces, and the lines of the JSON text.\<close>

definition BuildDaemonSnippet :: "registry_cache option \<Rightarrow> bool \<Rightarrow> string" where
  "BuildDaemonSnippet p insecure =
     (case p of
        None \<Rightarrow> []
      | Some rc \<Rightarrow>
          if rc_Hostname rc = [] then []
          else let nl = [CHR 0x0A];
                   mirrors = ''  '' @ go_quote ''registry-mirrors'' @ '': ['' @ go_quote (BuildMirrorURL p) @ '']'';
                   endpoint = rc_Hostname rc @ '':'' @ show_int (portOrDefault (rc_Port rc))
               in if insecure
                  then ''{'' @ nl @ mirrors @ '','' @ nl @ ''  '' @ go_quote ''insecure-registries'' @ '': ['' @ go_quote endpoint @ '']'' @ nl @ ''}'' @ nl
                  else ''{'' @ nl @ mirrors @ nl @ ''}'' @ nl)"

section \<open>Transfer to another server\<close>

text \<open>The payload: the password is always empty, and the link to a registry is left out.\<close>

definition sync_payload :: "registry_cache \<Rightarrow> json" where
  "sync_payload rc = JObject (fmap_of_list
     ([(''enabled'', JBool (rc_Enabled rc)), (''hostname'', JString (rc_Hostname rc)),
       (''port'', JFloat (of_int (rc_Port rc))), (''ca_cert_pem'', JString (rc_CACertPEM rc))] @
      (if rc_Username rc = [] then [] else [(''username'', JString (rc_Username rc))]) @
      [(''password'', JString []), (''use_upstream_prefix'', JBool (rc_UseUpstreamPrefix rc)),
       (''rewrite_mode'', JString (rc_RewriteMode rc)), (''preserve_digests'', JBool (rc_PreserveDigests rc))]))"

text \<open>\<open>post\<close> sends the text with the token to the address and answers with a status and a body.\<close>

definition SyncRegistryCacheToPeer :: "('b, 'raw, 'w) server_env
    \<Rightarrow> (string \<Rightarrow> string \<Rightarrow> string \<Rightarrow> 'w \<Rightarrow> (go_error + int \<times> string) \<times> 'w) \<Rightarrow> dao_host option
    \<Rightarrow> ('b, 'w, go_error + unit) sprog" where
  "SyncRegistryCacheToPeer E post host =
     (case host of
        None \<Rightarrow> State_Monad.return (Inl ''registry cache sync: nil host'')
      | Some h \<Rightarrow>
          if ho_Type h \<noteq> ''swarm_via_swirl'' then
            State_Monad.return (Inl (''registry cache sync: host '' @ go_quote (ho_Name h) @ '' is not a swarm_via_swirl peer''))
          else let base = rev (dropWhile (\<lambda>c. c = CHR ''/'') (rev (ho_SwirlURL h))) in
          if base = [] then
            State_Monad.return (Inl (''registry cache sync: host '' @ go_quote (ho_Name h) @ '' has no SwirlURL''))
          else if ho_SwirlToken h = [] then
            State_Monad.return (Inl (''registry cache sync: host '' @ go_quote (ho_Name h) @ '' has no SwirlToken''))
          else do {
            live \<leftarrow> ask sv_live;
            case LiveRegistryCacheParams live of
              None \<Rightarrow> State_Monad.return (Inl ''registry cache sync: local Setting.RegistryCache is not enabled'')
            | Some rc \<Rightarrow>
                (case sx_Marshal E (Json (sync_payload rc)) of
                   Inl e \<Rightarrow> State_Monad.return (Inl (''registry cache sync: marshal: '' @ e))
                 | Inr body \<Rightarrow> do {
                     r \<leftarrow> external (post (base @ ''/api/federation/registry-cache/receive'') (ho_SwirlToken h) body);
                     State_Monad.return (case r of
                       Inl e \<Rightarrow> Inl (''registry cache sync: '' @ e)
                     | Inr (status, answer) \<Rightarrow>
                         if status < 200 \<or> status \<ge> 300
                         then Inl (''registry cache sync: peer returned '' @ show_int status @ '': '' @ TrimSpace (take 4096 answer))
                         else Inr ())
                   })
          })"

definition ApplyReceivedRegistryCache :: "('b, 'raw, 'w) server_env \<Rightarrow> (string, json) fmap option \<Rightarrow> web_user option
    \<Rightarrow> ('b, 'w, server_error + unit) sprog" where
  "ApplyReceivedRegistryCache E payload user =
     (case payload of
        None \<Rightarrow> State_Monad.return (Inl (SvError ''registry cache receive: empty payload''))
      | Some m \<Rightarrow>
          (case sx_Marshal E (Json (JObject (fmdrop ''password'' m))) of
             Inl e \<Rightarrow> State_Monad.return (Inl (SvError (''registry cache receive: marshal: '' @ e)))
           | Inr raw \<Rightarrow> Save_setting E ''registry_cache'' (RawMessage raw) user))"

end
