(* ===== verification/SettingsTheorems.thy ===== *)
theory SettingsTheorems
  imports Settings
begin

text \<open>
  What the settings promise: no secret leaves through \<open>Find\<close> or \<open>Load\<close>, a saved form keeps the
  secrets it did not change, and an enabled registry cache is stored only with a usable address.
\<close>

section \<open>The JSON library\<close>

text \<open>A value up to the representation of its numbers, and a value whose strings are UTF-8: what the
  decoders give back of what was encoded.\<close>

primrec blur :: "json \<Rightarrow> json" where
  "blur JNull = JNull"
| "blur (JBool x) = JBool x"
| "blur (JFloat x) = JNumber []"
| "blur (JNumber x) = JNumber []"
| "blur (JString x) = JString x"
| "blur (JArray xs) = JArray (map blur xs)"
| "blur (JObject m) = JObject (fmmap blur m)"

primrec well_encoded :: "json \<Rightarrow> bool" where
  "well_encoded JNull = True"
| "well_encoded (JBool x) = True"
| "well_encoded (JFloat x) = True"
| "well_encoded (JNumber x) = True"
| "well_encoded (JString x) = utf8_valid x"
| "well_encoded (JArray xs) = list_all id (map well_encoded xs)"
| "well_encoded (JObject m) = fmpred (\<lambda>k ok. utf8_valid k \<and> ok) (fmmap well_encoded m)"

definition json_codec :: "('b, 'raw, 'w) server_env \<Rightarrow> bool" where
  "json_codec E \<longleftrightarrow> (\<forall>v text. sx_Marshal E (Json v) = Inr text \<longrightarrow> well_encoded v \<longrightarrow>
     text \<noteq> [] \<and> (\<exists>d. sx_Decode E text = Inr d \<and> blur d = blur v) \<and> (\<exists>d. sx_Unmarshal E text = Inr d \<and> blur d = blur v))"

lemma blur_object: "blur d = blur (JObject m) \<longleftrightarrow> (\<exists>m'. d = JObject m' \<and> fmmap blur m' = fmmap blur m)"
  by (cases d) auto

lemma blur_string: "blur d = JString x \<longleftrightarrow> d = JString x"
  by (cases d) auto

lemma blur_lookup:
  assumes "fmmap blur m' = fmmap blur m"
  shows "map_option blur (fmlookup m' k) = map_option blur (fmlookup m k)"
  using arg_cong [OF assms, of "\<lambda>x. fmlookup x k"] by simp

lemma blur_cases:
  assumes "blur x = blur y"
  shows "(case x of JString s \<Rightarrow> s | _ \<Rightarrow> []) = (case y of JString s \<Rightarrow> s | _ \<Rightarrow> [])"
    and "(case x of JString s \<Rightarrow> True | _ \<Rightarrow> False) = (case y of JString s \<Rightarrow> True | _ \<Rightarrow> False)"
    and "(case x of JBool z \<Rightarrow> z | _ \<Rightarrow> False) = (case y of JBool z \<Rightarrow> z | _ \<Rightarrow> False)"
  using assms by (cases x; cases y; simp)+

lemma blurred_fields:
  assumes "fmmap blur m' = fmmap blur m"
  shows "string_at m' k = string_at m k" "is_string_at m' k = is_string_at m k" "bool_at m' k = bool_at m k"
    and "fmlookup m' k = None \<longleftrightarrow> fmlookup m k = None"
proof -
  note * = blur_lookup [OF assms, of k]
  consider "fmlookup m' k = None" "fmlookup m k = None"
    | x y where "fmlookup m' k = Some x" "fmlookup m k = Some y" "blur x = blur y"
    using * by (cases "fmlookup m' k"; cases "fmlookup m k") auto
  then have "string_at m' k = string_at m k \<and> is_string_at m' k = is_string_at m k \<and> bool_at m' k = bool_at m k
    \<and> (fmlookup m' k = None \<longleftrightarrow> fmlookup m k = None)"
  proof cases
    case 2
    then show ?thesis using blur_cases [OF 2(3)] by (simp add: string_at_def is_string_at_def bool_at_def)
  qed (simp add: string_at_def is_string_at_def bool_at_def)
  then show "string_at m' k = string_at m k" "is_string_at m' k = is_string_at m k" "bool_at m' k = bool_at m k"
    "fmlookup m' k = None \<longleftrightarrow> fmlookup m k = None" by simp_all
qed

section \<open>Fields\<close>

lemma at_fmupd [simp]:
  "string_at (fmupd k v m) k' = (if k' = k then (case v of JString s \<Rightarrow> s | _ \<Rightarrow> []) else string_at m k')"
  "is_string_at (fmupd k v m) k' = (if k' = k then (case v of JString s \<Rightarrow> True | _ \<Rightarrow> False) else is_string_at m k')"
  "bool_at (fmupd k v m) k' = (if k' = k then (case v of JBool x \<Rightarrow> x | _ \<Rightarrow> False) else bool_at m k')"
  "float_at (fmupd k v m) k' = (if k' = k then (case v of JFloat x \<Rightarrow> x | _ \<Rightarrow> 0) else float_at m k')"
  by (simp_all add: string_at_def is_string_at_def bool_at_def float_at_def)

lemma at_fmdrop [simp]:
  "string_at (fmdrop k m) k' = (if k' = k then [] else string_at m k')"
  "is_string_at (fmdrop k m) k' = (if k' = k then False else is_string_at m k')"
  "bool_at (fmdrop k m) k' = (if k' = k then False else bool_at m k')"
  "float_at (fmdrop k m) k' = (if k' = k then 0 else float_at m k')"
  by (simp_all add: string_at_def is_string_at_def bool_at_def float_at_def)

lemma string_at_not: "\<not> is_string_at m k \<Longrightarrow> string_at m k = []"
  by (simp add: string_at_def is_string_at_def split: option.splits json.splits)

lemma string_at_preserve:
  "string_at (fold (preserve_field old) fs m) f =
     (if f \<in> set fs \<and> (string_at m f = [] \<or> string_at m f = SettingSecretMask) \<and> is_string_at old f
      then string_at old f else string_at m f)"
  by (induction fs arbitrary: m) (auto simp: preserve_field_def)

lemma lookup_mask:
  "fmlookup (fold mask_field fs m) k =
     (if k \<in> set fs \<and> string_at m k \<noteq> [] then Some (JString SettingSecretMask) else fmlookup m k)"
  by (induction fs arbitrary: m) (auto simp: mask_field_def SettingSecretMask_def)

section \<open>No secret leaves\<close>

text \<open>The credentials of the groups, field by field, by the tags of misc/option.go: the token and the AppRole
  secret of Vault, the client secret of Keycloak and the password of the registry cache.  The password
  with which LDAP binds is another one, which the code does not mask.\<close>

definition is_credential :: "string \<Rightarrow> string \<Rightarrow> bool" where
  "is_credential key f \<longleftrightarrow> (key, f) \<in> set
     [(''vault'', ''token''), (''vault'', ''secret_id''), (''keycloak'', ''client_secret''), (''registry_cache'', ''password'')]"

text \<open>Two groups that differ at most in the text of credentials that are set.\<close>

definition same_but_secrets :: "string \<Rightarrow> json \<Rightarrow> json \<Rightarrow> bool" where
  "same_but_secrets key v v' \<longleftrightarrow> v = v' \<or>
     (\<exists>m m'. v = JObject m \<and> v' = JObject m' \<and>
       (\<forall>k. fmlookup m k = fmlookup m' k \<or> (is_credential key k \<and> string_at m k \<noteq> [] \<and> string_at m' k \<noteq> [])))"

lemma credential_masked:
  assumes "is_credential key f"
  obtains secrets where "secretFieldsByID key = Some secrets" "f \<in> set secrets"
  using assms by (auto simp: is_credential_def secretFieldsByID_def)

lemma sanitize_same:
  assumes "same_but_secrets key v v'"
  shows "sanitizeForResponse key v = sanitizeForResponse key v'"
proof (cases "v = v'")
  case False
  with assms obtain m m' where m: "v = JObject m" "v' = JObject m'"
    and same: "\<And>k. fmlookup m k = fmlookup m' k \<or> (is_credential key k \<and> string_at m k \<noteq> [] \<and> string_at m' k \<noteq> [])"
    by (auto simp: same_but_secrets_def)
  have "m \<noteq> m'" using False m by simp
  then have "\<not> (\<forall>f. fmlookup m f = fmlookup m' f)" by (auto intro: fmap_ext)
  then obtain f where "fmlookup m f \<noteq> fmlookup m' f" by auto
  with same [of f] have "is_credential key f" by simp
  then obtain secrets where secrets: "secretFieldsByID key = Some secrets" by (rule credential_masked)
  have "fold mask_field secrets m = fold mask_field secrets m'"
  proof (rule fmap_ext)
    fix k
    have "is_credential key k \<Longrightarrow> k \<in> set secrets" by (erule credential_masked) (simp add: secrets)
    then show "fmlookup (fold mask_field secrets m) k = fmlookup (fold mask_field secrets m') k"
      using same [of k] by (auto simp: lookup_mask string_at_def)
  qed
  with m secrets show ?thesis by (simp add: sanitizeForResponse_def)
qed simp

text \<open>The password with which LDAP binds leaves with its group.\<close>

theorem ldap_password_revealed:
  assumes "setting_raw E ''ldap'' (sv_db s ''setting'') = Inr (JObject m)"
  shows "fst (run_state (Find_setting E ''ldap'') s) = Inr (JObject m)"
  using assms by (simp add: Find_setting_def findRaw_def sanitizeForResponse_def secretFieldsByID_def)

text \<open>C21: The answers of Find and Load do not depend on the credentials of the Vault, Keycloak and registry cache
  groups: whatever two databases hold that differ only in the text of a Vault token or AppRole secret, a
  Keycloak client secret or the password of the registry cache, the answers are the same.  The bind
  password of LDAP is not among them: \<open>ldap_password_revealed\<close>.\<close>

theorem settings_reveal_no_secret:
  assumes "rel_sum (=) (same_but_secrets key) (setting_raw E key (sv_db s ''setting'')) (setting_raw E key (sv_db s' ''setting''))"
    and "rel_sum (=) (\<lambda>m m'. \<forall>k. rel_option (same_but_secrets k) (fmlookup m k) (fmlookup m' k))
           (settings_raw E (sv_db s ''setting'')) (settings_raw E (sv_db s' ''setting''))"
  shows "fst (run_state (Find_setting E key) s) = fst (run_state (Find_setting E key) s') \<and>
    fst (run_state (Load_settings E) s) = fst (run_state (Load_settings E) s')"
proof
  show "fst (run_state (Find_setting E key) s) = fst (run_state (Find_setting E key) s')"
    using assms(1) by (cases rule: rel_sum.cases) (auto simp: Find_setting_def findRaw_def sanitize_same)
  have "fmmap_keys sanitizeForResponse m = fmmap_keys sanitizeForResponse m'"
    if "\<And>k. rel_option (same_but_secrets k) (fmlookup m k) (fmlookup m' k)" for m m'
  proof (rule fmap_ext)
    fix k
    show "fmlookup (fmmap_keys sanitizeForResponse m) k = fmlookup (fmmap_keys sanitizeForResponse m') k"
      using that [of k] by (cases "fmlookup m k"; cases "fmlookup m' k") (auto simp: sanitize_same)
  qed
  with assms(2) show "fst (run_state (Load_settings E) s) = fst (run_state (Load_settings E) s')"
    by (cases "settings_raw E (sv_db s ''setting'')"; cases "settings_raw E (sv_db s' ''setting'')")
      (auto simp: Load_settings_def loadRaw_def)
qed

section \<open>What a save stores\<close>

lemma SettingGet_updated:
  assumes "bolt_bucket db" and "SettingUpdate db r b = (Inr (), b')"
  shows "SettingGet db (st_ID r) b' = Inr (Some r)"
  using bolt_bucket.Dao_replace_recs(1) [OF assms(1), of "st_ID r" r b b'] assms(2)
  by (auto simp: SettingUpdate_def SettingGet_def Dao_get_opt_def recs_def fun_eq_iff split: sum.splits dao_error.splits dest!: spec [of _ "st_ID r"])

lemma refreshInMemory_db [simp]: "sv_db (snd (run_state (refreshInMemory E) s)) = sv_db s"
  by (auto simp: refreshInMemory_def loadRaw_def SetLiveSettings_def or_fail_def split: sum.splits)

definition saved_value :: "('b, 'raw, 'w) server_env \<Rightarrow> string \<Rightarrow> go_value \<Rightarrow> ('b, 'w) server \<Rightarrow> go_value" where
  "saved_value E key payload s =
     options_to_store E key payload (setting_raw E key (sv_db s ''setting'')) (sv_db s ''registry'')"

lemma Save_ok:
  assumes "run_state (Save_setting E key payload user) s = (Inr (), s')" and "bolt_bucket (dao_setting (sx_dao E))"
  obtains buf st where "validateSettingOptions key (saved_value E key payload s) = Inr ()"
    "sx_Marshal E (saved_value E key payload s) = Inr buf"
    "SettingGet (dao_setting (sx_dao E)) key (sv_db s' ''setting'') = Inr (Some st)" "st_Options st = buf"
proof -
  let ?v = "saved_value E key payload s"
  let ?st = "\<lambda>buf. \<lparr>st_ID = key, st_Options = buf, st_UpdatedAt = fst (sx_now E (sv_world s)), st_UpdatedBy = newOperator user\<rparr>"
  have valid: "validateSettingOptions key ?v = Inr ()"
    using assms(1) by (cases "validateSettingOptions key ?v") (auto simp: Save_setting_def saved_value_def findRaw_def)
  obtain buf where buf: "sx_Marshal E ?v = Inr buf"
    using assms(1) valid by (cases "sx_Marshal E ?v") (auto simp: Save_setting_def saved_value_def findRaw_def run_external)
  obtain r b where w: "SettingUpdate (dao_setting (sx_dao E)) (?st buf) (sv_db s ''setting'') = (r, b)" by fastforce
  have "r = Inr () \<and> sv_db s' ''setting'' = b"
    using assms(1) valid buf w
    by (cases r) (auto simp: Save_setting_def saved_value_def findRaw_def run_external run_db_write case_prod_unfold)
  with w SettingGet_updated [OF assms(2), of "?st buf"] show ?thesis using valid buf that by auto
qed

text \<open>A stored object is read back, up to its numbers.\<close>

lemma stored_object:
  assumes "json_codec E" and "sx_Marshal E (Json (JObject m)) = Inr (st_Options st)" and "well_encoded (JObject m)"
    and "SettingGet (dao_setting (sx_dao E)) key b = Inr (Some st)"
  obtains m' where "setting_raw E key b = Inr (JObject m')" "fmmap blur m' = fmmap blur m"
proof -
  obtain d where "sx_Decode E (st_Options st) = Inr d" "blur d = blur (JObject m)"
    using assms(1-3) unfolding json_codec_def by blast
  with assms(4) that show ?thesis unfolding blur_object by (auto simp: setting_raw_def)
qed

lemma normalize_steps:
  assumes "k \<in> {''password'', ''registry_id''}"
  shows "string_at (fmdrop ''upstreams'' m) k = string_at m k" "string_at (default_prefix m) k = string_at m k"
    "string_at (default_mode m) k = string_at m k" "string_at (default_port m) k = string_at m k"
    "string_at (normalize_ca E m) k = string_at m k"
    "string_at (fold trim_field [''hostname'', ''username'', ''rewrite_mode''] m) k = string_at m k"
  using assms by (auto simp: default_prefix_def default_mode_def default_port_def normalize_ca_def trim_field_def Let_def)

lemma normalize_object:
  obtains m' where "normalizeRegistryCache E (Json (JObject m)) = Json (JObject m')"
    "string_at m' ''password'' = string_at m ''password''" "string_at m' ''registry_id'' = string_at m ''registry_id''"
proof (rule that)
  show "normalizeRegistryCache E (Json (JObject m)) = Json (JObject (fmdrop ''upstreams'' (default_prefix (default_mode
      (default_port (normalize_ca E (fold trim_field [''hostname'', ''username'', ''rewrite_mode''] m)))))))"
    by (simp add: normalizeRegistryCache_def)
qed (simp_all only: normalize_steps insert_iff simp_thms)

lemma lookup_preserve: "k \<notin> set fs \<Longrightarrow> fmlookup (fold (preserve_field old) fs m) k = fmlookup m k"
  by (induction fs arbitrary: m) (auto simp: preserve_field_def)

text \<open>The secrets that a form keeps.\<close>

definition kept_secret :: "(string, json) fmap \<Rightarrow> server_error + json \<Rightarrow> string \<Rightarrow> string" where
  "kept_secret m existing f =
     (case existing of
        Inr (JObject old) \<Rightarrow> if (string_at m f = [] \<or> string_at m f = SettingSecretMask) \<and> is_string_at old f
                         then string_at old f else string_at m f
      | _ \<Rightarrow> string_at m f)"

lemma merge_object:
  assumes "secretFieldsByID key = Some secrets"
  obtains x where "(case existing of Inl _ \<Rightarrow> Json (JObject m) | Inr JNull \<Rightarrow> Json (JObject m)
      | Inr old \<Rightarrow> preserveSecretsFromExisting key (Json (JObject m)) old) = Json (JObject x)"
    "\<And>f. f \<in> set secrets \<Longrightarrow> string_at x f = kept_secret m existing f"
    "\<And>k. k \<notin> set secrets \<Longrightarrow> fmlookup x k = fmlookup m k"
proof (cases "\<exists>old. existing = Inr (JObject old)")
  case True
  then obtain old where "existing = Inr (JObject old)" by blast
  with assms show ?thesis
    by (intro that [of "fold (preserve_field old) secrets m"])
      (simp_all add: preserveSecretsFromExisting_def string_at_preserve lookup_preserve kept_secret_def)
next
  case False
  with assms show ?thesis
    by (intro that [of m]) (auto simp: preserveSecretsFromExisting_def kept_secret_def split: sum.splits json.splits)
qed

text \<open>What is stored for a group whose payload is an object: no link to a registry replaces its fields.\<close>

lemma options_object:
  assumes "decode_payload E payload = Json (JObject m)"
    and "key = ''registry_cache'' \<Longrightarrow> TrimSpace (string_at m ''registry_id'') = []"
    and "secretFieldsByID key = Some secrets" and "f \<in> set secrets"
  obtains m' where "options_to_store E key payload existing registries = Json (JObject m')"
    "string_at m' f = kept_secret m existing f"
proof -
  obtain x where x: "(case existing of Inl _ \<Rightarrow> Json (JObject m) | Inr JNull \<Rightarrow> Json (JObject m)
      | Inr old \<Rightarrow> preserveSecretsFromExisting key (Json (JObject m)) old) = Json (JObject x)"
    "string_at x f = kept_secret m existing f" "\<And>k. k \<notin> set secrets \<Longrightarrow> fmlookup x k = fmlookup m k"
    using merge_object [OF assms(3)] assms(4) by metis
  have store: "options_to_store E key payload existing registries =
      (let v = normalizeSettingOptions E key (Json (JObject x))
       in if key = ''registry_cache'' then overlayRegistryCacheFromRegistry E registries v else v)"
    unfolding options_to_store_def Let_def assms(1) x(1) ..
  show ?thesis
  proof (cases "key = ''registry_cache''")
    case False
    with x(2) store show ?thesis by (intro that [of x]) (simp_all add: normalizeSettingOptions_def)
  next
    case True
    with assms(3,4) have f: "f = ''password''" "secrets = [''password'']" by (auto simp: secretFieldsByID_def)
    obtain m' where m': "normalizeRegistryCache E (Json (JObject x)) = Json (JObject m')"
      "string_at m' ''password'' = string_at x ''password''" "string_at m' ''registry_id'' = string_at x ''registry_id''"
      using normalize_object [of E x] by blast
    have "string_at x ''registry_id'' = string_at m ''registry_id''" using x(3) f(2) by (simp add: string_at_def)
    with m' assms(2) True have "options_to_store E key payload existing registries = Json (JObject m')"
      unfolding store by (simp add: normalizeSettingOptions_def overlayRegistryCacheFromRegistry_def)
    moreover have "string_at m' f = kept_secret m existing f" using m'(2) x(2) f(1) by simp
    ultimately show ?thesis by (rule that)
  qed
qed

text \<open>The theorem below, as a rule.\<close>

lemma save_keeps:
  assumes "bolt_bucket (dao_setting (sx_dao E))" "json_codec E"
    and "decode_payload E payload = Json (JObject m)" "setting_raw E key (sv_db s ''setting'') = Inr (JObject old)"
    and "secretFieldsByID key = Some secrets" "f \<in> set secrets"
    and "key = ''registry_cache'' \<Longrightarrow> TrimSpace (string_at m ''registry_id'') = []"
    and "\<And>v. saved_value E key payload s = Json v \<Longrightarrow> well_encoded v"
    and "run_state (Save_setting E key payload user) s = (Inr (), s')"
  shows "\<exists>stored. setting_raw E key (sv_db s' ''setting'') = Inr (JObject stored) \<and>
    string_at stored f = (if (string_at m f = [] \<or> string_at m f = SettingSecretMask) \<and> is_string_at old f
                          then string_at old f else string_at m f)"
proof -
  obtain m' where m': "saved_value E key payload s = Json (JObject m')"
    "string_at m' f = (if (string_at m f = [] \<or> string_at m f = SettingSecretMask) \<and> is_string_at old f
                       then string_at old f else string_at m f)"
    using options_object [OF assms(3,7,5,6), of "setting_raw E key (sv_db s ''setting'')" "sv_db s ''registry''"] assms(4)
    by (auto simp: saved_value_def kept_secret_def)
  obtain st where st: "sx_Marshal E (Json (JObject m')) = Inr (st_Options st)"
    "SettingGet (dao_setting (sx_dao E)) key (sv_db s' ''setting'') = Inr (Some st)"
    using Save_ok [OF assms(9,1)] m'(1) by metis
  from stored_object [OF assms(2) st(1) assms(8) [OF m'(1)] st(2)] m'(2) blurred_fields(1)
  show ?thesis by metis
qed

text \<open>C22: A saved form keeps the secrets that it did not change, when it is an object saved over a group that can be
  read and, for the registry cache, not linked to a registry: after a successful save a secret that came
  back empty or as the mask has its old value, and any other has the value of the form.  A link replaces
  the password by that of the registry, and over a group that cannot be read the mask itself is stored:
  \<open>mask_stored_as_secret\<close>.\<close>

theorem Save_keeps_secrets:
  assumes "bolt_bucket (dao_setting (sx_dao E))" "json_codec E"
    and "decode_payload E payload = Json (JObject m)" "setting_raw E key (sv_db s ''setting'') = Inr (JObject old)"
    and "secretFieldsByID key = Some secrets" "f \<in> set secrets"
    and "key = ''registry_cache'' \<Longrightarrow> TrimSpace (string_at m ''registry_id'') = []"
    and "\<And>v. saved_value E key payload s = Json v \<Longrightarrow> well_encoded v"
    and "run_state (Save_setting E key payload user) s = (Inr (), s')"
  shows "\<exists>stored. setting_raw E key (sv_db s' ''setting'') = Inr (JObject stored) \<and>
    string_at stored f = (if (string_at m f = [] \<or> string_at m f = SettingSecretMask) \<and> is_string_at old f
                          then string_at old f else string_at m f)"
  using save_keeps [OF assms(1-6) _ _ assms(9)] assms(7,8) by blast

text \<open>When the old group cannot be read, the mask that the form shows in place of a secret is stored
  as the secret.\<close>

theorem mask_stored_as_secret:
  assumes "bolt_bucket (dao_setting (sx_dao E))" "json_codec E"
    and "decode_payload E payload = Json (JObject m)" "setting_raw E key (sv_db s ''setting'') = Inl e"
    and "secretFieldsByID key = Some secrets" "f \<in> set secrets" "string_at m f = SettingSecretMask"
    and "key = ''registry_cache'' \<Longrightarrow> TrimSpace (string_at m ''registry_id'') = []"
    and "\<And>v. saved_value E key payload s = Json v \<Longrightarrow> well_encoded v"
    and "run_state (Save_setting E key payload user) s = (Inr (), s')"
  shows "\<exists>stored. setting_raw E key (sv_db s' ''setting'') = Inr (JObject stored) \<and> string_at stored f = SettingSecretMask"
proof -
  obtain m' where m': "saved_value E key payload s = Json (JObject m')" "string_at m' f = SettingSecretMask"
    using options_object [OF assms(3,8,5,6), of "setting_raw E key (sv_db s ''setting'')" "sv_db s ''registry''"] assms(4,7)
    by (auto simp: saved_value_def kept_secret_def)
  obtain st where st: "sx_Marshal E (Json (JObject m')) = Inr (st_Options st)"
    "SettingGet (dao_setting (sx_dao E)) key (sv_db s' ''setting'') = Inr (Some st)"
    using Save_ok [OF assms(10,1)] m'(1) by metis
  from stored_object [OF assms(2) st(1) assms(9) [OF m'(1)] st(2)] m'(2) blurred_fields(1)
  show ?thesis by metis
qed

section \<open>The registry cache\<close>

text \<open>A registry cache received from another server never replaces the local password.\<close>

theorem received_cache_keeps_password:
  assumes "bolt_bucket (dao_setting (sx_dao E))" "json_codec E"
    and "setting_raw E ''registry_cache'' (sv_db s ''setting'') = Inr (JObject old)" "is_string_at old ''password''"
    and "TrimSpace (string_at payload ''registry_id'') = []" "well_encoded (JObject (fmdrop ''password'' payload))"
    and "\<And>raw v. saved_value E ''registry_cache'' (RawMessage raw) s = Json v \<Longrightarrow> well_encoded v"
    and "run_state (ApplyReceivedRegistryCache E (Some payload) user) s = (Inr (), s')"
  shows "\<exists>stored. setting_raw E ''registry_cache'' (sv_db s' ''setting'') = Inr (JObject stored) \<and>
    string_at stored ''password'' = string_at old ''password''"
proof -
  let ?m = "fmdrop ''password'' payload"
  obtain raw where raw: "sx_Marshal E (Json (JObject ?m)) = Inr raw"
    and save: "run_state (Save_setting E ''registry_cache'' (RawMessage raw) user) s = (Inr (), s')"
    using assms(8) by (auto simp: ApplyReceivedRegistryCache_def split: sum.splits)
  obtain d where d: "raw \<noteq> []" "sx_Unmarshal E raw = Inr d" "blur d = blur (JObject ?m)"
    using assms(2,6) raw unfolding json_codec_def by blast
  then obtain m where m: "d = JObject m" "fmmap blur m = fmmap blur ?m" unfolding blur_object by blast
  have "decode_payload E (RawMessage raw) = Json (JObject m)" using d m by (simp add: decode_payload_def)
  moreover have "string_at m ''password'' = []" "string_at m ''registry_id'' = string_at payload ''registry_id''"
    by (simp_all add: blurred_fields(1) [OF m(2)])
  ultimately show ?thesis
    using save_keeps [OF assms(1,2) _ assms(3) _ _ _ assms(7) save, of m "[''password'']" "''password''"] assms(4,5)
    by (simp add: secretFieldsByID_def)
qed

lemma overlay_object:
  obtains v where "overlayRegistryCacheFromRegistry E registries (Json (JObject m)) = Json (JObject v)"
    "fmlookup v ''upstreams'' = fmlookup m ''upstreams''" "string_at v ''rewrite_mode'' = string_at m ''rewrite_mode''"
    "bool_at v ''enabled'' = bool_at m ''enabled''"
    "\<forall>r. TrimSpace (string_at m ''registry_id'') \<noteq> [] \<longrightarrow>
       RegistryGet (dao_registry (sx_dao E)) (TrimSpace (string_at m ''registry_id'')) registries = Inr (Some r) \<longrightarrow>
       string_at v ''username'' = rg_Username r \<and> string_at v ''ca_cert_pem'' = rg_CACertPEM r \<and>
       (rg_Password r \<noteq> [] \<longrightarrow> string_at v ''password'' = rg_Password r)"
proof -
  let ?key = "TrimSpace (string_at m ''registry_id'')"
  consider "?key = []" | r where "?key \<noteq> []" "RegistryGet (dao_registry (sx_dao E)) ?key registries = Inr (Some r)"
    | "?key \<noteq> []" "\<And>r. RegistryGet (dao_registry (sx_dao E)) ?key registries \<noteq> Inr (Some r)" by blast
  then show ?thesis
  proof cases
    case 1
    then show ?thesis by (intro that [of m]) (simp_all add: overlayRegistryCacheFromRegistry_def)
  next
    case 2
    then show ?thesis
      by (intro that [of "overlay_fields E r m"])
        (auto simp: overlayRegistryCacheFromRegistry_def overlay_fields_def Let_def split: prod.splits)
  next
    case 3
    then show ?thesis
      by (intro that [of "fmupd ''registry_id'' (JString []) m"])
        (auto simp: overlayRegistryCacheFromRegistry_def split: sum.splits option.splits)
  qed
qed

lemma normalized_object:
  obtains v where "normalizeRegistryCache E (Json (JObject m)) = Json (JObject v)"
    "fmlookup v ''upstreams'' = None" "string_at v ''rewrite_mode'' \<noteq> []"
    "bool_at v ''enabled'' = bool_at m ''enabled''" "string_at v ''registry_id'' = string_at m ''registry_id''"
proof (rule that)
  let ?t = "fold trim_field [''hostname'', ''username'', ''rewrite_mode''] m"
  show "normalizeRegistryCache E (Json (JObject m)) = Json (JObject (fmdrop ''upstreams'' (default_prefix (default_mode
      (default_port (normalize_ca E ?t))))))"
    by (simp add: normalizeRegistryCache_def)
  have enabled: "bool_at (default_prefix x) ''enabled'' = bool_at x ''enabled''" "bool_at (default_mode x) ''enabled'' = bool_at x ''enabled''"
    "bool_at (default_port x) ''enabled'' = bool_at x ''enabled''" "bool_at (normalize_ca E x) ''enabled'' = bool_at x ''enabled''"
    "bool_at (trim_field k x) ''enabled'' = bool_at x ''enabled''" for x k
    by (auto simp: default_prefix_def default_mode_def default_port_def normalize_ca_def trim_field_def Let_def bool_at_def is_string_at_def
        split: option.splits json.splits)
  show "bool_at (fmdrop ''upstreams'' (default_prefix (default_mode (default_port (normalize_ca E ?t))))) ''enabled'' = bool_at m ''enabled''"
    by (simp add: enabled)
  have "string_at (default_mode x) ''rewrite_mode'' \<noteq> []" for x by (simp add: default_mode_def)
  moreover have "string_at (default_prefix x) ''rewrite_mode'' = string_at x ''rewrite_mode''" for x by (simp add: default_prefix_def)
  ultimately show "string_at (fmdrop ''upstreams'' (default_prefix (default_mode (default_port (normalize_ca E ?t))))) ''rewrite_mode'' \<noteq> []"
    by simp
qed (simp_all only: normalize_steps insert_iff simp_thms fmlookup_drop if_True if_False)

text \<open>C23: What is stored of a payload for the registry cache that is an object has a rewrite mode and no upstream
  table; enabled, it has a host, one of the three modes and a port whose integer part is from 1 to 65535,
  for the code drops the fraction before it checks; linked to a registry, it has that registry's user and
  certificate, and its password unless that is empty.  A payload of another form is stored unchecked:
  \<open>unchecked_cache_stored\<close>.\<close>

theorem saved_cache_valid:
  assumes "bolt_bucket (dao_setting (sx_dao E))" "decode_payload E payload = Json (JObject m)"
    and "run_state (Save_setting E ''registry_cache'' payload user) s = (Inr (), s')"
  shows "\<exists>v st. SettingGet (dao_setting (sx_dao E)) ''registry_cache'' (sv_db s' ''setting'') = Inr (Some st) \<and>
    sx_Marshal E (Json (JObject v)) = Inr (st_Options st) \<and> fmlookup v ''upstreams'' = None \<and>
    string_at v ''rewrite_mode'' \<noteq> [] \<and> bool_at v ''enabled'' = bool_at m ''enabled'' \<and>
    (bool_at m ''enabled'' \<longrightarrow> string_at v ''hostname'' \<noteq> [] \<and> string_at v ''rewrite_mode'' \<in> set validRewriteModes \<and>
       1 \<le> int_of_float (float_at v ''port'') \<and> int_of_float (float_at v ''port'') \<le> 65535) \<and>
    (\<forall>r. TrimSpace (string_at m ''registry_id'') \<noteq> [] \<longrightarrow>
       RegistryGet (dao_registry (sx_dao E)) (TrimSpace (string_at m ''registry_id'')) (sv_db s ''registry'') = Inr (Some r) \<longrightarrow>
       string_at v ''username'' = rg_Username r \<and> string_at v ''ca_cert_pem'' = rg_CACertPEM r \<and>
       (rg_Password r \<noteq> [] \<longrightarrow> string_at v ''password'' = rg_Password r))"
proof -
  let ?old = "setting_raw E ''registry_cache'' (sv_db s ''setting'')"
  have sec: "secretFieldsByID ''registry_cache'' = Some [''password'']" by (simp add: secretFieldsByID_def)
  obtain x where x: "(case ?old of Inl _ \<Rightarrow> Json (JObject m) | Inr JNull \<Rightarrow> Json (JObject m)
      | Inr old \<Rightarrow> preserveSecretsFromExisting ''registry_cache'' (Json (JObject m)) old) = Json (JObject x)"
    "\<And>k. k \<notin> set [''password''] \<Longrightarrow> fmlookup x k = fmlookup m k"
    by (rule merge_object [OF sec, of m ?old]) (rule that)
  then have x': "bool_at x ''enabled'' = bool_at m ''enabled''" "string_at x ''registry_id'' = string_at m ''registry_id''"
    by (simp_all add: bool_at_def string_at_def)
  obtain y where y: "normalizeRegistryCache E (Json (JObject x)) = Json (JObject y)"
    "fmlookup y ''upstreams'' = None" "string_at y ''rewrite_mode'' \<noteq> []"
    "bool_at y ''enabled'' = bool_at x ''enabled''" "string_at y ''registry_id'' = string_at x ''registry_id''"
    by (rule normalized_object)
  obtain v where v: "overlayRegistryCacheFromRegistry E (sv_db s ''registry'') (Json (JObject y)) = Json (JObject v)"
    "fmlookup v ''upstreams'' = fmlookup y ''upstreams''" "string_at v ''rewrite_mode'' = string_at y ''rewrite_mode''"
    "bool_at v ''enabled'' = bool_at y ''enabled''"
    "\<forall>r. TrimSpace (string_at y ''registry_id'') \<noteq> [] \<longrightarrow>
       RegistryGet (dao_registry (sx_dao E)) (TrimSpace (string_at y ''registry_id'')) (sv_db s ''registry'') = Inr (Some r) \<longrightarrow>
       string_at v ''username'' = rg_Username r \<and> string_at v ''ca_cert_pem'' = rg_CACertPEM r \<and>
       (rg_Password r \<noteq> [] \<longrightarrow> string_at v ''password'' = rg_Password r)"
    using overlay_object [of E "sv_db s ''registry''" y] by metis
  have saved: "saved_value E ''registry_cache'' payload s = Json (JObject v)"
    unfolding saved_value_def options_to_store_def Let_def assms(2) x(1) normalizeSettingOptions_def
    by (simp add: y(1) v(1))
  obtain st where st: "validateRegistryCache (Json (JObject v)) = Inr ()" "sx_Marshal E (Json (JObject v)) = Inr (st_Options st)"
    "SettingGet (dao_setting (sx_dao E)) ''registry_cache'' (sv_db s' ''setting'') = Inr (Some st)"
    using Save_ok [OF assms(3,1)] unfolding saved validateSettingOptions_def by auto
  have "bool_at v ''enabled'' \<longrightarrow> string_at v ''hostname'' \<noteq> [] \<and> string_at v ''rewrite_mode'' \<in> set validRewriteModes \<and>
       1 \<le> int_of_float (float_at v ''port'') \<and> int_of_float (float_at v ''port'') \<le> 65535"
    using st(1) by (auto simp: validateRegistryCache_def Let_def split: if_splits)
  with st(2,3) v(2-5) y(2-5) x' show ?thesis by (intro exI [of _ v] exI [of _ st]) auto
qed

text \<open>A payload that is no object is neither merged, completed nor checked.\<close>

theorem unchecked_cache_stored:
  assumes "bolt_bucket (dao_setting (sx_dao E))" "decode_payload E payload = Json v" "\<And>m. v \<noteq> JObject m"
    and "run_state (Save_setting E ''registry_cache'' payload user) s = (Inr (), s')"
  shows "\<exists>st. SettingGet (dao_setting (sx_dao E)) ''registry_cache'' (sv_db s' ''setting'') = Inr (Some st) \<and>
    sx_Marshal E (Json v) = Inr (st_Options st)"
proof -
  have "preserveSecretsFromExisting ''registry_cache'' (Json v) old = Json v" for old
    using assms(3) by (auto simp: preserveSecretsFromExisting_def secretFieldsByID_def split: json.splits)
  then have "saved_value E ''registry_cache'' payload s = Json v"
    unfolding saved_value_def options_to_store_def Let_def assms(2) normalizeSettingOptions_def
    using assms(3) by (auto simp: normalizeRegistryCache_def overlayRegistryCacheFromRegistry_def split: sum.splits json.splits)
  with Save_ok [OF assms(4,1)] show ?thesis by metis
qed

end
