(* ===== verification/SettingsWitnesses.thy ===== *)
theory SettingsWitnesses
  imports SettingsTheorems BackupWitnesses
begin

text \<open>
  The theorems on the settings, applied to a small server: its JSON library knows one new text and one
  old text.
\<close>

definition no_url :: url where
  "no_url = \<lparr>url_Scheme = [], url_Host = [], url_Hostname = [], url_Port = []\<rparr>"

definition no_extract :: addon_extract where
  "no_extract = \<lparr>ax_Traefik = None, ax_Sablier = None, ax_Watchtower = None, ax_Backup = None, ax_RegistryCache = None\<rparr>"

definition demo_versions :: "(raw_record bucket, raw_record, compose_stack_version) bolt" where
  "demo_versions =
     \<lparr>Put = (\<lambda>k x b. Inl ''no versions''), Get = (\<lambda>k b. None), Delete = (\<lambda>k b. Inr b), Entries = (\<lambda>b. []),
      encode = (\<lambda>v. Inl ''no versions''), decode = (\<lambda>x. Inl ''no versions''), decode_into = (\<lambda>x u. Inl ''no versions'')\<rparr>"

definition web_env :: "json \<Rightarrow> json \<Rightarrow> go_error + json \<Rightarrow> (raw_record bucket, raw_record, unit) server_env" where
  "web_env sent new_value old_value =
     \<lparr>sx_dao = demo_dao, sx_versions = demo_versions, sx_now = (\<lambda>w. (7, w)), sx_createId = (\<lambda>w. (''i1'', w)),
      sx_newObjectID = (\<lambda>w. (''e1'', w)),
      sx_Unmarshal = (\<lambda>t. if t = ''sent'' then Inr sent else if t = ''new'' then Inr new_value else Inl ''syntax''),
      sx_Decode = (\<lambda>t. if t = ''sent'' then Inr sent else if t = ''new'' then Inr new_value else if t = ''old'' then old_value else Inl ''syntax''),
      sx_Marshal = (\<lambda>v. if v = Json sent then Inr ''sent'' else if v = Json new_value then Inr ''new'' else Inl ''unsupported''),
      sx_setting_of = (\<lambda>v. Inl ''no settings''), sx_MarshalCache = (\<lambda>c. Inl ''unsupported''), sx_pem = (\<lambda>p. None),
      sx_x509 = (\<lambda>b. Inl ''malformed''), sx_sha256 = id, sx_url = (\<lambda>u. Inr no_url),
      sx_decodeExtract = (\<lambda>t. no_extract), sx_encodeExtract = (\<lambda>x. Inl ''unsupported''),
      sx_encodeAuth = (\<lambda>a u p. Inr (a @ u @ p))\<rparr>"

lemma web_env_sels [simp]:
  "sx_dao (web_env j n d) = demo_dao" "sx_now (web_env j n d) w = (7, w)" "sx_newObjectID (web_env j n d) w = (''e1'', w)"
  "sx_Unmarshal (web_env j n d) t = (if t = ''sent'' then Inr j else if t = ''new'' then Inr n else Inl ''syntax'')"
  "sx_Decode (web_env j n d) t = (if t = ''sent'' then Inr j else if t = ''new'' then Inr n else if t = ''old'' then d else Inl ''syntax'')"
  "sx_Marshal (web_env j n d) v = (if v = Json j then Inr ''sent'' else if v = Json n then Inr ''new'' else Inl ''unsupported'')"
  "sx_pem (web_env j n d) p = None"
  by (simp_all add: web_env_def)

lemma web_codec: "json_codec (web_env j n d)"
  by (auto simp: json_codec_def)

lemma web_bolt: "bolt_bucket (dao_setting (sx_dao (web_env j n d)))"
  using demo_dao_healthy by (simp add: healthy_dao_def healthy_bucket_def)

text \<open>One old group in the database.\<close>

definition web_server :: "string \<Rightarrow> (raw_record bucket, unit) server" where
  "web_server key =
     \<lparr>sv_db = (\<lambda>_. empty_bucket)(''setting'' := bucket_put key
        (RawSetting \<lparr>st_ID = key, st_Options = ''old'', st_UpdatedAt = 0, st_UpdatedBy = no_operator\<rparr>) empty_bucket),
      sv_live = None, sv_clients = Map.empty, sv_log = [], sv_world = ()\<rparr>"

lemma web_raw [simp]: "setting_raw (web_env j n d) key (sv_db (web_server key) ''setting'') = map_sum SvError id d"
  by (simp add: setting_raw_def SettingGet_def Dao_get_opt_def Dao_get_def demo_dao_def web_server_def)

lemma web_registries [simp]: "sv_db (web_server key) ''registry'' = empty_bucket" "sv_live (web_server key) = None"
  by (simp_all add: web_server_def)

lemma demo_dao_setting: "dao_setting demo_dao = typed_bolt RawSetting (\<lambda>x. case x of RawSetting v \<Rightarrow> Some v | _ \<Rightarrow> None)"
  by (simp add: demo_dao_def)

lemma web_save:
  assumes "saved_value (web_env j n d) key payload (web_server key) = Json n" "validateSettingOptions key (Json n) = Inr ()"
  shows "\<exists>s'. run_state (Save_setting (web_env j n d) key payload None) (web_server key) = (Inr (), s')"
  using assms
  by (cases "n = j") (simp_all add: Save_setting_def findRaw_def saved_value_def run_external run_db_write SettingUpdate_def Dao_replace_def
      db_update_def demo_dao_setting refreshInMemory_def web_server_def)

definition token_form :: "string \<Rightarrow> json" where
  "token_form secret = JObject (fmap_of_list [(''token'', JString secret)])"

lemma token_form_at [simp]:
  "string_at (fmap_of_list [(''token'', JString x)]) ''token'' = x"
  "is_string_at (fmap_of_list [(''token'', JString x)]) ''token'' = True"
  by (simp_all add: string_at_def is_string_at_def)

lemma vault_secrets: "secretFieldsByID ''vault'' = Some [''token'', ''secret_id'']"
  by (simp add: secretFieldsByID_def)

lemma utf8_mask [simp]: "utf8_valid SettingSecretMask" "utf8_valid ''hvs.x''" "utf8_valid ''token''"
  by code_simp+

lemma utf8_off: "utf8_valid ''enabled''" "utf8_valid ''password''" "utf8_valid ''rewrite_mode''" "utf8_valid ''use_upstream_prefix''"
  "utf8_valid ''off''" "utf8_valid ''s3cret''" "utf8_valid []"
  by code_simp+

theorem Save_keeps_secrets_witness:
  "\<exists>s' stored. run_state (Save_setting (web_env JNull (token_form ''hvs.x'') (Inr (token_form ''hvs.x''))) ''vault'' (Json (token_form SettingSecretMask)) None)
      (web_server ''vault'') = (Inr (), s') \<and>
    setting_raw (web_env JNull (token_form ''hvs.x'') (Inr (token_form ''hvs.x''))) ''vault'' (sv_db s' ''setting'') = Inr (JObject stored) \<and>
    string_at stored ''token'' = ''hvs.x''"
proof -
  let ?E = "web_env JNull (token_form ''hvs.x'') (Inr (token_form ''hvs.x''))" and ?p = "Json (token_form SettingSecretMask)"
  have "fold (preserve_field (fmap_of_list [(''token'', JString ''hvs.x'')])) [''token'', ''secret_id''] (fmap_of_list [(''token'', JString SettingSecretMask)])
      = fmap_of_list [(''token'', JString ''hvs.x'')]"
    by (rule fmap_ext) (simp add: preserve_field_def is_string_at_def string_at_def SettingSecretMask_def)
  then have saved: "saved_value ?E ''vault'' ?p (web_server ''vault'') = Json (token_form ''hvs.x'')"
    by (simp add: saved_value_def options_to_store_def decode_payload_def token_form_def preserveSecretsFromExisting_def
        vault_secrets normalizeSettingOptions_def)
  then obtain s' where s': "run_state (Save_setting ?E ''vault'' ?p None) (web_server ''vault'') = (Inr (), s')"
    using web_save [OF saved] by (auto simp: validateSettingOptions_def)
  have enc: "well_encoded v" if "saved_value ?E ''vault'' ?p (web_server ''vault'') = Json v" for v
    using that saved by (auto simp: token_form_def fmpred_iff split: if_splits)
  have "decode_payload ?E ?p = Json (JObject (fmap_of_list [(''token'', JString SettingSecretMask)]))"
    "setting_raw ?E ''vault'' (sv_db (web_server ''vault'') ''setting'') = Inr (JObject (fmap_of_list [(''token'', JString ''hvs.x'')]))"
    by (simp_all add: decode_payload_def token_form_def)
  from Save_keeps_secrets [OF web_bolt web_codec this vault_secrets _ _ enc s', of "''token''"] s'
  show ?thesis by auto
qed

theorem mask_stored_as_secret_witness:
  "\<exists>s' stored. run_state (Save_setting (web_env JNull (token_form SettingSecretMask) (Inl ''unexpected EOF'')) ''vault''
      (Json (token_form SettingSecretMask)) None) (web_server ''vault'') = (Inr (), s') \<and>
    setting_raw (web_env JNull (token_form SettingSecretMask) (Inl ''unexpected EOF'')) ''vault'' (sv_db s' ''setting'') = Inr (JObject stored) \<and>
    string_at stored ''token'' = SettingSecretMask"
proof -
  let ?E = "web_env JNull (token_form SettingSecretMask) (Inl ''unexpected EOF'')" and ?p = "Json (token_form SettingSecretMask)"
  have saved: "saved_value ?E ''vault'' ?p (web_server ''vault'') = Json (token_form SettingSecretMask)"
    by (simp add: saved_value_def options_to_store_def decode_payload_def token_form_def normalizeSettingOptions_def)
  then obtain s' where s': "run_state (Save_setting ?E ''vault'' ?p None) (web_server ''vault'') = (Inr (), s')"
    using web_save [OF saved] by (auto simp: validateSettingOptions_def)
  have enc: "well_encoded v" if "saved_value ?E ''vault'' ?p (web_server ''vault'') = Json v" for v
    using that saved by (auto simp: token_form_def fmpred_iff split: if_splits)
  have "decode_payload ?E ?p = Json (JObject (fmap_of_list [(''token'', JString SettingSecretMask)]))"
    "setting_raw ?E ''vault'' (sv_db (web_server ''vault'') ''setting'') = Inl (SvError ''unexpected EOF'')"
    by (simp_all add: decode_payload_def token_form_def)
  from mask_stored_as_secret [OF web_bolt web_codec this vault_secrets _ _ _ enc s', of "''token''"] s'
  show ?thesis by auto
qed

text \<open>A cache that is switched off, received from another server.\<close>

definition off_form :: "string \<Rightarrow> (string, json) fmap" where
  "off_form secret = fmap_of_list
     [(''enabled'', JBool False), (''password'', JString secret), (''rewrite_mode'', JString ''off''), (''use_upstream_prefix'', JBool True)]"

lemma off_form_lookup: "fmlookup (off_form x) k =
    (if k = ''enabled'' then Some (JBool False) else if k = ''password'' then Some (JString x)
     else if k = ''rewrite_mode'' then Some (JString ''off'') else if k = ''use_upstream_prefix'' then Some (JBool True) else None)"
  by (simp add: off_form_def)

lemma off_form_at [simp]:
  "string_at (off_form x) ''password'' = x" "is_string_at (off_form x) ''password''" "string_at (off_form x) ''rewrite_mode'' = ''off''"
  "bool_at (off_form x) ''enabled'' = False" "string_at (off_form x) ''registry_id'' = []" "is_string_at (off_form x) ''hostname'' = False"
  "is_string_at (off_form x) ''username'' = False" "is_string_at (off_form x) ''ca_cert_pem'' = False"
  "is_string_at (off_form x) ''rewrite_mode''" "fmlookup (off_form x) ''use_upstream_prefix'' = Some (JBool True)"
  by (simp_all add: string_at_def is_string_at_def bool_at_def off_form_lookup)

lemma TrimSpace_off: "TrimSpace ''off'' = ''off''" "TrimSpace [] = []"
  by code_simp+

lemma normalize_off: "normalizeRegistryCache E (Json (JObject (off_form x))) = Json (JObject (off_form x))"
proof -
  have "fold trim_field [''hostname'', ''username'', ''rewrite_mode''] (off_form x) = fmupd ''rewrite_mode'' (JString ''off'') (off_form x)"
    by (simp add: trim_field_def TrimSpace_off)
  also have "\<dots> = off_form x" by (rule fmap_ext) (simp add: off_form_lookup)
  finally have "normalizeRegistryCache E (Json (JObject (off_form x))) = Json (JObject (fmdrop ''upstreams'' (off_form x)))"
    by (simp add: normalizeRegistryCache_def normalize_ca_def default_port_def default_mode_def default_prefix_def)
  also have "fmdrop ''upstreams'' (off_form x) = off_form x" by (rule fmap_ext) (simp add: off_form_lookup)
  finally show ?thesis .
qed

lemma off_encoded: "utf8_valid x \<Longrightarrow> well_encoded (JObject (off_form x))"
  by (auto simp: fmpred_iff off_form_lookup utf8_off split: if_splits)

definition cache_env :: "(raw_record bucket, raw_record, unit) server_env" where
  "cache_env = web_env (JObject (fmdrop ''password'' (off_form ''x''))) (JObject (off_form ''s3cret'')) (Inr (JObject (off_form ''s3cret'')))"

lemma cache_laws: "bolt_bucket (dao_setting (sx_dao cache_env))" "json_codec cache_env"
  using web_bolt web_codec by (simp_all add: cache_env_def)

lemma cache_raw: "setting_raw cache_env ''registry_cache'' (sv_db (web_server ''registry_cache'') ''setting'') = Inr (JObject (off_form ''s3cret''))"
  by (simp add: cache_env_def)

lemma cache_saved:
  assumes "decode_payload cache_env payload = Json (JObject m)"
    and "m = fmdrop ''password'' (off_form ''x'') \<or> m = off_form SettingSecretMask \<or> m = off_form ''s3cret''"
  shows "saved_value cache_env ''registry_cache'' payload (web_server ''registry_cache'') = Json (JObject (off_form ''s3cret''))"
proof -
  have "fold (preserve_field (off_form ''s3cret'')) [''password''] m = off_form ''s3cret''"
  proof (rule fmap_ext)
    show "fmlookup (fold (preserve_field (off_form ''s3cret'')) [''password''] m) k = fmlookup (off_form ''s3cret'') k" for k
      using assms(2) by (elim disjE) (simp_all add: preserve_field_def off_form_lookup)
  qed
  then have "preserveSecretsFromExisting ''registry_cache'' (Json (JObject m)) (JObject (off_form ''s3cret'')) = Json (JObject (off_form ''s3cret''))"
    by (simp add: preserveSecretsFromExisting_def secretFieldsByID_def)
  then show ?thesis
    unfolding saved_value_def options_to_store_def Let_def assms(1) cache_raw normalizeSettingOptions_def
    by (simp add: normalize_off overlayRegistryCacheFromRegistry_def TrimSpace_off)
qed

lemma cache_save:
  assumes "decode_payload cache_env payload = Json (JObject m)" and "m = fmdrop ''password'' (off_form ''x'') \<or> m = off_form SettingSecretMask \<or> m = off_form ''s3cret''"
  shows "\<exists>s'. run_state (Save_setting cache_env ''registry_cache'' payload None) (web_server ''registry_cache'') = (Inr (), s')"
  using web_save [OF cache_saved [OF assms, unfolded cache_env_def]] 
  by (simp add: validateSettingOptions_def validateRegistryCache_def cache_env_def)

theorem received_cache_keeps_password_witness:
  "\<exists>s' stored. run_state (ApplyReceivedRegistryCache cache_env (Some (off_form ''x'')) None) (web_server ''registry_cache'') = (Inr (), s') \<and>
    setting_raw cache_env ''registry_cache'' (sv_db s' ''setting'') = Inr (JObject stored) \<and> string_at stored ''password'' = ''s3cret''"
proof -
  have sent: "decode_payload cache_env (RawMessage ''sent'') = Json (JObject (fmdrop ''password'' (off_form ''x'')))"
    by (simp add: decode_payload_def cache_env_def)
  then obtain s' where "run_state (Save_setting cache_env ''registry_cache'' (RawMessage ''sent'') None) (web_server ''registry_cache'') = (Inr (), s')"
    using cache_save by blast
  then have run: "run_state (ApplyReceivedRegistryCache cache_env (Some (off_form ''x'')) None) (web_server ''registry_cache'') = (Inr (), s')"
    by (simp add: ApplyReceivedRegistryCache_def) (simp add: cache_env_def)
  have enc: "well_encoded v" if saved: "saved_value cache_env ''registry_cache'' (RawMessage raw) (web_server ''registry_cache'') = Json v" for raw v
  proof (cases "raw = ''sent'' \<or> raw = ''new''")
    case True
    then have "decode_payload cache_env (RawMessage raw) = Json (JObject (fmdrop ''password'' (off_form ''x''))) \<or>
        decode_payload cache_env (RawMessage raw) = Json (JObject (off_form ''s3cret''))"
      by (auto simp: decode_payload_def cache_env_def)
    then have "saved_value cache_env ''registry_cache'' (RawMessage raw) (web_server ''registry_cache'') = Json (JObject (off_form ''s3cret''))"
      by (elim disjE) (erule cache_saved, simp)+
    with that have "v = JObject (off_form ''s3cret'')" by simp
    then show ?thesis using off_encoded [OF utf8_off(6)] by simp
  next
    case False
    then have "decode_payload cache_env (RawMessage raw) = RawMessage raw" by (auto simp: decode_payload_def cache_env_def)
    with that show ?thesis
      unfolding saved_value_def options_to_store_def Let_def cache_raw normalizeSettingOptions_def
      by (simp add: normalizeRegistryCache_def overlayRegistryCacheFromRegistry_def preserveSecretsFromExisting_def secretFieldsByID_def)
  qed
  have "well_encoded (JObject (fmdrop ''password'' (off_form ''x'')))"
    by (auto simp: fmpred_iff off_form_lookup utf8_off split: if_splits)
  with received_cache_keeps_password [OF _ _ cache_raw _ _ _ enc run] run show ?thesis
    by (simp add: TrimSpace_off cache_laws)
qed

text \<open>The form of the cache comes back with the mask.\<close>

theorem saved_cache_valid_witness:
  "\<exists>s' v st. run_state (Save_setting cache_env ''registry_cache'' (Json (JObject (off_form SettingSecretMask))) None)
      (web_server ''registry_cache'') = (Inr (), s') \<and>
    SettingGet (dao_setting (sx_dao cache_env)) ''registry_cache'' (sv_db s' ''setting'') = Inr (Some st) \<and>
    sx_Marshal cache_env (Json (JObject v)) = Inr (st_Options st) \<and> string_at v ''rewrite_mode'' \<noteq> []"
proof -
  have p: "decode_payload cache_env (Json (JObject (off_form SettingSecretMask))) = Json (JObject (off_form SettingSecretMask))"
    by (simp add: decode_payload_def)
  then obtain s' where s': "run_state (Save_setting cache_env ''registry_cache'' (Json (JObject (off_form SettingSecretMask))) None)
      (web_server ''registry_cache'') = (Inr (), s')"
    using cache_save by blast
  have "bolt_bucket (dao_setting (sx_dao cache_env))" using web_bolt by (simp add: cache_env_def)
  from saved_cache_valid [OF this p s'] s' show ?thesis by blast
qed

text \<open>Two servers that differ in the text of a token.\<close>

definition leaky_env :: "(raw_record bucket, raw_record, unit) server_env" where
  "leaky_env = web_env (token_form ''hvs.y'') JNull (Inr (token_form ''hvs.x''))"

definition other_server :: "(raw_record bucket, unit) server" where
  "other_server = (web_server ''vault'')\<lparr>sv_db := (\<lambda>_. empty_bucket)(''setting'' := bucket_put ''vault''
     (RawSetting \<lparr>st_ID = ''vault'', st_Options = ''sent'', st_UpdatedAt = 0, st_UpdatedBy = no_operator\<rparr>) empty_bucket)\<rparr>"

lemma leaky_raw: "setting_raw leaky_env ''vault'' (sv_db (web_server ''vault'') ''setting'') = Inr (token_form ''hvs.x'')"
  "setting_raw leaky_env ''vault'' (sv_db other_server ''setting'') = Inr (token_form ''hvs.y'')"
  by (simp_all add: leaky_env_def other_server_def web_server_def setting_raw_def SettingGet_def Dao_get_opt_def Dao_get_def demo_dao_def)

lemma entries_one: "entries (bucket_put k v empty_bucket) = [(k, v)]"
  by (simp add: bucket_eval)

lemma leaky_all: "settings_raw leaky_env (sv_db (web_server ''vault'') ''setting'') = Inr (fmap_of_list [(''vault'', token_form ''hvs.x'')])"
  "settings_raw leaky_env (sv_db other_server ''setting'') = Inr (fmap_of_list [(''vault'', token_form ''hvs.y'')])"
  by (simp_all add: leaky_env_def other_server_def web_server_def settings_raw_def SettingGetAll_def all_of_def Dao_each_def
      demo_dao_def entries_one collect_def fmap_of_list.abs_eq [symmetric])

lemma leaky_same: "same_but_secrets ''vault'' (token_form ''hvs.x'') (token_form ''hvs.y'')"
  by (simp add: same_but_secrets_def token_form_def is_credential_def string_at_def)

theorem settings_reveal_no_secret_witness:
  "fst (run_state (Find_setting leaky_env ''vault'') (web_server ''vault'')) = fst (run_state (Find_setting leaky_env ''vault'') other_server)"
  using settings_reveal_no_secret [of "''vault''" leaky_env "web_server ''vault''" other_server] leaky_same
  by (simp add: leaky_raw leaky_all)

end
