(* ===== verification/RegistryRewrite.thy ===== *)
theory RegistryRewrite
  imports Settings YamlNodes
begin

text \<open>
  Image references through the registry cache: the rewriting of a compose file when it is deployed,
  biz/compose_stack_registry_rewrite.go, and the copying of the images into the cache,
  biz/compose_stack_image_mirror.go.

  References are parsed by github.com/distribution/reference, here \<open>ref_lib\<close>.  A pull or a push stands
  for the call and the draining of its stream.  \<open>strings.EqualFold\<close> is exact on ASCII.
\<close>

section \<open>Rewriting\<close>

record named_ref =
  nm_Domain :: string
  nm_Path :: string
  nm_Tag :: "string option"

type_synonym ref_lib = "string \<Rightarrow> go_error + named_ref"

record rewrite_action =
  ra_Service :: string
  ra_Original :: string
  ra_Rewritten :: string
  ra_Upstream :: string
  ra_Prefix :: string
  ra_Reason :: string

record rewrite_input =
  ri_Setting :: "misc_setting option"
  ri_HostExtract :: "registry_cache_extract option"
  ri_StackDisabled :: bool

text \<open>Whether rewriting runs, and whether the host must have opted in.\<close>

definition shouldRun :: "rewrite_input \<Rightarrow> bool \<times> bool" where
  "shouldRun i =
     (if ri_StackDisabled i then (False, False)
      else case ri_Setting i of
        None \<Rightarrow> (False, False)
      | Some s \<Rightarrow>
          let rc = ms_RegistryCache s in
          if \<not> rc_Enabled rc then (False, False)
          else if rc_Hostname rc = [] then (False, False)
          else if rc_RewriteMode rc = ''off'' then (False, False)
          else if rc_RewriteMode rc = ''always'' then (True, False)
          else if rc_RewriteMode rc = ''per-host'' \<or> rc_RewriteMode rc = [] then (True, True)
          else (False, False))"

definition opted_in :: "rewrite_input \<Rightarrow> bool" where
  "opted_in i = (case ri_HostExtract i of None \<Rightarrow> False | Some x \<Rightarrow> rx_Enabled x)"

definition WillRewrite :: "rewrite_input \<Rightarrow> bool" where
  "WillRewrite i = (let (run, requireHostOptIn) = shouldRun i in run \<and> (requireHostOptIn \<longrightarrow> opted_in i))"

definition mirror_of :: "registry_cache \<Rightarrow> string" where
  "mirror_of rc = rc_Hostname rc @ '':'' @ show_int (portOrDefault (rc_Port rc))"

definition new_action :: "string \<Rightarrow> string \<Rightarrow> rewrite_action" where
  "new_action service original = \<lparr>ra_Service = service, ra_Original = original, ra_Rewritten = [], ra_Upstream = [],
     ra_Prefix = [], ra_Reason = []\<rparr>"

definition rewritten_ref :: "registry_cache \<Rightarrow> named_ref \<Rightarrow> string" where
  "rewritten_ref rc r =
     (let tagPart = '':'' @ (case nm_Tag r of Some t \<Rightarrow> t | None \<Rightarrow> ''latest'') in
      if rc_UseUpstreamPrefix rc then mirror_of rc @ ''/'' @ nm_Domain r @ ''/'' @ nm_Path r @ tagPart
      else mirror_of rc @ ''/'' @ nm_Path r @ tagPart)"

definition rewrite_decision :: "ref_lib \<Rightarrow> registry_cache \<Rightarrow> string \<Rightarrow> string \<Rightarrow> rewrite_action" where
  "rewrite_decision R rc service original =
     (let action = new_action service original in
      if rc_PreserveDigests rc \<and> contains original ''@sha256:'' then action\<lparr>ra_Reason := ''digest-preserved''\<rparr>
      else case R original of
        Inl _ \<Rightarrow> action\<lparr>ra_Reason := ''invalid-ref''\<rparr>
      | Inr r \<Rightarrow>
          if to_lower (nm_Domain r) = to_lower (mirror_of rc) then action\<lparr>ra_Reason := ''already-mirror''\<rparr>
          else action\<lparr>ra_Rewritten := rewritten_ref rc r, ra_Upstream := nm_Domain r,
                 ra_Prefix := (if rc_UseUpstreamPrefix rc then nm_Domain r else [])\<rparr>)"

definition marked :: "string \<Rightarrow> string \<Rightarrow> string" where
  "marked original comment =
     (let markerLine = ''swirl-managed-registry-cache: original='' @ original in
      if comment = [] then markerLine
      else if \<not> contains comment ''swirl-managed-registry-cache:'' then comment @ [CHR 0x0A] @ markerLine
      else comment)"

definition rewrite_node :: "rewrite_action \<Rightarrow> yaml_node \<Rightarrow> yaml_node" where
  "rewrite_node a n =
     (if ra_Reason a \<noteq> [] then n
      else Node (nd_Kind n) (nd_Tag n) (ra_Rewritten a) (nd_Style n) (marked (ra_Original a) (nd_HeadComment n))
             (nd_LineComment n) (nd_Content n))"

definition scalarField :: "yaml_node \<Rightarrow> string \<Rightarrow> yaml_node option" where
  "scalarField n name = (if nd_Kind n \<noteq> MappingNode then None else field name (nd_Content n))"

definition rewrite_service :: "ref_lib \<Rightarrow> registry_cache \<Rightarrow> string \<Rightarrow> yaml_node \<Rightarrow> yaml_node \<times> rewrite_action list" where
  "rewrite_service R rc service svcNode =
     (if nd_Kind svcNode \<noteq> MappingNode then (svcNode, [])
      else case scalarField svcNode ''image'' of
        None \<Rightarrow> (svcNode, [])
      | Some img \<Rightarrow>
          if nd_Kind img \<noteq> ScalarNode \<or> nd_Value img = [] then (svcNode, [])
          else let a = rewrite_decision R rc service (nd_Value img)
               in (at_field ''image'' (rewrite_node a) svcNode, [a]))"

fun rewrite_services :: "ref_lib \<Rightarrow> registry_cache \<Rightarrow> yaml_node list \<Rightarrow> yaml_node list \<times> rewrite_action list" where
  "rewrite_services R rc (k # v # rest) =
     (let (v', a) = rewrite_service R rc (nd_Value k) v; (rest', as) = rewrite_services R rc rest
      in (k # v' # rest', a @ as))"
| "rewrite_services R rc c = (c, [])"

definition hasRewrite :: "rewrite_action list \<Rightarrow> bool" where
  "hasRewrite actions = list_ex (\<lambda>a. ra_Rewritten a \<noteq> []) actions"

text \<open>The new text, the actions (none when nothing was evaluated) and the error.\<close>

definition RewriteImages :: "yaml_lib \<Rightarrow> ref_lib \<Rightarrow> string \<Rightarrow> rewrite_input
    \<Rightarrow> string \<times> rewrite_action list \<times> (go_error + unit)" where
  "RewriteImages Y R content i =
     (if \<not> WillRewrite i then (content, [], Inr ())
      else case yaml_Unmarshal Y content of
        Inl _ \<Rightarrow> (content, [], Inr ())
      | Inr root \<Rightarrow>
          (case documentNode root of
             None \<Rightarrow> (content, [], Inr ())
           | Some doc \<Rightarrow>
               (case mappingFieldNode doc ''services'' of
                  None \<Rightarrow> (content, [], Inr ())
                | Some services \<Rightarrow>
                    if nd_Kind services \<noteq> MappingNode then (content, [], Inr ())
                    else let rc = ms_RegistryCache (the (ri_Setting i));
                             actions = snd (rewrite_services R rc (nd_Content services));
                             edit = (\<lambda>n. set_Content (fst (rewrite_services R rc (nd_Content n))) n)
                    in if \<not> hasRewrite actions then (content, actions, Inr ())
                       else case yaml_Marshal Y (on_document (at_field ''services'' edit) root) of
                         Inl e \<Rightarrow> (content, actions, Inl (''registry cache rewrite: serialize YAML: '' @ e))
                       | Inr out \<Rightarrow> (out, actions, Inr ()))))"

definition BuildRewriteInput :: "compose_stack option \<Rightarrow> addon_extract option \<Rightarrow> misc_setting option \<Rightarrow> rewrite_input" where
  "BuildRewriteInput stack hostExtract setting =
     \<lparr>ri_Setting = setting,
      ri_HostExtract = (case hostExtract of None \<Rightarrow> None | Some x \<Rightarrow> ax_RegistryCache x),
      ri_StackDisabled = (case stack of None \<Rightarrow> False | Some s \<Rightarrow> cs_DisableRegistryCache s)\<rparr>"

section \<open>Copying the images into the cache\<close>

record mirror_action =
  ma_Service :: string
  ma_Upstream :: string
  ma_CacheRef :: string
  ma_Outcome :: string
  ma_Error :: string

text \<open>The calls on images, with the credentials of the registry.\<close>

record 'w image_sdk =
  im_Inspect :: "string \<Rightarrow> 'w \<Rightarrow> (sdk_error + unit) \<times> 'w"
  im_Pull :: "string \<Rightarrow> string \<Rightarrow> 'w \<Rightarrow> (sdk_error + unit) \<times> 'w"
  im_Tag :: "string \<Rightarrow> string \<Rightarrow> 'w \<Rightarrow> (sdk_error + unit) \<times> 'w"
  im_Push :: "string \<Rightarrow> string \<Rightarrow> 'w \<Rightarrow> (sdk_error + unit) \<times> 'w"

definition originHost :: "string \<Rightarrow> string" where
  "originHost reference =
     (case str_cut ''/'' reference of Some (h, _) \<Rightarrow> if h \<noteq> [] then h else reference | None \<Rightarrow> reference)"

text \<open>\<open>creds\<close> is \<open>GetAuth\<close> of the registries, whose errors count as no credentials.\<close>

definition resolveRegistryAuth :: "(string \<Rightarrow> 'w \<Rightarrow> (server_error + string) \<times> 'w) \<Rightarrow> string \<Rightarrow> 'w \<Rightarrow> string \<times> 'w" where
  "resolveRegistryAuth creds host w =
     (if host = [] then ([], w)
      else case creds (''https://'' @ host) w of
        (r, w) \<Rightarrow>
          (case r of
             Inr (c # cs) \<Rightarrow> (c # cs, w)
           | _ \<Rightarrow> (case creds (''http://'' @ host) w of
                   (r, w) \<Rightarrow> (case r of Inr (c # cs) \<Rightarrow> (c # cs, w) | _ \<Rightarrow> ([], w)))))"

definition asking :: "('w \<Rightarrow> 'a \<times> 'w) \<Rightarrow> ('w, 'a) prog" where
  "asking f = State (\<lambda>s. case f (world s) of (x, w) \<Rightarrow> (x, s\<lparr>world := w\<rparr>))"

definition unmirrored :: "rewrite_action \<Rightarrow> string \<Rightarrow> mirror_action" where
  "unmirrored a outcome =
     \<lparr>ma_Service = ra_Service a, ma_Upstream = ra_Original a, ma_CacheRef = ra_Rewritten a, ma_Outcome = outcome, ma_Error = []\<rparr>"

definition mirror_failed :: "rewrite_action \<Rightarrow> string \<Rightarrow> sdk_error \<Rightarrow> mirror_action" where
  "mirror_failed a step e = (unmirrored a ''error'')\<lparr>ma_Error := step @ '': '' @ error_text e\<rparr>"

text \<open>An arrow in UTF-8, and pull, tag and push up to the first error.\<close>

definition arrow :: string where
  "arrow = [char_of (0xE2 :: nat), char_of (0x86 :: nat), char_of (0x92 :: nat)]"

definition mirror_one :: "'w image_sdk \<Rightarrow> (string \<Rightarrow> 'w \<Rightarrow> (server_error + string) \<times> 'w) \<Rightarrow> rewrite_action
    \<Rightarrow> ('w, mirror_action) prog" where
  "mirror_one cli creds a = do {
     upstreamAuth \<leftarrow> asking (resolveRegistryAuth creds (originHost (ra_Original a)));
     cacheAuth \<leftarrow> asking (resolveRegistryAuth creds (originHost (ra_Rewritten a)));
     p \<leftarrow> docker (ImagePull (ra_Original a)) (im_Pull cli (ra_Original a) upstreamAuth);
     case p of
       Inl e \<Rightarrow> State_Monad.return (mirror_failed a (''pull '' @ ra_Original a) e)
     | Inr _ \<Rightarrow> do {
         t \<leftarrow> docker (ImageTag (ra_Original a) (ra_Rewritten a)) (im_Tag cli (ra_Original a) (ra_Rewritten a));
         case t of
           Inl e \<Rightarrow> State_Monad.return (mirror_failed a (''tag '' @ ra_Original a @ arrow @ ra_Rewritten a) e)
         | Inr _ \<Rightarrow> do {
             u \<leftarrow> docker (ImagePush (ra_Rewritten a)) (im_Push cli (ra_Rewritten a) cacheAuth);
             case u of
               Inl e \<Rightarrow> State_Monad.return (mirror_failed a (''push '' @ ra_Rewritten a) e)
             | Inr _ \<Rightarrow> State_Monad.return (unmirrored a ''pulled'')
           }
       }
   }"

definition present_locally :: "'w image_sdk \<Rightarrow> bool \<Rightarrow> string \<Rightarrow> ('w, bool) prog" where
  "present_locally cli pullImages reference =
     (if pullImages then State_Monad.return False
      else do {
        r \<leftarrow> docker (ImageInspect reference) (im_Inspect cli reference);
        State_Monad.return (is_ok r)
      })"

fun mirror_loop :: "'w image_sdk \<Rightarrow> (string \<Rightarrow> 'w \<Rightarrow> (server_error + string) \<times> 'w) \<Rightarrow> bool \<Rightarrow> rewrite_action list
    \<Rightarrow> mirror_action list \<Rightarrow> ('w, mirror_action list \<times> (go_error + unit)) prog" where
  "mirror_loop cli creds pullImages [] out = State_Monad.return (out, Inr ())"
| "mirror_loop cli creds pullImages (a # as) out =
     (if ra_Rewritten a = [] then mirror_loop cli creds pullImages as (out @ [unmirrored a ''no-rewrite''])
      else if to_lower (ra_Original a) = to_lower (ra_Rewritten a)
      then mirror_loop cli creds pullImages as (out @ [unmirrored a ''skipped-local-ref''])
      else do {
        present \<leftarrow> present_locally cli pullImages (ra_Rewritten a);
        if present then mirror_loop cli creds pullImages as (out @ [unmirrored a ''already-present''])
        else do {
          act \<leftarrow> mirror_one cli creds a;
          if ma_Outcome act = ''error''
          then State_Monad.return (out @ [act], Inl (''service '' @ ra_Service a @ '': '' @ ma_Error act))
          else mirror_loop cli creds pullImages as (out @ [act])
        }
      })"

definition mirrorActionsToCache :: "'w image_sdk \<Rightarrow> (string \<Rightarrow> 'w \<Rightarrow> (server_error + string) \<times> 'w) \<Rightarrow> rewrite_action list
    \<Rightarrow> bool \<Rightarrow> ('w, mirror_action list \<times> (go_error + unit)) prog" where
  "mirrorActionsToCache cli creds actions pullImages = mirror_loop cli creds pullImages actions []"

end
