(* ===== verification/RewriteTheorems.thy ===== *)
theory RewriteTheorems
  imports RegistryRewrite AddonTheorems "HOL-Library.Sublist"
begin

text \<open>
  The rewriting of image references changes images only and is idempotent; a reference with a port in
  its registry becomes one that cannot be parsed; a copy that succeeds has pulled, tagged and pushed
  every rewritten image.
\<close>

section \<open>References\<close>

text \<open>The grammar of references: a first component with a colon is the domain, and no component before
  the last one of the path has a colon.\<close>

definition reference_laws :: "ref_lib \<Rightarrow> bool" where
  "reference_laws R \<longleftrightarrow> (\<forall>d w r. R (d @ ''/'' @ w) = Inr r \<longrightarrow> CHR ''/'' \<notin> set d \<longrightarrow> CHR '':'' \<in> set d \<longrightarrow>
     nm_Domain r = d \<and> (\<forall>a b. w = a @ ''/'' @ b \<longrightarrow> CHR '':'' \<notin> set a))"

lemma show_nat_digits: "c \<in> set (show_nat n) \<Longrightarrow> \<exists>d<10. c = digit_char d"
proof (induction n rule: show_nat.induct)
  case (1 n)
  show ?case
  proof (cases "n < 10")
    case True
    with 1(2) have "c = digit_char n" by (subst (asm) show_nat.simps) simp
    with True show ?thesis by blast
  next
    case False
    with 1(2) have "c \<in> set (show_nat (n div 10)) \<or> c = digit_char (n mod 10)"
      by (subst (asm) show_nat.simps) auto
    moreover have "n mod 10 < 10" by simp
    ultimately show ?thesis using 1(1) False by blast
  qed
qed

lemma no_slash_show_int: "CHR ''/'' \<notin> set (show_int n)"
proof -
  have "digit_char d \<noteq> CHR ''/''" if "d < 10" for d
  proof
    assume "digit_char d = CHR ''/''"
    then have "(of_char (digit_char d) :: nat) = of_char CHR ''/''" by simp
    with that show False by (simp add: digit_char_def)
  qed
  then show ?thesis by (auto simp: show_int_def) (metis show_nat_digits)+
qed

lemma mirror_domain:
  assumes "CHR ''/'' \<notin> set (rc_Hostname rc)"
  shows "CHR ''/'' \<notin> set (mirror_of rc)" "CHR '':'' \<in> set (mirror_of rc)"
  using assms by (simp_all add: mirror_of_def no_slash_show_int)

lemma rewritten_ref_prefix: "\<exists>w. rewritten_ref rc r = mirror_of rc @ ''/'' @ w"
  by (simp add: rewritten_ref_def Let_def)

lemma rewritten_ref_nonempty [simp]: "rewritten_ref rc r \<noteq> []"
  by (simp add: rewritten_ref_def Let_def mirror_of_def)

section \<open>Decisions\<close>

lemma decision_cases:
  "(ra_Reason (rewrite_decision R rc svc x) \<noteq> [] \<and> ra_Rewritten (rewrite_decision R rc svc x) = []) \<or>
   (\<exists>r. R x = Inr r \<and> ra_Reason (rewrite_decision R rc svc x) = [] \<and>
      ra_Rewritten (rewrite_decision R rc svc x) = rewritten_ref rc r \<and> ra_Upstream (rewrite_decision R rc svc x) = nm_Domain r)"
  by (auto simp: rewrite_decision_def new_action_def Let_def split: sum.split)

lemma decision_original [simp]: "ra_Original (rewrite_decision R rc svc x) = x" "ra_Service (rewrite_decision R rc svc x) = svc"
  by (auto simp: rewrite_decision_def new_action_def Let_def split: sum.split)

text \<open>The image that a service gets.\<close>

definition new_image :: "ref_lib \<Rightarrow> registry_cache \<Rightarrow> string \<Rightarrow> string" where
  "new_image R rc x = (let a = rewrite_decision R rc [] x in if ra_Reason a = [] then ra_Rewritten a else x)"

lemma decision_service: "ra_Reason (rewrite_decision R rc svc x) = ra_Reason (rewrite_decision R rc [] x)"
  "ra_Rewritten (rewrite_decision R rc svc x) = ra_Rewritten (rewrite_decision R rc [] x)"
  by (simp_all add: rewrite_decision_def new_action_def Let_def split: sum.split)

lemma new_image_stable:
  assumes "reference_laws R" "CHR ''/'' \<notin> set (rc_Hostname rc)"
  shows "ra_Rewritten (rewrite_decision R rc svc (new_image R rc x)) = []" "ra_Reason (rewrite_decision R rc svc (new_image R rc x)) \<noteq> []"
proof -
  have "ra_Rewritten (rewrite_decision R rc svc (new_image R rc x)) = [] \<and> ra_Reason (rewrite_decision R rc svc (new_image R rc x)) \<noteq> []"
  proof (cases "ra_Reason (rewrite_decision R rc [] x) = []")
    case False
    then show ?thesis using decision_cases [of R rc svc x] by (auto simp: new_image_def Let_def decision_service [of R rc svc x])
  next
    case True
    then obtain r where r: "new_image R rc x = rewritten_ref rc r"
      using decision_cases [of R rc "[]" x] by (auto simp: new_image_def Let_def)
    then obtain w where w: "new_image R rc x = mirror_of rc @ ''/'' @ w" using rewritten_ref_prefix by metis
    have "nm_Domain r' = mirror_of rc" if "R (mirror_of rc @ ''/'' @ w) = Inr r'" for r'
      using assms(1) that mirror_domain [OF assms(2)] unfolding reference_laws_def by blast
    then show ?thesis unfolding w by (auto simp: rewrite_decision_def new_action_def Let_def split: sum.split)
  qed
  then show "ra_Rewritten (rewrite_decision R rc svc (new_image R rc x)) = []" "ra_Reason (rewrite_decision R rc svc (new_image R rc x)) \<noteq> []"
    by simp_all
qed

section \<open>Services\<close>

text \<open>The image of a service, if it is evaluated.\<close>

definition service_image :: "yaml_node \<Rightarrow> string option" where
  "service_image n =
     (case mappingFieldNode n ''image'' of
        None \<Rightarrow> None
      | Some v \<Rightarrow> if nd_Kind v = ScalarNode \<and> nd_Value v \<noteq> [] then Some (nd_Value v) else None)"

definition blank :: "yaml_node \<Rightarrow> yaml_node" where
  "blank n = (if service_image n = None then n else at_field ''image'' (\<lambda>_. Node ScalarNode [] [] 0 [] [] []) n)"

fun blank_services :: "yaml_node list \<Rightarrow> yaml_node list" where
  "blank_services (k # v # rest) = k # blank v # blank_services rest"
| "blank_services c = c"

lemma map_field_const: "map_field key (\<lambda>_. x) (map_field key f c) = map_field key (\<lambda>_. x) c"
  by (induction key f c rule: map_field.induct) auto

lemma rewrite_service_alt:
  "rewrite_service R rc svc n =
     (case service_image n of
        None \<Rightarrow> (n, [])
      | Some x \<Rightarrow> (at_field ''image'' (rewrite_node (rewrite_decision R rc svc x)) n, [rewrite_decision R rc svc x]))"
  by (auto simp: rewrite_service_def service_image_def scalarField_def mappingFieldNode_def Let_def split: option.split)

lemma rewrite_node_simps [simp]:
  "nd_Kind (rewrite_node a n) = nd_Kind n" "nd_Value (rewrite_node a n) = (if ra_Reason a = [] then ra_Rewritten a else nd_Value n)"
  by (simp_all add: rewrite_node_def)

lemma service_image_rewrite: "service_image (fst (rewrite_service R rc svc n)) = map_option (new_image R rc) (service_image n)"
proof (cases "service_image n")
  case (Some x)
  then obtain v where v: "mappingFieldNode n ''image'' = Some v" "nd_Kind v = ScalarNode" "nd_Value v = x" "x \<noteq> []"
    by (auto simp: service_image_def split: option.splits if_splits)
  have "new_image R rc x \<noteq> []" using decision_cases [of R rc "[]" x] v(4) by (auto simp: new_image_def Let_def)
  moreover have "nd_Value (rewrite_node (rewrite_decision R rc svc x) v) = new_image R rc x"
    by (simp add: new_image_def Let_def v(3) decision_service [of R rc svc x])
  ultimately show ?thesis using Some v by (simp add: rewrite_service_alt) (simp add: service_image_def)
qed (simp add: rewrite_service_alt)

lemma blank_rewrite: "blank (fst (rewrite_service R rc svc n)) = blank n"
proof (cases "service_image n")
  case (Some x)
  then have "service_image (at_field ''image'' (rewrite_node (rewrite_decision R rc svc x)) n) \<noteq> None"
    using service_image_rewrite [of R rc svc n] by (simp add: rewrite_service_alt)
  with Some show ?thesis by (auto simp: rewrite_service_alt blank_def at_field_def map_field_const)
qed (simp add: rewrite_service_alt)

lemma blank_rewrite_services: "blank_services (fst (rewrite_services R rc c)) = blank_services c"
  by (induction c rule: blank_services.induct) (simp_all add: blank_rewrite case_prod_unfold Let_def)

text \<open>The decisions on a list of services, as a function of their images.\<close>

fun images :: "yaml_node list \<Rightarrow> (string \<times> string) list" where
  "images (k # v # rest) = (case service_image v of None \<Rightarrow> [] | Some x \<Rightarrow> [(nd_Value k, x)]) @ images rest"
| "images c = []"

lemma actions_images: "snd (rewrite_services R rc c) = map (\<lambda>(svc, x). rewrite_decision R rc svc x) (images c)"
  by (induction c rule: images.induct) (auto simp: rewrite_service_alt Let_def split: prod.splits option.splits)

lemma images_rewrite: "images (fst (rewrite_services R rc c)) = map (apsnd (new_image R rc)) (images c)"
proof (induction c rule: images.induct)
  case (1 k v rest)
  obtain v' a where v': "rewrite_service R rc (nd_Value k) v = (v', a)" by fastforce
  then have "service_image v' = map_option (new_image R rc) (service_image v)"
    using service_image_rewrite [of R rc "nd_Value k" v] by simp
  with 1 v' show ?case by (simp add: Let_def case_prod_unfold split: option.split)
qed simp_all

lemma service_image_shape [simp]: "service_image (shape n) = service_image n"
  by (simp add: service_image_def mappingFieldNode_def split: option.split)

lemma images_shape [simp]: "images (map shape c) = images c"
  by (induction c rule: images.induct) (simp_all split: option.split)

lemma set_Content_shape: "set_Content (map shape c) (shape n) = shape (set_Content c n)"
  by (cases n) (simp add: set_Content_def)

lemma map_field_shape: "(\<And>n. f (shape n) = shape (f n)) \<Longrightarrow> map_field key f (map shape c) = map shape (map_field key f c)"
  by (induction key c rule: field.induct) simp_all

lemma at_field_shape: "(\<And>n. f (shape n) = shape (f n)) \<Longrightarrow> at_field key f (shape n) = shape (at_field key f n)"
  by (simp add: at_field_def map_field_shape set_Content_shape)

lemma blank_shape: "blank (shape n) = shape (blank n)"
  by (simp add: blank_def at_field_shape)

lemma blank_services_shape: "blank_services (map shape c) = map shape (blank_services c)"
  by (induction c rule: blank_services.induct) (simp_all add: blank_shape)

text \<open>A document without its images.\<close>

definition blank_document :: "yaml_node \<Rightarrow> yaml_node" where
  "blank_document root = on_document (at_field ''services'' (\<lambda>n. set_Content (blank_services (nd_Content n)) n)) root"

definition services_of :: "yaml_node \<Rightarrow> yaml_node option" where
  "services_of root = (case documentNode root of None \<Rightarrow> None | Some doc \<Rightarrow> mappingFieldNode doc ''services'')"

definition rewrite_root :: "ref_lib \<Rightarrow> registry_cache \<Rightarrow> yaml_node \<Rightarrow> yaml_node" where
  "rewrite_root R rc root =
     on_document (at_field ''services'' (\<lambda>n. set_Content (fst (rewrite_services R rc (nd_Content n))) n)) root"

lemma map_field_comp: "map_field key f (map_field key g c) = map_field key (f \<circ> g) c"
  by (induction key g c rule: map_field.induct) auto

lemma at_field_comp: "at_field key f (at_field key g n) = at_field key (f \<circ> g) n"
  by (simp add: at_field_def map_field_comp)

lemma blank_rewrite_root: "blank_document (rewrite_root R rc root) = blank_document root"
  by (cases root)
    (auto simp: blank_document_def rewrite_root_def on_document_def at_field_comp comp_def blank_rewrite_services set_Content_def
      split: list.splits)

lemma services_rewrite_root:
  assumes "services_of root = Some services"
  shows "services_of (rewrite_root R rc root) = Some (set_Content (fst (rewrite_services R rc (nd_Content services))) services)"
  using assms by (auto simp: services_of_def rewrite_root_def documentNode_def on_document_def split: option.splits list.splits if_splits)

lemma documentNode_shape: "documentNode (shape n) = map_option shape (documentNode n)"
  by (cases n) (auto simp: documentNode_def split: list.split)

lemma services_of_shape: "services_of (shape n) = map_option shape (services_of n)"
  by (simp add: services_of_def documentNode_shape split: option.split)

lemma on_document_shape:
  assumes "\<And>n. f (shape n) = shape (f n)"
  shows "on_document f (shape root) = shape (on_document f root)"
proof (cases "nd_Content root")
  case (Cons n ns)
  then show ?thesis using set_Content_shape [of "f n # ns" root] assms by (simp add: on_document_def)
qed (simp add: on_document_def assms)

lemma blank_document_shape: "blank_document (shape root) = shape (blank_document root)"
  unfolding blank_document_def by (intro on_document_shape at_field_shape) (simp add: blank_services_shape set_Content_shape)

section \<open>The rewriting of a file\<close>

definition cache_of :: "rewrite_input \<Rightarrow> registry_cache" where
  "cache_of i = ms_RegistryCache (the (ri_Setting i))"

definition file_actions :: "yaml_lib \<Rightarrow> ref_lib \<Rightarrow> string \<Rightarrow> rewrite_input \<Rightarrow> rewrite_action list" where
  "file_actions Y R content i =
     (if \<not> WillRewrite i then []
      else case yaml_Unmarshal Y content of
        Inl _ \<Rightarrow> []
      | Inr root \<Rightarrow> (case services_of root of
            None \<Rightarrow> []
          | Some services \<Rightarrow> if nd_Kind services \<noteq> MappingNode then [] else snd (rewrite_services R (cache_of i) (nd_Content services))))"

lemma RewriteImages_alt:
  "RewriteImages Y R content i =
     (let actions = file_actions Y R content i in
      if \<not> hasRewrite actions then (content, actions, Inr ())
      else case yaml_Unmarshal Y content of
        Inl _ \<Rightarrow> (content, actions, Inr ())
      | Inr root \<Rightarrow> (case yaml_Marshal Y (rewrite_root R (cache_of i) root) of
            Inl e \<Rightarrow> (content, actions, Inl (''registry cache rewrite: serialize YAML: '' @ e))
          | Inr out \<Rightarrow> (out, actions, Inr ())))"
  unfolding RewriteImages_def file_actions_def services_of_def rewrite_root_def cache_of_def Let_def
  by (cases "WillRewrite i"; cases "yaml_Unmarshal Y content") (auto simp: hasRewrite_def split: option.split sum.split)

lemma rewritten_file:
  assumes "RewriteImages Y R content i = (out, actions, Inr ())" "hasRewrite actions"
  shows "\<exists>root services. WillRewrite i \<and> yaml_Unmarshal Y content = Inr root \<and> services_of root = Some services \<and>
    nd_Kind services = MappingNode \<and> actions = snd (rewrite_services R (cache_of i) (nd_Content services)) \<and>
    yaml_Marshal Y (rewrite_root R (cache_of i) root) = Inr out"
proof -
  have actions: "actions = file_actions Y R content i"
    using assms(1) by (auto simp: RewriteImages_alt Let_def split: if_splits sum.splits)
  with assms(2) obtain root services where r: "WillRewrite i" "yaml_Unmarshal Y content = Inr root" "services_of root = Some services"
    "nd_Kind services = MappingNode" "actions = snd (rewrite_services R (cache_of i) (nd_Content services))"
    by (auto simp: file_actions_def hasRewrite_def split: if_splits sum.splits option.splits)
  moreover have "yaml_Marshal Y (rewrite_root R (cache_of i) root) = Inr out"
    using assms r(2) actions by (auto simp: RewriteImages_alt Let_def split: sum.splits)
  ultimately show ?thesis by blast
qed

lemma unchanged_file:
  assumes "RewriteImages Y R content i = (out, actions, Inr ())" "\<not> hasRewrite actions"
  shows "out = content" "actions = file_actions Y R content i"
  using assms by (auto simp: RewriteImages_alt Let_def split: if_splits sum.splits)

text \<open>Parsing gives back what was printed, up to comments and style.\<close>

definition rereads :: "yaml_lib \<Rightarrow> string \<Rightarrow> bool" where
  "rereads Y out \<longleftrightarrow> (\<forall>n. yaml_Marshal Y n = Inr out \<longrightarrow> (\<exists>n'. yaml_Unmarshal Y out = Inr n' \<and> shape n' = shape n))"

lemma hasRewrite_images:
  "hasRewrite (snd (rewrite_services R rc c)) \<longleftrightarrow> (\<exists>(svc, x) \<in> set (images c). ra_Rewritten (rewrite_decision R rc svc x) \<noteq> [])"
  by (simp add: hasRewrite_def actions_images list_ex_iff case_prod_unfold)

lemma services_rewritten_file:
  assumes "services_of root = Some services" "shape root' = shape (rewrite_root R rc root)"
  obtains services' where "services_of root' = Some services'" "nd_Kind services' = nd_Kind services"
    "images (nd_Content services') = map (apsnd (new_image R rc)) (images (nd_Content services))"
proof -
  let ?s = "set_Content (fst (rewrite_services R rc (nd_Content services))) services"
  have "map_option shape (services_of root') = map_option shape (services_of (rewrite_root R rc root))"
    using assms(2) services_of_shape by metis
  then obtain services' where s: "services_of root' = Some services'" "shape services' = shape ?s"
    using services_rewrite_root [OF assms(1), of R rc] by auto
  have "nd_Kind services' = nd_Kind ?s" "images (map shape (nd_Content services')) = images (map shape (nd_Content ?s))"
    using s(2) shape_simps(1) shape_simps(3) by metis+
  then show ?thesis using that [OF s(1)] by (simp add: images_rewrite)
qed

text \<open>C15: Rewriting is idempotent: when the file that it wrote is deployed again with the same settings,
  nothing in it is rewritten.\<close>

theorem RewriteImages_idempotent:
  assumes "reference_laws R" "CHR ''/'' \<notin> set (rc_Hostname (cache_of i))" "rereads Y out"
    and "RewriteImages Y R content i = (out, actions, Inr ())"
  shows "\<exists>again. RewriteImages Y R out i = (out, again, Inr ()) \<and> \<not> hasRewrite again"
proof (cases "hasRewrite actions")
  case False
  with unchanged_file [OF assms(4)] show ?thesis by (auto simp: RewriteImages_alt)
next
  case True
  then obtain root services where r: "WillRewrite i" "services_of root = Some services" "nd_Kind services = MappingNode"
    "yaml_Marshal Y (rewrite_root R (cache_of i) root) = Inr out"
    using rewritten_file [OF assms(4)] by blast
  then obtain root' where r': "yaml_Unmarshal Y out = Inr root'" "shape root' = shape (rewrite_root R (cache_of i) root)"
    using assms(3) unfolding rereads_def by blast
  obtain services' where s: "services_of root' = Some services'" "nd_Kind services' = nd_Kind services"
    "images (nd_Content services') = map (apsnd (new_image R (cache_of i))) (images (nd_Content services))"
    by (rule services_rewritten_file [OF r(2) r'(2)])
  have "\<not> hasRewrite (file_actions Y R out i)"
    using r(1,3) r'(1) s new_image_stable(1) [OF assms(1,2)] by (auto simp: file_actions_def hasRewrite_images)
  then show ?thesis by (simp add: RewriteImages_alt)
qed

text \<open>C16: A rewritten file differs from the original in images only: read back, it is the same document
  but for the images, and every service that had an image has the one decided for it.\<close>

theorem RewriteImages_images:
  assumes "rereads Y out" "RewriteImages Y R content i = (out, actions, Inr ())" "hasRewrite actions"
  shows "\<exists>root root' services services'. yaml_Unmarshal Y content = Inr root \<and> yaml_Unmarshal Y out = Inr root' \<and>
    shape (blank_document root') = shape (blank_document root) \<and>
    services_of root = Some services \<and> services_of root' = Some services' \<and>
    images (nd_Content services') = map (apsnd (new_image R (cache_of i))) (images (nd_Content services)) \<and>
    map (\<lambda>a. (ra_Service a, ra_Original a)) actions = images (nd_Content services)"
proof -
  obtain root services where r: "yaml_Unmarshal Y content = Inr root" "services_of root = Some services" "nd_Kind services = MappingNode"
    "actions = snd (rewrite_services R (cache_of i) (nd_Content services))"
    "yaml_Marshal Y (rewrite_root R (cache_of i) root) = Inr out"
    using rewritten_file [OF assms(2,3)] by blast
  then obtain root' where r': "yaml_Unmarshal Y out = Inr root'" "shape root' = shape (rewrite_root R (cache_of i) root)"
    using assms(1) unfolding rereads_def by blast
  obtain services' where s: "services_of root' = Some services'"
    "images (nd_Content services') = map (apsnd (new_image R (cache_of i))) (images (nd_Content services))"
    by (rule services_rewritten_file [OF r(2) r'(2)])
  have "shape (blank_document root') = shape (blank_document root)"
    using blank_document_shape [of root'] blank_document_shape [of "rewrite_root R (cache_of i) root"] r'(2)
    by (simp add: blank_rewrite_root)
  moreover have "map (\<lambda>a. (ra_Service a, ra_Original a)) actions = images (nd_Content services)"
    unfolding r(4) actions_images by (simp add: comp_def case_prod_unfold)
  ultimately show ?thesis using r(1,2) r'(1) s by blast
qed

text \<open>An image of a registry with a port in its name is rewritten, when the upstream is kept as a
  prefix, to a reference that does not parse.\<close>

theorem port_registry_unparseable:
  assumes "reference_laws R" "CHR ''/'' \<notin> set (rc_Hostname rc)" "rc_UseUpstreamPrefix rc"
    and "R x = Inr r" "CHR '':'' \<in> set (nm_Domain r)" "ra_Rewritten (rewrite_decision R rc svc x) \<noteq> []"
  shows "\<exists>e. R (ra_Rewritten (rewrite_decision R rc svc x)) = Inl e"
proof (cases "R (ra_Rewritten (rewrite_decision R rc svc x))")
  case (Inr r')
  have "ra_Rewritten (rewrite_decision R rc svc x) = rewritten_ref rc r" using decision_cases [of R rc svc x] assms(4,6) by auto
  then obtain t where "ra_Rewritten (rewrite_decision R rc svc x) = mirror_of rc @ ''/'' @ nm_Domain r @ ''/'' @ t"
    using assms(3) by (auto simp: rewritten_ref_def Let_def)
  then have "R (mirror_of rc @ ''/'' @ nm_Domain r @ ''/'' @ t) = Inr r'" using Inr by simp
  then have "CHR '':'' \<notin> set (nm_Domain r)"
    using assms(1) mirror_domain [OF assms(2)] unfolding reference_laws_def by blast
  with assms(5) show ?thesis by simp
qed blast

section \<open>Copying images\<close>

lemma runs_asking_bind: "(\<And>x. runs (g x) R) \<Longrightarrow> runs (State_Monad.bind (asking f) g) R"
  by (rule runs_bind [where R = "\<lambda>_ new. new = []"]) (auto simp: runs_def asking_def split: prod.splits)

lemma runs_docker_bind: "(\<And>r. runs (g r) (\<lambda>y new. R y ((q, is_ok r) # new))) \<Longrightarrow> runs (State_Monad.bind (docker q f) g) R"
  by (rule runs_bind [where R = "\<lambda>r new. new = [(q, is_ok r)]"]) (auto intro: runs_docker)

lemma runs_present:
  "runs (present_locally cli pullImages reference)
     (\<lambda>present new. set new \<subseteq> {(ImageInspect reference, present)} \<and> (present \<longrightarrow> \<not> pullImages \<and> (ImageInspect reference, True) \<in> set new))"
  by (auto simp: present_locally_def intro!: runs_return runs_call)

text \<open>The calls of one copy: pull, tag and push, up to the first that fails.\<close>

definition copy_calls :: "rewrite_action \<Rightarrow> (request \<times> bool) list" where
  "copy_calls a = [(ImagePull (ra_Original a), True), (ImageTag (ra_Original a) (ra_Rewritten a), True), (ImagePush (ra_Rewritten a), True)]"

lemma runs_mirror_one:
  "runs (mirror_one cli creds a)
     (\<lambda>act new. (ma_Outcome act = ''pulled'' \<and> new = copy_calls a) \<or>
        (ma_Outcome act = ''error'' \<and> (\<exists>made q. new = made @ [(q, False)] \<and> prefix (made @ [(q, True)]) (copy_calls a))))"
  unfolding mirror_one_def
  by (auto simp: copy_calls_def mirror_failed_def unmirrored_def split: sum.split
      intro!: runs_return runs_asking_bind runs_docker_bind)

text \<open>What a successful run did for an action, and how a failed one ended.\<close>

definition copied :: "bool \<Rightarrow> rewrite_action \<Rightarrow> (request \<times> bool) list \<Rightarrow> bool" where
  "copied pullImages a new \<longleftrightarrow> ra_Rewritten a = [] \<or> to_lower (ra_Original a) = to_lower (ra_Rewritten a) \<or>
     (\<not> pullImages \<and> (ImageInspect (ra_Rewritten a), True) \<in> set new) \<or> sublist (copy_calls a) new"

definition stopped_at :: "rewrite_action \<Rightarrow> (request \<times> bool) list \<Rightarrow> bool" where
  "stopped_at a new \<longleftrightarrow> (\<exists>before made q. new = before @ made @ [(q, False)] \<and> prefix (made @ [(q, True)]) (copy_calls a))"

definition image_calls :: "rewrite_action list \<Rightarrow> request set" where
  "image_calls actions = (\<Union>a \<in> set actions. insert (ImageInspect (ra_Rewritten a)) (fst ` set (copy_calls a)))"

definition mirrored :: "bool \<Rightarrow> rewrite_action list \<Rightarrow> mirror_action list \<times> (go_error + unit) \<Rightarrow> (request \<times> bool) list \<Rightarrow> bool" where
  "mirrored pullImages actions r new \<longleftrightarrow> fst ` set new \<subseteq> image_calls actions \<and>
     (case snd r of Inr _ \<Rightarrow> \<forall>a \<in> set actions. copied pullImages a new
      | Inl _ \<Rightarrow> \<exists>a \<in> set actions. stopped_at a new \<and> ma_Outcome (last (fst r)) = ''error'')"

lemma sublist_grow: "sublist xs ys \<Longrightarrow> sublist xs (zs @ ys)" "sublist xs ys \<Longrightarrow> sublist xs (ys @ zs)"
  unfolding sublist_def by (metis append.assoc)+

lemma copied_grow: "copied pullImages a new \<Longrightarrow> copied pullImages a (before @ new)" "copied pullImages a new \<Longrightarrow> copied pullImages a (new @ after)"
  by (auto simp: copied_def intro: sublist_grow)

lemma stopped_append: "stopped_at a new \<Longrightarrow> stopped_at a (before @ new)"
  unfolding stopped_at_def by (metis append.assoc)

lemma mirrored_Cons:
  assumes "mirrored pullImages as r new" "copied pullImages a before" "fst ` set before \<subseteq> image_calls [a]"
  shows "mirrored pullImages (a # as) r (before @ new)"
proof (cases "snd r")
  case (Inl e)
  then have "\<exists>b \<in> set as. stopped_at b (before @ new)" "ma_Outcome (last (fst r)) = ''error''"
    using assms(1) stopped_append by (auto simp: mirrored_def)
  with Inl assms(1,3) show ?thesis by (auto simp: mirrored_def image_calls_def)
next
  case (Inr x)
  with assms copied_grow show ?thesis by (auto simp: mirrored_def image_calls_def)
qed

lemma mirrored_stop:
  assumes "stopped_at a new" "fst ` set new \<subseteq> image_calls [a]" "ma_Outcome act = ''error''"
  shows "mirrored pullImages (a # as) (out @ [act], Inl e) new"
  using assms by (auto simp: mirrored_def image_calls_def)

lemma runs_mirror_loop: "runs (mirror_loop cli creds pullImages actions out) (mirrored pullImages actions)"
proof (induction actions arbitrary: out)
  case Nil
  show ?case by (simp add: mirrored_def image_calls_def runs_return)
next
  case (Cons a as)
  have skip: "runs (mirror_loop cli creds pullImages as out') (mirrored pullImages (a # as))" if "copied pullImages a []" for out'
    using mirrored_Cons [OF _ that] by (intro runs_mono [OF Cons.IH]) auto
  have copy: "runs (do { act \<leftarrow> mirror_one cli creds a;
          if ma_Outcome act = ''error''
          then State_Monad.return (out @ [act], Inl (''service '' @ ra_Service a @ '': '' @ ma_Error act))
          else mirror_loop cli creds pullImages as (out @ [act]) })
       (\<lambda>r new. mirrored pullImages (a # as) r (before @ new))" if "fst ` set before \<subseteq> image_calls [a]" for before
  proof (rule runs_bind [OF runs_mirror_one], goal_cases)
    case (1 act new)
    then show ?case
    proof (elim disjE conjE exE)
      assume "ma_Outcome act = ''pulled''" "new = copy_calls a"
      moreover from this have "copied pullImages a (before @ new)" "fst ` set (before @ new) \<subseteq> image_calls [a]"
        using that by (auto simp: copied_def sublist_grow image_calls_def)
      ultimately show ?thesis using mirrored_Cons [of pullImages as _ _ a "before @ new"]
        by (auto intro: runs_mono [OF Cons.IH])
    next
      fix made q
      assume n: "ma_Outcome act = ''error''" "new = made @ [(q, False)]" "prefix (made @ [(q, True)]) (copy_calls a)"
      then have "stopped_at a (before @ new)" unfolding stopped_at_def by blast
      moreover have "fst ` set (before @ new) \<subseteq> image_calls [a]"
        using that n(2) set_mono_prefix [OF n(3)] imageI [of "(q, True)" "set (copy_calls a)" fst] by (auto simp: image_calls_def)
      ultimately show ?thesis using n(1) by (simp add: runs_return mirrored_stop)
    qed
  qed
  have found: "runs (mirror_loop cli creds pullImages as out') (\<lambda>r new. mirrored pullImages (a # as) r (before @ new))"
    if "\<not> pullImages" "(ImageInspect (ra_Rewritten a), True) \<in> set before" "fst ` set before \<subseteq> image_calls [a]" for out' before
  proof -
    have "copied pullImages a before" using that(1,2) by (simp add: copied_def)
    then show ?thesis using mirrored_Cons [OF _ _ that(3)] by (intro runs_mono [OF Cons.IH]) auto
  qed
  have present: "runs (do {
        present \<leftarrow> present_locally cli pullImages (ra_Rewritten a);
        if present then mirror_loop cli creds pullImages as (out @ [unmirrored a ''already-present''])
        else do {
          act \<leftarrow> mirror_one cli creds a;
          if ma_Outcome act = ''error''
          then State_Monad.return (out @ [act], Inl (''service '' @ ra_Service a @ '': '' @ ma_Error act))
          else mirror_loop cli creds pullImages as (out @ [act])
        }
      }) (mirrored pullImages (a # as))"
  proof (rule runs_bind [OF runs_present], goal_cases)
    case (1 x new)
    then have "fst ` set new \<subseteq> image_calls [a]" by (auto simp: image_calls_def)
    with 1 show ?case using found copy by (cases x) simp_all
  qed
  show ?case using skip present by (simp add: copied_def)
qed

text \<open>C20: Copying into the cache touches only the images of the actions.  If it succeeds, every rewritten
  image has been pulled, tagged and pushed in this order, or, unless a pull is forced, was found under
  its new name; if it fails, its last call is the one that failed, after the earlier steps of that image
  succeeded, and the last entry of the report says error.\<close>

theorem mirror_outcome:
  "\<exists>new. trace (snd (run_state (mirrorActionsToCache cli creds actions pullImages) s)) = trace s @ new \<and>
     mirrored pullImages actions (fst (run_state (mirrorActionsToCache cli creds actions pullImages) s)) new"
  using runs_mirror_loop [of cli creds pullImages actions "[]"] unfolding mirrorActionsToCache_def runs_def by blast

section \<open>Examples\<close>

text \<open>References of one path component, whose domain is what precedes the first slash if it has a colon,
  and a library that knows one file and what the rewriting makes of it.\<close>

definition demo_ref :: ref_lib where
  "demo_ref x =
     (case str_cut ''/'' x of
        Some (d, w) \<Rightarrow>
          if CHR '':'' \<in> set d then
            (if (case str_cut '':'' w of Some (_, rest) \<Rightarrow> CHR ''/'' \<in> set rest | None \<Rightarrow> False) then Inl ''invalid reference format''
             else Inr \<lparr>nm_Domain = d, nm_Path = w, nm_Tag = None\<rparr>)
          else Inr \<lparr>nm_Domain = ''docker.io'', nm_Path = x, nm_Tag = None\<rparr>
      | None \<Rightarrow> Inr \<lparr>nm_Domain = ''docker.io'', nm_Path = ''library/'' @ x, nm_Tag = None\<rparr>)"

lemma demo_ref_laws: "reference_laws demo_ref"
proof -
  have "CHR '':'' \<notin> set a" if "(case str_cut '':'' (a @ ''/'' @ b) of Some (_, rest) \<Rightarrow> CHR ''/'' \<in> set rest | None \<Rightarrow> False) = False" for a b
  proof
    assume "CHR '':'' \<in> set a"
    then obtain p q where "a = p @ CHR '':'' # q" "CHR '':'' \<notin> set p" by (metis split_list_first)
    then have "str_cut '':'' (a @ ''/'' @ b) = Some (p, q @ ''/'' @ b)"
      using str_cut_at_first [of "'':''" p "q @ ''/'' @ b"] by simp
    with that show False by simp
  qed
  then show ?thesis
    using str_cut_at_first [of "''/''"] by (auto simp: reference_laws_def demo_ref_def split: if_splits)
qed

definition demo_file :: "string \<Rightarrow> yaml_node" where
  "demo_file x = Node MappingNode [] [] 0 [] []
     [scalar_node ''services'', Node MappingNode [] [] 0 [] []
       [scalar_node ''web'', Node MappingNode [] [] 0 [] [] [scalar_node ''image'', scalar_node x]]]"

definition demo_cache :: registry_cache where
  "demo_cache = \<lparr>rc_Enabled = True, rc_RegistryID = [], rc_Hostname = ''m'', rc_Port = 5, rc_CACertPEM = [], rc_CAFingerprint = [],
     rc_Username = [], rc_Password = [], rc_UseUpstreamPrefix = True, rc_RewriteMode = ''always'', rc_PreserveDigests = False\<rparr>"

definition demo_settings :: misc_setting where
  "demo_settings = \<lparr>ms_RegistryCache = demo_cache, ms_Backup = \<lparr>set_StorageMode = [], set_VaultPrefix = [], set_KVPrefix = []\<rparr>\<rparr>"

definition demo_input :: rewrite_input where
  "demo_input = \<lparr>ri_Setting = Some demo_settings, ri_HostExtract = None, ri_StackDisabled = False\<rparr>"

definition demo_rewritten :: yaml_node where "demo_rewritten = rewrite_root demo_ref demo_cache (demo_file ''x'')"

definition demo_yaml :: yaml_lib where
  "demo_yaml = \<lparr>yaml_Unmarshal = (\<lambda>x. if x = ''old'' then Inr (demo_file ''x'') else if x = ''new'' then Inr demo_rewritten else Inl []),
     yaml_Marshal = (\<lambda>n. if n = demo_rewritten then Inr ''new'' else Inl []), yaml_Encode2 = (\<lambda>n. Inl [])\<rparr>"

lemma demo_port: "show_int 5 = ''5''"
  by (simp add: show_int_def show_nat.simps digit_char_def) code_simp

lemma demo_domain: "mirror_of demo_cache = ''m:5''"
  by (simp add: mirror_of_def demo_cache_def portOrDefault_def demo_port)

lemma demo_decision: "rewrite_decision demo_ref demo_cache svc ''x'' =
    (new_action svc ''x'')\<lparr>ra_Rewritten := ''m:5/docker.io/library/x:latest'', ra_Upstream := ''docker.io'', ra_Prefix := ''docker.io''\<rparr>"
  by (simp add: rewrite_decision_def rewritten_ref_def demo_domain Let_def demo_ref_def to_lower_def is_upper_def)
    (simp add: demo_cache_def)

lemma demo_runs:
  "RewriteImages demo_yaml demo_ref ''old'' demo_input = (''new'', [rewrite_decision demo_ref demo_cache ''web'' ''x''], Inr ())"
  "hasRewrite [rewrite_decision demo_ref demo_cache ''web'' ''x'']" "cache_of demo_input = demo_cache" "rereads demo_yaml ''new''"
proof -
  show c: "cache_of demo_input = demo_cache" by (simp add: cache_of_def demo_input_def demo_settings_def)
  have "WillRewrite demo_input" by (simp add: WillRewrite_def shouldRun_def demo_input_def demo_settings_def demo_cache_def Let_def)
  moreover have "services_of (demo_file ''x'') = Some (Node MappingNode [] [] 0 [] []
       [scalar_node ''web'', Node MappingNode [] [] 0 [] [] [scalar_node ''image'', scalar_node ''x'']])"
    by (simp add: services_of_def demo_file_def documentNode_def mappingFieldNode_def)
  moreover have "service_image (Node MappingNode [] [] 0 [] [] [scalar_node ''image'', scalar_node ''x'']) = Some ''x''"
    by (simp add: service_image_def mappingFieldNode_def)
  ultimately have f: "file_actions demo_yaml demo_ref ''old'' demo_input = [rewrite_decision demo_ref demo_cache ''web'' ''x'']"
    unfolding file_actions_def c by (simp add: demo_yaml_def rewrite_service_alt)
  show h: "hasRewrite [rewrite_decision demo_ref demo_cache ''web'' ''x'']"
    by (simp add: hasRewrite_def demo_decision new_action_def)
  show "RewriteImages demo_yaml demo_ref ''old'' demo_input = (''new'', [rewrite_decision demo_ref demo_cache ''web'' ''x''], Inr ())"
    unfolding RewriteImages_alt f c Let_def using h by (simp add: demo_yaml_def demo_rewritten_def)
  show "rereads demo_yaml ''new''" by (auto simp: rereads_def demo_yaml_def split: if_splits)
qed

lemma demo_host: "CHR ''/'' \<notin> set (rc_Hostname demo_cache)" "rc_UseUpstreamPrefix demo_cache"
  by (simp_all add: demo_cache_def)

theorem RewriteImages_idempotent_witness:
  "\<exists>again. RewriteImages demo_yaml demo_ref ''new'' demo_input = (''new'', again, Inr ()) \<and> \<not> hasRewrite again"
  using RewriteImages_idempotent [OF demo_ref_laws _ demo_runs(4) demo_runs(1)] demo_host(1) by (simp add: demo_runs(3))

theorem RewriteImages_images_witness:
  "\<exists>root root' services services'. yaml_Unmarshal demo_yaml ''old'' = Inr root \<and> yaml_Unmarshal demo_yaml ''new'' = Inr root' \<and>
    shape (blank_document root') = shape (blank_document root) \<and>
    services_of root = Some services \<and> services_of root' = Some services' \<and>
    images (nd_Content services') = map (apsnd (new_image demo_ref demo_cache)) (images (nd_Content services)) \<and>
    map (\<lambda>a. (ra_Service a, ra_Original a)) [rewrite_decision demo_ref demo_cache ''web'' ''x''] = images (nd_Content services)"
  using RewriteImages_images [OF demo_runs(4,1,2)] by (simp only: demo_runs(3))

theorem port_registry_unparseable_witness:
  "\<exists>e. demo_ref (ra_Rewritten (rewrite_decision demo_ref demo_cache [] ''r:5/x'')) = Inl e"
proof (rule port_registry_unparseable [OF demo_ref_laws demo_host])
  show "demo_ref ''r:5/x'' = Inr \<lparr>nm_Domain = ''r:5'', nm_Path = ''x'', nm_Tag = None\<rparr>"
    by (simp add: demo_ref_def)
  moreover have "ascii_lower CHR ''r'' \<noteq> ascii_lower CHR ''m''" by code_simp
  ultimately show "ra_Rewritten (rewrite_decision demo_ref demo_cache [] ''r:5/x'') \<noteq> []"
    by (simp add: rewrite_decision_def demo_domain Let_def to_lower_def) (simp add: demo_cache_def)
qed simp

end
