(* ===== verification/Hosts.thy ===== *)
theory Hosts
  imports Settings
begin

text \<open>
  Docker hosts: biz/host.go, biz/hostop.go, biz/host_addon_extract.go, and the pool of clients of
  docker/host.go.

  A client is known by the endpoint it was created for.  The goroutine that probes a new host runs here
  after the operation that starts it.  \<open>strings.ToLower\<close> is exact on ASCII.
\<close>

section \<open>Clients\<close>

text \<open>The answer of \<open>/info\<close>.\<close>

record docker_info =
  di_LocalNodeState :: string
  di_ControlAvailable :: bool
  di_Nodes :: int
  di_RemoteManagers :: "string list"
  di_ServerVersion :: string
  di_OSType :: string
  di_Architecture :: string
  di_NCPU :: int
  di_MemTotal :: int
  di_Name :: string

text \<open>Making a client only checks its endpoint.\<close>

record ('b, 'raw, 'w) host_env =
  hx_server :: "('b, 'raw, 'w) server_env"
  hx_NewClient :: "string \<Rightarrow> go_error + unit"
  hx_Info :: "string \<Rightarrow> 'w \<Rightarrow> (go_error + docker_info) \<times> 'w"
  hx_standalone :: bool

abbreviation hosts_of :: "('b, 'raw, 'w) host_env \<Rightarrow> ('b, 'raw, dao_host) bolt" where
  "hosts_of H \<equiv> dao_host (sx_dao (hx_server H))"

definition GetClient_host :: "('b, 'raw, 'w) host_env \<Rightarrow> string \<Rightarrow> string \<Rightarrow> ('b, 'w, go_error + string) sprog" where
  "GetClient_host H hostID endpoint =
     State (\<lambda>s. case sv_clients s hostID of
         Some c \<Rightarrow> (Inr c, s)
       | None \<Rightarrow> (case hx_NewClient H endpoint of
             Inl e \<Rightarrow> (Inl e, s)
           | Inr _ \<Rightarrow> (Inr endpoint, s\<lparr>sv_clients := (sv_clients s)(hostID \<mapsto> endpoint)\<rparr>)))"

definition RemoveClient :: "string \<Rightarrow> ('b, 'w, unit) sprog" where
  "RemoveClient hostID = change (\<lambda>s. s\<lparr>sv_clients := (sv_clients s)(hostID := None)\<rparr>)"

definition TestConnection :: "('b, 'raw, 'w) host_env \<Rightarrow> string \<Rightarrow> ('b, 'w, go_error + docker_info) sprog" where
  "TestConnection H endpoint =
     (case hx_NewClient H endpoint of
        Inl e \<Rightarrow> State_Monad.return (Inl e)
      | Inr _ \<Rightarrow> external (hx_Info H endpoint))"

definition RefreshClient :: "('b, 'raw, 'w) host_env \<Rightarrow> string \<Rightarrow> string \<Rightarrow> ('b, 'w, go_error + unit) sprog" where
  "RefreshClient H hostID endpoint = do {
     _ \<leftarrow> RemoveClient hostID;
     r \<leftarrow> GetClient_host H hostID endpoint;
     State_Monad.return (map_sum id (\<lambda>_. ()) r)
   }"

section \<open>Validation\<close>

definition host_error :: "string \<Rightarrow> go_error \<Rightarrow> server_error + 'a" where
  "host_error code msg = Inl (SvCoded code msg)"

definition scheme_of :: "string \<Rightarrow> string" where
  "scheme_of endpoint = (case str_cut ''://'' endpoint of Some (a, _) \<Rightarrow> to_lower a | None \<Rightarrow> [])"

definition validSchemes :: "string list" where
  "validSchemes = [''http'', ''https'', ''tcp'', ''unix'', ''ssh'']"

definition quoted :: "string \<Rightarrow> string" where
  "quoted s = [CHR 0x27] @ s @ [CHR 0x27]"

definition suggestion :: "dao_host \<Rightarrow> string \<Rightarrow> string \<Rightarrow> server_error + 'a" where
  "suggestion h scheme label =
     Inl (EndpointSuggestion (ho_Endpoint h) (scheme @ ho_Endpoint h) (ho_AuthMethod h)
       (''Endpoint missing scheme. For Auth Method '' @ quoted label @ '' the expected scheme is '' @ scheme))"

definition missing_scheme :: "dao_host \<Rightarrow> server_error + 'a" where
  "missing_scheme h =
     (let am = ho_AuthMethod h in
      if am = ''socket'' \<and> has_prefix (ho_Endpoint h) ''/'' then suggestion h ''unix://'' ''Docker Socket''
      else if am = ''tcp'' then suggestion h ''tcp://'' ''TCP''
      else if am = ''tcp+tls'' then suggestion h ''tcp://'' ''TCP + TLS''
      else if am = ''ssh'' then suggestion h ''ssh://'' ''SSH''
      else host_error ''ErrHostEndpointFormat'' (''Endpoint missing scheme. Pick an Auth Method to get a suggestion, '' @
        ''or prefix the endpoint with one of: tcp://, unix://, ssh://, https:// (for Swarm federation)''))"

definition expected_auth :: "string \<Rightarrow> string" where
  "expected_auth scheme =
     (if scheme = ''unix'' then ''socket'' else if scheme = ''tcp'' then ''tcp'' else if scheme = ''ssh'' then ''ssh'' else [])"

definition auth_matches :: "string \<Rightarrow> string \<Rightarrow> bool" where
  "auth_matches scheme am \<longleftrightarrow>
     scheme = ''http'' \<or> scheme = ''https'' \<or> am = expected_auth scheme \<or> (am = ''tcp+tls'' \<and> scheme = ''tcp'') \<or> am = []"

definition trimmed_host :: "dao_host \<Rightarrow> dao_host" where
  "trimmed_host h = h\<lparr>ho_Name := TrimSpace (ho_Name h), ho_Endpoint := TrimSpace (ho_Endpoint h), ho_SSHUser := TrimSpace (ho_SSHUser h)\<rparr>"

definition validateAndNormalizeHost :: "dao_host \<Rightarrow> server_error + dao_host" where
  "validateAndNormalizeHost host =
     (let h = trimmed_host host; scheme = scheme_of (ho_Endpoint h); am = ho_AuthMethod h in
      if ho_Name h = [] then host_error ''ErrHostValidation'' ''Name is required''
      else if ho_Endpoint h = [] then host_error ''ErrHostValidation'' ''Endpoint is required''
      else if scheme = [] then missing_scheme h
      else if scheme \<notin> set validSchemes then
        host_error ''ErrHostEndpointFormat'' (''Endpoint scheme '' @ quoted scheme @ '' is not supported. Valid schemes: tcp, unix, ssh, http, https'')
      else if \<not> auth_matches scheme am then
        host_error ''ErrHostEndpointScheme'' (''Endpoint scheme '' @ quoted (scheme @ ''://'') @ '' does not match Auth Method '' @ quoted am @
          ''. Expected Auth Method: '' @ expected_auth scheme)
      else if am = ''ssh'' \<and> ho_SSHUser h = [] then
        host_error ''ErrHostValidation'' ''SSH User is required when Auth Method is SSH''
      else if am = ''tcp+tls'' \<and> TrimSpace (ho_TLSCACert h) = [] then
        host_error ''ErrHostValidation'' ''TLS CA Certificate is required when Auth Method is TCP + TLS''
      else Inr h)"

section \<open>Classification\<close>

record host_probe =
  pb_Type :: string
  pb_SwarmNodeState :: string
  pb_ControlAvailable :: bool
  pb_ClusterNodes :: int

text \<open>A dash in UTF-8.\<close>

definition em_dash :: string where
  "em_dash = [char_of (0xE2 :: nat), char_of (0x80 :: nat), char_of (0x94 :: nat)]"

definition ProbeHost :: "('b, 'raw, 'w) host_env \<Rightarrow> string \<Rightarrow> ('b, 'w, server_error + host_probe) sprog" where
  "ProbeHost H endpoint =
     (let trimmed = TrimSpace endpoint in
      if trimmed = [] then State_Monad.return (host_error ''ErrHostValidation'' ''Endpoint is required'')
      else if has_prefix trimmed ''http://'' \<or> has_prefix trimmed ''https://'' then
        State_Monad.return (Inr \<lparr>pb_Type = ''swarm_via_swirl'', pb_SwarmNodeState = [], pb_ControlAvailable = False, pb_ClusterNodes = 0\<rparr>)
      else do {
        r \<leftarrow> TestConnection H endpoint;
        State_Monad.return (case r of
          Inl e \<Rightarrow> host_error ''ErrHostUnreachable'' e
        | Inr info \<Rightarrow>
            if di_LocalNodeState info = ''active'' \<and> \<not> di_ControlAvailable info then
              Inl (WorkerRejected (filter (\<lambda>a. a \<noteq> []) (di_RemoteManagers info)))
            else if di_LocalNodeState info = ''active'' then
              Inl (SvError (''direct swarm manager socket is not supported '' @ em_dash @
                '' deploy a Swirl instance inside the cluster (MODE=swarm) and register it via its https:// URL with a federation token''))
            else Inr \<lparr>pb_Type = ''standalone'', pb_SwarmNodeState = di_LocalNodeState info,
                   pb_ControlAvailable = di_ControlAvailable info, pb_ClusterNodes = di_Nodes info\<rparr>)
      })"

definition trim_right_slashes :: "string \<Rightarrow> string" where
  "trim_right_slashes s = rev (dropWhile (\<lambda>c. c = CHR ''/'') (rev s))"

definition classified :: "host_probe \<Rightarrow> dao_host \<Rightarrow> dao_host" where
  "classified p h =
     (if pb_Type p = ''swarm_via_swirl''
      then h\<lparr>ho_Type := pb_Type p, ho_AuthMethod := ''swirl'', ho_SwirlURL := trim_right_slashes (ho_Endpoint h)\<rparr>
      else h\<lparr>ho_Type := pb_Type p\<rparr>)"

section \<open>Operations\<close>

definition syncHost :: "('b, 'raw, 'w) host_env \<Rightarrow> string \<Rightarrow> string \<Rightarrow> ('b, 'w, unit) sprog" where
  "syncHost H key endpoint = do {
     r \<leftarrow> TestConnection H endpoint;
     case r of
       Inl e \<Rightarrow> do {
         _ \<leftarrow> db_write ''host'' (HostUpdateStatus (hosts_of H) key ''error'' e [] [] [] 0 0);
         State_Monad.return ()
       }
     | Inr info \<Rightarrow> do {
         _ \<leftarrow> db_write ''host'' (HostUpdateStatus (hosts_of H) key ''connected'' [] (di_ServerVersion info) (di_OSType info)
                (di_Architecture info) (di_NCPU info) (di_MemTotal info));
         _ \<leftarrow> GetClient_host H key endpoint;
         State_Monad.return ()
       }
   }"

definition sync_if_standalone :: "('b, 'raw, 'w) host_env \<Rightarrow> dao_host \<Rightarrow> ('b, 'w, unit) sprog" where
  "sync_if_standalone H h =
     (if ho_Type h \<noteq> ''swarm_via_swirl'' then syncHost H (ho_ID h) (ho_Endpoint h) else State_Monad.return ())"

definition Find_host :: "('b, 'raw, 'w) host_env \<Rightarrow> string \<Rightarrow> ('b, 'w, server_error + dao_host option) sprog" where
  "Find_host H key = db_read ''host'' (HostGet (hosts_of H) key)"

definition GetAll_hosts :: "('b, 'raw, 'w) host_env \<Rightarrow> ('b, 'w, server_error + dao_host list) sprog" where
  "GetAll_hosts H = db_read ''host'' (HostGetAll (hosts_of H))"

definition Create_host :: "('b, 'raw, 'w) host_env \<Rightarrow> dao_host \<Rightarrow> web_user option \<Rightarrow> ('b, 'w, server_error + unit) sprog" where
  "Create_host H host user =
     or_fail (validateAndNormalizeHost host) (\<lambda>h. do {
       p \<leftarrow> ProbeHost H (ho_Endpoint h);
       or_fail p (\<lambda>probe. do {
         key \<leftarrow> external (sx_createId (hx_server H));
         t \<leftarrow> external (sx_now (hx_server H));
         let h = (classified probe h)\<lparr>ho_ID := key, ho_Status := ''disconnected'', ho_CreatedAt := t, ho_UpdatedAt := t,
           ho_CreatedBy := newOperator user, ho_UpdatedBy := newOperator user\<rparr>;
         w \<leftarrow> db_write ''host'' (HostCreate (hosts_of H) h);
         or_fail w (\<lambda>_. do {
           _ \<leftarrow> CreateHost (hx_server H) ''Create'' key (ho_Name h) user;
           _ \<leftarrow> sync_if_standalone H h;
           State_Monad.return (Inr ())
         })
       })
     })"

text \<open>An immutable host takes a new name and color only.\<close>

definition existing_host :: "('b, 'raw, 'w) host_env \<Rightarrow> string \<Rightarrow> 'b \<Rightarrow> dao_host option" where
  "existing_host H key b = (case HostGet (hosts_of H) key b of Inl _ \<Rightarrow> None | Inr h \<Rightarrow> h)"

definition update_immutable :: "('b, 'raw, 'w) host_env \<Rightarrow> dao_host \<Rightarrow> dao_host \<Rightarrow> web_user option \<Rightarrow> ('b, 'w, server_error + unit) sprog" where
  "update_immutable H existing host user =
     (let name = TrimSpace (ho_Name host) in
      if name = [] then State_Monad.return (host_error ''ErrHostValidation'' ''Name is required'')
      else do {
        t \<leftarrow> external (sx_now (hx_server H));
        w \<leftarrow> db_write ''host'' (HostUpdate (hosts_of H)
               (existing\<lparr>ho_Name := name, ho_Color := ho_Color host, ho_UpdatedAt := t, ho_UpdatedBy := newOperator user\<rparr>));
        or_fail w (\<lambda>_. do {
          _ \<leftarrow> CreateHost (hx_server H) ''Update'' (ho_ID existing) name user;
          State_Monad.return (Inr ())
        })
      })"

definition Update_host :: "('b, 'raw, 'w) host_env \<Rightarrow> dao_host \<Rightarrow> web_user option \<Rightarrow> ('b, 'w, server_error + unit) sprog" where
  "Update_host H host user = do {
     existing \<leftarrow> ask (\<lambda>s. if ho_ID host = [] then None else existing_host H (ho_ID host) (sv_db s ''host''));
     case (case existing of Some e \<Rightarrow> if ho_Immutable e then Some e else None | None \<Rightarrow> None) of
       Some e \<Rightarrow> update_immutable H e host user
     | None \<Rightarrow>
         or_fail (validateAndNormalizeHost host) (\<lambda>h. do {
           p \<leftarrow> ProbeHost H (ho_Endpoint h);
           or_fail p (\<lambda>probe. do {
             t \<leftarrow> external (sx_now (hx_server H));
             let h = (classified probe h)\<lparr>ho_UpdatedAt := t, ho_UpdatedBy := newOperator user\<rparr>;
             w \<leftarrow> db_write ''host'' (HostUpdate (hosts_of H) h);
             or_fail w (\<lambda>_. do {
               _ \<leftarrow> CreateHost (hx_server H) ''Update'' (ho_ID h) (ho_Name h) user;
               _ \<leftarrow> RemoveClient (ho_ID h);
               _ \<leftarrow> sync_if_standalone H h;
               State_Monad.return (Inr ())
             })
           })
         })
   }"

definition Delete_host :: "('b, 'raw, 'w) host_env \<Rightarrow> string \<Rightarrow> string \<Rightarrow> web_user option \<Rightarrow> ('b, 'w, server_error + unit) sprog" where
  "Delete_host H key name user = do {
     existing \<leftarrow> ask (\<lambda>s. existing_host H key (sv_db s ''host''));
     if (case existing of None \<Rightarrow> False | Some e \<Rightarrow> ho_Immutable e)
     then State_Monad.return (host_error ''ErrHostImmutable'' ''host: system-managed, cannot be edited or deleted'')
     else do {
       _ \<leftarrow> RemoveClient key;
       w \<leftarrow> db_write ''host'' (HostDelete (hosts_of H) key);
       or_fail w (\<lambda>_. do {
         _ \<leftarrow> CreateHost (hx_server H) ''Delete'' key name user;
         State_Monad.return (Inr ())
       })
     }
   }"

definition no_host :: dao_host where
  "no_host = \<lparr>ho_ID = [], ho_Name = [], ho_Endpoint = [], ho_AuthMethod = [], ho_TLSCACert = [], ho_TLSCert = [], ho_TLSKey = [],
     ho_SSHUser = [], ho_SSHKey = [], ho_Status = [], ho_Error = [], ho_Color = [], ho_Type = [], ho_SwirlURL = [],
     ho_SwirlToken = [], ho_TokenExpiresAt = 0, ho_TokenAutoRefresh = False, ho_Immutable = False, ho_EngineVer = [], ho_OS = [],
     ho_Arch = [], ho_CPUs = 0, ho_Memory = 0, ho_CreatedAt = 0, ho_UpdatedAt = 0, ho_CreatedBy = no_operator,
     ho_UpdatedBy = no_operator, ho_AddonConfigExtract = []\<rparr>"

definition Test_host :: "('b, 'raw, 'w) host_env \<Rightarrow> string \<Rightarrow> string \<Rightarrow> ('b, 'w, server_error + docker_info) sprog" where
  "Test_host H endpoint authMethod =
     or_fail (validateAndNormalizeHost (no_host\<lparr>ho_Endpoint := TrimSpace endpoint, ho_Name := ''test'', ho_AuthMethod := authMethod\<rparr>)) (\<lambda>stub. do {
       r \<leftarrow> TestConnection H (ho_Endpoint stub);
       State_Monad.return (map_sum (SvCoded ''ErrHostUnreachable'') id r)
     })"

definition Sync_host :: "('b, 'raw, 'w) host_env \<Rightarrow> string \<Rightarrow> ('b, 'w, server_error + unit) sprog" where
  "Sync_host H key = do {
     r \<leftarrow> Find_host H key;
     or_fail r (\<lambda>x. case x of
       None \<Rightarrow> State_Monad.return (Inr ())
     | Some h \<Rightarrow> do { _ \<leftarrow> syncHost H (ho_ID h) (ho_Endpoint h); State_Monad.return (Inr ()) })
   }"

section \<open>The host of the server itself\<close>

definition LocalHostID :: string where "LocalHostID = ''local''"

definition trim_suffix :: "string \<Rightarrow> string \<Rightarrow> string" where
  "trim_suffix s suf = (if suf \<noteq> [] \<and> has_prefix (rev s) (rev suf) then take (length s - length suf) s else s)"

definition isLocalSocketEndpoint :: "string \<Rightarrow> bool" where
  "isLocalSocketEndpoint ep =
     (let s = TrimSpace ep in
      if s = [] then False
      else trim_suffix s ''/'' = ''unix:///var/run/docker.sock'' \<or> trim_suffix s ''/'' = ''/var/run/docker.sock'')"

definition auto_local :: "dao_host \<Rightarrow> bool" where
  "auto_local h \<longleftrightarrow> ho_ID h = LocalHostID \<and> ho_Immutable h"

definition operator_local :: "dao_host \<Rightarrow> bool" where
  "operator_local h \<longleftrightarrow> \<not> ho_Immutable h \<and> isLocalSocketEndpoint (ho_Endpoint h)"

definition local_host :: "int \<Rightarrow> int \<Rightarrow> dao_host" where
  "local_host created updated =
     no_host\<lparr>ho_ID := LocalHostID, ho_Name := ''local'', ho_Endpoint := ''unix:///var/run/docker.sock'', ho_AuthMethod := ''socket'',
       ho_Status := ''disconnected'', ho_Type := ''standalone'', ho_Immutable := True, ho_CreatedAt := created, ho_UpdatedAt := updated\<rparr>"

definition EnsureLocal :: "('b, 'raw, 'w) host_env \<Rightarrow> ('b, 'w, server_error + unit) sprog" where
  "EnsureLocal H =
     (if \<not> hx_standalone H then State_Monad.return (Inr ())
      else do {
        r \<leftarrow> GetAll_hosts H;
        or_fail r (\<lambda>hosts.
          case (find auto_local (rev hosts), find operator_local hosts) of
            (Some l, Some _) \<Rightarrow> do {
              _ \<leftarrow> RemoveClient (ho_ID l);
              db_write ''host'' (HostDelete (hosts_of H) (ho_ID l))
            }
          | (None, None) \<Rightarrow> do {
              c \<leftarrow> external (sx_now (hx_server H));
              u \<leftarrow> external (sx_now (hx_server H));
              w \<leftarrow> db_write ''host'' (HostCreate (hosts_of H) (local_host c u));
              or_fail w (\<lambda>_. do {
                _ \<leftarrow> syncHost H LocalHostID (ho_Endpoint (local_host c u));
                State_Monad.return (Inr ())
              })
            }
          | _ \<Rightarrow> State_Monad.return (Inr ()))
      })"

section \<open>Clients of hosts, and their errors\<close>

definition resolveHostClient :: "('b, 'raw, 'w) host_env \<Rightarrow> string \<Rightarrow> ('b, 'w, server_error + string \<times> dao_host) sprog" where
  "resolveHostClient H hostID =
     (if hostID = [] then State_Monad.return (host_error ''ErrHostNotFound'' ''host id is required'')
      else do {
        r \<leftarrow> Find_host H hostID;
        or_fail r (\<lambda>x. case x of
          None \<Rightarrow> State_Monad.return (host_error ''ErrHostNotFound'' (''host '' @ go_quote hostID @ '' is no longer registered''))
        | Some h \<Rightarrow> do {
            c \<leftarrow> GetClient_host H (ho_ID h) (ho_Endpoint h);
            State_Monad.return (case c of
              Inl e \<Rightarrow> host_error ''ErrHostUnreachable'' (''Docker client for host '' @ go_quote (ho_ID h) @ '' ('' @ ho_Endpoint h @
                '') could not be created: '' @ e)
            | Inr cli \<Rightarrow> Inr (cli, h))
          })
      })"

definition isConnectivityError :: "string \<Rightarrow> bool" where
  "isConnectivityError msg =
     list_ex (\<lambda>needle. contains (to_lower msg) needle)
       [''connection refused'', ''no such host'', ''no such file or directory'', ''network is unreachable'', ''i/o timeout'',
        ''connect: timed out'', ''tls handshake'', ''cannot connect to the docker daemon'']"

text \<open>The class of an error of the daemon and its text.\<close>

definition wrapOpError :: "string \<Rightarrow> string \<Rightarrow> string \<Rightarrow> dao_host option \<Rightarrow> bool \<Rightarrow> string \<Rightarrow> string \<Rightarrow> string \<Rightarrow> server_error" where
  "wrapOpError op resourceKind resourceName host notFound msg notFoundCode opFailedCode =
     (let hostRef = (case host of None \<Rightarrow> ''unknown host'' | Some h \<Rightarrow> ''host '' @ go_quote (ho_ID h) @ '' ('' @ ho_Endpoint h @ '')'');
          label = (if TrimSpace resourceKind = [] then ''resource'' else TrimSpace resourceKind);
          tgt = (if resourceName = [] then label else label @ '' '' @ go_quote resourceName)
      in if notFound then SvCoded notFoundCode (tgt @ '' not found on '' @ hostRef @ '' ('' @ op @ ''): '' @ msg)
         else if isConnectivityError msg then
           SvCoded ''ErrHostUnreachable'' (''cannot reach '' @ hostRef @ '' while trying to '' @ op @ '' '' @ tgt @ '': '' @ msg)
         else SvCoded opFailedCode (tgt @ '': '' @ op @ '' failed on '' @ hostRef @ '': '' @ msg))"

section \<open>Add-on configuration of a host\<close>

definition empty_extract :: addon_extract where
  "empty_extract = \<lparr>ax_Traefik = None, ax_Sablier = None, ax_Watchtower = None, ax_Backup = None, ax_RegistryCache = None\<rparr>"

fun dedup_from :: "string list \<Rightarrow> string list \<Rightarrow> string list" where
  "dedup_from seen [] = []"
| "dedup_from seen (v # vs) = (if v = [] \<or> v \<in> set seen then dedup_from seen vs else v # dedup_from (v # seen) vs)"

definition dedup :: "string list \<Rightarrow> string list" where
  "dedup xs = dedup_from [] xs"

definition decodeAddonConfigExtract :: "('b, 'raw, 'w) server_env \<Rightarrow> string \<Rightarrow> addon_extract" where
  "decodeAddonConfigExtract E s = (if s = [] then empty_extract else sx_decodeExtract E s)"

definition GetAddonConfigExtract :: "('b, 'raw, 'w) host_env \<Rightarrow> string \<Rightarrow> ('b, 'w, server_error + addon_extract) sprog" where
  "GetAddonConfigExtract H hostID =
     (if hostID = [] then State_Monad.return (Inr empty_extract)
      else do {
        r \<leftarrow> Find_host H hostID;
        State_Monad.return (map_sum id (\<lambda>x. case x of
          None \<Rightarrow> empty_extract | Some h \<Rightarrow> decodeAddonConfigExtract (hx_server H) (ho_AddonConfigExtract h)) r)
      })"

definition kept_list :: "string list \<Rightarrow> string list \<Rightarrow> string list" where
  "kept_list new old = (if new = [] then old else new)"

definition merge_traefik :: "int \<Rightarrow> web_user option \<Rightarrow> traefik_extract option \<Rightarrow> traefik_extract \<Rightarrow> traefik_extract" where
  "merge_traefik t user current x =
     (let x = x\<lparr>tx_EntryPoints := dedup (tx_EntryPoints x), tx_CertResolvers := dedup (tx_CertResolvers x),
        tx_Middlewares := dedup (tx_Middlewares x), tx_Networks := dedup (tx_Networks x)\<rparr> in
      if tx_SourceFile x \<noteq> [] then
        x\<lparr>tx_UploadedAt := (case tx_UploadedAt x of None \<Rightarrow> Some t | Some u \<Rightarrow> Some u),
          tx_UploadedBy := (case user of Some u \<Rightarrow> if tx_UploadedBy x = [] then u_name u else tx_UploadedBy x | None \<Rightarrow> tx_UploadedBy x)\<rparr>
      else case current of
        None \<Rightarrow> x
      | Some c \<Rightarrow>
          x\<lparr>tx_SourceFile := tx_SourceFile c, tx_UploadedAt := tx_UploadedAt c, tx_UploadedBy := tx_UploadedBy c,
            tx_EntryPoints := kept_list (tx_EntryPoints x) (tx_EntryPoints c),
            tx_CertResolvers := kept_list (tx_CertResolvers x) (tx_CertResolvers c),
            tx_Middlewares := kept_list (tx_Middlewares x) (tx_Middlewares c),
            tx_Networks := kept_list (tx_Networks x) (tx_Networks c)\<rparr>)"

definition merge_registry_cache :: "web_user option \<Rightarrow> registry_cache_extract option \<Rightarrow> registry_cache_extract \<Rightarrow> registry_cache_extract" where
  "merge_registry_cache user current x =
     (case (rx_AppliedAt x, current) of
        (None, Some c) \<Rightarrow> x\<lparr>rx_AppliedAt := rx_AppliedAt c, rx_AppliedBy := rx_AppliedBy c, rx_AppliedFingerprint := rx_AppliedFingerprint c\<rparr>
      | (None, None) \<Rightarrow> x
      | (Some _, _) \<Rightarrow> (case user of Some u \<Rightarrow> if rx_AppliedBy x = [] then x\<lparr>rx_AppliedBy := u_name u\<rparr> else x | None \<Rightarrow> x))"

definition or_current :: "'a option \<Rightarrow> 'a option \<Rightarrow> 'a option" where
  "or_current new old = (case new of None \<Rightarrow> old | Some x \<Rightarrow> Some x)"

definition merge_extract :: "int \<Rightarrow> web_user option \<Rightarrow> addon_extract \<Rightarrow> addon_extract \<Rightarrow> addon_extract" where
  "merge_extract t user x current =
     \<lparr>ax_Traefik = (case ax_Traefik x of None \<Rightarrow> ax_Traefik current | Some y \<Rightarrow> Some (merge_traefik t user (ax_Traefik current) y)),
      ax_Sablier = or_current (ax_Sablier x) (ax_Sablier current),
      ax_Watchtower = or_current (ax_Watchtower x) (ax_Watchtower current),
      ax_Backup = or_current (ax_Backup x) (ax_Backup current),
      ax_RegistryCache = (case ax_RegistryCache x of None \<Rightarrow> ax_RegistryCache current
        | Some y \<Rightarrow> Some (merge_registry_cache user (ax_RegistryCache current) y))\<rparr>"

definition host_for_extract :: "('b, 'raw, 'w) host_env \<Rightarrow> string \<Rightarrow> ('b, 'w, server_error + dao_host) sprog" where
  "host_for_extract H hostID =
     (if hostID = [] then State_Monad.return (Inl (SvError ''hostId is required''))
      else do {
        r \<leftarrow> Find_host H hostID;
        State_Monad.return (case r of Inl e \<Rightarrow> Inl e | Inr None \<Rightarrow> Inl (SvError ''host not found'') | Inr (Some h) \<Rightarrow> Inr h)
      })"

definition store_extract :: "('b, 'raw, 'w) host_env \<Rightarrow> string \<Rightarrow> addon_extract \<Rightarrow> ('b, 'w, server_error + unit) sprog" where
  "store_extract H hostID x =
     (case sx_encodeExtract (hx_server H) x of
        Inl e \<Rightarrow> State_Monad.return (Inl (SvError e))
      | Inr buf \<Rightarrow> db_write ''host'' (HostUpdateAddonConfigExtract (hosts_of H) hostID buf))"

text \<open>The clock is read when an upload has no time of its own.\<close>

definition needs_time :: "addon_extract option \<Rightarrow> bool" where
  "needs_time extract =
     (case extract of None \<Rightarrow> False
      | Some x \<Rightarrow> (case ax_Traefik x of None \<Rightarrow> False | Some t \<Rightarrow> tx_SourceFile t \<noteq> [] \<and> tx_UploadedAt t = None))"

definition UpdateAddonConfigExtract :: "('b, 'raw, 'w) host_env \<Rightarrow> string \<Rightarrow> addon_extract option \<Rightarrow> web_user option
    \<Rightarrow> ('b, 'w, server_error + unit) sprog" where
  "UpdateAddonConfigExtract H hostID extract user = do {
     r \<leftarrow> host_for_extract H hostID;
     or_fail r (\<lambda>h. do {
       let current = decodeAddonConfigExtract (hx_server H) (ho_AddonConfigExtract h);
       t \<leftarrow> (if needs_time extract then external (sx_now (hx_server H)) else State_Monad.return 0);
       store_extract H hostID (case extract of None \<Rightarrow> current | Some x \<Rightarrow> merge_extract t user x current)
     })
   }"

definition clear_addon :: "string \<Rightarrow> addon_extract \<Rightarrow> addon_extract" where
  "clear_addon addon x =
     (if addon = ''traefik'' then x\<lparr>ax_Traefik := None\<rparr>
      else if addon = ''sablier'' then x\<lparr>ax_Sablier := None\<rparr>
      else if addon = ''watchtower'' then x\<lparr>ax_Watchtower := None\<rparr>
      else if addon = ''backup'' then x\<lparr>ax_Backup := None\<rparr>
      else if addon = ''registryCache'' then x\<lparr>ax_RegistryCache := None\<rparr>
      else x)"

definition ClearAddonConfigExtract :: "('b, 'raw, 'w) host_env \<Rightarrow> string \<Rightarrow> string \<Rightarrow> ('b, 'w, server_error + unit) sprog" where
  "ClearAddonConfigExtract H hostID addon = do {
     r \<leftarrow> host_for_extract H hostID;
     or_fail r (\<lambda>h.
       if addon = [] then db_write ''host'' (HostUpdateAddonConfigExtract (hosts_of H) hostID [])
       else store_extract H hostID (clear_addon addon (decodeAddonConfigExtract (hx_server H) (ho_AddonConfigExtract h))))
   }"

end
