(* ===== verification/HostTheorems.thy ===== *)
theory HostTheorems
  imports Hosts StorageTypes
begin

text \<open>
  What validation accepts, that a suggested endpoint is accepted, that system hosts cannot be changed,
  that the client pool follows the stored endpoints, and that the local daemon has exactly one host.
\<close>

section \<open>Failed writes change nothing\<close>

lemma Dao_failed:
  "Dao_replace db k v b = (Inl e, b') \<Longrightarrow> b' = b" "Dao_update db k f b = (Inl e, b') \<Longrightarrow> b' = b" "Dao_delete db k b = (Inl e, b') \<Longrightarrow> b' = b"
  by (auto simp: Dao_replace_def Dao_update_def Dao_delete_def db_update_def split: sum.splits option.splits)

context bolt_bucket
begin

lemma recs_after_replace:
  "recs db (snd (Dao_replace db k v b)) = (if fst (Dao_replace db k v b) = Inr () then (recs db b)(k \<mapsto> v) else recs db b)"
  using Dao_replace_recs(1) [of k v b] Dao_failed(1) [of db k v b] by (cases "Dao_replace db k v b"; cases "fst (Dao_replace db k v b)") auto

lemma recs_after_delete:
  "recs db (snd (Dao_delete db k b)) = (if fst (Dao_delete db k b) = Inr () then (recs db b)(k := None) else recs db b)"
  using Dao_delete_recs(1) [of k b] Dao_failed(3) [of db k b] by (cases "Dao_delete db k b"; cases "fst (Dao_delete db k b)") auto

lemma recs_after_update:
  "recs db (snd (Dao_update db k f b)) =
     (if fst (Dao_update db k f b) = Inr () then (recs db b)(k := map_option f (recs db b k)) else recs db b)"
  using Dao_update_recs(1) [of k f b] Dao_failed(2) [of db k f b] by (cases "Dao_update db k f b"; cases "fst (Dao_update db k f b)") fastforce+

end

section \<open>Validation\<close>

lemma validated:
  assumes "validateAndNormalizeHost h = Inr h'"
  shows "h' = trimmed_host h" "ho_Name h' \<noteq> []" "ho_Endpoint h' \<noteq> []" "scheme_of (ho_Endpoint h') \<in> set validSchemes"
    "auth_matches (scheme_of (ho_Endpoint h')) (ho_AuthMethod h')" "ho_AuthMethod h' = ''ssh'' \<Longrightarrow> ho_SSHUser h' \<noteq> []"
    "ho_AuthMethod h' = ''tcp+tls'' \<Longrightarrow> TrimSpace (ho_TLSCACert h') \<noteq> []"
  using assms by (auto simp: validateAndNormalizeHost_def Let_def missing_scheme_def suggestion_def host_error_def split: if_splits)

lemma takeWhile_singletons: "concat (takeWhile P (map (\<lambda>c. [c]) s)) = takeWhile (\<lambda>c. P [c]) s"
  by (induction s) auto

definition space :: "char \<Rightarrow> bool" where "space c \<longleftrightarrow> IsSpace [c]"

lemma TrimLeftSpace_ascii: "ascii s \<Longrightarrow> TrimLeftSpace s = dropWhile space s"
  unfolding TrimLeftSpace_def space_def by (simp add: runes_ascii takeWhile_singletons dropWhile_eq_drop)

lemma TrimRightSpace_ascii: "ascii s \<Longrightarrow> TrimRightSpace s = rev (dropWhile space (rev s))"
  unfolding TrimRightSpace_def space_def
  by (simp add: runes_ascii takeWhile_singletons dropWhile_eq_drop rev_map rev_drop)

lemma ascii_dropWhile: "ascii s \<Longrightarrow> ascii (dropWhile P s)"
  using set_dropWhileD by (fastforce simp: ascii_def)

lemma TrimSpace_ascii: "ascii s \<Longrightarrow> TrimSpace s = rev (dropWhile space (rev (dropWhile space s)))"
  by (simp add: TrimSpace_def TrimLeftSpace_ascii TrimRightSpace_ascii ascii_dropWhile)

lemma ascii_TrimSpace: "ascii s \<Longrightarrow> ascii (TrimSpace s)"
  unfolding TrimSpace_ascii using ascii_dropWhile by (metis TrimSpace_ascii ascii_def ascii_dropWhile set_rev)

lemma dropWhile_again: "dropWhile P ys = ys \<Longrightarrow> dropWhile P (dropWhile P xs @ ys) = dropWhile P xs @ ys"
  by (induction xs) auto

lemma TrimSpace_prefixed:
  assumes "ascii s" "ascii p" "p \<noteq> []" "\<not> space (hd p)" "\<not> space (last p)"
  shows "TrimSpace (p @ TrimSpace s) = p @ TrimSpace s"
proof -
  let ?t = "TrimSpace s"
  have left: "dropWhile space (p @ ?t) = p @ ?t" using assms(3,4) by (cases p) auto
  have "dropWhile space (rev p) = rev p" using assms(3,5) by (cases p rule: rev_cases) auto
  from dropWhile_again [OF this, of "rev (dropWhile space s)"]
  have "dropWhile space (rev ?t @ rev p) = rev ?t @ rev p" by (simp add: TrimSpace_ascii [OF assms(1)])
  then show ?thesis using left assms(1,2) ascii_TrimSpace by (simp add: TrimSpace_ascii [of "p @ ?t"])
qed

lemma scheme_prefixed: "CHR '':'' \<notin> set a \<Longrightarrow> a \<noteq> [] \<Longrightarrow> scheme_of (a @ ''://'' @ x) = to_lower a"
  unfolding scheme_of_def using str_cut_at_first [of "''://''" a x] by simp

lemma suggestion_endpoint:
  "suggestion h a label = Inl (EndpointSuggestion old suggested am reason) \<Longrightarrow> suggested = a @ ho_Endpoint h"
  by (auto simp: suggestion_def)

definition schemes_of_methods :: "(string \<times> string) list" where
  "schemes_of_methods = [(''unix'', ''socket''), (''tcp'', ''tcp''), (''tcp'', ''tcp+tls''), (''ssh'', ''ssh'')]"

lemma missing_scheme_cases:
  assumes "missing_scheme h = Inl (EndpointSuggestion old suggested am reason)"
  shows "\<exists>a. suggested = a @ ''://'' @ ho_Endpoint h \<and> (a, ho_AuthMethod h) \<in> set schemes_of_methods"
  using assms unfolding missing_scheme_def Let_def host_error_def schemes_of_methods_def
  by (auto split: if_split_asm dest!: suggestion_endpoint)

lemma methods_fit:
  assumes "(a, am) \<in> set schemes_of_methods"
  shows "to_lower a = a" "a \<in> set validSchemes" "auth_matches a am" "CHR '':'' \<notin> set a" "a \<noteq> []" "ascii a" "\<not> space (hd a)"
proof -
  have "list_all (\<lambda>(a, am). to_lower a = a \<and> a \<in> set validSchemes \<and> auth_matches a am \<and> CHR '':'' \<notin> set a \<and> a \<noteq> [] \<and>
      ascii a \<and> \<not> space (hd a)) schemes_of_methods" by code_simp
  with assms show "to_lower a = a" "a \<in> set validSchemes" "auth_matches a am" "CHR '':'' \<notin> set a" "a \<noteq> []" "ascii a" "\<not> space (hd a)"
    by (auto simp: list_all_iff)
qed

lemma suggestion_from_missing:
  assumes "validateAndNormalizeHost h = Inl (EndpointSuggestion old suggested am reason)"
  shows "TrimSpace (ho_Name h) \<noteq> []" "missing_scheme (trimmed_host h) = (Inl (EndpointSuggestion old suggested am reason) :: server_error + dao_host)"
  using assms unfolding validateAndNormalizeHost_def Let_def host_error_def
  by (simp_all add: trimmed_host_def split: if_split_asm)

lemma accepted_endpoint:
  assumes "TrimSpace (ho_Name h) \<noteq> []" "TrimSpace (ho_Endpoint h) = ho_Endpoint h" "ho_Endpoint h \<noteq> []"
    "scheme_of (ho_Endpoint h) \<in> set validSchemes" "auth_matches (scheme_of (ho_Endpoint h)) (ho_AuthMethod h)"
  shows "(\<exists>h'. validateAndNormalizeHost h = Inr h' \<and> ho_Endpoint h' = ho_Endpoint h) \<or>
    (\<exists>msg. validateAndNormalizeHost h = Inl (SvCoded ''ErrHostValidation'' msg))"
proof -
  have "scheme_of (ho_Endpoint h) \<noteq> []" using assms(4) by (auto simp: validSchemes_def)
  then show ?thesis using assms unfolding validateAndNormalizeHost_def Let_def host_error_def by (simp add: trimmed_host_def)
qed

text \<open>A suggested endpoint is acceptable: the same host with the endpoint that the error proposed is
  accepted, or refused for a missing user or certificate, never again for its endpoint.\<close>

theorem suggested_endpoint_accepted:
  assumes "ascii (ho_Endpoint h)" and "validateAndNormalizeHost h = Inl (EndpointSuggestion old suggested am reason)"
  shows "(\<exists>h'. validateAndNormalizeHost (h\<lparr>ho_Endpoint := suggested\<rparr>) = Inr h' \<and> ho_Endpoint h' = suggested) \<or>
    (\<exists>msg. validateAndNormalizeHost (h\<lparr>ho_Endpoint := suggested\<rparr>) = Inl (SvCoded ''ErrHostValidation'' msg))"
proof -
  let ?e = "TrimSpace (ho_Endpoint h)"
  have name: "TrimSpace (ho_Name h) \<noteq> []" using suggestion_from_missing(1) [OF assms(2)] .
  obtain a where a: "suggested = a @ ''://'' @ ?e" "(a, ho_AuthMethod h) \<in> set schemes_of_methods"
    using missing_scheme_cases [OF suggestion_from_missing(2) [OF assms(2)]] unfolding trimmed_host_def by auto
  note fit = methods_fit [OF a(2)]
  have "\<not> space CHR ''/''" "ascii ''://''" by code_simp+
  then have "TrimSpace suggested = suggested"
    using TrimSpace_prefixed [OF assms(1), of "a @ ''://''"] fit(5-7) by (simp add: a(1))
  moreover have "scheme_of suggested = a" using scheme_prefixed [OF fit(4,5)] fit(1) by (simp add: a(1))
  moreover have "suggested \<noteq> []" using fit(5) by (simp add: a(1))
  ultimately show ?thesis using accepted_endpoint [of "h\<lparr>ho_Endpoint := suggested\<rparr>"] name fit(2,3) by simp
qed

section \<open>Steps that leave the hosts alone\<close>

lemma run_TestConnection [simp]:
  "sv_db (snd (run_state (TestConnection H ep) s)) = sv_db s" "sv_clients (snd (run_state (TestConnection H ep) s)) = sv_clients s"
  by (simp_all add: TestConnection_def run_external split: sum.split)

lemma run_ProbeHost [simp]:
  "sv_db (snd (run_state (ProbeHost H ep) s)) = sv_db s" "sv_clients (snd (run_state (ProbeHost H ep) s)) = sv_clients s"
  by (simp_all add: ProbeHost_def Let_def case_prod_unfold)

definition hosts_in :: "('b, 'raw, 'w) host_env \<Rightarrow> ('b, 'w) server \<Rightarrow> string \<rightharpoonup> dao_host" where
  "hosts_in H s = recs (hosts_of H) (sv_db s ''host'')"

text \<open>The stored hosts are under their ids and can be read, and every client in the pool was made for the
  endpoint that its host has.\<close>

definition hosts_ok :: "('b, 'raw, 'w) host_env \<Rightarrow> ('b, 'w) server \<Rightarrow> bool" where
  "hosts_ok H s \<longleftrightarrow> keyed (hosts_of H) ho_ID (sv_db s ''host'') \<and>
     (\<forall>key ep. sv_clients s key = Some ep \<longrightarrow> (\<exists>h. hosts_in H s key = Some h \<and> ho_Endpoint h = ep))"

lemma hosts_ok_cong:
  "sv_db s' ''host'' = sv_db s ''host'' \<Longrightarrow> sv_clients s' = sv_clients s \<Longrightarrow> hosts_ok H s' = hosts_ok H s"
  by (simp add: hosts_ok_def hosts_in_def)

lemma hosts_ok_id: "hosts_ok H s \<Longrightarrow> hosts_in H s key = Some h \<Longrightarrow> ho_ID h = key"
  by (simp add: hosts_ok_def hosts_in_def keyed_def)

lemma GetClient_ok:
  assumes "hosts_ok H s" "hosts_in H s key = Some h"
  shows "hosts_ok H (snd (run_state (GetClient_host H key (ho_Endpoint h)) s))"
    and "fst (run_state (GetClient_host H key (ho_Endpoint h)) s) = Inr c \<Longrightarrow> c = ho_Endpoint h"
proof -
  have pool: "ep = ho_Endpoint h" if "sv_clients s key = Some ep" for ep
    using assms that unfolding hosts_ok_def by fastforce
  show "fst (run_state (GetClient_host H key (ho_Endpoint h)) s) = Inr c \<Longrightarrow> c = ho_Endpoint h"
    using pool by (auto simp: GetClient_host_def split: option.splits sum.splits)
  show "hosts_ok H (snd (run_state (GetClient_host H key (ho_Endpoint h)) s))"
    using assms by (auto simp: GetClient_host_def hosts_ok_def hosts_in_def split: option.split sum.split)
qed

lemma GetClient_db [simp]: "sv_db (snd (run_state (GetClient_host H key ep) s)) = sv_db s"
  by (simp add: GetClient_host_def split: option.split sum.split)

lemma RemoveClient_ok: "hosts_ok H s \<Longrightarrow> hosts_ok H (snd (run_state (RemoveClient key) s))"
  by (auto simp: RemoveClient_def hosts_ok_def hosts_in_def)

text \<open>A probe changes the status of the host at most.\<close>

definition same_endpoint :: "dao_host \<Rightarrow> dao_host \<Rightarrow> bool" where
  "same_endpoint h h' \<longleftrightarrow> ho_ID h' = ho_ID h \<and> ho_Endpoint h' = ho_Endpoint h \<and> ho_Immutable h' = ho_Immutable h"

lemma same_endpoint_refl [simp]: "same_endpoint h h"
  by (simp add: same_endpoint_def)

definition hosts_alike :: "(string \<rightharpoonup> dao_host) \<Rightarrow> (string \<rightharpoonup> dao_host) \<Rightarrow> bool" where
  "hosts_alike m m' \<longleftrightarrow> (\<forall>key. rel_option same_endpoint (m key) (m' key))"

lemma hosts_alike_refl [simp]: "hosts_alike m m"
  by (simp add: hosts_alike_def option.rel_refl)

lemma hosts_alike_at:
  assumes "hosts_alike m m'"
  shows "m key = Some h \<Longrightarrow> \<exists>h'. m' key = Some h' \<and> same_endpoint h h'" "m' key = Some h' \<Longrightarrow> \<exists>h. m key = Some h \<and> same_endpoint h h'"
proof -
  have "rel_option same_endpoint (m key) (m' key)" using assms by (simp add: hosts_alike_def)
  then show "m key = Some h \<Longrightarrow> \<exists>h'. m' key = Some h' \<and> same_endpoint h h'" "m' key = Some h' \<Longrightarrow> \<exists>h. m key = Some h \<and> same_endpoint h h'"
    by (cases "m key"; cases "m' key"; simp)+
qed

lemma status_write:
  assumes "bolt_bucket (hosts_of H)" "hosts_ok H s"
    and stored: "s' = snd (run_state (db_write ''host'' (HostUpdateStatus (hosts_of H) key st msg ver os arch cpus mem)) s)"
  shows "hosts_ok H s'" "hosts_alike (hosts_in H s) (hosts_in H s')"
proof -
  let ?w = "Dao_update (hosts_of H) key (\<lambda>old. old\<lparr>ho_Status := st, ho_Error := msg,
          ho_EngineVer := (if ver \<noteq> [] then ver else ho_EngineVer old), ho_OS := (if os \<noteq> [] then os else ho_OS old),
          ho_Arch := (if arch \<noteq> [] then arch else ho_Arch old), ho_CPUs := (if cpus > 0 then cpus else ho_CPUs old),
          ho_Memory := (if mem > 0 then mem else ho_Memory old)\<rparr>) (sv_db s ''host'')"
  have s': "sv_db s' ''host'' = snd ?w" "sv_clients s' = sv_clients s"
    by (simp_all add: stored run_db_write HostUpdateStatus_def)
  then show alike: "hosts_alike (hosts_in H s) (hosts_in H s')"
    by (auto simp: hosts_alike_def hosts_in_def bolt_bucket.recs_after_update [OF assms(1)] same_endpoint_def option.rel_refl
        rel_option_iff split: option.split)
  have "keyed (hosts_of H) ho_ID (snd ?w)"
    using assms(2) by (intro bolt_bucket.keyed_update [OF assms(1)]) (simp_all add: hosts_ok_def)
  moreover have "\<exists>h. hosts_in H s' key = Some h \<and> ho_Endpoint h = ep" if pool: "sv_clients s key = Some ep" for key ep
  proof -
    obtain h where "hosts_in H s key = Some h" "ho_Endpoint h = ep" using assms(2) pool unfolding hosts_ok_def by blast
    moreover have "rel_option same_endpoint (hosts_in H s key) (hosts_in H s' key)" using alike by (simp add: hosts_alike_def)
    ultimately show ?thesis by (cases "hosts_in H s' key") (auto simp: same_endpoint_def)
  qed
  ultimately show "hosts_ok H s'" by (simp add: hosts_ok_def s')
qed

lemma syncHost_ok:
  assumes "bolt_bucket (hosts_of H)" "hosts_ok H s" "hosts_in H s key = Some h"
  shows "hosts_ok H (snd (run_state (syncHost H key (ho_Endpoint h)) s))"
    "hosts_alike (hosts_in H s) (hosts_in H (snd (run_state (syncHost H key (ho_Endpoint h)) s)))"
proof -
  obtain r s1 where r: "run_state (TestConnection H (ho_Endpoint h)) s = (r, s1)" by fastforce
  have s1: "hosts_ok H s1" "hosts_in H s1 = hosts_in H s"
    using run_TestConnection [of H "ho_Endpoint h" s] assms(2) hosts_ok_cong [of s1 s H] by (simp_all add: r hosts_in_def)
  have "hosts_ok H (snd (run_state (syncHost H key (ho_Endpoint h)) s)) \<and>
    hosts_alike (hosts_in H s) (hosts_in H (snd (run_state (syncHost H key (ho_Endpoint h)) s)))"
  proof (cases r)
    case (Inl e)
    then show ?thesis using status_write [OF assms(1) s1(1) refl] by (simp add: syncHost_def r s1(2) case_prod_unfold)
  next
    case (Inr info)
    let ?s2 = "snd (run_state (db_write ''host'' (HostUpdateStatus (hosts_of H) key ''connected'' [] (di_ServerVersion info)
        (di_OSType info) (di_Architecture info) (di_NCPU info) (di_MemTotal info))) s1)"
    have s2: "hosts_ok H ?s2" "hosts_alike (hosts_in H s) (hosts_in H ?s2)" using status_write [OF assms(1) s1(1) refl] by (simp_all add: s1(2))
    from s2(2) assms(3) obtain h' where h': "hosts_in H ?s2 key = Some h'" "ho_Endpoint h' = ho_Endpoint h"
      using hosts_alike_at(1) [OF s2(2) assms(3)] by (auto simp: same_endpoint_def)
    have final: "snd (run_state (syncHost H key (ho_Endpoint h)) s) = snd (run_state (GetClient_host H key (ho_Endpoint h)) ?s2)"
      using Inr by (simp add: syncHost_def r case_prod_unfold)
    then have "hosts_in H (snd (run_state (syncHost H key (ho_Endpoint h)) s)) = hosts_in H ?s2" by (simp add: hosts_in_def)
    with final GetClient_ok(1) [OF s2(1) h'(1)] h'(2) s2(2) show ?thesis by simp
  qed
  then show "hosts_ok H (snd (run_state (syncHost H key (ho_Endpoint h)) s))"
    "hosts_alike (hosts_in H s) (hosts_in H (snd (run_state (syncHost H key (ho_Endpoint h)) s)))" by simp_all
qed

section \<open>Operations keep the pool\<close>

text \<open>Storing a host whose client is not in the pool.\<close>

lemma replace_ok:
  assumes "bolt_bucket (hosts_of H)" "hosts_ok H s" "sv_clients s (ho_ID h) = None"
    and "run_state (db_write ''host'' (HostCreate (hosts_of H) h)) s = (r, s')"
  shows "hosts_ok H s'" "r = Inr () \<Longrightarrow> hosts_in H s' = (hosts_in H s)(ho_ID h \<mapsto> h)" "r \<noteq> Inr () \<Longrightarrow> hosts_in H s' = hosts_in H s"
proof -
  let ?w = "Dao_replace (hosts_of H) (ho_ID h) h (sv_db s ''host'')"
  have s': "sv_db s' ''host'' = snd ?w" "sv_clients s' = sv_clients s" "r = map_sum SvDao id (fst ?w)"
    using assms(4) by (auto simp: run_db_write HostCreate_def)
  have recs: "hosts_in H s' = (if fst ?w = Inr () then (hosts_in H s)(ho_ID h \<mapsto> h) else hosts_in H s)"
    by (simp add: hosts_in_def s'(1) bolt_bucket.recs_after_replace [OF assms(1)])
  have "(r = Inr ()) = (fst ?w = Inr ())" by (cases "fst ?w") (simp_all add: s'(3))
  then show "r = Inr () \<Longrightarrow> hosts_in H s' = (hosts_in H s)(ho_ID h \<mapsto> h)" "r \<noteq> Inr () \<Longrightarrow> hosts_in H s' = hosts_in H s"
    using recs by simp_all
  have "keyed (hosts_of H) ho_ID (snd ?w)"
    using assms(2) by (intro bolt_bucket.keyed_replace [OF assms(1)]) (simp_all add: hosts_ok_def)
  then show "hosts_ok H s'" using assms(2,3) recs by (auto simp: hosts_ok_def s'(1,2))
qed

lemma delete_ok:
  assumes "bolt_bucket (hosts_of H)" "hosts_ok H s" "sv_clients s key = None"
    and "run_state (db_write ''host'' (HostDelete (hosts_of H) key)) s = (r, s')"
  shows "hosts_ok H s'" "r = Inr () \<Longrightarrow> hosts_in H s' = (hosts_in H s)(key := None)" "r \<noteq> Inr () \<Longrightarrow> hosts_in H s' = hosts_in H s"
proof -
  let ?w = "Dao_delete (hosts_of H) key (sv_db s ''host'')"
  have s': "sv_db s' ''host'' = snd ?w" "sv_clients s' = sv_clients s" "r = map_sum SvDao id (fst ?w)"
    using assms(4) by (auto simp: run_db_write HostDelete_def)
  have recs: "hosts_in H s' = (if fst ?w = Inr () then (hosts_in H s)(key := None) else hosts_in H s)"
    by (simp add: hosts_in_def s'(1) bolt_bucket.recs_after_delete [OF assms(1)])
  have "(r = Inr ()) = (fst ?w = Inr ())" by (cases "fst ?w") (simp_all add: s'(3))
  then show "r = Inr () \<Longrightarrow> hosts_in H s' = (hosts_in H s)(key := None)" "r \<noteq> Inr () \<Longrightarrow> hosts_in H s' = hosts_in H s"
    using recs by simp_all
  have "keyed (hosts_of H) ho_ID (snd ?w)"
    using assms(2) by (intro bolt_bucket.keyed_delete [OF assms(1)]) (simp add: hosts_ok_def)
  then show "hosts_ok H s'" using assms(2,3) recs by (auto simp: hosts_ok_def s'(1,2))
qed

text \<open>Replacing the record of a host and dropping its client.\<close>

lemma update_and_remove_ok:
  assumes "bolt_bucket (hosts_of H)" "hosts_ok H s"
    and "run_state (db_write ''host'' (HostUpdate (hosts_of H) h)) s = (r, s')"
  shows "r \<noteq> Inr () \<Longrightarrow> hosts_ok H s' \<and> hosts_in H s' = hosts_in H s"
    and "r = Inr () \<Longrightarrow> \<exists>old. hosts_in H s (ho_ID h) = Some old \<and> hosts_in H s' = (hosts_in H s)(ho_ID h \<mapsto> kept_of_host h old) \<and>
           (hosts_ok H (s'\<lparr>sv_clients := (sv_clients s')(ho_ID h := None)\<rparr>)) \<and>
           (ho_Endpoint h = ho_Endpoint old \<longrightarrow> hosts_ok H s')"
proof -
  let ?w = "Dao_update (hosts_of H) (ho_ID h) (kept_of_host h) (sv_db s ''host'')"
  have s': "sv_db s' ''host'' = snd ?w" "sv_clients s' = sv_clients s" "r = map_sum SvDao id (fst ?w)"
    using assms(3) by (auto simp: run_db_write HostUpdate_def)
  have k: "keyed (hosts_of H) ho_ID (snd ?w)"
    using assms(2) by (intro bolt_bucket.keyed_update [OF assms(1)]) (simp_all add: hosts_ok_def kept_of_host_def)
  have recs: "hosts_in H s' = (if fst ?w = Inr () then (hosts_in H s)(ho_ID h := map_option (kept_of_host h) (hosts_in H s (ho_ID h))) else hosts_in H s)"
    by (simp add: hosts_in_def s'(1) bolt_bucket.recs_after_update [OF assms(1)])
  have eq: "(r = Inr ()) = (fst ?w = Inr ())" by (cases "fst ?w") (simp_all add: s'(3))
  then show "r \<noteq> Inr () \<Longrightarrow> hosts_ok H s' \<and> hosts_in H s' = hosts_in H s"
    using recs k assms(2) by (auto simp: hosts_ok_def s'(1,2))
  assume "r = Inr ()"
  then have ok: "fst ?w = Inr ()" using eq by simp
  obtain b' where "?w = (Inr (), b')" using ok by (cases ?w) auto
  then obtain old where old: "hosts_in H s (ho_ID h) = Some old"
    using bolt_bucket.Dao_update_recs(1) [OF assms(1)] unfolding hosts_in_def by blast
  have new: "hosts_in H s' = (hosts_in H s)(ho_ID h \<mapsto> kept_of_host h old)" using recs ok old by simp
  have e: "ho_Endpoint (kept_of_host h old) = ho_Endpoint h" by (simp add: kept_of_host_def)
  have pool: "ep = ho_Endpoint old" if "sv_clients s (ho_ID h) = Some ep" for ep
    using assms(2) old that unfolding hosts_ok_def by fastforce
  have "hosts_ok H (s'\<lparr>sv_clients := (sv_clients s')(ho_ID h := None)\<rparr>)"
    using assms(2) k new by (auto simp: hosts_ok_def s'(1,2) hosts_in_def)
  moreover have "hosts_ok H s'" if same: "ho_Endpoint h = ho_Endpoint old"
    using assms(2) k new same pool e by (auto simp: hosts_ok_def s'(1,2))
  ultimately show "\<exists>old. hosts_in H s (ho_ID h) = Some old \<and> hosts_in H s' = (hosts_in H s)(ho_ID h \<mapsto> kept_of_host h old) \<and>
           (hosts_ok H (s'\<lparr>sv_clients := (sv_clients s')(ho_ID h := None)\<rparr>)) \<and>
           (ho_Endpoint h = ho_Endpoint old \<longrightarrow> hosts_ok H s')" using old new by blast
qed

text \<open>Programs that leave hosts and pool as they are.\<close>

definition hosts_untouched :: "('b, 'w, 'a) sprog \<Rightarrow> bool" where
  "hosts_untouched m \<longleftrightarrow> (\<forall>s. sv_db (snd (run_state m s)) ''host'' = sv_db s ''host'' \<and> sv_clients (snd (run_state m s)) = sv_clients s)"

lemma untouched_ok:
  assumes "hosts_untouched m" "run_state m s = (x, s')"
  shows "hosts_ok H s' = hosts_ok H s" "hosts_in H s' = hosts_in H s" "sv_clients s' = sv_clients s" "sv_db s' ''host'' = sv_db s ''host''"
proof -
  show 1: "sv_clients s' = sv_clients s" "sv_db s' ''host'' = sv_db s ''host''"
    using assms(1) [unfolded hosts_untouched_def, rule_format, of s] assms(2) by simp_all
  then show "hosts_ok H s' = hosts_ok H s" by (intro hosts_ok_cong)
  from 1 show "hosts_in H s' = hosts_in H s" by (simp add: hosts_in_def)
qed

lemma untouched [simp]:
  "hosts_untouched (external f)" "hosts_untouched (ProbeHost H ep)" "hosts_untouched (TestConnection H ep)"
  "hosts_untouched (CreateHost E a key name user)"
  by (simp_all add: hosts_untouched_def run_external)

lemma run_bind_obtain:
  "run_state (State_Monad.bind m f) s = (y, s') \<longleftrightarrow> (\<exists>x s1. run_state m s = (x, s1) \<and> run_state (f x) s1 = (y, s'))"
  by (cases "run_state m s") auto

lemma syncHost_step:
  assumes "bolt_bucket (hosts_of H)" "hosts_ok H s" "hosts_in H s key = Some h" "ho_Endpoint h = ep"
    and "run_state (syncHost H key ep) s = (x, s')"
  shows "hosts_ok H s'" "hosts_alike (hosts_in H s) (hosts_in H s')"
  using syncHost_ok [OF assms(1-3)] assms(4,5) by auto

lemma sync_if_standalone_step:
  assumes "bolt_bucket (hosts_of H)" "hosts_ok H s" "hosts_in H s (ho_ID h) = Some h'" "ho_Endpoint h' = ho_Endpoint h"
    and "run_state (sync_if_standalone H h) s = (x, s')"
  shows "hosts_ok H s'"
  using syncHost_step [OF assms(1-4)] assms(2,5) by (auto simp: sync_if_standalone_def split: if_splits)

lemma pool_None: "hosts_ok H s \<Longrightarrow> hosts_in H s key = None \<Longrightarrow> sv_clients s key = None"
  by (cases "sv_clients s key") (fastforce simp: hosts_ok_def)+

lemma Create_keeps_pool:
  assumes "bolt_bucket (hosts_of H)" "hosts_ok H s" "\<forall>w. hosts_in H s (fst (sx_createId (hx_server H) w)) = None"
    and "run_state (Create_host H host user) s = (r, s')"
  shows "hosts_ok H s'"
proof (cases "validateAndNormalizeHost host")
  case (Inl e)
  then show ?thesis using assms(2,4) by (simp add: Create_host_def Let_def)
next
  case (Inr h)
  obtain p s1 where p: "run_state (ProbeHost H (ho_Endpoint h)) s = (p, s1)" by fastforce
  note s1 = untouched_ok(1,2) [OF untouched(2) p, where H = H] untouched_ok(3,4) [OF untouched(2) p]
  show ?thesis
  proof (cases p)
    case (Inl e)
    then show ?thesis using assms(2,4) Inr p s1(1) by (simp add: Create_host_def Let_def)
  next
    case probe: (Inr probe)
    obtain key s2 where key: "run_state (external (sx_createId (hx_server H))) s1 = (key, s2)" by fastforce
    obtain t s3 where t: "run_state (external (sx_now (hx_server H))) s2 = (t, s3)" by fastforce
    note s2 = untouched_ok(1,2) [OF untouched(1) key, where H = H] untouched_ok(3,4) [OF untouched(1) key] and s3 = untouched_ok(1,2) [OF untouched(1) t, where H = H] untouched_ok(3,4) [OF untouched(1) t]
    let ?h = "(classified probe h)\<lparr>ho_ID := key, ho_Status := ''disconnected'', ho_CreatedAt := t, ho_UpdatedAt := t,
           ho_CreatedBy := newOperator user, ho_UpdatedBy := newOperator user\<rparr>"
    obtain w s4 where w: "run_state (db_write ''host'' (HostCreate (hosts_of H) ?h)) s3 = (w, s4)" by fastforce
    have ok3: "hosts_ok H s3" using assms(2) s1(1) s2(1) s3(1) by metis
    have "hosts_in H s key = None" using assms(3) key by (metis fst_conv run_external)
    then have "sv_clients s3 (ho_ID ?h) = None"
      using pool_None [OF assms(2)] s1(3) s2(3) s3(3) by simp
    note s4 = replace_ok [OF assms(1) ok3 this w]
    show ?thesis
    proof (cases w)
      case (Inl e)
      then show ?thesis using assms(4) Inr p probe key t w s4(1) by (simp add: Create_host_def Let_def)
    next
      case made: (Inr u)
      obtain u s5 where ev: "run_state (CreateHost (hx_server H) ''Create'' key (ho_Name ?h) user) s4 = (u, s5)" by (metis surj_pair)
      note s5 = untouched_ok(1,2) [OF untouched(4) ev, where H = H] untouched_ok(3,4) [OF untouched(4) ev]
      obtain u' s6 where sync: "run_state (sync_if_standalone H ?h) s5 = (u', s6)" by (metis surj_pair)
      have "hosts_in H s5 (ho_ID ?h) = Some ?h" using s4(2) made s5(2) by simp
      then have "hosts_ok H s6" using sync_if_standalone_step [OF assms(1) _ _ _ sync] s4(1) s5(1) by simp
      moreover have "s' = s6" using assms(4) Inr p probe key t w made ev sync by (simp add: Create_host_def Let_def)
      ultimately show ?thesis by simp
    qed
  qed
qed

lemma existing_immutable:
  assumes "bolt_bucket (hosts_of H)" "existing_host H key (sv_db s ''host'') = Some e"
  shows "hosts_in H s key = Some e"
  using assms bolt_bucket.Dao_get_opt_Inr [OF assms(1), of key "sv_db s ''host''"]
  by (auto simp: existing_host_def HostGet_def hosts_in_def split: sum.splits)

lemma update_immutable_keeps_pool:
  assumes "bolt_bucket (hosts_of H)" "hosts_ok H s" "hosts_in H s key = Some e"
    and "run_state (update_immutable H e host user) s = (r, s')"
  shows "hosts_ok H s'"
proof (cases "TrimSpace (ho_Name host) = []")
  case True
  then show ?thesis using assms(2,4) by (simp add: update_immutable_def Let_def)
next
  case False
  obtain t s1 where t: "run_state (external (sx_now (hx_server H))) s = (t, s1)" by fastforce
  note s1 = untouched_ok(1,2) [OF untouched(1) t, where H = H]
  let ?e = "e\<lparr>ho_Name := TrimSpace (ho_Name host), ho_Color := ho_Color host, ho_UpdatedAt := t, ho_UpdatedBy := newOperator user\<rparr>"
  obtain w s2 where w: "run_state (db_write ''host'' (HostUpdate (hosts_of H) ?e)) s1 = (w, s2)" by fastforce
  have ok1: "hosts_ok H s1" using assms(2) s1(1) by simp
  have key: "ho_ID e = key" using hosts_ok_id [OF assms(2,3)] .
  have ok2: "hosts_ok H s2"
  proof (cases "w = Inr ()")
    case True
    then show ?thesis using update_and_remove_ok(2) [OF assms(1) ok1 w] assms(3) key s1(2) by auto
  qed (use update_and_remove_ok(1) [OF assms(1) ok1 w] in blast)
  obtain u s3 where ev: "run_state (CreateHost (hx_server H) ''Update'' (ho_ID e) (TrimSpace (ho_Name host)) user) s2 = (u, s3)" by (metis surj_pair)
  note s3 = untouched_ok(1,2) [OF untouched(4) ev, where H = H]
  show ?thesis using False assms(4) t w ev ok2 s3(1) by (cases w) (auto simp: update_immutable_def Let_def)
qed

lemma Update_keeps_pool:
  assumes "bolt_bucket (hosts_of H)" "hosts_ok H s" and "run_state (Update_host H host user) s = (r, s')"
  shows "hosts_ok H s'"
proof (cases "\<exists>e. (if ho_ID host = [] then None else existing_host H (ho_ID host) (sv_db s ''host'')) = Some e \<and> ho_Immutable e")
  case True
  then obtain e where e: "ho_ID host \<noteq> []" "existing_host H (ho_ID host) (sv_db s ''host'') = Some e" "ho_Immutable e"
    by (auto split: if_splits)
  have "run_state (update_immutable H e host user) s = (r, s')" using assms(3) e by (simp add: Update_host_def Let_def)
  then show ?thesis using update_immutable_keeps_pool [OF assms(1,2) existing_immutable [OF assms(1) e(2)]] by blast
next
  case mutable: False
  then have none: "(case if ho_ID host = [] then None else existing_host H (ho_ID host) (sv_db s ''host'') of
      Some e \<Rightarrow> if ho_Immutable e then Some e else None | None \<Rightarrow> None) = None"
    by (auto split: option.split)
  show ?thesis
  proof (cases "validateAndNormalizeHost host")
    case (Inl e)
    then show ?thesis using assms(2,3) none by (simp add: Update_host_def Let_def)
  next
    case (Inr h)
    obtain p s1 where p: "run_state (ProbeHost H (ho_Endpoint h)) s = (p, s1)" by fastforce
    note s1 = untouched_ok(1,2) [OF untouched(2) p, where H = H]
    show ?thesis
    proof (cases p)
      case (Inl e)
      then show ?thesis using assms(2,3) Inr p s1(1) none by (auto simp: Update_host_def Let_def)
    next
      case probe: (Inr probe)
      obtain t s2 where t: "run_state (external (sx_now (hx_server H))) s1 = (t, s2)" by fastforce
      note s2 = untouched_ok(1,2) [OF untouched(1) t, where H = H]
      let ?h = "(classified probe h)\<lparr>ho_UpdatedAt := t, ho_UpdatedBy := newOperator user\<rparr>"
      obtain w s3 where w: "run_state (db_write ''host'' (HostUpdate (hosts_of H) ?h)) s2 = (w, s3)" by fastforce
      have ok2: "hosts_ok H s2" using assms(2) s1(1) s2(1) by simp
      note s3 = update_and_remove_ok [OF assms(1) ok2 w]
      show ?thesis
      proof (cases w)
        case (Inl e)
        then show ?thesis using assms(3) Inr p probe t w s3(1) none by (auto simp: Update_host_def Let_def)
      next
        case made: (Inr u)
        then have "w = Inr ()" by simp
        from s3(2) [OF this] obtain old where s3':
          "hosts_in H s3 = (hosts_in H s2)(ho_ID ?h \<mapsto> kept_of_host ?h old)"
          "hosts_ok H (s3\<lparr>sv_clients := (sv_clients s3)(ho_ID ?h := None)\<rparr>)" by blast
        obtain u s4 where ev: "run_state (CreateHost (hx_server H) ''Update'' (ho_ID ?h) (ho_Name ?h) user) s3 = (u, s4)" by (metis surj_pair)
        note s4 = untouched_ok(3,4) [OF untouched(4) ev]
        obtain u' s5 where rm: "run_state (RemoveClient (ho_ID ?h)) s4 = (u', s5)" by (metis surj_pair)
        have s5: "sv_db s5 ''host'' = sv_db s3 ''host''" "sv_clients s5 = (sv_clients s3)(ho_ID ?h := None)"
          using rm s4 by (auto simp: RemoveClient_def)
        have ok5: "hosts_ok H s5"
          using s3'(2) s5 by (subst hosts_ok_cong [where s = "s3\<lparr>sv_clients := (sv_clients s3)(ho_ID ?h := None)\<rparr>"]) simp_all
        have "hosts_in H s5 (ho_ID ?h) = Some (kept_of_host ?h old)" using s3'(1) s5(1) by (simp add: hosts_in_def)
        moreover obtain u2 s6 where sync: "run_state (sync_if_standalone H ?h) s5 = (u2, s6)" by (metis surj_pair)
        ultimately have "hosts_ok H s6"
          using sync_if_standalone_step [OF assms(1) ok5 _ _ sync] by (simp add: kept_of_host_def)
        moreover have "s' = s6" using assms(3) Inr p probe t w made ev rm sync none by (auto simp: Update_host_def Let_def)
        ultimately show ?thesis by simp
      qed
    qed
  qed
qed

lemma Delete_keeps_pool:
  assumes "bolt_bucket (hosts_of H)" "hosts_ok H s" and "run_state (Delete_host H key name user) s = (r, s')"
  shows "hosts_ok H s'"
proof (cases "\<exists>e. existing_host H key (sv_db s ''host'') = Some e \<and> ho_Immutable e")
  case True
  then show ?thesis using assms(2,3) by (auto simp: Delete_host_def)
next
  case False
  then have go: "(case existing_host H key (sv_db s ''host'') of None \<Rightarrow> False | Some e \<Rightarrow> ho_Immutable e) = False"
    by (auto split: option.split)
  obtain u s1 where rm: "run_state (RemoveClient key) s = (u, s1)" by (metis surj_pair)
  have ok1: "hosts_ok H s1" using RemoveClient_ok [OF assms(2), of key] rm by simp
  have none: "sv_clients s1 key = None" using rm by (auto simp: RemoveClient_def)
  obtain w s2 where w: "run_state (db_write ''host'' (HostDelete (hosts_of H) key)) s1 = (w, s2)" by fastforce
  note ok2 = delete_ok(1) [OF assms(1) ok1 none w]
  obtain u2 s3 where ev: "run_state (CreateHost (hx_server H) ''Delete'' key name user) s2 = (u2, s3)" by (metis surj_pair)
  note s3 = untouched_ok(1,2) [OF untouched(4) ev, where H = H]
  show ?thesis using assms(3) go rm w ev ok2 s3(1) by (cases w) (auto simp: Delete_host_def)
qed

lemma Find_stored:
  assumes "bolt_bucket (hosts_of H)" "run_state (Find_host H key) s = (Inr x, s')"
  shows "s' = s" "x = hosts_in H s key"
  using assms bolt_bucket.Dao_get_opt_Inr [OF assms(1), of key "sv_db s ''host''"]
  by (cases "Dao_get_opt (hosts_of H) key (sv_db s ''host'')"; simp add: Find_host_def HostGet_def hosts_in_def)+

lemma Find_state: "snd (run_state (Find_host H key) s) = s"
  by (simp add: Find_host_def)

lemma Sync_keeps_pool:
  assumes "bolt_bucket (hosts_of H)" "hosts_ok H s" and "run_state (Sync_host H key) s = (r, s')"
  shows "hosts_ok H s'"
proof -
  obtain x s1 where f: "run_state (Find_host H key) s = (x, s1)" by fastforce
  then have s1: "s1 = s" using Find_state [of H key s] by simp
  show ?thesis
  proof (cases "\<exists>h. x = Inr (Some h)")
    case True
    then obtain h where h: "x = Inr (Some h)" by blast
    then have stored: "hosts_in H s key = Some h" using Find_stored(2) [OF assms(1)] f by metis
    obtain u s2 where sync: "run_state (syncHost H (ho_ID h) (ho_Endpoint h)) s = (u, s2)" by (metis surj_pair)
    have "hosts_ok H s2" using syncHost_step(1) [OF assms(1,2) stored refl] sync hosts_ok_id [OF assms(2) stored] by simp
    then show ?thesis using assms(3) f h s1 sync by (simp add: Sync_host_def)
  next
    case False
    then show ?thesis using assms(2,3) f s1 by (auto simp: Sync_host_def or_fail_def split: sum.splits option.splits)
  qed
qed

lemma resolve_step:
  assumes "bolt_bucket (hosts_of H)" "hosts_ok H s" and "run_state (resolveHostClient H key) s = (r, s')"
  shows "hosts_ok H s'" "r = Inr (cli, h) \<Longrightarrow> hosts_in H s key = Some h \<and> cli = ho_Endpoint h"
proof -
  obtain x s1 where f: "run_state (Find_host H key) s = (x, s1)" by fastforce
  then have s1: "s1 = s" using Find_state [of H key s] by simp
  have "hosts_ok H s' \<and> (r = Inr (cli, h) \<longrightarrow> hosts_in H s key = Some h \<and> cli = ho_Endpoint h)"
  proof (cases "\<exists>h. key \<noteq> [] \<and> x = Inr (Some h)")
    case True
    then obtain h' where h: "key \<noteq> []" "x = Inr (Some h')" by blast
    then have stored: "hosts_in H s key = Some h'" using Find_stored(2) [OF assms(1)] f by metis
    have id: "ho_ID h' = key" using hosts_ok_id [OF assms(2) stored] .
    obtain c s2 where c: "run_state (GetClient_host H key (ho_Endpoint h')) s = (c, s2)" by fastforce
    have "hosts_ok H s2" "c = Inr cl \<Longrightarrow> cl = ho_Endpoint h'" for cl
      using GetClient_ok [OF assms(2) stored] c by simp_all
    then show ?thesis using assms(3) f h s1 c stored id
      by (cases c) (auto simp: resolveHostClient_def host_error_def)
  next
    case False
    then show ?thesis using assms(2,3) f s1
      by (auto simp: resolveHostClient_def host_error_def or_fail_def split: sum.splits option.splits if_splits)
  qed
  then show "hosts_ok H s'" "r = Inr (cli, h) \<Longrightarrow> hosts_in H s key = Some h \<and> cli = ho_Endpoint h" by simp_all
qed

section \<open>The host of the local daemon\<close>

lemma GetAll_stored:
  assumes "bolt_bucket (hosts_of H)" "hosts_ok H s"
  shows "run_state (GetAll_hosts H) s = (Inr (vals (hosts_of H) (sv_db s ''host'')), s)"
    and "h \<in> set (vals (hosts_of H) (sv_db s ''host'')) \<longleftrightarrow> hosts_in H s (ho_ID h) = Some h"
proof -
  have k: "readable (hosts_of H) (sv_db s ''host'')" using assms(2) by (simp add: hosts_ok_def keyed_def)
  show "run_state (GetAll_hosts H) s = (Inr (vals (hosts_of H) (sv_db s ''host'')), s)"
    using bolt_bucket.Dao_each_collect [OF assms(1) k] by (simp add: GetAll_hosts_def HostGetAll_def all_of_def)
  show "h \<in> set (vals (hosts_of H) (sv_db s ''host'')) \<longleftrightarrow> hosts_in H s (ho_ID h) = Some h"
    using bolt_bucket.set_vals [OF assms(1) k] hosts_ok_id [OF assms(2)] by (auto simp: hosts_in_def)
qed

text \<open>What EnsureLocal finds and leaves, by the system host and the host of an operator.\<close>

definition has_auto :: "('b, 'raw, 'w) host_env \<Rightarrow> ('b, 'w) server \<Rightarrow> bool" where
  "has_auto H s \<longleftrightarrow> (\<exists>key h. hosts_in H s key = Some h \<and> auto_local h)"

definition has_operator :: "('b, 'raw, 'w) host_env \<Rightarrow> ('b, 'w) server \<Rightarrow> bool" where
  "has_operator H s \<longleftrightarrow> (\<exists>key h. hosts_in H s key = Some h \<and> operator_local h)"

lemma find_hosts:
  assumes "bolt_bucket (hosts_of H)" "hosts_ok H s"
  defines "xs \<equiv> vals (hosts_of H) (sv_db s ''host'')"
  shows "(find auto_local (rev xs) = None) = (\<not> has_auto H s)" "(find operator_local xs = None) = (\<not> has_operator H s)"
    "find auto_local (rev xs) = Some l \<Longrightarrow> ho_ID l = LocalHostID"
  using GetAll_stored(2) [OF assms(1,2)] hosts_ok_id [OF assms(2)]
  by (fastforce simp: find_None_iff has_auto_def has_operator_def xs_def find_Some_iff auto_local_def)+

lemma alike_has:
  assumes "hosts_alike (hosts_in H s) (hosts_in H s')"
  shows "has_auto H s' = has_auto H s" "has_operator H s' = has_operator H s"
  using hosts_alike_at [OF assms]
  by (fastforce simp: has_auto_def has_operator_def auto_local_def operator_local_def same_endpoint_def)+

lemma EnsureLocal_outcome:
  assumes "bolt_bucket (hosts_of H)" "hosts_ok H s" "\<And>h. hosts_in H s LocalHostID = Some h \<Longrightarrow> ho_Immutable h"
    and "run_state (EnsureLocal H) s = (r, s')"
  shows "hosts_ok H s'" "hx_standalone H \<Longrightarrow> r = Inr () \<Longrightarrow> has_auto H s' = (\<not> has_operator H s')"
proof -
  let ?hosts = "vals (hosts_of H) (sv_db s ''host'')"
  note all = GetAll_stored(1) [OF assms(1,2)] and find = find_hosts [OF assms(1,2)]
  have "hosts_ok H s' \<and> (hx_standalone H \<longrightarrow> r = Inr () \<longrightarrow> has_auto H s' = (\<not> has_operator H s'))"
  proof (cases "hx_standalone H")
    case False
    then show ?thesis using assms(2,4) by (simp add: EnsureLocal_def)
  next
    case alone: True
    consider (both) l p where "find auto_local (rev ?hosts) = Some l" "find operator_local ?hosts = Some p"
      | (none) "find auto_local (rev ?hosts) = None" "find operator_local ?hosts = None"
      | (one) "(find auto_local (rev ?hosts) = None) \<noteq> (find operator_local ?hosts = None)" by fastforce
    then show ?thesis
    proof cases
      case one
      then have "run_state (EnsureLocal H) s = (Inr (), s)"
        using alone all by (auto simp: EnsureLocal_def split: option.split)
      then show ?thesis using assms(2,4) one find(1,2) by auto
    next
      case both
      have l: "ho_ID l = LocalHostID" using find(3) both(1) .
      obtain u s1 where rm: "run_state (RemoveClient LocalHostID :: ('a, 'c, unit) sprog) s = (u, s1)" by (metis surj_pair)
      have s1: "hosts_ok H s1" "sv_clients s1 LocalHostID = None" "hosts_in H s1 = hosts_in H s"
        using RemoveClient_ok [OF assms(2), of LocalHostID] rm by (auto simp: RemoveClient_def hosts_in_def)
      have run: "run_state (db_write ''host'' (HostDelete (hosts_of H) LocalHostID)) s1 = (r, s')"
        using assms(4) alone all both l rm by (simp add: EnsureLocal_def)
      note del = delete_ok [OF assms(1) s1(1,2) run]
      have "has_auto H s" "has_operator H s" using find(1,2) both by auto
      moreover have "\<not> has_auto H s'" "has_operator H s'" if "r = Inr ()"
      proof -
        have new: "hosts_in H s' = (hosts_in H s)(LocalHostID := None)" using del(2) [OF that] s1(3) by simp
        show "\<not> has_auto H s'" using hosts_ok_id [OF assms(2)] new by (auto simp: has_auto_def auto_local_def split: if_splits)
        obtain key h where "hosts_in H s key = Some h" "operator_local h" using \<open>has_operator H s\<close> by (auto simp: has_operator_def)
        moreover from this have "key \<noteq> LocalHostID" using assms(3) by (auto simp: operator_local_def)
        ultimately show "has_operator H s'" using new by (auto simp: has_operator_def)
      qed
      ultimately show ?thesis using del(1) by blast
    next
      case none
      then have no: "\<not> has_auto H s" "\<not> has_operator H s" using find(1,2) by auto
      have free: "hosts_in H s LocalHostID = None"
        using no(1) assms(3) hosts_ok_id [OF assms(2)] by (cases "hosts_in H s LocalHostID") (auto simp: has_auto_def auto_local_def)
      obtain c s1 where c: "run_state (external (sx_now (hx_server H))) s = (c, s1)" by fastforce
      obtain u s2 where u: "run_state (external (sx_now (hx_server H))) s1 = (u, s2)" by fastforce
      note s1 = untouched_ok(1,2) [OF untouched(1) c, where H = H] untouched_ok(3,4) [OF untouched(1) c]
      note s2 = untouched_ok(1,2) [OF untouched(1) u, where H = H] untouched_ok(3,4) [OF untouched(1) u]
      let ?h = "local_host c u"
      have h: "ho_ID ?h = LocalHostID" "ho_Immutable ?h" by (simp_all add: local_host_def)
      obtain w s3 where w: "run_state (db_write ''host'' (HostCreate (hosts_of H) ?h)) s2 = (w, s3)" by fastforce
      have "hosts_ok H s2" "sv_clients s2 (ho_ID ?h) = None"
        using assms(2) s1 s2 pool_None [OF assms(2) free] h(1) by simp_all
      note s3 = replace_ok [OF assms(1) this w]
      show ?thesis
      proof (cases w)
        case (Inl e)
        then have "r = Inl e" "s' = s3" using assms(4) alone all none c u w by (simp_all add: EnsureLocal_def)
        then show ?thesis using s3(1) no by simp
      next
        case made: (Inr x)
        obtain y s4 where sync: "run_state (syncHost H LocalHostID (ho_Endpoint ?h)) s3 = (y, s4)" by (metis surj_pair)
        have stored: "hosts_in H s3 = (hosts_in H s)(LocalHostID \<mapsto> ?h)" using s3(2) made s1(2) s2(2) h(1) by simp
        then have "hosts_in H s3 LocalHostID = Some ?h" by simp
        note s4 = syncHost_step [OF assms(1) s3(1) this refl sync]
        have "s' = s4" using assms(4) alone all none c u w made sync by (simp add: EnsureLocal_def)
        moreover have "has_auto H s3" using stored h by (auto simp: has_auto_def auto_local_def)
        moreover have "\<not> has_operator H s3"
          using no(2) stored h(2) by (auto simp: has_operator_def operator_local_def split: if_splits)
        ultimately show ?thesis using s4 alike_has [OF s4(2)] no by simp
      qed
    qed
  qed
  then show "hosts_ok H s'" "hx_standalone H \<Longrightarrow> r = Inr () \<Longrightarrow> has_auto H s' = (\<not> has_operator H s')"
 by simp_all
qed

lemma EnsureLocal_again:
  assumes "bolt_bucket (hosts_of H)" "hosts_ok H s" "has_auto H s = (\<not> has_operator H s)"
  shows "run_state (EnsureLocal H) s = (Inr (), s)"
  using assms(3) find_hosts(1,2) [OF assms(1,2)] GetAll_stored(1) [OF assms(1,2)]
  by (auto simp: EnsureLocal_def split: option.split)

section \<open>Runs of the server\<close>

text \<open>Any sequence of operations on hosts.  The ids that are generated are not taken, and no operator
  has a host of the reserved id.\<close>

inductive host_step :: "('b, 'raw, 'w) host_env \<Rightarrow> ('b, 'w) server \<Rightarrow> ('b, 'w) server \<Rightarrow> bool" for H where
  create: "\<forall>w. hosts_in H s (fst (sx_createId (hx_server H) w)) = None \<Longrightarrow> host_step H s (snd (run_state (Create_host H host user) s))"
| update: "host_step H s (snd (run_state (Update_host H host user) s))"
| delete: "host_step H s (snd (run_state (Delete_host H key name user) s))"
| sync: "host_step H s (snd (run_state (Sync_host H key) s))"
| resolve: "host_step H s (snd (run_state (resolveHostClient H key) s))"
| ensure_local: "(\<And>h. hosts_in H s LocalHostID = Some h \<Longrightarrow> ho_Immutable h) \<Longrightarrow> host_step H s (snd (run_state (EnsureLocal H) s))"

lemma host_step_ok: "host_step H s s' \<Longrightarrow> bolt_bucket (hosts_of H) \<Longrightarrow> hosts_ok H s \<Longrightarrow> hosts_ok H s'"
proof (induction rule: host_step.induct)
  case (create s host user)
  then show ?case using Create_keeps_pool by (metis prod.collapse)
next
  case (update s host user)
  then show ?case using Update_keeps_pool by (metis prod.collapse)
next
  case (delete s key name user)
  then show ?case using Delete_keeps_pool by (metis prod.collapse)
next
  case (sync s key)
  then show ?case using Sync_keeps_pool by (metis prod.collapse)
next
  case (resolve s key)
  then show ?case using resolve_step(1) by (metis prod.collapse)
next
  case (ensure_local s)
  show ?case by (rule EnsureLocal_outcome(1) [OF ensure_local(2,3) ensure_local(1) prod.collapse [symmetric]])
qed

text \<open>C17: The pool follows the hosts: whatever operations on hosts came before, a client that is
  handed out for a host talks to the endpoint that is stored for it now.\<close>

theorem pool_follows_endpoints:
  assumes "bolt_bucket (hosts_of H)" "keyed (hosts_of H) ho_ID (sv_db s0 ''host'')" "sv_clients s0 = Map.empty"
    and "(host_step H)\<^sup>*\<^sup>* s0 s" "run_state (resolveHostClient H key) s = (Inr (cli, h), s')"
  shows "recs (hosts_of H) (sv_db s ''host'') key = Some h \<and> cli = ho_Endpoint h"
proof -
  have "hosts_ok H s0" using assms(2,3) by (simp add: hosts_ok_def)
  with assms(4) have "hosts_ok H s" by (induction rule: rtranclp_induct) (auto intro: host_step_ok assms(1))
  from resolve_step(2) [OF assms(1) this assms(5)] show ?thesis by (simp add: hosts_in_def)
qed

text \<open>C19: The local daemon has exactly one kind of host: when the standalone server has ensured its own
  host, either the system host exists or an operator has one for the local socket, not both; and ensuring
  it again changes nothing.\<close>

theorem EnsureLocal_one_host:
  assumes "bolt_bucket (hosts_of H)" "keyed (hosts_of H) ho_ID (sv_db s ''host'')" "sv_clients s = Map.empty" "hx_standalone H"
    and "\<And>h. recs (hosts_of H) (sv_db s ''host'') LocalHostID = Some h \<Longrightarrow> ho_Immutable h"
    and "run_state (EnsureLocal H) s = (Inr (), s')"
  shows "((\<exists>key h. recs (hosts_of H) (sv_db s' ''host'') key = Some h \<and> auto_local h) \<longleftrightarrow>
      \<not> (\<exists>key h. recs (hosts_of H) (sv_db s' ''host'') key = Some h \<and> operator_local h)) \<and>
    run_state (EnsureLocal H) s' = (Inr (), s')"
proof -
  have ok: "hosts_ok H s" using assms(2,3) by (simp add: hosts_ok_def)
  have imm: "\<And>h. hosts_in H s LocalHostID = Some h \<Longrightarrow> ho_Immutable h" using assms(5) by (simp add: hosts_in_def)
  note out = EnsureLocal_outcome [OF assms(1) ok imm assms(6)]
  have one: "has_auto H s' = (\<not> has_operator H s')" using out(2) assms(4) by simp
  from EnsureLocal_again [OF assms(1) out(1) this] one show ?thesis
    unfolding has_auto_def has_operator_def hosts_in_def by blast
qed

text \<open>C18: The system host cannot be repointed or deleted: deleting it fails and changes nothing, and an
  update changes its name and color at most, with the author and time of the change.\<close>

theorem system_host_protected:
  assumes "bolt_bucket (hosts_of H)" "HostGet (hosts_of H) (ho_ID h) (sv_db s ''host'') = Inr (Some h)" "ho_Immutable h" "ho_ID h \<noteq> []"
    and "ho_ID host = ho_ID h"
  shows "run_state (Delete_host H (ho_ID h) name user) s =
      (Inl (SvCoded ''ErrHostImmutable'' ''host: system-managed, cannot be edited or deleted''), s) \<and>
    (\<exists>r s'. run_state (Update_host H host user) s = (r, s') \<and> sv_clients s' = sv_clients s \<and>
      (recs (hosts_of H) (sv_db s' ''host'') = recs (hosts_of H) (sv_db s ''host'') \<or>
       (\<exists>t. recs (hosts_of H) (sv_db s' ''host'') = (recs (hosts_of H) (sv_db s ''host''))
         (ho_ID h \<mapsto> h\<lparr>ho_Name := TrimSpace (ho_Name host), ho_Color := ho_Color host, ho_UpdatedAt := t, ho_UpdatedBy := newOperator user\<rparr>))))"
proof
  have e: "existing_host H (ho_ID h) (sv_db s ''host'') = Some h" using assms(2) by (simp add: existing_host_def)
  show "run_state (Delete_host H (ho_ID h) name user) s =
      (Inl (SvCoded ''ErrHostImmutable'' ''host: system-managed, cannot be edited or deleted''), s)"
    using assms(3) by (simp add: Delete_host_def e host_error_def)
  have stored: "recs (hosts_of H) (sv_db s ''host'') (ho_ID h) = Some h"
    using existing_immutable [OF assms(1) e] by (simp add: hosts_in_def)
  obtain r s' where run: "run_state (Update_host H host user) s = (r, s')" by fastforce
  then have upd: "run_state (update_immutable H h host user) s = (r, s')"
    using assms(3,4,5) e by (simp add: Update_host_def)
  let ?e = "\<lambda>t. h\<lparr>ho_Name := TrimSpace (ho_Name host), ho_Color := ho_Color host, ho_UpdatedAt := t, ho_UpdatedBy := newOperator user\<rparr>"
  have kept: "kept_of_host (?e t) h = ?e t" for t by (cases h) (simp add: kept_of_host_def)
  have "sv_clients s' = sv_clients s \<and> (recs (hosts_of H) (sv_db s' ''host'') = recs (hosts_of H) (sv_db s ''host'') \<or>
     (\<exists>t. recs (hosts_of H) (sv_db s' ''host'') = (recs (hosts_of H) (sv_db s ''host''))(ho_ID h \<mapsto> ?e t)))"
  proof (cases "TrimSpace (ho_Name host) = []")
    case True
    then show ?thesis using upd by (simp add: update_immutable_def Let_def)
  next
    case False
    obtain t s1 where t: "run_state (external (sx_now (hx_server H))) s = (t, s1)" by fastforce
    note s1 = untouched_ok(3,4) [OF untouched(1) t]
    let ?w = "Dao_update (hosts_of H) (ho_ID h) (kept_of_host (?e t)) (sv_db s ''host'')"
    obtain w s2 where w: "run_state (db_write ''host'' (HostUpdate (hosts_of H) (?e t))) s1 = (w, s2)" by fastforce
    have s2: "sv_db s2 ''host'' = snd ?w" "sv_clients s2 = sv_clients s"
      using w s1 by (auto simp: run_db_write HostUpdate_def)
    obtain u s3 where ev: "run_state (CreateHost (hx_server H) ''Update'' (ho_ID h) (TrimSpace (ho_Name host)) user) s2 = (u, s3)"
      by (metis surj_pair)
    note s3 = untouched_ok(3,4) [OF untouched(4) ev]
    have final: "sv_db s' ''host'' = snd ?w" "sv_clients s' = sv_clients s"
      using upd False t w ev s2 s3 by (cases w; auto simp: update_immutable_def Let_def)+
    show ?thesis
      using bolt_bucket.recs_after_update [OF assms(1), of "ho_ID h" "kept_of_host (?e t)" "sv_db s ''host''"] stored final kept
      by (auto split: if_splits)
  qed
  with run show "\<exists>r s'. run_state (Update_host H host user) s = (r, s') \<and> sv_clients s' = sv_clients s \<and>
      (recs (hosts_of H) (sv_db s' ''host'') = recs (hosts_of H) (sv_db s ''host'') \<or>
       (\<exists>t. recs (hosts_of H) (sv_db s' ''host'') = (recs (hosts_of H) (sv_db s ''host''))(ho_ID h \<mapsto> ?e t)))" by blast
qed

end
