(* ===== verification/HostWitnesses.thy ===== *)
theory HostWitnesses
  imports HostTheorems SettingsWitnesses
begin

text \<open>
  The properties of HostTheorems on a small database of hosts and a daemon that answers every probe.
\<close>

definition idle_daemon :: docker_info where
  "idle_daemon = \<lparr>di_LocalNodeState = ''inactive'', di_ControlAvailable = False, di_Nodes = 0, di_RemoteManagers = [],
     di_ServerVersion = ''28'', di_OSType = ''linux'', di_Architecture = ''amd64'', di_NCPU = 4, di_MemTotal = 8, di_Name = ''d''\<rparr>"

definition small_env :: "(raw_record bucket, raw_record, unit) host_env" where
  "small_env = \<lparr>hx_server = web_env JNull JNull (Inl []), hx_NewClient = (\<lambda>ep. Inr ()), hx_Info = (\<lambda>ep w. (Inr idle_daemon, w)),
     hx_standalone = True\<rparr>"

definition host_server :: "raw_record bucket \<Rightarrow> (raw_record bucket, unit) server" where
  "host_server b = \<lparr>sv_db = (\<lambda>_. empty_bucket)(''host'' := b), sv_live = None, sv_clients = Map.empty, sv_log = [], sv_world = ()\<rparr>"

definition own_host :: dao_host where "own_host = local_host 1 1"

definition own_bucket :: "raw_record bucket" where "own_bucket = bucket_put ''local'' (RawHost own_host) empty_bucket"

lemma small_hosts: "hosts_of small_env = typed_bolt RawHost (\<lambda>x. case x of RawHost v \<Rightarrow> Some v | _ \<Rightarrow> None)"
  by (simp add: small_env_def demo_dao_def)

lemma small_bolt: "bolt_bucket (hosts_of small_env)"
  using demo_dao_healthy by (simp add: healthy_dao_def healthy_bucket_def small_env_def)

lemma own_keyed: "keyed (hosts_of small_env) ho_ID (sv_db (host_server own_bucket) ''host'')"
  "keyed (hosts_of small_env) ho_ID (sv_db (host_server empty_bucket) ''host'')"
  by (auto simp: keyed_def small_hosts host_server_def own_bucket_def readable_def recs_def Dao_get_def own_host_def local_host_def
      LocalHostID_def split: if_splits)

lemma own_stored: "HostGet (hosts_of small_env) ''local'' (sv_db (host_server own_bucket) ''host'') = Inr (Some own_host)"
  by (simp add: HostGet_def Dao_get_opt_def Dao_get_def small_hosts host_server_def own_bucket_def)

lemma own_host_sels: "ho_ID own_host = ''local''" "ho_Immutable own_host" "ho_Endpoint own_host = ''unix:///var/run/docker.sock''"
  by (simp_all add: own_host_def local_host_def LocalHostID_def)

definition bare_host :: dao_host where
  "bare_host = no_host\<lparr>ho_Name := ''x'', ho_Endpoint := ''h:1'', ho_AuthMethod := ''tcp''\<rparr>"

theorem suggested_endpoint_accepted_witness:
  "\<exists>old suggested am reason. validateAndNormalizeHost bare_host = Inl (EndpointSuggestion old suggested am reason) \<and>
    ((\<exists>h'. validateAndNormalizeHost (bare_host\<lparr>ho_Endpoint := suggested\<rparr>) = Inr h' \<and> ho_Endpoint h' = suggested) \<or>
     (\<exists>msg. validateAndNormalizeHost (bare_host\<lparr>ho_Endpoint := suggested\<rparr>) = Inl (SvCoded ''ErrHostValidation'' msg)))"
proof -
  have t: "TrimSpace ''x'' = ''x''" "TrimSpace ''h:1'' = ''h:1''" by code_simp+
  have e: "validateAndNormalizeHost bare_host = Inl (EndpointSuggestion ''h:1'' (''tcp://'' @ ''h:1'') ''tcp''
       (''Endpoint missing scheme. For Auth Method '' @ quoted ''TCP'' @ '' the expected scheme is '' @ ''tcp://''))"
    by (simp add: validateAndNormalizeHost_def bare_host_def trimmed_host_def t scheme_of_def missing_scheme_def suggestion_def Let_def)
  have a: "ascii (ho_Endpoint bare_host)" by (simp add: bare_host_def byte_def)
  show ?thesis using e suggested_endpoint_accepted [OF a e] by blast
qed

theorem pool_follows_endpoints_witness:
  "\<exists>cli h s'. run_state (resolveHostClient small_env ''local'') (host_server own_bucket) = (Inr (cli, h), s') \<and>
    recs (hosts_of small_env) (sv_db (host_server own_bucket) ''host'') ''local'' = Some h \<and> cli = ho_Endpoint h"
proof -
  obtain s' where run: "run_state (resolveHostClient small_env ''local'') (host_server own_bucket) = (Inr (ho_Endpoint own_host, own_host), s')"
    using own_stored by (simp add: resolveHostClient_def Find_host_def GetClient_host_def host_server_def small_env_def)
  from pool_follows_endpoints [OF small_bolt own_keyed(1) _ _ run] run show ?thesis by (auto simp: host_server_def)
qed

theorem EnsureLocal_one_host_witness:
  "\<exists>s'. run_state (EnsureLocal small_env) (host_server empty_bucket) = (Inr (), s') \<and>
    ((\<exists>key h. recs (hosts_of small_env) (sv_db s' ''host'') key = Some h \<and> auto_local h) \<longleftrightarrow>
      \<not> (\<exists>key h. recs (hosts_of small_env) (sv_db s' ''host'') key = Some h \<and> operator_local h)) \<and>
    run_state (EnsureLocal small_env) s' = (Inr (), s')"
proof -
  have v: "vals (hosts_of small_env) (sv_db (host_server empty_bucket) ''host'') = []"
    by (simp add: vals_def small_hosts host_server_def) (transfer, simp)
  have ok: "hosts_ok small_env (host_server empty_bucket)" using own_keyed(2) by (simp add: hosts_ok_def host_server_def)
  obtain s' where run: "run_state (EnsureLocal small_env) (host_server empty_bucket) = (Inr (), s')"
    using GetAll_stored(1) [OF small_bolt ok] v
    by (simp add: EnsureLocal_def small_env_def run_external run_db_write HostCreate_def Dao_replace_def db_update_def demo_dao_def
        case_prod_unfold)
  have none: "recs (hosts_of small_env) (sv_db (host_server empty_bucket) ''host'') key = None" for key
    by (simp add: recs_def Dao_get_def small_hosts host_server_def)
  from EnsureLocal_one_host [OF small_bolt own_keyed(2) _ _ _ run] run none show ?thesis by (auto simp: host_server_def small_env_def)
qed

theorem system_host_protected_witness:
  "run_state (Delete_host small_env ''local'' ''local'' None) (host_server own_bucket) =
      (Inl (SvCoded ''ErrHostImmutable'' ''host: system-managed, cannot be edited or deleted''), host_server own_bucket) \<and>
    (\<exists>r s'. run_state (Update_host small_env own_host None) (host_server own_bucket) = (r, s') \<and> sv_clients s' = sv_clients (host_server own_bucket))"
  using system_host_protected [OF small_bolt, of own_host "host_server own_bucket" own_host "''local''" None] own_stored
  by (auto simp: own_host_sels)

end
