(* ===== verification/Spec2Isabelle.thy ===== *)
theory Spec2Isabelle
  imports Template Interpolation StackHistory Permissions Auth Scaler Volumes DependsOn TriggerWitnesses BackupWitnesses AddonOutcomes SettingsWitnesses RewriteTheorems HostWitnesses
begin

text \<open>
  \<^bold>\<open>What this is\<close>

  A model of the server parts of SwirlEvo, a web application in Go that manages Docker hosts, and
  proofs of what they do.  A request passes an authorization filter (security/), reaches the business
  layer (biz/), which reads and writes records of an embedded key-value store (dao/bolt/) and drives
  Docker daemons, for compose stacks through its own engine (docker/compose/).  Beside the server run
  an automatic scaler (scaler/), a scheduler of encrypted backups (backup/), and, when the server
  replaces its own container, a second process, the deploy agent (cmd/deploy_agent/).

  \<^bold>\<open>How the model corresponds to the code\<close>

  Every Go function is a HOL function of the same name, with a suffix or an underscore where that
  clashes (\<open>List_backups\<close>, \<open>Delete_backup\<close>).  A structure is a record, an interface or library
  that is not in the repository is a record of functions and an argument of the definitions that call
  it.  Errors are values of a sum type (\<^const>\<open>Inl\<close> the error).  A Go string is a list of bytes.
  State is passed explicitly: the storage operations return the new bucket, the engines are state
  monads over the record of GoPrelude and DockerSdk, whose trace lists the calls made of the daemon
  in order, with whether they succeeded.  A Go map whose order of iteration can matter is a list in
  some order.

  \<^item> GoPrelude, Utf8, Paths: strings, words, sorting, and path functions of Go's library.
  \<^item> Template: docker/compose/template/template.go, variable substitution in a string.  Interpolation:
    docker/compose/interpolation/ and docker/compose/interpolate.go, the substitution in a whole file,
    with the table of casters.  The recursion is proved against the locale \<open>substituter\<close>.
  \<^item> ComposeTypes: the structures of docker/compose/types/.  Volumes: docker/compose/volume.go and
    convert_volume.go.
  \<^item> DockerSdk, Standalone, StandaloneDeploy, DependsOn, DeployTheorems: the standalone engine,
    docker/compose/standalone.go; start order, deployment, removal, and their properties.
  \<^item> Bolt, Entities, StorageTypes: dao/bolt over dao/entity.go.  The key-value store and its codec
    are the record \<open>bolt\<close>; the locale of Bolt states what boltdb documents.
  \<^item> StackHistory: compose stacks and their versions, dao/bolt/compose_stack.go,
    dao/bolt/compose_stack_version.go, biz/compose_stack_version.go.
  \<^item> Permissions, Auth: security/perm.go and security/auth.go with the storage of users, roles and
    sessions.
  \<^item> Scaler: scaler/scaler.go and the scaling call of docker/service.go.
  \<^item> SelfDeployFiles, SelfDeployChecks, SelfDeploy, SelfDeployTrigger, TriggerTheorems,
    TriggerWitnesses: the server's side of a self-deploy, biz/self_deploy.go and
    biz/self_deploy_job.go.  StateWriter, DeployAgent, MachineRules, AgentTheorems, AgentOutcomes,
    AgentWitnesses: the agent's side, cmd/deploy_agent/.
  \<^item> BackupCrypto, BackupStore, BackupDocument, Backup, and their rules and theorems in BackupRules,
    BackupTransfer, BackupTheorems, BackupOutcomes, BackupWitnesses: biz/backup_crypto.go,
    biz/backup.go and backup/backup.go.
  \<^item> YamlNodes, AddonLabels, AddonRules, AddonTheorems, AddonOutcomes: the add-on wizard,
    biz/compose_stack_addons_yaml.go.
  \<^item> Server: the state that the operations of the business layer share, and the audit events of
    biz/event.go.  Settings, SettingsTheorems, SettingsWitnesses: biz/setting.go, biz/registry_cache.go,
    biz/registry_cache_federation.go and biz/registry.go.
  \<^item> RegistryRewrite, RewriteTheorems: biz/compose_stack_registry_rewrite.go and
    biz/compose_stack_image_mirror.go.
  \<^item> Hosts, HostTheorems, HostWitnesses: biz/host.go, biz/hostop.go, biz/host_addon_extract.go and the
    pool of clients of docker/host.go.

  \<^bold>\<open>What the theorems show\<close>

  \<^item> Round trips: what is encrypted, archived, exported or written by the wizard is read back; a
    template with escaped dollar signs; demultiplexed log frames; a restored version of a stack.
  \<^item> Safety: which containers and volumes a deployment, a removal or a failed self-deploy may touch;
    when a session is accepted, a login succeeds, a handler runs; what retention removes.  Named volumes
    are told from the anonymous ones, which go with their container.
  \<^item> Invariants and types: the records of every bucket after every sequence of writes; the version
    history; the final phase of a self-deploy, and the order of calls of one that succeeds.
  \<^item> The settings: no reply shows a stored secret of Vault, Keycloak or the registry cache, a save over a
    readable group keeps the secrets that the form does not send, a saved registry cache is valid.  The images of a stack are rewritten once and only where the
    cache applies.  The pool of clients follows the endpoints of the hosts; the host of the server
    itself stays.
  \<^item> Refinement: the state writer, with its ring and its flusher, implements a list of log lines.
  \<^item> Termination: every deployment and every self-deploy ends.
  \<^item> Independence of the orders in which Go iterates over the maps of the wizard, and behaviour on errors.

  \<^bold>\<open>Fuel and bounds\<close>

  A polling loop takes fuel, and running out of it is a result of its own, which no branch of the code
  has; the termination theorems show that it does not occur.  302 turns are enough for the longest
  wait of the engine (300 seconds, one second a turn, and two more), 12 for the check of a start (1.5
  seconds at 150 milliseconds, and two more), and the agent polls every two seconds of the timeout of
  the deploy.  Machine integers are words or carry their wrap-around: permission bitmaps have 64 bits,
  durations are int64 nanoseconds.  Times are as the codec keeps them.

  \<^bold>\<open>What is assumed\<close>

  The laws of the parameters are named hypotheses, and each theorem that has one is applied to a
  concrete instance: boltdb and its BSON codec, the Docker daemon, the system calls, AES-GCM, scrypt
  and SHA-256, JSON, gzip and base64 of the library, the YAML library, the Vault client.

  \<^bold>\<open>Not modelled\<close>

  The handlers of api/, which bind a request and call one operation; the MongoDB storage, whose
  functions are queries in the language of that server; the user interface; process start; the
  OpenID Connect flow; the reads and formatting of Docker objects for the interface.  EventPrune and
  SessionPrune delete entries inside a boltdb iteration, where boltdb leaves undefined which entries are
  visited: they are steps of StorageTypes that delete any of the old records.  Concurrent operations are modelled as interleavings of whole operations.
\<close>

end
